(* ===== verification/Dis_Core.thy ===== *)
theory Dis_Core
  imports Dis_Prelude "HOL-Library.Word"
begin

text \<open>
  The shared vocabulary of \<open>libs/dis-core\<close>: the exception hierarchy of \<open>errors.py\<close>, UUIDs
  and their text form, timezone-aware datetimes and the UTC normalisation of
  \<open>timestamps.py\<close>.

  \<^item> An exception value is its class and the attributes its constructor stores; the text of
    its message is not modelled. Python's own exception classes that the modelled code can
    meet are classes too.
  \<^item> A UUID is its 128-bit integer, as in Python's \<open>uuid\<close> module.
  \<^item> A datetime is a count of microseconds since 0001-01-01T00:00:00 on its own wall clock,
    with its UTC offset in microseconds (\<open>None\<close> for a naive datetime).
\<close>

section \<open>The exception hierarchy\<close>

datatype exc_class =
    DisError
  | IdentityClientError | IdentityNotFoundError | IdentityServiceUnavailableError
  | RlsContextError | PiiBackendNotConfiguredError | StorageError
  | AuditWriteError | QuarantineWriteError
  | MappingError | MappingConfigError | InvalidTemplateTypeError | MappingInputError
  | ValidationSuiteError | SuiteDefinitionError | SuiteDriftError
  | EnrichmentError | HotPositionMissingError | SinkResolutionError
  | MirrorSyncError | CustomerMasterReadError
  | CsvIngestError | EventContractError | EventPathMismatchError | PreflightFailedError
  | AuthTokenError | TenantScopeError | OpsRoleRequiredError | SuperAdminRequiredError
  | DraftNotRatifiedError | DraftStateConflictError
  | ResourceNotFoundError | MappingTemplateNameConflictError | MappingStateConflictError
  | FieldCatalogDriftError
  | PayloadTooLargeError | UploadRequestError | UploadStructureError
  | StoreStateConflictError | EventPublishError
  | CmPermissionsClientError | CmPermissionsUnavailableError
  | NaiveDatetimeError | TraceIdNotSetError
  | PyException | PyValueError | PyTypeError | PyKeyError | PyOverflowError
  | PyAssertionError | PyForeign string

text \<open>
  The base class each class names in its definition; \<open>PyForeign\<close> is any class of a library
  outside the repository, a direct child of \<open>Exception\<close> as far as DIS code can tell.
\<close>

fun exc_base :: "exc_class \<Rightarrow> exc_class option" where
  "exc_base DisError = Some PyException"
| "exc_base IdentityNotFoundError = Some IdentityClientError"
| "exc_base IdentityServiceUnavailableError = Some IdentityClientError"
| "exc_base MappingConfigError = Some MappingError"
| "exc_base InvalidTemplateTypeError = Some MappingError"
| "exc_base MappingInputError = Some MappingError"
| "exc_base SuiteDefinitionError = Some ValidationSuiteError"
| "exc_base SuiteDriftError = Some ValidationSuiteError"
| "exc_base CustomerMasterReadError = Some MirrorSyncError"
| "exc_base EventContractError = Some CsvIngestError"
| "exc_base EventPathMismatchError = Some CsvIngestError"
| "exc_base PreflightFailedError = Some CsvIngestError"
| "exc_base CmPermissionsUnavailableError = Some CmPermissionsClientError"
| "exc_base PyException = None"
| "exc_base PyValueError = Some PyException"
| "exc_base PyTypeError = Some PyException"
| "exc_base PyKeyError = Some PyException"
| "exc_base PyOverflowError = Some PyException"
| "exc_base PyAssertionError = Some PyException"
| "exc_base (PyForeign s) = Some PyException"
| "exc_base _ = Some DisError"

text \<open>\<open>isinstance\<close>: walk the bases. Every chain of the hierarchy has at most four classes.\<close>

fun isinstance_fuel :: "nat \<Rightarrow> exc_class \<Rightarrow> exc_class \<Rightarrow> bool" where
  "isinstance_fuel 0 c d = (c = d)"
| "isinstance_fuel (Suc n) c d =
     (c = d \<or> (case exc_base c of None \<Rightarrow> False | Some b \<Rightarrow> isinstance_fuel n b d))"

definition is_instance :: "exc_class \<Rightarrow> exc_class \<Rightarrow> bool" where
  "is_instance c d = isinstance_fuel 4 c d"

text \<open>Four steps are enough: the fourth base of every class is absent.\<close>

fun exc_depth :: "exc_class \<Rightarrow> nat" where
  "exc_depth PyException = 0"
| "exc_depth DisError = 1"
| "exc_depth PyValueError = 1"
| "exc_depth PyTypeError = 1"
| "exc_depth PyKeyError = 1"
| "exc_depth PyOverflowError = 1"
| "exc_depth PyAssertionError = 1"
| "exc_depth (PyForeign s) = 1"
| "exc_depth IdentityNotFoundError = 3"
| "exc_depth IdentityServiceUnavailableError = 3"
| "exc_depth MappingConfigError = 3"
| "exc_depth InvalidTemplateTypeError = 3"
| "exc_depth MappingInputError = 3"
| "exc_depth SuiteDefinitionError = 3"
| "exc_depth SuiteDriftError = 3"
| "exc_depth CustomerMasterReadError = 3"
| "exc_depth EventContractError = 3"
| "exc_depth EventPathMismatchError = 3"
| "exc_depth PreflightFailedError = 3"
| "exc_depth CmPermissionsUnavailableError = 3"
| "exc_depth _ = 2"

lemma exc_base_depth: "exc_base c = Some b \<Longrightarrow> exc_depth b < exc_depth c"
  by (cases c) auto

lemma exc_depth_le: "exc_depth c \<le> 3"
  by (cases c) auto

text \<open>The subclass_of relation the bounded walk computes.\<close>

inductive subclass_of :: "exc_class \<Rightarrow> exc_class \<Rightarrow> bool" where
  sub_refl: "subclass_of c c"
| sub_step: "exc_base c = Some b \<Longrightarrow> subclass_of b d \<Longrightarrow> subclass_of c d"

inductive_cases subclass_ofE: "subclass_of c d"

lemma isinstance_fuel_iff: "exc_depth c \<le> n \<Longrightarrow> isinstance_fuel n c d \<longleftrightarrow> subclass_of c d"
proof (induction n arbitrary: c)
  case 0
  then have "exc_base c = None" using exc_base_depth [of c] by (cases "exc_base c") auto
  then show ?case by (auto intro: subclass_of.intros elim: subclass_ofE)
next
  case (Suc n)
  show ?case
  proof (cases "exc_base c")
    case None
    then show ?thesis by (auto intro: subclass_of.intros elim: subclass_ofE)
  next
    case (Some b)
    then have "exc_depth b \<le> n" using exc_base_depth [OF Some] Suc.prems by simp
    then have "isinstance_fuel n b d \<longleftrightarrow> subclass_of b d" by (rule Suc.IH)
    with Some show ?thesis by (auto intro: subclass_of.intros elim: subclass_ofE)
  qed
qed

lemma is_instance_iff: "is_instance c d \<longleftrightarrow> subclass_of c d"
  unfolding is_instance_def by (rule isinstance_fuel_iff) (use exc_depth_le [of c] in simp)

section \<open>Exception values\<close>

datatype attr = ANone | AStr string | AInt int | AList "string list"

datatype exn = Exn (exn_class: exc_class) (exn_attrs: "(string, attr) pydict")

definition isinstance :: "exn \<Rightarrow> exc_class \<Rightarrow> bool" where
  "isinstance e c = is_instance (exn_class e) c"

text \<open>\<open>getattr(exc, name, None)\<close>.\<close>

definition getattr_none :: "exn \<Rightarrow> string \<Rightarrow> attr" where
  "getattr_none e name = (case dget (exn_attrs e) name of None \<Rightarrow> ANone | Some a \<Rightarrow> a)"

fun opt_str :: "string option \<Rightarrow> attr" where
  "opt_str None = ANone"
| "opt_str (Some s) = AStr s"

text \<open>The constructors of the error classes, with the attributes each \<open>__init__\<close> stores.\<close>

definition rls_context_error ::
  "string option \<Rightarrow> string option \<Rightarrow> string option \<Rightarrow> exn" where
  "rls_context_error db role tenant =
     Exn RlsContextError [(''database'', opt_str db), (''role'', opt_str role),
       (''tenant_id'', opt_str tenant)]"

definition pii_backend_not_configured_error ::
  "string list \<Rightarrow> string option \<Rightarrow> string option \<Rightarrow> exn" where
  "pii_backend_not_configured_error cols tenant trace =
     Exn PiiBackendNotConfiguredError [(''columns'', AList cols),
       (''tenant_id'', opt_str tenant), (''trace_id'', opt_str trace)]"

definition storage_error :: "string option \<Rightarrow> string option \<Rightarrow> string option \<Rightarrow> exn" where
  "storage_error path tenant trace =
     Exn StorageError [(''object_path'', opt_str path), (''tenant_id'', opt_str tenant),
       (''trace_id'', opt_str trace)]"

definition quarantine_write_error ::
  "string option \<Rightarrow> string option \<Rightarrow> string option \<Rightarrow> exn" where
  "quarantine_write_error tenant trace code =
     Exn QuarantineWriteError [(''tenant_id'', opt_str tenant), (''trace_id'', opt_str trace),
       (''failure_code'', opt_str code)]"

definition mapping_error ::
  "exc_class \<Rightarrow> string option \<Rightarrow> string option \<Rightarrow> string option \<Rightarrow> exn" where
  "mapping_error c col tenant trace =
     Exn c [(''column'', opt_str col), (''tenant_id'', opt_str tenant),
       (''trace_id'', opt_str trace)]"

abbreviation mapping_config_error :: "string option \<Rightarrow> exn" where
  "mapping_config_error col \<equiv> mapping_error MappingConfigError col None None"

abbreviation mapping_input_error :: "string option \<Rightarrow> exn" where
  "mapping_input_error col \<equiv> mapping_error MappingInputError col None None"

definition validation_suite_error ::
  "exc_class \<Rightarrow> string option \<Rightarrow> string option \<Rightarrow> exn" where
  "validation_suite_error c model col =
     Exn c [(''model'', opt_str model), (''column'', opt_str col), (''tenant_id'', ANone),
       (''trace_id'', ANone)]"

abbreviation suite_definition_error :: "string option \<Rightarrow> string option \<Rightarrow> exn" where
  "suite_definition_error \<equiv> validation_suite_error SuiteDefinitionError"

abbreviation suite_drift_error :: "string option \<Rightarrow> string option \<Rightarrow> exn" where
  "suite_drift_error \<equiv> validation_suite_error SuiteDriftError"

definition enrichment_error :: "string option \<Rightarrow> string option \<Rightarrow> string option \<Rightarrow> exn" where
  "enrichment_error table tenant trace =
     Exn EnrichmentError [(''table'', opt_str table), (''tenant_id'', opt_str tenant),
       (''trace_id'', opt_str trace)]"

definition hot_position_missing_error ::
  "string option \<Rightarrow> string option \<Rightarrow> int \<Rightarrow> nat \<Rightarrow> exn" where
  "hot_position_missing_error tenant trace mv n =
     Exn HotPositionMissingError [(''tenant_id'', opt_str tenant), (''trace_id'', opt_str trace),
       (''mapping_version_id'', AInt mv), (''miss_count'', AInt (int n))]"

definition sink_resolution_error :: "string option \<Rightarrow> string option \<Rightarrow> exn" where
  "sink_resolution_error vertical ttype =
     Exn SinkResolutionError [(''vertical'', opt_str vertical), (''template_type'', opt_str ttype)]"

definition event_contract_error ::
  "string option \<Rightarrow> string option \<Rightarrow> string option \<Rightarrow> exn" where
  "event_contract_error fld tenant trace =
     Exn EventContractError [(''field'', opt_str fld), (''tenant_id'', opt_str tenant),
       (''trace_id'', opt_str trace)]"

definition event_path_mismatch_error ::
  "string option \<Rightarrow> string option \<Rightarrow> string option \<Rightarrow> string option \<Rightarrow> string option \<Rightarrow> exn" where
  "event_path_mismatch_error fld ev pv tenant trace =
     Exn EventPathMismatchError [(''field'', opt_str fld), (''event_value'', opt_str ev),
       (''path_value'', opt_str pv), (''tenant_id'', opt_str tenant), (''trace_id'', opt_str trace)]"

definition py_exn :: "exc_class \<Rightarrow> exn" where
  "py_exn c = Exn c []"

lemmas exn_defs = rls_context_error_def pii_backend_not_configured_error_def storage_error_def
  quarantine_write_error_def mapping_error_def validation_suite_error_def enrichment_error_def
  hot_position_missing_error_def sink_resolution_error_def event_contract_error_def
  event_path_mismatch_error_def py_exn_def

section \<open>UUIDs\<close>

type_synonym uuid = "128 word"

definition hex_digit :: "nat \<Rightarrow> char" where
  "hex_digit n = char_of (if n < 10 then 48 + n else 87 + n)"

definition hex_val :: "char \<Rightarrow> nat option" where
  "hex_val c = (let n = of_char c :: nat in
     if 48 \<le> n \<and> n \<le> 57 then Some (n - 48)
     else if 97 \<le> n \<and> n \<le> 102 then Some (n - 87)
     else if 65 \<le> n \<and> n \<le> 70 then Some (n - 55)
     else None)"

fun hex_digits :: "nat \<Rightarrow> nat \<Rightarrow> string" where
  "hex_digits 0 n = []"
| "hex_digits (Suc k) n = hex_digits k (n div 16) @ [hex_digit (n mod 16)]"

text \<open>\<open>str(uuid)\<close>: lowercase hexadecimal in groups 8-4-4-4-12.\<close>

definition dashed :: "string \<Rightarrow> string" where
  "dashed h = take 8 h @ ''-'' @ take 4 (drop 8 h) @ ''-'' @ take 4 (drop 12 h) @ ''-'' @
     take 4 (drop 16 h) @ ''-'' @ drop 20 h"

definition uuid_str :: "uuid \<Rightarrow> string" where
  "uuid_str u = dashed (hex_digits 32 (unat u))"

text \<open>\<open>int(s, 16)\<close> on a text without a minus sign.\<close>

fun hex_run :: "nat \<Rightarrow> string \<Rightarrow> nat option" where
  "hex_run acc [] = Some acc"
| "hex_run acc (c # cs) =
     (if c = CHR ''_''
      then (case cs of [] \<Rightarrow> None
            | d # ds \<Rightarrow> (case hex_val d of None \<Rightarrow> None | Some v \<Rightarrow> hex_run (16 * acc + v) ds))
      else (case hex_val c of None \<Rightarrow> None | Some v \<Rightarrow> hex_run (16 * acc + v) cs))"

fun hex_start :: "string \<Rightarrow> nat option" where
  "hex_start [] = None"
| "hex_start (c # cs) = (case hex_val c of None \<Rightarrow> None | Some v \<Rightarrow> hex_run v cs)"

definition hex_prefix :: "string \<Rightarrow> string" where
  "hex_prefix s = (case s of
       z # x # rest \<Rightarrow>
         if z = CHR ''0'' \<and> (x = CHR ''x'' \<or> x = CHR ''X'')
         then (case rest of u # r' \<Rightarrow> if u = CHR ''_'' then r' else rest | [] \<Rightarrow> rest)
         else s
     | _ \<Rightarrow> s)"

definition py_int16 :: "string \<Rightarrow> nat option" where
  "py_int16 s = (let t = py_strip s;
      t' = (case t of c # cs \<Rightarrow> if c = CHR ''+'' then cs else t | [] \<Rightarrow> t)
    in hex_start (hex_prefix t'))"

text \<open>\<open>s.replace(old, '')\<close> for a non-empty \<open>old\<close>, left to right, not overlapping.\<close>

function remove_str :: "string \<Rightarrow> string \<Rightarrow> string" where
  "remove_str old [] = []"
| "remove_str old (c # cs) =
     (if old \<noteq> [] \<and> starts_with old (c # cs)
      then remove_str old (drop (length old - 1) cs)
      else c # remove_str old cs)"
  by pat_completeness auto
termination
  by (relation "measure (\<lambda>(old, s). length s)") auto

definition strip_braces :: "string \<Rightarrow> string" where
  "strip_braces s = (let b = (\<lambda>c. c = CHR ''{'' \<or> c = CHR ''}'')
     in rev (dropWhile b (rev (dropWhile b s))))"

text \<open>\<open>UUID(text)\<close>; \<open>None\<close> is the \<open>ValueError\<close>.\<close>

definition uuid_of :: "string \<Rightarrow> uuid option" where
  "uuid_of s =
    (let h = filter (\<lambda>c. c \<noteq> CHR ''-'')
               (strip_braces (remove_str ''uuid:'' (remove_str ''urn:'' s)))
     in if length h \<noteq> 32 then None else map_option of_nat (py_int16 h))"

subsection \<open>The text form round-trips\<close>

lemma hex_val_digit: "n < 16 \<Longrightarrow> hex_val (hex_digit n) = Some n"
  by (auto simp: hex_val_def hex_digit_def Let_def)

lemma length_hex_digits [simp]: "length (hex_digits k n) = k"
  by (induction k arbitrary: n) auto

definition is_hexl :: "char \<Rightarrow> bool" where
  "is_hexl c \<longleftrightarrow> (\<exists>n < 16. c = hex_digit n)"

lemma hexl_digit_mod [simp]: "is_hexl (hex_digit (n mod 16))"
  unfolding is_hexl_def by (rule exI [of _ "n mod 16"]) simp

lemma hex_digits_hexl: "c \<in> set (hex_digits k n) \<Longrightarrow> is_hexl c"
  by (induction k arbitrary: n) auto

lemma is_hexl_code: "is_hexl c \<Longrightarrow> let m = of_char c :: nat in (48 \<le> m \<and> m \<le> 57) \<or> (97 \<le> m \<and> m \<le> 102)"
  by (auto simp: is_hexl_def hex_digit_def Let_def split: if_splits)

lemma is_hexl_neq:
  assumes "is_hexl c"
  shows "c \<noteq> CHR ''-''" "c \<noteq> CHR '':''" "c \<noteq> CHR ''_''" "c \<noteq> CHR ''x''" "c \<noteq> CHR ''X''"
    "c \<noteq> CHR ''+''" "c \<noteq> CHR ''{''" "c \<noteq> CHR ''}''" "c \<noteq> CHR ''/''" "\<not> is_space c"
  using is_hexl_code [OF assms] by (auto simp: Let_def is_space_def)

lemma not_hexl [simp]:
  "\<not> is_hexl (CHR ''-'')" "\<not> is_hexl (CHR '':'')" "\<not> is_hexl (CHR ''{'')" "\<not> is_hexl (CHR ''}'')"
  "\<not> is_hexl (CHR ''/'')"
  using is_hexl_neq by blast+

lemma hex_run_append:
  "(\<And>c. c \<in> set s \<Longrightarrow> is_hexl c) \<Longrightarrow>
   hex_run acc (s @ [c]) = (case hex_run acc s of None \<Rightarrow> None | Some a \<Rightarrow> hex_run a [c])"
proof (induction s arbitrary: acc)
  case Nil
  then show ?case by simp
next
  case (Cons d s)
  then have "d \<noteq> CHR ''_''" using is_hexl_neq [of d] by simp
  moreover have "hex_run a (s @ [c]) = (case hex_run a s of None \<Rightarrow> None | Some a \<Rightarrow> hex_run a [c])" for a
    using Cons by simp
  ultimately show ?case
    by (cases "hex_val d") (simp_all del: hex_run.simps(2) add: hex_run.simps(2) [of _ d])
qed

lemma hex_run_digits: "hex_run acc (hex_digits k n) = Some (acc * 16 ^ k + n mod 16 ^ k)"
proof (induction k arbitrary: acc n)
  case 0
  then show ?case by simp
next
  case (Suc k)
  have "is_hexl (hex_digit (n mod 16))" by simp
  then have us: "hex_digit (n mod 16) \<noteq> CHR ''_''" by (rule is_hexl_neq)
  have arith: "n mod 16 ^ Suc k = 16 * (n div 16 mod 16 ^ k) + n mod 16"
    by (simp add: mod_mult2_eq)
  show ?case
    unfolding arith using us hex_digits_hexl
    by (simp add: hex_run_append Suc.IH hex_val_digit algebra_simps)
qed

lemma hex_start_digits: "hex_start (hex_digits (Suc k) n) = Some (n mod 16 ^ Suc k)"
proof -
  obtain c cs where cc: "hex_digits (Suc k) n = c # cs"
    by (metis length_hex_digits length_Suc_conv)
  then have hc: "is_hexl c" using hex_digits_hexl [of c "Suc k" n] by simp
  then obtain m where m: "m < 16" "c = hex_digit m" by (auto simp: is_hexl_def)
  have "hex_start (c # cs) = hex_run 0 (c # cs)"
    using is_hexl_neq [OF hc] m by (simp add: hex_val_digit)
  also have "\<dots> = Some (0 * 16 ^ Suc k + n mod 16 ^ Suc k)"
    unfolding cc [symmetric] by (rule hex_run_digits)
  finally show ?thesis using cc by simp
qed

lemma remove_str_no_colon: "CHR '':'' \<in> set old \<Longrightarrow> CHR '':'' \<notin> set s \<Longrightarrow> remove_str old s = s"
proof (induction s)
  case (Cons c cs)
  have "\<not> starts_with old (c # cs)"
  proof
    assume "starts_with old (c # cs)"
    then obtain t where "c # cs = old @ t" by (auto simp: starts_with_iff)
    then have "set old \<subseteq> set (c # cs)" by simp
    with Cons.prems show False by blast
  qed
  with Cons show ?case by simp
qed simp

lemma filter_dashed:
  "length h = 32 \<Longrightarrow> (\<And>c. c \<in> set h \<Longrightarrow> is_hexl c) \<Longrightarrow> filter (\<lambda>c. c \<noteq> CHR ''-'') (dashed h) = h"
proof -
  assume len: "length h = 32" and hx: "\<And>c. c \<in> set h \<Longrightarrow> is_hexl c"
  have keep: "filter (\<lambda>c. c \<noteq> CHR ''-'') xs = xs" if "set xs \<subseteq> set h" for xs
    using that hx is_hexl_neq(1) by (intro filter_True) auto
  have sub: "set (take k (drop j h)) \<subseteq> set h" "set (take k h) \<subseteq> set h" "set (drop j h) \<subseteq> set h" for k j
    by (auto dest: in_set_takeD in_set_dropD)
  have "h = take 8 h @ drop 8 h" by simp
  also have "drop 8 h = take 4 (drop 8 h) @ drop 12 h"
    using append_take_drop_id [of 4 "drop 8 h"] by simp
  also have "drop 12 h = take 4 (drop 12 h) @ drop 16 h"
    using append_take_drop_id [of 4 "drop 12 h"] by simp
  also have "drop 16 h = take 4 (drop 16 h) @ drop 20 h"
    using append_take_drop_id [of 4 "drop 16 h"] by simp
  finally have eq: "h = take 8 h @ take 4 (drop 8 h) @ take 4 (drop 12 h) @ take 4 (drop 16 h) @ drop 20 h"
    by simp
  show ?thesis
    using eq by (simp add: dashed_def keep sub)
qed

lemma set_dashed: "set (dashed h) \<subseteq> insert CHR ''-'' (set h)"
  by (auto simp: dashed_def dest: in_set_takeD in_set_dropD)

lemma uuid_str_chars: "c \<in> set (uuid_str u) \<Longrightarrow> c = CHR ''-'' \<or> is_hexl c"
  unfolding uuid_str_def using set_dashed hex_digits_hexl by blast

lemma strip_braces_id: "(\<And>c. c \<in> set s \<Longrightarrow> c \<noteq> CHR ''{'' \<and> c \<noteq> CHR ''}'') \<Longrightarrow> strip_braces s = s"
proof -
  assume a: "\<And>c. c \<in> set s \<Longrightarrow> c \<noteq> CHR ''{'' \<and> c \<noteq> CHR ''}''"
  have nb: "dropWhile b xs = xs" if "\<And>c. c \<in> set xs \<Longrightarrow> \<not> b c" for b :: "char \<Rightarrow> bool" and xs
    using that by (cases xs) auto
  let ?b = "\<lambda>c. c = CHR ''{'' \<or> c = CHR ''}''"
  have "dropWhile ?b s = s" by (rule nb) (use a in blast)
  moreover have "dropWhile ?b (rev s) = rev s" by (rule nb) (use a in auto)
  ultimately show ?thesis by (simp add: strip_braces_def Let_def)
qed

lemma py_int16_digits: "py_int16 (hex_digits 32 n) = Some (n mod 16 ^ 32)"
proof -
  let ?h = "hex_digits 32 n"
  have hx: "is_hexl c" if "c \<in> set ?h" for c using hex_digits_hexl that by blast
  have "length ?h = 32" by simp
  then have "length ?h = Suc (Suc 30)" by simp
  then obtain c d e where h: "?h = c # d # e" by (metis length_Suc_conv)
  have "\<not> is_space (hd ?h)" "\<not> is_space (last ?h)"
    using hx [THEN is_hexl_neq(10)] h by (auto simp: last_in_set)
  then have st: "py_strip ?h = ?h" using h by (intro py_strip_id) auto
  have pl: "c \<noteq> CHR ''+''" "d \<noteq> CHR ''x''" "d \<noteq> CHR ''X''"
    using hx h is_hexl_neq by auto
  have "py_int16 ?h = hex_start ?h"
    using st pl h by (simp add: py_int16_def hex_prefix_def Let_def)
  moreover have "(32::nat) = Suc 31" by simp
  ultimately show ?thesis using hex_start_digits [of 31 n] by metis
qed

lemma uuid_of_str: "uuid_of (uuid_str u) = Some u"
proof -
  have ch: "c = CHR ''-'' \<or> is_hexl c" if "c \<in> set (uuid_str u)" for c
    using uuid_str_chars that by blast
  have nc: "CHR '':'' \<notin> set (uuid_str u)" using ch [of "CHR '':''"] by auto
  have nb: "c \<noteq> CHR ''{'' \<and> c \<noteq> CHR ''}''" if "c \<in> set (uuid_str u)" for c
    using ch [OF that] by auto
  have fl: "filter (\<lambda>c. c \<noteq> CHR ''-'') (uuid_str u) = hex_digits 32 (unat u)"
    unfolding uuid_str_def by (rule filter_dashed) (auto dest: hex_digits_hexl)
  have lt: "unat u < 16 ^ 32" using unsigned_less [of u, where ?'a = nat] by simp
  show ?thesis
    using lt by (simp add: uuid_of_def remove_str_no_colon nc strip_braces_id nb fl py_int16_digits)
qed

interpretation uuid_text: codec uuid_str uuid_of "\<lambda>_. True"
  by unfold_locales (rule uuid_of_str)

lemma uuid_str_eq_iff [simp]: "uuid_str u = uuid_str v \<longleftrightarrow> u = v"
  using uuid_text.enc_inj by blast

section \<open>Datetimes\<close>

datatype pydatetime = PyDatetime (dt_wall: int) (dt_offset: "int option")

definition us_per_day :: int where
  "us_per_day = 86400000000"

text \<open>The last representable day is 9999-12-31, ordinal 3652059.\<close>

definition dt_in_range :: "int \<Rightarrow> bool" where
  "dt_in_range w \<longleftrightarrow> 0 \<le> w \<and> w < 3652059 * us_per_day"

definition ensure_utc :: "pydatetime \<Rightarrow> (exn, pydatetime) result" where
  "ensure_utc dt = (case dt_offset dt of
       None \<Rightarrow> Inl (py_exn NaiveDatetimeError)
     | Some off \<Rightarrow>
         if dt_in_range (dt_wall dt - off) then Inr (PyDatetime (dt_wall dt - off) (Some 0))
         else Inl (py_exn PyOverflowError))"

text \<open>
  Calendar fields of the wall clock: \<open>ord2ymd\<close> follows the proleptic Gregorian calendar by
  cycles of 400, 100, 4 and 1 years, then the months of the year.
\<close>

definition is_leap :: "int \<Rightarrow> bool" where
  "is_leap y \<longleftrightarrow> y mod 4 = 0 \<and> (y mod 100 \<noteq> 0 \<or> y mod 400 = 0)"

definition month_lengths :: "bool \<Rightarrow> int list" where
  "month_lengths leap = [31, if leap then 29 else 28, 31, 30, 31, 30, 31, 31, 30, 31, 30, 31]"

fun month_day :: "nat \<Rightarrow> int \<Rightarrow> int list \<Rightarrow> nat \<times> int" where
  "month_day m n [] = (m, n)"
| "month_day m n [l] = (m, n)"
| "month_day m n (l # l' # ls) = (if n < l then (m, n) else month_day (Suc m) (n - l) (l' # ls))"

definition ord2ymd :: "int \<Rightarrow> int \<times> nat \<times> int" where
  "ord2ymd ord = (let n = ord - 1;
      n400 = n div 146097; r400 = n mod 146097;
      n100 = r400 div 36524; r100 = r400 mod 36524;
      n4 = r100 div 1461; r4 = r100 mod 1461;
      n1 = r4 div 365; r1 = r4 mod 365;
      year = n400 * 400 + 1 + n100 * 100 + n4 * 4 + n1
    in if n1 = 4 \<or> n100 = 4 then (year - 1, 12, 31)
       else let (m, d) = month_day 1 r1 (month_lengths (is_leap year)) in (year, m, d + 1))"

definition dt_ymd :: "pydatetime \<Rightarrow> int \<times> nat \<times> int" where
  "dt_ymd dt = ord2ymd (dt_wall dt div us_per_day + 1)"

abbreviation dt_year :: "pydatetime \<Rightarrow> int" where "dt_year dt \<equiv> fst (dt_ymd dt)"
abbreviation dt_month :: "pydatetime \<Rightarrow> nat" where "dt_month dt \<equiv> fst (snd (dt_ymd dt))"
abbreviation dt_day :: "pydatetime \<Rightarrow> int" where "dt_day dt \<equiv> snd (snd (dt_ymd dt))"

lemma ensure_utc_offset: "ensure_utc dt = Inr dt' \<Longrightarrow> dt_offset dt' = Some 0 \<and> dt_in_range (dt_wall dt')"
  by (auto simp: ensure_utc_def split: option.splits if_splits)

text \<open>An aware datetime denotes an instant; normalising to UTC keeps it.\<close>

definition dt_instant :: "pydatetime \<Rightarrow> int option" where
  "dt_instant dt = (case dt_offset dt of None \<Rightarrow> None | Some off \<Rightarrow> Some (dt_wall dt - off))"

lemma ensure_utc_instant: "ensure_utc dt = Inr dt' \<Longrightarrow> dt_instant dt' = dt_instant dt"
  by (auto simp: ensure_utc_def dt_instant_def split: option.splits if_splits)

lemma ensure_utc_idem: "ensure_utc dt = Inr dt' \<Longrightarrow> ensure_utc dt' = Inr dt'"
  by (auto simp: ensure_utc_def split: option.splits if_splits)

lemma month_day_bounds:
  "ls \<noteq> [] \<Longrightarrow> 0 \<le> n \<Longrightarrow> (\<forall>l \<in> set ls. l \<le> 31) \<Longrightarrow> n < sum_list ls \<Longrightarrow>
   m \<le> fst (month_day m n ls) \<and> fst (month_day m n ls) < m + length ls \<and>
   0 \<le> snd (month_day m n ls) \<and> snd (month_day m n ls) < 31"
proof (induction m n ls rule: month_day.induct)
  case (3 m n l l' ls)
  show ?case
  proof (cases "n < l")
    case True
    with 3 show ?thesis by simp
  next
    case False
    with 3 have "Suc m \<le> fst (month_day (Suc m) (n - l) (l' # ls)) \<and>
       fst (month_day (Suc m) (n - l) (l' # ls)) < Suc m + length (l' # ls) \<and>
       0 \<le> snd (month_day (Suc m) (n - l) (l' # ls)) \<and> snd (month_day (Suc m) (n - l) (l' # ls)) < 31"
      by (intro 3) auto
    with False show ?thesis by simp
  qed
qed auto

lemma ord2ymd_bounds:
  assumes "1 \<le> n" and "n \<le> 3652059"
  shows "1 \<le> fst (ord2ymd n) \<and> fst (ord2ymd n) \<le> 9999 \<and>
         1 \<le> fst (snd (ord2ymd n)) \<and> fst (snd (ord2ymd n)) \<le> 12 \<and>
         1 \<le> snd (snd (ord2ymd n)) \<and> snd (snd (ord2ymd n)) \<le> 31"
proof -
  define a where "a = n - 1"
  define n400 where "n400 = a div 146097"
  define r400 where "r400 = a mod 146097"
  define n100 where "n100 = r400 div 36524"
  define r100 where "r100 = r400 mod 36524"
  define n4 where "n4 = r100 div 1461"
  define r4 where "r4 = r100 mod 1461"
  define n1 where "n1 = r4 div 365"
  define r1 where "r1 = r4 mod 365"
  define y where "y = n400 * 400 + 1 + n100 * 100 + n4 * 4 + n1"
  note defs = a_def n400_def r400_def n100_def r100_def n4_def r4_def n1_def r1_def
  have a: "0 \<le> a" "a \<le> 3652058" using assms by (auto simp: a_def)
  have b400: "0 \<le> n400" "n400 \<le> 24" "0 \<le> r400" "r400 < 146097" "a = n400 * 146097 + r400"
    using a by (auto simp: n400_def r400_def)
  have b100: "0 \<le> n100" "n100 \<le> 4" "0 \<le> r100" "r100 < 36524" "r400 = n100 * 36524 + r100"
    using b400 by (auto simp: n100_def r100_def)
  have b4: "0 \<le> n4" "n4 \<le> 24" "0 \<le> r4" "r4 < 1461" "r100 = n4 * 1461 + r4"
    using b100 by (auto simp: n4_def r4_def)
  have b1: "0 \<le> n1" "n1 \<le> 4" "0 \<le> r1" "r1 < 365" "r4 = n1 * 365 + r1"
    using b4 by (auto simp: n1_def r1_def)
  have o: "ord2ymd n = (if n1 = 4 \<or> n100 = 4 then (y - 1, 12, 31)
      else let (m, d) = month_day 1 r1 (month_lengths (is_leap y)) in (y, m, d + 1))"
    unfolding ord2ymd_def y_def defs Let_def by simp
  have y1: "1 \<le> y" using b400 b100 b4 b1 by (simp add: y_def)
  show ?thesis
  proof (cases "n1 = 4 \<or> n100 = 4")
    case True
    have "2 \<le> y" using True b400 b100 b4 b1 by (auto simp: y_def)
    moreover have "y \<le> 10000" using a b400 b100 b4 b1 by (simp add: y_def)
    ultimately show ?thesis using True o by simp
  next
    case False
    have "y \<le> 9999" using False a b400 b100 b4 b1 by (simp add: y_def)
    moreover have "r1 < sum_list (month_lengths (is_leap y))"
      using b1 by (simp add: month_lengths_def)
    then have "1 \<le> fst (month_day 1 r1 (month_lengths (is_leap y))) \<and>
      fst (month_day 1 r1 (month_lengths (is_leap y))) < 1 + length (month_lengths (is_leap y)) \<and>
      0 \<le> snd (month_day 1 r1 (month_lengths (is_leap y))) \<and>
      snd (month_day 1 r1 (month_lengths (is_leap y))) < 31"
      using b1 by (intro month_day_bounds) (auto simp: month_lengths_def)
    moreover have "length (month_lengths (is_leap y)) = 12" by (simp add: month_lengths_def)
    ultimately show ?thesis
      using o False y1 by (cases "month_day 1 r1 (month_lengths (is_leap y))") (simp add: Let_def)
  qed
qed

lemma dt_ymd_bounds:
  assumes "dt_in_range (dt_wall dt)"
  shows "1 \<le> dt_year dt \<and> dt_year dt \<le> 9999 \<and> 1 \<le> dt_month dt \<and> dt_month dt \<le> 12 \<and>
         1 \<le> dt_day dt \<and> dt_day dt \<le> 31"
proof -
  have "0 \<le> dt_wall dt div us_per_day" using assms
    by (simp add: dt_in_range_def us_per_day_def pos_imp_zdiv_nonneg_iff)
  moreover have "dt_wall dt div us_per_day < 3652059" using assms
    unfolding dt_in_range_def us_per_day_def by linarith
  ultimately show ?thesis unfolding dt_ymd_def by (intro ord2ymd_bounds) auto
qed

end
