(* ===== verification/Py_Values.thy ===== *)
theory Py_Values
  imports Dis_Core
begin

text \<open>
  Python values as they travel through the pipeline: the cells of a data frame, the values
  of a JSON document, the parameters of a SQL statement. One datatype \<open>pyval\<close> covers them, with
  \<open>PyNone\<close> for \<open>None\<close> (a null cell). A float is kept as the text Python prints for it; no
  arithmetic on floats is modelled. The theory also defines \<open>str\<close> and \<open>repr\<close> on these values,
  decimal printing, and \<open>str.upper\<close> on the code points below 256.
\<close>

section \<open>Decimal numbers\<close>

definition dec_digit :: "nat \<Rightarrow> char" where
  "dec_digit n = char_of (48 + n)"

definition dec_val :: "char \<Rightarrow> nat" where
  "dec_val c = of_char c - 48"

fun dec_digits :: "nat \<Rightarrow> nat \<Rightarrow> string" where
  "dec_digits 0 n = []"
| "dec_digits (Suc k) n = dec_digits k (n div 10) @ [dec_digit (n mod 10)]"

fun dec_str :: "nat \<Rightarrow> string" where
  "dec_str n = (if n < 10 then [dec_digit n] else dec_str (n div 10) @ [dec_digit (n mod 10)])"

declare dec_str.simps [simp del]

text \<open>The format specification \<open>:0kd\<close>: at least \<open>k\<close> digits, padded with zeros.\<close>

definition fmt_0d :: "nat \<Rightarrow> nat \<Rightarrow> string" where
  "fmt_0d k n = (if n < 10 ^ k then dec_digits k n else dec_str n)"

definition dec_int :: "string \<Rightarrow> nat" where
  "dec_int s = foldl (\<lambda>a c. 10 * a + dec_val c) 0 s"

lemma dec_digit_code: "n < 10 \<Longrightarrow> of_char (dec_digit n) = (48 + n :: nat)"
  by (simp add: dec_digit_def)

lemma dec_val_digit [simp]: "n < 10 \<Longrightarrow> dec_val (dec_digit n) = n"
  by (simp add: dec_val_def dec_digit_code)

lemma is_digit_dec_digit [simp]: "n < 10 \<Longrightarrow> is_digit (dec_digit n)"
  by (simp add: is_digit_def dec_digit_code)

lemma length_dec_digits [simp]: "length (dec_digits k n) = k"
  by (induction k arbitrary: n) auto

lemma dec_digits_digit: "c \<in> set (dec_digits k n) \<Longrightarrow> is_digit c"
  by (induction k arbitrary: n) auto

lemma list_all_dec_digits [simp]: "list_all is_digit (dec_digits k n)"
  by (auto simp: list_all_iff dest: dec_digits_digit)

lemma dec_int_digits: "dec_int (dec_digits k n) = n mod 10 ^ k"
proof (induction k arbitrary: n)
  case 0
  then show ?case by (simp add: dec_int_def)
next
  case (Suc k)
  have "dec_int (dec_digits (Suc k) n) = 10 * (n div 10 mod 10 ^ k) + n mod 10"
    using Suc.IH [of "n div 10"] by (simp add: dec_int_def)
  also have "\<dots> = n mod 10 ^ Suc k" by (simp add: mod_mult2_eq)
  finally show ?case .
qed


lemma dec_str_inj: "dec_str m = dec_str n \<Longrightarrow> m = n"
proof -
  have val: "dec_int (dec_str n) = n" for n
  proof (induction n rule: dec_str.induct)
    case (1 n)
    show ?case
    proof (cases "n < 10")
      case True
      then show ?thesis by (simp add: dec_str.simps dec_int_def)
    next
      case False
      have "dec_int (dec_str n) = 10 * dec_int (dec_str (n div 10)) + n mod 10"
        using False by (simp add: dec_str.simps [of n] dec_int_def)
      then show ?thesis using 1 [OF False] by simp
    qed
  qed
  show "dec_str m = dec_str n \<Longrightarrow> m = n" by (metis val)
qed

section \<open>Values\<close>

datatype pyval =
    PyNone
  | PyBool bool
  | PyInt int
  | PyFloat string
  | PyDecimal int int
  | PyStr string
  | PyDate int
  | PyDt pydatetime
  | PyUuid uuid
  | PyList "pyval list"
  | PyDict "(string \<times> pyval) list"

text \<open>
  \<open>PyDecimal c e\<close> is \<open>c * 10 ^ e\<close>; \<open>PyDate n\<close> is the date with proleptic Gregorian ordinal
  \<open>n\<close>. The tests \<open>isinstance(v, str)\<close> and so on:
\<close>

fun is_str :: "pyval \<Rightarrow> bool" where
  "is_str (PyStr s) = True"
| "is_str _ = False"

fun is_pybool :: "pyval \<Rightarrow> bool" where
  "is_pybool (PyBool b) = True"
| "is_pybool _ = False"

text \<open>\<open>isinstance(v, str | int | float | bool)\<close>.\<close>

fun is_scalar :: "pyval \<Rightarrow> bool" where
  "is_scalar (PyStr s) = True"
| "is_scalar (PyInt i) = True"
| "is_scalar (PyFloat f) = True"
| "is_scalar (PyBool b) = True"
| "is_scalar _ = False"

fun the_str :: "pyval \<Rightarrow> string" where
  "the_str (PyStr s) = s"
| "the_str _ = []"

lemma is_str_iff: "is_str v \<longleftrightarrow> (\<exists>s. v = PyStr s)"
  by (cases v) auto

section \<open>Printing\<close>

definition int_str :: "int \<Rightarrow> string" where
  "int_str i = (if i < 0 then ''-'' @ dec_str (nat (- i)) else dec_str (nat i))"

definition hex2 :: "nat \<Rightarrow> string" where
  "hex2 n = hex_digits 2 n"

text \<open>
  \<open>repr\<close> of a string: single quotes unless the text has a single and no double quote;
  backslash, quote, newline, carriage return and tab escaped; other unprintable code points
  in hexadecimal.
\<close>

definition repr_char :: "char \<Rightarrow> char \<Rightarrow> string" where
  "repr_char q c = (let n = of_char c :: nat in
     if c = q \<or> n = 92 then [CHR 0x5C, c]
     else if n = 10 then [CHR 0x5C, CHR ''n'']
     else if n = 13 then [CHR 0x5C, CHR ''r'']
     else if n = 9 then [CHR 0x5C, CHR ''t'']
     else if n < 32 \<or> (127 \<le> n \<and> n < 161) \<or> n = 173 then [CHR 0x5C, CHR ''x''] @ hex2 n
     else [c])"

definition repr_str :: "string \<Rightarrow> string" where
  "repr_str s = (let q = (if CHR 0x27 \<in> set s \<and> CHR 0x22 \<notin> set s then CHR 0x22 else CHR 0x27)
     in [q] @ concat (map (repr_char q) s) @ [q])"

text \<open>\<open>repr\<close> of a list of strings.\<close>

definition repr_str_list :: "string list \<Rightarrow> string" where
  "repr_str_list xs = ''['' @ join_str '', '' (map repr_str xs) @ '']''"

definition date_str :: "int \<Rightarrow> string" where
  "date_str n = (let (y, m, d) = ord2ymd n
     in fmt_0d 4 (nat y) @ ''-'' @ fmt_0d 2 m @ ''-'' @ fmt_0d 2 (nat d))"

definition time_str :: "int \<Rightarrow> string" where
  "time_str us = (let s = us div 1000000; f = us mod 1000000
     in fmt_0d 2 (nat (s div 3600)) @ '':'' @ fmt_0d 2 (nat (s div 60 mod 60)) @ '':'' @
        fmt_0d 2 (nat (s mod 60)) @ (if f = 0 then [] else ''.'' @ fmt_0d 6 (nat f)))"

definition offset_str :: "int \<Rightarrow> string" where
  "offset_str off = (let a = \<bar>off\<bar>; s = a div 1000000; f = a mod 1000000
     in (if off < 0 then ''-'' else ''+'') @ fmt_0d 2 (nat (s div 3600)) @ '':'' @
        fmt_0d 2 (nat (s div 60 mod 60)) @
        (if s mod 60 = 0 \<and> f = 0 then [] else '':'' @ fmt_0d 2 (nat (s mod 60)) @
           (if f = 0 then [] else ''.'' @ fmt_0d 6 (nat f))))"

text \<open>\<open>datetime.isoformat(sep)\<close>.\<close>

definition isoformat :: "string \<Rightarrow> pydatetime \<Rightarrow> string" where
  "isoformat sep dt = date_str (dt_wall dt div us_per_day + 1) @ sep @
     time_str (dt_wall dt mod us_per_day) @
     (case dt_offset dt of None \<Rightarrow> [] | Some off \<Rightarrow> offset_str off)"

text \<open>\<open>str(Decimal)\<close>: positional when the exponent is at most 0 and the adjusted exponent at least
  \<open>-6\<close>, scientific otherwise.\<close>

definition decimal_str :: "int \<Rightarrow> int \<Rightarrow> string" where
  "decimal_str c e = (let ds = dec_str (nat \<bar>c\<bar>); n = int (length ds); left = e + n;
       sgn = (if c < 0 then ''-'' else []);
       point = (if e \<le> 0 \<and> left > -6 then left else 1);
       body = (if point \<le> 0 then ''0.'' @ replicate (nat (- point)) (CHR ''0'') @ ds
               else if point \<ge> n then ds @ replicate (nat (point - n)) (CHR ''0'')
               else take (nat point) ds @ ''.'' @ drop (nat point) ds);
       ex = (if left = point then []
             else ''E'' @ (if left - point < 0 then [] else ''+'') @ int_str (left - point))
     in sgn @ body @ ex)"

text \<open>\<open>str(v)\<close> of the scalar values; the text of a container is never taken by the modelled code.\<close>

fun py_str :: "pyval \<Rightarrow> string" where
  "py_str PyNone = ''None''"
| "py_str (PyBool b) = (if b then ''True'' else ''False'')"
| "py_str (PyInt i) = int_str i"
| "py_str (PyFloat t) = t"
| "py_str (PyDecimal c e) = decimal_str c e"
| "py_str (PyStr s) = s"
| "py_str (PyDate n) = date_str n"
| "py_str (PyDt dt) = isoformat '' '' dt"
| "py_str (PyUuid u) = uuid_str u"
| "py_str (PyList xs) = []"
| "py_str (PyDict d) = []"

section \<open>Upper case\<close>

text \<open>
  \<open>str.upper\<close>: the sharp s becomes two letters; the micro sign and y with diaeresis, whose
  capitals lie above code point 255 and are the capital of no other modelled character, stay.
\<close>

definition upper_char :: "char \<Rightarrow> string" where
  "upper_char c = (let n = of_char c :: nat in
     if (97 \<le> n \<and> n \<le> 122) \<or> (224 \<le> n \<and> n \<le> 254 \<and> n \<noteq> 247) then [char_of (n - 32)]
     else if n = 223 then ''SS'' else [c])"

definition py_upper :: "string \<Rightarrow> string" where
  "py_upper s = concat (map upper_char s)"

section \<open>Rows\<close>

text \<open>A row as the code carries it: a dictionary from column names to values.\<close>

type_synonym payload = "(string, pyval) pydict"

text \<open>\<open>d.get(k)\<close> and \<open>d[k]\<close>.\<close>

definition pget :: "payload \<Rightarrow> string \<Rightarrow> pyval" where
  "pget d k = (case dget d k of None \<Rightarrow> PyNone | Some v \<Rightarrow> v)"

definition pitem :: "payload \<Rightarrow> string \<Rightarrow> (exn, pyval) result" where
  "pitem d k = (case dget d k of None \<Rightarrow> Inl (py_exn PyKeyError) | Some v \<Rightarrow> Inr v)"

end
