(* ===== verification/Object_Paths.thy ===== *)
theory Object_Paths
  imports Py_Values
begin

text \<open>
  The canonical object-path scheme of \<open>libs/dis-storage/src/dis_storage/paths.py\<close>:
  building a path, parsing one, and splitting a \<open>gs://\<close> URI. The two regular expressions
  are written as the recognisers they denote: no group of the path expression can contain a
  slash, so the match is a split at slashes followed by a check of each segment.
\<close>

section \<open>Splitting at a separator\<close>

fun split_on :: "char \<Rightarrow> string \<Rightarrow> string list" where
  "split_on sep [] = [[]]"
| "split_on sep (c # cs) =
     (if c = sep then [] # split_on sep cs
      else (case split_on sep cs of [] \<Rightarrow> [[c]] | w # ws \<Rightarrow> (c # w) # ws))"

lemma split_on_nonempty [simp]: "split_on sep s \<noteq> []"
  by (induction s) (auto split: list.splits)

lemma split_on_no_sep: "sep \<notin> set s \<Longrightarrow> split_on sep s = [s]"
  by (induction s) auto

lemma split_on_append: "sep \<notin> set s \<Longrightarrow> split_on sep (s @ sep # t) = s # split_on sep t"
  by (induction s) (auto split: list.splits)

lemma length_split_on: "length (split_on sep s) = Suc (count_list s sep)"
proof (induction s)
  case (Cons c s)
  then show ?case by (cases "split_on sep s") auto
qed simp

text \<open>\<open>s.rpartition(sep)\<close>: split at the last separator; \<open>None\<close> when there is none.\<close>

definition rpartition :: "char \<Rightarrow> string \<Rightarrow> (string \<times> string) option" where
  "rpartition sep s =
     (case dropWhile (\<lambda>c. c \<noteq> sep) (rev s) of
        [] \<Rightarrow> None
      | _ # r \<Rightarrow> Some (rev r, rev (takeWhile (\<lambda>c. c \<noteq> sep) (rev s))))"

lemma rpartition_append: "sep \<notin> set t \<Longrightarrow> rpartition sep (s @ sep # t) = Some (s, t)"
proof -
  assume t: "sep \<notin> set t"
  have "takeWhile (\<lambda>c. c \<noteq> sep) (w @ sep # z) = w \<and> dropWhile (\<lambda>c. c \<noteq> sep) (w @ sep # z) = sep # z"
    if "sep \<notin> set w" for w z using that by (induction w) auto
  from this [of "rev t" "rev s"] t show ?thesis by (simp add: rpartition_def)
qed

section \<open>The path scheme\<close>

record parsed_object_path =
  pop_tenant_id :: uuid
  pop_source_id :: string
  pop_year :: nat
  pop_month :: nat
  pop_day :: nat
  pop_trace_id :: string
  pop_ext :: string

definition is_lhex :: "char \<Rightarrow> bool" where
  "is_lhex c \<longleftrightarrow> (let n = of_char c :: nat in (48 \<le> n \<and> n \<le> 57) \<or> (97 \<le> n \<and> n \<le> 102))"

text \<open>The tenant group: lowercase hexadecimal 8-4-4-4-12.\<close>

definition is_uuid_segment :: "string \<Rightarrow> bool" where
  "is_uuid_segment s \<longleftrightarrow> map length (split_on (CHR ''-'') s) = [8, 4, 4, 4, 12] \<and>
     list_all (list_all is_lhex) (split_on (CHR ''-'') s)"

text \<open>The groups \<open>yyyy=\<close>, \<open>mm=\<close> and \<open>dd=\<close>: the digits after the prefix, \<open>k\<close> of them.\<close>

definition digits_after :: "string \<Rightarrow> nat \<Rightarrow> string \<Rightarrow> string option" where
  "digits_after pre k s =
     (let d = drop (length pre) s
      in if starts_with pre s \<and> length d = k \<and> list_all is_digit d then Some d else None)"

definition path_match ::
  "string \<Rightarrow> (string \<times> string \<times> string \<times> string \<times> string \<times> string) option" where
  "path_match s = (case split_on (CHR ''/'') s of
      [t, u, so, src, y, m, d, f] \<Rightarrow>
        if t = ''tenant'' \<and> is_uuid_segment u \<and> so = ''source'' \<and> src \<noteq> [] \<and> f \<noteq> []
        then (case (digits_after ''yyyy='' 4 y, digits_after ''mm='' 2 m, digits_after ''dd='' 2 d) of
               (Some yy, Some mm, Some dd) \<Rightarrow> Some (u, src, yy, mm, dd, f)
             | _ \<Rightarrow> None)
        else None
    | _ \<Rightarrow> None)"

definition coerce_tenant_uuid :: "string \<Rightarrow> string option \<Rightarrow> (exn, string) result" where
  "coerce_tenant_uuid raw trace = (case uuid_of raw of
      None \<Rightarrow> Inl (storage_error None (Some raw) trace)
    | Some u \<Rightarrow> Inr (uuid_str u))"

text \<open>Python's \<open>x or None\<close> on a string.\<close>

definition or_none :: "string \<Rightarrow> string option" where
  "or_none s = (if s = [] then None else Some s)"

definition build_object_path ::
  "string \<Rightarrow> string \<Rightarrow> string \<Rightarrow> pydatetime \<Rightarrow> string \<Rightarrow> (exn, string) result" where
  "build_object_path tenant_id source_id trace_id event_ts ext =
    (let tid_raw = py_strip tenant_id;
         sid = py_strip source_id;
         trace = py_strip trace_id;
         extension = py_lstrip_char (CHR ''.'') (py_strip ext);
         missing = [tid_raw, sid, trace, extension]
     in if list_ex (\<lambda>v. v = []) missing
        then Inl (storage_error None (or_none tid_raw) (or_none trace))
        else rbind (coerce_tenant_uuid tid_raw (Some trace)) (\<lambda>tid.
             rbind (ensure_utc event_ts) (\<lambda>ts.
             Inr (''tenant/'' @ tid @ ''/source/'' @ sid
                  @ ''/yyyy='' @ fmt_0d 4 (nat (dt_year ts))
                  @ ''/mm='' @ fmt_0d 2 (dt_month ts)
                  @ ''/dd='' @ fmt_0d 2 (nat (dt_day ts))
                  @ ''/'' @ trace @ ''.'' @ extension))))"

definition parse_object_path :: "string \<Rightarrow> (exn, parsed_object_path) result" where
  "parse_object_path path =
    (let candidate = py_strip path in
     if starts_with ''gs://'' candidate then Inl (storage_error None None None)
     else (case path_match candidate of
         None \<Rightarrow> Inl (storage_error None None None)
       | Some (u, src, yy, mm, dd, filename) \<Rightarrow>
           (case rpartition (CHR ''.'') filename of
              None \<Rightarrow> Inl (storage_error None None None)
            | Some (trace, extension) \<Rightarrow>
                if trace = [] \<or> extension = [] then Inl (storage_error None None None)
                else (case uuid_of u of
                        None \<Rightarrow> Inl (py_exn PyValueError)
                      | Some tid \<Rightarrow> Inr \<lparr>pop_tenant_id = tid, pop_source_id = src,
                          pop_year = dec_int yy, pop_month = dec_int mm, pop_day = dec_int dd,
                          pop_trace_id = trace, pop_ext = extension\<rparr>))))"

text \<open>The bucket class of the URI expression: lowercase letters, digits and hyphens.\<close>

definition is_bucket_char :: "char \<Rightarrow> bool" where
  "is_bucket_char c \<longleftrightarrow> (let n = of_char c :: nat in
     (97 \<le> n \<and> n \<le> 122) \<or> (48 \<le> n \<and> n \<le> 57) \<or> n = 45)"

definition split_object_uri :: "string \<Rightarrow> (exn, string \<times> string) result" where
  "split_object_uri uri =
    (let candidate = py_strip uri;
         rest = drop 5 candidate;
         bucket = takeWhile (\<lambda>c. c \<noteq> CHR ''/'') rest;
         tail = drop (length bucket) rest;
         key = drop 1 tail
     in if starts_with ''gs://'' candidate \<and> bucket \<noteq> [] \<and> list_all is_bucket_char bucket
           \<and> tail \<noteq> [] \<and> key \<noteq> [] \<and> CHR 0x0A \<notin> set key
        then Inr (bucket, key) else Inl (storage_error None None None))"

section \<open>Round trip\<close>

lemma is_lhex_hexl: "is_hexl c \<Longrightarrow> is_lhex c"
  using is_hexl_code [of c] by (simp add: is_lhex_def)

lemma split_dashed:
  assumes "\<And>c. c \<in> set h \<Longrightarrow> is_hexl c"
  shows "split_on (CHR ''-'') (dashed h) =
    [take 8 h, take 4 (drop 8 h), take 4 (drop 12 h), take 4 (drop 16 h), drop 20 h]"
proof -
  have e: "split_on (CHR ''-'') (take i (drop j h) @ CHR ''-'' # t) = take i (drop j h) # split_on (CHR ''-'') t"
    for i j t
    using assms [of "CHR ''-''"] by (intro split_on_append) (auto dest: in_set_takeD in_set_dropD)
  have l: "split_on (CHR ''-'') (drop j h) = [drop j h]" for j
    using assms [of "CHR ''-''"] by (intro split_on_no_sep) (auto dest: in_set_dropD)
  show ?thesis using e [of 8 0] e [of 4 8] e [of 4 12] e [of 4 16] l [of 20]
    by (simp add: dashed_def)
qed

lemma uuid_segment_str: "is_uuid_segment (uuid_str u)"
proof -
  let ?h = "hex_digits 32 (unat u)"
  have hx: "is_lhex c" if "c \<in> set ?h" for c
    using that hex_digits_hexl is_lhex_hexl by blast
  have "list_all is_lhex (take i (drop j ?h))" "list_all is_lhex (take i ?h)"
    "list_all is_lhex (drop i ?h)" for i j
    using hx by (auto simp: list_all_iff dest: in_set_takeD in_set_dropD)
  then show ?thesis
    using split_dashed [of ?h] hex_digits_hexl
    by (simp add: is_uuid_segment_def uuid_str_def)
qed

lemma no_slash_uuid: "CHR ''/'' \<notin> set (uuid_str u)"
  using uuid_str_chars [of "CHR ''/''" u] by auto

lemma no_slash_digits: "CHR ''/'' \<notin> set (dec_digits k n)"
  using dec_digits_digit [of "CHR ''/''" k n] by (auto simp: is_digit_def)

lemma digits_after_fmt:
  "n < 10 ^ k \<Longrightarrow> digits_after pre k (pre @ fmt_0d k n) = Some (dec_digits k n)"
  by (simp add: digits_after_def fmt_0d_def)

lemma build_object_path_shape:
  assumes "build_object_path tenant_id source_id trace_id event_ts ext = Inr path"
  obtains u ts sid trace extension where
    "uuid_of (py_strip tenant_id) = Some u" "ensure_utc event_ts = Inr ts"
    "sid = py_strip source_id" "trace = py_strip trace_id"
    "extension = py_lstrip_char (CHR ''.'') (py_strip ext)"
    "sid \<noteq> []" "trace \<noteq> []" "extension \<noteq> []"
    "path = ''tenant/'' @ uuid_str u @ ''/source/'' @ sid
       @ ''/yyyy='' @ dec_digits 4 (nat (dt_year ts)) @ ''/mm='' @ dec_digits 2 (dt_month ts)
       @ ''/dd='' @ dec_digits 2 (nat (dt_day ts)) @ ''/'' @ trace @ ''.'' @ extension"
    "nat (dt_year ts) < 10 ^ 4" "dt_month ts < 10 ^ 2" "nat (dt_day ts) < 10 ^ 2"
proof -
  from assms obtain tid ts where ne: "py_strip source_id \<noteq> []" "py_strip trace_id \<noteq> []"
      "py_lstrip_char (CHR ''.'') (py_strip ext) \<noteq> []"
    and tid: "coerce_tenant_uuid (py_strip tenant_id) (Some (py_strip trace_id)) = Inr tid"
    and ts: "ensure_utc event_ts = Inr ts"
    and path: "path = ''tenant/'' @ tid @ ''/source/'' @ py_strip source_id
                  @ ''/yyyy='' @ fmt_0d 4 (nat (dt_year ts)) @ ''/mm='' @ fmt_0d 2 (dt_month ts)
                  @ ''/dd='' @ fmt_0d 2 (nat (dt_day ts))
                  @ ''/'' @ py_strip trace_id @ ''.'' @ py_lstrip_char (CHR ''.'') (py_strip ext)"
    unfolding build_object_path_def Let_def by (auto simp: result_simps split: if_splits)
  from tid obtain u where u: "uuid_of (py_strip tenant_id) = Some u" "tid = uuid_str u"
    by (auto simp: coerce_tenant_uuid_def split: option.splits)
  have "dt_in_range (dt_wall ts)" using ensure_utc_offset [OF ts] by simp
  then have "1 \<le> dt_year ts \<and> dt_year ts \<le> 9999 \<and> 1 \<le> dt_month ts \<and> dt_month ts \<le> 12 \<and>
     1 \<le> dt_day ts \<and> dt_day ts \<le> 31" by (rule dt_ymd_bounds)
  then have b: "nat (dt_year ts) < 10 ^ 4" "dt_month ts < 10 ^ 2" "nat (dt_day ts) < 10 ^ 2"
    by auto
  show thesis
    by (rule that [OF u(1) ts refl refl refl ne _ b]) (use path u(2) b in \<open>simp add: fmt_0d_def\<close>)
qed

lemma last_py_strip: "py_strip s \<noteq> [] \<Longrightarrow> \<not> is_space (last (py_strip s))"
  unfolding py_strip_def by (simp add: last_rev hd_dropWhile)

lemma last_lstrip: "py_lstrip_char c s \<noteq> [] \<Longrightarrow> last (py_lstrip_char c s) = last s"
  unfolding py_lstrip_char_def
  by (metis last_appendR takeWhile_dropWhile_id)

lemma strip_built:
  assumes "extension = py_lstrip_char (CHR ''.'') (py_strip ext)" and "extension \<noteq> []"
  shows "py_strip (''tenant/'' @ s @ extension) = ''tenant/'' @ s @ extension"
proof (rule py_strip_id)
  have "py_strip ext \<noteq> []" using assms by (auto simp: py_lstrip_char_def)
  then have "\<not> is_space (last extension)" using assms last_lstrip last_py_strip by metis
  then show "\<not> is_space (last (''tenant/'' @ s @ extension))" using assms(2) by simp
qed (auto simp: is_space_def)

lemma split_built:
  assumes "CHR ''/'' \<notin> set sid" and "CHR ''/'' \<notin> set f"
  shows "split_on (CHR ''/'') (''tenant/'' @ uuid_str u @ ''/source/'' @ sid
       @ ''/yyyy='' @ dec_digits 4 y @ ''/mm='' @ dec_digits 2 m
       @ ''/dd='' @ dec_digits 2 d @ ''/'' @ f) =
    [''tenant'', uuid_str u, ''source'', sid, ''yyyy='' @ dec_digits 4 y, ''mm='' @ dec_digits 2 m,
     ''dd='' @ dec_digits 2 d, f]"
proof -
  have e: "split_on (CHR ''/'') (w @ CHR ''/'' # t) = w # split_on (CHR ''/'') t"
    if "CHR ''/'' \<notin> set w" for w t using that by (rule split_on_append)
  show ?thesis
    using e [of "''tenant''"] e [of "uuid_str u"] e [of "''source''"] e [of sid]
      e [of "''yyyy='' @ dec_digits 4 y"] e [of "''mm='' @ dec_digits 2 m"]
      e [of "''dd='' @ dec_digits 2 d"] split_on_no_sep [of "CHR ''/''" f] assms
      no_slash_uuid no_slash_digits
    by (simp del: split_on.simps)
qed

lemma parse_built_path:
  assumes b: "build_object_path tenant_id source_id trace_id event_ts ext = Inr path"
    and src: "CHR ''/'' \<notin> set (py_strip source_id)" and tr: "CHR ''/'' \<notin> set (py_strip trace_id)"
    and ex: "CHR ''/'' \<notin> set ext" and dot: "CHR ''.'' \<notin> set (py_lstrip_char (CHR ''.'') (py_strip ext))"
  shows "\<exists>u ts. uuid_of (py_strip tenant_id) = Some u \<and> ensure_utc event_ts = Inr ts \<and>
    parse_object_path path = Inr \<lparr>pop_tenant_id = u, pop_source_id = py_strip source_id,
      pop_year = nat (dt_year ts), pop_month = dt_month ts, pop_day = nat (dt_day ts),
      pop_trace_id = py_strip trace_id, pop_ext = py_lstrip_char (CHR ''.'') (py_strip ext)\<rparr>"
  using b
proof (rule build_object_path_shape)
  fix u ts sid trace extension
  assume u: "uuid_of (py_strip tenant_id) = Some u" and ts: "ensure_utc event_ts = Inr ts"
    and sid: "sid = py_strip source_id" and trace: "trace = py_strip trace_id"
    and extn: "extension = py_lstrip_char (CHR ''.'') (py_strip ext)"
    and ne: "sid \<noteq> []" "trace \<noteq> []" "extension \<noteq> []"
    and path: "path = ''tenant/'' @ uuid_str u @ ''/source/'' @ sid
       @ ''/yyyy='' @ dec_digits 4 (nat (dt_year ts)) @ ''/mm='' @ dec_digits 2 (dt_month ts)
       @ ''/dd='' @ dec_digits 2 (nat (dt_day ts)) @ ''/'' @ trace @ ''.'' @ extension"
    and bd: "nat (dt_year ts) < 10 ^ 4" "dt_month ts < 10 ^ 2" "nat (dt_day ts) < 10 ^ 2"
  have "CHR ''/'' \<notin> set extension"
    using ex unfolding extn py_lstrip_char_def py_strip_def
    by (auto dest!: set_dropWhileD)
  then have f: "CHR ''/'' \<notin> set (trace @ ''.'' @ extension)" using tr trace by auto
  have sp: "py_strip path = path"
    using strip_built [OF extn ne(3), of "uuid_str u @ ''/source/'' @ sid
       @ ''/yyyy='' @ dec_digits 4 (nat (dt_year ts)) @ ''/mm='' @ dec_digits 2 (dt_month ts)
       @ ''/dd='' @ dec_digits 2 (nat (dt_day ts)) @ ''/'' @ trace @ ''.''"] path by simp
  have "split_on (CHR ''/'') path = [''tenant'', uuid_str u, ''source'', sid,
     ''yyyy='' @ dec_digits 4 (nat (dt_year ts)), ''mm='' @ dec_digits 2 (dt_month ts),
     ''dd='' @ dec_digits 2 (nat (dt_day ts)), trace @ ''.'' @ extension]"
    unfolding path using src sid f by (intro split_built) auto
  then have "path_match path = Some (uuid_str u, sid, dec_digits 4 (nat (dt_year ts)),
      dec_digits 2 (dt_month ts), dec_digits 2 (nat (dt_day ts)), trace @ ''.'' @ extension)"
    using ne uuid_segment_str [of u] by (simp add: path_match_def digits_after_def)
  moreover have "rpartition (CHR ''.'') (trace @ ''.'' @ extension) = Some (trace, extension)"
    using dot extn rpartition_append [of "CHR ''.''" extension trace] by simp
  moreover have "\<not> starts_with ''gs://'' path" by (simp add: path)
  ultimately have "parse_object_path path = Inr \<lparr>pop_tenant_id = u, pop_source_id = sid,
      pop_year = nat (dt_year ts), pop_month = dt_month ts, pop_day = nat (dt_day ts),
      pop_trace_id = trace, pop_ext = extension\<rparr>"
    using ne bd by (simp add: parse_object_path_def sp uuid_of_str dec_int_digits)
  then show ?thesis using u ts sid trace extn by blast
qed

text \<open>C34: Parsing what the builder returned gives back the tenant as its UUID, the source, the UTC
  date of the event, the trace id and the extension, when no component contains a slash and
  the extension no dot.\<close>

theorem parse_build_object_path:
  assumes b: "build_object_path tenant_id source_id trace_id event_ts ext = Inr path"
    and src: "CHR ''/'' \<notin> set (py_strip source_id)" and tr: "CHR ''/'' \<notin> set (py_strip trace_id)"
    and ex: "CHR ''/'' \<notin> set ext" and dot: "CHR ''.'' \<notin> set (py_lstrip_char (CHR ''.'') (py_strip ext))"
  shows "\<exists>u ts. uuid_of (py_strip tenant_id) = Some u \<and> ensure_utc event_ts = Inr ts \<and>
    parse_object_path path = Inr \<lparr>pop_tenant_id = u, pop_source_id = py_strip source_id,
      pop_year = nat (dt_year ts), pop_month = dt_month ts, pop_day = nat (dt_day ts),
      pop_trace_id = py_strip trace_id, pop_ext = py_lstrip_char (CHR ''.'') (py_strip ext)\<rparr>"
  using assms by (rule parse_built_path)


text \<open>
  A separator inside a component is not refused by the builder, and the path it gives is
  outside the scheme: it has more than seven slashes.
\<close>

lemma path_match_slashes: "path_match s \<noteq> None \<Longrightarrow> count_list s (CHR ''/'') = 7"
  using length_split_on [of "CHR ''/''" s]
  by (auto simp: path_match_def split: list.splits)

lemma count_list_0: "x \<notin> set xs \<Longrightarrow> count_list xs x = 0"
  by (simp add: count_list_0_iff)

lemma count_list_pos: "x \<in> set xs \<Longrightarrow> 0 < count_list xs x"
  using count_list_0_iff [of xs x] by auto

text \<open>A source id that contains a slash is accepted by the builder, and the parser refuses the
  path it built.\<close>

theorem build_slash_not_parsed:
  assumes b: "build_object_path tenant_id source_id trace_id event_ts ext = Inr path"
    and slash: "CHR ''/'' \<in> set (py_strip source_id)"
  shows "parse_object_path path = Inl (storage_error None None None)"
  using b
proof (rule build_object_path_shape)
  fix u ts sid trace extension
  assume sid: "sid = py_strip source_id"
    and extn: "extension = py_lstrip_char (CHR ''.'') (py_strip ext)" and ne: "extension \<noteq> []"
    and path: "path = ''tenant/'' @ uuid_str u @ ''/source/'' @ sid
       @ ''/yyyy='' @ dec_digits 4 (nat (dt_year ts)) @ ''/mm='' @ dec_digits 2 (dt_month ts)
       @ ''/dd='' @ dec_digits 2 (nat (dt_day ts)) @ ''/'' @ trace @ ''.'' @ extension"
  have sp: "py_strip path = path"
    using strip_built [OF extn ne, of "uuid_str u @ ''/source/'' @ sid
       @ ''/yyyy='' @ dec_digits 4 (nat (dt_year ts)) @ ''/mm='' @ dec_digits 2 (dt_month ts)
       @ ''/dd='' @ dec_digits 2 (nat (dt_day ts)) @ ''/'' @ trace @ ''.''"] path by simp
  have "7 < count_list path (CHR ''/'')"
    using count_list_pos [OF slash] no_slash_uuid [of u] no_slash_digits
    by (simp add: path count_list_0 sid)
  then have "path_match path = None" using path_match_slashes [of path] by (cases "path_match path") auto
  then show ?thesis by (simp add: parse_object_path_def sp)
qed


section \<open>Concrete paths\<close>

lemma uuid_str_nonempty: "uuid_str u \<noteq> []"
  by (simp add: uuid_str_def dashed_def)

lemma strip_uuid_str: "py_strip (uuid_str u) = uuid_str u"
proof (rule py_strip_id [OF uuid_str_nonempty])
  have ns: "\<not> is_space c" if "c \<in> set (uuid_str u)" for c
    using uuid_str_chars [OF that] is_hexl_neq(10) by (auto simp: is_space_def)
  show "\<not> is_space (hd (uuid_str u))" "\<not> is_space (last (uuid_str u))"
    using uuid_str_nonempty [of u] by (auto intro!: ns)
qed

definition demo_ts :: pydatetime where
  "demo_ts = PyDatetime (738000 * us_per_day) (Some 0)"

definition demo_path :: "string \<Rightarrow> string" where
  "demo_path src = ''tenant/'' @ uuid_str 5 @ ''/source/'' @ src @ ''/yyyy=2021/mm=07/dd=30/trace-1.csv''"

lemma demo_build:
  assumes "src \<noteq> []" and "py_strip src = src"
  shows "build_object_path (uuid_str 5) src ''trace-1'' demo_ts ''.csv'' = Inr (demo_path src)"
proof -
  have e: "py_strip ''trace-1'' = ''trace-1''" "py_lstrip_char (CHR ''.'') (py_strip ''.csv'') = ''csv''"
    "ensure_utc demo_ts = Inr demo_ts" "fmt_0d 4 (nat (dt_year demo_ts)) = ''2021''"
    "fmt_0d 2 (dt_month demo_ts) = ''07''" "fmt_0d 2 (nat (dt_day demo_ts)) = ''30''" by code_simp+
  show ?thesis
    by (simp add: build_object_path_def coerce_tenant_uuid_def strip_uuid_str uuid_of_str
        uuid_str_nonempty e assms demo_path_def)
qed

theorem parse_build_object_path_witness:
  "\<exists>r. parse_object_path (demo_path ''pos'') = Inr r \<and> pop_tenant_id r = 5 \<and>
     pop_source_id r = ''pos'' \<and> pop_trace_id r = ''trace-1'' \<and> pop_ext r = ''csv''"
proof -
  have e: "py_strip ''pos'' = ''pos''" "py_strip ''trace-1'' = ''trace-1''"
    "py_lstrip_char (CHR ''.'') (py_strip ''.csv'') = ''csv''" by code_simp+
  have b: "build_object_path (uuid_str 5) ''pos'' ''trace-1'' demo_ts ''.csv'' = Inr (demo_path ''pos'')"
    by (rule demo_build) (simp_all add: e)
  show ?thesis using parse_build_object_path [OF b] by (auto simp: e strip_uuid_str uuid_of_str)
qed

theorem build_slash_not_parsed_witness:
  "parse_object_path (demo_path ''po/s'') = Inl (storage_error None None None)"
proof -
  have e: "py_strip ''po/s'' = ''po/s''" by code_simp
  have "build_object_path (uuid_str 5) ''po/s'' ''trace-1'' demo_ts ''.csv'' = Inr (demo_path ''po/s'')"
    by (rule demo_build) (simp_all add: e)
  then show ?thesis by (rule build_slash_not_parsed) (simp add: e)
qed

end
