(* ===== verification/Ingress_Event.thy ===== *)
theory Ingress_Event
  imports Object_Paths
begin

text \<open>
  The inbound \<open>ingress.ready\<close> envelope of the streaming consumer (\<open>envelope.py\<close>) and the bronze
  fetch (\<open>pipeline/fetch.py\<close>). The decoded JSON document is an argument (\<open>None\<close> when the body
  does not decode); how pydantic reads a UUID or a datetime out of a JSON value is a pair of
  parameters, and everything the model declares on top of it is written out. The database
  reads of the fetch are argument functions from the statement's parameters to the row.
\<close>

section \<open>The envelope\<close>

record ingress_event =
  ie_schema_version :: int
  ie_trace_id :: uuid
  ie_tenant_id :: uuid
  ie_store_id :: uuid
  ie_source_id :: string
  ie_template_id :: uuid
  ie_bronze_ref :: uuid
  ie_gcs_uri :: string
  ie_received_ts :: pydatetime
  ie_delimiter :: string
  ie_tenant_display_code :: "string option"
  ie_store_code :: "string option"
  ie_replay :: bool
  ie_parent_trace_id :: "uuid option"

record pydantic =
  pd_uuid :: "pyval \<Rightarrow> uuid option"
  pd_datetime :: "pyval \<Rightarrow> pydatetime option"
  pd_bool :: "pyval \<Rightarrow> bool option"

text \<open>A field of the document: absent, or read by its type; \<open>Inl\<close> marks the field as bad.\<close>

definition field_required :: "(string, pyval) pydict \<Rightarrow> string \<Rightarrow> (pyval \<Rightarrow> 'a option) \<Rightarrow> (string, 'a) result" where
  "field_required raw k conv = (case dget raw k of
     None \<Rightarrow> Inl k
   | Some v \<Rightarrow> (case conv v of None \<Rightarrow> Inl k | Some x \<Rightarrow> Inr x))"

definition field_default ::
  "(string, pyval) pydict \<Rightarrow> string \<Rightarrow> (pyval \<Rightarrow> 'a option) \<Rightarrow> 'a \<Rightarrow> (string, 'a) result" where
  "field_default raw k conv d = (case dget raw k of
     None \<Rightarrow> Inr d
   | Some v \<Rightarrow> (case conv v of None \<Rightarrow> Inl k | Some x \<Rightarrow> Inr x))"

definition conv_one :: "pyval \<Rightarrow> int option" where
  "conv_one v = (if v = PyInt 1 then Some 1 else None)"

definition conv_str :: "nat \<Rightarrow> nat option \<Rightarrow> pyval \<Rightarrow> string option" where
  "conv_str lo hi v = (case v of
     PyStr s \<Rightarrow> if lo \<le> length s \<and> (case hi of None \<Rightarrow> True | Some h \<Rightarrow> length s \<le> h) then Some s else None
   | _ \<Rightarrow> None)"

definition conv_opt :: "(pyval \<Rightarrow> 'a option) \<Rightarrow> pyval \<Rightarrow> 'a option option" where
  "conv_opt conv v = (if v = PyNone then Some None else map_option Some (conv v))"

text \<open>
  \<open>received_ts\<close> is read as a datetime and given to its validator \<open>ensure_utc\<close>. Pydantic turns
  only a \<open>ValueError\<close> or \<open>AssertionError\<close> of a validator into a bad field; \<open>NaiveDatetimeError\<close>
  is a \<open>DisError\<close> and passes through, as does \<open>OverflowError\<close>.
\<close>

datatype validation_failure = Raised exn | BadFields "string list"

definition raised_by_validator :: "pydantic \<Rightarrow> (string, pyval) pydict \<Rightarrow> exn option" where
  "raised_by_validator pd raw = (case dget raw ''received_ts'' of
     None \<Rightarrow> None
   | Some v \<Rightarrow> (case pd_datetime pd v of
       None \<Rightarrow> None
     | Some dt \<Rightarrow> (case ensure_utc dt of Inl e \<Rightarrow> Some e | Inr _ \<Rightarrow> None)))"

definition conv_aware :: "pydantic \<Rightarrow> pyval \<Rightarrow> pydatetime option" where
  "conv_aware pd v = (case pd_datetime pd v of
     None \<Rightarrow> None
   | Some dt \<Rightarrow> (case ensure_utc dt of Inl _ \<Rightarrow> None | Inr u \<Rightarrow> Some u))"

definition envelope_fields :: "string list" where
  "envelope_fields = [''schema_version'', ''trace_id'', ''tenant_id'', ''store_id'', ''source_id'',
     ''template_id'', ''bronze_ref'', ''gcs_uri'', ''received_ts'', ''delimiter'',
     ''tenant_display_code'', ''store_code'', ''replay'', ''parent_trace_id'']"

definition bad_of :: "(string, 'a) result \<Rightarrow> string list" where
  "bad_of r = (case r of Inl k \<Rightarrow> [k] | Inr _ \<Rightarrow> [])"

definition good_of :: "(string, 'a) result \<Rightarrow> 'a" where
  "good_of r = projr r"

text \<open>\<open>IngressReadyEvent.model_validate\<close>: the bad fields, or the event. Extra fields are bad.\<close>

definition model_validate :: "pydantic \<Rightarrow> (string, pyval) pydict \<Rightarrow> (validation_failure, ingress_event) result" where
  "model_validate pd raw =
    (let sv = field_required raw ''schema_version'' conv_one;
         tr = field_required raw ''trace_id'' (pd_uuid pd);
         te = field_required raw ''tenant_id'' (pd_uuid pd);
         st = field_required raw ''store_id'' (pd_uuid pd);
         so = field_required raw ''source_id'' (conv_str 1 None);
         tm = field_required raw ''template_id'' (pd_uuid pd);
         br = field_required raw ''bronze_ref'' (pd_uuid pd);
         gc = field_required raw ''gcs_uri'' (conv_str 1 None);
         re = field_required raw ''received_ts'' (conv_aware pd);
         dl = field_default raw ''delimiter'' (conv_str 1 (Some 1)) '','';
         dc = field_default raw ''tenant_display_code'' (conv_opt (conv_str 0 None)) None;
         sc = field_default raw ''store_code'' (conv_opt (conv_str 0 None)) None;
         rp = field_default raw ''replay'' (pd_bool pd) False;
         pt = field_default raw ''parent_trace_id'' (conv_opt (pd_uuid pd)) None;
         bad = bad_of sv @ bad_of tr @ bad_of te @ bad_of st @ bad_of so @ bad_of tm @ bad_of br @
           bad_of gc @ bad_of re @ bad_of dl @ bad_of dc @ bad_of sc @ bad_of rp @ bad_of pt @
           filter (\<lambda>k. k \<notin> set envelope_fields) (dkeys raw)
     in case raised_by_validator pd raw of Some e \<Rightarrow> Inl (Raised e) | None \<Rightarrow>
        if bad \<noteq> [] then Inl (BadFields bad)
        else Inr \<lparr>ie_schema_version = good_of sv, ie_trace_id = good_of tr, ie_tenant_id = good_of te,
               ie_store_id = good_of st, ie_source_id = good_of so, ie_template_id = good_of tm,
               ie_bronze_ref = good_of br, ie_gcs_uri = good_of gc, ie_received_ts = good_of re,
               ie_delimiter = good_of dl, ie_tenant_display_code = good_of dc,
               ie_store_code = good_of sc, ie_replay = good_of rp, ie_parent_trace_id = good_of pt\<rparr>)"

definition identifier_or_none :: "(string, pyval) pydict \<Rightarrow> string \<Rightarrow> string option" where
  "identifier_or_none raw k = (case dget raw k of Some (PyStr s) \<Rightarrow> Some s | _ \<Rightarrow> None)"

definition parse_ingress_ready :: "pydantic \<Rightarrow> pyval option \<Rightarrow> (exn, ingress_event) result" where
  "parse_ingress_ready pd decoded = (case decoded of
     None \<Rightarrow> Inl (event_contract_error None None None)
   | Some (PyDict raw) \<Rightarrow>
       (case model_validate pd raw of
          Inr ev \<Rightarrow> Inr ev
        | Inl (Raised e) \<Rightarrow> Inl e
        | Inl (BadFields bad) \<Rightarrow> Inl (event_contract_error (Some (hd (sorted_set bad)))
            (identifier_or_none raw ''tenant_id'') (identifier_or_none raw ''trace_id'')))
   | Some _ \<Rightarrow> Inl (event_contract_error None None None))"

section \<open>Fetch\<close>

definition cross_check_path :: "ingress_event \<Rightarrow> string \<Rightarrow> (exn, string) result" where
  "cross_check_path ev bronze_bucket =
     (let mismatch = event_path_mismatch_error None None None (Some (uuid_str (ie_tenant_id ev)))
            (Some (uuid_str (ie_trace_id ev))) in
      rbind (split_object_uri (ie_gcs_uri ev)) (\<lambda>(bucket, object_key).
      if bucket \<noteq> bronze_bucket then Inl mismatch
      else rbind (parse_object_path object_key) (\<lambda>parsed.
        if uuid_str (pop_tenant_id parsed) \<noteq> uuid_str (ie_tenant_id ev) \<or> pop_source_id parsed \<noteq> ie_source_id ev
        then Inl mismatch else Inr object_key)))"

record bronze_row =
  br_id :: uuid
  br_source_id :: string
  br_dis_channel :: string
  br_gcs_uri :: string
  br_received_at :: pydatetime
  br_row_count :: "int option"

text \<open>
  \<open>select_bronze t ref trace\<close> is the row the statement returns in a session of tenant \<open>t\<close>, or
  the exception of the session or the statement.
\<close>

definition read_bronze_row ::
  "(uuid \<Rightarrow> uuid \<Rightarrow> uuid \<Rightarrow> (exn, bronze_row option) result) \<Rightarrow> ingress_event \<Rightarrow> (exn, bronze_row) result" where
  "read_bronze_row select_bronze ev =
     (let contract = event_contract_error (Some ''bronze_ref'') (Some (uuid_str (ie_tenant_id ev)))
            (Some (uuid_str (ie_trace_id ev))) in
      rbind (select_bronze (ie_tenant_id ev) (ie_bronze_ref ev) (ie_trace_id ev)) (\<lambda>row.
      case row of
        None \<Rightarrow> Inl contract
      | Some r \<Rightarrow> if br_source_id r \<noteq> ie_source_id ev \<or> br_gcs_uri r \<noteq> ie_gcs_uri ev then Inl contract
                  else Inr r))"

section \<open>Properties\<close>

text \<open>The consumer downloads only from the bronze bucket and only an object whose path, parsed by
  the one path parser, carries the event's own tenant and source.\<close>

theorem cross_check_path_identity:
  "cross_check_path ev bucket = Inr key \<longleftrightarrow>
     split_object_uri (ie_gcs_uri ev) = Inr (bucket, key) \<and>
     (\<exists>p. parse_object_path key = Inr p \<and> pop_tenant_id p = ie_tenant_id ev \<and>
        pop_source_id p = ie_source_id ev)"
  by (auto simp: cross_check_path_def Let_def result_simps split: if_splits)

lemma field_required_ok:
  "bad_of (field_required raw k conv) = [] \<Longrightarrow>
   \<exists>v. dget raw k = Some v \<and> conv v = Some (good_of (field_required raw k conv))"
  by (auto simp: field_required_def bad_of_def good_of_def split: option.splits)

lemma field_default_ok:
  "bad_of (field_default raw k conv d) = [] \<Longrightarrow>
   (dget raw k = None \<and> good_of (field_default raw k conv d) = d) \<or>
   (\<exists>v. dget raw k = Some v \<and> conv v = Some (good_of (field_default raw k conv d)))"
  by (auto simp: field_default_def bad_of_def good_of_def split: option.splits)

lemma conv_str_bounds: "conv_str lo hi v = Some s \<Longrightarrow> lo \<le> length s \<and> (\<forall>h. hi = Some h \<longrightarrow> length s \<le> h)"
  by (auto simp: conv_str_def split: pyval.splits if_splits)

lemma conv_aware_Some: "conv_aware pd v = Some u \<Longrightarrow> \<exists>dt. pd_datetime pd v = Some dt \<and> ensure_utc dt = Inr u"
  by (auto simp: conv_aware_def split: option.splits sum.splits)

lemma conv_aware_utc: "conv_aware pd v = Some u \<Longrightarrow> dt_offset u = Some 0"
  using ensure_utc_offset by (auto dest: conv_aware_Some)

lemma validated_Inr:
  assumes "(case raised of None \<Rightarrow> if bad \<noteq> [] then Inl (BadFields bad) else Inr ev | Some e \<Rightarrow> Inl (Raised e)) = Inr ev'"
  shows "bad = []" and "ev' = ev"
  using assms by (auto split: option.splits if_splits)

lemma conv_str_Some: "conv_str lo hi v = Some t \<Longrightarrow> v = PyStr t"
  by (auto simp: conv_str_def split: pyval.splits if_splits)

text \<open>C40: An envelope is accepted only when the contract holds of the decoded document: no field is
  unknown; each of the nine required fields is present and readable, and its reading is the
  field of the event (the five identifiers as UUIDs, the source and the address as non-empty
  texts, the receipt time as an aware datetime turned to UTC); and a delimiter has one character.\<close>

theorem parse_ingress_ready_contract:
  assumes "parse_ingress_ready pd decoded = Inr ev"
  shows "\<exists>raw. decoded = Some (PyDict raw) \<and> set (dkeys raw) \<subseteq> set envelope_fields \<and>
    dget raw ''schema_version'' = Some (PyInt 1) \<and>
    (\<exists>v. dget raw ''trace_id'' = Some v \<and> pd_uuid pd v = Some (ie_trace_id ev)) \<and>
    (\<exists>v. dget raw ''tenant_id'' = Some v \<and> pd_uuid pd v = Some (ie_tenant_id ev)) \<and>
    (\<exists>v. dget raw ''store_id'' = Some v \<and> pd_uuid pd v = Some (ie_store_id ev)) \<and>
    (\<exists>v. dget raw ''template_id'' = Some v \<and> pd_uuid pd v = Some (ie_template_id ev)) \<and>
    (\<exists>v. dget raw ''bronze_ref'' = Some v \<and> pd_uuid pd v = Some (ie_bronze_ref ev)) \<and>
    dget raw ''source_id'' = Some (PyStr (ie_source_id ev)) \<and> ie_source_id ev \<noteq> [] \<and>
    dget raw ''gcs_uri'' = Some (PyStr (ie_gcs_uri ev)) \<and> ie_gcs_uri ev \<noteq> [] \<and>
    (\<exists>v dt. dget raw ''received_ts'' = Some v \<and> pd_datetime pd v = Some dt \<and> ensure_utc dt = Inr (ie_received_ts ev)) \<and>
    dt_offset (ie_received_ts ev) = Some 0 \<and> length (ie_delimiter ev) = 1"
proof -
  from assms obtain raw where raw: "decoded = Some (PyDict raw)" and v: "model_validate pd raw = Inr ev"
    by (auto simp: parse_ingress_ready_def split: option.splits pyval.splits sum.splits validation_failure.splits)
  note ok = validated_Inr [OF v [unfolded model_validate_def Let_def]]
  let ?uuid = "\<lambda>k u. bad_of (field_required raw k (pd_uuid pd)) = [] \<and> u = good_of (field_required raw k (pd_uuid pd))"
    and ?text = "\<lambda>k u. bad_of (field_required raw k (conv_str 1 None)) = [] \<and> u = good_of (field_required raw k (conv_str 1 None))"
  have sv: "bad_of (field_required raw ''schema_version'' conv_one) = []"
    and ids: "?uuid ''trace_id'' (ie_trace_id ev)" "?uuid ''tenant_id'' (ie_tenant_id ev)" "?uuid ''store_id'' (ie_store_id ev)"
      "?uuid ''template_id'' (ie_template_id ev)" "?uuid ''bronze_ref'' (ie_bronze_ref ev)"
    and texts: "?text ''source_id'' (ie_source_id ev)" "?text ''gcs_uri'' (ie_gcs_uri ev)"
    and re: "bad_of (field_required raw ''received_ts'' (conv_aware pd)) = []"
      "ie_received_ts ev = good_of (field_required raw ''received_ts'' (conv_aware pd))"
    and dl: "bad_of (field_default raw ''delimiter'' (conv_str 1 (Some 1)) '','') = []"
      "ie_delimiter ev = good_of (field_default raw ''delimiter'' (conv_str 1 (Some 1)) '','')"
    and ex: "filter (\<lambda>k. k \<notin> set envelope_fields) (dkeys raw) = []"
    using ok(1) unfolding append_is_Nil_conv ok(2) by simp_all
  have uuid: "\<exists>v. dget raw k = Some v \<and> pd_uuid pd v = Some u" if "?uuid k u" for k u
    using field_required_ok [OF conjunct1 [OF that]] that by auto
  have txts: "dget raw k = Some (PyStr u) \<and> u \<noteq> []" if "?text k u" for k u
    using field_required_ok [OF conjunct1 [OF that]] that conv_str_bounds [of 1 None] by (fastforce dest: conv_str_Some)
  have keys: "set (dkeys raw) \<subseteq> set envelope_fields" using ex by (auto simp: filter_empty_conv)
  have one: "dget raw ''schema_version'' = Some (PyInt 1)"
    using field_required_ok [OF sv] by (auto simp: conv_one_def split: if_splits)
  have "length (ie_delimiter ev) = 1"
    using field_default_ok [OF dl(1)] conv_str_bounds [of 1 "Some 1"] dl(2) by fastforce
  moreover have "dt_offset (ie_received_ts ev) = Some 0"
    using field_required_ok [OF re(1)] re(2) conv_aware_utc by auto
  moreover have "\<exists>v dt. dget raw ''received_ts'' = Some v \<and> pd_datetime pd v = Some dt \<and> ensure_utc dt = Inr (ie_received_ts ev)"
    using field_required_ok [OF re(1)] re(2) by (auto dest!: conv_aware_Some)
  ultimately show ?thesis using raw keys one ids [THEN uuid] texts [THEN txts] by blast
qed

text \<open>A receipt time without a zone is not a contract refusal: the error of the validator,
  a \<open>NaiveDatetimeError\<close>, leaves the parser as it is.\<close>

theorem parse_naive_received_ts:
  assumes "decoded = Some (PyDict raw)" and "dget raw ''received_ts'' = Some v"
    and "pd_datetime pd v = Some dt" and "dt_offset dt = None"
  shows "parse_ingress_ready pd decoded = Inl (py_exn NaiveDatetimeError)"
  using assms
  by (simp add: parse_ingress_ready_def model_validate_def raised_by_validator_def ensure_utc_def Let_def)

section \<open>Concrete envelopes\<close>

definition demo_pydantic :: pydantic where
  "demo_pydantic = \<lparr>pd_uuid = (\<lambda>v. if is_str v then Some 5 else None),
     pd_datetime = (\<lambda>v. case v of PyDt d \<Rightarrow> Some d | _ \<Rightarrow> None),
     pd_bool = (\<lambda>v. case v of PyBool b \<Rightarrow> Some b | _ \<Rightarrow> None)\<rparr>"

definition demo_envelope :: "string \<Rightarrow> pydatetime \<Rightarrow> (string, pyval) pydict" where
  "demo_envelope uri ts = [(''schema_version'', PyInt 1), (''trace_id'', PyStr ''t''), (''tenant_id'', PyStr ''a''),
     (''store_id'', PyStr ''s''), (''source_id'', PyStr ''pos''), (''template_id'', PyStr ''m''),
     (''bronze_ref'', PyStr ''b''), (''gcs_uri'', PyStr uri), (''received_ts'', PyDt ts)]"

definition demo_event :: ingress_event where
  "demo_event = \<lparr>ie_schema_version = 1, ie_trace_id = 5, ie_tenant_id = 5, ie_store_id = 5,
     ie_source_id = ''pos'', ie_template_id = 5, ie_bronze_ref = 5, ie_gcs_uri = ''gs://bronze/k'',
     ie_received_ts = demo_ts, ie_delimiter = '','', ie_tenant_display_code = None,
     ie_store_code = None, ie_replay = False, ie_parent_trace_id = None\<rparr>"

lemma demo_envelope_fields:
  "dget (demo_envelope uri ts) ''schema_version'' = Some (PyInt 1)" "dget (demo_envelope uri ts) ''trace_id'' = Some (PyStr ''t'')"
  "dget (demo_envelope uri ts) ''tenant_id'' = Some (PyStr ''a'')" "dget (demo_envelope uri ts) ''store_id'' = Some (PyStr ''s'')"
  "dget (demo_envelope uri ts) ''source_id'' = Some (PyStr ''pos'')" "dget (demo_envelope uri ts) ''template_id'' = Some (PyStr ''m'')"
  "dget (demo_envelope uri ts) ''bronze_ref'' = Some (PyStr ''b'')"
  "dget (demo_envelope uri ts) ''gcs_uri'' = Some (PyStr uri)"
  "dget (demo_envelope uri ts) ''received_ts'' = Some (PyDt ts)" "dget (demo_envelope uri ts) ''delimiter'' = None"
  "dget (demo_envelope uri ts) ''tenant_display_code'' = None" "dget (demo_envelope uri ts) ''store_code'' = None"
  "dget (demo_envelope uri ts) ''replay'' = None" "dget (demo_envelope uri ts) ''parent_trace_id'' = None"
  "filter (\<lambda>k. k \<notin> set envelope_fields) (dkeys (demo_envelope uri ts)) = []"
  by (simp_all add: demo_envelope_def envelope_fields_def dget_def)

lemma demo_ts_utc: "ensure_utc demo_ts = Inr demo_ts"
  by (simp add: demo_ts_def ensure_utc_def dt_in_range_def us_per_day_def)

lemma demo_event_parsed:
  assumes "uri \<noteq> []"
  shows "parse_ingress_ready demo_pydantic (Some (PyDict (demo_envelope uri demo_ts))) = Inr (demo_event\<lparr>ie_gcs_uri := uri\<rparr>)"
proof -
  have "Suc 0 \<le> length uri" using assms by (cases uri) simp_all
  then have "model_validate demo_pydantic (demo_envelope uri demo_ts) = Inr (demo_event\<lparr>ie_gcs_uri := uri\<rparr>)"
    unfolding model_validate_def Let_def raised_by_validator_def field_required_def field_default_def demo_envelope_fields
    by (simp add: demo_pydantic_def conv_one_def conv_str_def conv_aware_def demo_ts_utc bad_of_def good_of_def demo_event_def)
  then show ?thesis by (simp add: parse_ingress_ready_def)
qed

theorem parse_ingress_ready_contract_witness:
  "parse_ingress_ready demo_pydantic (Some (PyDict (demo_envelope ''gs://bronze/k'' demo_ts))) = Inr demo_event \<and>
   length (ie_delimiter demo_event) = 1 \<and> dt_offset (ie_received_ts demo_event) = Some 0"
proof (intro conjI)
  show run: "parse_ingress_ready demo_pydantic (Some (PyDict (demo_envelope ''gs://bronze/k'' demo_ts))) = Inr demo_event"
    using demo_event_parsed [of "''gs://bronze/k''"] by (simp add: demo_event_def)
  show "length (ie_delimiter demo_event) = 1" "dt_offset (ie_received_ts demo_event) = Some 0"
    using parse_ingress_ready_contract [OF run] by (elim exE conjE, simp)+
qed

theorem parse_naive_received_ts_witness:
  "parse_ingress_ready demo_pydantic (Some (PyDict (demo_envelope ''gs://bronze/k'' (PyDatetime 0 None)))) =
     Inl (py_exn NaiveDatetimeError)"
  using parse_naive_received_ts [of "Some (PyDict (demo_envelope ''gs://bronze/k'' (PyDatetime 0 None)))"
      "demo_envelope ''gs://bronze/k'' (PyDatetime 0 None)" "PyDt (PyDatetime 0 None)" demo_pydantic "PyDatetime 0 None"]
  by (simp add: demo_envelope_fields) (simp add: demo_pydantic_def)

end
