(* ===== verification/Mapping_Model.thy ===== *)
theory Mapping_Model
  imports Py_Values
begin

text \<open>
  The configuration side of \<open>libs/dis-mapping\<close>: the declarative vocabulary of
  \<open>models/transform.py\<close> and the validation \<open>SourceMapping\<close> runs at construction
  (\<open>models/source_mapping.py\<close>). A \<open>MappingConfigError\<close> is the value
  \<open>mapping_config_error\<close>; a lookup of a key that is not there is Python's \<open>KeyError\<close>, and the
  lemmas show that the exact-key checks rule it out. Pydantic's own type checks are the types
  of the records.
\<close>

section \<open>The vocabulary\<close>

definition NORMALIZE_OPS :: "string list" where
  "NORMALIZE_OPS = [''parse_date'', ''parse_datetime'', ''parse_decimal'', ''parse_percent'',
     ''parse_integer'', ''parse_boolean'', ''map_enum'', ''null_tokens'',
     ''normalize_whitespace'', ''normalize_case'']"

definition DERIVE_GENERATOR_OPS :: "string list" where
  "DERIVE_GENERATOR_OPS = [''copy'', ''constant'', ''date_from_datetime'']"

datatype cast_type = CString | CInteger | CDecimal | CDate | CDatetime | CBoolean

type_synonym args = "(string, pyval) pydict"

record transform_spec =
  ts_op :: string
  ts_args :: args

record cast_spec =
  cs_type :: cast_type
  cs_precision :: "int option"
  cs_scale :: "int option"

record source_mapping =
  sm_version :: int
  sm_rename :: "(string, string) pydict"
  sm_normalize :: "(string, transform_spec list) pydict"
  sm_cast :: "(string, cast_spec) pydict"
  sm_derive :: "(string, transform_spec list) pydict"

section \<open>Argument checks\<close>

text \<open>\<open>args[key]\<close>.\<close>

definition arg :: "args \<Rightarrow> string \<Rightarrow> (exn, pyval) result" where
  "arg a k = (case dget a k of None \<Rightarrow> Inl (py_exn PyKeyError) | Some v \<Rightarrow> Inr v)"

text \<open>\<open>args.get(key, default)\<close>.\<close>

definition arg_or :: "args \<Rightarrow> string \<Rightarrow> pyval \<Rightarrow> pyval" where
  "arg_or a k v = (case dget a k of None \<Rightarrow> v | Some w \<Rightarrow> w)"

definition require_keys ::
  "string \<Rightarrow> args \<Rightarrow> string list \<Rightarrow> string list \<Rightarrow> (exn, unit) result" where
  "require_keys column a required optional =
     (if list_ex (\<lambda>k. k \<notin> set (dkeys a)) required then Inl (mapping_config_error (Some column))
      else if list_ex (\<lambda>k. k \<notin> set required \<and> k \<notin> set optional) (dkeys a)
      then Inl (mapping_config_error (Some column))
      else Inr ())"

definition require_str :: "string \<Rightarrow> args \<Rightarrow> string \<Rightarrow> (exn, string) result" where
  "require_str column a key = rbind (arg a key) (\<lambda>value.
     case value of
       PyStr s \<Rightarrow> if s = [] then Inl (mapping_config_error (Some column)) else Inr s
     | _ \<Rightarrow> Inl (mapping_config_error (Some column)))"

definition require_str_list :: "string \<Rightarrow> args \<Rightarrow> string \<Rightarrow> (exn, string list) result" where
  "require_str_list column a key = rbind (arg a key) (\<lambda>value.
     case value of
       PyList vs \<Rightarrow> if vs = [] \<or> \<not> list_all is_str vs
                   then Inl (mapping_config_error (Some column)) else Inr (map the_str vs)
     | _ \<Rightarrow> Inl (mapping_config_error (Some column)))"

text \<open>\<open>thou is not None and (not isinstance(thou, str) or len(thou) != 1)\<close>, negated.\<close>

definition thousands_ok :: "pyval \<Rightarrow> bool" where
  "thousands_ok thou = (case thou of PyNone \<Rightarrow> True | PyStr s \<Rightarrow> length s = 1 | _ \<Rightarrow> False)"

definition validate_parse_datetime :: "args \<Rightarrow> string \<Rightarrow> (exn, unit) result" where
  "validate_parse_datetime a column =
     rbind (require_keys column a [''format'', ''timezone''] []) (\<lambda>_.
     rbind (require_str column a ''format'') (\<lambda>fmt.
     rbind (arg a ''timezone'') (\<lambda>tz.
       case tz of
         PyNone \<Rightarrow> require (contains_str ''%z'' fmt) (mapping_config_error (Some column))
       | PyStr z \<Rightarrow> (if z = [] then Inl (mapping_config_error (Some column))
                    else require (\<not> contains_str ''%z'' fmt) (mapping_config_error (Some column)))
       | _ \<Rightarrow> Inl (mapping_config_error (Some column)))))"

definition validate_parse_decimal :: "args \<Rightarrow> string \<Rightarrow> (exn, unit) result" where
  "validate_parse_decimal a column =
     rbind (require_keys column a [''decimal_separator'', ''thousands_separator''] []) (\<lambda>_.
     rbind (require_str column a ''decimal_separator'') (\<lambda>sep.
     rbind (require (length sep = 1) (mapping_config_error (Some column))) (\<lambda>_.
     rbind (arg a ''thousands_separator'') (\<lambda>thou.
     rbind (require (thousands_ok thou) (mapping_config_error (Some column))) (\<lambda>_.
     require (thou \<noteq> PyStr sep) (mapping_config_error (Some column)))))))"

definition validate_map_enum :: "args \<Rightarrow> string \<Rightarrow> (exn, unit) result" where
  "validate_map_enum a column =
     rbind (require_keys column a [''mapping''] [''case_insensitive'']) (\<lambda>_.
     rbind (arg a ''mapping'') (\<lambda>mapping.
       case mapping of
         PyDict kvs \<Rightarrow>
           if kvs = [] \<or> \<not> list_all (\<lambda>kv. is_str (snd kv)) kvs
           then Inl (mapping_config_error (Some column))
           else (case arg_or a ''case_insensitive'' (PyBool False) of
                   PyBool ci \<Rightarrow> (if ci
                      then require (distinct (map py_upper (dkeys kvs)))
                             (mapping_config_error (Some column))
                      else Inr ())
                 | _ \<Rightarrow> Inl (mapping_config_error (Some column)))
       | _ \<Rightarrow> Inl (mapping_config_error (Some column))))"

definition validate_normalize_args :: "transform_spec \<Rightarrow> string \<Rightarrow> (exn, unit) result" where
  "validate_normalize_args spec column = (let op = ts_op spec; a = ts_args spec in
     if op = ''parse_date'' then
       rbind (require_keys column a [''format''] []) (\<lambda>_.
       rbind (require_str column a ''format'') (\<lambda>_. Inr ()))
     else if op = ''parse_datetime'' then validate_parse_datetime a column
     else if op = ''parse_decimal'' \<or> op = ''parse_percent'' then validate_parse_decimal a column
     else if op = ''parse_integer'' then
       rbind (require_keys column a [''thousands_separator''] []) (\<lambda>_.
       rbind (arg a ''thousands_separator'') (\<lambda>thou.
       require (thousands_ok thou) (mapping_config_error (Some column))))
     else if op = ''parse_boolean'' then
       rbind (require_keys column a [''true_values'', ''false_values''] []) (\<lambda>_.
       rbind (require_str_list column a ''true_values'') (\<lambda>tv.
       rbind (require_str_list column a ''false_values'') (\<lambda>fv.
       require (\<not> list_ex (\<lambda>t. t \<in> set fv) tv) (mapping_config_error (Some column)))))
     else if op = ''map_enum'' then validate_map_enum a column
     else if op = ''null_tokens'' then
       rbind (require_keys column a [''tokens''] []) (\<lambda>_.
       rbind (require_str_list column a ''tokens'') (\<lambda>_. Inr ()))
     else if op = ''normalize_whitespace'' then
       rbind (require_keys column a [] [''trim'', ''collapse'']) (\<lambda>_.
       require (is_pybool (arg_or a ''trim'' (PyBool True)) \<and>
                is_pybool (arg_or a ''collapse'' (PyBool True)))
         (mapping_config_error (Some column)))
     else if op = ''normalize_case'' then
       rbind (require_keys column a [''mode''] []) (\<lambda>_.
       rbind (arg a ''mode'') (\<lambda>mode.
       require (mode = PyStr ''upper'' \<or> mode = PyStr ''lower'')
         (mapping_config_error (Some column))))
     else Inl (mapping_config_error (Some column)))"

definition validate_derive_generator_args ::
  "transform_spec \<Rightarrow> string \<Rightarrow> (exn, unit) result" where
  "validate_derive_generator_args spec column = (let op = ts_op spec; a = ts_args spec in
     if op = ''copy'' \<or> op = ''date_from_datetime'' then
       rbind (require_keys column a [''source_column''] []) (\<lambda>_.
       rbind (require_str column a ''source_column'') (\<lambda>_. Inr ()))
     else if op = ''constant'' then
       rbind (require_keys column a [''value''] []) (\<lambda>_.
       rbind (arg a ''value'') (\<lambda>v.
       require (is_scalar v) (mapping_config_error (Some column))))
     else Inl (mapping_config_error (Some column)))"

definition validate_cast_spec :: "cast_spec \<Rightarrow> string \<Rightarrow> (exn, unit) result" where
  "validate_cast_spec spec column =
     (if cs_type spec = CDecimal then
        (case (cs_precision spec, cs_scale spec) of
           (Some p, Some s) \<Rightarrow>
             require (\<not> (p < 1 \<or> s < 0 \<or> s > p)) (mapping_config_error (Some column))
         | _ \<Rightarrow> Inl (mapping_config_error (Some column)))
      else require (cs_precision spec = None \<and> cs_scale spec = None)
             (mapping_config_error (Some column)))"

section \<open>SourceMapping\<close>

definition target_columns :: "source_mapping \<Rightarrow> string list" where
  "target_columns m = dvals (sm_rename m) @ dkeys (sm_derive m)"

definition validate_derive_list ::
  "source_mapping \<Rightarrow> string \<Rightarrow> transform_spec list \<Rightarrow> string list \<Rightarrow> (exn, unit) result" where
  "validate_derive_list m column specs rename_targets =
     (case specs of
        [] \<Rightarrow> Inl (mapping_config_error (Some column))
      | generator # rest \<Rightarrow>
          rbind (validate_derive_generator_args generator column) (\<lambda>_.
          rbind (if ts_op generator = ''copy'' \<or> ts_op generator = ''date_from_datetime''
                 then rbind (arg (ts_args generator) ''source_column'') (\<lambda>source.
                      rbind (require (the_str source \<in> set rename_targets)
                               (mapping_config_error (Some column))) (\<lambda>_.
                      if ts_op generator = ''date_from_datetime''
                      then require (case dget (sm_cast m) (the_str source) of
                                      None \<Rightarrow> False | Some c \<Rightarrow> cs_type c = CDatetime)
                             (mapping_config_error (Some column))
                      else Inr ()))
                 else Inr ()) (\<lambda>_.
          rbind (for_each (\<lambda>spec.
                   rbind (require (ts_op spec \<in> set NORMALIZE_OPS)
                            (mapping_config_error (Some column))) (\<lambda>_.
                   validate_normalize_args spec column)) rest) (\<lambda>_.
          if rest = [] then Inr ()
          else if ts_op generator = ''date_from_datetime''
          then Inl (mapping_config_error (Some column))
          else if ts_op generator = ''constant'' \<and>
                  \<not> is_str (arg_or (ts_args generator) ''value'' PyNone)
          then Inl (mapping_config_error (Some column))
          else if ts_op generator = ''copy''
          then require (case dget (sm_cast m)
                              (the_str (arg_or (ts_args generator) ''source_column'' PyNone)) of
                          None \<Rightarrow> True | Some c \<Rightarrow> cs_type c = CString)
                 (mapping_config_error (Some column))
          else Inr ()))))"

definition validate_rules :: "source_mapping \<Rightarrow> (exn, unit) result" where
  "validate_rules m =
     (let targets = dvals (sm_rename m) in
      rbind (require (\<not> sm_version m < 1) (mapping_config_error None)) (\<lambda>_.
      rbind (require (\<not> list_ex (\<lambda>t. count_list targets t > 1) targets)
               (mapping_config_error None)) (\<lambda>_.
      rbind (for_each (\<lambda>c. require (c \<in> set targets) (mapping_config_error (Some c)))
               (dkeys (sm_normalize m))) (\<lambda>_.
      rbind (for_each (\<lambda>c. require (c \<in> set targets) (mapping_config_error (Some c)))
               (dkeys (sm_cast m))) (\<lambda>_.
      rbind (for_each (\<lambda>c. require (c \<notin> set targets) (mapping_config_error (Some c)))
               (dkeys (sm_derive m))) (\<lambda>_.
      rbind (for_each (\<lambda>(c, specs). for_each (\<lambda>spec. validate_normalize_args spec c) specs)
               (sm_normalize m)) (\<lambda>_.
      rbind (for_each (\<lambda>(c, spec). validate_cast_spec spec c) (sm_cast m)) (\<lambda>_.
      for_each (\<lambda>(c, specs). validate_derive_list m c specs targets) (sm_derive m)))))))))"


text \<open>A mapping the constructor returned: its fields are dictionaries and the rules hold.\<close>

definition mapping_ok :: "source_mapping \<Rightarrow> bool" where
  "mapping_ok m \<longleftrightarrow> dict_ok (sm_rename m) \<and> dict_ok (sm_normalize m) \<and> dict_ok (sm_cast m) \<and>
     dict_ok (sm_derive m) \<and> validate_rules m = Inr ()"

section \<open>What the validation guarantees\<close>

lemma distinct_count: "\<not> list_ex (\<lambda>t. count_list xs t > 1) xs \<Longrightarrow> distinct xs"
proof -
  assume a: "\<not> list_ex (\<lambda>t. count_list xs t > 1) xs"
  have "\<not> distinct xs \<Longrightarrow> \<exists>t \<in> set xs. count_list xs t > 1"
  proof (induction xs)
    case (Cons x xs)
    then show ?case
    proof (cases "x \<in> set xs")
      case True
      then have "count_list xs x > 0" using count_list_0_iff [of xs x] by auto
      then show ?thesis by auto
    qed (use Cons in fastforce)
  qed simp
  with a show ?thesis by (auto simp: list_ex_iff)
qed

lemma validate_rules_Inr:
  "validate_rules m = Inr u \<longleftrightarrow> 1 \<le> sm_version m \<and>
     \<not> list_ex (\<lambda>t. count_list (dvals (sm_rename m)) t > 1) (dvals (sm_rename m)) \<and>
     (\<forall>c \<in> set (dkeys (sm_normalize m)). c \<in> set (dvals (sm_rename m))) \<and>
     (\<forall>c \<in> set (dkeys (sm_cast m)). c \<in> set (dvals (sm_rename m))) \<and>
     (\<forall>c \<in> set (dkeys (sm_derive m)). c \<notin> set (dvals (sm_rename m))) \<and>
     (\<forall>(c, specs) \<in> set (sm_normalize m). \<forall>spec \<in> set specs. validate_normalize_args spec c = Inr ()) \<and>
     (\<forall>(c, spec) \<in> set (sm_cast m). validate_cast_spec spec c = Inr ()) \<and>
     (\<forall>(c, specs) \<in> set (sm_derive m). validate_derive_list m c specs (dvals (sm_rename m)) = Inr ())"
  unfolding validate_rules_def Let_def result_simps split_def not_less by blast

lemma mapping_okD:
  assumes "mapping_ok m"
  shows "distinct (target_columns m)" "distinct (dvals (sm_rename m))"
    "fst ` set (sm_normalize m) \<subseteq> set (dvals (sm_rename m))"
    "fst ` set (sm_cast m) \<subseteq> set (dvals (sm_rename m))"
    "fst ` set (sm_derive m) \<inter> set (dvals (sm_rename m)) = {}"
    "\<forall>(c, specs) \<in> set (sm_normalize m). \<forall>spec \<in> set specs. validate_normalize_args spec c = Inr ()"
    "\<forall>(c, spec) \<in> set (sm_cast m). validate_cast_spec spec c = Inr ()"
    "\<forall>(c, specs) \<in> set (sm_derive m). validate_derive_list m c specs (dvals (sm_rename m)) = Inr ()"
proof -
  have v: "validate_rules m = Inr ()" using assms by (simp add: mapping_ok_def)
  note r = v [unfolded validate_rules_Inr]
  show d: "distinct (dvals (sm_rename m))" by (rule distinct_count) (use r in blast)
  show disj: "fst ` set (sm_derive m) \<inter> set (dvals (sm_rename m)) = {}" using r by auto
  show "distinct (target_columns m)"
    using d disj assms by (auto simp: target_columns_def mapping_ok_def dict_ok_def)
  show "fst ` set (sm_normalize m) \<subseteq> set (dvals (sm_rename m))"
    "fst ` set (sm_cast m) \<subseteq> set (dvals (sm_rename m))" using r by auto
qed (use assms in \<open>simp_all add: mapping_ok_def validate_rules_Inr\<close>)

text \<open>
  Every refusal of the constructor is a \<open>MappingConfigError\<close>: the key checks come before the
  lookups they guard, so no \<open>KeyError\<close> escapes.
\<close>

definition config_error :: "(exn, 'a) result \<Rightarrow> bool" where
  "config_error r \<longleftrightarrow> (\<forall>e. r = Inl e \<longrightarrow> exn_class e = MappingConfigError)"

lemma config_error_bind:
  "config_error r \<Longrightarrow> (\<And>a. r = Inr a \<Longrightarrow> config_error (f a)) \<Longrightarrow> config_error (rbind r f)"
  by (cases r) (auto simp: config_error_def)

lemma config_error_Inr [simp, intro]: "config_error (Inr a)"
  by (simp add: config_error_def)

lemma config_error_Inl [simp]: "config_error (Inl e) \<longleftrightarrow> exn_class e = MappingConfigError"
  by (simp add: config_error_def)

lemma config_class [simp]: "exn_class (mapping_config_error c) = MappingConfigError"
  by (simp add: mapping_error_def)

lemma config_error_require [simp]: "config_error (require b (mapping_config_error c))"
  by (simp add: require_def)

lemma config_error_for_each: "(\<And>x. x \<in> set xs \<Longrightarrow> config_error (f x)) \<Longrightarrow> config_error (for_each f xs)"
  by (induction xs) (auto intro!: config_error_bind)

lemma config_error_keys [simp]: "config_error (require_keys c a ks opt)"
  by (simp add: require_keys_def)

lemma require_keys_in:
  "require_keys c a ks opt = Inr u \<Longrightarrow> k \<in> set ks \<Longrightarrow> \<exists>v. dget a k = Some v"
proof -
  assume "require_keys c a ks opt = Inr u" and "k \<in> set ks"
  then have "k \<in> fst ` set a" by (auto simp: require_keys_def list_ex_iff split: if_splits)
  then show ?thesis using dget_None_iff [of a k] by auto
qed

lemma config_error_arg: "dget a k = Some v \<Longrightarrow> config_error (arg a k)"
  by (simp add: arg_def)

lemma config_error_str: "dget a k = Some v \<Longrightarrow> config_error (require_str c a k)"
  by (cases v) (simp_all add: require_str_def arg_def)

lemma config_error_strs: "dget a k = Some v \<Longrightarrow> config_error (require_str_list c a k)"
  by (cases v) (simp_all add: require_str_list_def arg_def)

lemma validate_normalize_args_error: "config_error (validate_normalize_args spec c)"
proof -
  have keyed: "config_error (rbind (require_keys c a ks opt) f)"
    if "\<And>vs. \<forall>k \<in> set ks. \<exists>v. dget a k = Some v \<Longrightarrow> config_error (f ())" for a ks opt and f :: "unit \<Rightarrow> (exn, unit) result"
    by (rule config_error_bind) (use that require_keys_in [of c a ks opt] in auto)
  show ?thesis
    unfolding validate_normalize_args_def validate_parse_datetime_def validate_parse_decimal_def
      validate_map_enum_def Let_def
    by (auto intro!: keyed config_error_bind simp: arg_def
        split: pyval.splits intro: config_error_str config_error_strs)
qed

lemma generator_source:
  assumes "validate_derive_generator_args g c = Inr u" "ts_op g = ''copy'' \<or> ts_op g = ''date_from_datetime''"
  shows "\<exists>v. dget (ts_args g) ''source_column'' = Some v"
  using assms require_keys_in [of c "ts_args g" "[''source_column'']" "[]"]
  by (auto simp: validate_derive_generator_args_def Let_def result_simps)

lemma validate_derive_generator_error: "config_error (validate_derive_generator_args g c)"
proof -
  have keyed: "config_error (rbind (require_keys c a [k] []) f)"
    if "\<And>v. dget a k = Some v \<Longrightarrow> config_error (f ())" for a k and f :: "unit \<Rightarrow> (exn, unit) result"
    by (rule config_error_bind) (use that require_keys_in [of c a "[k]" "[]"] in auto)
  show ?thesis unfolding validate_derive_generator_args_def Let_def
    by (auto intro!: keyed config_error_bind simp: arg_def intro: config_error_str)
qed

lemma validate_derive_list_error: "config_error (validate_derive_list m c specs T)"
proof (cases specs)
  case (Cons g rest)
  have gen: "config_error (rbind (validate_derive_generator_args g c) f)"
    if "\<And>u. validate_derive_generator_args g c = Inr u \<Longrightarrow> config_error (f ())"
    for f :: "unit \<Rightarrow> (exn, unit) result"
    by (rule config_error_bind) (use that validate_derive_generator_error in auto)
  have src: "config_error (arg (ts_args g) ''source_column'')"
    if "validate_derive_generator_args g c = Inr u" "ts_op g = ''copy'' \<or> ts_op g = ''date_from_datetime''" for u
    using generator_source [OF that] by (auto simp: arg_def)
  show ?thesis unfolding validate_derive_list_def Cons list.case
    by (rule gen) (auto intro!: config_error_bind config_error_for_each validate_normalize_args_error intro: src)
qed (simp add: validate_derive_list_def)

text \<open>Every refusal of the constructor is a \<open>MappingConfigError\<close>; no lookup fails with a
  \<open>KeyError\<close> on the way.\<close>

theorem validate_rules_config_error:
  "validate_rules m = Inl e \<Longrightarrow> exn_class e = MappingConfigError"
proof -
  have "config_error (validate_cast_spec spec c)" for spec c
    by (auto simp: validate_cast_spec_def split: option.splits)
  then have "config_error (validate_rules m)" unfolding validate_rules_def Let_def
    by (auto intro!: config_error_bind config_error_for_each validate_normalize_args_error
        validate_derive_list_error)
  then show "validate_rules m = Inl e \<Longrightarrow> exn_class e = MappingConfigError"
    by (simp add: config_error_def)
qed

definition bad_mapping :: source_mapping where
  "bad_mapping = \<lparr>sm_version = 1, sm_rename = [(''Price'', ''unit_price'')],
     sm_normalize = [(''unit_price'', [\<lparr>ts_op = ''parse_decimal'',
        ts_args = [(''decimal_separator'', PyStr '','')]\<rparr>])],
     sm_cast = [], sm_derive = []\<rparr>"

theorem validate_rules_config_error_witness:
  "\<exists>e. validate_rules bad_mapping = Inl e \<and> exn_class e = MappingConfigError"
proof -
  have "validate_rules bad_mapping = Inl (mapping_config_error (Some ''unit_price''))" by code_simp
  then show ?thesis using validate_rules_config_error by blast
qed

end
