(* ===== verification/Mapping_Engine.thy ===== *)
theory Mapping_Engine
  imports Mapping_Model
begin

text \<open>
  The engine of \<open>libs/dis-mapping\<close>: \<open>engine/rename.py\<close>, \<open>normalize.py\<close>, \<open>cast.py\<close>,
  \<open>derive.py\<close>, \<open>apply.py\<close> and the result types of \<open>result.py\<close>.

  A polars series is its dtype and its cells (\<open>PyNone\<close> is null); a frame is a dictionary from
  column names to series. What polars computes on a cell (date parsing and printing, time
  zones, case folding, decimal arithmetic, casts) is the record \<open>polars\<close> of parameters; the
  null handling, the masks, the regular expressions of the numeric ops and everything else
  the engine builds from them is written out.
\<close>

section \<open>Series and frames\<close>

datatype dtype = DString | DInt64 | DDecimal int int | DDate | DDatetime string "string option"
  | DBoolean | DOther string

record series =
  ser_dtype :: dtype
  ser_vals :: "pyval list"

type_synonym frame = "(string, series) pydict"

definition frame_height :: "frame \<Rightarrow> nat" where
  "frame_height f = (case f of [] \<Rightarrow> 0 | (c, s) # _ \<Rightarrow> length (ser_vals s))"

definition frame_ok :: "nat \<Rightarrow> frame \<Rightarrow> bool" where
  "frame_ok n f \<longleftrightarrow> dict_ok f \<and> (\<forall>s \<in> snd ` set f. length (ser_vals s) = n)"

text \<open>\<open>frame.get_column(name)\<close>.\<close>

definition get_column :: "frame \<Rightarrow> string \<Rightarrow> (exn, series) result" where
  "get_column f c = (case dget f c of
      None \<Rightarrow> Inl (py_exn (PyForeign ''polars.exceptions.ColumnNotFoundError''))
    | Some s \<Rightarrow> Inr s)"

record op_outcome =
  oo_values :: series
  oo_failed :: "bool list"
  oo_expected :: string

record polars =
  pl_strptime_date :: "string \<Rightarrow> (exn, string \<Rightarrow> pyval) result"
  pl_strftime_date :: "pyval \<Rightarrow> string"
  pl_strptime_datetime :: "string \<Rightarrow> (exn, string \<Rightarrow> pyval) result"
  pl_strptime_aware :: "string \<Rightarrow> bool"
  pl_zone_known :: "string option \<Rightarrow> bool"
  pl_replace_time_zone :: "string option \<Rightarrow> pyval \<Rightarrow> pyval"
  pl_to_utc :: "pyval \<Rightarrow> pyval"
  pl_strftime_datetime :: "pyval \<Rightarrow> string"
  pl_to_uppercase :: "string \<Rightarrow> string"
  pl_to_lowercase :: "string \<Rightarrow> string"
  pl_strip_chars :: "string \<Rightarrow> string"
  pl_decimal18 :: "string \<Rightarrow> pyval"
  pl_div100_str :: "pyval \<Rightarrow> string"
  pl_cast_str :: "dtype \<Rightarrow> string \<Rightarrow> pyval"
  pl_to_date :: "string \<Rightarrow> pyval"
  pl_to_datetime :: "string \<Rightarrow> pyval"
  pl_cast :: "dtype \<Rightarrow> dtype \<Rightarrow> pyval \<Rightarrow> pyval"
  pl_date_of :: "pyval \<Rightarrow> pyval"
  pl_literal_dtype :: "pyval \<Rightarrow> dtype"
  pl_typed_op :: "string \<Rightarrow> args \<Rightarrow> series \<Rightarrow> (exn, op_outcome) result"

text \<open>
  Element-wise operations keep nulls. \<open>pl_typed_op\<close> is what polars does when a string op meets
  a column of another dtype; it is constrained by nothing.
\<close>

definition on_str :: "(string \<Rightarrow> pyval) \<Rightarrow> pyval \<Rightarrow> pyval" where
  "on_str f v = (case v of PyStr s \<Rightarrow> f s | _ \<Rightarrow> PyNone)"

definition on_val :: "(pyval \<Rightarrow> pyval) \<Rightarrow> pyval \<Rightarrow> pyval" where
  "on_val f v = (if v = PyNone then PyNone else f v)"

definition smap :: "dtype \<Rightarrow> (pyval \<Rightarrow> pyval) \<Rightarrow> series \<Rightarrow> series" where
  "smap d f s = \<lparr>ser_dtype = d, ser_vals = map f (ser_vals s)\<rparr>"

abbreviation str_series :: "(string \<Rightarrow> string) \<Rightarrow> series \<Rightarrow> series" where
  "str_series f \<equiv> smap DString (on_str (\<lambda>x. PyStr (f x)))"

definition is_null :: "series \<Rightarrow> bool list" where
  "is_null s = map (\<lambda>v. v = PyNone) (ser_vals s)"

definition is_not_null :: "series \<Rightarrow> bool list" where
  "is_not_null s = map (\<lambda>v. v \<noteq> PyNone) (ser_vals s)"

text \<open>\<open>s.is_in(xs)\<close> and \<open>s.str.contains(p)\<close>, with the null entries filled with \<open>False\<close>.\<close>

definition str_mask :: "(string \<Rightarrow> bool) \<Rightarrow> series \<Rightarrow> bool list" where
  "str_mask p s = map (\<lambda>v. case v of PyStr x \<Rightarrow> p x | _ \<Rightarrow> False) (ser_vals s)"

definition mask_and :: "bool list \<Rightarrow> bool list \<Rightarrow> bool list" where
  "mask_and a b = map2 (\<and>) a b"

definition mask_not :: "bool list \<Rightarrow> bool list" where
  "mask_not a = map Not a"

definition no_failures :: "series \<Rightarrow> bool list" where
  "no_failures s = replicate (length (ser_vals s)) False"

definition null_where :: "series \<Rightarrow> bool list \<Rightarrow> series" where
  "null_where vs msk =
     vs\<lparr>ser_vals := map2 (\<lambda>v b. if b then PyNone else v) (ser_vals vs) msk\<rparr>"

section \<open>The numeric expressions\<close>

text \<open>The integer part: digits, or groups of three under the declared thousands separator.\<close>

fun sep_groups :: "char \<Rightarrow> string \<Rightarrow> bool" where
  "sep_groups c [] = True"
| "sep_groups c (x # d1 # d2 # d3 # rest) =
     (x = c \<and> is_digit d1 \<and> is_digit d2 \<and> is_digit d3 \<and> sep_groups c rest)"
| "sep_groups c _ = False"

definition numeric_body :: "string option \<Rightarrow> string \<Rightarrow> bool" where
  "numeric_body thou b \<longleftrightarrow> (b \<noteq> [] \<and> list_all is_digit b) \<or>
     (case thou of
        Some (c # _) \<Rightarrow>
          list_ex (\<lambda>k. k < length b \<and> list_all is_digit (take k b) \<and> sep_groups c (drop k b))
            [1, 2, 3]
      | _ \<Rightarrow> False)"

definition fraction :: "string \<Rightarrow> string \<Rightarrow> bool" where
  "fraction sep r \<longleftrightarrow> r = [] \<or>
     (starts_with sep r \<and> drop (length sep) r \<noteq> [] \<and> list_all is_digit (drop (length sep) r))"

text \<open>
  \<open>^[+-]?BODY(TAIL)$\<close>: some split after the optional sign has the body before and the tail
  after it.
\<close>

definition signed_splits :: "string \<Rightarrow> string list" where
  "signed_splits s = s # (case s of c # cs \<Rightarrow> if c = CHR ''+'' \<or> c = CHR ''-'' then [cs] else [] | [] \<Rightarrow> [])"

definition match_number :: "string option \<Rightarrow> (string \<Rightarrow> bool) \<Rightarrow> string \<Rightarrow> bool" where
  "match_number thou tail s \<longleftrightarrow>
     list_ex (\<lambda>t. list_ex (\<lambda>i. numeric_body thou (take i t) \<and> tail (drop i t)) [0..<Suc (length t)])
       (signed_splits s)"

definition decimal_pattern :: "string \<Rightarrow> string option \<Rightarrow> string \<Rightarrow> bool" where
  "decimal_pattern sep thou = match_number thou (fraction sep)"

definition percent_pattern :: "string \<Rightarrow> string option \<Rightarrow> string \<Rightarrow> bool" where
  "percent_pattern sep thou = match_number thou
     (\<lambda>r. fraction sep r \<or> (r \<noteq> [] \<and> last r = CHR ''%'' \<and> fraction sep (butlast r)))"

definition integer_pattern :: "string option \<Rightarrow> string \<Rightarrow> bool" where
  "integer_pattern thou = match_number thou (\<lambda>r. r = [])"

text \<open>The literal replacements of \<open>_strip_separators\<close>; a validated separator is one character.\<close>

definition replace_all :: "string \<Rightarrow> string \<Rightarrow> string \<Rightarrow> string" where
  "replace_all old new s = (case old of [c] \<Rightarrow> replace_char c new s | _ \<Rightarrow> s)"

definition strip_separators :: "string option \<Rightarrow> string option \<Rightarrow> string \<Rightarrow> string" where
  "strip_separators decs thou s =
     (let cleaned = (case thou of Some t \<Rightarrow> if t \<noteq> [] then replace_all t [] s else s | None \<Rightarrow> s)
      in case decs of
           Some d \<Rightarrow> if d \<noteq> [] \<and> d \<noteq> ''.'' then replace_all d ''.'' cleaned else cleaned
         | None \<Rightarrow> cleaned)"

text \<open>The expressions \<open>%$\<close>, \<open>0+$\<close>, \<open>\.$\<close> replaced by the empty text, and \<open>\s+\<close> by one space.\<close>

definition drop_last_char :: "char \<Rightarrow> string \<Rightarrow> string" where
  "drop_last_char c s = (if s \<noteq> [] \<and> last s = c then butlast s else s)"

definition trim_zeros :: "string \<Rightarrow> string" where
  "trim_zeros s = rev (dropWhile (\<lambda>c. c = CHR ''0'') (rev s))"

definition rx_space :: "char \<Rightarrow> bool" where
  "rx_space c \<longleftrightarrow> (let n = of_char c :: nat in (9 \<le> n \<and> n \<le> 13) \<or> n = 32 \<or> n = 133 \<or> n = 160)"

fun collapse_space :: "bool \<Rightarrow> string \<Rightarrow> string" where
  "collapse_space inrun [] = []"
| "collapse_space inrun (c # cs) =
     (if rx_space c then (if inrun then collapse_space True cs else CHR '' '' # collapse_space True cs)
      else c # collapse_space False cs)"

section \<open>The normalize ops\<close>

text \<open>Reading an argument at the type the op gives it.\<close>

definition arg_str :: "args \<Rightarrow> string \<Rightarrow> (exn, string) result" where
  "arg_str a k = rbind (arg a k) (\<lambda>v. case v of PyStr s \<Rightarrow> Inr s | _ \<Rightarrow> Inl (py_exn PyTypeError))"

definition arg_opt_str :: "args \<Rightarrow> string \<Rightarrow> (exn, string option) result" where
  "arg_opt_str a k = rbind (arg a k) (\<lambda>v. case v of
     PyNone \<Rightarrow> Inr None | PyStr s \<Rightarrow> Inr (Some s) | _ \<Rightarrow> Inl (py_exn PyTypeError))"

definition arg_strs :: "args \<Rightarrow> string \<Rightarrow> (exn, string list) result" where
  "arg_strs a k = rbind (arg a k) (\<lambda>v. case v of
     PyList vs \<Rightarrow> if list_all is_str vs then Inr (map the_str vs) else Inl (py_exn PyTypeError)
   | _ \<Rightarrow> Inl (py_exn PyTypeError))"

definition arg_str_dict :: "args \<Rightarrow> string \<Rightarrow> (exn, (string, string) pydict) result" where
  "arg_str_dict a k = rbind (arg a k) (\<lambda>v. case v of
     PyDict d \<Rightarrow> if list_all (\<lambda>kv. is_str (snd kv)) d
                then Inr (map (\<lambda>kv. (fst kv, the_str (snd kv))) d) else Inl (py_exn PyTypeError)
   | _ \<Rightarrow> Inl (py_exn PyTypeError))"

definition arg_flag :: "args \<Rightarrow> string \<Rightarrow> bool \<Rightarrow> bool" where
  "arg_flag a k b = (case arg_or a k (PyBool b) of PyBool x \<Rightarrow> x | _ \<Rightarrow> False)"

definition parse_date :: "polars \<Rightarrow> series \<Rightarrow> args \<Rightarrow> (exn, op_outcome) result" where
  "parse_date pl s a =
     rbind (arg_str a ''format'') (\<lambda>fmt.
     rbind (pl_strptime_date pl fmt) (\<lambda>conv.
       let parsed = smap DDate (on_str conv) s;
           failed = mask_and (is_null parsed) (is_not_null s)
       in Inr \<lparr>oo_values = smap DString (on_val (\<lambda>v. PyStr (pl_strftime_date pl v))) parsed,
               oo_failed = failed, oo_expected = ''date in format '' @ repr_str fmt\<rparr>))"

definition parse_datetime :: "polars \<Rightarrow> string \<Rightarrow> series \<Rightarrow> args \<Rightarrow> (exn, op_outcome) result" where
  "parse_datetime pl name s a =
     rbind (arg_str a ''format'') (\<lambda>fmt.
     rbind (arg_opt_str a ''timezone'') (\<lambda>tz.
     rbind (pl_strptime_datetime pl fmt) (\<lambda>conv.
       let aware = pl_strptime_aware pl fmt;
           parsed0 = smap (DDatetime ''us'' (if aware then Some ''UTC'' else None)) (on_str conv) s
       in rbind
         (if aware then Inr (smap (DDatetime ''us'' (Some ''UTC'')) (on_val (pl_to_utc pl)) parsed0)
          else if pl_zone_known pl tz
          then Inr (smap (DDatetime ''us'' (Some ''UTC''))
                      (\<lambda>v. on_val (pl_to_utc pl) (on_val (pl_replace_time_zone pl tz) v)) parsed0)
          else Inl (mapping_config_error (Some name)))
         (\<lambda>parsed.
           let failed = mask_and (is_null parsed) (is_not_null s);
               expected = ''datetime in format '' @ repr_str fmt @
                 (case tz of Some z \<Rightarrow> if z \<noteq> [] then '' in zone '' @ z else '' with offset''
                  | None \<Rightarrow> '' with offset'')
           in Inr \<lparr>oo_values = smap DString (on_val (\<lambda>v. PyStr (pl_strftime_datetime pl v))) parsed,
                   oo_failed = failed, oo_expected = expected\<rparr>))))"

definition and_thousands :: "string option \<Rightarrow> string \<Rightarrow> string" where
  "and_thousands thou w = (case thou of
     Some t \<Rightarrow> if t \<noteq> [] then w @ repr_str t else [] | None \<Rightarrow> [])"

definition parse_decimal :: "series \<Rightarrow> args \<Rightarrow> (exn, op_outcome) result" where
  "parse_decimal s a =
     rbind (arg_str a ''decimal_separator'') (\<lambda>sep.
     rbind (arg_opt_str a ''thousands_separator'') (\<lambda>thou.
       let ok = str_mask (decimal_pattern sep thou) s;
           failed = mask_and (is_not_null s) (mask_not ok);
           cleaned = str_series (strip_separators (Some sep) thou) s
       in Inr \<lparr>oo_values = null_where cleaned failed, oo_failed = failed,
               oo_expected = ''decimal with separator '' @ repr_str sep @
                 and_thousands thou '' and thousands ''\<rparr>))"

definition parse_percent :: "polars \<Rightarrow> series \<Rightarrow> args \<Rightarrow> (exn, op_outcome) result" where
  "parse_percent pl s a =
     rbind (arg_str a ''decimal_separator'') (\<lambda>sep.
     rbind (arg_opt_str a ''thousands_separator'') (\<lambda>thou.
       let ok = str_mask (percent_pattern sep thou) s;
           failed = mask_and (is_not_null s) (mask_not ok);
           body = str_series (drop_last_char (CHR ''%'')) s;
           cleaned = str_series (strip_separators (Some sep) thou) body;
           divided = str_series (drop_last_char (CHR ''.''))
             (str_series trim_zeros
               (smap DString (on_val (\<lambda>v. PyStr (pl_div100_str pl v)))
                 (smap (DDecimal 38 18) (on_str (pl_decimal18 pl)) cleaned)))
       in Inr \<lparr>oo_values = null_where divided failed, oo_failed = failed,
               oo_expected = ''percentage with decimal separator '' @ repr_str sep @
                 and_thousands thou '' and thousands ''\<rparr>))"

definition parse_integer :: "series \<Rightarrow> args \<Rightarrow> (exn, op_outcome) result" where
  "parse_integer s a =
     rbind (arg_opt_str a ''thousands_separator'') (\<lambda>thou.
       let ok = str_mask (integer_pattern thou) s;
           failed = mask_and (is_not_null s) (mask_not ok);
           cleaned = str_series (strip_separators None thou) s
       in Inr \<lparr>oo_values = null_where cleaned failed, oo_failed = failed,
               oo_expected = ''integer'' @ and_thousands thou '' with thousands ''\<rparr>)"

definition parse_boolean :: "series \<Rightarrow> args \<Rightarrow> (exn, op_outcome) result" where
  "parse_boolean s a =
     rbind (arg_strs a ''true_values'') (\<lambda>tv.
     rbind (arg_strs a ''false_values'') (\<lambda>fv.
       let is_true = str_mask (\<lambda>x. x \<in> set tv) s;
           is_false = str_mask (\<lambda>x. x \<in> set fv) s;
           vals = smap DString (on_str (\<lambda>x. if x \<in> set tv then PyStr ''true''
                     else if x \<in> set fv then PyStr ''false'' else PyNone)) s
       in Inr \<lparr>oo_values = vals,
               oo_failed = mask_and (is_not_null s) (mask_not (map2 (\<or>) is_true is_false)),
               oo_expected = ''boolean token in '' @ repr_str_list tv @ '' or '' @ repr_str_list fv\<rparr>))"

text \<open>\<open>{k.upper(): v for k, v in mapping.items()}\<close>.\<close>

definition upper_lookup :: "(string, string) pydict \<Rightarrow> (string, string) pydict" where
  "upper_lookup d = foldl (\<lambda>acc kv. dset (py_upper (fst kv)) (snd kv) acc) [] d"

definition map_enum :: "polars \<Rightarrow> series \<Rightarrow> args \<Rightarrow> (exn, op_outcome) result" where
  "map_enum pl s a =
     rbind (arg_str_dict a ''mapping'') (\<lambda>mapping.
       let ci = arg_flag a ''case_insensitive'' False;
           lookup = (if ci then upper_lookup mapping else mapping);
           keys = (if ci then str_series (pl_to_uppercase pl) s else s);
           mapped = smap DString (on_str (\<lambda>x. case dget lookup x of
                       None \<Rightarrow> PyNone | Some v \<Rightarrow> PyStr v)) keys
       in Inr \<lparr>oo_values = mapped, oo_failed = mask_and (is_null mapped) (is_not_null s),
               oo_expected = ''one of '' @ repr_str_list (sort (dkeys mapping))\<rparr>)"

definition null_tokens :: "series \<Rightarrow> args \<Rightarrow> (exn, op_outcome) result" where
  "null_tokens s a =
     rbind (arg_strs a ''tokens'') (\<lambda>tokens.
       Inr \<lparr>oo_values = null_where s (str_mask (\<lambda>x. x \<in> set tokens) s),
            oo_failed = no_failures s, oo_expected = []\<rparr>)"

definition normalize_whitespace :: "polars \<Rightarrow> series \<Rightarrow> args \<Rightarrow> (exn, op_outcome) result" where
  "normalize_whitespace pl s a =
     (let v1 = (if arg_flag a ''trim'' True then str_series (pl_strip_chars pl) s else s);
          v2 = (if arg_flag a ''collapse'' True then str_series (collapse_space False) v1 else v1)
      in Inr \<lparr>oo_values = v2, oo_failed = no_failures s, oo_expected = []\<rparr>)"

definition normalize_case :: "polars \<Rightarrow> series \<Rightarrow> args \<Rightarrow> (exn, op_outcome) result" where
  "normalize_case pl s a =
     rbind (arg a ''mode'') (\<lambda>mode.
       Inr \<lparr>oo_values = str_series (if mode = PyStr ''upper'' then pl_to_uppercase pl
                                    else pl_to_lowercase pl) s,
            oo_failed = no_failures s, oo_expected = []\<rparr>)"

text \<open>The registry: an unknown op is a \<open>KeyError\<close>.\<close>

definition NORMALIZE_IMPLS ::
  "polars \<Rightarrow> string \<Rightarrow> string \<Rightarrow> series \<Rightarrow> args \<Rightarrow> (exn, op_outcome) result" where
  "NORMALIZE_IMPLS pl name op s a =
     (if op \<notin> set NORMALIZE_OPS then Inl (py_exn PyKeyError)
      else if ser_dtype s \<noteq> DString then pl_typed_op pl op a s
      else if op = ''parse_date'' then parse_date pl s a
      else if op = ''parse_datetime'' then parse_datetime pl name s a
      else if op = ''parse_decimal'' then parse_decimal s a
      else if op = ''parse_percent'' then parse_percent pl s a
      else if op = ''parse_integer'' then parse_integer s a
      else if op = ''parse_boolean'' then parse_boolean s a
      else if op = ''map_enum'' then map_enum pl s a
      else if op = ''null_tokens'' then null_tokens s a
      else if op = ''normalize_whitespace'' then normalize_whitespace pl s a
      else normalize_case pl s a)"

section \<open>Failures and the transform list\<close>

record cell_failure =
  cf_row_index :: nat
  cf_column :: string
  cf_source_column :: "string option"
  cf_value :: "string option"
  cf_op :: string
  cf_transform_index :: nat
  cf_expected_format :: string
  cf_stage :: string
  cf_reason :: string

text \<open>\<open>mask.arg_true().to_list()\<close>.\<close>

definition arg_true :: "bool list \<Rightarrow> nat list" where
  "arg_true m = filter (\<lambda>i. m ! i) [0..<length m]"

definition cell_text :: "pyval \<Rightarrow> string option" where
  "cell_text v = (if v = PyNone then None else Some (py_str v))"

text \<open>
  One column through its list of ops. \<open>impl\<close> is the registry at the column's name, \<open>k\<close> the
  position of the next op; the failures found are returned in the order they are appended.
\<close>

fun transform_steps ::
  "(string \<Rightarrow> series \<Rightarrow> args \<Rightarrow> (exn, op_outcome) result) \<Rightarrow> string \<Rightarrow> string option \<Rightarrow> string \<Rightarrow>
   nat \<Rightarrow> series \<Rightarrow> transform_spec list \<Rightarrow> (exn, series \<times> cell_failure list) result" where
  "transform_steps impl column src stage k current [] = Inr (current, [])"
| "transform_steps impl column src stage k current (spec # specs) =
     rbind (impl (ts_op spec) current (ts_args spec)) (\<lambda>outcome.
     let failed = oo_failed outcome;
         found = map (\<lambda>row. \<lparr>cf_row_index = row, cf_column = column, cf_source_column = src,
             cf_value = cell_text (ser_vals current ! row), cf_op = ts_op spec,
             cf_transform_index = k, cf_expected_format = oo_expected outcome, cf_stage = stage,
             cf_reason = ''column '' @ repr_str column @ '': step '' @ dec_str k @ '' ('' @ ts_op spec
               @ '') could not normalize the value; expected '' @ oo_expected outcome\<rparr>)
           (arg_true failed)
     in rbind (transform_steps impl column src stage (Suc k) (null_where (oo_values outcome) failed) specs)
          (\<lambda>(final, later). Inr (final, found @ later)))"

definition apply_transform_list ::
  "polars \<Rightarrow> series \<Rightarrow> string \<Rightarrow> transform_spec list \<Rightarrow> string option \<Rightarrow> string \<Rightarrow> nat \<Rightarrow>
   cell_failure list \<Rightarrow> (exn, series \<times> cell_failure list) result" where
  "apply_transform_list pl s column specs src stage offset failures =
     rbind (transform_steps (NORMALIZE_IMPLS pl column) column src stage offset s specs)
       (\<lambda>(final, found). Inr (final, failures @ found))"

section \<open>The four stages\<close>

definition frame_select :: "frame \<Rightarrow> string list \<Rightarrow> (exn, frame) result" where
  "frame_select f cols = map_result (\<lambda>c. rbind (get_column f c) (\<lambda>s. Inr (c, s))) cols"

definition run_rename :: "frame \<Rightarrow> (string, string) pydict \<Rightarrow> (exn, frame) result" where
  "run_rename f rename =
     (case filter (\<lambda>c. c \<notin> set (dkeys f)) (dkeys rename) of
        c # _ \<Rightarrow> Inl (mapping_input_error (Some c))
      | [] \<Rightarrow> rbind (frame_select f (dkeys rename)) (\<lambda>sel.
          Inr (map (\<lambda>(c, s). (case dget rename c of Some t \<Rightarrow> t | None \<Rightarrow> c, s)) sel)))"

fun run_normalize ::
  "polars \<Rightarrow> frame \<Rightarrow> (string, transform_spec list) pydict \<Rightarrow> (string, string) pydict \<Rightarrow>
   cell_failure list \<Rightarrow> (exn, frame \<times> cell_failure list) result" where
  "run_normalize pl f [] rinv failures = Inr (f, failures)"
| "run_normalize pl f ((column, specs) # rules) rinv failures =
     rbind (get_column f column) (\<lambda>s.
     if ser_dtype s \<noteq> DString then Inl (mapping_input_error (Some column))
     else rbind (apply_transform_list pl s column specs (dget rinv column) ''normalize'' 0 failures)
       (\<lambda>(normalized, failures'). run_normalize pl (dset column normalized f) rules rinv failures'))"

definition target_dtype :: "cast_spec \<Rightarrow> (exn, dtype) result" where
  "target_dtype spec = (case cs_type spec of
     CString \<Rightarrow> Inr DString
   | CInteger \<Rightarrow> Inr DInt64
   | CDecimal \<Rightarrow> (case (cs_precision spec, cs_scale spec) of
       (Some p, Some s) \<Rightarrow> Inr (DDecimal p s) | _ \<Rightarrow> Inl (py_exn PyAssertionError))
   | CDate \<Rightarrow> Inr DDate
   | CDatetime \<Rightarrow> Inr (DDatetime ''us'' (Some ''UTC''))
   | CBoolean \<Rightarrow> Inr DBoolean)"

definition cast_string_series :: "polars \<Rightarrow> series \<Rightarrow> cast_spec \<Rightarrow> dtype \<Rightarrow> series" where
  "cast_string_series pl s spec target = (case cs_type spec of
     CString \<Rightarrow> s
   | CInteger \<Rightarrow> smap DInt64 (on_str (pl_cast_str pl DInt64)) s
   | CDecimal \<Rightarrow> smap target (on_str (pl_cast_str pl target)) s
   | CDate \<Rightarrow> smap DDate (on_str (pl_to_date pl)) s
   | CDatetime \<Rightarrow> smap (DDatetime ''us'' (Some ''UTC'')) (on_str (pl_to_datetime pl)) s
   | CBoolean \<Rightarrow> smap DBoolean (on_str (\<lambda>x. if x = ''true'' then PyBool True
                   else if x = ''false'' then PyBool False else PyNone)) s)"

definition opt_int_str :: "int option \<Rightarrow> string" where
  "opt_int_str i = (case i of None \<Rightarrow> ''None'' | Some n \<Rightarrow> int_str n)"

definition expected_format :: "cast_spec \<Rightarrow> string" where
  "expected_format spec = (case cs_type spec of
     CDecimal \<Rightarrow> ''decimal('' @ opt_int_str (cs_precision spec) @ '','' @
                 opt_int_str (cs_scale spec) @ '')''
   | CDate \<Rightarrow> ''ISO date (%Y-%m-%d)''
   | CDatetime \<Rightarrow> ''ISO-8601 UTC datetime''
   | CBoolean \<Rightarrow> [CHR 0x27] @ ''true'' @ [CHR 0x27] @ '' or '' @ [CHR 0x27] @ ''false'' @ [CHR 0x27]
   | CString \<Rightarrow> ''string''
   | CInteger \<Rightarrow> ''integer'')"

fun run_cast ::
  "polars \<Rightarrow> frame \<Rightarrow> (string, cast_spec) pydict \<Rightarrow> (string, string) pydict \<Rightarrow>
   cell_failure list \<Rightarrow> (exn, frame \<times> cell_failure list) result" where
  "run_cast pl f [] rinv failures = Inr (f, failures)"
| "run_cast pl f ((column, spec) # rules) rinv failures =
     rbind (get_column f column) (\<lambda>s.
     rbind (target_dtype spec) (\<lambda>target.
     if ser_dtype s = target then run_cast pl f rules rinv failures
     else
       let cast_values = (if ser_dtype s = DString then cast_string_series pl s spec target
                          else smap target (on_val (pl_cast pl (ser_dtype s) target)) s);
           failed = mask_and (is_null cast_values) (is_not_null s);
           found = map (\<lambda>row. \<lparr>cf_row_index = row, cf_column = column,
               cf_source_column = dget rinv column, cf_value = cell_text (ser_vals s ! row),
               cf_op = ''cast'', cf_transform_index = 0,
               cf_expected_format = expected_format spec, cf_stage = ''cast'',
               cf_reason = ''column '' @ repr_str column @ '': value could not be cast; expected ''
                 @ expected_format spec\<rparr>) (arg_true failed)
       in run_cast pl (dset column cast_values f) rules rinv (failures @ found)))"

definition generate_col :: "polars \<Rightarrow> frame \<Rightarrow> transform_spec \<Rightarrow> (exn, series) result" where
  "generate_col pl f spec =
     (if ts_op spec = ''copy'' then
        rbind (arg_str (ts_args spec) ''source_column'') (get_column f)
      else if ts_op spec = ''constant'' then
        rbind (arg (ts_args spec) ''value'') (\<lambda>v.
        Inr \<lparr>ser_dtype = pl_literal_dtype pl v, ser_vals = replicate (frame_height f) v\<rparr>)
      else
        rbind (arg_str (ts_args spec) ''source_column'') (\<lambda>c.
        rbind (get_column f c) (\<lambda>source.
        Inr (smap DDate (on_val (pl_date_of pl)) source))))"

definition opt_text :: "pyval \<Rightarrow> string option" where
  "opt_text v = (case v of PyStr s \<Rightarrow> Some s | _ \<Rightarrow> None)"

fun run_derive ::
  "polars \<Rightarrow> frame \<Rightarrow> (string, transform_spec list) pydict \<Rightarrow>
   cell_failure list \<Rightarrow> (exn, frame \<times> cell_failure list) result" where
  "run_derive pl f [] failures = Inr (f, failures)"
| "run_derive pl f ((column, specs) # rules) failures =
     (case specs of
        [] \<Rightarrow> Inl (py_exn (PyForeign ''IndexError''))
      | generator # rest \<Rightarrow>
          rbind (generate_col pl f generator) (\<lambda>s.
          rbind (if rest = [] then Inr (s, failures)
                 else apply_transform_list pl s column rest
                   (opt_text (arg_or (ts_args generator) ''source_column'' PyNone)) ''derive'' 1 failures)
            (\<lambda>(s', failures'). run_derive pl (dset column s' f) rules failures')))"

section \<open>The engine\<close>

record mapping_result =
  mr_contribution :: frame
  mr_source_row_indices :: "nat list"
  mr_failures :: "cell_failure list"

definition failed_row_indices :: "mapping_result \<Rightarrow> nat list" where
  "failed_row_indices r = sorted_set (map cf_row_index (mr_failures r))"

definition rename_inverse :: "source_mapping \<Rightarrow> (string, string) pydict" where
  "rename_inverse m = foldl (\<lambda>acc kv. dset (snd kv) (fst kv) acc) [] (sm_rename m)"

text \<open>\<open>frame[keep]\<close>: the rows at the kept positions.\<close>

definition take_rows :: "nat list \<Rightarrow> frame \<Rightarrow> frame" where
  "take_rows keep f = map (\<lambda>(c, s). (c, s\<lparr>ser_vals := map (\<lambda>i. ser_vals s ! i) keep\<rparr>)) f"

definition apply_mapping :: "polars \<Rightarrow> source_mapping \<Rightarrow> frame \<Rightarrow> (exn, mapping_result) result" where
  "apply_mapping pl m chunk =
     rbind (run_rename chunk (sm_rename m)) (\<lambda>f1.
     rbind (run_normalize pl f1 (sm_normalize m) (rename_inverse m) []) (\<lambda>(f2, fl2).
     rbind (run_cast pl f2 (sm_cast m) (rename_inverse m) fl2) (\<lambda>(f3, fl3).
     rbind (run_derive pl f3 (sm_derive m) fl3) (\<lambda>(f4, failures).
       let keep = filter (\<lambda>i. i \<notin> set (map cf_row_index failures)) [0..<frame_height f4]
       in rbind (frame_select f4 (target_columns m)) (\<lambda>sel.
          Inr \<lparr>mr_contribution = take_rows keep sel, mr_source_row_indices = keep,
               mr_failures = failures\<rparr>)))))"

end
