(* ===== verification/Mapping_Cells.thy ===== *)
theory Mapping_Cells
  imports Mapping_Engine
begin

text \<open>
  The column operations of the engine against a cell-by-cell reference. \<open>str_cell\<close> says what
  each op of the vocabulary does to one text; the locale \<open>cellwise_ops\<close> is the contract
  between the op registry and the transform list (an op works on each cell alone, lets null
  through and yields text or null), and its lemmas describe a whole list of ops by the
  reference \<open>cell_run\<close>: the first op that refuses a cell ends that cell's list.
\<close>

section \<open>The cell reference\<close>

definition ok_or :: "'a \<Rightarrow> ('e, 'a) result \<Rightarrow> 'a" where
  "ok_or d r = (case r of Inr a \<Rightarrow> a | Inl _ \<Rightarrow> d)"

lemma ok_or_Inr [simp]: "ok_or d (Inr a) = a"
  by (simp add: ok_or_def)

definition reject_unless :: "bool \<Rightarrow> pyval \<Rightarrow> pyval \<times> bool" where
  "reject_unless b v = (if b then (v, False) else (PyNone, True))"

definition print_parsed :: "(pyval \<Rightarrow> string) \<Rightarrow> pyval \<Rightarrow> pyval \<times> bool" where
  "print_parsed pr p = (if p = PyNone then (PyNone, True) else (PyStr (pr p), False))"

definition datetime_cell :: "polars \<Rightarrow> string \<Rightarrow> string option \<Rightarrow> string \<Rightarrow> pyval" where
  "datetime_cell pl fmt tz x =
     (let p = ok_or (\<lambda>_. PyNone) (pl_strptime_datetime pl fmt) x
      in on_val (pl_to_utc pl)
           (if pl_strptime_aware pl fmt then p else on_val (pl_replace_time_zone pl tz) p))"

definition percent_cell :: "polars \<Rightarrow> string \<Rightarrow> string option \<Rightarrow> string \<Rightarrow> pyval" where
  "percent_cell pl sep thou x =
     on_val (\<lambda>v. PyStr (drop_last_char (CHR ''.'') (trim_zeros (pl_div100_str pl v))))
       (pl_decimal18 pl (strip_separators (Some sep) thou (drop_last_char (CHR ''%'') x)))"

definition str_cell :: "polars \<Rightarrow> string \<Rightarrow> args \<Rightarrow> string \<Rightarrow> pyval \<times> bool" where
  "str_cell pl op a x =
    (let sep = ok_or [] (arg_str a ''decimal_separator'');
         thou = ok_or None (arg_opt_str a ''thousands_separator'');
         fmt = ok_or [] (arg_str a ''format'') in
     if op = ''parse_date'' then
       print_parsed (pl_strftime_date pl) (ok_or (\<lambda>_. PyNone) (pl_strptime_date pl fmt) x)
     else if op = ''parse_datetime'' then
       print_parsed (pl_strftime_datetime pl)
         (datetime_cell pl fmt (ok_or None (arg_opt_str a ''timezone'')) x)
     else if op = ''parse_decimal'' then
       reject_unless (decimal_pattern sep thou x) (PyStr (strip_separators (Some sep) thou x))
     else if op = ''parse_percent'' then
       reject_unless (percent_pattern sep thou x) (percent_cell pl sep thou x)
     else if op = ''parse_integer'' then
       reject_unless (integer_pattern thou x) (PyStr (strip_separators None thou x))
     else if op = ''parse_boolean'' then
       (if x \<in> set (ok_or [] (arg_strs a ''true_values'')) then (PyStr ''true'', False)
        else reject_unless (x \<in> set (ok_or [] (arg_strs a ''false_values''))) (PyStr ''false''))
     else if op = ''map_enum'' then
       (let mapping = ok_or [] (arg_str_dict a ''mapping'');
            ci = arg_flag a ''case_insensitive'' False
        in case dget (if ci then upper_lookup mapping else mapping)
                 (if ci then pl_to_uppercase pl x else x) of
             None \<Rightarrow> (PyNone, True) | Some v \<Rightarrow> (PyStr v, False))
     else if op = ''null_tokens'' then
       ((if x \<in> set (ok_or [] (arg_strs a ''tokens'')) then PyNone else PyStr x), False)
     else if op = ''normalize_whitespace'' then
       (let v1 = (if arg_flag a ''trim'' True then pl_strip_chars pl x else x)
        in (PyStr (if arg_flag a ''collapse'' True then collapse_space False v1 else v1), False))
     else (PyStr (if arg_or a ''mode'' PyNone = PyStr ''upper'' then pl_to_uppercase pl x
                  else pl_to_lowercase pl x), False))"

definition op_cell :: "polars \<Rightarrow> string \<Rightarrow> args \<Rightarrow> pyval \<Rightarrow> pyval \<times> bool" where
  "op_cell pl op a v = (case v of PyStr x \<Rightarrow> str_cell pl op a x | _ \<Rightarrow> (PyNone, False))"

definition string_series :: "series \<Rightarrow> bool" where
  "string_series s \<longleftrightarrow> ser_dtype s = DString \<and> list_all (\<lambda>v. v = PyNone \<or> is_str v) (ser_vals s)"

text \<open>
  One cell through a list of ops: its final value and, when an op refused it, the position and
  name of that op and the value that entered it.
\<close>

fun cell_run ::
  "(string \<Rightarrow> args \<Rightarrow> pyval \<Rightarrow> pyval \<times> bool) \<Rightarrow> nat \<Rightarrow> pyval \<Rightarrow> transform_spec list \<Rightarrow>
   pyval \<times> (nat \<times> string \<times> pyval) option" where
  "cell_run cell k v [] = (v, None)"
| "cell_run cell k v (spec # specs) =
     (let (w, bad) = cell (ts_op spec) (ts_args spec) v
      in if bad then (PyNone, Some (k, ts_op spec, v)) else cell_run cell (Suc k) w specs)"

section \<open>The contract of the ops\<close>

locale cellwise_ops =
  fixes impl :: "string \<Rightarrow> series \<Rightarrow> args \<Rightarrow> (exn, op_outcome) result"
    and cell :: "string \<Rightarrow> args \<Rightarrow> pyval \<Rightarrow> pyval \<times> bool"
  assumes cellwise: "impl op s a = Inr out \<Longrightarrow> string_series s \<Longrightarrow>
      null_where (oo_values out) (oo_failed out) =
        \<lparr>ser_dtype = DString, ser_vals = map (\<lambda>v. if snd (cell op a v) then PyNone else fst (cell op a v)) (ser_vals s)\<rparr> \<and>
      oo_failed out = map (\<lambda>v. snd (cell op a v)) (ser_vals s)"
    and null_through: "cell op a PyNone = (PyNone, False)"
    and yields_text: "is_str v \<Longrightarrow> fst (cell op a v) = PyNone \<or> is_str (fst (cell op a v))"
begin

definition step :: "string \<Rightarrow> args \<Rightarrow> pyval \<Rightarrow> pyval" where
  "step op a v = (if snd (cell op a v) then PyNone else fst (cell op a v))"

lemma step_text: "v = PyNone \<or> is_str v \<Longrightarrow> step op a v = PyNone \<or> is_str (step op a v)"
  using null_through [of op a] yields_text [of v op a] by (auto simp: step_def)

lemma cellwise_step:
  assumes "impl op s a = Inr out" and "string_series s"
  shows "null_where (oo_values out) (oo_failed out) =
    \<lparr>ser_dtype = DString, ser_vals = map (step op a) (ser_vals s)\<rparr>"
  using cellwise [OF assms] unfolding step_def [abs_def] by (rule conjunct1)

lemma step_series:
  "string_series s \<Longrightarrow> string_series \<lparr>ser_dtype = DString, ser_vals = map (step op a) (ser_vals s)\<rparr>"
  using step_text by (auto simp: string_series_def list_all_iff)

lemma cell_run_null [simp]: "cell_run cell k PyNone specs = (PyNone, None)"
  by (induction specs arbitrary: k) (auto simp: null_through)

lemma cell_run_step:
  "fst (cell_run cell k v (spec # specs)) = fst (cell_run cell (Suc k) (step (ts_op spec) (ts_args spec) v) specs)"
  by (auto simp: step_def split: prod.splits)

lemma steps_values:
  "transform_steps impl column src stage k s specs = Inr (final, found) \<Longrightarrow> string_series s \<Longrightarrow>
   final = \<lparr>ser_dtype = DString, ser_vals = map (\<lambda>v. fst (cell_run cell k v specs)) (ser_vals s)\<rparr>"
proof (induction specs arbitrary: k s found)
  case Nil
  then show ?case by (simp add: string_series_def)
next
  case (Cons spec specs)
  from Cons.prems obtain out later where out: "impl (ts_op spec) s (ts_args spec) = Inr out"
    and rest: "transform_steps impl column src stage (Suc k) (null_where (oo_values out) (oo_failed out)) specs
      = Inr (final, later)"
    by (auto simp: result_simps Let_def split: prod.splits)
  let ?t = "\<lparr>ser_dtype = DString, ser_vals = map (step (ts_op spec) (ts_args spec)) (ser_vals s)\<rparr>"
  have t: "null_where (oo_values out) (oo_failed out) = ?t"
    by (rule cellwise_step [OF out Cons.prems(2)])
  have "final = \<lparr>ser_dtype = DString, ser_vals = map (\<lambda>v. fst (cell_run cell (Suc k) v specs)) (ser_vals ?t)\<rparr>"
    by (rule Cons.IH [OF rest [unfolded t]]) (rule step_series [OF Cons.prems(2)])
  then show ?case using cell_run_step by (simp add: o_def)
qed

text \<open>The failure a cell's run prescribes, as a record of the list.\<close>

definition faithful :: "series \<Rightarrow> nat \<Rightarrow> transform_spec list \<Rightarrow> string \<Rightarrow> string \<Rightarrow> cell_failure \<Rightarrow> bool" where
  "faithful s k specs column stage f \<longleftrightarrow>
     cf_row_index f < length (ser_vals s) \<and> cf_column f = column \<and> cf_stage f = stage \<and>
     (\<exists>v. snd (cell_run cell k (ser_vals s ! cf_row_index f) specs) =
            Some (cf_transform_index f, cf_op f, v) \<and> v \<noteq> PyNone \<and> cf_value f = Some (py_str v))"

lemma steps_failures:
  "transform_steps impl column src stage k s specs = Inr (final, found) \<Longrightarrow> string_series s \<Longrightarrow>
   distinct (map cf_row_index found) \<and> (\<forall>f \<in> set found. faithful s k specs column stage f) \<and>
   (\<forall>row < length (ser_vals s). snd (cell_run cell k (ser_vals s ! row) specs) \<noteq> None \<longrightarrow>
      row \<in> cf_row_index ` set found)"
proof (induction specs arbitrary: k s found)
  case Nil
  then show ?case by simp
next
  case (Cons spec specs)
  let ?op = "ts_op spec" and ?a = "ts_args spec" and ?n = "length (ser_vals s)"
  let ?t = "\<lparr>ser_dtype = DString, ser_vals = map (step ?op ?a) (ser_vals s)\<rparr>"
  from Cons.prems(1) obtain out later now where out: "impl ?op s ?a = Inr out"
    and rest: "transform_steps impl column src stage (Suc k) (null_where (oo_values out) (oo_failed out)) specs
      = Inr (final, later)" and found: "found = now @ later"
    and now: "map cf_row_index now = arg_true (oo_failed out)"
    and nowf: "\<forall>f \<in> set now. cf_column f = column \<and> cf_stage f = stage \<and> cf_op f = ?op \<and>
      cf_transform_index f = k \<and> cf_value f = cell_text (ser_vals s ! cf_row_index f)"
    by (auto simp: result_simps Let_def comp_def split: prod.splits)
  note cw = cellwise [OF out Cons.prems(2)]
  have t: "null_where (oo_values out) (oo_failed out) = ?t"
    by (rule cellwise_step [OF out Cons.prems(2)])
  note IH = Cons.IH [OF rest [unfolded t] step_series [OF Cons.prems(2)]]
  have rows: "row \<in> cf_row_index ` set now \<longleftrightarrow> row < ?n \<and> snd (cell ?op ?a (ser_vals s ! row))" for row
    using now cw by (auto simp: arg_true_def image_set)
  have dnow: "distinct (map cf_row_index now)" using now by (simp add: arg_true_def)
  have nonnull: "ser_vals s ! row \<noteq> PyNone" if "snd (cell ?op ?a (ser_vals s ! row))" for row
    using that null_through by auto
  have run: "snd (cell_run cell k (ser_vals s ! row) (spec # specs)) =
      (if snd (cell ?op ?a (ser_vals s ! row)) then Some (k, ?op, ser_vals s ! row)
       else snd (cell_run cell (Suc k) (ser_vals ?t ! row) specs))" if "row < ?n" for row
    using that by (auto simp: step_def split: prod.splits)
  have later: "\<not> snd (cell ?op ?a (ser_vals s ! cf_row_index f)) \<and> faithful s k (spec # specs) column stage f"
    if f: "f \<in> set later" for f
  proof -
    from IH f obtain v where lt: "cf_row_index f < ?n" and fc: "cf_column f = column" "cf_stage f = stage"
      and v: "snd (cell_run cell (Suc k) (ser_vals ?t ! cf_row_index f) specs) =
        Some (cf_transform_index f, cf_op f, v)" "v \<noteq> PyNone" "cf_value f = Some (py_str v)"
      by (auto simp: faithful_def)
    have nb: "\<not> snd (cell ?op ?a (ser_vals s ! cf_row_index f))"
      using v(1) lt by (auto simp: step_def)
    have "snd (cell_run cell k (ser_vals s ! cf_row_index f) (spec # specs)) =
        Some (cf_transform_index f, cf_op f, v)"
      unfolding run [OF lt] using nb v(1) by simp
    with nb lt fc v show ?thesis unfolding faithful_def by blast
  qed
  have "faithful s k (spec # specs) column stage f" if "f \<in> set now" for f
  proof -
    from rows that have r: "cf_row_index f < ?n" "snd (cell ?op ?a (ser_vals s ! cf_row_index f))" by auto
    have "snd (cell_run cell k (ser_vals s ! cf_row_index f) (spec # specs)) =
        Some (cf_transform_index f, cf_op f, ser_vals s ! cf_row_index f)"
      unfolding run [OF r(1)] using r(2) nowf that by simp
    then show ?thesis unfolding faithful_def
      using r nowf that nonnull [OF r(2)] by (auto simp: cell_text_def)
  qed
  moreover have "cf_row_index f \<noteq> cf_row_index g" if "f \<in> set now" "g \<in> set later" for f g
    using rows [of "cf_row_index f"] that(1) later [OF that(2)] by auto
  then have "distinct (map cf_row_index found)"
    using dnow IH unfolding found by (auto simp: image_iff)
  moreover have "row \<in> cf_row_index ` set found"
    if "row < ?n" "snd (cell_run cell k (ser_vals s ! row) (spec # specs)) \<noteq> None" for row
    using that rows [of row] IH unfolding found run [OF that(1)] by (auto split: if_splits)
  ultimately show ?case using later unfolding found by (auto simp del: cell_run.simps)
qed

end

section \<open>The registry satisfies it\<close>

lemmas series_defs = smap_def is_null_def is_not_null_def str_mask_def mask_and_def mask_not_def
  no_failures_def null_where_def on_str_def on_val_def

definition outcome_is :: "op_outcome \<Rightarrow> series \<Rightarrow> (pyval \<Rightarrow> pyval \<times> bool) \<Rightarrow> bool" where
  "outcome_is out s f \<longleftrightarrow>
     null_where (oo_values out) (oo_failed out) =
       \<lparr>ser_dtype = DString, ser_vals = map (\<lambda>v. if snd (f v) then PyNone else fst (f v)) (ser_vals s)\<rparr> \<and>
     oo_failed out = map (\<lambda>v. snd (f v)) (ser_vals s)"

lemma outcome_is_nthI:
  assumes ss: "string_series s" and d: "ser_dtype (oo_values out) = DString"
    and l: "length (ser_vals (oo_values out)) = length (ser_vals s)" "length (oo_failed out) = length (ser_vals s)"
    and null: "\<And>i. i < length (ser_vals s) \<Longrightarrow> ser_vals s ! i = PyNone \<Longrightarrow>
      oo_failed out ! i = snd (f PyNone) \<and> (\<not> snd (f PyNone) \<longrightarrow> ser_vals (oo_values out) ! i = fst (f PyNone))"
    and tx: "\<And>i x. i < length (ser_vals s) \<Longrightarrow> ser_vals s ! i = PyStr x \<Longrightarrow>
      oo_failed out ! i = snd (f (PyStr x)) \<and>
      (\<not> snd (f (PyStr x)) \<longrightarrow> ser_vals (oo_values out) ! i = fst (f (PyStr x)))"
  shows "outcome_is out s f"
proof -
  have cell: "oo_failed out ! i = snd (f (ser_vals s ! i)) \<and>
      (\<not> snd (f (ser_vals s ! i)) \<longrightarrow> ser_vals (oo_values out) ! i = fst (f (ser_vals s ! i)))"
    if i: "i < length (ser_vals s)" for i
    using ss null [OF i] tx [OF i]
    by (cases "ser_vals s ! i") (use i in \<open>auto simp: string_series_def list_all_length dest!: spec [of _ i]\<close>)
  have f: "oo_failed out = map (\<lambda>v. snd (f v)) (ser_vals s)"
    using cell l by (intro nth_equalityI) auto
  show ?thesis unfolding outcome_is_def
    by (auto intro!: series.equality nth_equalityI simp: null_where_def d l cell f)
qed

lemma arg_or_arg: "arg a k = Inr v \<Longrightarrow> arg_or a k d = v"
  by (auto simp: arg_def arg_or_def split: option.splits)

lemmas cell_defs = op_cell_def str_cell_def reject_unless_def print_parsed_def datetime_cell_def
  percent_cell_def Let_def

lemma string_dtype: "string_series s \<Longrightarrow> ser_dtype s = DString"
  by (simp add: string_series_def)

lemma parse_date_cell:
  assumes "parse_date pl s a = Inr out" and s: "string_series s"
  shows "outcome_is out s (op_cell pl ''parse_date'' a)"
  using assms(1) unfolding parse_date_def
  by (intro outcome_is_nthI [OF s])
    (auto simp: result_simps series_defs cell_defs arg_or_arg string_dtype [OF s] split: if_splits)

lemma parse_datetime_cell:
  assumes "parse_datetime pl n s a = Inr out" and s: "string_series s"
  shows "outcome_is out s (op_cell pl ''parse_datetime'' a)"
proof -
  from assms(1) obtain fmt tz conv parsed where
    args: "arg_str a ''format'' = Inr fmt" "arg_opt_str a ''timezone'' = Inr tz"
      "pl_strptime_datetime pl fmt = Inr conv"
    and parsed: "parsed = smap (DDatetime ''us'' (Some ''UTC'')) (\<lambda>v. on_val (pl_to_utc pl)
        (if pl_strptime_aware pl fmt then v else on_val (pl_replace_time_zone pl tz) v))
      (smap (DDatetime ''us'' (if pl_strptime_aware pl fmt then Some ''UTC'' else None)) (on_str conv) s)"
    and out: "oo_values out = smap DString (on_val (\<lambda>v. PyStr (pl_strftime_datetime pl v))) parsed"
      "oo_failed out = mask_and (is_null parsed) (is_not_null s)"
    by (cases "pl_strptime_aware pl (ok_or [] (arg_str a ''format''))")
      (auto simp: parse_datetime_def Let_def result_simps split: if_splits)
  show ?thesis
    by (rule outcome_is_nthI [OF s])
      (simp_all add: out parsed series_defs op_cell_def str_cell_def print_parsed_def
        datetime_cell_def args Let_def)
qed

lemma parse_decimal_cell:
  assumes "parse_decimal s a = Inr out" and s: "string_series s"
  shows "outcome_is out s (op_cell pl ''parse_decimal'' a)"
  using assms(1) unfolding parse_decimal_def
  by (intro outcome_is_nthI [OF s])
    (auto simp: result_simps series_defs cell_defs arg_or_arg string_dtype [OF s] split: if_splits)

lemma parse_percent_cell:
  assumes "parse_percent pl s a = Inr out" and s: "string_series s"
  shows "outcome_is out s (op_cell pl ''parse_percent'' a)"
  using assms(1) unfolding parse_percent_def
  by (intro outcome_is_nthI [OF s])
    (auto simp: result_simps series_defs cell_defs arg_or_arg string_dtype [OF s] split: if_splits)

lemma parse_integer_cell:
  assumes "parse_integer s a = Inr out" and s: "string_series s"
  shows "outcome_is out s (op_cell pl ''parse_integer'' a)"
  using assms(1) unfolding parse_integer_def
  by (intro outcome_is_nthI [OF s])
    (auto simp: result_simps series_defs cell_defs arg_or_arg string_dtype [OF s] split: if_splits)

lemma parse_boolean_cell:
  assumes "parse_boolean s a = Inr out" and s: "string_series s"
  shows "outcome_is out s (op_cell pl ''parse_boolean'' a)"
  using assms(1) unfolding parse_boolean_def
  by (intro outcome_is_nthI [OF s])
    (auto simp: result_simps series_defs cell_defs arg_or_arg string_dtype [OF s] split: if_splits)

lemma map_enum_cell:
  assumes "map_enum pl s a = Inr out" and s: "string_series s"
  shows "outcome_is out s (op_cell pl ''map_enum'' a)"
  using assms(1) unfolding map_enum_def
  by (intro outcome_is_nthI [OF s])
    (auto simp: result_simps series_defs cell_defs arg_or_arg string_dtype [OF s] split: if_splits option.splits)

lemma null_tokens_cell:
  assumes "null_tokens s a = Inr out" and s: "string_series s"
  shows "outcome_is out s (op_cell pl ''null_tokens'' a)"
  using assms(1) unfolding null_tokens_def
  by (intro outcome_is_nthI [OF s])
    (auto simp: result_simps series_defs cell_defs arg_or_arg string_dtype [OF s] split: if_splits)

lemma normalize_whitespace_cell:
  assumes "normalize_whitespace pl s a = Inr out" and s: "string_series s"
  shows "outcome_is out s (op_cell pl ''normalize_whitespace'' a)"
  using assms(1) unfolding normalize_whitespace_def
  by (intro outcome_is_nthI [OF s])
    (auto simp: result_simps series_defs cell_defs arg_or_arg string_dtype [OF s] split: if_splits)

lemma normalize_case_cell:
  assumes "normalize_case pl s a = Inr out" and s: "string_series s"
  shows "outcome_is out s (op_cell pl ''normalize_case'' a)"
proof -
  from assms(1) obtain mode where m: "arg a ''mode'' = Inr mode"
    and out: "oo_values out = str_series (if mode = PyStr ''upper'' then pl_to_uppercase pl
        else pl_to_lowercase pl) s" "oo_failed out = no_failures s"
    by (auto simp: normalize_case_def result_simps)
  show ?thesis
    by (rule outcome_is_nthI [OF s])
      (simp_all add: out series_defs op_cell_def str_cell_def arg_or_arg [OF m])
qed

lemma registry_cell:
  assumes "NORMALIZE_IMPLS pl n op s a = Inr out" and s: "string_series s"
  shows "outcome_is out s (op_cell pl op a)"
  using assms(1)
  by (auto simp: NORMALIZE_IMPLS_def NORMALIZE_OPS_def string_dtype [OF s] split: if_splits
      intro!: parse_date_cell [OF _ s] parse_datetime_cell [OF _ s] parse_decimal_cell [OF _ s]
        parse_percent_cell [OF _ s] parse_integer_cell [OF _ s] parse_boolean_cell [OF _ s]
        map_enum_cell [OF _ s] null_tokens_cell [OF _ s] normalize_whitespace_cell [OF _ s]
        normalize_case_cell [OF _ s])

lemma op_cell_text: "fst (op_cell pl op a v) = PyNone \<or> is_str (fst (op_cell pl op a v))"
  by (auto simp: op_cell_def str_cell_def reject_unless_def print_parsed_def percent_cell_def
      on_val_def Let_def split: pyval.splits option.splits)

interpretation ops: cellwise_ops "NORMALIZE_IMPLS pl column" "op_cell pl" for pl column
proof unfold_locales
  show "op_cell pl op a PyNone = (PyNone, False)" for op a by (simp add: op_cell_def)
qed (rule registry_cell [unfolded outcome_is_def] op_cell_text; assumption)+

end
