(* ===== verification/Mapping_Props.thy ===== *)
theory Mapping_Props
  imports Mapping_Cells
begin

text \<open>
  What \<open>apply_mapping\<close> guarantees on an all-string chunk (the only kind the pipeline reads),
  for every validated mapping and every behaviour of polars on a cell: the stage invariant
  \<open>run_inv\<close>, its preservation by the four stages, and the properties that rest on it.
\<close>

section \<open>The stage invariant\<close>

text \<open>
  Columns of one height, at most one failure per cell, and a cell that failed is null from
  then on.
\<close>

definition cell_of :: "cell_failure \<Rightarrow> string \<times> nat" where
  "cell_of f = (cf_column f, cf_row_index f)"

definition run_inv :: "nat \<Rightarrow> frame \<Rightarrow> cell_failure list \<Rightarrow> bool" where
  "run_inv n fr fl \<longleftrightarrow> frame_ok n fr \<and> distinct (map cell_of fl) \<and>
     (\<forall>f \<in> set fl. cf_row_index f < n \<and>
        (\<exists>s. dget fr (cf_column f) = Some s \<and> ser_vals s ! cf_row_index f = PyNone))"

lemma frame_ok_dget: "frame_ok n fr \<Longrightarrow> dget fr c = Some s \<Longrightarrow> length (ser_vals s) = n"
  by (force simp: frame_ok_def dest: dget_Some_mem)

lemma in_set_dset: "(x, y) \<in> set (dset k v d) \<Longrightarrow> y = v \<or> (x, y) \<in> set d"
  by (induction d) (auto split: if_splits)

lemma frame_ok_dset:
  "frame_ok n fr \<Longrightarrow> length (ser_vals s) = n \<Longrightarrow> frame_ok n (dset c s fr)"
  by (auto simp: frame_ok_def dest!: in_set_dset)

lemma get_column_Inr [result_simps]: "get_column f c = Inr s \<longleftrightarrow> dget f c = Some s"
  by (auto simp: get_column_def split: option.splits)

text \<open>Replacing one column: the shared step of every stage.\<close>

lemma run_inv_column:
  assumes inv: "run_inv n fr fl" and len: "length (ser_vals s') = n"
    and new: "\<forall>f \<in> set found. cf_column f = c \<and> cf_row_index f < n \<and> ser_vals s' ! cf_row_index f = PyNone"
    and dist: "distinct (map cf_row_index found)"
    and old: "\<And>row. (c, row) \<in> cell_of ` set fl \<Longrightarrow>
      ser_vals s' ! row = PyNone \<and> row \<notin> cf_row_index ` set found"
  shows "run_inv n (dset c s' fr) (fl @ found)"
proof -
  have df: "distinct (map cell_of found)"
    using dist new by (auto simp: cell_of_def distinct_map inj_on_def)
  have ne: "cell_of f \<noteq> cell_of g" if "f \<in> set fl" "g \<in> set found" for f g
    using old [of "cf_row_index f"] new that by (force simp: cell_of_def)
  moreover have "set (map cell_of fl) \<inter> set (map cell_of found) = {}"
    unfolding disjoint_iff set_map using ne by (metis imageE)
  moreover have "\<exists>s. dget (dset c s' fr) (cf_column f) = Some s \<and> ser_vals s ! cf_row_index f = PyNone"
    if "f \<in> set fl" for f
    using old [of "cf_row_index f"] inv that by (force simp: cell_of_def run_inv_def)
  moreover have "\<exists>s. dget (dset c s' fr) (cf_column f) = Some s \<and> ser_vals s ! cf_row_index f = PyNone"
    if "f \<in> set found" for f
    using new that by auto
  moreover have "frame_ok n (dset c s' fr)" using inv len by (auto simp: run_inv_def intro: frame_ok_dset)
  moreover have "\<forall>f \<in> set fl. cf_row_index f < n" "distinct (map cell_of fl)"
    using inv by (auto simp: run_inv_def)
  ultimately show ?thesis
    unfolding run_inv_def set_append map_append distinct_append ball_Un
    using new df by (intro conjI ballI) (auto simp del: dget_dset)
qed

lemma run_inv_old:
  assumes "run_inv n fr fl" and "dget fr c = Some s" and "(c, row) \<in> cell_of ` set fl"
  shows "row < n \<and> ser_vals s ! row = PyNone"
  using assms by (force simp: run_inv_def cell_of_def)

text \<open>A transform list on a column of texts keeps the invariant.\<close>

lemma steps_inv:
  assumes run: "transform_steps (NORMALIZE_IMPLS pl c) c src stage k s specs = Inr (s', found)"
    and ss: "string_series s" and inv: "run_inv n fr fl" and len: "length (ser_vals s) = n"
    and old: "\<And>row. (c, row) \<in> cell_of ` set fl \<Longrightarrow> row < n \<and> ser_vals s ! row = PyNone"
  shows "run_inv n (dset c s' fr) (fl @ found)"
proof (rule run_inv_column [OF inv])
  note v = ops.steps_values [OF run ss] and f = ops.steps_failures [OF run ss]
  have failed_null: "snd (cell_run (op_cell pl) k v specs) \<noteq> None \<Longrightarrow> fst (cell_run (op_cell pl) k v specs) = PyNone"
    for v k by (induction specs arbitrary: k v) (auto split: prod.splits if_splits)
  show "length (ser_vals s') = n" using v len by simp
  show "distinct (map cf_row_index found)" using f by simp
  show "\<forall>f \<in> set found. cf_column f = c \<and> cf_row_index f < n \<and> ser_vals s' ! cf_row_index f = PyNone"
    using f len v failed_null by (fastforce simp: ops.faithful_def)
  fix row
  assume "(c, row) \<in> cell_of ` set fl"
  from old [OF this] have row: "row < n" "ser_vals s ! row = PyNone" by auto
  then have "ser_vals s' ! row = PyNone" using v len by simp
  moreover have "row \<notin> cf_row_index ` set found"
    using f row by (auto simp: ops.faithful_def)
  ultimately show "ser_vals s' ! row = PyNone \<and> row \<notin> cf_row_index ` set found" by simp
qed

lemma apply_list_inv:
  assumes "apply_transform_list pl s c specs src stage k fl = Inr (s', fl')"
    and "string_series s" and "run_inv n fr fl" and "length (ser_vals s) = n"
    and "\<And>row. (c, row) \<in> cell_of ` set fl \<Longrightarrow> row < n \<and> ser_vals s ! row = PyNone"
  shows "run_inv n (dset c s' fr) fl'"
  using assms steps_inv unfolding apply_transform_list_def by (fastforce simp: result_simps)

lemma apply_list_value:
  assumes "apply_transform_list pl s c specs src stage k fl = Inr (s', fl')" and "string_series s"
  shows "s' = \<lparr>ser_dtype = DString, ser_vals = map (\<lambda>v. fst (cell_run (op_cell pl) k v specs)) (ser_vals s)\<rparr>"
  using assms ops.steps_values unfolding apply_transform_list_def by (fastforce simp: result_simps)

lemma cell_run_text:
  "v = PyNone \<or> is_str v \<Longrightarrow> fst (cell_run (op_cell pl) k v specs) = PyNone \<or>
     is_str (fst (cell_run (op_cell pl) k v specs))"
proof (induction specs arbitrary: k v)
  case (Cons spec specs)
  show ?case
    using op_cell_text [of pl "ts_op spec" "ts_args spec" v]
      Cons.IH [of "fst (op_cell pl (ts_op spec) (ts_args spec) v)" "Suc k"]
    by (cases "op_cell pl (ts_op spec) (ts_args spec) v") auto
qed simp

lemma apply_list_string:
  assumes "apply_transform_list pl s c specs src stage k fl = Inr (s', fl')" and "string_series s"
  shows "string_series s'"
  using apply_list_value [OF assms] assms(2) cell_run_text
  by (auto simp: string_series_def list_all_iff)

section \<open>Rename\<close>

lemma dkeys_dset_in: "k \<in> fst ` set d \<Longrightarrow> dkeys (dset k v d) = dkeys d"
  by (induction d) force+

lemma dkeys_dset_notin: "k \<notin> fst ` set d \<Longrightarrow> dset k v d = d @ [(k, v)]"
  by (induction d) auto

lemma dget_in_keys: "dget d k = Some v \<Longrightarrow> k \<in> fst ` set d"
  using dget_None_iff [of d k] by auto

lemma frame_select_Inr:
  "frame_select f cols = Inr sel \<Longrightarrow> sel = map (\<lambda>c. (c, the (dget f c))) cols \<and> (\<forall>c \<in> set cols. dget f c \<noteq> None)"
  unfolding frame_select_def by (induction cols arbitrary: sel) (auto simp: result_simps)

definition all_strings :: "frame \<Rightarrow> bool" where
  "all_strings f \<longleftrightarrow> (\<forall>s \<in> snd ` set f. string_series s)"

lemma all_strings_dget: "all_strings f \<Longrightarrow> dget f c = Some s \<Longrightarrow> string_series s"
  by (force simp: all_strings_def dest: dget_Some_mem)

lemma all_strings_dset: "all_strings f \<Longrightarrow> string_series s \<Longrightarrow> all_strings (dset c s f)"
  by (auto simp: all_strings_def dest!: in_set_dset)

lemma run_rename_Inr:
  assumes "run_rename f rename = Inr f1" and "dict_ok rename"
  shows "f1 = map (\<lambda>(src, t). (t, the (dget f src))) rename \<and> (\<forall>src \<in> fst ` set rename. dget f src \<noteq> None)"
proof -
  from assms(1) obtain sel where sel: "frame_select f (dkeys rename) = Inr sel"
    and f1: "f1 = map (\<lambda>(c, s). (case dget rename c of Some t \<Rightarrow> t | None \<Rightarrow> c, s)) sel"
    by (auto simp: run_rename_def result_simps split: list.splits)
  then show ?thesis using frame_select_Inr [OF sel] dget_mem [OF assms(2)] by auto
qed

lemma run_rename_inv:
  assumes "run_rename f rename = Inr f1" and "dict_ok rename" and "distinct (dvals rename)"
    and "frame_ok n f" and "all_strings f"
  shows "run_inv n f1 [] \<and> all_strings f1 \<and> dkeys f1 = dvals rename"
proof -
  note r = run_rename_Inr [OF assms(1,2)]
  have keys: "dkeys f1 = dvals rename" using r by auto
  have "length (ser_vals s) = n \<and> string_series s" if "s \<in> snd ` set f1" for s
  proof -
    from that r obtain src where "dget f src = Some s" by force
    then show ?thesis using frame_ok_dget [OF assms(4)] all_strings_dget [OF assms(5)] by blast
  qed
  then show ?thesis using keys assms(3) by (auto simp: run_inv_def frame_ok_def dict_ok_def all_strings_def)
qed

section \<open>Normalize\<close>

lemma run_normalize_inv:
  "run_normalize pl f rules rinv fl = Inr (f', fl') \<Longrightarrow> run_inv n f fl \<Longrightarrow> all_strings f \<Longrightarrow>
   run_inv n f' fl' \<and> all_strings f' \<and> dkeys f' = dkeys f \<and> set fl \<subseteq> set fl'"
proof (induction rules arbitrary: f fl)
  case (Cons rule rules)
  obtain c specs where rule: "rule = (c, specs)" by (cases rule)
  from Cons.prems(1) rule obtain s s' fl1 where s: "dget f c = Some s"
    and a: "apply_transform_list pl s c specs (dget rinv c) ''normalize'' 0 fl = Inr (s', fl1)"
    and rest: "run_normalize pl (dset c s' f) rules rinv fl1 = Inr (f', fl')"
    by (auto simp: result_simps split: if_splits)
  have ss: "string_series s" by (rule all_strings_dget [OF Cons.prems(3) s])
  have "run_inv n (dset c s' f) fl1"
    using apply_list_inv [OF a ss Cons.prems(2)] run_inv_old [OF Cons.prems(2) s]
      frame_ok_dget [OF _ s] Cons.prems(2)
    by (simp add: run_inv_def)
  moreover have "all_strings (dset c s' f)"
    by (rule all_strings_dset [OF Cons.prems(3) apply_list_string [OF a ss]])
  moreover have "dkeys (dset c s' f) = dkeys f" using dget_in_keys [OF s] by (rule dkeys_dset_in)
  moreover have "set fl \<subseteq> set fl1" using a by (auto simp: apply_transform_list_def result_simps)
  ultimately show ?case using Cons.IH [OF rest] by auto
qed simp

text \<open>The value of a column after its list of ops.\<close>

definition normalized_col :: "polars \<Rightarrow> transform_spec list option \<Rightarrow> series \<Rightarrow> series" where
  "normalized_col pl specs s = (case specs of None \<Rightarrow> s
     | Some l \<Rightarrow> \<lparr>ser_dtype = DString, ser_vals = map (\<lambda>v. fst (cell_run (op_cell pl) 0 v l)) (ser_vals s)\<rparr>)"

lemma run_normalize_value:
  "run_normalize pl f rules rinv fl = Inr (f', fl') \<Longrightarrow> all_strings f \<Longrightarrow> dict_ok rules \<Longrightarrow>
   dget f' c = map_option (normalized_col pl (dget rules c)) (dget f c)"
proof (induction rules arbitrary: f fl)
  case Nil
  then show ?case by (cases "dget f c") (auto simp: normalized_col_def)
next
  case (Cons rule rules)
  obtain d specs where rule: "rule = (d, specs)" by (cases rule)
  from Cons.prems(1) rule obtain s s' fl1 where s: "dget f d = Some s"
    and a: "apply_transform_list pl s d specs (dget rinv d) ''normalize'' 0 fl = Inr (s', fl1)"
    and rest: "run_normalize pl (dset d s' f) rules rinv fl1 = Inr (f', fl')"
    by (auto simp: result_simps split: if_splits)
  have ss: "string_series s" by (rule all_strings_dget [OF Cons.prems(2) s])
  have ok: "dict_ok rules" and d: "d \<notin> fst ` set rules" using Cons.prems(3) rule by (auto simp: dict_ok_def)
  have "dget f' c = map_option (normalized_col pl (dget rules c)) (dget (dset d s' f) c)"
    by (rule Cons.IH [OF rest all_strings_dset [OF Cons.prems(2) apply_list_string [OF a ss]] ok])
  moreover have "dget rules d = None" using d by (simp add: dget_None_iff)
  ultimately show ?case using s apply_list_value [OF a ss] rule
    by (cases "dget f c") (auto simp: normalized_col_def dget_Cons)
qed

lemma run_normalize_complete:
  "run_normalize pl f rules rinv fl = Inr (f', fl') \<Longrightarrow> run_inv n f fl \<Longrightarrow> all_strings f \<Longrightarrow> dict_ok rules \<Longrightarrow>
   dget rules c = Some specs \<Longrightarrow> dget f c = Some s \<Longrightarrow> row < n \<Longrightarrow>
   snd (cell_run (op_cell pl) 0 (ser_vals s ! row) specs) \<noteq> None \<Longrightarrow> (c, row) \<in> cell_of ` set fl'"
proof (induction rules arbitrary: f fl)
  case (Cons rule rules)
  obtain d l where rule: "rule = (d, l)" by (cases rule)
  from Cons.prems(1) rule obtain t t' fl1 where t: "dget f d = Some t"
    and a: "apply_transform_list pl t d l (dget rinv d) ''normalize'' 0 fl = Inr (t', fl1)"
    and rest: "run_normalize pl (dset d t' f) rules rinv fl1 = Inr (f', fl')"
    by (auto simp: result_simps split: if_splits)
  have st: "string_series t" by (rule all_strings_dget [OF Cons.prems(3) t])
  have n: "length (ser_vals t) = n" using Cons.prems(2) t frame_ok_dget by (auto simp: run_inv_def)
  have inv: "run_inv n (dset d t' f) fl1"
    using apply_list_inv [OF a st Cons.prems(2) n] run_inv_old [OF Cons.prems(2) t] by simp
  have str: "all_strings (dset d t' f)"
    by (rule all_strings_dset [OF Cons.prems(3) apply_list_string [OF a st]])
  show ?case
  proof (cases "c = d")
    case True
    from a obtain found where run: "transform_steps (NORMALIZE_IMPLS pl d) d (dget rinv d) ''normalize'' 0 t l = Inr (t', found)"
      and fl1: "fl1 = fl @ found" by (auto simp: apply_transform_list_def result_simps)
    have "row \<in> cf_row_index ` set found" "\<forall>g \<in> set found. cf_column g = d"
      using ops.steps_failures [OF run st] Cons.prems(5-8) True rule t n
      by (auto simp: dget_Cons ops.faithful_def)
    then have "(c, row) \<in> cell_of ` set fl1" using True fl1 by (force simp: cell_of_def)
    then show ?thesis using run_normalize_inv [OF rest inv str] by auto
  next
    case False
    then show ?thesis using Cons.IH [OF rest inv str] Cons.prems(4-8) rule
      by (simp add: dget_Cons dict_ok_def)
  qed
qed (simp add: dget_def)

section \<open>Cast\<close>

text \<open>One text through a cast.\<close>

definition cast_cell :: "polars \<Rightarrow> cast_spec \<Rightarrow> pyval \<Rightarrow> pyval" where
  "cast_cell pl spec = on_str (case cs_type spec of
     CString \<Rightarrow> PyStr
   | CInteger \<Rightarrow> pl_cast_str pl DInt64
   | CDecimal \<Rightarrow> pl_cast_str pl (ok_or DString (target_dtype spec))
   | CDate \<Rightarrow> pl_to_date pl
   | CDatetime \<Rightarrow> pl_to_datetime pl
   | CBoolean \<Rightarrow> (\<lambda>x. if x = ''true'' then PyBool True
        else if x = ''false'' then PyBool False else PyNone))"

definition cast_col :: "polars \<Rightarrow> cast_spec option \<Rightarrow> series \<Rightarrow> series" where
  "cast_col pl spec s = (case spec of None \<Rightarrow> s
     | Some c \<Rightarrow> smap (ok_or DString (target_dtype c)) (cast_cell pl c) s)"

lemma cast_col_None [simp]: "cast_col pl None s = s"
  by (simp add: cast_col_def)

lemma on_str_PyStr: "v = PyNone \<or> is_str v \<Longrightarrow> on_str PyStr v = v"
  by (auto simp: on_str_def is_str_iff)

lemma target_dtype_string: "target_dtype spec = Inr DString \<longleftrightarrow> cs_type spec = CString"
  by (auto simp: target_dtype_def split: cast_type.splits option.splits)

lemma cast_string_col:
  assumes "target_dtype spec = Inr target" and ss: "string_series s"
  shows "(if ser_dtype s = target then s else cast_string_series pl s spec target) = cast_col pl (Some spec) s"
proof (cases "cs_type spec = CString")
  case True
  then have "map (on_str PyStr) (ser_vals s) = ser_vals s"
    using ss on_str_PyStr by (intro map_idI) (auto simp: string_series_def list_all_iff)
  then show ?thesis using True assms
    by (simp add: cast_col_def cast_cell_def smap_def target_dtype_def string_series_def)
next
  case False
  then have "target \<noteq> DString" using target_dtype_string [of spec] assms(1) by auto
  then show ?thesis using assms False
    by (cases "cs_type spec")
      (auto simp: cast_col_def cast_cell_def cast_string_series_def string_series_def target_dtype_def)
qed

definition keeps_text :: "cast_spec option \<Rightarrow> bool" where
  "keeps_text spec = (case spec of None \<Rightarrow> True | Some c \<Rightarrow> cs_type c = CString)"

lemma cast_cell_null [simp]: "cast_cell pl spec PyNone = PyNone"
  by (simp add: cast_cell_def on_str_def)

lemma run_cast_step:
  assumes "run_cast pl f ((c, spec) # rules) rinv fl = Inr (f', fl')"
    and inv: "run_inv n f fl" and str: "\<And>s. dget f c = Some s \<Longrightarrow> string_series s"
  obtains s found where "dget f c = Some s"
    "run_cast pl (dset c (cast_col pl (Some spec) s) f) rules rinv (fl @ found) = Inr (f', fl')"
    "run_inv n (dset c (cast_col pl (Some spec) s) f) (fl @ found)"
    "\<And>row. row < n \<Longrightarrow> ser_vals s ! row \<noteq> PyNone \<Longrightarrow> cast_cell pl spec (ser_vals s ! row) = PyNone \<Longrightarrow>
       (c, row) \<in> cell_of ` set found"
proof -
  from assms(1) obtain s target where s: "dget f c = Some s" and t: "target_dtype spec = Inr target"
    by (auto simp: result_simps)
  let ?s' = "cast_col pl (Some spec) s"
  have ss: "string_series s" by (rule str [OF s])
  have n: "length (ser_vals s) = n" using inv s frame_ok_dget by (auto simp: run_inv_def)
  have n': "length (ser_vals ?s') = n" using n by (simp add: cast_col_def smap_def)
  have null: "ser_vals ?s' ! row = PyNone" if "row < n" "ser_vals s ! row = PyNone" for row
    using that n by (simp add: cast_col_def smap_def)
  note col = cast_string_col [OF t ss, of pl]
  show thesis
  proof (cases "ser_dtype s = target")
    case True
    with col have "?s' = s" by simp
    moreover have "dset c s f = f" using s
      by (induction f) (auto simp: dget_def)
    moreover have "cast_cell pl spec (ser_vals s ! row) = ser_vals s ! row" if "row < n" for row
    proof -
      have "ser_vals ?s' ! row = ser_vals s ! row" using \<open>?s' = s\<close> by simp
      then show ?thesis using that n by (simp add: cast_col_def smap_def)
    qed
    moreover have "run_cast pl f rules rinv fl = Inr (f', fl')"
      using assms(1) s t True by (simp add: result_simps get_column_def)
    ultimately show thesis using that [OF s, of "[]"] inv by simp
  next
    case False
    let ?failed = "mask_and (is_null ?s') (is_not_null s)"
    from assms(1) s t False col ss obtain found where
      run: "run_cast pl (dset c ?s' f) rules rinv (fl @ found) = Inr (f', fl')"
      and rows: "map cf_row_index found = arg_true ?failed" and cols: "\<forall>f \<in> set found. cf_column f = c"
      by (auto simp: result_simps Let_def string_series_def comp_def)
    have at: "row \<in> cf_row_index ` set found \<longleftrightarrow> row < n \<and> ser_vals ?s' ! row = PyNone \<and> ser_vals s ! row \<noteq> PyNone"
      for row unfolding set_map [symmetric] rows using n n'
      by (auto simp: arg_true_def mask_and_def is_null_def is_not_null_def)
    have "run_inv n (dset c ?s' f) (fl @ found)"
    proof (rule run_inv_column [OF inv n'])
      show "\<forall>f \<in> set found. cf_column f = c \<and> cf_row_index f < n \<and> ser_vals ?s' ! cf_row_index f = PyNone"
        using cols at by blast
      show "distinct (map cf_row_index found)" unfolding rows by (simp add: arg_true_def)
      show "ser_vals ?s' ! row = PyNone \<and> row \<notin> cf_row_index ` set found"
        if "(c, row) \<in> cell_of ` set fl" for row
        using run_inv_old [OF inv s that] null at by blast
    qed
    moreover have "(c, row) \<in> cell_of ` set found"
      if "row < n" "ser_vals s ! row \<noteq> PyNone" "cast_cell pl spec (ser_vals s ! row) = PyNone" for row
    proof -
      have "ser_vals ?s' ! row = PyNone" using that n by (simp add: cast_col_def smap_def)
      then show ?thesis using at [of row] that cols by (force simp: cell_of_def)
    qed
    ultimately show thesis by (rule that [OF s run])
  qed
qed

lemma run_cast_inv:
  "run_cast pl f rules rinv fl = Inr (f', fl') \<Longrightarrow> run_inv n f fl \<Longrightarrow> dict_ok rules \<Longrightarrow>
   (\<And>c s. c \<in> fst ` set rules \<Longrightarrow> dget f c = Some s \<Longrightarrow> string_series s) \<Longrightarrow>
   run_inv n f' fl' \<and> dkeys f' = dkeys f \<and>
   (\<forall>c. dget f' c = map_option (cast_col pl (dget rules c)) (dget f c)) \<and> set fl \<subseteq> set fl' \<and>
   (\<forall>c spec s row. dget rules c = Some spec \<longrightarrow> dget f c = Some s \<longrightarrow> row < n \<longrightarrow> ser_vals s ! row \<noteq> PyNone \<longrightarrow>
      cast_cell pl spec (ser_vals s ! row) = PyNone \<longrightarrow> (c, row) \<in> cell_of ` set fl')"
proof (induction rules arbitrary: f fl)
  case Nil
  then show ?case by (auto simp: cast_col_def option.map_ident)
next
  case (Cons rule rules)
  obtain c spec where rule: "rule = (c, spec)" by (cases rule)
  have ok: "dict_ok rules" "c \<notin> fst ` set rules" using Cons.prems(3) rule by (auto simp: dict_ok_def)
  have str: "string_series s" if "dget f c = Some s" for s using Cons.prems(4) [OF _ that] rule by simp
  obtain s found where s: "dget f c = Some s"
    and run: "run_cast pl (dset c (cast_col pl (Some spec) s) f) rules rinv (fl @ found) = Inr (f', fl')"
    and inv: "run_inv n (dset c (cast_col pl (Some spec) s) f) (fl @ found)"
    and found: "\<And>row. row < n \<Longrightarrow> ser_vals s ! row \<noteq> PyNone \<Longrightarrow> cast_cell pl spec (ser_vals s ! row) = PyNone \<Longrightarrow>
       (c, row) \<in> cell_of ` set found"
    by (rule run_cast_step [OF Cons.prems(1)[unfolded rule] Cons.prems(2) str]) blast+
  have IH: "run_inv n f' fl' \<and> dkeys f' = dkeys (dset c (cast_col pl (Some spec) s) f) \<and>
    (\<forall>d. dget f' d = map_option (cast_col pl (dget rules d)) (dget (dset c (cast_col pl (Some spec) s) f) d)) \<and>
    set (fl @ found) \<subseteq> set fl' \<and>
    (\<forall>d spec' s1 row. dget rules d = Some spec' \<longrightarrow> dget (dset c (cast_col pl (Some spec) s) f) d = Some s1 \<longrightarrow>
      row < n \<longrightarrow> ser_vals s1 ! row \<noteq> PyNone \<longrightarrow> cast_cell pl spec' (ser_vals s1 ! row) = PyNone \<longrightarrow>
      (d, row) \<in> cell_of ` set fl')"
    by (rule Cons.IH [OF run inv ok(1)]) (use Cons.prems(4) rule ok(2) in \<open>auto split: if_splits\<close>)
  have none: "dget rules c = None" using ok(2) by (simp add: dget_None_iff)
  have "(d, row) \<in> cell_of ` set fl'"
    if d: "dget (rule # rules) d = Some spec'" "dget f d = Some s1" "row < n" "ser_vals s1 ! row \<noteq> PyNone"
      "cast_cell pl spec' (ser_vals s1 ! row) = PyNone" for d spec' s1 row
  proof (cases "d = c")
    case True
    then show ?thesis using d rule s found [of row] IH by (auto simp: dget_Cons)
  next
    case False
    then show ?thesis using d rule IH by (auto simp: dget_Cons)
  qed
  then show ?case using IH none s rule dkeys_dset_in [OF dget_in_keys [OF s]]
    by (auto simp: dget_Cons)
qed

section \<open>Derive\<close>

text \<open>
  What the construction check of a derive list gives the engine: a generator, and a text
  column under the ops that follow it.
\<close>

lemma generate_length:
  "generate_col pl f g = Inr s \<Longrightarrow> frame_ok n f \<Longrightarrow> f \<noteq> [] \<Longrightarrow> length (ser_vals s) = n"
proof -
  assume g: "generate_col pl f g = Inr s" and ok: "frame_ok n f" and ne: "f \<noteq> []"
  have "frame_height f = n" using ok ne by (cases f) (auto simp: frame_height_def frame_ok_def)
  then show ?thesis using g frame_ok_dget [OF ok]
    by (auto simp: generate_col_def result_simps smap_def split: if_splits)
qed

lemma require_keys_present:
  "require_keys c a ks opt = Inr () \<Longrightarrow> k \<in> set ks \<Longrightarrow> \<exists>v. arg a k = Inr v"
proof -
  assume "require_keys c a ks opt = Inr ()" and "k \<in> set ks"
  then have "k \<in> fst ` set a" by (auto simp: require_keys_def list_ex_iff split: if_splits)
  then show ?thesis using dget_None_iff [of a k] by (auto simp: arg_def split: option.splits)
qed

lemma arg_Inr [result_simps]: "arg a k = Inr v \<longleftrightarrow> dget a k = Some v"
  by (auto simp: arg_def split: option.splits)

lemma require_str_Inr: "require_str c a k = Inr x \<longleftrightarrow> dget a k = Some (PyStr x) \<and> x \<noteq> []"
proof (cases "dget a k")
  case (Some v)
  then show ?thesis by (cases v) (auto simp: require_str_def arg_def)
qed (simp add: require_str_def arg_def)

lemma validate_generator_arg:
  assumes "validate_derive_generator_args g c = Inr ()"
  shows "ts_op g = ''copy'' \<or> ts_op g = ''date_from_datetime'' \<Longrightarrow>
      \<exists>x. dget (ts_args g) ''source_column'' = Some (PyStr x)"
    and "ts_op g = ''constant'' \<Longrightarrow> \<exists>v. dget (ts_args g) ''value'' = Some v \<and> is_scalar v"
    and "ts_op g = ''copy'' \<or> ts_op g = ''date_from_datetime'' \<or> ts_op g = ''constant''"
  using assms by (auto simp: validate_derive_generator_args_def Let_def result_simps require_str_Inr
      split: if_splits)

text \<open>A literal text makes a text column.\<close>

definition literal_text :: "polars \<Rightarrow> bool" where
  "literal_text pl \<longleftrightarrow> (\<forall>x. pl_literal_dtype pl (PyStr x) = DString)"

lemma derive_series_text:
  assumes v: "validate_derive_list m c (g # rest) T = Inr ()" and rest: "rest \<noteq> []"
    and gen: "generate_col pl f g = Inr s" and lit: "literal_text pl"
    and src: "\<And>d s. d \<in> set T \<Longrightarrow> dget f d = Some s \<Longrightarrow> keeps_text (dget (sm_cast m) d) \<Longrightarrow> string_series s"
  shows "string_series s"
proof -
  from v have gv: "validate_derive_generator_args g c = Inr ()"
    by (auto simp: validate_derive_list_def result_simps)
  note ga = validate_generator_arg [OF gv]
  from v rest have nd: "ts_op g \<noteq> ''date_from_datetime''"
    by (auto simp: validate_derive_list_def result_simps split: if_splits)
  with ga(3) consider "ts_op g = ''copy''" | "ts_op g = ''constant''" by auto
  then show ?thesis
  proof cases
    case 1
    with ga(1) obtain x where x: "dget (ts_args g) ''source_column'' = Some (PyStr x)" by auto
    have xT: "x \<in> set T" and k: "keeps_text (dget (sm_cast m) x)"
      using v rest 1 x
      by (auto simp: validate_derive_list_def result_simps arg_or_def keeps_text_def split: if_splits)
    have "dget f x = Some s" using gen 1 x by (auto simp: generate_col_def arg_str_def result_simps)
    then show ?thesis using src xT k by blast
  next
    case 2
    then obtain y where "dget (ts_args g) ''value'' = Some (PyStr y)"
      using v rest ga(2)
      by (auto simp: validate_derive_list_def result_simps arg_or_def is_str_iff split: if_splits)
    then show ?thesis using gen 2 lit
      by (auto simp: generate_col_def result_simps literal_text_def string_series_def list_all_iff)
  qed
qed

lemma run_derive_mono: "run_derive pl f rules fl = Inr (f', fl') \<Longrightarrow> set fl \<subseteq> set fl'"
proof (induction rules arbitrary: f fl)
  case (Cons rule rules)
  obtain c specs where rule: "rule = (c, specs)" by (cases rule)
  from Cons.prems rule obtain g rest s s' fl1 where "specs = g # rest" and
    gen: "generate_col pl f g = Inr s" and
    a: "(if rest = [] then Inr (s, fl)
        else apply_transform_list pl s c rest (opt_text (arg_or (ts_args g) ''source_column'' PyNone))
          ''derive'' 1 fl) = Inr (s', fl1)"
    and run: "run_derive pl (dset c s' f) rules fl1 = Inr (f', fl')"
    by (auto simp: result_simps split: list.splits)
  have "set fl \<subseteq> set fl1" using a by (auto simp: apply_transform_list_def result_simps split: if_splits)
  then show ?case using Cons.IH [OF run] by blast
qed simp

lemma run_derive_inv:
  assumes "run_derive pl f rules fl = Inr (f', fl')" and "run_inv n f fl" and "f \<noteq> []"
    and "distinct (dkeys rules)" and "fst ` set rules \<inter> fst ` set f = {}"
    and "\<forall>(c, specs) \<in> set rules. validate_derive_list m c specs T = Inr ()" and "literal_text pl"
    and "set T \<subseteq> fst ` set f"
    and "\<And>d s. d \<in> set T \<Longrightarrow> dget f d = Some s \<Longrightarrow> keeps_text (dget (sm_cast m) d) \<Longrightarrow> string_series s"
  shows "run_inv n f' fl' \<and> dkeys f' = dkeys f @ dkeys rules \<and> (\<forall>c \<in> fst ` set f. dget f' c = dget f c)"
  using assms
proof (induction rules arbitrary: f fl)
  case Nil
  then show ?case by simp
next
  case (Cons rule rules)
  obtain c specs where rule: "rule = (c, specs)" by (cases rule)
  from Cons.prems(6) rule have v: "validate_derive_list m c specs T = Inr ()" by auto
  from Cons.prems(1) rule obtain g rest s s' fl1 where specs: "specs = g # rest"
    and gen: "generate_col pl f g = Inr s"
    and a: "(if rest = [] then Inr (s, fl)
        else apply_transform_list pl s c rest (opt_text (arg_or (ts_args g) ''source_column'' PyNone))
          ''derive'' 1 fl) = Inr (s', fl1)"
    and run: "run_derive pl (dset c s' f) rules fl1 = Inr (f', fl')"
    by (auto simp: result_simps split: list.splits)
  have fresh: "c \<notin> fst ` set f" using Cons.prems(5) rule by auto
  have nofail: "(c, row) \<notin> cell_of ` set fl" for row
    using Cons.prems(2) fresh dget_in_keys [of f c] by (force simp: run_inv_def cell_of_def)
  have len: "length (ser_vals s) = n"
    using generate_length [OF gen _ Cons.prems(3)] Cons.prems(2) by (simp add: run_inv_def)
  have inv: "run_inv n (dset c s' f) fl1"
  proof (cases "rest = []")
    case True
    with a have "s' = s" "fl1 = fl" by auto
    then show ?thesis using run_inv_column [OF Cons.prems(2) len, of "[]" c] nofail by simp
  next
    case False
    have "string_series s"
      by (rule derive_series_text [OF v [unfolded specs] False gen Cons.prems(7)]) (rule Cons.prems(9))
    then show ?thesis using apply_list_inv [of pl s c rest _ "''derive''" 1 fl s' fl1 n f] a False
        Cons.prems(2) len nofail by simp
  qed
  have app: "dset c s' f = f @ [(c, s')]" by (rule dkeys_dset_notin [OF fresh])
  have get: "dget (dset c s' f) d = dget f d" if "d \<in> fst ` set f" for d using that fresh by auto
  have "run_inv n f' fl' \<and> dkeys f' = dkeys (dset c s' f) @ dkeys rules \<and>
      (\<forall>d \<in> fst ` set (dset c s' f). dget f' d = dget (dset c s' f) d)"
  proof (rule Cons.IH [OF run inv])
    show "fst ` set rules \<inter> fst ` set (dset c s' f) = {}" using Cons.prems(4,5) rule by auto
    show "string_series s1" if "d \<in> set T" "dget (dset c s' f) d = Some s1" "keeps_text (dget (sm_cast m) d)"
      for d s1
    proof (rule Cons.prems(9) [OF that(1) _ that(3)])
      have "d \<in> fst ` set f" using that(1) Cons.prems(8) by blast
      then show "dget f d = Some s1" using get [of d] that(2) by simp
    qed
  qed (use Cons.prems rule app in auto)
  then show ?case using app rule get by auto
qed

section \<open>The engine as a whole\<close>

definition chunk_ok :: "nat \<Rightarrow> frame \<Rightarrow> bool" where
  "chunk_ok n f \<longleftrightarrow> frame_ok n f \<and> all_strings f"

lemma cast_text:
  assumes "string_series s" and "keeps_text spec"
  shows "string_series (cast_col pl spec s)"
  using assms on_str_PyStr
  by (auto simp: keeps_text_def cast_col_def cast_cell_def target_dtype_def smap_def string_series_def
      list_all_iff split: option.splits)

lemma engine_run:
  assumes run: "apply_mapping pl m chunk = Inr r" and m: "mapping_ok m" and ch: "chunk_ok n chunk"
    and ren: "sm_rename m \<noteq> []" and lit: "literal_text pl"
  obtains f1 f2 f3 f4 fl2 fl3 where "run_rename chunk (sm_rename m) = Inr f1"
    "run_normalize pl f1 (sm_normalize m) (rename_inverse m) [] = Inr (f2, fl2)"
    "run_cast pl f2 (sm_cast m) (rename_inverse m) fl2 = Inr (f3, fl3)"
    "\<forall>src t. (src, t) \<in> set (sm_rename m) \<longrightarrow>
       dget f4 t = Some (cast_col pl (dget (sm_cast m) t)
         (normalized_col pl (dget (sm_normalize m) t) (the (dget chunk src))))"
    "run_inv n f4 (mr_failures r)" "dkeys f4 = target_columns m" "frame_height f4 = n"
    "mr_source_row_indices r = filter (\<lambda>i. i \<notin> cf_row_index ` set (mr_failures r)) [0..<n]"
    "mr_contribution r = take_rows (mr_source_row_indices r) (map (\<lambda>c. (c, the (dget f4 c))) (target_columns m))"
    "set fl3 \<subseteq> set (mr_failures r)"
proof -
  from run obtain f1 f2 f3 f4 fl2 fl3 sel where r1: "run_rename chunk (sm_rename m) = Inr f1"
    and r2: "run_normalize pl f1 (sm_normalize m) (rename_inverse m) [] = Inr (f2, fl2)"
    and r3: "run_cast pl f2 (sm_cast m) (rename_inverse m) fl2 = Inr (f3, fl3)"
    and r4: "run_derive pl f3 (sm_derive m) fl3 = Inr (f4, mr_failures r)"
    and sel: "frame_select f4 (target_columns m) = Inr sel"
    and keep: "mr_source_row_indices r = filter (\<lambda>i. i \<notin> cf_row_index ` set (mr_failures r)) [0..<frame_height f4]"
    and con: "mr_contribution r = take_rows (mr_source_row_indices r) sel"
    by (auto simp: apply_mapping_def result_simps Let_def)
  note md = mapping_okD [OF m]
  have dok: "dict_ok (sm_rename m)" "dict_ok (sm_normalize m)" "dict_ok (sm_cast m)" "distinct (dkeys (sm_derive m))"
    using m by (auto simp: mapping_ok_def dict_ok_def)
  have i1: "run_inv n f1 [] \<and> all_strings f1 \<and> dkeys f1 = dvals (sm_rename m)"
    by (rule run_rename_inv [OF r1 dok(1) md(2)]) (use ch in \<open>auto simp: chunk_ok_def\<close>)
  then have i2: "run_inv n f2 fl2 \<and> all_strings f2 \<and> dkeys f2 = dvals (sm_rename m)"
    using run_normalize_inv [OF r2] by auto
  have i3: "run_inv n f3 fl3 \<and> dkeys f3 = dkeys f2 \<and>
      (\<forall>c. dget f3 c = map_option (cast_col pl (dget (sm_cast m) c)) (dget f2 c))"
    using run_cast_inv [OF r3 _ dok(3)] i2 all_strings_dget by blast
  then have k3: "dkeys f3 = dvals (sm_rename m)" using i2 by simp
  then have s3: "fst ` set f3 = set (dvals (sm_rename m))" by (metis set_map)
  have ne: "f3 \<noteq> []" using k3 ren by auto
  have text3: "string_series s" if d: "dget f3 d = Some s" "keeps_text (dget (sm_cast m) d)" for d s
  proof -
    from i3 d(1) obtain s2 where s2: "dget f2 d = Some s2" "s = cast_col pl (dget (sm_cast m) d) s2" by auto
    then have "string_series s2" using i2 all_strings_dget by blast
    then show ?thesis using s2(2) d(2) cast_text by blast
  qed
  have i4: "run_inv n f4 (mr_failures r) \<and> dkeys f4 = dkeys f3 @ dkeys (sm_derive m) \<and>
      (\<forall>c \<in> fst ` set f3. dget f4 c = dget f3 c)"
    by (rule run_derive_inv [OF r4 _ ne dok(4) _ md(8) lit]) (use i3 md(5) s3 text3 in auto)
  have k4: "dkeys f4 = target_columns m" using i4 k3 by (simp add: target_columns_def)
  have h: "frame_height f4 = n"
  proof -
    have "f4 \<noteq> []" using k4 ren by (auto simp: target_columns_def)
    then show ?thesis using i4 by (cases f4) (auto simp: frame_height_def run_inv_def frame_ok_def)
  qed
  have vals: "dget f4 t = Some (cast_col pl (dget (sm_cast m) t)
      (normalized_col pl (dget (sm_normalize m) t) (the (dget chunk src))))"
    if t: "(src, t) \<in> set (sm_rename m)" for src t
  proof -
    have "(t, the (dget chunk src)) \<in> set f1" using run_rename_Inr [OF r1 dok(1)] t by force
    then have "dget f1 t = Some (the (dget chunk src))" using i1 dget_mem by (auto simp: run_inv_def frame_ok_def)
    then have "dget f2 t = Some (normalized_col pl (dget (sm_normalize m) t) (the (dget chunk src)))"
      using run_normalize_value [OF r2 _ dok(2), of t] i1 by simp
    moreover have "t \<in> fst ` set f3" using s3 t by force
    then have "dget f4 t = dget f3 t" using i4 by blast
    ultimately show ?thesis using i3 by simp
  qed
  have keep': "mr_source_row_indices r = filter (\<lambda>i. i \<notin> cf_row_index ` set (mr_failures r)) [0..<n]"
    using keep h by simp
  have con': "mr_contribution r = take_rows (mr_source_row_indices r) (map (\<lambda>c. (c, the (dget f4 c))) (target_columns m))"
    using con frame_select_Inr [OF sel] by simp
  have i4': "run_inv n f4 (mr_failures r)" using i4 by simp
  show thesis using vals by (intro that [OF r1 r2 r3 _ i4' k4 h keep' con' run_derive_mono [OF r4]]) blast
qed

section \<open>Properties\<close>

text \<open>The reference for one source cell: its list of ops, then its cast.\<close>

definition mapped_cell :: "polars \<Rightarrow> source_mapping \<Rightarrow> string \<Rightarrow> pyval \<Rightarrow> pyval" where
  "mapped_cell pl m t v =
     (let w = (case dget (sm_normalize m) t of None \<Rightarrow> v | Some specs \<Rightarrow> fst (cell_run (op_cell pl) 0 v specs))
      in case dget (sm_cast m) t of None \<Rightarrow> w | Some spec \<Rightarrow> cast_cell pl spec w)"

definition cell_accepted :: "polars \<Rightarrow> source_mapping \<Rightarrow> string \<Rightarrow> pyval \<Rightarrow> bool" where
  "cell_accepted pl m t v =
     (case (case dget (sm_normalize m) t of None \<Rightarrow> (v, None) | Some specs \<Rightarrow> cell_run (op_cell pl) 0 v specs) of
        (w, refused) \<Rightarrow> refused = None \<and>
          (case dget (sm_cast m) t of None \<Rightarrow> True
           | Some spec \<Rightarrow> w = PyNone \<or> cast_cell pl spec w \<noteq> PyNone))"

lemma mapped_col:
  "ser_vals (cast_col pl (dget (sm_cast m) t) (normalized_col pl (dget (sm_normalize m) t) s)) =
   map (mapped_cell pl m t) (ser_vals s)"
  unfolding mapped_cell_def [abs_def] Let_def
  by (auto simp: cast_col_def normalized_col_def smap_def split: option.splits)

text \<open>C18: The contribution has exactly the mapping's target columns, in declaration order; its
  rows are the input rows with no recorded failure, in input order, and \<open>source_row_indices\<close>
  is parallel to them; together with the failed rows they make up the whole chunk.\<close>

theorem apply_mapping_rows:
  assumes "apply_mapping pl m chunk = Inr r" and "mapping_ok m" and "chunk_ok n chunk"
    and "sm_rename m \<noteq> []" and "literal_text pl"
  shows "dkeys (mr_contribution r) = target_columns m \<and>
    mr_source_row_indices r = filter (\<lambda>i. i \<notin> set (failed_row_indices r)) [0..<n] \<and>
    set (mr_source_row_indices r) \<union> set (failed_row_indices r) = {0..<n} \<and>
    (\<forall>s \<in> snd ` set (mr_contribution r). length (ser_vals s) = length (mr_source_row_indices r))"
  using engine_run [OF assms]
proof cases
  case (1 f1 f2 f3 f4 fl2 fl3)
  have "\<forall>f \<in> set (mr_failures r). cf_row_index f < n" using 1(5) by (simp add: run_inv_def)
  then show ?thesis using 1
    by (auto simp: failed_row_indices_def take_rows_def comp_def split_beta)
qed

text \<open>A cell is reported at most once, whatever the length of its list of ops and whether or
  not the column is cast afterwards; every report names a target column and a row of the chunk.\<close>

theorem apply_mapping_once:
  assumes "apply_mapping pl m chunk = Inr r" and "mapping_ok m" and "chunk_ok n chunk"
    and "sm_rename m \<noteq> []" and "literal_text pl"
  shows "distinct (map cell_of (mr_failures r)) \<and>
    (\<forall>f \<in> set (mr_failures r). cf_column f \<in> set (target_columns m) \<and> cf_row_index f < n)"
  using engine_run [OF assms]
proof cases
  case (1 f1 f2 f3 f4 fl2 fl3)
  then show ?thesis using dget_in_keys [of f4] by (force simp: run_inv_def simp flip: 1(6))
qed

text \<open>C32: The vectorised stages compute the cell reference: the cell of a renamed column in a
  contributed row is that row's source cell through the column's list of ops and its cast,
  and depends on no other row; and no contributed row has a refused cell.\<close>

theorem apply_mapping_cells:
  assumes run: "apply_mapping pl m chunk = Inr r" and m: "mapping_ok m" and ch: "chunk_ok n chunk"
    and ren: "sm_rename m \<noteq> []" and lit: "literal_text pl"
    and t: "(src, t) \<in> set (sm_rename m)" and j: "j < length (mr_source_row_indices r)"
  shows "ser_vals (the (dget (mr_contribution r) t)) ! j =
      mapped_cell pl m t (ser_vals (the (dget chunk src)) ! (mr_source_row_indices r ! j)) \<and>
    cell_accepted pl m t (ser_vals (the (dget chunk src)) ! (mr_source_row_indices r ! j))"
  using engine_run [OF run m ch ren lit]
proof cases
  case (1 f1 f2 f3 f4 fl2 fl3)
  let ?i = "mr_source_row_indices r ! j" and ?s = "the (dget chunk src)"
  have dok: "dict_ok (sm_rename m)" "dict_ok (sm_normalize m)" "dict_ok (sm_cast m)"
    using m by (auto simp: mapping_ok_def)
  have i: "?i < n" "?i \<notin> cf_row_index ` set (mr_failures r)"
    using j nth_mem [OF j] unfolding 1(8) by auto
  have "t \<in> set (target_columns m)" using t by (force simp: target_columns_def)
  then have get: "dget (mr_contribution r) t = Some ((the (dget f4 t))\<lparr>ser_vals :=
      map (\<lambda>i. ser_vals (the (dget f4 t)) ! i) (mr_source_row_indices r)\<rparr>)"
    using mapping_okD(1) [OF m] unfolding 1(9) take_rows_def
    by (intro dget_mem) (auto simp: dict_ok_def comp_def split_beta image_iff)
  have i1: "run_inv n f1 [] \<and> all_strings f1 \<and> dkeys f1 = dvals (sm_rename m)"
    using run_rename_inv [OF 1(1) dok(1) mapping_okD(2) [OF m]] ch by (auto simp: chunk_ok_def)
  have "(t, ?s) \<in> set f1" using run_rename_Inr [OF 1(1) dok(1)] t by force
  then have s1: "dget f1 t = Some ?s" using i1 dget_mem by (auto simp: run_inv_def frame_ok_def)
  then have n: "length (ser_vals ?s) = n" using i1 frame_ok_dget by (auto simp: run_inv_def)
  have s2: "dget f2 t = Some (normalized_col pl (dget (sm_normalize m) t) ?s)"
    using run_normalize_value [OF 1(2) _ dok(2)] i1 s1 by simp
  note i2 = run_normalize_inv [OF 1(2), of n]
  have cast: "run_inv n f3 fl3 \<and> dkeys f3 = dkeys f2 \<and>
     (\<forall>c. dget f3 c = map_option (cast_col pl (dget (sm_cast m) c)) (dget f2 c)) \<and> set fl2 \<subseteq> set fl3 \<and>
     (\<forall>c spec s row. dget (sm_cast m) c = Some spec \<longrightarrow> dget f2 c = Some s \<longrightarrow> row < n \<longrightarrow>
       ser_vals s ! row \<noteq> PyNone \<longrightarrow> cast_cell pl spec (ser_vals s ! row) = PyNone \<longrightarrow>
       (c, row) \<in> cell_of ` set fl3)"
    by (rule run_cast_inv [OF 1(3) _ dok(3)]) (use i1 i2 all_strings_dget in blast)+
  have unrep: "(t, ?i) \<notin> cell_of ` set fl2 \<and> (t, ?i) \<notin> cell_of ` set fl3"
    using i(2) cast 1(10) by (force simp: cell_of_def)
  have "cell_accepted pl m t (ser_vals ?s ! ?i)"
  proof -
    have a: "snd (cell_run (op_cell pl) 0 (ser_vals ?s ! ?i) specs) = None"
      if "dget (sm_normalize m) t = Some specs" for specs
      using run_normalize_complete [OF 1(2) _ _ dok(2) that s1 i(1)] i1 unrep by blast
    have b: "ser_vals (normalized_col pl (dget (sm_normalize m) t) ?s) ! ?i = PyNone \<or>
        cast_cell pl spec (ser_vals (normalized_col pl (dget (sm_normalize m) t) ?s) ! ?i) \<noteq> PyNone"
      if "dget (sm_cast m) t = Some spec" for spec
      using cast that s2 i(1) unrep by blast
    show ?thesis using a b i(1) n
      by (auto simp: cell_accepted_def normalized_col_def split: option.splits prod.splits)
  qed
  moreover have "dget f4 t = Some (cast_col pl (dget (sm_cast m) t) (normalized_col pl (dget (sm_normalize m) t) ?s))"
    using 1(4) t by blast
  ultimately show ?thesis using get j i(1) n by (simp add: mapped_col)
qed

section \<open>Termination with a result\<close>

text \<open>
  What a mapping asks of polars: the formats of its \<open>parse_date\<close> and \<open>parse_datetime\<close> transforms
  parse, and the zones of those \<open>parse_datetime\<close> transforms whose format carries no offset are
  known. Validation does not look at either; a format or a zone polars refuses raises a
  \<open>MappingConfigError\<close> when the transform runs.
\<close>

definition polars_takes :: "polars \<Rightarrow> transform_spec \<Rightarrow> bool" where
  "polars_takes pl spec \<longleftrightarrow> (case arg_str (ts_args spec) ''format'' of Inl e \<Rightarrow> True | Inr fmt \<Rightarrow>
     if ts_op spec = ''parse_date'' then is_ok (pl_strptime_date pl fmt)
     else if ts_op spec = ''parse_datetime'' then is_ok (pl_strptime_datetime pl fmt) \<and> (pl_strptime_aware pl fmt \<or>
       (case arg_opt_str (ts_args spec) ''timezone'' of Inl e \<Rightarrow> True | Inr z \<Rightarrow> pl_zone_known pl z))
     else True)"

definition polars_takes_mapping :: "polars \<Rightarrow> source_mapping \<Rightarrow> bool" where
  "polars_takes_mapping pl m \<longleftrightarrow>
     list_all (\<lambda>(c, specs). list_all (polars_takes pl) specs) (sm_normalize m) \<and>
     list_all (\<lambda>(c, specs). list_all (polars_takes pl) specs) (sm_derive m)"
















section \<open>A percentage that is lost\<close>

text \<open>A percentage in the declared locale whose text polars cannot hold as a decimal of scale
  18 becomes null and is not reported, although its cell was not null: the failure mask of
  \<open>parse_percent\<close> looks at the expression only.\<close>

theorem parse_percent_silent_null:
  assumes "arg_str a ''decimal_separator'' = Inr sep" and "arg_opt_str a ''thousands_separator'' = Inr thou"
    and "percent_pattern sep thou x"
    and "pl_decimal18 pl (strip_separators (Some sep) thou (drop_last_char (CHR ''%'') x)) = PyNone"
  shows "\<exists>out. parse_percent pl \<lparr>ser_dtype = DString, ser_vals = [PyStr x]\<rparr> a = Inr out \<and>
    ser_vals (oo_values out) = [PyNone] \<and> oo_failed out = [False]"
  using assms by (simp add: parse_percent_def Let_def series_defs)

section \<open>A concrete run\<close>

text \<open>
  Two rows of a source with an item and a quantity column. The parameters print and parse
  nothing but digits, which is enough for the ops of this mapping.
\<close>

definition demo_polars :: polars where
  "demo_polars = \<lparr>pl_strptime_date = (\<lambda>_. Inr (\<lambda>_. PyNone)), pl_strftime_date = py_str,
     pl_strptime_datetime = (\<lambda>_. Inr (\<lambda>_. PyNone)), pl_strptime_aware = (\<lambda>_. False),
     pl_zone_known = (\<lambda>_. True), pl_replace_time_zone = (\<lambda>_ v. v), pl_to_utc = (\<lambda>v. v),
     pl_strftime_datetime = py_str, pl_to_uppercase = py_upper, pl_to_lowercase = (\<lambda>x. x),
     pl_strip_chars = py_strip,
     pl_decimal18 = (\<lambda>x. if length x \<le> 20 \<and> list_all is_digit x then PyDecimal (int (dec_int x)) 0 else PyNone),
     pl_div100_str = py_str,
     pl_cast_str = (\<lambda>_ x. if x \<noteq> [] \<and> list_all is_digit x then PyInt (int (dec_int x)) else PyNone),
     pl_to_date = (\<lambda>_. PyNone), pl_to_datetime = (\<lambda>_. PyNone), pl_cast = (\<lambda>_ _ v. v),
     pl_date_of = (\<lambda>v. v), pl_literal_dtype = (\<lambda>v. if is_str v then DString else DInt64),
     pl_typed_op = (\<lambda>_ _ _. Inl (py_exn (PyForeign ''polars.exceptions.SchemaError'')))\<rparr>"

definition demo_mapping :: source_mapping where
  "demo_mapping = \<lparr>sm_version = 1, sm_rename = [(''Item'', ''sku_id''), (''Qty'', ''quantity'')],
     sm_normalize = [(''sku_id'', [\<lparr>ts_op = ''normalize_case'', ts_args = [(''mode'', PyStr ''upper'')]\<rparr>]),
       (''quantity'', [\<lparr>ts_op = ''parse_integer'', ts_args = [(''thousands_separator'', PyStr '','')]\<rparr>])],
     sm_cast = [(''quantity'', \<lparr>cs_type = CInteger, cs_precision = None, cs_scale = None\<rparr>)],
     sm_derive = [(''channel'', [\<lparr>ts_op = ''constant'', ts_args = [(''value'', PyStr ''POS'')]\<rparr>])]\<rparr>"

definition demo_chunk :: frame where
  "demo_chunk = [(''Item'', \<lparr>ser_dtype = DString, ser_vals = [PyStr ''ab'', PyStr ''cd'']\<rparr>),
     (''Qty'', \<lparr>ser_dtype = DString, ser_vals = [PyStr ''1,200'', PyStr ''12,00'']\<rparr>)]"

definition demo_result :: mapping_result where
  "demo_result = (case apply_mapping demo_polars demo_mapping demo_chunk of Inr r \<Rightarrow> r
     | Inl _ \<Rightarrow> \<lparr>mr_contribution = [], mr_source_row_indices = [], mr_failures = []\<rparr>)"

lemma demo_ok:
  "mapping_ok demo_mapping" "chunk_ok 2 demo_chunk" "sm_rename demo_mapping \<noteq> []"
  "literal_text demo_polars" "polars_takes_mapping demo_polars demo_mapping"
  "fst ` set (sm_rename demo_mapping) \<subseteq> fst ` set demo_chunk"
proof -
  show "mapping_ok demo_mapping" by code_simp
  show "chunk_ok 2 demo_chunk"
    by (simp add: chunk_ok_def frame_ok_def all_strings_def demo_chunk_def string_series_def dict_ok_def)
  show "literal_text demo_polars" by (simp add: literal_text_def demo_polars_def)
  show "polars_takes_mapping demo_polars demo_mapping" by code_simp
qed (simp_all add: demo_mapping_def demo_chunk_def)

lemma demo_run: "apply_mapping demo_polars demo_mapping demo_chunk = Inr demo_result"
  by code_simp

lemma demo_rows: "mr_source_row_indices demo_result = [0]" "length (mr_failures demo_result) = 1"
  by code_simp+

theorem apply_mapping_rows_witness:
  "dkeys (mr_contribution demo_result) = [''sku_id'', ''quantity'', ''channel''] \<and>
   filter (\<lambda>i. i \<notin> set (failed_row_indices demo_result)) [0..<2] = [0]"
  using apply_mapping_rows [OF demo_run demo_ok(1-4)] demo_rows
  by (simp add: demo_mapping_def target_columns_def)

theorem apply_mapping_once_witness:
  "length (mr_failures demo_result) = 1 \<and> distinct (map cell_of (mr_failures demo_result)) \<and>
   list_all (\<lambda>f. cf_column f \<in> set (target_columns demo_mapping) \<and> cf_row_index f < 2) (mr_failures demo_result)"
  using apply_mapping_once [OF demo_run demo_ok(1-4)] demo_rows by (simp add: list_all_iff)

theorem apply_mapping_cells_witness:
  "ser_vals (the (dget (mr_contribution demo_result) ''quantity'')) ! 0 = PyInt 1200"
proof -
  have t: "(''Qty'', ''quantity'') \<in> set (sm_rename demo_mapping)" by (simp add: demo_mapping_def)
  have "ser_vals (the (dget (mr_contribution demo_result) ''quantity'')) ! 0 =
      mapped_cell demo_polars demo_mapping ''quantity''
        (ser_vals (the (dget demo_chunk ''Qty'')) ! (mr_source_row_indices demo_result ! 0))"
    using apply_mapping_cells [OF demo_run demo_ok(1-4) t, of 0] demo_rows by simp
  also have "\<dots> = PyInt 1200" by code_simp
  finally show ?thesis .
qed

text \<open>A mapping with a declared zone, over a polars that knows no other; another zone would raise.\<close>

definition dated_mapping :: "string \<Rightarrow> source_mapping" where
  "dated_mapping zone = \<lparr>sm_version = 1, sm_rename = [(''When'', ''event_at'')],
     sm_normalize = [(''event_at'', [\<lparr>ts_op = ''parse_datetime'', ts_args = [(''format'', PyStr ''%Y''), (''timezone'', PyStr zone)]\<rparr>])],
     sm_cast = [], sm_derive = []\<rparr>"

definition utc_polars :: polars where
  "utc_polars = demo_polars\<lparr>pl_zone_known := (\<lambda>z. z = Some ''UTC'')\<rparr>"

definition dated_chunk :: frame where
  "dated_chunk = [(''When'', \<lparr>ser_dtype = DString, ser_vals = [PyStr ''2024'', PyStr ''x'']\<rparr>)]"

lemma unknown_zone_raises: "mapping_ok (dated_mapping ''Not/AZone'') \<and> \<not> is_ok (apply_mapping utc_polars (dated_mapping ''Not/AZone'') dated_chunk)"
  by code_simp


theorem parse_percent_silent_null_witness:
  "\<exists>out. parse_percent demo_polars \<lparr>ser_dtype = DString, ser_vals = [PyStr ''999999999999999999999%'']\<rparr>
      [(''decimal_separator'', PyStr ''.''), (''thousands_separator'', PyNone)] = Inr out \<and>
    ser_vals (oo_values out) = [PyNone] \<and> oo_failed out = [False]"
  by (rule parse_percent_silent_null [where sep = "''.''" and thou = None]; code_simp)

section \<open>The declared locale\<close>

text \<open>
  A number the decimal expression accepts, stripped of its separators, is a plain number:
  optional sign, digits, and at most one point with digits after it.
\<close>

definition plain_separator :: "string \<Rightarrow> bool" where
  "plain_separator s \<longleftrightarrow> (\<exists>c. s = [c] \<and> \<not> is_digit c \<and> c \<noteq> CHR ''+'' \<and> c \<noteq> CHR ''-'')"

definition plain_number :: "string \<Rightarrow> bool" where
  "plain_number = decimal_pattern ''.'' None"

lemma replace_char_Nil: "replace_char c [] s = filter (\<lambda>x. x \<noteq> c) s"
  by (induction s) (auto simp: replace_char_def)

lemma replace_char_one: "replace_char c [d] s = map (\<lambda>x. if x = c then d else x) s"
  by (induction s) (auto simp: replace_char_def)

definition is_thousands :: "string option \<Rightarrow> char \<Rightarrow> bool" where
  "is_thousands thou c \<longleftrightarrow> thou = Some [c]"

definition cleanse :: "char \<Rightarrow> string option \<Rightarrow> string \<Rightarrow> string" where
  "cleanse d thou s = map (\<lambda>c. if c = d then CHR ''.'' else c) (filter (\<lambda>c. \<not> is_thousands thou c) s)"

lemma strip_separators_eq:
  assumes "thou = None \<or> (\<exists>t. thou = Some [t])"
  shows "strip_separators (Some [d]) thou s = cleanse d thou s"
proof -
  have "(case thou of Some t \<Rightarrow> if t \<noteq> [] then replace_all t [] s else s | None \<Rightarrow> s) =
      filter (\<lambda>c. \<not> is_thousands thou c) s"
    using assms by (auto simp: replace_all_def replace_char_Nil is_thousands_def intro!: filter_cong)
  then show ?thesis
    by (auto simp: strip_separators_def cleanse_def replace_all_def replace_char_one Let_def
        intro!: map_idI [symmetric])
qed

lemma cleanse_append: "cleanse d thou (p @ q) = cleanse d thou p @ cleanse d thou q"
  by (simp add: cleanse_def)

lemma cleanse_Cons:
  "\<not> is_thousands thou c \<Longrightarrow> c \<noteq> d \<Longrightarrow> cleanse d thou (c # s) = c # cleanse d thou s"
  "is_thousands thou c \<Longrightarrow> cleanse d thou (c # s) = cleanse d thou s"
  "cleanse d thou [] = []"
  by (simp_all add: cleanse_def)

lemma clean_digits:
  assumes "list_all is_digit s" and "\<not> is_digit d" and "\<And>c. is_thousands thou c \<Longrightarrow> \<not> is_digit c"
  shows "cleanse d thou s = s"
  using assms(1)
proof (induction s)
  case (Cons c s)
  then have "\<not> is_thousands thou c" "c \<noteq> d" using assms(2,3) by auto
  then show ?case using Cons by (simp add: cleanse_Cons)
qed (simp add: cleanse_Cons)

lemma clean_groups:
  assumes "sep_groups t s" and "\<not> is_digit t" and "\<not> is_digit d"
  shows "list_all is_digit (cleanse d (Some [t]) s) \<and>
    filter is_digit (cleanse d (Some [t]) s) = filter is_digit s"
  using assms
proof (induction t s rule: sep_groups.induct)
  case (2 c x d1 d2 d3 rest)
  have dg: "cleanse d (Some [c]) (y # z) = y # cleanse d (Some [c]) z" if "is_digit y" for y z
    using that 2(3,4) by (intro cleanse_Cons) (auto simp: is_thousands_def)
  have "cleanse d (Some [c]) (x # d1 # d2 # d3 # rest) = d1 # d2 # d3 # cleanse d (Some [c]) rest"
    using 2(2) by (simp add: cleanse_Cons(2) is_thousands_def dg)
  then show ?case using 2 by simp
qed (simp_all add: cleanse_Cons)

text \<open>The integer part, cleaned, is a run of the same digits.\<close>

lemma clean_body:
  assumes body: "numeric_body thou b" and d: "\<not> is_digit d"
    and thou: "thou = None \<or> (\<exists>t. thou = Some [t])" and th: "\<And>c. is_thousands thou c \<Longrightarrow> \<not> is_digit c"
  shows "cleanse d thou b \<noteq> [] \<and> list_all is_digit (cleanse d thou b) \<and>
    filter is_digit (cleanse d thou b) = filter is_digit b"
proof (cases "b \<noteq> [] \<and> list_all is_digit b")
  case True
  then show ?thesis using clean_digits [of b d thou] d th by simp
next
  case False
  with body thou obtain t k where t: "thou = Some [t]" and k: "k < length b" "list_all is_digit (take k b)"
    "sep_groups t (drop k b)" "0 < k"
    by (auto simp: numeric_body_def split: option.splits)
  have nt: "\<not> is_digit t" using th t by (simp add: is_thousands_def)
  have "cleanse d thou b = take k b @ cleanse d thou (drop k b)"
    using clean_digits [OF k(2) d th] cleanse_append [of d thou "take k b" "drop k b"] by simp
  moreover have "filter is_digit b = filter is_digit (take k b) @ filter is_digit (drop k b)"
    by (metis append_take_drop_id filter_append)
  ultimately show ?thesis using clean_groups [OF k(3) nt d] k t by auto
qed

lemma signed_split:
  assumes "u \<in> set (signed_splits s)"
  obtains sg where "s = sg @ u" "sg = [] \<or> sg = ''+'' \<or> sg = ''-''"
  using assms by (auto simp: signed_splits_def split: list.splits if_splits)

lemma plain_numberI:
  assumes "sg = [] \<or> sg = ''+'' \<or> sg = ''-''" and "b \<noteq> []" "list_all is_digit b" and "fraction ''.'' r"
  shows "plain_number (sg @ b @ r)"
proof -
  have "list_ex (\<lambda>i. numeric_body None (take i (b @ r)) \<and> fraction ''.'' (drop i (b @ r))) [0..<Suc (length (b @ r))]"
    unfolding list_ex_iff by (rule bexI [of _ "length b"]) (use assms in \<open>auto simp: numeric_body_def\<close>)
  moreover have "b @ r \<in> set (signed_splits (sg @ b @ r))"
    using assms(1) by (auto simp: signed_splits_def)
  ultimately show ?thesis unfolding plain_number_def decimal_pattern_def match_number_def list_ex_iff by blast
qed

text \<open>Under separators that are neither digits nor signs, every text the decimal op accepts is
  stripped to a plain number with the same digits in the same order; the value is never read
  in a locale other than the declared one.\<close>

theorem parse_decimal_canonical:
  assumes acc: "decimal_pattern sep thou x" and sep: "plain_separator sep"
    and thou: "thou = None \<or> (\<exists>t. thou = Some t \<and> plain_separator t \<and> t \<noteq> sep)"
  shows "plain_number (strip_separators (Some sep) thou x) \<and>
    filter is_digit (strip_separators (Some sep) thou x) = filter is_digit x"
proof -
  obtain d where d: "sep = [d]" "\<not> is_digit d" "d \<noteq> CHR ''+''" "d \<noteq> CHR ''-''"
    using sep by (auto simp: plain_separator_def)
  have thou1: "thou = None \<or> (\<exists>t. thou = Some [t])" using thou by (auto simp: plain_separator_def)
  have th: "\<not> is_digit c \<and> c \<noteq> CHR ''+'' \<and> c \<noteq> CHR ''-'' \<and> c \<noteq> d" if "is_thousands thou c" for c
    using that thou d by (auto simp: is_thousands_def plain_separator_def)
  define g where "g = cleanse d thou"
  have g: "strip_separators (Some sep) thou s = g s" for s
    unfolding g_def d(1) by (rule strip_separators_eq [OF thou1])
  have app: "g (p @ q) = g p @ g q" for p q by (simp add: g_def cleanse_append)
  obtain u i where u: "u \<in> set (signed_splits x)" and b: "numeric_body thou (take i u)" and r: "fraction sep (drop i u)"
    using acc unfolding decimal_pattern_def match_number_def list_ex_iff by blast
  obtain sg where sg: "x = sg @ u" "sg = [] \<or> sg = ''+'' \<or> sg = ''-''" using signed_split [OF u] by blast
  have gsg: "g sg = sg" using sg(2) d th th [of "CHR ''+''"] th [of "CHR ''-''"]
    by (auto simp: g_def cleanse_def)
  note body = clean_body [OF b d(2) thou1, folded g_def]
  have frac: "fraction ''.'' (g (drop i u)) \<and> filter is_digit (g (drop i u)) = filter is_digit (drop i u)"
  proof (cases "drop i u = []")
    case False
    with r d obtain q where q: "drop i u = d # q" "q \<noteq> []" "list_all is_digit q"
      by (cases "drop i u") (auto simp: fraction_def)
    have "g q = q" using clean_digits [OF q(3) d(2)] th by (simp add: g_def)
    moreover have "\<not> is_thousands thou d" using th by blast
    then have "g (drop i u) = CHR ''.'' # g q" by (simp add: g_def cleanse_def q(1))
    moreover have "\<not> is_digit (CHR ''.'')" by (simp add: is_digit_def)
    ultimately show ?thesis using q d by (simp add: fraction_def)
  qed (simp add: g_def cleanse_def fraction_def)
  have gx: "g x = sg @ g (take i u) @ g (drop i u)"
    using sg(1) gsg app by (metis append_take_drop_id)
  moreover have "plain_number (sg @ g (take i u) @ g (drop i u))"
    by (rule plain_numberI [OF sg(2)]) (use body th frac in auto)
  moreover have "filter is_digit x = filter is_digit sg @ filter is_digit (take i u) @ filter is_digit (drop i u)"
    using sg(1) by (metis append_take_drop_id filter_append)
  ultimately show ?thesis unfolding g using body th frac by simp
qed

theorem parse_decimal_canonical_witness:
  "plain_number (strip_separators (Some '','') (Some ''.'') ''1.299,50'') \<and>
   strip_separators (Some '','') (Some ''.'') ''1.299,50'' = ''1299.50'' \<and>
   \<not> decimal_pattern '','' (Some ''.'') ''1,299.50''"
proof -
  have "decimal_pattern '','' (Some ''.'') ''1.299,50''" by code_simp
  moreover have "plain_separator '',''" "plain_separator ''.''"
    by (auto simp: plain_separator_def is_digit_def)
  ultimately have "plain_number (strip_separators (Some '','') (Some ''.'') ''1.299,50'')"
    using parse_decimal_canonical [of "'',''" "Some ''.''" "''1.299,50''"] by simp
  moreover have "strip_separators (Some '','') (Some ''.'') ''1.299,50'' = ''1299.50'' \<and>
     \<not> decimal_pattern '','' (Some ''.'') ''1,299.50''" by code_simp
  ultimately show ?thesis by blast
qed

end
