(* ===== verification/Canonical_Model.thy ===== *)
theory Canonical_Model
  imports Py_Values
begin

text \<open>
  The canonical models of \<open>libs/dis-canonical\<close> as the other components see them (their field
  names and which of them are required), the template-type vocabulary, and the column
  provenance of \<open>libs/dis-validation\<close>: the five-way partition of each model's columns with the
  guard that checks it against the model. A \<open>frozenset\<close> of column names is the list of its
  members.
\<close>

section \<open>Models\<close>

datatype canonical_model =
  StoreSkuCurrentPosition | StoreSkuSaleEvent | StoreSkuChangeEvent | StoreSkuSignalHistory

fun model_name :: "canonical_model \<Rightarrow> string" where
  "model_name StoreSkuCurrentPosition = ''StoreSkuCurrentPosition''"
| "model_name StoreSkuSaleEvent = ''StoreSkuSaleEvent''"
| "model_name StoreSkuChangeEvent = ''StoreSkuChangeEvent''"
| "model_name StoreSkuSignalHistory = ''StoreSkuSignalHistory''"

text \<open>The fields in declaration order; a field without a default is required.\<close>

definition current_position_fields :: "(string \<times> bool) list" where
  "current_position_fields = [
      (''id'', False), (''tenant_id'', True), (''store_id'', True), (''sku_id'', True),
      (''sku_variant'', False), (''sku_lot_batch'', False), (''barcode'', False),
      (''product_name'', True), (''product_description'', False), (''product_category'', False),
      (''product_sub_category'', False), (''product_department'', False),
      (''supplier_id'', False), (''packaging_type'', False), (''sku_size'', False),
      (''unit_of_measure'', False), (''current_retail_price'', True), (''unit_cost'', False),
      (''promo_price'', False), (''promo_identifier'', False),
      (''yesterday_retail_price'', False), (''tax_treatment'', True), (''stock_qty'', False),
      (''lead_time_days'', False), (''expiry_date'', False), (''receipt_date'', False),
      (''expiry_source'', False), (''expiry_confidence'', False), (''regulatory_flag'', False),
      (''regulatory_type'', False), (''currency'', True), (''reorder_point'', False),
      (''sku_status'', False), (''velocity_7day'', False), (''stock_age_days'', False),
      (''unit_cost_trend_30day'', False), (''attribute_staleness_map'', False),
      (''last_source_event_at'', False), (''mapping_version_id'', True), (''trace_id'', True),
      (''dis_channel'', True), (''last_updated_at'', False), (''ingest_metadata'', False)]"

definition sale_event_fields :: "(string \<times> bool) list" where
  "sale_event_fields = [
      (''id'', False), (''event_date'', True), (''tenant_id'', True), (''store_id'', True),
      (''sku_id'', True), (''sku_variant'', False), (''sku_lot_batch'', False),
      (''event_subtype'', True), (''source_sale_timestamp'', True), (''transaction_id'', False),
      (''line_item_seq'', False), (''quantity'', True), (''unit_retail_price'', True),
      (''unit_sale_price'', True), (''discount_amount'', False), (''discount_pct'', False),
      (''unit_cost'', False), (''promo_identifier'', False), (''tax_amount'', False),
      (''tax_treatment'', True), (''currency'', True), (''payment_method'', False),
      (''customer_token'', False), (''sale_channel'', False),
      (''store_sku_current_position_id'', False), (''related_sale_event_id'', False),
      (''source_id'', True), (''source_event_id'', True), (''mapping_version_id'', True),
      (''trace_id'', True), (''dis_channel'', True), (''last_updated_at'', False),
      (''ingest_metadata'', False)]"

definition change_event_fields :: "(string \<times> bool) list" where
  "change_event_fields = [
      (''id'', False), (''event_date'', True), (''tenant_id'', True), (''store_id'', True),
      (''sku_id'', True), (''sku_variant'', False), (''sku_lot_batch'', False),
      (''store_sku_current_position_id'', False), (''event_category'', True),
      (''event_subtype'', True), (''source_event_timestamp'', True), (''effective_from'', False),
      (''effective_until'', False), (''attribute_name'', False), (''value_before'', False),
      (''value_after'', False), (''numeric_value_before'', False),
      (''numeric_value_after'', False), (''numeric_change'', False), (''reason_code'', False),
      (''reason_note'', False), (''change_context'', False), (''source_id'', True),
      (''source_event_id'', True), (''mapping_version_id'', True), (''trace_id'', True),
      (''dis_channel'', True), (''last_updated_at'', False), (''ingest_metadata'', False)]"

definition signal_history_fields :: "(string \<times> bool) list" where
  "signal_history_fields = [
      (''id'', False), (''as_of_date'', True), (''tenant_id'', True), (''store_id'', True),
      (''sku_id'', True), (''sku_variant'', False), (''sku_lot_batch'', False),
      (''store_sku_current_position_id'', False), (''velocity_7day'', False),
      (''stock_age_days'', False), (''unit_cost_trend_30day'', False), (''trace_id'', True),
      (''created_at'', False), (''compute_metadata'', False)]"

fun model_fields :: "canonical_model \<Rightarrow> (string \<times> bool) list" where
  "model_fields StoreSkuCurrentPosition = current_position_fields"
| "model_fields StoreSkuSaleEvent = sale_event_fields"
| "model_fields StoreSkuChangeEvent = change_event_fields"
| "model_fields StoreSkuSignalHistory = signal_history_fields"

section \<open>Template types\<close>

definition SNAPSHOT :: string where "SNAPSHOT = ''snapshot''"
definition SALES :: string where "SALES = ''sales''"
definition INVENTORY_CHANGE :: string where "INVENTORY_CHANGE = ''inventory_change''"

definition MODEL_BY_TYPE :: "(string, canonical_model) pydict" where
  "MODEL_BY_TYPE = [(SNAPSHOT, StoreSkuCurrentPosition), (SALES, StoreSkuSaleEvent),
     (INVENTORY_CHANGE, StoreSkuChangeEvent)]"

definition is_template_type :: "string \<Rightarrow> bool" where
  "is_template_type v \<longleftrightarrow> v \<in> set (dkeys MODEL_BY_TYPE)"

definition model_for_template_type :: "string \<Rightarrow> (exn, canonical_model) result" where
  "model_for_template_type t = (case dget MODEL_BY_TYPE t of
     None \<Rightarrow> Inl (py_exn PyKeyError) | Some m \<Rightarrow> Inr m)"

section \<open>Provenance\<close>

record column_provenance =
  cp_consumer_injected :: "string list"
  cp_db_generated :: "string list"
  cp_compute_owned :: "string list"
  cp_mapping_produced :: "string list"
  cp_enrichment_produced :: "string list"

definition common_consumer_injected :: "string list" where
  "common_consumer_injected = [''tenant_id'', ''store_id'', ''mapping_version_id'', ''trace_id'',
     ''dis_channel'', ''ingest_metadata'']"

definition common_db_generated :: "string list" where
  "common_db_generated = [''id'', ''last_updated_at'']"

definition current_position_provenance :: column_provenance where
  "current_position_provenance = \<lparr>cp_consumer_injected = common_consumer_injected @ [''last_source_event_at''],
     cp_db_generated = common_db_generated,
     cp_compute_owned = [''velocity_7day'', ''stock_age_days'', ''unit_cost_trend_30day'',
      ''attribute_staleness_map'', ''yesterday_retail_price''],
     cp_mapping_produced = [''sku_id'', ''sku_variant'', ''sku_lot_batch'', ''barcode'', ''product_name'',
      ''product_description'', ''product_category'', ''product_sub_category'',
      ''product_department'', ''supplier_id'', ''packaging_type'', ''sku_size'',
      ''unit_of_measure'', ''current_retail_price'', ''unit_cost'', ''promo_price'',
      ''promo_identifier'', ''stock_qty'', ''lead_time_days'', ''expiry_date'', ''receipt_date'',
      ''expiry_source'', ''expiry_confidence'', ''regulatory_flag'', ''regulatory_type'',
      ''currency'', ''reorder_point'', ''sku_status''],
     cp_enrichment_produced = [''tax_treatment'']\<rparr>"

definition sale_event_provenance :: column_provenance where
  "sale_event_provenance = \<lparr>cp_consumer_injected = common_consumer_injected @ [''source_id'', ''source_event_id'',
      ''store_sku_current_position_id'', ''related_sale_event_id'', ''tax_treatment''],
     cp_db_generated = common_db_generated,
     cp_compute_owned = [],
     cp_mapping_produced = [''event_date'', ''sku_id'', ''sku_variant'', ''sku_lot_batch'', ''event_subtype'',
      ''source_sale_timestamp'', ''transaction_id'', ''line_item_seq'', ''quantity'',
      ''unit_retail_price'', ''unit_sale_price'', ''discount_amount'', ''discount_pct'',
      ''unit_cost'', ''promo_identifier'', ''tax_amount'', ''currency'', ''payment_method'',
      ''customer_token'', ''sale_channel''],
     cp_enrichment_produced = []\<rparr>"

definition change_event_provenance :: column_provenance where
  "change_event_provenance = \<lparr>cp_consumer_injected = common_consumer_injected @ [''source_id'', ''source_event_id'',
      ''store_sku_current_position_id'', ''numeric_value_before'', ''numeric_value_after'',
      ''numeric_change''],
     cp_db_generated = common_db_generated,
     cp_compute_owned = [],
     cp_mapping_produced = [''event_date'', ''sku_id'', ''sku_variant'', ''sku_lot_batch'', ''event_category'',
      ''event_subtype'', ''source_event_timestamp'', ''effective_from'', ''effective_until'',
      ''attribute_name'', ''value_before'', ''value_after'', ''reason_code'', ''reason_note'',
      ''change_context''],
     cp_enrichment_produced = []\<rparr>"

definition PROVENANCE :: "(canonical_model, column_provenance) pydict" where
  "PROVENANCE = [(StoreSkuCurrentPosition, current_position_provenance),
     (StoreSkuSaleEvent, sale_event_provenance), (StoreSkuChangeEvent, change_event_provenance)]"

definition NOT_MAPPING_PRODUCED :: "canonical_model list" where
  "NOT_MAPPING_PRODUCED = [StoreSkuSignalHistory]"

definition provenance_sets :: "column_provenance \<Rightarrow> string list list" where
  "provenance_sets p = [cp_consumer_injected p, cp_db_generated p, cp_compute_owned p,
     cp_mapping_produced p, cp_enrichment_produced p]"

text \<open>\<open>first & second\<close> and \<open>first - second\<close>.\<close>

definition list_inter :: "string list \<Rightarrow> string list \<Rightarrow> string list" where
  "list_inter xs ys = filter (\<lambda>x. x \<in> set ys) xs"

definition list_minus :: "string list \<Rightarrow> string list \<Rightarrow> string list" where
  "list_minus xs ys = filter (\<lambda>x. x \<notin> set ys) xs"

text \<open>The first pair of sets, in the order of the double loop, that overlaps.\<close>

fun first_overlap :: "string list list \<Rightarrow> string list" where
  "first_overlap [] = []"
| "first_overlap (s # ss) =
     (case filter (\<lambda>ov. ov \<noteq> []) (map (list_inter s) ss) of
        ov # _ \<Rightarrow> ov
      | [] \<Rightarrow> first_overlap ss)"

definition assert_partition_consistent ::
  "canonical_model \<Rightarrow> (string \<times> bool) list \<Rightarrow> column_provenance \<Rightarrow> (exn, unit) result" where
  "assert_partition_consistent m flds p =
    (let overlap = first_overlap (provenance_sets p);
         classified = concat (provenance_sets p);
         unclassified = list_minus (map fst flds) classified;
         stale = list_minus classified (map fst flds);
         drift = (\<lambda>cols. Inl (suite_drift_error (Some (model_name m)) (Some (hd (sorted_set cols)))))
     in if overlap \<noteq> [] then drift overlap
        else if unclassified \<noteq> [] then drift unclassified
        else if stale \<noteq> [] then drift stale
        else Inr ())"

definition assert_no_drift :: "canonical_model \<Rightarrow> (exn, unit) result" where
  "assert_no_drift m =
     (if m \<in> set NOT_MAPPING_PRODUCED then Inl (suite_drift_error (Some (model_name m)) None)
      else (case dget PROVENANCE m of
              None \<Rightarrow> Inl (suite_drift_error (Some (model_name m)) None)
            | Some p \<Rightarrow> assert_partition_consistent m (model_fields m) p))"

definition provenance_of :: "canonical_model \<Rightarrow> (exn, column_provenance) result" where
  "provenance_of m = (case dget PROVENANCE m of
     None \<Rightarrow> Inl (py_exn PyKeyError) | Some p \<Rightarrow> Inr p)"

definition mapping_produced_columns :: "canonical_model \<Rightarrow> (exn, string list) result" where
  "mapping_produced_columns m = rbind (assert_no_drift m) (\<lambda>_.
     rbind (provenance_of m) (\<lambda>p. Inr (cp_mapping_produced p)))"

definition enrichment_produced_columns :: "canonical_model \<Rightarrow> (exn, string list) result" where
  "enrichment_produced_columns m = rbind (assert_no_drift m) (\<lambda>_.
     rbind (provenance_of m) (\<lambda>p. Inr (cp_enrichment_produced p)))"

definition mandatory_mapping_produced ::
  "canonical_model \<Rightarrow> string list \<Rightarrow> (exn, string list) result" where
  "mandatory_mapping_produced m enrichment_guaranteed =
     rbind (mapping_produced_columns m) (\<lambda>produced.
       let required = map fst (filter snd (model_fields m))
       in Inr (list_minus (list_inter required produced) enrichment_guaranteed))"

section \<open>What the guard establishes\<close>

lemma set_list_inter [simp]: "set (list_inter xs ys) = set xs \<inter> set ys"
  by (auto simp: list_inter_def)

lemma set_list_minus [simp]: "set (list_minus xs ys) = set xs - set ys"
  by (auto simp: list_minus_def)

lemma list_inter_Nil: "list_inter xs ys = [] \<longleftrightarrow> set xs \<inter> set ys = {}"
  by (metis set_empty set_list_inter)

lemma list_minus_Nil: "list_minus xs ys = [] \<longleftrightarrow> set xs \<subseteq> set ys"
  by (metis Diff_eq_empty_iff set_empty set_list_minus)

lemma first_overlap_Nil:
  "first_overlap ss = [] \<longleftrightarrow> sorted_wrt (\<lambda>s t. set s \<inter> set t = {}) ss"
proof (induction ss)
  case (Cons s ss)
  let ?f = "filter (\<lambda>ov. ov \<noteq> []) (map (list_inter s) ss)"
  have nil: "?f = [] \<longleftrightarrow> (\<forall>t \<in> set ss. set s \<inter> set t = {})"
    by (auto simp: filter_empty_conv list_inter_Nil)
  show ?case
  proof (cases ?f)
    case Nil
    then show ?thesis using nil Cons.IH by simp
  next
    case (Cons ov os)
    then have "ov \<in> set ?f" by simp
    then have "ov \<noteq> []" unfolding set_filter by blast
    moreover have "\<not> (\<forall>t \<in> set ss. set s \<inter> set t = {})" using nil Cons by simp
    ultimately show ?thesis using Cons by simp
  qed
qed simp

text \<open>The drift guard passes exactly when the five sets partition the model's fields: no
  column is in two of them, every field is classified, and every classified column is a field.\<close>

theorem assert_partition_consistent_iff:
  "assert_partition_consistent m flds p = Inr () \<longleftrightarrow>
     sorted_wrt (\<lambda>s t. set s \<inter> set t = {}) (provenance_sets p) \<and>
     \<Union> (set ` set (provenance_sets p)) = fst ` set flds"
proof -
  have c: "set (concat (provenance_sets p)) = \<Union> (set ` set (provenance_sets p))" by auto
  show ?thesis
    unfolding assert_partition_consistent_def Let_def
    by (simp add: first_overlap_Nil [symmetric] list_minus_Nil c)
qed

lemma no_drift:
  "assert_no_drift StoreSkuCurrentPosition = Inr ()" "assert_no_drift StoreSkuSaleEvent = Inr ()"
  "assert_no_drift StoreSkuChangeEvent = Inr ()"
  by code_simp+

lemma mapping_produced_eq:
  "mapping_produced_columns StoreSkuCurrentPosition = Inr (cp_mapping_produced current_position_provenance)"
  "mapping_produced_columns StoreSkuSaleEvent = Inr (cp_mapping_produced sale_event_provenance)"
  "mapping_produced_columns StoreSkuChangeEvent = Inr (cp_mapping_produced change_event_provenance)"
  by (simp_all add: mapping_produced_columns_def no_drift provenance_of_def PROVENANCE_def dget_def)

text \<open>The registry of the repository is free of drift for the three mapping-fed models, and
  the daily-compute model is refused.\<close>

theorem provenance_no_drift:
  "assert_no_drift m = Inr () \<longleftrightarrow> m \<noteq> StoreSkuSignalHistory"
  using no_drift by (cases m) (simp_all add: assert_no_drift_def NOT_MAPPING_PRODUCED_def)

end
