(* ===== verification/Enrichment.thy ===== *)
theory Enrichment
  imports Mapping_Props Canonical_Model
begin

text \<open>
  The lookup enrichment of \<open>libs/dis-enrichment\<close>: the registry of \<open>registry.py\<close> and
  \<open>apply_enrichment\<close> of \<open>engine/apply.py\<close>, over the frames of \<open>Mapping_Engine\<close>.
\<close>

section \<open>Registry\<close>

definition CURRENT_POSITION :: string where
  "CURRENT_POSITION = ''store_sku_current_position''"

record enrichment_field =
  ef_canonical_field :: string
  ef_source :: string
  ef_source_field :: string
  ef_tables :: "string list"

definition ENRICHMENT_REGISTRY :: "enrichment_field list" where
  "ENRICHMENT_REGISTRY = [
     \<lparr>ef_canonical_field = ''currency'', ef_source = ''identity_mirror.stores'',
      ef_source_field = ''currency'', ef_tables = [CURRENT_POSITION]\<rparr>,
     \<lparr>ef_canonical_field = ''tax_treatment'', ef_source = ''identity_mirror.stores'',
      ef_source_field = ''tax_treatment'', ef_tables = [CURRENT_POSITION]\<rparr>]"

definition enrichment_fields :: "string \<Rightarrow> string list" where
  "enrichment_fields table =
     map ef_canonical_field (filter (\<lambda>f. table \<in> set (ef_tables f)) ENRICHMENT_REGISTRY)"

section \<open>The step\<close>

type_synonym facts = "(string, pyval) pydict"

text \<open>\<open>contribution.with_columns([pl.lit(v).alias(name), ...])\<close>: a literal fills the height.\<close>

definition with_literals :: "polars \<Rightarrow> frame \<Rightarrow> (string \<times> pyval) list \<Rightarrow> frame" where
  "with_literals pl f lits =
     foldl (\<lambda>acc (c, v). dset c \<lparr>ser_dtype = pl_literal_dtype pl v,
              ser_vals = replicate (frame_height f) v\<rparr> acc) f lits"

record enrichment_result =
  en_contribution :: frame
  en_enriched_columns :: "string list"

definition apply_enrichment ::
  "polars \<Rightarrow> frame \<Rightarrow> facts \<Rightarrow> string \<Rightarrow> string option \<Rightarrow> string option \<Rightarrow> (exn, enrichment_result) result" where
  "apply_enrichment pl contribution facts table tenant trace =
     (let flds = enrichment_fields table in
      if list_ex (\<lambda>c. c \<notin> set (dkeys facts)) flds
      then Inl (enrichment_error (Some table) tenant trace)
      else if flds = [] then Inr \<lparr>en_contribution = contribution, en_enriched_columns = []\<rparr>
      else Inr \<lparr>en_contribution = with_literals pl contribution
                  (map (\<lambda>c. (c, case dget facts c of Some v \<Rightarrow> v | None \<Rightarrow> PyNone)) flds),
                en_enriched_columns = flds\<rparr>)"

section \<open>Properties\<close>

lemma with_literals_dget:
  assumes "distinct (map fst lits)"
  shows "dget (with_literals pl f lits) c =
    (case map_of lits c of
       Some v \<Rightarrow> Some \<lparr>ser_dtype = pl_literal_dtype pl v, ser_vals = replicate (frame_height f) v\<rparr>
     | None \<Rightarrow> dget f c)"
proof -
  have "dget (foldl (\<lambda>acc (c, v). dset c \<lparr>ser_dtype = pl_literal_dtype pl v, ser_vals = replicate n v\<rparr> acc) g lits) c =
    (case map_of lits c of
       Some v \<Rightarrow> Some \<lparr>ser_dtype = pl_literal_dtype pl v, ser_vals = replicate n v\<rparr>
     | None \<Rightarrow> dget g c)" for g n
    using assms
  proof (induction lits arbitrary: g)
    case (Cons kv lits)
    obtain k v where kv: "kv = (k, v)" by (cases kv)
    with Cons have nk: "map_of lits k = None" by (auto simp: map_of_eq_None_iff)
    have d: "distinct (map fst lits)" using Cons.prems by simp
    show ?case using Cons.IH [OF d] kv nk by (auto split: option.splits)
  qed simp
  then show ?thesis unfolding with_literals_def .
qed

lemma fields_current_position:
  "enrichment_fields CURRENT_POSITION = [''currency'', ''tax_treatment'']"
  by (simp add: enrichment_fields_def ENRICHMENT_REGISTRY_def)

text \<open>Enrichment of the current position succeeds exactly when the facts hold both registered
  fields; then each registered column is the handed-in value in every row, whatever the
  mapping produced there, every other column is untouched, and rows keep their number and
  order.\<close>

theorem apply_enrichment_output_wins:
  "(\<exists>r. apply_enrichment pl f facts CURRENT_POSITION tenant trace = Inr r \<and>
      en_enriched_columns r = [''currency'', ''tax_treatment''] \<and>
      dget (en_contribution r) c =
        (if c = ''currency'' \<or> c = ''tax_treatment''
         then Some \<lparr>ser_dtype = pl_literal_dtype pl (the (dget facts c)),
                ser_vals = replicate (frame_height f) (the (dget facts c))\<rparr>
         else dget f c))
   \<longleftrightarrow> dget facts ''currency'' \<noteq> None \<and> dget facts ''tax_treatment'' \<noteq> None"
proof (cases "dget facts ''currency'' \<noteq> None \<and> dget facts ''tax_treatment'' \<noteq> None")
  case True
  then obtain x y where "dget facts ''currency'' = Some x" "dget facts ''tax_treatment'' = Some y" by auto
  moreover have "''currency'' \<in> fst ` set facts" "''tax_treatment'' \<in> fst ` set facts"
    using True dget_None_iff by metis+
  ultimately show ?thesis
    by (simp add: apply_enrichment_def fields_current_position with_literals_dget)
next
  case False
  then have "''currency'' \<notin> fst ` set facts \<or> ''tax_treatment'' \<notin> fst ` set facts"
    using dget_None_iff by metis
  then show ?thesis using False by (auto simp: apply_enrichment_def fields_current_position)
qed

end
