(* ===== verification/Hot_Mapping.thy ===== *)
theory Hot_Mapping
  imports Ingress_Event Enrichment
begin

text \<open>
  Loading, routing and classifying a mapping: \<open>pipeline/mapping.py\<close> of the streaming consumer.
  The database row is what the argument \<open>select_mapping\<close> returns for the statement's
  parameters; how pydantic shapes the stored rules into a \<open>SourceMapping\<close> before its own
  validation is the argument \<open>read_rules\<close> (\<open>None\<close> is a \<open>ValidationError\<close>).
\<close>

section \<open>Projection registries\<close>

definition EVENT_MODELS :: "canonical_model list" where
  "EVENT_MODELS = [StoreSkuSaleEvent, StoreSkuChangeEvent]"

definition SALE_HOT_PROJECTION :: "(string, string) pydict" where
  "SALE_HOT_PROJECTION = [(''unit_retail_price'', ''current_retail_price''), (''unit_cost'', ''unit_cost''),
     (''promo_identifier'', ''promo_identifier''), (''currency'', ''currency'')]"

definition CHANGE_HOT_PROJECTION :: "(string \<times> string, string) pydict" where
  "CHANGE_HOT_PROJECTION = [((''PRICE'', ''current_retail_price''), ''current_retail_price''),
     ((''COST'', ''unit_cost''), ''unit_cost''), ((''INVENTORY'', ''stock_qty''), ''stock_qty''),
     ((''CATALOGUE'', ''product_name''), ''product_name''), ((''STATUS'', ''sku_status''), ''sku_status'')]"

definition HOT_REQUIRED_FROM_PROJECTION :: "(exn, string list) result" where
  "HOT_REQUIRED_FROM_PROJECTION =
     mandatory_mapping_produced StoreSkuCurrentPosition (enrichment_fields CURRENT_POSITION)"

definition HOT_CHECK_IMPLICATIONS :: "(string list \<times> string list) list" where
  "HOT_CHECK_IMPLICATIONS = [([''promo_identifier''], [''promo_price'']),
     ([''expiry_date'', ''expiry_source'', ''expiry_confidence''],
      [''expiry_date'', ''expiry_source'', ''expiry_confidence''])]"

section \<open>Completeness\<close>

definition constant_derive :: "source_mapping \<Rightarrow> string \<Rightarrow> string option" where
  "constant_derive source column = (case dget (sm_derive source) column of
     Some (spec # _) \<Rightarrow> if ts_op spec = ''constant''
        then (case dget (ts_args spec) ''value'' of Some (PyStr s) \<Rightarrow> Some s | _ \<Rightarrow> None)
        else None
   | _ \<Rightarrow> None)"

definition guaranteed_hot_columns :: "source_mapping \<Rightarrow> canonical_model \<Rightarrow> (exn, string list) result" where
  "guaranteed_hot_columns source target_model =
    (let targets = target_columns source in
     if target_model = StoreSkuCurrentPosition then
       rbind (mapping_produced_columns StoreSkuCurrentPosition) (\<lambda>produced.
       Inr (list_inter targets produced @ enrichment_fields CURRENT_POSITION))
     else if target_model = StoreSkuSaleEvent then
       Inr (concat (map (\<lambda>t. case dget SALE_HOT_PROJECTION t of Some h \<Rightarrow> [h] | None \<Rightarrow> []) targets))
     else (case (constant_derive source ''event_category'', constant_derive source ''attribute_name'') of
             (Some category, Some attribute) \<Rightarrow>
               (case dget CHANGE_HOT_PROJECTION (category, attribute) of
                  Some h \<Rightarrow> Inr [h] | None \<Rightarrow> Inr [])
           | _ \<Rightarrow> Inr []))"

definition event_contendable_hot_columns :: "string list" where
  "event_contendable_hot_columns = dvals SALE_HOT_PROJECTION @ dvals CHANGE_HOT_PROJECTION"

definition catalogue_staleness_columns :: "(exn, string list) result" where
  "catalogue_staleness_columns =
     rbind (mapping_produced_columns StoreSkuCurrentPosition) (\<lambda>produced.
     Inr (list_inter produced event_contendable_hot_columns))"

definition subset_list :: "string list \<Rightarrow> string list \<Rightarrow> bool" where
  "subset_list xs ys = list_all (\<lambda>x. x \<in> set ys) xs"

definition classify_hot_completeness :: "source_mapping \<Rightarrow> canonical_model \<Rightarrow> (exn, bool) result" where
  "classify_hot_completeness source target_model =
     rbind (guaranteed_hot_columns source target_model) (\<lambda>guaranteed.
     rbind HOT_REQUIRED_FROM_PROJECTION (\<lambda>required.
     if \<not> subset_list required guaranteed then Inr False
     else Inr (list_all (\<lambda>(trigger, companion). subset_list companion guaranteed)
            (filter (\<lambda>(trigger, companion). list_inter trigger guaranteed \<noteq> []) HOT_CHECK_IMPLICATIONS))))"

section \<open>Loading\<close>

record loaded_mapping =
  lm_mapping_version_id :: int
  lm_source :: source_mapping
  lm_target_model :: canonical_model
  lm_hot_complete :: bool

definition route_target_model ::
  "source_mapping \<Rightarrow> string \<Rightarrow> string \<Rightarrow> (exn, canonical_model) result" where
  "route_target_model source tenant trace =
     rbind (map_result (\<lambda>m. rbind (mapping_produced_columns m) (\<lambda>cols.
              Inr (m, subset_list (target_columns source) cols))) EVENT_MODELS) (\<lambda>fits.
     case map fst (filter snd fits) of
       [m] \<Rightarrow> Inr m
     | _ \<Rightarrow> Inl (mapping_error MappingConfigError None (Some tenant) (Some trace)))"

record mapping_row =
  row_mapping_version_id :: int
  row_mapping_rules :: pyval
  row_template_type :: string
  row_pre_suite_ref :: "string option"
  row_post_suite_ref :: "string option"

definition load_active_mapping ::
  "(uuid \<Rightarrow> string \<Rightarrow> uuid \<Rightarrow> (exn, mapping_row option) result) \<Rightarrow> (pyval \<Rightarrow> source_mapping option) \<Rightarrow>
   ingress_event \<Rightarrow> (exn, loaded_mapping) result" where
  "load_active_mapping select_mapping read_rules ev =
    (let tenant = uuid_str (ie_tenant_id ev); trace = uuid_str (ie_trace_id ev);
         config = mapping_error MappingConfigError None (Some tenant) (Some trace) in
     rbind (select_mapping (ie_tenant_id ev) (ie_source_id ev) (ie_template_id ev)) (\<lambda>found.
     case found of
       None \<Rightarrow> Inl config
     | Some row \<Rightarrow>
         if row_pre_suite_ref row \<noteq> None \<or> row_post_suite_ref row \<noteq> None
         then Inl (suite_definition_error None None)
         else (case read_rules (row_mapping_rules row) of
             None \<Rightarrow> Inl config
           | Some source \<Rightarrow>
               rbind (validate_rules source) (\<lambda>_.
               if sm_rename source = [] then Inl config
               else rbind (if row_template_type row = SNAPSHOT then Inr StoreSkuCurrentPosition
                           else route_target_model source tenant trace) (\<lambda>target.
               rbind (classify_hot_completeness source target) (\<lambda>complete.
               Inr \<lparr>lm_mapping_version_id = row_mapping_version_id row, lm_source = source,
                    lm_target_model = target, lm_hot_complete = complete\<rparr>))))))"

definition apply_loaded_mapping :: "polars \<Rightarrow> loaded_mapping \<Rightarrow> frame \<Rightarrow> (exn, mapping_result) result" where
  "apply_loaded_mapping pl loaded f = apply_mapping pl (lm_source loaded) f"

definition apply_loaded_enrichment ::
  "polars \<Rightarrow> facts \<Rightarrow> mapping_result \<Rightarrow> string \<Rightarrow> string \<Rightarrow> (exn, mapping_result) result" where
  "apply_loaded_enrichment pl facts r tenant trace =
     rbind (apply_enrichment pl (mr_contribution r) facts CURRENT_POSITION (Some tenant) (Some trace)) (\<lambda>en.
     Inr (r\<lparr>mr_contribution := en_contribution en\<rparr>))"

section \<open>Properties\<close>

lemma hot_required_eq:
  "HOT_REQUIRED_FROM_PROJECTION = Inr [''sku_id'', ''product_name'', ''current_retail_price'']"
  by code_simp

lemma sale_image: "dget SALE_HOT_PROJECTION t \<noteq> Some ''product_name''"
  by (auto simp: SALE_HOT_PROJECTION_def dget_def split: if_splits)

lemma event_guaranteed:
  assumes "guaranteed_hot_columns source target = Inr g" and "target \<noteq> StoreSkuCurrentPosition"
  shows "\<not> subset_list [''sku_id'', ''product_name'', ''current_retail_price''] g"
proof (cases "target = StoreSkuSaleEvent")
  case True
  then have "\<forall>h \<in> set g. h \<noteq> ''product_name''"
    using assms sale_image [symmetric] by (auto simp: guaranteed_hot_columns_def split: option.splits)
  then show ?thesis by (auto simp: subset_list_def)
next
  case False
  then have "length g \<le> 1"
    using assms by (auto simp: guaranteed_hot_columns_def Let_def split: option.splits)
  then show ?thesis by (cases g) (auto simp: subset_list_def)
qed

text \<open>No mapping routed to an event table can create a hot row: the completeness gate is closed
  for every sale and every change mapping, so rows of the current position are created by
  snapshot mappings only.\<close>

theorem event_mapping_never_complete:
  "target \<noteq> StoreSkuCurrentPosition \<Longrightarrow> classify_hot_completeness source target \<noteq> Inr True"
  using event_guaranteed by (auto simp: classify_hot_completeness_def result_simps hot_required_eq split: if_splits)

theorem event_mapping_never_complete_witness:
  "classify_hot_completeness demo_mapping StoreSkuSaleEvent \<noteq> Inr True"
  by (rule event_mapping_never_complete) simp

text \<open>The columns a hot row needs from its mapping are the SKU, the product name and the retail
  price, and a snapshot mapping may create rows exactly when it targets these three and
  respects the two presence pairings.\<close>

theorem snapshot_complete_iff:
  "HOT_REQUIRED_FROM_PROJECTION = Inr [''sku_id'', ''product_name'', ''current_retail_price''] \<and>
   (classify_hot_completeness source StoreSkuCurrentPosition = Inr True \<longleftrightarrow>
     (let t = set (target_columns source) in
      ''sku_id'' \<in> t \<and> ''product_name'' \<in> t \<and> ''current_retail_price'' \<in> t \<and>
      (''promo_identifier'' \<in> t \<longrightarrow> ''promo_price'' \<in> t) \<and>
      (''expiry_date'' \<in> t \<or> ''expiry_source'' \<in> t \<or> ''expiry_confidence'' \<in> t \<longrightarrow>
       ''expiry_date'' \<in> t \<and> ''expiry_source'' \<in> t \<and> ''expiry_confidence'' \<in> t)))"
proof -
  let ?p = "cp_mapping_produced current_position_provenance"
  define g where "g = list_inter (target_columns source) ?p @ [''currency'', ''tax_treatment'']"
  have gc: "guaranteed_hot_columns source StoreSkuCurrentPosition = Inr g"
    by (simp add: guaranteed_hot_columns_def mapping_produced_eq fields_current_position g_def)
  have mem: "x \<in> set g \<longleftrightarrow> x \<in> set (target_columns source)"
    if "x \<in> set ?p" "x \<noteq> ''currency''" "x \<noteq> ''tax_treatment''" for x
    using that by (auto simp: g_def)
  have c: "classify_hot_completeness source StoreSkuCurrentPosition = Inr True \<longleftrightarrow>
      ''sku_id'' \<in> set g \<and> ''product_name'' \<in> set g \<and> ''current_retail_price'' \<in> set g \<and>
      (''promo_identifier'' \<in> set g \<longrightarrow> ''promo_price'' \<in> set g) \<and>
      (''expiry_date'' \<in> set g \<or> ''expiry_source'' \<in> set g \<or> ''expiry_confidence'' \<in> set g \<longrightarrow>
       ''expiry_date'' \<in> set g \<and> ''expiry_source'' \<in> set g \<and> ''expiry_confidence'' \<in> set g)"
    by (simp add: hot_required_eq classify_hot_completeness_def gc subset_list_def HOT_CHECK_IMPLICATIONS_def
        list_inter_def) argo
  have "''sku_id'' \<in> set ?p" "''product_name'' \<in> set ?p" "''current_retail_price'' \<in> set ?p"
    "''promo_identifier'' \<in> set ?p" "''promo_price'' \<in> set ?p" "''expiry_date'' \<in> set ?p"
    "''expiry_source'' \<in> set ?p" "''expiry_confidence'' \<in> set ?p"
    by (simp_all add: current_position_provenance_def)
  then show ?thesis unfolding c Let_def by (simp add: hot_required_eq mem)
qed

definition demo_snapshot_mapping :: source_mapping where
  "demo_snapshot_mapping = demo_mapping\<lparr>sm_rename := [(''sku'', ''sku_id''), (''name'', ''product_name''),
     (''price'', ''current_retail_price'')], sm_normalize := [], sm_derive := [], sm_cast := []\<rparr>"

theorem snapshot_complete_iff_witness:
  "classify_hot_completeness demo_snapshot_mapping StoreSkuCurrentPosition = Inr True"
proof -
  have "set (target_columns demo_snapshot_mapping) = {''sku_id'', ''product_name'', ''current_retail_price''}"
    by code_simp
  with snapshot_complete_iff [of demo_snapshot_mapping] show ?thesis by (simp add: Let_def)
qed

text \<open>A mapping the consumer runs is validated and not empty, is routed to the hot table or to
  the one event model that can hold its columns, and may create hot rows only when it is a
  snapshot.\<close>

theorem load_active_mapping_sound:
  assumes "load_active_mapping select_mapping read_rules ev = Inr l"
  shows "validate_rules (lm_source l) = Inr () \<and> sm_rename (lm_source l) \<noteq> [] \<and>
    lm_target_model l \<in> {StoreSkuCurrentPosition, StoreSkuSaleEvent, StoreSkuChangeEvent} \<and>
    (lm_hot_complete l \<longrightarrow> lm_target_model l = StoreSkuCurrentPosition) \<and>
    (lm_target_model l \<noteq> StoreSkuCurrentPosition \<longrightarrow>
      (\<exists>cols. mapping_produced_columns (lm_target_model l) = Inr cols \<and>
         set (target_columns (lm_source l)) \<subseteq> set cols))"
proof -
  from assms obtain row source target complete where l: "l = \<lparr>lm_mapping_version_id = row_mapping_version_id row,
      lm_source = source, lm_target_model = target, lm_hot_complete = complete\<rparr>"
    and "select_mapping (ie_tenant_id ev) (ie_source_id ev) (ie_template_id ev) = Inr (Some row)"
    and vs: "validate_rules source = Inr ()" "sm_rename source \<noteq> []"
    and ts: "(if row_template_type row = SNAPSHOT then Inr StoreSkuCurrentPosition
        else route_target_model source (uuid_str (ie_tenant_id ev)) (uuid_str (ie_trace_id ev))) = Inr target"
    and cs: "classify_hot_completeness source target = Inr complete"
    by (auto simp: load_active_mapping_def Let_def result_simps fail_simps)
  have v: "validate_rules (lm_source l) = Inr ()" "sm_rename (lm_source l) \<noteq> []"
    and t: "(if row_template_type row = SNAPSHOT then Inr StoreSkuCurrentPosition
        else route_target_model (lm_source l) (uuid_str (ie_tenant_id ev)) (uuid_str (ie_trace_id ev))) =
      Inr (lm_target_model l)"
    and c: "classify_hot_completeness (lm_source l) (lm_target_model l) = Inr (lm_hot_complete l)"
    by (simp_all only: l loaded_mapping.simps vs ts cs not_False_eq_True)
  have complete: "lm_hot_complete l \<longrightarrow> lm_target_model l = StoreSkuCurrentPosition"
    using c event_guaranteed [of "lm_source l" "lm_target_model l"]
    by (auto simp: classify_hot_completeness_def result_simps hot_required_eq split: if_splits)
  show ?thesis
  proof (cases "row_template_type row = SNAPSHOT")
    case True
    then show ?thesis using v t complete by simp
  next
    case False
    let ?S = "subset_list (target_columns (lm_source l)) (cp_mapping_produced sale_event_provenance)"
    let ?C = "subset_list (target_columns (lm_source l)) (cp_mapping_produced change_event_provenance)"
    from False t have "(case map fst (filter snd [(StoreSkuSaleEvent, ?S), (StoreSkuChangeEvent, ?C)]) of
        [m] \<Rightarrow> Inr m | _ \<Rightarrow> Inl (mapping_error MappingConfigError None (Some (uuid_str (ie_tenant_id ev)))
          (Some (uuid_str (ie_trace_id ev))))) = Inr (lm_target_model l)"
      by (simp add: route_target_model_def EVENT_MODELS_def mapping_produced_eq)
    then have "(lm_target_model l = StoreSkuSaleEvent \<and> ?S) \<or> (lm_target_model l = StoreSkuChangeEvent \<and> ?C)"
      by (auto split: if_splits)
    then show ?thesis using v complete mapping_produced_eq by (auto simp: subset_list_def list_all_iff)
  qed
qed

definition demo_row :: mapping_row where
  "demo_row = \<lparr>row_mapping_version_id = 7, row_mapping_rules = PyNone, row_template_type = SNAPSHOT,
     row_pre_suite_ref = None, row_post_suite_ref = None\<rparr>"

definition demo_loaded :: loaded_mapping where
  "demo_loaded = \<lparr>lm_mapping_version_id = 7, lm_source = demo_mapping,
     lm_target_model = StoreSkuCurrentPosition, lm_hot_complete = False\<rparr>"

lemma demo_load:
  "load_active_mapping (\<lambda>_ _ _. Inr (Some demo_row)) (\<lambda>_. Some demo_mapping) demo_event = Inr demo_loaded"
proof -
  have v: "validate_rules demo_mapping = Inr ()" using demo_ok(1) by (simp add: mapping_ok_def)
  have c: "classify_hot_completeness demo_mapping StoreSkuCurrentPosition = Inr False"
    by (simp add: classify_hot_completeness_def guaranteed_hot_columns_def mapping_produced_eq
        fields_current_position hot_required_eq subset_list_def demo_mapping_def target_columns_def)
  show ?thesis by (simp add: load_active_mapping_def demo_row_def demo_loaded_def v c demo_ok(3))
qed

theorem load_active_mapping_sound_witness:
  "validate_rules (lm_source demo_loaded) = Inr () \<and> sm_rename (lm_source demo_loaded) \<noteq> []"
  using load_active_mapping_sound [OF demo_load] by blast

end
