(* ===== verification/Event_Rows.thy ===== *)
theory Event_Rows
  imports Hot_Mapping
begin

text \<open>
  Contribution rows to write-ready event rows: \<open>pipeline/normalize.py\<close> of the streaming
  consumer. What \<open>orjson\<close>, \<open>hashlib\<close> and the context-dependent \<open>decimal\<close> module compute is the
  record \<open>pystd\<close>; fresh row ids come from an argument.
\<close>

record pystd =
  ps_dumps :: "pyval \<Rightarrow> string"
  ps_sha256_hex :: "string \<Rightarrow> string"
  ps_decimal :: "string \<Rightarrow> pyval option"
  ps_decimal_sub :: "pyval \<Rightarrow> pyval \<Rightarrow> (exn, pyval) result"

type_synonym natural_key = "string \<times> pyval \<times> pyval"

section \<open>Rows\<close>

text \<open>\<open>frame.to_dicts()\<close>.\<close>

definition to_dicts :: "frame \<Rightarrow> payload list" where
  "to_dicts f = map (\<lambda>i. map (\<lambda>(c, s). (c, ser_vals s ! i)) f) [0..<frame_height f]"

definition canonical_row_hash :: "pystd \<Rightarrow> payload \<Rightarrow> string" where
  "canonical_row_hash ps p = ps_sha256_hex ps (ps_dumps ps (PyDict p))"

record event_row =
  er_params :: payload
  er_source_event_id :: string
  er_event_ts :: pydatetime
  er_natural_key :: natural_key
  er_hot_contributions :: payload
  er_payload :: payload
  er_row_hash :: string
  er_chunk_row_index :: nat

definition derive_source_event_id :: "payload \<Rightarrow> canonical_model \<Rightarrow> uuid \<Rightarrow> nat \<Rightarrow> string" where
  "derive_source_event_id p target_model bronze_ref idx =
     (let fallback = uuid_str bronze_ref @ '':'' @ dec_str idx in
      if target_model = StoreSkuSaleEvent \<and> pget p ''transaction_id'' \<noteq> PyNone \<and>
         pget p ''line_item_seq'' \<noteq> PyNone
      then py_str (pget p ''transaction_id'') @ '':'' @ py_str (pget p ''line_item_seq'')
      else fallback)"

definition jsonb_param :: "pystd \<Rightarrow> pyval \<Rightarrow> pyval" where
  "jsonb_param ps v = (if v = PyNone then PyNone else PyStr (ps_dumps ps v))"

definition as_decimal :: "pystd \<Rightarrow> pyval \<Rightarrow> pyval" where
  "as_decimal ps v = (case v of
     PyNone \<Rightarrow> PyNone
   | PyDecimal c e \<Rightarrow> PyDecimal c e
   | _ \<Rightarrow> (case ps_decimal ps (py_str v) of None \<Rightarrow> PyNone | Some d \<Rightarrow> d))"

definition NUMERIC_CATEGORIES :: "string list" where
  "NUMERIC_CATEGORIES = [''INVENTORY'', ''PRICE'', ''COST'']"

definition is_numeric_category :: "pyval \<Rightarrow> bool" where
  "is_numeric_category v = (case v of PyStr s \<Rightarrow> s \<in> set NUMERIC_CATEGORIES | _ \<Rightarrow> False)"

definition serialize_jsonb :: "pystd \<Rightarrow> payload \<Rightarrow> string \<Rightarrow> payload" where
  "serialize_jsonb ps params c = (case dget params c of
     None \<Rightarrow> params | Some v \<Rightarrow> dset c (jsonb_param ps v) params)"

definition populate_change_shortcuts :: "pystd \<Rightarrow> payload \<Rightarrow> payload \<Rightarrow> (exn, payload) result" where
  "populate_change_shortcuts ps params p =
    (let category = pget p ''event_category'';
         numeric = is_numeric_category category;
         before = (if numeric then as_decimal ps (pget p ''value_before'') else PyNone);
         after = (if numeric then as_decimal ps (pget p ''value_after'') else PyNone) in
     rbind (if category = PyStr ''INVENTORY'' \<and> after \<noteq> PyNone \<and> before \<noteq> PyNone
            then ps_decimal_sub ps after before else Inr PyNone) (\<lambda>change.
     let params1 = dset ''numeric_change'' change
           (dset ''numeric_value_after'' after (dset ''numeric_value_before'' before params))
     in Inr (foldl (serialize_jsonb ps) params1 [''value_before'', ''value_after'', ''change_context''])))"

definition hot_contributions :: "pystd \<Rightarrow> payload \<Rightarrow> bool \<Rightarrow> payload" where
  "hot_contributions ps p is_sale =
     (if is_sale then
        map (\<lambda>(evt, hot). (hot, pget p evt)) (filter (\<lambda>(evt, hot). pget p evt \<noteq> PyNone) SALE_HOT_PROJECTION)
      else (case (pget p ''event_category'', pget p ''attribute_name'') of
        (PyStr category, PyStr attribute) \<Rightarrow>
          (case dget CHANGE_HOT_PROJECTION (category, attribute) of
             None \<Rightarrow> []
           | Some hot \<Rightarrow>
               let v0 = pget p ''value_after'';
                   v = (if category \<in> set NUMERIC_CATEGORIES then as_decimal ps v0 else v0)
               in if v = PyNone then [] else [(hot, v)])
      | _ \<Rightarrow> []))"

definition natural_key_of :: "payload \<Rightarrow> (exn, natural_key) result" where
  "natural_key_of p = rbind (pitem p ''sku_id'') (\<lambda>sku.
     Inr (py_str sku, pget p ''sku_variant'', pget p ''sku_lot_batch''))"

definition injected_params :: "pystd \<Rightarrow> ingress_event \<Rightarrow> bronze_row \<Rightarrow> loaded_mapping \<Rightarrow> uuid \<Rightarrow> string \<Rightarrow> nat \<Rightarrow> payload" where
  "injected_params ps ev bronze loaded new_id sid idx =
    [(''id'', PyUuid new_id), (''tenant_id'', PyUuid (ie_tenant_id ev)), (''store_id'', PyUuid (ie_store_id ev)),
     (''source_id'', PyStr (ie_source_id ev)), (''source_event_id'', PyStr sid),
     (''mapping_version_id'', PyInt (lm_mapping_version_id loaded)), (''trace_id'', PyUuid (ie_trace_id ev)),
     (''dis_channel'', PyStr (br_dis_channel bronze)),
     (''ingest_metadata'', jsonb_param ps (PyDict [
        (''dis_received_timestamp'', PyStr (isoformat ''T'' (ie_received_ts ev))),
        (''csv_row_num'', PyInt (int idx))]))]"

definition build_event_row ::
  "pystd \<Rightarrow> ingress_event \<Rightarrow> bronze_row \<Rightarrow> loaded_mapping \<Rightarrow> string option \<Rightarrow> uuid \<Rightarrow> payload \<Rightarrow> nat \<Rightarrow>
   (exn, event_row) result" where
  "build_event_row ps ev bronze loaded tax_treatment new_id p idx =
    (let is_sale = (lm_target_model loaded = StoreSkuSaleEvent);
         ts_column = (if is_sale then ''source_sale_timestamp'' else ''source_event_timestamp'') in
     rbind (pitem p ts_column) (\<lambda>ts.
     rbind (case ts of PyDt dt \<Rightarrow> Inr dt | _ \<Rightarrow> Inl (py_exn PyTypeError)) (\<lambda>event_ts.
     let sid = derive_source_event_id p (lm_target_model loaded) (ie_bronze_ref ev) idx;
         params = dupdate p (injected_params ps ev bronze loaded new_id sid idx) in
     rbind (if is_sale then Inr (dset ''tax_treatment'' (case tax_treatment of None \<Rightarrow> PyNone | Some t \<Rightarrow> PyStr t) params)
            else populate_change_shortcuts ps params p) (\<lambda>params'.
     rbind (natural_key_of p) (\<lambda>nk.
     Inr \<lparr>er_params = params', er_source_event_id = sid, er_event_ts = event_ts, er_natural_key = nk,
          er_hot_contributions = hot_contributions ps p is_sale, er_payload = p,
          er_row_hash = canonical_row_hash ps p, er_chunk_row_index = idx\<rparr>)))))"

definition build_event_rows ::
  "pystd \<Rightarrow> ingress_event \<Rightarrow> bronze_row \<Rightarrow> loaded_mapping \<Rightarrow> mapping_result \<Rightarrow> string option \<Rightarrow>
   (nat \<Rightarrow> uuid) \<Rightarrow> (exn, event_row list) result" where
  "build_event_rows ps ev bronze loaded r tax_treatment ids =
     (let rows = to_dicts (mr_contribution r) in
      if length rows \<noteq> length (mr_source_row_indices r) then Inl (py_exn PyValueError)
      else map_result (\<lambda>(k, p, idx). build_event_row ps ev bronze loaded tax_treatment (ids k) p idx)
             (py_enumerate 0 (zip rows (mr_source_row_indices r))))"

section \<open>Properties\<close>

lemma dict_ok_injected: "dict_ok (injected_params ps ev bronze loaded new_id sid idx)"
  by (simp add: injected_params_def dict_ok_def)

lemma injected_over_payload:
  assumes "dget (injected_params ps ev bronze loaded new_id sid idx) k = Some v"
  shows "dget (dupdate p (injected_params ps ev bronze loaded new_id sid idx)) k = Some v"
  using assms dget_dupdate_in [OF dict_ok_injected] by (metis dget_in_keys)

lemma serialize_jsonb_other: "k \<noteq> c \<Longrightarrow> dget (serialize_jsonb ps params c) k = dget params k"
  by (simp add: serialize_jsonb_def split: option.splits)

lemma populate_other:
  assumes "populate_change_shortcuts ps params p = Inr params'"
    and "k \<notin> {''numeric_value_before'', ''numeric_value_after'', ''numeric_change'', ''value_before'', ''value_after'', ''change_context''}"
  shows "dget params' k = dget params k"
  using assms by (auto simp: populate_change_shortcuts_def Let_def result_simps serialize_jsonb_other)

text \<open>Identity is the consumer's: whatever columns the mapping produced, the row that is written
  carries the tenant, store, trace and source of the event, the mapping version that was
  loaded and the channel of the bronze row.\<close>

theorem event_row_identity:
  assumes "build_event_row ps ev bronze loaded tax new_id p idx = Inr r"
  shows "dget (er_params r) ''tenant_id'' = Some (PyUuid (ie_tenant_id ev)) \<and>
    dget (er_params r) ''store_id'' = Some (PyUuid (ie_store_id ev)) \<and>
    dget (er_params r) ''trace_id'' = Some (PyUuid (ie_trace_id ev)) \<and>
    dget (er_params r) ''source_id'' = Some (PyStr (ie_source_id ev)) \<and>
    dget (er_params r) ''source_event_id'' = Some (PyStr (er_source_event_id r)) \<and>
    dget (er_params r) ''mapping_version_id'' = Some (PyInt (lm_mapping_version_id loaded)) \<and>
    dget (er_params r) ''dis_channel'' = Some (PyStr (br_dis_channel bronze))"
proof -
  let ?sid = "derive_source_event_id p (lm_target_model loaded) (ie_bronze_ref ev) idx"
  let ?inj = "injected_params ps ev bronze loaded new_id ?sid idx"
  let ?special = "{''tax_treatment'', ''numeric_value_before'', ''numeric_value_after'', ''numeric_change'',
      ''value_before'', ''value_after'', ''change_context''}"
  from assms have sid: "er_source_event_id r = ?sid"
    and pr: "(if lm_target_model loaded = StoreSkuSaleEvent
       then Inr (dset ''tax_treatment'' (case tax of None \<Rightarrow> PyNone | Some t \<Rightarrow> PyStr t) (dupdate p ?inj))
       else populate_change_shortcuts ps (dupdate p ?inj) p) = Inr (er_params r)"
    by (auto simp: build_event_row_def Let_def result_simps)
  have keep: "dget (er_params r) k = dget (dupdate p ?inj) k" if "k \<notin> ?special" for k
  proof (cases "lm_target_model loaded = StoreSkuSaleEvent")
    case True
    with pr have "er_params r = dset ''tax_treatment'' (case tax of None \<Rightarrow> PyNone | Some t \<Rightarrow> PyStr t) (dupdate p ?inj)"
      by simp
    then show ?thesis using that by simp
  next
    case False
    then show ?thesis using pr that populate_other by fastforce
  qed
  have inj: "dget (er_params r) k = Some v" if "k \<notin> ?special" "dget ?inj k = Some v" for k v
    using keep [OF that(1)] injected_over_payload [OF that(2)] by simp
  show ?thesis unfolding sid
    by (intro conjI inj) (simp_all add: injected_params_def dget_def)
qed

lemma build_event_row_fields:
  assumes "build_event_row ps ev bronze loaded tax new_id p idx = Inr r"
  shows "er_source_event_id r = derive_source_event_id p (lm_target_model loaded) (ie_bronze_ref ev) idx"
    and "er_chunk_row_index r = idx" and "er_payload r = p" and "natural_key_of p = Inr (er_natural_key r)"
  using assms by (auto simp: build_event_row_def Let_def result_simps)

lemma distinct_positional: "distinct idxs \<Longrightarrow> distinct (map (\<lambda>i. s @ t @ dec_str i) idxs)"
  by (simp add: distinct_map inj_on_def) (metis dec_str_inj)

lemma to_dicts_length [simp]: "length (to_dicts f) = frame_height f"
  by (simp add: to_dicts_def)

text \<open>The dedup key of a change row is positional and redelivery-stable: it is the bronze
  reference with the row's index in the original chunk, whatever the row holds, so the same
  chunk delivered again gives the same keys, and no two rows of a chunk share one.\<close>

theorem change_keys_positional:
  assumes "build_event_rows ps ev bronze loaded r tax ids = Inr rows"
    and "lm_target_model loaded \<noteq> StoreSkuSaleEvent" and "distinct (mr_source_row_indices r)"
  shows "map er_source_event_id rows = map (\<lambda>i. uuid_str (ie_bronze_ref ev) @ '':'' @ dec_str i) (mr_source_row_indices r) \<and>
    distinct (map er_source_event_id rows)"
proof -
  let ?ids = "mr_source_row_indices r" and ?ps = "to_dicts (mr_contribution r)"
  let ?in = "py_enumerate 0 (zip ?ps ?ids)"
  from assms(1) have len: "length ?ps = length ?ids"
    and m: "map_result (\<lambda>(k, p, idx). build_event_row ps ev bronze loaded tax (ids k) p idx) ?in = Inr rows"
    by (auto simp: build_event_rows_def Let_def split: if_splits)
  have n: "length ?in = length ?ids" using len by (simp add: py_enumerate_def)
  have "er_source_event_id (rows ! i) = uuid_str (ie_bronze_ref ev) @ '':'' @ dec_str (?ids ! i)"
    if i: "i < length ?ids" for i
  proof -
    have "?in ! i = (i, ?ps ! i, ?ids ! i)" using i len by (simp add: py_enumerate_def)
    then have "build_event_row ps ev bronze loaded tax (ids i) (?ps ! i) (?ids ! i) = Inr (rows ! i)"
      using map_result_nth [OF m, of i] i n by simp
    then show ?thesis using build_event_row_fields(1) assms(2) by (simp add: derive_source_event_id_def)
  qed
  then have keys: "map er_source_event_id rows = map (\<lambda>i. uuid_str (ie_bronze_ref ev) @ '':'' @ dec_str i) ?ids"
    using map_result_length [OF m] n by (intro nth_equalityI) simp_all
  then show ?thesis using distinct_positional [OF assms(3), of "uuid_str (ie_bronze_ref ev)" "'':''"] by simp
qed

definition demo_pystd :: pystd where
  "demo_pystd = \<lparr>ps_dumps = (\<lambda>v. ''{}''), ps_sha256_hex = (\<lambda>s. s), ps_decimal = (\<lambda>s. None),
     ps_decimal_sub = (\<lambda>a b. Inr PyNone)\<rparr>"

definition demo_change_loaded :: loaded_mapping where
  "demo_change_loaded = \<lparr>lm_mapping_version_id = 3, lm_source = demo_mapping,
     lm_target_model = StoreSkuChangeEvent, lm_hot_complete = False\<rparr>"

definition demo_bronze :: bronze_row where
  "demo_bronze = \<lparr>br_id = 5, br_source_id = ''pos'', br_dis_channel = ''csv_upload'', br_gcs_uri = ''gs://b/p'',
     br_received_at = demo_ts, br_row_count = None\<rparr>"

definition demo_change_result :: mapping_result where
  "demo_change_result = \<lparr>mr_contribution = [
      (''sku_id'', \<lparr>ser_dtype = DString, ser_vals = [PyStr ''A'', PyStr ''B'']\<rparr>),
      (''source_event_timestamp'', \<lparr>ser_dtype = DString,
         ser_vals = [PyDt (PyDatetime 10 (Some 0)), PyDt (PyDatetime 20 (Some 0))]\<rparr>)],
    mr_source_row_indices = [0, 2], mr_failures = []\<rparr>"

lemma demo_build_row:
  "\<exists>r. build_event_row demo_pystd demo_event demo_bronze demo_change_loaded None 9
     [(''sku_id'', PyStr ''A''), (''source_event_timestamp'', PyDt (PyDatetime 10 (Some 0)))] 0 = Inr r"
  by (simp add: build_event_row_def demo_change_loaded_def populate_change_shortcuts_def pitem_def pget_def
      dget_def natural_key_of_def Let_def is_numeric_category_def)

theorem event_row_identity_witness:
  "\<exists>r. build_event_row demo_pystd demo_event demo_bronze demo_change_loaded None 9
     [(''sku_id'', PyStr ''A''), (''source_event_timestamp'', PyDt (PyDatetime 10 (Some 0)))] 0 = Inr r \<and>
     dget (er_params r) ''tenant_id'' = Some (PyUuid 5)"
proof -
  obtain r where r: "build_event_row demo_pystd demo_event demo_bronze demo_change_loaded None 9
     [(''sku_id'', PyStr ''A''), (''source_event_timestamp'', PyDt (PyDatetime 10 (Some 0)))] 0 = Inr r"
    using demo_build_row by blast
  then show ?thesis using event_row_identity [OF r] by (auto simp: demo_event_def)
qed

lemma demo_build_rows:
  "\<exists>rows. build_event_rows demo_pystd demo_event demo_bronze demo_change_loaded demo_change_result None of_nat = Inr rows"
  by (simp add: build_event_rows_def demo_change_result_def to_dicts_def frame_height_def build_event_row_def
      demo_change_loaded_def populate_change_shortcuts_def pitem_def pget_def dget_def natural_key_of_def
      Let_def is_numeric_category_def)

theorem change_keys_positional_witness:
  "\<exists>rows. build_event_rows demo_pystd demo_event demo_bronze demo_change_loaded demo_change_result None of_nat = Inr rows \<and>
     map er_source_event_id rows = [uuid_str 5 @ '':0'', uuid_str 5 @ '':2'']"
proof -
  obtain rows where r: "build_event_rows demo_pystd demo_event demo_bronze demo_change_loaded demo_change_result
      None of_nat = Inr rows"
    using demo_build_rows by blast
  have d: "dec_str 0 = ''0''" "dec_str 2 = ''2''" by code_simp+
  show ?thesis
    using change_keys_positional [OF r] r by (simp add: demo_change_loaded_def demo_change_result_def demo_event_def d)
qed

end
