(* ===== verification/Pg_Store.thy ===== *)
theory Pg_Store
  imports Py_Values
begin

text \<open>
  The database as the services use it: tables of rows, the statements the code issues and the
  tenant-scoped transaction of \<open>libs/dis-rls\<close> (\<open>session.py\<close>).

  \<^item> A table is a list of rows in insertion order; \<open>pg_tables\<close> gives each qualified name its rows.
  \<^item> The row-level security policies are those of migration 0011: on its twelve tenant tables a
    statement sees the rows of the tenant in \<open>app.tenant_id\<close>, or every row for a PLATFORM session,
    and may only write rows of the tenant in \<open>app.tenant_id\<close>; \<open>audit.events\<close> has one condition for
    both, which admits rows without a tenant; the other tables (the identity mirror) have no policy.
  \<^item> What the server decides beyond that is the record \<open>pgenv\<close>: the role and database of the
    connection, which transactions are lost, which candidate rows a constraint refuses, column
    defaults, the JSONB cast and the collation.
\<close>

section \<open>Sessions\<close>

record pgenv =
  pg_posture :: "string \<times> string \<times> bool \<times> bool"
  pg_fault :: "nat \<Rightarrow> exn option"
  pg_reject :: "string \<Rightarrow> payload \<Rightarrow> exn option"
  pg_defaults :: "string \<Rightarrow> payload"
  pg_jsonb :: "pyval \<Rightarrow> pyval"
  pg_collate :: "string list \<Rightarrow> string list"

type_synonym tables = "string \<Rightarrow> payload list"

record pgstate =
  pg_verified :: bool
  pg_txn :: nat
  pg_tables :: tables

record gucs =
  guc_user_type :: string
  guc_tenant_id :: string

definition tenant_scope :: "uuid \<Rightarrow> gucs" where
  "tenant_scope t = \<lparr>guc_user_type = ''TENANT'', guc_tenant_id = uuid_str t\<rparr>"

definition platform_scope :: "uuid option \<Rightarrow> gucs" where
  "platform_scope t = \<lparr>guc_user_type = ''PLATFORM'',
     guc_tenant_id = (case t of None \<Rightarrow> '''' | Some u \<Rightarrow> uuid_str u)\<rparr>"

definition EXPECTED_DATABASE :: string where
  "EXPECTED_DATABASE = ''ithina_dis_db''"

definition check_posture :: "string \<times> string \<times> bool \<times> bool \<Rightarrow> (exn, unit) result" where
  "check_posture p = (case p of (database, role, rolsuper, rolbypassrls) \<Rightarrow>
     if database \<noteq> EXPECTED_DATABASE then Inl (rls_context_error (Some database) (Some role) None)
     else if rolsuper \<or> rolbypassrls then Inl (rls_context_error (Some database) (Some role) None)
     else Inr ())"

text \<open>
  \<open>_verified_transaction\<close>: the posture is checked on the first use of the engine, the body runs
  on the tables, a clean exit commits what it did and an exception rolls it back. The n-th
  transaction may be lost for an outside reason: it raises and keeps nothing.
\<close>

type_synonym 'a txn_body = "tables \<Rightarrow> (exn, 'a \<times> tables) result"

definition verified_transaction ::
  "pgenv \<Rightarrow> 'a txn_body \<Rightarrow> pgstate \<Rightarrow> (exn, 'a) result \<times> pgstate" where
  "verified_transaction env body s =
    (let s1 = s\<lparr>pg_txn := Suc (pg_txn s)\<rparr> in
     case pg_fault env (pg_txn s) of
       Some e \<Rightarrow> (Inl e, s1)
     | None \<Rightarrow>
       (case (if pg_verified s then Inr () else check_posture (pg_posture env)) of
          Inl e \<Rightarrow> (Inl e, s1)
        | Inr _ \<Rightarrow>
          (case body (pg_tables s) of
             Inl e \<Rightarrow> (Inl e, s1\<lparr>pg_verified := True\<rparr>)
           | Inr (a, tabs) \<Rightarrow> (Inr a, s1\<lparr>pg_verified := True, pg_tables := tabs\<rparr>))))"

definition rls_session ::
  "pgenv \<Rightarrow> uuid \<Rightarrow> (gucs \<Rightarrow> 'a txn_body) \<Rightarrow> pgstate \<Rightarrow> (exn, 'a) result \<times> pgstate" where
  "rls_session env t body s = verified_transaction env (body (tenant_scope t)) s"

definition rls_platform_session ::
  "pgenv \<Rightarrow> uuid option \<Rightarrow> (gucs \<Rightarrow> 'a txn_body) \<Rightarrow> pgstate \<Rightarrow> (exn, 'a) result \<times> pgstate" where
  "rls_platform_session env t body s = verified_transaction env (body (platform_scope t)) s"

section \<open>Statements under row-level security\<close>

text \<open>The tenant the two GUCs pin: \<open>NULLIF(current_setting('app.tenant_id', true), '')::uuid\<close>.\<close>

definition guc_tenant :: "gucs \<Rightarrow> uuid option" where
  "guc_tenant g = (if guc_tenant_id g = '''' then None else uuid_of (guc_tenant_id g))"

definition row_tenant_is :: "uuid option \<Rightarrow> payload \<Rightarrow> bool" where
  "row_tenant_is t r = (case t of None \<Rightarrow> False | Some u \<Rightarrow> pget r ''tenant_id'' = PyUuid u)"

definition TENANT_ISOLATION_TABLES :: "string list" where
  "TENANT_ISOLATION_TABLES = [''bronze.data_ingress_events'', ''canonical.store_sku_change_events'',
     ''canonical.store_sku_current_position'', ''canonical.store_sku_sale_events'', ''canonical.store_sku_signal_history'',
     ''config.source_mappings'', ''quarantine.quarantined_chunks'', ''quarantine.quarantined_rows'',
     ''staging.store_sku_change_events'', ''staging.store_sku_current_position'', ''staging.store_sku_sale_events'',
     ''staging.store_sku_signal_history'']"

definition policed :: "string \<Rightarrow> bool" where
  "policed table \<longleftrightarrow> table \<in> set TENANT_ISOLATION_TABLES"

definition audit_policy :: "gucs \<Rightarrow> payload \<Rightarrow> bool" where
  "audit_policy g r \<longleftrightarrow> row_tenant_is (guc_tenant g) r \<or> pget r ''tenant_id'' = PyNone \<or> guc_user_type g = ''PLATFORM''"

definition rls_using :: "gucs \<Rightarrow> string \<Rightarrow> payload \<Rightarrow> bool" where
  "rls_using g table r \<longleftrightarrow>
     (if policed table then row_tenant_is (guc_tenant g) r \<or> guc_user_type g = ''PLATFORM''
      else if table = ''audit.events'' then audit_policy g r
      else True)"

text \<open>A policy with no WITH CHECK checks new rows with its USING condition.\<close>

definition rls_with_check :: "gucs \<Rightarrow> string \<Rightarrow> payload \<Rightarrow> bool" where
  "rls_with_check g table r \<longleftrightarrow>
     (if policed table then row_tenant_is (guc_tenant g) r
      else if table = ''audit.events'' then audit_policy g r
      else True)"

text \<open>A candidate row passes the policy and the table's constraints, or the statement raises.\<close>

definition admit :: "pgenv \<Rightarrow> gucs \<Rightarrow> string \<Rightarrow> payload \<Rightarrow> (exn, payload) result" where
  "admit env g table r =
     (if \<not> rls_with_check g table r then Inl (py_exn (PyForeign ''InsufficientPrivilegeError''))
      else case pg_reject env table r of Some e \<Rightarrow> Inl e | None \<Rightarrow> Inr r)"

definition sql_select :: "gucs \<Rightarrow> string \<Rightarrow> (payload \<Rightarrow> bool) \<Rightarrow> tables \<Rightarrow> payload list" where
  "sql_select g table p tabs = filter (\<lambda>r. rls_using g table r \<and> p r) (tabs table)"

text \<open>An INSERT or UPDATE that names a column twice is a syntax error.\<close>

definition columns_once :: "payload \<Rightarrow> (exn, unit) result" where
  "columns_once cols = require (distinct (dkeys cols)) (py_exn (PyForeign ''ProgrammingError''))"

definition sql_insert :: "pgenv \<Rightarrow> gucs \<Rightarrow> string \<Rightarrow> payload \<Rightarrow> tables \<Rightarrow> (exn, tables) result" where
  "sql_insert env g table cols tabs =
     rbind (columns_once cols) (\<lambda>_.
     rbind (admit env g table (dupdate (pg_defaults env table) cols)) (\<lambda>r.
     Inr (tabs(table := tabs table @ [r]))))"

text \<open>\<open>executemany\<close>: the statement for each parameter set in order.\<close>

fun sql_insert_many :: "pgenv \<Rightarrow> gucs \<Rightarrow> string \<Rightarrow> payload list \<Rightarrow> tables \<Rightarrow> (exn, tables) result" where
  "sql_insert_many env g table [] tabs = Inr tabs"
| "sql_insert_many env g table (c # cs) tabs =
     rbind (sql_insert env g table c tabs) (\<lambda>tabs'. sql_insert_many env g table cs tabs')"

text \<open>UPDATE: the visible rows that satisfy the condition take the assignments; the row count.\<close>

fun update_rows ::
  "pgenv \<Rightarrow> gucs \<Rightarrow> string \<Rightarrow> (payload \<Rightarrow> bool) \<Rightarrow> payload \<Rightarrow> payload list \<Rightarrow> (exn, nat \<times> payload list) result" where
  "update_rows env g table p sets [] = Inr (0, [])"
| "update_rows env g table p sets (r # rs) =
     rbind (if rls_using g table r \<and> p r then rbind (admit env g table (dupdate r sets)) (\<lambda>r'. Inr (1, r'))
            else Inr (0, r)) (\<lambda>(k, r').
     rbind (update_rows env g table p sets rs) (\<lambda>(n, rs').
     Inr (k + n, r' # rs')))"

definition sql_update ::
  "pgenv \<Rightarrow> gucs \<Rightarrow> string \<Rightarrow> (payload \<Rightarrow> bool) \<Rightarrow> payload \<Rightarrow> tables \<Rightarrow> (exn, nat \<times> tables) result" where
  "sql_update env g table p sets tabs =
     rbind (columns_once sets) (\<lambda>_.
     rbind (update_rows env g table p sets (tabs table)) (\<lambda>(n, rows).
     Inr (n, tabs(table := rows))))"

section \<open>What a tenant session keeps\<close>

text \<open>The rows of a table that are not the tenant's.\<close>

definition foreign_rows :: "uuid \<Rightarrow> payload list \<Rightarrow> payload list" where
  "foreign_rows t rows = filter (\<lambda>r. pget r ''tenant_id'' \<noteq> PyUuid t) rows"

definition isolated :: "uuid \<Rightarrow> tables \<Rightarrow> tables \<Rightarrow> bool" where
  "isolated t tabs tabs' \<longleftrightarrow> (\<forall>table. foreign_rows t (tabs' table) = foreign_rows t (tabs table))"

named_theorems isolation

lemma isolated_refl [simp]: "isolated t tabs tabs"
  by (simp add: isolated_def)

lemma isolated_trans: "isolated t a b \<Longrightarrow> isolated t b c \<Longrightarrow> isolated t a c"
  by (simp add: isolated_def)

lemma guc_tenant_scope [simp]: "guc_tenant (tenant_scope t) = Some t"
proof -
  have "uuid_str t \<noteq> ''''" using uuid_of_str [of t] by (auto simp: uuid_str_def dashed_def)
  then show ?thesis by (simp add: guc_tenant_def tenant_scope_def uuid_of_str)
qed

lemma policed_tables [simp]:
  "policed ''bronze.data_ingress_events''" "policed ''canonical.store_sku_change_events''"
  "policed ''canonical.store_sku_current_position''" "policed ''canonical.store_sku_sale_events''"
  "policed ''config.source_mappings''" "policed ''quarantine.quarantined_chunks''" "policed ''quarantine.quarantined_rows''"
  "\<not> policed ''audit.events''" "\<not> policed ''identity_mirror.stores''"
  by (simp_all add: policed_def TENANT_ISOLATION_TABLES_def)

lemma tenant_using [simp]:
  "policed table \<Longrightarrow> rls_using (tenant_scope t) table r \<longleftrightarrow> pget r ''tenant_id'' = PyUuid t"
  by (simp add: rls_using_def row_tenant_is_def) (simp add: tenant_scope_def)

lemma tenant_with_check [simp]:
  "policed table \<Longrightarrow> rls_with_check (tenant_scope t) table r \<longleftrightarrow> pget r ''tenant_id'' = PyUuid t"
  by (simp add: rls_with_check_def row_tenant_is_def)

text \<open>A tenant session keeps other tenants' rows on a policed table, and on any table when the
  statement's own rows are the tenant's.\<close>

lemma admit_Inr: "admit env g table r = Inr r' \<longleftrightarrow> rls_with_check g table r \<and> pg_reject env table r = None \<and> r' = r"
  by (auto simp: admit_def split: option.splits)

lemma sql_insert_Inr:
  "sql_insert env g table cols tabs = Inr tabs' \<longleftrightarrow>
     distinct (dkeys cols) \<and> admit env g table (dupdate (pg_defaults env table) cols) =
       Inr (dupdate (pg_defaults env table) cols) \<and>
     tabs' = tabs(table := tabs table @ [dupdate (pg_defaults env table) cols])"
  by (auto simp: sql_insert_def columns_once_def result_simps admit_Inr)

lemma sql_insert_own_isolated:
  assumes "sql_insert env g table cols tabs = Inr tabs'"
    and "pget (dupdate (pg_defaults env table) cols) ''tenant_id'' = PyUuid t"
  shows "isolated t tabs tabs'"
  using assms by (auto simp: sql_insert_Inr isolated_def foreign_rows_def)

lemma sql_insert_isolated [isolation]:
  assumes "sql_insert env (tenant_scope t) table cols tabs = Inr tabs'" and "policed table"
  shows "isolated t tabs tabs'"
  using assms by (intro sql_insert_own_isolated [OF assms(1)]) (simp add: sql_insert_Inr admit_Inr)

lemma sql_insert_many_isolated [isolation]:
  "sql_insert_many env (tenant_scope t) table cs tabs = Inr tabs' \<Longrightarrow> policed table \<Longrightarrow> isolated t tabs tabs'"
  by (induction cs arbitrary: tabs) (auto simp: result_simps intro: isolated_trans sql_insert_isolated)

lemma sql_insert_many_Inr:
  "sql_insert_many env g table cs tabs = Inr tabs' \<Longrightarrow>
     tabs' = tabs(table := tabs table @ map (dupdate (pg_defaults env table)) cs)"
proof (induction cs arbitrary: tabs)
  case (Cons c cs)
  from Cons.prems obtain mid where "sql_insert env g table c tabs = Inr mid"
    and "sql_insert_many env g table cs mid = Inr tabs'" by (auto simp: result_simps)
  with Cons.IH [of mid] show ?case by (auto simp: sql_insert_Inr)
qed simp

lemma update_rows_Inr:
  "update_rows env g table p sets rs = Inr (n, rs') \<Longrightarrow>
     rs' = map (\<lambda>r. if rls_using g table r \<and> p r then dupdate r sets else r) rs \<and>
     n = length (filter (\<lambda>r. rls_using g table r \<and> p r) rs) \<and>
     (\<forall>r \<in> set rs. rls_using g table r \<and> p r \<longrightarrow> admit env g table (dupdate r sets) = Inr (dupdate r sets))"
  by (induction rs arbitrary: n rs') (auto simp: result_simps admit_Inr split: if_splits)

lemma update_rows_foreign:
  assumes "policed table" and "update_rows env (tenant_scope t) table p sets rs = Inr (n, rs')"
  shows "foreign_rows t rs' = foreign_rows t rs"
  using assms(2)
  by (induction rs arbitrary: n rs') (auto simp: assms(1) result_simps admit_Inr foreign_rows_def split: if_splits)

lemma sql_update_Inr:
  assumes "sql_update env g table p sets tabs = Inr (n, tabs')"
  shows "tabs' = tabs(table := map (\<lambda>r. if rls_using g table r \<and> p r then dupdate r sets else r) (tabs table))"
    and "n = length (filter (\<lambda>r. rls_using g table r \<and> p r) (tabs table))"
  using assms by (auto simp: sql_update_def result_simps dest!: update_rows_Inr)

lemma sql_update_isolated [isolation]:
  "sql_update env (tenant_scope t) table p sets tabs = Inr (n, tabs') \<Longrightarrow> policed table \<Longrightarrow> isolated t tabs tabs'"
  by (auto simp: sql_update_def result_simps isolated_def dest!: update_rows_foreign [rotated])

section \<open>Transactions\<close>

lemma verified_transaction_Inr:
  "verified_transaction env body s = (Inr a, s') \<Longrightarrow>
     body (pg_tables s) = Inr (a, pg_tables s') \<and> pg_verified s'"
  by (auto simp: verified_transaction_def Let_def split: option.splits sum.splits if_splits)

lemma verified_transaction_Inl:
  "verified_transaction env body s = (Inl e, s') \<Longrightarrow> pg_tables s' = pg_tables s"
  by (auto simp: verified_transaction_def Let_def split: option.splits sum.splits if_splits)

text \<open>C39: A session on a role that can bypass row-level security, or on another database than DIS's,
  never runs a statement: an engine that is not verified yet raises, its tables are
  unchanged and it stays unverified.\<close>

theorem posture_guard:
  assumes "\<not> pg_verified s"
    and "case pg_posture env of (db, role, su, bypass) \<Rightarrow> db \<noteq> ''ithina_dis_db'' \<or> su \<or> bypass"
  shows "\<exists>e. fst (rls_session env t body s) = Inl e \<and> fst (rls_platform_session env t' body' s) = Inl e \<and>
    pg_tables (snd (rls_session env t body s)) = pg_tables s \<and>
    \<not> pg_verified (snd (rls_session env t body s)) \<and>
    pg_tables (snd (rls_platform_session env t' body' s)) = pg_tables s \<and>
    \<not> pg_verified (snd (rls_platform_session env t' body' s))"
  using assms by (auto simp: rls_session_def rls_platform_session_def verified_transaction_def Let_def
      check_posture_def EXPECTED_DATABASE_def split: option.splits prod.splits)

definition demo_env :: pgenv where
  "demo_env = \<lparr>pg_posture = (''ithina_dis_db'', ''ithina_dis_user'', False, False), pg_fault = (\<lambda>n. None),
     pg_reject = (\<lambda>table r. None), pg_defaults = (\<lambda>table. []), pg_jsonb = (\<lambda>v. v), pg_collate = (\<lambda>ks. ks)\<rparr>"

definition demo_state :: pgstate where
  "demo_state = \<lparr>pg_verified = False, pg_txn = 0, pg_tables = (\<lambda>table. [])\<rparr>"

theorem posture_guard_witness:
  "\<exists>e. fst (rls_session (demo_env\<lparr>pg_posture := (''ithina_platform_db'', ''u'', False, False)\<rparr>) 5
     (\<lambda>g tabs. Inr ((), tabs)) demo_state) = Inl e"
  using posture_guard [of demo_state "demo_env\<lparr>pg_posture := (''ithina_platform_db'', ''u'', False, False)\<rparr>"
      5 "\<lambda>g tabs. Inr ((), tabs)" None "\<lambda>g tabs. Inr ((), tabs)"]
  by (auto simp: demo_state_def demo_env_def)

text \<open>On a tenant table a PLATFORM session without a tenant reads every tenant's rows and writes
  none: each of its inserts is refused, and an update succeeds only when it changes no row.\<close>

theorem platform_no_tenant_writes_nothing:
  assumes "table \<in> set TENANT_ISOLATION_TABLES"
  shows "sql_select (platform_scope None) table p tabs = filter p (tabs table) \<and>
   \<not> is_ok (sql_insert env (platform_scope None) table cols tabs) \<and>
   (case sql_update env (platform_scope None) table p sets tabs of Inl e \<Rightarrow> True | Inr (n, tabs') \<Rightarrow> n = 0 \<and> tabs' = tabs)"
proof -
  have u: "rls_using (platform_scope None) table r" and c: "\<not> rls_with_check (platform_scope None) table r" for r
    using assms
    by (simp_all add: policed_def rls_using_def rls_with_check_def guc_tenant_def platform_scope_def row_tenant_is_def)
  have ins: "\<not> is_ok (sql_insert env (platform_scope None) table cols tabs)"
    by (simp add: is_ok_iff sql_insert_Inr admit_Inr c)
  have upd: "n = 0 \<and> rs' = rs" if "update_rows env (platform_scope None) table p sets rs = Inr (n, rs')" for n rs rs'
    using that by (induction rs arbitrary: n rs') (auto simp: result_simps admit_Inr u c split: if_splits)
  show ?thesis using ins upd
    by (auto simp: sql_select_def u sql_update_def result_simps split: sum.splits)
qed

theorem platform_no_tenant_writes_nothing_witness:
  "\<not> is_ok (sql_insert demo_env (platform_scope None) ''canonical.store_sku_sale_events'' [(''tenant_id'', PyUuid 5)] (\<lambda>table. []))"
  using platform_no_tenant_writes_nothing [of "''canonical.store_sku_sale_events''" "\<lambda>r. True" "\<lambda>table. []" demo_env
      "[(''tenant_id'', PyUuid 5)]" "[]"]
  by (simp add: TENANT_ISOLATION_TABLES_def)

end
