(* ===== verification/Canonical_Sink.thy ===== *)
theory Canonical_Sink
  imports Event_Rows Pg_Store "HOL-Library.Product_Lexorder"
begin

text \<open>
  The canonical sink of the streaming consumer, \<open>sinks/canonical.py\<close>: sink resolution, the
  duplicate read, the append of event rows, the two hot-merge paths and the batched writers.
  Each batch is one tenant-scoped transaction on the tables of \<open>Pg_Store\<close>. Minted hot-row ids
  come from the argument \<open>fresh\<close> (batch number, position in the batch).
\<close>

section \<open>Sink resolution\<close>

definition NAMESPACE_BY_VERTICAL :: "(string, string) pydict" where
  "NAMESPACE_BY_VERTICAL = [(''retail'', ''canonical'')]"

definition TABLE_BY_TEMPLATE_TYPE :: "(string, string) pydict" where
  "TABLE_BY_TEMPLATE_TYPE = [(SNAPSHOT, ''store_sku_current_position''), (SALES, ''store_sku_sale_events''),
     (INVENTORY_CHANGE, ''store_sku_change_events'')]"

fun invert_items ::
  "(string, canonical_model) pydict \<Rightarrow> (canonical_model, string) pydict \<Rightarrow> (exn, (canonical_model, string) pydict) result" where
  "invert_items [] inv_map = Inr inv_map"
| "invert_items ((template_type, model) # items) inv_map =
     (if dget inv_map model \<noteq> None then Inl (sink_resolution_error None (Some template_type))
      else invert_items items (dset model template_type inv_map))"

definition invert_model_by_type ::
  "(string, canonical_model) pydict \<Rightarrow> (exn, (canonical_model, string) pydict) result" where
  "invert_model_by_type model_by_type =
     rbind (invert_items model_by_type []) (\<lambda>inv_map.
     if length inv_map \<noteq> length model_by_type then Inl (sink_resolution_error None None) else Inr inv_map)"

definition TEMPLATE_TYPE_BY_MODEL :: "(exn, (canonical_model, string) pydict) result" where
  "TEMPLATE_TYPE_BY_MODEL = invert_model_by_type MODEL_BY_TYPE"

definition EVENT_TS_COLUMN :: "(canonical_model, string) pydict" where
  "EVENT_TS_COLUMN = [(StoreSkuSaleEvent, ''source_sale_timestamp''), (StoreSkuChangeEvent, ''source_event_timestamp'')]"

definition resolve_sink :: "string \<Rightarrow> string \<Rightarrow> (string, string) pydict \<Rightarrow> (exn, string) result" where
  "resolve_sink vertical template_type namespaces = (case dget namespaces vertical of
     None \<Rightarrow> Inl (sink_resolution_error (Some vertical) None)
   | Some namespace \<Rightarrow> (case dget TABLE_BY_TEMPLATE_TYPE template_type of
       None \<Rightarrow> Inl (sink_resolution_error None (Some template_type))
     | Some basename \<Rightarrow> Inr (namespace @ ''.'' @ basename)))"

definition vertical_for_tenant :: "uuid \<Rightarrow> string" where
  "vertical_for_tenant tenant = ''retail''"

definition JSONB_COLUMNS :: "string list" where
  "JSONB_COLUMNS = [''ingest_metadata'', ''value_before'', ''value_after'', ''change_context'', ''attribute_staleness_map'']"

definition HOT_NATURAL_KEY_COLS :: "string list" where
  "HOT_NATURAL_KEY_COLS = [''sku_id'', ''sku_variant'', ''sku_lot_batch'']"

section \<open>Reports\<close>

datatype duplicate_kind = DUPLICATE_NOOP | DUPLICATE_OVERWRITTEN

record duplicate_hit =
  dh_source_event_id :: string
  dh_prior_trace_id :: uuid
  dh_kind :: duplicate_kind
  dh_row_hash :: string
  dh_chunk_row_index :: nat

record write_report =
  wr_event_rows_written :: nat
  wr_hot_rows_upserted :: nat
  wr_batches :: nat
  wr_duplicates :: "duplicate_hit list"
  wr_written_to_table :: string
  wr_hot_noops :: nat

text \<open>The bind list of a statement: JSONB columns are cast on the way in.\<close>

definition bind_columns :: "pgenv \<Rightarrow> string list \<Rightarrow> payload \<Rightarrow> payload" where
  "bind_columns env cols params =
     map (\<lambda>c. (c, if c \<in> set JSONB_COLUMNS then pg_jsonb env (pget params c) else pget params c)) cols"

definition event_insert_columns :: "canonical_model \<Rightarrow> string list" where
  "event_insert_columns model = filter (\<lambda>name. name \<noteq> ''last_updated_at'') (map fst (model_fields model))"

function batches :: "nat \<Rightarrow> 'a list \<Rightarrow> 'a list list" where
  "batches sz rows = (if sz = 0 \<or> rows = [] then [] else take sz rows # batches sz (drop sz rows))"
  by auto
termination by (relation "measure (\<lambda>(sz, rows). length rows)") auto

declare batches.simps [simp del]

section \<open>Grouping\<close>

record hot_group =
  hg_natural_key :: natural_key
  hg_projected :: payload
  hg_last_source_event_at :: pydatetime
  hg_source_event_id :: string
  hg_chunk_row_index :: nat

text \<open>\<open>a >= b\<close> on datetimes: an aware and a naive one cannot be compared.\<close>

definition dt_ge :: "pydatetime \<Rightarrow> pydatetime \<Rightarrow> (exn, bool) result" where
  "dt_ge a b = (case (dt_instant a, dt_instant b) of
     (Some i, Some j) \<Rightarrow> Inr (j \<le> i)
   | (None, None) \<Rightarrow> Inr (dt_wall b \<le> dt_wall a)
   | _ \<Rightarrow> Inl (py_exn PyTypeError))"

definition merge_columns :: "bool \<Rightarrow> payload \<Rightarrow> payload \<Rightarrow> payload" where
  "merge_columns newer projected contributions =
     foldl (\<lambda>acc (column, value). if newer \<or> dget acc column = None then dset column value acc else acc)
       projected contributions"

definition group_row :: "event_row \<Rightarrow> (natural_key, hot_group) pydict \<Rightarrow> (exn, (natural_key, hot_group) pydict) result" where
  "group_row row groups = (case dget groups (er_natural_key row) of
     None \<Rightarrow> Inr (dset (er_natural_key row)
       \<lparr>hg_natural_key = er_natural_key row, hg_projected = er_hot_contributions row,
        hg_last_source_event_at = er_event_ts row, hg_source_event_id = er_source_event_id row,
        hg_chunk_row_index = er_chunk_row_index row\<rparr> groups)
   | Some grp \<Rightarrow>
       rbind (dt_ge (er_event_ts row) (hg_last_source_event_at grp)) (\<lambda>newer.
       let group1 = grp\<lparr>hg_projected := merge_columns newer (hg_projected grp) (er_hot_contributions row)\<rparr>;
           group2 = (if newer then group1\<lparr>hg_last_source_event_at := er_event_ts row,
               hg_source_event_id := er_source_event_id row, hg_chunk_row_index := er_chunk_row_index row\<rparr>
             else group1)
       in Inr (dset (er_natural_key row) group2 groups)))"

fun group_rows :: "event_row list \<Rightarrow> (natural_key, hot_group) pydict \<Rightarrow> (exn, (natural_key, hot_group) pydict) result" where
  "group_rows [] groups = Inr groups"
| "group_rows (row # rows) groups = rbind (group_row row groups) (group_rows rows)"

definition group_hot :: "event_row list \<Rightarrow> (exn, hot_group list) result" where
  "group_hot batch = rbind (group_rows batch []) (\<lambda>groups. Inr (dvals groups))"

section \<open>Duplicate detection\<close>

text \<open>The order the statement reads rows of one key in: event time, then write time, then id.\<close>

definition instant_of :: "pyval \<Rightarrow> int" where
  "instant_of v = (case v of
     PyDt d \<Rightarrow> (case dt_instant d of Some i \<Rightarrow> i | None \<Rightarrow> dt_wall d)
   | _ \<Rightarrow> 0)"

definition prior_rank :: "string \<Rightarrow> payload \<Rightarrow> int \<times> int \<times> int" where
  "prior_rank ts_column r = (instant_of (pget r ts_column), instant_of (pget r ''last_updated_at''),
     (case pget r ''id'' of PyUuid u \<Rightarrow> uint u | _ \<Rightarrow> 0))"

definition latest_prior :: "string \<Rightarrow> payload \<Rightarrow> payload list \<Rightarrow> payload" where
  "latest_prior ts_column r rs =
     foldl (\<lambda>best x. if prior_rank ts_column best < prior_rank ts_column x then x else best) r rs"

text \<open>\<open>SELECT DISTINCT ON (source_event_id) ... ORDER BY source_event_id, <ts> DESC, ...\<close>.\<close>

definition distinct_on_latest :: "pgenv \<Rightarrow> string \<Rightarrow> payload list \<Rightarrow> payload list" where
  "distinct_on_latest env ts_column rows =
     concat (map (\<lambda>k. case filter (\<lambda>r. pget r ''source_event_id'' = PyStr k) rows of
                        [] \<Rightarrow> [] | r # rs \<Rightarrow> [latest_prior ts_column r rs])
       (pg_collate env (first_occurrences (map (\<lambda>r. py_str (pget r ''source_event_id'')) rows))))"

definition uuid_of_pyval :: "pyval \<Rightarrow> (exn, uuid) result" where
  "uuid_of_pyval v = (case v of
     PyUuid u \<Rightarrow> Inr u
   | _ \<Rightarrow> (case uuid_of (py_str v) of Some u \<Rightarrow> Inr u | None \<Rightarrow> Inl (py_exn PyValueError)))"

definition dedup_match :: "ingress_event \<Rightarrow> event_row list \<Rightarrow> payload \<Rightarrow> bool" where
  "dedup_match ev batch r \<longleftrightarrow>
     pget r ''tenant_id'' = PyUuid (ie_tenant_id ev) \<and> pget r ''store_id'' = PyUuid (ie_store_id ev) \<and>
     pget r ''source_id'' = PyStr (ie_source_id ev) \<and>
     pget r ''source_event_id'' \<in> set (map (PyStr \<circ> er_source_event_id) batch)"

text \<open>
  The hits of a batch against the rows the statement returned. The name \<open>prior\<close> is still bound
  to the last returned row when the hits are built.
\<close>

definition duplicate_hits ::
  "pystd \<Rightarrow> string list \<Rightarrow> payload list \<Rightarrow> event_row list \<Rightarrow> (exn, duplicate_hit list) result" where
  "duplicate_hits ps payload_columns returned batch =
    (let prior_by_key = foldl (\<lambda>d r. dset (py_str (pget r ''source_event_id'')) r d) [] returned in
     map_result (\<lambda>row. case dget prior_by_key (er_source_event_id row) of
         None \<Rightarrow> Inl (py_exn PyKeyError)
       | Some prior_row \<Rightarrow>
           rbind (uuid_of_pyval (pget (last returned) ''trace_id'')) (\<lambda>trace.
           Inr \<lparr>dh_source_event_id = er_source_event_id row, dh_prior_trace_id = trace,
                dh_kind = (if canonical_row_hash ps (map (\<lambda>c. (c, pget prior_row c)) payload_columns) = er_row_hash row
                           then DUPLICATE_NOOP else DUPLICATE_OVERWRITTEN),
                dh_row_hash = er_row_hash row, dh_chunk_row_index = er_chunk_row_index row\<rparr>))
       (filter (\<lambda>row. dget prior_by_key (er_source_event_id row) \<noteq> None) batch))"

definition detect_duplicates ::
  "pgenv \<Rightarrow> pystd \<Rightarrow> gucs \<Rightarrow> ingress_event \<Rightarrow> loaded_mapping \<Rightarrow> event_row list \<Rightarrow> string \<Rightarrow> string \<Rightarrow> tables \<Rightarrow>
   (exn, duplicate_hit list) result" where
  "detect_duplicates env ps g ev loaded batch table event_ts_column tabs =
     duplicate_hits ps (target_columns (lm_source loaded))
       (distinct_on_latest env event_ts_column (sql_select g table (dedup_match ev batch) tabs)) batch"

section \<open>The two hot paths\<close>

datatype hot_merge_outcome = Written | Noop_older | Missing

definition coalesce_empty :: "pyval \<Rightarrow> pyval" where
  "coalesce_empty v = (if v = PyNone then PyStr '''' else v)"

text \<open>\<open>_HOT_KEY_MATCH\<close> and the conflict target: the natural key with absent parts read as \<open>''\<close>.\<close>

definition hot_key :: "payload \<Rightarrow> pyval list" where
  "hot_key r = [pget r ''tenant_id'', pget r ''store_id'', pget r ''sku_id'',
     coalesce_empty (pget r ''sku_variant''), coalesce_empty (pget r ''sku_lot_batch'')]"

definition hot_key_match :: "payload \<Rightarrow> payload \<Rightarrow> bool" where
  "hot_key_match params r \<longleftrightarrow> hot_key r = hot_key params"

definition event_time_wins :: "payload \<Rightarrow> payload \<Rightarrow> bool" where
  "event_time_wins incoming r \<longleftrightarrow> pget r ''last_source_event_at'' = PyNone \<or>
     instant_of (pget r ''last_source_event_at'') \<le> instant_of (pget incoming ''last_source_event_at'')"

text \<open>A key part that is not text is refused by the driver (\<open>bind_hot\<close> below), whatever its place.\<close>

definition key_part :: "pyval \<Rightarrow> string" where
  "key_part v = (if v = PyNone then '''' else py_str v)"

definition hot_sort_key :: "hot_group \<Rightarrow> string \<times> string \<times> string" where
  "hot_sort_key grp = (case hg_natural_key grp of (sku_id, sku_variant, sku_lot_batch) \<Rightarrow>
     (sku_id, key_part sku_variant, key_part sku_lot_batch))"

definition hot_ingest_metadata :: "pystd \<Rightarrow> ingress_event \<Rightarrow> hot_group \<Rightarrow> pyval" where
  "hot_ingest_metadata ps ev grp = jsonb_param ps (PyDict [
     (''source_id'', PyStr (ie_source_id ev)), (''source_event_id'', PyStr (hg_source_event_id grp)),
     (''source_event_timestamp'', PyStr (isoformat ''T'' (hg_last_source_event_at grp))),
     (''dis_received_timestamp'', PyStr (isoformat ''T'' (ie_received_ts ev))),
     (''csv_row_num'', PyInt (int (hg_chunk_row_index grp)))])"

definition hot_params ::
  "pystd \<Rightarrow> ingress_event \<Rightarrow> loaded_mapping \<Rightarrow> hot_group \<Rightarrow> string \<Rightarrow> string option \<Rightarrow> uuid \<Rightarrow> payload \<times> payload" where
  "hot_params ps ev loaded grp dis_channel tax_treatment new_id =
    (case hg_natural_key grp of (sku_id, sku_variant, sku_lot_batch) \<Rightarrow>
     let projected = hg_projected grp in
     (dupdate [(''id'', PyUuid new_id), (''tenant_id'', PyUuid (ie_tenant_id ev)), (''store_id'', PyUuid (ie_store_id ev)),
        (''sku_id'', PyStr sku_id), (''sku_variant'', sku_variant), (''sku_lot_batch'', sku_lot_batch),
        (''tax_treatment'', case tax_treatment of None \<Rightarrow> PyNone | Some s \<Rightarrow> PyStr s),
        (''last_source_event_at'', PyDt (hg_last_source_event_at grp)),
        (''mapping_version_id'', PyInt (lm_mapping_version_id loaded)), (''trace_id'', PyUuid (ie_trace_id ev)),
        (''dis_channel'', PyStr dis_channel), (''ingest_metadata'', hot_ingest_metadata ps ev grp)] projected,
      projected))"

text \<open>
  The driver encodes the bound parameters before the server sees the statement: a key part that
  is not text and a timestamp without an offset are refused.
\<close>

definition bind_hot :: "payload \<Rightarrow> (exn, unit) result" where
  "bind_hot params =
     require ((pget params ''sku_variant'' = PyNone \<or> is_str (pget params ''sku_variant'')) \<and>
              (pget params ''sku_lot_batch'' = PyNone \<or> is_str (pget params ''sku_lot_batch'')) \<and>
              (case pget params ''last_source_event_at'' of PyDt d \<Rightarrow> dt_offset d \<noteq> None | _ \<Rightarrow> True))
       (py_exn (PyForeign ''DataError''))"

definition hot_update_columns :: "payload \<Rightarrow> string list" where
  "hot_update_columns projected = dkeys projected @
     [''last_source_event_at'', ''mapping_version_id'', ''trace_id'', ''dis_channel'', ''ingest_metadata'']"

definition update_hot_incomplete_path ::
  "pgenv \<Rightarrow> gucs \<Rightarrow> payload \<Rightarrow> payload \<Rightarrow> string \<Rightarrow> hot_merge_outcome txn_body" where
  "update_hot_incomplete_path env g params projected hot_table tabs =
     rbind (bind_hot params) (\<lambda>_.
     rbind (sql_update env g hot_table (\<lambda>r. hot_key_match params r \<and> event_time_wins params r)
              (bind_columns env (hot_update_columns projected) params) tabs) (\<lambda>(rowcount, tabs').
     if 0 < rowcount then Inr (Written, tabs')
     else if sql_select g hot_table (hot_key_match params) tabs' \<noteq> [] then Inr (Noop_older, tabs')
     else Inr (Missing, tabs')))"

definition hot_insert_columns :: "payload \<Rightarrow> string list" where
  "hot_insert_columns projected =
     [''id'', ''tenant_id'', ''store_id'', ''sku_id'', ''sku_variant'', ''sku_lot_batch''] @ dkeys projected @
     (if ''tax_treatment'' \<in> set (dkeys projected) then [] else [''tax_treatment'']) @
     [''last_source_event_at'', ''mapping_version_id'', ''trace_id'', ''dis_channel'', ''ingest_metadata'']"

text \<open>
  \<open>INSERT ... ON CONFLICT ... DO UPDATE SET c = EXCLUDED.c ... WHERE\<close>: the candidate is
  admitted first, then a row of the same key takes the update columns when the incoming event
  is not older, and otherwise the candidate is appended.
\<close>

definition insert_on_conflict_hot_complete_path ::
  "pgenv \<Rightarrow> gucs \<Rightarrow> payload \<Rightarrow> payload \<Rightarrow> string \<Rightarrow> hot_merge_outcome txn_body" where
  "insert_on_conflict_hot_complete_path env g params projected hot_table tabs =
    (let cols = bind_columns env (hot_insert_columns projected) params;
         excluded = dupdate (pg_defaults env hot_table) cols in
     rbind (bind_hot params) (\<lambda>_.
     rbind (columns_once cols) (\<lambda>_.
     rbind (admit env g hot_table excluded) (\<lambda>_.
     if filter (hot_key_match excluded) (tabs hot_table) = []
     then Inr (Written, tabs(hot_table := tabs hot_table @ [excluded]))
     else rbind (sql_update env g hot_table (\<lambda>r. hot_key_match excluded r \<and> event_time_wins excluded r)
                   (map (\<lambda>c. (c, pget excluded c)) (hot_update_columns projected)) tabs) (\<lambda>(rowcount, tabs').
          Inr (Written, tabs'))))))"

definition upsert_hot ::
  "pgenv \<Rightarrow> pystd \<Rightarrow> gucs \<Rightarrow> ingress_event \<Rightarrow> loaded_mapping \<Rightarrow> hot_group \<Rightarrow> string \<Rightarrow> string option \<Rightarrow> uuid \<Rightarrow>
   hot_merge_outcome txn_body" where
  "upsert_hot env ps g ev loaded grp dis_channel tax_treatment new_id tabs =
    (case hot_params ps ev loaded grp dis_channel tax_treatment new_id of (params, projected) \<Rightarrow>
     rbind (resolve_sink (vertical_for_tenant (ie_tenant_id ev)) SNAPSHOT NAMESPACE_BY_VERTICAL) (\<lambda>hot_table.
     if lm_hot_complete loaded
     then insert_on_conflict_hot_complete_path env g params projected hot_table tabs
     else update_hot_incomplete_path env g params projected hot_table tabs))"

section \<open>The catalogue writer\<close>

definition catalogue_group ::
  "pystd \<Rightarrow> ingress_event \<Rightarrow> string list \<Rightarrow> string list \<Rightarrow> payload \<Rightarrow> nat \<Rightarrow> (exn, hot_group) result" where
  "catalogue_group ps ev produced staleness_cols p idx =
    (let projected = filter (\<lambda>(name, value). name \<in> set produced \<and> name \<notin> set HOT_NATURAL_KEY_COLS) p;
         stamp = sorted_set (list_inter (dkeys projected) staleness_cols);
         projected1 = (if stamp = [] then projected
           else dset ''attribute_staleness_map''
             (jsonb_param ps (PyDict (map (\<lambda>col. (col, PyStr (isoformat ''T'' (ie_received_ts ev)))) stamp))) projected) in
     rbind (pitem p ''sku_id'') (\<lambda>sku.
     Inr \<lparr>hg_natural_key = (py_str sku, pget p ''sku_variant'', pget p ''sku_lot_batch''),
          hg_projected = projected1, hg_last_source_event_at = ie_received_ts ev,
          hg_source_event_id = uuid_str (ie_bronze_ref ev) @ '':'' @ dec_str idx, hg_chunk_row_index = idx\<rparr>))"

definition catalogue_groups :: "pystd \<Rightarrow> ingress_event \<Rightarrow> mapping_result \<Rightarrow> (exn, hot_group list) result" where
  "catalogue_groups ps ev r =
     rbind (mapping_produced_columns StoreSkuCurrentPosition) (\<lambda>mapped.
     rbind catalogue_staleness_columns (\<lambda>staleness_cols.
     let rows = to_dicts (mr_contribution r); produced = mapped @ enrichment_fields CURRENT_POSITION in
     if length rows \<noteq> length (mr_source_row_indices r) then Inl (py_exn PyValueError)
     else map_result (\<lambda>(p, idx). catalogue_group ps ev produced staleness_cols p idx)
            (zip rows (mr_source_row_indices r))))"

fun catalogue_batch ::
  "pgenv \<Rightarrow> pystd \<Rightarrow> ingress_event \<Rightarrow> loaded_mapping \<Rightarrow> string \<Rightarrow> string \<Rightarrow> (nat \<Rightarrow> uuid) \<Rightarrow> nat \<Rightarrow> hot_group list \<Rightarrow>
   gucs \<Rightarrow> nat txn_body" where
  "catalogue_batch env ps ev loaded dis_channel hot_table fresh k [] g tabs = Inr (0, tabs)"
| "catalogue_batch env ps ev loaded dis_channel hot_table fresh k (grp # groups) g tabs =
    (case hot_params ps ev loaded grp dis_channel None (fresh k) of (params, projected) \<Rightarrow>
     rbind (insert_on_conflict_hot_complete_path env g params projected hot_table tabs) (\<lambda>(outcome, tabs1).
     rbind (catalogue_batch env ps ev loaded dis_channel hot_table fresh (Suc k) groups g tabs1) (\<lambda>(n, tabs2).
     Inr (Suc n, tabs2))))"

definition catalogue_order :: "hot_group list \<Rightarrow> hot_group list" where
  "catalogue_order batch = sort_key hot_sort_key batch"

fun catalogue_batches ::
  "pgenv \<Rightarrow> pystd \<Rightarrow> ingress_event \<Rightarrow> loaded_mapping \<Rightarrow> string \<Rightarrow> string \<Rightarrow> (nat \<Rightarrow> nat \<Rightarrow> uuid) \<Rightarrow> nat \<Rightarrow>
   hot_group list list \<Rightarrow> pgstate \<Rightarrow> (exn, nat) result \<times> pgstate" where
  "catalogue_batches env ps ev loaded dis_channel hot_table fresh i [] s = (Inr 0, s)"
| "catalogue_batches env ps ev loaded dis_channel hot_table fresh i (batch # bs) s =
    (case rls_session env (ie_tenant_id ev)
            (catalogue_batch env ps ev loaded dis_channel hot_table (fresh i) 0 (catalogue_order batch)) s of
       (Inl e, s1) \<Rightarrow> (Inl e, s1)
     | (Inr n, s1) \<Rightarrow>
       (case catalogue_batches env ps ev loaded dis_channel hot_table fresh (Suc i) bs s1 of
          (Inl e, s2) \<Rightarrow> (Inl e, s2)
        | (Inr m, s2) \<Rightarrow> (Inr (n + m), s2)))"

definition write_catalogue_chunk ::
  "pgenv \<Rightarrow> pystd \<Rightarrow> (nat \<Rightarrow> nat \<Rightarrow> uuid) \<Rightarrow> ingress_event \<Rightarrow> loaded_mapping \<Rightarrow> mapping_result \<Rightarrow> string \<Rightarrow> nat \<Rightarrow>
   pgstate \<Rightarrow> (exn, write_report) result \<times> pgstate" where
  "write_catalogue_chunk env ps fresh ev loaded r dis_channel batch_size s =
    (case rbind (resolve_sink (vertical_for_tenant (ie_tenant_id ev)) SNAPSHOT NAMESPACE_BY_VERTICAL) (\<lambda>hot_table.
          rbind (catalogue_groups ps ev r) (\<lambda>groups.
          if batch_size = 0 then Inl (py_exn PyValueError) else Inr (hot_table, batches batch_size groups))) of
       Inl e \<Rightarrow> (Inl e, s)
     | Inr (hot_table, bs) \<Rightarrow>
       (case catalogue_batches env ps ev loaded dis_channel hot_table fresh 0 bs s of
          (Inl e, s1) \<Rightarrow> (Inl e, s1)
        | (Inr n, s1) \<Rightarrow> (Inr \<lparr>wr_event_rows_written = 0, wr_hot_rows_upserted = n, wr_batches = length bs,
            wr_duplicates = [], wr_written_to_table = hot_table, wr_hot_noops = 0\<rparr>, s1)))"

section \<open>The dual writer\<close>

record batch_outcome =
  bo_duplicates :: "duplicate_hit list"
  bo_written :: nat
  bo_noops :: nat
  bo_misses :: "hot_group list"

definition count_outcome :: "hot_group \<Rightarrow> hot_merge_outcome \<Rightarrow> batch_outcome \<Rightarrow> batch_outcome" where
  "count_outcome grp outcome b = (case outcome of
     Written \<Rightarrow> b\<lparr>bo_written := Suc (bo_written b)\<rparr>
   | Noop_older \<Rightarrow> b\<lparr>bo_noops := Suc (bo_noops b)\<rparr>
   | Missing \<Rightarrow> b\<lparr>bo_misses := bo_misses b @ [grp]\<rparr>)"

fun merge_groups ::
  "pgenv \<Rightarrow> pystd \<Rightarrow> ingress_event \<Rightarrow> loaded_mapping \<Rightarrow> string \<Rightarrow> string option \<Rightarrow> (nat \<Rightarrow> uuid) \<Rightarrow> nat \<Rightarrow>
   hot_group list \<Rightarrow> batch_outcome \<Rightarrow> gucs \<Rightarrow> batch_outcome txn_body" where
  "merge_groups env ps ev loaded dis_channel tax fresh k [] b g tabs = Inr (b, tabs)"
| "merge_groups env ps ev loaded dis_channel tax fresh k (grp # groups) b g tabs =
     rbind (upsert_hot env ps g ev loaded grp dis_channel tax (fresh k) tabs) (\<lambda>(outcome, tabs1).
     merge_groups env ps ev loaded dis_channel tax fresh (Suc k) groups (count_outcome grp outcome b) g tabs1)"

definition write_batch ::
  "pgenv \<Rightarrow> pystd \<Rightarrow> ingress_event \<Rightarrow> loaded_mapping \<Rightarrow> string \<Rightarrow> string option \<Rightarrow> string \<Rightarrow> string \<Rightarrow> (nat \<Rightarrow> uuid) \<Rightarrow>
   event_row list \<Rightarrow> hot_group list \<Rightarrow> gucs \<Rightarrow> batch_outcome txn_body" where
  "write_batch env ps ev loaded dis_channel tax table ts_column fresh batch groups g tabs =
     rbind (detect_duplicates env ps g ev loaded batch table ts_column tabs) (\<lambda>dups.
     rbind (sql_insert_many env g table
              (map (\<lambda>row. bind_columns env (event_insert_columns (lm_target_model loaded)) (er_params row)) batch) tabs) (\<lambda>tabs1.
     merge_groups env ps ev loaded dis_channel tax fresh 0 groups
       \<lparr>bo_duplicates = dups, bo_written = 0, bo_noops = 0, bo_misses = []\<rparr> g tabs1))"

text \<open>The groups of a batch in the order the transaction merges them, \<open>sorted(_group_hot(batch), key=hot_sort_key)\<close>.\<close>

definition batch_groups :: "event_row list \<Rightarrow> (exn, hot_group list) result" where
  "batch_groups batch = rbind (group_hot batch) (\<lambda>groups. Inr (sort_key hot_sort_key groups))"

fun write_batches ::
  "pgenv \<Rightarrow> pystd \<Rightarrow> ingress_event \<Rightarrow> loaded_mapping \<Rightarrow> string \<Rightarrow> string option \<Rightarrow> string \<Rightarrow> string \<Rightarrow>
   (nat \<Rightarrow> nat \<Rightarrow> uuid) \<Rightarrow> nat \<Rightarrow> event_row list list \<Rightarrow> pgstate \<Rightarrow> (exn, batch_outcome list) result \<times> pgstate" where
  "write_batches env ps ev loaded dis_channel tax table ts_column fresh i [] s = (Inr [], s)"
| "write_batches env ps ev loaded dis_channel tax table ts_column fresh i (batch # bs) s =
    (case batch_groups batch of
       Inl e \<Rightarrow> (Inl e, s)
     | Inr groups \<Rightarrow>
       (case rls_session env (ie_tenant_id ev)
               (write_batch env ps ev loaded dis_channel tax table ts_column (fresh i) batch groups) s of
          (Inl e, s1) \<Rightarrow> (Inl e, s1)
        | (Inr b, s1) \<Rightarrow>
          if bo_misses b \<noteq> []
          then (Inl (hot_position_missing_error (Some (uuid_str (ie_tenant_id ev))) (Some (uuid_str (ie_trace_id ev)))
                  (lm_mapping_version_id loaded) (length (bo_misses b))), s1)
          else (case write_batches env ps ev loaded dis_channel tax table ts_column fresh (Suc i) bs s1 of
                  (Inl e, s2) \<Rightarrow> (Inl e, s2)
                | (Inr rest, s2) \<Rightarrow> (Inr (b # rest), s2))))"

definition route_chunk :: "ingress_event \<Rightarrow> loaded_mapping \<Rightarrow> (exn, string \<times> string) result" where
  "route_chunk ev loaded =
     rbind TEMPLATE_TYPE_BY_MODEL (\<lambda>by_model.
     rbind (case dget by_model (lm_target_model loaded) of
              None \<Rightarrow> Inl (py_exn PyKeyError) | Some template_type \<Rightarrow> Inr template_type) (\<lambda>template_type.
     rbind (resolve_sink (vertical_for_tenant (ie_tenant_id ev)) template_type NAMESPACE_BY_VERTICAL) (\<lambda>table.
     case dget EVENT_TS_COLUMN (lm_target_model loaded) of
       None \<Rightarrow> Inl (py_exn PyKeyError) | Some ts_column \<Rightarrow> Inr (table, ts_column))))"

definition write_chunk ::
  "pgenv \<Rightarrow> pystd \<Rightarrow> (nat \<Rightarrow> nat \<Rightarrow> uuid) \<Rightarrow> ingress_event \<Rightarrow> loaded_mapping \<Rightarrow> event_row list \<Rightarrow> string \<Rightarrow>
   string option \<Rightarrow> nat \<Rightarrow> pgstate \<Rightarrow> (exn, write_report) result \<times> pgstate" where
  "write_chunk env ps fresh ev loaded event_rows dis_channel tax batch_size s =
    (case route_chunk ev loaded of
       Inl e \<Rightarrow> (Inl e, s)
     | Inr (table, ts_column) \<Rightarrow>
       if batch_size = 0 then (Inl (py_exn PyValueError), s)
       else (case write_batches env ps ev loaded dis_channel tax table ts_column fresh 0
                    (batches batch_size event_rows) s of
               (Inl e, s1) \<Rightarrow> (Inl e, s1)
             | (Inr bs, s1) \<Rightarrow> (Inr \<lparr>wr_event_rows_written = length event_rows,
                 wr_hot_rows_upserted = sum_list (map bo_written bs), wr_batches = length bs,
                 wr_duplicates = concat (map bo_duplicates bs), wr_written_to_table = table,
                 wr_hot_noops = sum_list (map bo_noops bs)\<rparr>, s1)))"

end
