(* ===== verification/Sink_Props.thy ===== *)
theory Sink_Props
  imports Canonical_Sink "HOL-Library.Sublist"
begin

text \<open>
  What the canonical sink promises. A relation between table states that is reflexive,
  transitive and kept by the event insert and by one hot merge is kept by a whole chunk
  (locale \<open>sink_relation\<close>); its interpretations give tenant isolation, append-only event
  history, event-time-wins and the absence of hot inserts on the incomplete path.
\<close>

section \<open>Routing\<close>

abbreviation HOT :: string where "HOT \<equiv> ''canonical.store_sku_current_position''"

definition event_table :: "canonical_model \<Rightarrow> string" where
  "event_table m = (if m = StoreSkuSaleEvent then ''canonical.store_sku_sale_events''
     else ''canonical.store_sku_change_events'')"

lemma resolve_hot [simp]: "resolve_sink (vertical_for_tenant t) SNAPSHOT NAMESPACE_BY_VERTICAL = Inr HOT"
  by (simp add: vertical_for_tenant_def) code_simp

lemma template_type_by_model:
  "TEMPLATE_TYPE_BY_MODEL = Inr [(StoreSkuCurrentPosition, SNAPSHOT), (StoreSkuSaleEvent, SALES), (StoreSkuChangeEvent, INVENTORY_CHANGE)]"
  by code_simp

lemma event_table_not_hot [simp]: "event_table m \<noteq> HOT" "HOT \<noteq> event_table m"
  by (simp_all add: event_table_def)

lemma route_chunk_Inr:
  assumes "route_chunk ev loaded = Inr (table, ts)"
  shows "lm_target_model loaded \<in> {StoreSkuSaleEvent, StoreSkuChangeEvent}"
    and "table = event_table (lm_target_model loaded)"
proof -
  have "resolve_sink ''retail'' SALES NAMESPACE_BY_VERTICAL = Inr ''canonical.store_sku_sale_events''"
    "resolve_sink ''retail'' INVENTORY_CHANGE NAMESPACE_BY_VERTICAL = Inr ''canonical.store_sku_change_events''"
    by code_simp+
  then show "lm_target_model loaded \<in> {StoreSkuSaleEvent, StoreSkuChangeEvent}"
    and "table = event_table (lm_target_model loaded)"
    using assms by (cases "lm_target_model loaded"; simp add: route_chunk_def template_type_by_model dget_def
        EVENT_TS_COLUMN_def event_table_def vertical_for_tenant_def result_simps)+
qed

section \<open>Batches\<close>

lemma concat_batches: "0 < n \<Longrightarrow> concat (batches n xs) = xs"
proof (induction n xs rule: batches.induct)
  case (1 n xs)
  show ?case
  proof (cases "xs = []")
    case False
    then show ?thesis using 1 by (subst batches.simps) simp
  qed (simp add: batches.simps)
qed

lemma batches_bounds: "b \<in> set (batches n xs) \<Longrightarrow> b \<noteq> [] \<and> length b \<le> n"
proof (induction n xs rule: batches.induct)
  case (1 n xs)
  show ?case
  proof (cases "n = 0 \<or> xs = []")
    case True
    then show ?thesis using 1 by (simp add: batches.simps)
  next
    case False
    with 1 show ?thesis by (subst (asm) batches.simps) auto
  qed
qed

lemma list_all_concat: "list_all P (concat xss) \<longleftrightarrow> list_all (list_all P) xss"
  by (induction xss) auto

section \<open>One merge\<close>

lemma update_path_Inr:
  assumes "update_hot_incomplete_path env g params projected H tabs = Inr (out, tabs')"
  obtains n where "sql_update env g H (\<lambda>r. hot_key_match params r \<and> event_time_wins params r)
      (bind_columns env (hot_update_columns projected) params) tabs = Inr (n, tabs')"
    and "out = Written \<longleftrightarrow> 0 < n" and "out = Missing \<longleftrightarrow> n = 0 \<and> sql_select g H (hot_key_match params) tabs' = []"
  using assms by (auto simp: update_hot_incomplete_path_def result_simps split: if_splits)

lemma insert_path_Inr:
  assumes "insert_on_conflict_hot_complete_path env g params projected H tabs = Inr (out, tabs')"
  obtains (inserted) ex where "ex = dupdate (pg_defaults env H) (bind_columns env (hot_insert_columns projected) params)"
      "admit env g H ex = Inr ex" "filter (hot_key_match ex) (tabs H) = []" "tabs' = tabs(H := tabs H @ [ex])" "out = Written"
      "distinct (hot_insert_columns projected)"
  | (updated) ex n where "ex = dupdate (pg_defaults env H) (bind_columns env (hot_insert_columns projected) params)"
      "sql_update env g H (\<lambda>r. hot_key_match ex r \<and> event_time_wins ex r)
        (map (\<lambda>c. (c, pget ex c)) (hot_update_columns projected)) tabs = Inr (n, tabs')" "out = Written"
      "filter (hot_key_match ex) (tabs H) \<noteq> []" "distinct (hot_insert_columns projected)"
proof -
  let ?ex = "dupdate (pg_defaults env H) (bind_columns env (hot_insert_columns projected) params)"
  have d: "dkeys (bind_columns env (hot_insert_columns projected) params) = hot_insert_columns projected"
    by (simp add: bind_columns_def comp_def)
  show ?thesis
  proof (cases "filter (hot_key_match ?ex) (tabs H) = []")
    case True
    then show ?thesis using assms
      by (intro inserted [of ?ex]) (auto simp: insert_on_conflict_hot_complete_path_def Let_def result_simps admit_Inr
          columns_once_def d)
  next
    case False
    from assms False obtain n where "sql_update env g H (\<lambda>r. hot_key_match ?ex r \<and> event_time_wins ?ex r)
        (map (\<lambda>c. (c, pget ?ex c)) (hot_update_columns projected)) tabs = Inr (n, tabs')" "out = Written"
      "distinct (hot_insert_columns projected)"
      by (auto simp: insert_on_conflict_hot_complete_path_def Let_def result_simps admit_Inr columns_once_def d)
    then show ?thesis using False by (intro updated [of ?ex]) auto
  qed
qed

lemma upsert_cases:
  assumes "upsert_hot env ps g ev loaded grp dis_channel tax new_id tabs = Inr (out, tabs')"
  obtains params projected where "hot_params ps ev loaded grp dis_channel tax new_id = (params, projected)"
    and "(if lm_hot_complete loaded then insert_on_conflict_hot_complete_path env g params projected HOT tabs
          else update_hot_incomplete_path env g params projected HOT tabs) = Inr (out, tabs')"
  using assms by (cases "hot_params ps ev loaded grp dis_channel tax new_id") (auto simp: upsert_hot_def)

section \<open>Relations a chunk keeps\<close>

locale table_relation =
  fixes R :: "tables \<Rightarrow> tables \<Rightarrow> bool"
  assumes R_refl: "R tabs tabs"
    and R_trans: "R a b \<Longrightarrow> R b c \<Longrightarrow> R a c"
begin

lemma session_R:
  assumes "rls_session env t body s = (r, s')"
    and "\<And>a tabs'. body (tenant_scope t) (pg_tables s) = Inr (a, tabs') \<Longrightarrow> R (pg_tables s) tabs'"
  shows "R (pg_tables s) (pg_tables s')"
proof (cases r)
  case (Inl e)
  then have "pg_tables s' = pg_tables s"
    using assms(1) by (auto simp: rls_session_def dest: verified_transaction_Inl)
  then show ?thesis by (simp add: R_refl)
next
  case (Inr a)
  then show ?thesis using assms by (auto simp: rls_session_def dest!: verified_transaction_Inr)
qed

end

text \<open>The provider's side: the event insert and one hot merge of the chunk keep the relation.\<close>

locale sink_relation = table_relation R for R :: "tables \<Rightarrow> tables \<Rightarrow> bool" +
  fixes env :: pgenv and ps :: pystd and ev :: ingress_event and loaded :: loaded_mapping
    and ok :: "hot_group \<Rightarrow> bool"
  assumes insert_R: "sql_insert_many env (tenant_scope (ie_tenant_id ev)) (event_table (lm_target_model loaded))
      (map (\<lambda>row. bind_columns env (event_insert_columns (lm_target_model loaded)) (er_params row)) (batch :: event_row list)) tabs = Inr tabs' \<Longrightarrow>
      R tabs tabs'"
    and upsert_R: "ok grp \<Longrightarrow> upsert_hot env ps (tenant_scope (ie_tenant_id ev)) ev loaded grp dis_channel tax new_id tabs =
      Inr (out, tabs') \<Longrightarrow> R tabs tabs'"
begin

lemma merge_groups_R:
  "list_all ok groups \<Longrightarrow>
   merge_groups env ps ev loaded dis_channel tax fresh k groups b (tenant_scope (ie_tenant_id ev)) tabs = Inr (b', tabs') \<Longrightarrow>
   R tabs tabs'"
proof (induction groups arbitrary: k b tabs)
  case Nil
  then show ?case by (simp add: R_refl)
next
  case (Cons grp groups)
  from Cons.prems obtain out mid where up:
    "upsert_hot env ps (tenant_scope (ie_tenant_id ev)) ev loaded grp dis_channel tax (fresh k) tabs = Inr (out, mid)"
    and rest: "merge_groups env ps ev loaded dis_channel tax fresh (Suc k) groups (count_outcome grp out b)
      (tenant_scope (ie_tenant_id ev)) mid = Inr (b', tabs')"
    by (auto simp: result_simps)
  have "R tabs mid" using up Cons.prems(1) by (intro upsert_R) auto
  moreover have "R mid tabs'" using rest Cons.prems(1) by (intro Cons.IH) auto
  ultimately show ?case by (rule R_trans)
qed

lemma write_batch_R:
  assumes "list_all ok groups"
    and "write_batch env ps ev loaded dis_channel tax (event_table (lm_target_model loaded)) ts fresh batch groups
      (tenant_scope (ie_tenant_id ev)) tabs = Inr (b, tabs')"
  shows "R tabs tabs'"
proof -
  from assms(2) obtain mid b0 where "R tabs mid"
    and "merge_groups env ps ev loaded dis_channel tax fresh 0 groups b0 (tenant_scope (ie_tenant_id ev)) mid = Inr (b, tabs')"
    by (auto simp: write_batch_def result_simps dest: insert_R)
  then show ?thesis using merge_groups_R [OF assms(1)] R_trans by blast
qed

lemma write_batches_R:
  assumes "\<And>batch groups. batch \<in> set bs \<Longrightarrow> group_hot batch = Inr groups \<Longrightarrow> list_all ok groups"
    and "write_batches env ps ev loaded dis_channel tax (event_table (lm_target_model loaded)) ts fresh i bs s = (r, s')"
  shows "R (pg_tables s) (pg_tables s')"
  using assms
proof (induction bs arbitrary: i s r s')
  case Nil
  then show ?case by (simp add: R_refl)
next
  case (Cons batch bs)
  let ?T = "event_table (lm_target_model loaded)"
  show ?case
  proof (cases "batch_groups batch")
    case (Inl e)
    then show ?thesis using Cons.prems by (simp add: R_refl)
  next
    case (Inr groups)
    let ?body = "write_batch env ps ev loaded dis_channel tax ?T ts (fresh i) batch groups"
    obtain r1 s1 where run: "rls_session env (ie_tenant_id ev) ?body s = (r1, s1)" by fastforce
    have ok: "list_all ok groups"
      using Cons.prems(1) [of batch] Inr by (auto simp: batch_groups_def result_simps list_all_iff)
    have R1: "R (pg_tables s) (pg_tables s1)"
      using run by (rule session_R) (rule write_batch_R [OF ok])
    have rest: "R (pg_tables s1) (pg_tables s2)"
      if "write_batches env ps ev loaded dis_channel tax ?T ts fresh (Suc i) bs s1 = (r2, s2)" for r2 s2
      using that by (rule Cons.IH [rotated]) (use Cons.prems(1) in auto)
    obtain r2 s2 where tail: "write_batches env ps ev loaded dis_channel tax ?T ts fresh (Suc i) bs s1 = (r2, s2)"
      by fastforce
    have "s' = s1 \<or> s' = s2"
      using Cons.prems(2) Inr run tail by (auto split: sum.splits prod.splits if_splits)
    then show ?thesis using R1 rest [OF tail] R_trans by blast
  qed
qed

lemma write_chunk_R:
  assumes "\<And>batch groups. set batch \<subseteq> set rows \<Longrightarrow> group_hot batch = Inr groups \<Longrightarrow> list_all ok groups"
    and "write_chunk env ps fresh ev loaded rows dis_channel tax sz s = (r, s')"
  shows "R (pg_tables s) (pg_tables s')"
proof (cases "route_chunk ev loaded")
  case (Inl e)
  then show ?thesis using assms(2) by (simp add: write_chunk_def R_refl)
next
  case (Inr route)
  obtain table ts where route: "route = (table, ts)" by (cases route)
  note t = route_chunk_Inr(2) [OF Inr [unfolded route]]
  show ?thesis
  proof (cases "sz = 0")
    case True
    then show ?thesis using assms(2) Inr route by (simp add: write_chunk_def R_refl)
  next
    case False
    obtain r1 s1 where run: "write_batches env ps ev loaded dis_channel tax table ts fresh 0 (batches sz rows) s = (r1, s1)"
      by fastforce
    have "s' = s1" using assms(2) Inr route False run by (auto simp: write_chunk_def split: sum.splits)
    have "set batch \<subseteq> set rows" if "batch \<in> set (batches sz rows)" for batch
      using that concat_batches [of sz rows] False by (metis UN_upper set_concat neq0_conv)
    then show ?thesis
      using write_batches_R [of "batches sz rows" dis_channel tax ts fresh 0 s r1 s1] assms(1) run t \<open>s' = s1\<close>
      by blast
  qed
qed

end

text \<open>The same for the catalogue writer, whose batches are complete-path merges only.\<close>

locale catalogue_relation = table_relation R for R :: "tables \<Rightarrow> tables \<Rightarrow> bool" +
  fixes env :: pgenv and ps :: pystd and ev :: ingress_event and loaded :: loaded_mapping
    and ok :: "hot_group \<Rightarrow> bool"
  assumes complete_R: "ok grp \<Longrightarrow> hot_params ps ev loaded grp dis_channel None new_id = (params, projected) \<Longrightarrow>
      insert_on_conflict_hot_complete_path env (tenant_scope (ie_tenant_id ev)) params projected HOT tabs = Inr (out, tabs') \<Longrightarrow>
      R tabs tabs'"
begin

lemma catalogue_batch_R:
  "list_all ok groups \<Longrightarrow>
   catalogue_batch env ps ev loaded dis_channel HOT fresh k groups (tenant_scope (ie_tenant_id ev)) tabs = Inr (n, tabs') \<Longrightarrow>
   R tabs tabs'"
proof (induction groups arbitrary: k n tabs)
  case Nil
  then show ?case by (simp add: R_refl)
next
  case (Cons grp groups)
  obtain params projected where p: "hot_params ps ev loaded grp dis_channel None (fresh k) = (params, projected)" by fastforce
  with Cons.prems obtain out mid m where step:
    "insert_on_conflict_hot_complete_path env (tenant_scope (ie_tenant_id ev)) params projected HOT tabs = Inr (out, mid)"
    and rest: "catalogue_batch env ps ev loaded dis_channel HOT fresh (Suc k) groups (tenant_scope (ie_tenant_id ev)) mid =
      Inr (m, tabs')"
    by (auto simp: result_simps)
  have "R tabs mid" using Cons.prems(1) p step by (intro complete_R) auto
  moreover have "R mid tabs'" using Cons.prems(1) rest by (intro Cons.IH) auto
  ultimately show ?case by (rule R_trans)
qed

lemma catalogue_batches_R:
  "list_all (list_all ok) bs \<Longrightarrow>
   catalogue_batches env ps ev loaded dis_channel HOT fresh i bs s = (r, s') \<Longrightarrow> R (pg_tables s) (pg_tables s')"
proof (induction bs arbitrary: i s r s')
  case Nil
  then show ?case by (simp add: R_refl)
next
  case (Cons batch bs)
  let ?body = "catalogue_batch env ps ev loaded dis_channel HOT (fresh i) 0 (catalogue_order batch)"
  obtain r1 s1 where run: "rls_session env (ie_tenant_id ev) ?body s = (r1, s1)" by fastforce
  obtain r2 s2 where tail: "catalogue_batches env ps ev loaded dis_channel HOT fresh (Suc i) bs s1 = (r2, s2)" by fastforce
  have ok: "list_all ok (catalogue_order batch)" using Cons.prems(1) by (simp add: catalogue_order_def list_all_iff)
  have "R (pg_tables s) (pg_tables s1)"
    using run by (rule session_R) (rule catalogue_batch_R [OF ok])
  moreover have "R (pg_tables s1) (pg_tables s2)" using Cons.prems(1) tail by (intro Cons.IH) auto
  moreover have "s' = s1 \<or> s' = s2" using Cons.prems(2) run tail by (auto split: sum.splits prod.splits)
  ultimately show ?case using R_trans by blast
qed

lemma write_catalogue_chunk_R:
  assumes "\<And>groups. catalogue_groups ps ev result = Inr groups \<Longrightarrow> list_all ok groups"
    and "write_catalogue_chunk env ps fresh ev loaded result dis_channel sz s = (r, s')"
  shows "R (pg_tables s) (pg_tables s')"
proof (cases "catalogue_groups ps ev result")
  case (Inl e)
  then show ?thesis using assms(2) by (simp add: write_catalogue_chunk_def R_refl)
next
  case (Inr groups)
  show ?thesis
  proof (cases "sz = 0")
    case True
    then show ?thesis using assms(2) Inr by (simp add: write_catalogue_chunk_def R_refl)
  next
    case False
    have "list_all (list_all ok) (batches sz groups)"
      using assms(1) [OF Inr] concat_batches [of sz groups] False by (metis list_all_concat neq0_conv)
    moreover obtain r1 s1 where "catalogue_batches env ps ev loaded dis_channel HOT fresh 0 (batches sz groups) s = (r1, s1)"
      by fastforce
    moreover from this have "s' = s1" using assms(2) Inr False by (auto simp: write_catalogue_chunk_def split: sum.splits)
    ultimately show ?thesis using catalogue_batches_R by blast
  qed
qed

end

section \<open>Tenant isolation\<close>

lemma event_table_policed [simp]: "policed (event_table m)"
  by (simp add: event_table_def)

lemma complete_path_isolated [isolation]:
  "insert_on_conflict_hot_complete_path env (tenant_scope t) params projected H tabs = Inr (out, tabs') \<Longrightarrow> policed H \<Longrightarrow>
   isolated t tabs tabs'"
  by (erule insert_path_Inr) (auto simp: admit_Inr isolated_def foreign_rows_def dest: sql_update_isolated)

lemma upsert_isolated [isolation]:
  "upsert_hot env ps (tenant_scope t) ev loaded grp dis_channel tax new_id tabs = Inr (out, tabs') \<Longrightarrow> isolated t tabs tabs'"
  by (erule upsert_cases) (auto split: if_splits elim!: update_path_Inr intro: isolation)

lemma isolated_relation: "table_relation (isolated t)"
  by unfold_locales (auto intro: isolated_trans)

lemma isolation_sink: "sink_relation (isolated (ie_tenant_id ev)) env ps ev loaded (\<lambda>_. True)"
  by (intro sink_relation.intro isolated_relation sink_relation_axioms.intro) (auto intro: isolation)

interpretation iso: sink_relation "isolated (ie_tenant_id ev)" env ps ev loaded "\<lambda>_. True" for env ps ev loaded
  by (rule isolation_sink)

interpretation cat_iso: catalogue_relation "isolated (ie_tenant_id ev)" env ps ev loaded "\<lambda>_. True" for env ps ev loaded
  by (intro catalogue_relation.intro isolated_relation catalogue_relation_axioms.intro) (auto intro: isolation)

text \<open>Tenant isolation of both writers: whatever the rows hold, whatever the mapping does and
  whether or not the chunk fails on the way, the rows of every other tenant are the same in
  every table afterwards.\<close>

theorem writers_isolated:
  "isolated (ie_tenant_id ev) (pg_tables s)
     (pg_tables (snd (write_chunk env ps fresh ev loaded rows dis_channel tax batch_size s))) \<and>
   isolated (ie_tenant_id ev) (pg_tables s)
     (pg_tables (snd (write_catalogue_chunk env ps fresh ev loaded result dis_channel batch_size s)))"
proof
  show "isolated (ie_tenant_id ev) (pg_tables s)
     (pg_tables (snd (write_chunk env ps fresh ev loaded rows dis_channel tax batch_size s)))"
    by (rule iso.write_chunk_R [OF _ prod.collapse [symmetric]]) (simp add: list_all_iff)
  show "isolated (ie_tenant_id ev) (pg_tables s)
     (pg_tables (snd (write_catalogue_chunk env ps fresh ev loaded result dis_channel batch_size s)))"
    by (rule cat_iso.write_catalogue_chunk_R [OF _ prod.collapse [symmetric]]) (simp add: list_all_iff)
qed

section \<open>Event time wins\<close>

abbreviation LAST :: string where "LAST \<equiv> ''last_source_event_at''"

definition row_le :: "payload \<Rightarrow> payload \<Rightarrow> bool" where
  "row_le r r' \<longleftrightarrow> r' = r \<or> (pget r' LAST \<noteq> PyNone \<and>
     (pget r LAST = PyNone \<or> instant_of (pget r LAST) \<le> instant_of (pget r' LAST)))"

definition hot_le :: "payload list \<Rightarrow> payload list \<Rightarrow> bool" where
  "hot_le a b \<longleftrightarrow> length a \<le> length b \<and> (\<forall>i < length a. row_le (a ! i) (b ! i))"

lemma row_le_trans: "row_le a b \<Longrightarrow> row_le b c \<Longrightarrow> row_le a c"
  by (auto simp: row_le_def)

lemma hot_le_refl [simp]: "hot_le a a"
  by (simp add: hot_le_def row_le_def)

lemma hot_le_trans: "hot_le a b \<Longrightarrow> hot_le b c \<Longrightarrow> hot_le a c"
  unfolding hot_le_def by (meson le_trans less_le_trans row_le_trans)

lemma pget_bind: "c \<in> set cols \<Longrightarrow> c \<notin> set JSONB_COLUMNS \<Longrightarrow> dget (bind_columns env cols params) c = Some (pget params c)"
  by (induction cols) (auto simp: bind_columns_def dget_Cons)

lemma dkeys_bind [simp]: "map fst (bind_columns env cols params) = cols"
  by (simp add: bind_columns_def comp_def)

lemma last_not_jsonb [simp]: "LAST \<notin> set JSONB_COLUMNS"
  by (simp add: JSONB_COLUMNS_def)

lemma dget_dupdate_Some: "distinct (dkeys e) \<Longrightarrow> dget e k = Some v \<Longrightarrow> dget (dupdate d e) k = Some v"
  using dget_dupdate_in [of e k d] by (auto simp: dict_ok_def dest: dget_in_keys)

lemma pget_dupdate_Some: "distinct (dkeys e) \<Longrightarrow> dget e k = Some v \<Longrightarrow> pget (dupdate d e) k = v"
  by (simp add: pget_def dget_dupdate_Some)

text \<open>An update whose assignments set the event time to the one it was admitted with.\<close>

lemma sql_update_hot_le:
  assumes "sql_update env g H (\<lambda>r. hot_key_match q r \<and> event_time_wins q r) sets tabs = Inr (n, tabs')"
    and "dget sets LAST = Some (pget q LAST)" and "pget q LAST \<noteq> PyNone"
  shows "hot_le (tabs H) (tabs' H)"
proof -
  from assms(1) have d: "distinct (dkeys sets)" by (auto simp: sql_update_def columns_once_def result_simps)
  have "row_le r (dupdate r sets)" if "event_time_wins q r" for r
    using that pget_dupdate_Some [OF d assms(2), of r] assms(3) by (auto simp: row_le_def event_time_wins_def)
  then show ?thesis using sql_update_Inr(1) [OF assms(1)] by (auto simp: hot_le_def row_le_def)
qed

lemma params_last:
  assumes "hot_params ps ev loaded grp dis_channel tax new_id = (params, projected)" and "LAST \<notin> set (dkeys projected)"
  shows "pget params LAST = PyDt (hg_last_source_event_at grp)"
  using assms by (auto simp: hot_params_def Let_def pget_def dget_dupdate_notin dget_Cons split: prod.splits)

lemma upd_cols_distinct:
  assumes "distinct (hot_update_columns projected)"
  shows "LAST \<notin> set (dkeys projected)" and "LAST \<in> set (hot_update_columns projected)"
  using assms by (auto simp: hot_update_columns_def)

lemma ins_cols_distinct:
  assumes "distinct (hot_insert_columns projected)"
  shows "LAST \<notin> set (dkeys projected)" and "LAST \<in> set (hot_insert_columns projected)"
  using assms by (auto simp: hot_insert_columns_def)

lemma update_path_hot_le:
  assumes "hot_params ps ev loaded grp dis_channel tax new_id = (params, projected)"
    and "update_hot_incomplete_path env g params projected H tabs = Inr (out, tabs')"
  shows "hot_le (tabs H) (tabs' H)"
  using assms(2)
proof (rule update_path_Inr)
  fix n
  assume u: "sql_update env g H (\<lambda>r. hot_key_match params r \<and> event_time_wins params r)
      (bind_columns env (hot_update_columns projected) params) tabs = Inr (n, tabs')"
  then have d: "distinct (hot_update_columns projected)" by (auto simp: sql_update_def columns_once_def result_simps)
  show ?thesis
    using u by (rule sql_update_hot_le) (simp_all add: pget_bind [OF upd_cols_distinct(2) [OF d]] params_last [OF assms(1) upd_cols_distinct(1) [OF d]])
qed

lemma excluded_last:
  assumes "hot_params ps ev loaded grp dis_channel tax new_id = (params, projected)"
    and "distinct (hot_insert_columns projected)"
  shows "pget (dupdate (pg_defaults env H) (bind_columns env (hot_insert_columns projected) params)) LAST =
    PyDt (hg_last_source_event_at grp)"
  by (rule pget_dupdate_Some) (simp_all add: assms(2) pget_bind [OF ins_cols_distinct(2) [OF assms(2)]]
      params_last [OF assms(1) ins_cols_distinct(1) [OF assms(2)]])

lemma dget_map_cols: "c \<in> set cols \<Longrightarrow> dget (map (\<lambda>c. (c, f c)) cols) c = Some (f c)"
  by (induction cols) (auto simp: dget_Cons)

lemma insert_path_hot_le:
  assumes "hot_params ps ev loaded grp dis_channel tax new_id = (params, projected)"
    and "insert_on_conflict_hot_complete_path env g params projected H tabs = Inr (out, tabs')"
  shows "hot_le (tabs H) (tabs' H)"
  using assms(2)
proof (cases rule: insert_path_Inr)
  case (inserted ex)
  then show ?thesis by (simp add: hot_le_def row_le_def nth_append)
next
  case (updated ex n)
  have l: "pget ex LAST = PyDt (hg_last_source_event_at grp)"
    unfolding updated(1) using assms(1) updated(5) by (rule excluded_last)
  have "LAST \<in> set (hot_update_columns projected)" by (simp add: hot_update_columns_def)
  then have "dget (map (\<lambda>c. (c, pget ex c)) (hot_update_columns projected)) LAST = Some (pget ex LAST)"
    by (rule dget_map_cols)
  then show ?thesis using l by (intro sql_update_hot_le [OF updated(2)]) simp_all
qed

lemma upsert_hot_le:
  "upsert_hot env ps g ev loaded grp dis_channel tax new_id tabs = Inr (out, tabs') \<Longrightarrow> hot_le (tabs HOT) (tabs' HOT)"
  by (erule upsert_cases) (auto split: if_splits intro: update_path_hot_le insert_path_hot_le)

lemma hot_le_relation: "table_relation (\<lambda>a b. hot_le (a HOT) (b HOT))"
  by unfold_locales (auto intro: hot_le_trans)

interpretation hot: sink_relation "\<lambda>a b. hot_le (a HOT) (b HOT)" env ps ev loaded "\<lambda>_. True" for env ps ev loaded
  by (intro sink_relation.intro hot_le_relation sink_relation_axioms.intro)
    (auto intro: upsert_hot_le dest!: sql_insert_many_Inr)

interpretation cat_hot: catalogue_relation "\<lambda>a b. hot_le (a HOT) (b HOT)" env ps ev loaded "\<lambda>_. True" for env ps ev loaded
  by (intro catalogue_relation.intro hot_le_relation catalogue_relation_axioms.intro) (rule insert_path_hot_le)

text \<open>Event time wins, over a whole chunk and through failures, for both writers: no row of the
  current position is removed, and each is either untouched or carries an event time at
  least as late as before.\<close>

theorem writers_event_time_wins:
  "hot_le (pg_tables s HOT) (pg_tables (snd (write_chunk env ps fresh ev loaded rows dis_channel tax batch_size s)) HOT) \<and>
   hot_le (pg_tables s HOT) (pg_tables (snd (write_catalogue_chunk env ps fresh ev loaded result dis_channel batch_size s)) HOT)"
proof
  show "hot_le (pg_tables s HOT) (pg_tables (snd (write_chunk env ps fresh ev loaded rows dis_channel tax batch_size s)) HOT)"
    by (rule hot.write_chunk_R [OF _ prod.collapse [symmetric]]) (simp add: list_all_iff)
  show "hot_le (pg_tables s HOT)
      (pg_tables (snd (write_catalogue_chunk env ps fresh ev loaded result dis_channel batch_size s)) HOT)"
    by (rule cat_hot.write_catalogue_chunk_R [OF _ prod.collapse [symmetric]]) (simp add: list_all_iff)
qed

section \<open>The incomplete path\<close>

lemma sql_update_length: "sql_update env g H p sets tabs = Inr (n, tabs') \<Longrightarrow> length (tabs' T) = length (tabs T)"
  by (drule sql_update_Inr(1)) simp

lemma upsert_incomplete_length:
  "\<not> lm_hot_complete loaded \<Longrightarrow> upsert_hot env ps g ev loaded grp dis_channel tax new_id tabs = Inr (out, tabs') \<Longrightarrow>
   length (tabs' T) = length (tabs T)"
  by (erule upsert_cases) (auto elim: update_path_Inr dest: sql_update_length)

interpretation no_insert: sink_relation "\<lambda>a b. length (b HOT) = length (a HOT)" env ps ev loaded
    "\<lambda>_. \<not> lm_hot_complete loaded" for env ps ev loaded
  by unfold_locales (auto dest!: sql_insert_many_Inr intro: upsert_incomplete_length)

text \<open>A chunk of an incomplete mapping never creates a row of the current position, on any branch.\<close>

theorem incomplete_never_inserts:
  "\<not> lm_hot_complete loaded \<Longrightarrow>
   length (pg_tables (snd (write_chunk env ps fresh ev loaded rows dis_channel tax batch_size s)) HOT) = length (pg_tables s HOT)"
  by (rule no_insert.write_chunk_R [OF _ prod.collapse [symmetric]]) (simp add: list_all_iff)

text \<open>The outcome of an incomplete-path merge is decided by the row of the key: missing exactly
  when the tenant has no such row, an older-event no-op exactly when every such row is
  strictly newer, and only a written outcome changes anything.\<close>

theorem incomplete_merge_outcome:
  assumes "\<not> lm_hot_complete loaded"
    and "upsert_hot env ps (tenant_scope (ie_tenant_id ev)) ev loaded grp dis_channel tax new_id tabs = Inr (out, tabs')"
  shows "\<exists>rows. rows = filter (\<lambda>r. pget r ''tenant_id'' = PyUuid (ie_tenant_id ev) \<and>
           hot_key_match (fst (hot_params ps ev loaded grp dis_channel tax new_id)) r) (tabs HOT) \<and>
    (out = Missing \<longleftrightarrow> rows = []) \<and>
    (out = Noop_older \<longleftrightarrow> rows \<noteq> [] \<and> list_all (\<lambda>r. \<not> event_time_wins (fst (hot_params ps ev loaded grp dis_channel tax new_id)) r) rows) \<and>
    (out \<noteq> Written \<longrightarrow> tabs' = tabs)"
  using assms(2)
proof (rule upsert_cases)
  fix params projected
  assume p: "hot_params ps ev loaded grp dis_channel tax new_id = (params, projected)"
    and "(if lm_hot_complete loaded then insert_on_conflict_hot_complete_path env (tenant_scope (ie_tenant_id ev)) params projected HOT tabs
      else update_hot_incomplete_path env (tenant_scope (ie_tenant_id ev)) params projected HOT tabs) = Inr (out, tabs')"
  then have "update_hot_incomplete_path env (tenant_scope (ie_tenant_id ev)) params projected HOT tabs = Inr (out, tabs')"
    using assms(1) by simp
  then show ?thesis
  proof (rule update_path_Inr)
    fix n
    let ?p = "\<lambda>r. hot_key_match params r \<and> event_time_wins params r"
    let ?mine = "\<lambda>r. pget r ''tenant_id'' = PyUuid (ie_tenant_id ev)"
    assume u: "sql_update env (tenant_scope (ie_tenant_id ev)) HOT ?p (bind_columns env (hot_update_columns projected) params) tabs =
        Inr (n, tabs')"
      and w: "out = Written \<longleftrightarrow> 0 < n"
      and m: "out = Missing \<longleftrightarrow> n = 0 \<and> sql_select (tenant_scope (ie_tenant_id ev)) HOT (hot_key_match params) tabs' = []"
    have n: "n = 0 \<longleftrightarrow> (\<forall>r \<in> set (tabs HOT). \<not> (?mine r \<and> ?p r))"
      using sql_update_Inr(2) [OF u] by (simp add: filter_empty_conv)
    have same: "tabs' = tabs" if "n = 0"
      using sql_update_Inr(1) [OF u] n that by (auto intro!: ext map_idI)
    have miss: "out = Missing \<longleftrightarrow> filter (\<lambda>r. ?mine r \<and> hot_key_match params r) (tabs HOT) = []"
      using m n same by (auto simp: sql_select_def filter_empty_conv)
    have noop: "out = Noop_older \<longleftrightarrow> n = 0 \<and> out \<noteq> Missing" using w by (cases out) auto
    show ?thesis using miss noop n same w p by (auto simp: filter_empty_conv list_all_iff)
  qed
qed

end
