(* ===== verification/Sink_History.thy ===== *)
theory Sink_History
  imports Sink_Props
begin

text \<open>
  The order and the grain of what the canonical sink writes: event history by batches, and
  misses raised after the commit.
\<close>

section \<open>Append-only history, batch by batch\<close>

text \<open>The row a batch appends to the event table.\<close>

definition event_candidate :: "pgenv \<Rightarrow> canonical_model \<Rightarrow> event_row \<Rightarrow> payload" where
  "event_candidate env m row =
     dupdate (pg_defaults env (event_table m)) (bind_columns env (event_insert_columns m) (er_params row))"

lemma upsert_other_tables:
  "upsert_hot env ps g ev loaded grp dis_channel tax new_id tabs = Inr (out, tabs') \<Longrightarrow> T \<noteq> HOT \<Longrightarrow> tabs' T = tabs T"
  by (erule upsert_cases) (auto split: if_splits elim!: update_path_Inr insert_path_Inr dest!: sql_update_Inr(1))

lemma merge_groups_other_tables:
  "merge_groups env ps ev loaded dis_channel tax fresh k groups b g tabs = Inr (b', tabs') \<Longrightarrow> T \<noteq> HOT \<Longrightarrow> tabs' T = tabs T"
  by (induction groups arbitrary: k b tabs) (auto simp: result_simps dest!: upsert_other_tables)

lemma write_batch_events:
  assumes "write_batch env ps ev loaded dis_channel tax (event_table (lm_target_model loaded)) ts fresh batch groups g tabs = Inr (b, tabs')"
  shows "tabs' (event_table (lm_target_model loaded)) =
    tabs (event_table (lm_target_model loaded)) @ map (event_candidate env (lm_target_model loaded)) batch"
proof -
  from assms obtain mid b0 where
    "sql_insert_many env g (event_table (lm_target_model loaded))
       (map (\<lambda>row. bind_columns env (event_insert_columns (lm_target_model loaded)) (er_params row)) batch) tabs = Inr mid"
    and "merge_groups env ps ev loaded dis_channel tax fresh 0 groups b0 g mid = Inr (b, tabs')"
    by (auto simp: write_batch_def result_simps)
  then show ?thesis
    by (auto simp: event_candidate_def dest!: sql_insert_many_Inr merge_groups_other_tables [where T = "event_table (lm_target_model loaded)"])
qed

definition batches_kept :: "pgenv \<Rightarrow> canonical_model \<Rightarrow> event_row list list \<Rightarrow> bool \<Rightarrow> tables \<Rightarrow> tables \<Rightarrow> bool" where
  "batches_kept env m bs complete tabs tabs' \<longleftrightarrow> (\<exists>k \<le> length bs.
     tabs' (event_table m) = tabs (event_table m) @ map (event_candidate env m) (concat (take k bs)) \<and>
     (complete \<longrightarrow> k = length bs) \<and> (k = 0 \<longrightarrow> tabs' = tabs))"

lemma batches_kept_Nil: "batches_kept env m bs False tabs tabs"
  unfolding batches_kept_def by (rule exI [of _ 0]) simp

lemma batches_kept_Cons:
  assumes "mid (event_table m) = tabs (event_table m) @ map (event_candidate env m) b"
    and "batches_kept env m bs complete mid tabs'"
  shows "batches_kept env m (b # bs) complete tabs tabs'"
proof -
  from assms(2) obtain k where "k \<le> length bs"
    and "tabs' (event_table m) = mid (event_table m) @ map (event_candidate env m) (concat (take k bs))"
    and "complete \<longrightarrow> k = length bs"
    by (auto simp: batches_kept_def)
  with assms(1) show ?thesis unfolding batches_kept_def by (intro exI [of _ "Suc k"]) simp
qed

lemma write_batches_kept:
  "write_batches env ps ev loaded dis_channel tax (event_table (lm_target_model loaded)) ts fresh i bs s = (r, s') \<Longrightarrow>
   batches_kept env (lm_target_model loaded) bs (is_ok r) (pg_tables s) (pg_tables s')"
proof (induction bs arbitrary: i s r s')
  case Nil
  then show ?case by (auto simp: batches_kept_def)
next
  case (Cons batch bs)
  let ?m = "lm_target_model loaded"
  show ?case
  proof (cases "batch_groups batch")
    case (Inl e)
    then show ?thesis using Cons.prems batches_kept_Nil by auto
  next
    case (Inr groups)
    let ?body = "write_batch env ps ev loaded dis_channel tax (event_table ?m) ts (fresh i) batch groups"
    obtain r1 s1 where run: "rls_session env (ie_tenant_id ev) ?body s = (r1, s1)" by fastforce
    show ?thesis
    proof (cases r1)
      case (Inl e)
      then have "pg_tables s1 = pg_tables s"
        using run by (auto simp: rls_session_def dest: verified_transaction_Inl)
      then show ?thesis using Cons.prems Inr run Inl batches_kept_Nil by auto
    next
      case ok: (Inr b)
      have head: "pg_tables s1 (event_table ?m) = pg_tables s (event_table ?m) @ map (event_candidate env ?m) batch"
        using run ok by (auto simp: rls_session_def dest!: verified_transaction_Inr write_batch_events)
      obtain r2 s2 where tail: "write_batches env ps ev loaded dis_channel tax (event_table ?m) ts fresh (Suc i) bs s1 = (r2, s2)"
        by fastforce
      show ?thesis
      proof (cases "bo_misses b = []")
        case True
        then have "s' = s2" "is_ok r = is_ok r2"
          using Cons.prems Inr run ok tail by (auto split: sum.splits)
        then show ?thesis using batches_kept_Cons [where mid = "pg_tables s1" and tabs = "pg_tables s"] head Cons.IH [OF tail] by simp
      next
        case False
        then have "s' = s1" "\<not> is_ok r" using Cons.prems Inr run ok by auto
        then show ?thesis using batches_kept_Cons [where mid = "pg_tables s1" and tabs = "pg_tables s"] head batches_kept_Nil by simp
      qed
    qed
  qed
qed

interpretation others: sink_relation
    "\<lambda>a b. \<forall>T. T \<noteq> HOT \<longrightarrow> T \<noteq> event_table (lm_target_model loaded) \<longrightarrow> b T = a T" env ps ev loaded "\<lambda>_. True"
  for env ps ev loaded
  by unfold_locales (auto dest!: sql_insert_many_Inr dest: upsert_other_tables)

text \<open>C35: Event history is append-only and either-or-neither at the batch grain: after a chunk, whatever
  happened, its event table is the old table followed by the rows of the first k batches in
  chunk order, with every other table but the hot one untouched; a reported success means all
  the rows, and no batch committed means nothing changed at all.\<close>

theorem write_chunk_history:
  "\<exists>k \<le> length (batches batch_size rows).
     (case write_chunk env ps fresh ev loaded rows dis_channel tax batch_size s of (r, s') \<Rightarrow>
        pg_tables s' (event_table (lm_target_model loaded)) = pg_tables s (event_table (lm_target_model loaded)) @
          map (event_candidate env (lm_target_model loaded)) (concat (take k (batches batch_size rows))) \<and>
        (is_ok r \<longrightarrow> concat (take k (batches batch_size rows)) = rows) \<and>
        (k = 0 \<longrightarrow> pg_tables s' = pg_tables s) \<and>
        (\<forall>T. T \<noteq> HOT \<longrightarrow> T \<noteq> event_table (lm_target_model loaded) \<longrightarrow> pg_tables s' T = pg_tables s T))"
proof (cases "is_ok (route_chunk ev loaded) \<and> batch_size \<noteq> 0")
  case False
  have "\<not> is_ok (fst (write_chunk env ps fresh ev loaded rows dis_channel tax batch_size s))"
    "snd (write_chunk env ps fresh ev loaded rows dis_channel tax batch_size s) = s"
    using False by (auto simp: write_chunk_def is_ok_iff split: sum.splits)
  then show ?thesis by (intro exI [of _ 0]) (auto split: prod.splits)
next
  case True
  then obtain table ts where route: "route_chunk ev loaded = Inr (table, ts)"
    by (metis is_ok.simps(1) old.sum.exhaust surj_pair)
  have t: "table = event_table (lm_target_model loaded)" using route by (rule route_chunk_Inr)
  obtain r1 s1 where run: "write_batches env ps ev loaded dis_channel tax table ts fresh 0 (batches batch_size rows) s = (r1, s1)"
    by fastforce
  obtain r s' where w: "write_chunk env ps fresh ev loaded rows dis_channel tax batch_size s = (r, s')" by fastforce
  have same: "s' = s1" "is_ok r = is_ok r1"
    using w run route True by (auto simp: write_chunk_def split: sum.splits)
  obtain k where k: "k \<le> length (batches batch_size rows)"
    "pg_tables s' (event_table (lm_target_model loaded)) = pg_tables s (event_table (lm_target_model loaded)) @
       map (event_candidate env (lm_target_model loaded)) (concat (take k (batches batch_size rows)))"
    "is_ok r \<longrightarrow> k = length (batches batch_size rows)" "k = 0 \<longrightarrow> pg_tables s' = pg_tables s"
    using write_batches_kept [OF run [unfolded t]] same by (auto simp: batches_kept_def)
  moreover have "\<forall>T. T \<noteq> HOT \<longrightarrow> T \<noteq> event_table (lm_target_model loaded) \<longrightarrow> pg_tables s' T = pg_tables s T"
    by (rule others.write_chunk_R [OF _ w]) (simp add: list_all_iff)
  ultimately show ?thesis using True concat_batches [of batch_size rows] by (intro exI [of _ k]) (simp add: w)
qed

section \<open>Misses\<close>

definition event_ts_column :: "canonical_model \<Rightarrow> string" where
  "event_ts_column m = (if m = StoreSkuSaleEvent then ''source_sale_timestamp'' else ''source_event_timestamp'')"

lemma route_chunk_event:
  assumes "lm_target_model loaded \<in> {StoreSkuSaleEvent, StoreSkuChangeEvent}"
  shows "route_chunk ev loaded = Inr (event_table (lm_target_model loaded), event_ts_column (lm_target_model loaded))"
proof -
  have "resolve_sink ''retail'' SALES NAMESPACE_BY_VERTICAL = Inr ''canonical.store_sku_sale_events''"
    "resolve_sink ''retail'' INVENTORY_CHANGE NAMESPACE_BY_VERTICAL = Inr ''canonical.store_sku_change_events''"
    by code_simp+
  then show ?thesis using assms
    by (auto simp: route_chunk_def template_type_by_model dget_def EVENT_TS_COLUMN_def event_table_def event_ts_column_def
        vertical_for_tenant_def)
qed

lemma one_batch: "rows \<noteq> [] \<Longrightarrow> length rows \<le> n \<Longrightarrow> batches n rows = [rows]"
  by (cases rows) (simp_all add: batches.simps)

text \<open>A first-seen SKU does not lose history: when the transaction of a chunk's batch ends with
  misses, the writer raises the dedicated error that counts them, and it does so after the
  commit, so the event rows and the merges that succeeded stay.\<close>

theorem miss_raises_after_commit:
  assumes "lm_target_model loaded \<in> {StoreSkuSaleEvent, StoreSkuChangeEvent}"
    and "rows \<noteq> []" "length rows \<le> batch_size"
    and "pg_verified s" "pg_fault env (pg_txn s) = None"
    and "group_hot rows = Inr groups"
    and "write_batch env ps ev loaded dis_channel tax (event_table (lm_target_model loaded))
           (event_ts_column (lm_target_model loaded)) (fresh 0) rows (sort_key hot_sort_key groups)
           (tenant_scope (ie_tenant_id ev)) (pg_tables s) = Inr (b, tabs')"
    and "bo_misses b \<noteq> []"
  shows "\<exists>s'. write_chunk env ps fresh ev loaded rows dis_channel tax batch_size s =
      (Inl (hot_position_missing_error (Some (uuid_str (ie_tenant_id ev))) (Some (uuid_str (ie_trace_id ev)))
         (lm_mapping_version_id loaded) (length (bo_misses b))), s') \<and>
    pg_tables s' = tabs' \<and>
    pg_tables s' (event_table (lm_target_model loaded)) = pg_tables s (event_table (lm_target_model loaded)) @
      map (event_candidate env (lm_target_model loaded)) rows"
proof -
  have "batch_size \<noteq> 0" using assms(2,3) by (cases rows) auto
  then show ?thesis using assms write_batch_events [OF assms(7)]
    by (simp add: write_chunk_def batch_groups_def route_chunk_event one_batch rls_session_def verified_transaction_def Let_def)
qed

end
