(* ===== verification/Sink_Merge.thy ===== *)
theory Sink_Merge
  imports Sink_History
begin

text \<open>
  The hot merge in detail: grouping within a batch, key uniqueness of the current position,
  redelivery and the order of two writers, and what the duplicate report says.
\<close>

section \<open>Grouping within a batch\<close>

abbreviation row_time :: "event_row \<Rightarrow> int" where
  "row_time row \<equiv> instant_of (PyDt (er_event_ts row))"

abbreviation group_time :: "hot_group \<Rightarrow> int" where
  "group_time grp \<equiv> instant_of (PyDt (hg_last_source_event_at grp))"

lemma dt_ge_Inr: "dt_ge a b = Inr newer \<Longrightarrow> newer \<longleftrightarrow> instant_of (PyDt b) \<le> instant_of (PyDt a)"
  by (auto simp: dt_ge_def instant_of_def split: option.splits)

definition group_ok :: "event_row list \<Rightarrow> natural_key \<Rightarrow> hot_group \<Rightarrow> bool" where
  "group_ok seen k grp \<longleftrightarrow> hg_natural_key grp = k \<and>
     (\<exists>row \<in> set seen. er_natural_key row = k \<and> er_event_ts row = hg_last_source_event_at grp \<and>
        er_source_event_id row = hg_source_event_id grp \<and> er_chunk_row_index row = hg_chunk_row_index grp) \<and>
     (\<forall>row \<in> set seen. er_natural_key row = k \<longrightarrow> row_time row \<le> group_time grp)"

definition group_inv :: "event_row list \<Rightarrow> (natural_key, hot_group) pydict \<Rightarrow> bool" where
  "group_inv seen groups \<longleftrightarrow> dict_ok groups \<and> fst ` set groups = er_natural_key ` set seen \<and>
     (\<forall>k grp. dget groups k = Some grp \<longrightarrow> group_ok seen k grp)"

lemma group_invD: "group_inv seen groups \<Longrightarrow> dget groups k = Some grp \<Longrightarrow> group_ok seen k grp"
  unfolding group_inv_def by blast

lemma group_inv_dset:
  assumes "group_inv seen groups" and "group_ok (seen @ [row]) (er_natural_key row) grp"
  shows "group_inv (seen @ [row]) (dset (er_natural_key row) grp groups)"
  unfolding group_inv_def
proof (intro conjI allI impI)
  fix k g
  assume "dget (dset (er_natural_key row) grp groups) k = Some g"
  then show "group_ok (seen @ [row]) k g"
    using assms(2) group_invD [OF assms(1), of k g]
    by (cases "k = er_natural_key row") (auto simp: group_ok_def)
qed (use assms(1) in \<open>auto simp: group_inv_def\<close>)

lemma group_inv_new:
  assumes "group_inv seen groups" and "dget groups (er_natural_key row) = None"
    and "group_row row groups = Inr groups'"
  shows "group_inv (seen @ [row]) groups'"
proof -
  have "er_natural_key r \<noteq> er_natural_key row" if "r \<in> set seen" for r
    using assms(1,2) that unfolding group_inv_def dget_None_iff by (metis imageI)
  then show ?thesis using assms
    by (auto simp: group_row_def group_ok_def intro!: group_inv_dset)
qed

lemma group_inv_seen:
  assumes "group_inv seen groups" and "dget groups (er_natural_key row) = Some grp"
    and "group_row row groups = Inr groups'"
  shows "group_inv (seen @ [row]) groups'"
proof -
  from assms(2,3) obtain newer grp' where ge: "dt_ge (er_event_ts row) (hg_last_source_event_at grp) = Inr newer"
    and g: "groups' = dset (er_natural_key row) grp' groups" and "hg_natural_key grp' = hg_natural_key grp"
    and new: "newer \<Longrightarrow> hg_last_source_event_at grp' = er_event_ts row \<and> hg_source_event_id grp' = er_source_event_id row \<and>
        hg_chunk_row_index grp' = er_chunk_row_index row"
    and old: "\<not> newer \<Longrightarrow> hg_last_source_event_at grp' = hg_last_source_event_at grp \<and>
        hg_source_event_id grp' = hg_source_event_id grp \<and> hg_chunk_row_index grp' = hg_chunk_row_index grp"
    by (auto simp: group_row_def Let_def result_simps)
  have ok: "group_ok seen (er_natural_key row) grp" using assms(1,2) by (rule group_invD)
  have le: "row_time r \<le> group_time grp'" if "r \<in> set (seen @ [row])" "er_natural_key r = er_natural_key row" for r
    using ok dt_ge_Inr [OF ge] that new old by (cases newer) (auto simp: group_ok_def dest!: bspec [of _ _ r])
  have "group_ok (seen @ [row]) (er_natural_key row) grp'"
    using ok le new old \<open>hg_natural_key grp' = _\<close> by (cases newer) (auto simp: group_ok_def)
  then show ?thesis using assms(1) unfolding g by (intro group_inv_dset)
qed

lemma group_rows_inv:
  "group_inv seen groups \<Longrightarrow> group_rows rows groups = Inr groups' \<Longrightarrow> group_inv (seen @ rows) groups'"
proof (induction rows arbitrary: seen groups)
  case Nil
  then show ?case by simp
next
  case (Cons row rows)
  from Cons.prems(2) obtain mid where "group_row row groups = Inr mid" "group_rows rows mid = Inr groups'"
    by (auto simp: result_simps)
  moreover from this(1) have "group_inv (seen @ [row]) mid"
    using Cons.prems(1) group_inv_new group_inv_seen by (cases "dget groups (er_natural_key row)") auto
  ultimately show ?case using Cons.IH [of "seen @ [row]" mid] by simp
qed

lemma group_inv_start: "group_inv [] []"
  by (simp add: group_inv_def)

text \<open>Grouping covers the batch: one group for each natural key of the batch and no other, dated
  by the latest event of its key and carrying the identity of a row of that date.\<close>

theorem group_hot_covers:
  assumes "group_hot batch = Inr groups"
  shows "distinct (map hg_natural_key groups) \<and> set (map hg_natural_key groups) = set (map er_natural_key batch) \<and>
    list_all (\<lambda>grp.
      list_ex (\<lambda>row. er_natural_key row = hg_natural_key grp \<and> er_event_ts row = hg_last_source_event_at grp \<and>
        er_source_event_id row = hg_source_event_id grp \<and> er_chunk_row_index row = hg_chunk_row_index grp) batch \<and>
      list_all (\<lambda>row. row_time row \<le> group_time grp) (filter (\<lambda>row. er_natural_key row = hg_natural_key grp) batch)) groups"
proof -
  from assms obtain d where "group_rows batch [] = Inr d" and g: "groups = dvals d"
    by (auto simp: group_hot_def result_simps)
  then have I: "group_inv batch d" using group_rows_inv [OF group_inv_start] by fastforce
  have mem: "dget d k = Some grp" if "(k, grp) \<in> set d" for k grp
    using that I by (auto simp: group_inv_def intro: dget_mem)
  have keys: "map hg_natural_key groups = dkeys d"
    using group_invD [OF I] mem by (auto simp: g group_ok_def)
  show ?thesis using I mem unfolding keys
    by (fastforce simp: g group_inv_def group_ok_def dict_ok_def list_all_iff list_ex_iff)
qed

text \<open>The value of a column in the row of a batch that contributes it last for a key.\<close>

definition latest_contribution :: "event_row list \<Rightarrow> natural_key \<Rightarrow> string \<Rightarrow> pyval option" where
  "latest_contribution rows k c = foldl (\<lambda>acc row. if er_natural_key row = k
     then (case dget (er_hot_contributions row) c of None \<Rightarrow> acc | Some v \<Rightarrow> Some v) else acc) None rows"

lemma latest_contribution_snoc:
  "latest_contribution (rows @ [row]) k c = (if er_natural_key row = k
     then (case dget (er_hot_contributions row) c of None \<Rightarrow> latest_contribution rows k c | Some v \<Rightarrow> Some v)
     else latest_contribution rows k c)"
  by (simp add: latest_contribution_def split: option.split)

lemma latest_contribution_none: "k \<notin> er_natural_key ` set rows \<Longrightarrow> latest_contribution rows k c = None"
  by (induction rows rule: rev_induct) (auto simp: latest_contribution_snoc, simp add: latest_contribution_def)

lemma dget_merge_newer:
  "dict_ok e \<Longrightarrow> dget (merge_columns True d e) c = (case dget e c of None \<Rightarrow> dget d c | Some v \<Rightarrow> Some v)"
proof (induction e arbitrary: d)
  case Nil
  then show ?case by (simp add: merge_columns_def)
next
  case (Cons kv e)
  obtain k v where kv: "kv = (k, v)" by (cases kv)
  have "merge_columns True d (kv # e) = merge_columns True (dset k v d) e" by (simp add: merge_columns_def kv)
  moreover have "dget e k = None" using Cons.prems kv by (auto simp: dict_ok_def dget_None_iff)
  ultimately show ?case using Cons kv by (auto simp: dict_ok_def dget_Cons split: option.splits)
qed

definition time_ordered :: "event_row list \<Rightarrow> bool" where
  "time_ordered rows \<longleftrightarrow> sorted_wrt (\<lambda>a b. row_time a \<le> row_time b) rows"

lemma group_row_projected:
  assumes "group_inv seen groups" and "group_row row groups = Inr groups'" and "dict_ok (er_hot_contributions row)"
    and "\<And>r. r \<in> set seen \<Longrightarrow> row_time r \<le> row_time row"
    and "\<And>k grp. dget groups k = Some grp \<Longrightarrow> dget (hg_projected grp) c = latest_contribution seen k c"
    and "dget groups' k = Some grp"
  shows "dget (hg_projected grp) c = latest_contribution (seen @ [row]) k c"
proof (cases "dget groups (er_natural_key row)")
  case None
  then have "latest_contribution seen (er_natural_key row) c = None"
    using assms(1) by (intro latest_contribution_none) (auto simp: group_inv_def dget_None_iff)
  moreover have "groups' = dset (er_natural_key row) \<lparr>hg_natural_key = er_natural_key row,
      hg_projected = er_hot_contributions row, hg_last_source_event_at = er_event_ts row,
      hg_source_event_id = er_source_event_id row, hg_chunk_row_index = er_chunk_row_index row\<rparr> groups"
    using assms(2) None by (simp add: group_row_def)
  ultimately show ?thesis using assms(5,6)
    by (cases "k = er_natural_key row") (auto simp: latest_contribution_snoc split: option.splits)
next
  case (Some g0)
  have "group_time g0 \<le> row_time row"
  proof -
    obtain r where "r \<in> set seen" "er_event_ts r = hg_last_source_event_at g0"
      using group_invD [OF assms(1) Some] by (auto simp: group_ok_def)
    then show ?thesis using assms(4) [of r] by simp
  qed
  then have newer: "dt_ge (er_event_ts row) (hg_last_source_event_at g0) = Inr newer \<Longrightarrow> newer" for newer
    using dt_ge_Inr by blast
  show ?thesis
  proof (cases "k = er_natural_key row")
    case True
    then have "hg_projected grp = merge_columns True (hg_projected g0) (er_hot_contributions row)"
      using assms(2,6) Some newer by (auto simp: group_row_def Let_def result_simps)
    then show ?thesis using assms(3) assms(5) [OF Some] True
      by (simp add: dget_merge_newer latest_contribution_snoc split: option.split)
  next
    case False
    then have "dget groups k = Some grp" using assms(2,6) Some by (auto simp: group_row_def Let_def result_simps)
    then show ?thesis using False assms(5) [of k grp] by (simp add: latest_contribution_snoc)
  qed
qed

lemma group_rows_projected:
  assumes "group_inv seen groups" and "group_rows rows groups = Inr groups'"
    and "list_all (\<lambda>row. dict_ok (er_hot_contributions row)) rows" and "time_ordered (seen @ rows)"
    and "\<And>k grp. dget groups k = Some grp \<Longrightarrow> dget (hg_projected grp) c = latest_contribution seen k c"
    and "dget groups' k = Some grp"
  shows "dget (hg_projected grp) c = latest_contribution (seen @ rows) k c"
  using assms
proof (induction rows arbitrary: seen groups)
  case Nil
  then show ?case by simp
next
  case (Cons row rows)
  from Cons.prems(2) obtain mid where m: "group_row row groups = Inr mid" "group_rows rows mid = Inr groups'"
    by (auto simp: result_simps)
  have inv: "group_inv (seen @ [row]) mid" using group_rows_inv [OF Cons.prems(1), of "[row]" mid] m(1) by simp
  have le: "row_time r \<le> row_time row" if "r \<in> set seen" for r
    using Cons.prems(4) that by (auto simp: time_ordered_def sorted_wrt_append)
  have proj: "dget (hg_projected g) c = latest_contribution (seen @ [row]) k' c" if "dget mid k' = Some g" for k' g
    using Cons.prems(1) m(1) _ le Cons.prems(5) that by (rule group_row_projected) (use Cons.prems(3) in simp)
  show ?case using Cons.IH [OF inv m(2) _ _ proj Cons.prems(6)] Cons.prems(3,4) by simp
qed

text \<open>For a batch in event-time order, each column of a group is the value of the latest row of its
  key that contributes the column.\<close>

theorem group_hot_latest_wins:
  assumes "group_hot batch = Inr groups" and "time_ordered batch"
    and "list_all (\<lambda>row. dict_ok (er_hot_contributions row)) batch"
  shows "list_all (\<lambda>grp. dget (hg_projected grp) c = latest_contribution batch (hg_natural_key grp) c) groups"
proof -
  from assms(1) obtain d where d: "group_rows batch [] = Inr d" and g: "groups = dvals d"
    by (auto simp: group_hot_def result_simps)
  then have I: "group_inv batch d" using group_rows_inv [OF group_inv_start] by fastforce
  have "dget (hg_projected grp) c = latest_contribution batch k c" if "dget d k = Some grp" for k grp
    using group_rows_projected [OF group_inv_start d assms(3) _ _ that, of c] assms(2) by simp
  moreover have "dget d k = Some grp \<and> hg_natural_key grp = k" if "(k, grp) \<in> set d" for k grp
    using that I group_invD [OF I, of k grp] by (auto simp: group_inv_def group_ok_def intro: dget_mem)
  ultimately show ?thesis by (auto simp: g list_all_iff)
qed

section \<open>One row per natural key\<close>

definition KEY_COLUMNS :: "string list" where
  "KEY_COLUMNS = [''tenant_id'', ''store_id'', ''sku_id'', ''sku_variant'', ''sku_lot_batch'']"

definition key_free :: "payload \<Rightarrow> bool" where
  "key_free p \<longleftrightarrow> list_all (\<lambda>c. c \<notin> set KEY_COLUMNS) (dkeys p)"

lemma key_free_Nil [simp]: "key_free []"
  by (simp add: key_free_def)

lemma key_free_dset: "key_free d \<Longrightarrow> c \<notin> set KEY_COLUMNS \<Longrightarrow> key_free (dset c v d)"
  by (auto simp: key_free_def list_all_iff)

lemma key_free_merge: "key_free d \<Longrightarrow> key_free e \<Longrightarrow> key_free (merge_columns newer d e)"
proof (induction e arbitrary: d)
  case Nil
  then show ?case by (simp add: merge_columns_def)
next
  case (Cons kv e)
  then have "key_free e" "fst kv \<notin> set KEY_COLUMNS" by (simp_all add: key_free_def)
  then show ?case using Cons.IH Cons.prems(1) by (cases kv) (auto simp: merge_columns_def key_free_dset)
qed

lemma dget_dupdate_absent: "c \<notin> set (dkeys e) \<Longrightarrow> pget (dupdate d e) c = pget d c"
  by (simp add: pget_def dget_dupdate_notin)

lemma key_kept:
  assumes "list_all (\<lambda>c. c \<notin> set (dkeys sets)) KEY_COLUMNS"
  shows "hot_key (dupdate r sets) = hot_key r"
  using assms by (simp add: hot_key_def KEY_COLUMNS_def dget_dupdate_absent)

lemma update_columns_key_free:
  assumes "key_free projected" and "dkeys sets = hot_update_columns projected"
  shows "list_all (\<lambda>c. c \<notin> set (dkeys sets)) KEY_COLUMNS"
  unfolding assms(2) using assms(1) by (auto simp: hot_update_columns_def key_free_def list_all_iff KEY_COLUMNS_def)

definition unique_hot :: "tables \<Rightarrow> bool" where
  "unique_hot tabs \<longleftrightarrow> distinct (map hot_key (tabs HOT))"

lemma sql_update_unique:
  assumes "sql_update env g HOT p sets tabs = Inr (n, tabs')" and "key_free projected"
    and "dkeys sets = hot_update_columns projected" and "unique_hot tabs"
  shows "unique_hot tabs'"
proof -
  have "map hot_key (tabs' HOT) = map hot_key (tabs HOT)"
    using sql_update_Inr(1) [OF assms(1)] key_kept [OF update_columns_key_free [OF assms(2,3)]] by auto
  then show ?thesis using assms(4) by (simp add: unique_hot_def)
qed

lemma complete_path_unique:
  assumes "insert_on_conflict_hot_complete_path env g params projected HOT tabs = Inr (out, tabs')"
    and "key_free projected" and "unique_hot tabs"
  shows "unique_hot tabs'"
  using assms(1)
proof (cases rule: insert_path_Inr)
  case (inserted ex)
  then show ?thesis using assms(3) by (auto simp: unique_hot_def hot_key_match_def filter_empty_conv)
next
  case (updated ex n)
  show ?thesis using updated(2) assms(2) _ assms(3) by (rule sql_update_unique) (simp add: comp_def)
qed

lemma upsert_unique:
  assumes "upsert_hot env ps g ev loaded grp dis_channel tax new_id tabs = Inr (out, tabs')"
    and "key_free (hg_projected grp)" and "unique_hot tabs"
  shows "unique_hot tabs'"
  using assms(1)
proof (rule upsert_cases)
  fix params projected
  assume p: "hot_params ps ev loaded grp dis_channel tax new_id = (params, projected)"
    and run: "(if lm_hot_complete loaded then insert_on_conflict_hot_complete_path env g params projected HOT tabs
      else update_hot_incomplete_path env g params projected HOT tabs) = Inr (out, tabs')"
  have k: "key_free projected" using p assms(2) by (auto simp: hot_params_def Let_def split: prod.splits)
  show ?thesis
    using run k assms(3) by (auto split: if_splits intro: complete_path_unique elim!: update_path_Inr dest!: sql_update_unique)
qed

lemma unique_relation: "table_relation (\<lambda>a b. unique_hot a \<longrightarrow> unique_hot b)"
  by unfold_locales auto

interpretation uniq: sink_relation "\<lambda>a b. unique_hot a \<longrightarrow> unique_hot b" env ps ev loaded "\<lambda>grp. key_free (hg_projected grp)"
  for env ps ev loaded
  by (intro sink_relation.intro unique_relation sink_relation_axioms.intro)
    (auto simp: unique_hot_def [of "_(_ := _)"] dest!: sql_insert_many_Inr intro: upsert_unique, simp add: unique_hot_def)

interpretation cat_uniq: catalogue_relation "\<lambda>a b. unique_hot a \<longrightarrow> unique_hot b" env ps ev loaded
    "\<lambda>grp. key_free (hg_projected grp)" for env ps ev loaded
  by (intro catalogue_relation.intro unique_relation catalogue_relation_axioms.intro)
    (auto simp: hot_params_def Let_def split: prod.splits intro: complete_path_unique)

lemma dvals_dset: "snd ` set (dset k v d) \<subseteq> insert v (snd ` set d)"
  by (induction k v d rule: dset.induct) auto

lemma group_row_key_free:
  assumes "group_row row groups = Inr groups'" and "key_free (er_hot_contributions row)"
    and "list_all (\<lambda>grp. key_free (hg_projected grp)) (dvals groups)"
  shows "list_all (\<lambda>grp. key_free (hg_projected grp)) (dvals groups')"
proof -
  have old: "key_free (hg_projected grp)" if "dget groups k = Some grp" for k grp
    using dget_Some_mem [OF that] assms(3) by (auto simp: list_all_iff)
  obtain grp where "groups' = dset (er_natural_key row) grp groups" "key_free (hg_projected grp)"
  proof (cases "dget groups (er_natural_key row)")
    case None
    with assms(1,2) that show ?thesis by (auto simp: group_row_def)
  next
    case (Some g0)
    note new = key_free_merge [OF old [OF Some] assms(2)]
    from assms(1) Some obtain newer where g: "groups' = dset (er_natural_key row)
        (let g1 = g0\<lparr>hg_projected := merge_columns newer (hg_projected g0) (er_hot_contributions row)\<rparr>
         in if newer then g1\<lparr>hg_last_source_event_at := er_event_ts row, hg_source_event_id := er_source_event_id row,
              hg_chunk_row_index := er_chunk_row_index row\<rparr> else g1) groups"
      by (auto simp: group_row_def Let_def result_simps)
    show ?thesis by (rule that [OF g]) (simp add: Let_def new)
  qed
  then show ?thesis
    using assms(3) dvals_dset [of "er_natural_key row" grp groups] unfolding list_all_iff set_map by blast
qed

lemma group_hot_key_free:
  assumes "group_hot batch = Inr groups" and "list_all (\<lambda>row. key_free (er_hot_contributions row)) batch"
  shows "list_all (\<lambda>grp. key_free (hg_projected grp)) groups"
proof -
  have "group_rows rows d = Inr d' \<Longrightarrow> list_all (\<lambda>row. key_free (er_hot_contributions row)) rows \<Longrightarrow>
      list_all (\<lambda>grp. key_free (hg_projected grp)) (dvals d) \<Longrightarrow> list_all (\<lambda>grp. key_free (hg_projected grp)) (dvals d')" for rows d d'
  proof (induction rows arbitrary: d)
    case (Cons row rows)
    then show ?case using group_row_key_free by (fastforce simp: result_simps)
  qed simp
  then show ?thesis using assms by (fastforce simp: group_hot_def result_simps)
qed

lemma catalogue_group_key_free:
  assumes "catalogue_group ps ev (cp_mapping_produced current_position_provenance @ [''currency'', ''tax_treatment''])
      staleness p idx = Inr grp"
  shows "key_free (hg_projected grp)"
proof -
  let ?produced = "cp_mapping_produced current_position_provenance @ [''currency'', ''tax_treatment'']"
  let ?proj = "filter (\<lambda>(name, value). name \<in> set ?produced \<and> name \<notin> set HOT_NATURAL_KEY_COLS) p"
  have "''tenant_id'' \<notin> set ?produced" "''store_id'' \<notin> set ?produced"
    by (simp_all add: current_position_provenance_def)
  then have "key_free ?proj"
    by (auto simp: key_free_def list_all_iff KEY_COLUMNS_def HOT_NATURAL_KEY_COLS_def)
  then show ?thesis
    using assms by (auto simp: catalogue_group_def Let_def result_simps KEY_COLUMNS_def intro!: key_free_dset)
qed

lemma catalogue_groups_key_free:
  assumes "catalogue_groups ps ev r = Inr groups"
  shows "list_all (\<lambda>grp. key_free (hg_projected grp)) groups"
proof -
  from assms obtain staleness where "map_result (\<lambda>(p, idx). catalogue_group ps ev
      (cp_mapping_produced current_position_provenance @ [''currency'', ''tax_treatment'']) staleness p idx)
      (zip (to_dicts (mr_contribution r)) (mr_source_row_indices r)) = Inr groups"
    by (auto simp: catalogue_groups_def mapping_produced_eq fields_current_position Let_def result_simps split: if_splits)
  then show ?thesis by (fastforce simp: list_all_iff dest: map_result_set intro: catalogue_group_key_free)
qed

lemma change_projection_key_free: "dget CHANGE_HOT_PROJECTION ca = Some h \<Longrightarrow> h \<notin> set KEY_COLUMNS"
  by (auto simp: CHANGE_HOT_PROJECTION_def KEY_COLUMNS_def dget_def split: if_splits)

lemma hot_contributions_key_free: "key_free (hot_contributions ps p is_sale)"
proof (cases is_sale)
  case True
  then show ?thesis by (simp add: hot_contributions_def SALE_HOT_PROJECTION_def key_free_def KEY_COLUMNS_def)
next
  case False
  show ?thesis
  proof (cases "\<exists>category attribute. pget p ''event_category'' = PyStr category \<and> pget p ''attribute_name'' = PyStr attribute")
    case True
    then obtain category attribute where "pget p ''event_category'' = PyStr category" "pget p ''attribute_name'' = PyStr attribute"
      by blast
    with False show ?thesis using change_projection_key_free [of "(category, attribute)"]
      by (cases "dget CHANGE_HOT_PROJECTION (category, attribute)") (simp_all add: hot_contributions_def key_free_def Let_def)
  next
    case no: False
    have "hot_contributions ps p is_sale = []"
      using False no by (cases "pget p ''event_category''"; cases "pget p ''attribute_name''") (simp_all add: hot_contributions_def)
    then show ?thesis by simp
  qed
qed

lemma build_rows_key_free:
  assumes "build_event_rows ps ev bronze loaded result tax ids = Inr rows"
  shows "list_all (\<lambda>row. key_free (er_hot_contributions row)) rows"
proof -
  have "er_hot_contributions row = hot_contributions ps (er_payload row) (lm_target_model loaded = StoreSkuSaleEvent)"
    if "build_event_row ps ev bronze loaded tax i p idx = Inr row" for i p idx row
    using that by (auto simp: build_event_row_def Let_def result_simps)
  then show ?thesis
    using assms hot_contributions_key_free
    by (fastforce simp: build_event_rows_def Let_def list_all_iff split: if_splits dest: map_result_set)
qed

lemma write_chunk_unique:
  assumes "build_event_rows ps ev bronze loaded result tax ids = Inr rows"
  shows "unique_hot (pg_tables s) \<longrightarrow>
    unique_hot (pg_tables (snd (write_chunk env ps fresh ev loaded rows dis_channel tax' batch_size s)))"
  by (rule uniq.write_chunk_R [OF _ prod.collapse [symmetric]])
    (erule group_hot_key_free, use build_rows_key_free [OF assms] in \<open>auto simp: list_all_iff\<close>)

lemma write_catalogue_chunk_unique:
  "unique_hot (pg_tables s) \<longrightarrow>
   unique_hot (pg_tables (snd (write_catalogue_chunk env ps fresh ev loaded result dis_channel batch_size s)))"
  by (rule cat_uniq.write_catalogue_chunk_R [OF _ prod.collapse [symmetric]]) (rule catalogue_groups_key_free)

text \<open>C37: The current position keeps one row per natural key: the projections of event rows and of
  catalogue rows never assign a key column, so with the rows the pipeline builds both
  writers preserve uniqueness of the key, on every outcome.\<close>

theorem writers_keep_key_unique:
  assumes "distinct (map hot_key (pg_tables s HOT))"
    and "build_event_rows ps ev bronze loaded result tax ids = Inr rows"
  shows "distinct (map hot_key (pg_tables (snd (write_chunk env ps fresh ev loaded rows dis_channel tax batch_size s)) HOT)) \<and>
    distinct (map hot_key (pg_tables (snd (write_catalogue_chunk env ps fresh ev loaded result dis_channel batch_size s)) HOT))"
  using write_chunk_unique [OF assms(2)] write_catalogue_chunk_unique assms(1) by (simp add: unique_hot_def)

end
