(* ===== verification/Sink_Redelivery.thy ===== *)
theory Sink_Redelivery
  imports Sink_Merge
begin

text \<open>
  Redelivery and arrival order of hot merges, and the duplicate report: the same incomplete-path
  merge twice is the same as once, two merges of different event times commute on the columns
  the later one sets whichever paths they take, and which rows of a batch are reported as
  duplicates of what.
\<close>

section \<open>Assignments twice\<close>

lemma dset_same: "dget d k = Some v \<Longrightarrow> dset k v d = d"
  by (induction d) (auto simp: dget_Cons split: if_splits)

lemma dupdate_same: "(\<And>k v. (k, v) \<in> set e \<Longrightarrow> dget d k = Some v) \<Longrightarrow> dupdate d e = d"
proof (induction e)
  case (Cons kv e)
  then show ?case by (cases kv) (simp add: dset_same)
qed simp

lemma dupdate_idem: "distinct (dkeys e) \<Longrightarrow> dupdate (dupdate d e) e = dupdate d e"
  by (rule dupdate_same, rule dget_dupdate_Some) (simp_all add: dget_mem dict_ok_def)

lemma dget_dupdate_cong:
  "dict_ok e \<Longrightarrow> k \<in> set (dkeys e) \<or> dget d k = dget d' k \<Longrightarrow> dget (dupdate d e) k = dget (dupdate d' e) k"
  using dget_dupdate_in [of e k d] dget_dupdate_in [of e k d'] dget_dupdate_notin [of k e d] dget_dupdate_notin [of k e d']
  by (cases "k \<in> fst ` set e") auto

text \<open>What one merge statement does to one row that is there.\<close>

definition merged_row :: "uuid \<Rightarrow> payload \<Rightarrow> payload \<Rightarrow> payload \<Rightarrow> payload" where
  "merged_row t params sets r =
     (if pget r ''tenant_id'' = PyUuid t \<and> hot_key_match params r \<and> event_time_wins params r then dupdate r sets else r)"

lemma upsert_incomplete_rows:
  assumes "\<not> lm_hot_complete loaded" and "hot_params ps ev loaded grp dis_channel tax new_id = (params, projected)"
    and "upsert_hot env ps (tenant_scope t) ev loaded grp dis_channel tax new_id tabs = Inr (out, tabs')"
  shows "tabs' HOT = map (merged_row t params (bind_columns env (hot_update_columns projected) params)) (tabs HOT)"
    and "distinct (hot_update_columns projected)" and "pget params LAST = PyDt (hg_last_source_event_at grp)"
proof -
  from assms have run: "update_hot_incomplete_path env (tenant_scope t) params projected HOT tabs = Inr (out, tabs')"
    by (auto elim!: upsert_cases)
  then obtain n where u: "sql_update env (tenant_scope t) HOT (\<lambda>r. hot_key_match params r \<and> event_time_wins params r)
      (bind_columns env (hot_update_columns projected) params) tabs = Inr (n, tabs')"
    by (rule update_path_Inr)
  show d: "distinct (hot_update_columns projected)" using u by (auto simp: sql_update_def columns_once_def result_simps)
  show "tabs' HOT = map (merged_row t params (bind_columns env (hot_update_columns projected) params)) (tabs HOT)"
    using sql_update_Inr(1) [OF u] by (simp add: merged_row_def)
  show "pget params LAST = PyDt (hg_last_source_event_at grp)"
    by (rule params_last [OF assms(2) upd_cols_distinct(1) [OF d]])
qed

text \<open>The values a merge compares and assigns, by the path of the mapping.\<close>

definition hot_incoming :: "pgenv \<Rightarrow> loaded_mapping \<Rightarrow> payload \<Rightarrow> payload \<Rightarrow> payload" where
  "hot_incoming env loaded params projected = (if lm_hot_complete loaded
     then dupdate (pg_defaults env HOT) (bind_columns env (hot_insert_columns projected) params) else params)"

definition hot_sets :: "pgenv \<Rightarrow> loaded_mapping \<Rightarrow> payload \<Rightarrow> payload \<Rightarrow> payload" where
  "hot_sets env loaded params projected = (if lm_hot_complete loaded
     then map (\<lambda>c. (c, pget (hot_incoming env loaded params projected) c)) (hot_update_columns projected)
     else bind_columns env (hot_update_columns projected) params)"

lemma dkeys_hot_sets [simp]: "dkeys (hot_sets env loaded params projected) = hot_update_columns projected"
  by (simp add: hot_sets_def comp_def)

lemma insert_cols_update_cols: "distinct (hot_insert_columns projected) \<Longrightarrow> distinct (hot_update_columns projected)"
  by (auto simp: hot_insert_columns_def hot_update_columns_def)

lemma complete_path_rows:
  assumes "insert_on_conflict_hot_complete_path env (tenant_scope t) params projected HOT tabs = Inr (out, tabs')"
    and "lm_hot_complete loaded"
  shows "(\<exists>new. tabs' HOT = map (merged_row t (hot_incoming env loaded params projected) (hot_sets env loaded params projected)) (tabs HOT) @ new)"
    and "distinct (hot_insert_columns projected)"
proof -
  let ?q = "hot_incoming env loaded params projected"
  have "(\<exists>new. tabs' HOT = map (merged_row t ?q (hot_sets env loaded params projected)) (tabs HOT) @ new) \<and>
      distinct (hot_insert_columns projected)"
    using assms(1)
  proof (cases rule: insert_path_Inr)
    case (inserted ex)
    have "ex = ?q" using inserted(1) assms(2) by (simp add: hot_incoming_def)
    then have "map (merged_row t ?q (hot_sets env loaded params projected)) (tabs HOT) = tabs HOT"
      using inserted(3) by (intro map_idI) (auto simp: merged_row_def filter_empty_conv)
    then show ?thesis using inserted(4,6) by simp
  next
    case (updated ex n)
    have "ex = ?q" using updated(1) assms(2) by (simp add: hot_incoming_def)
    then have "tabs' HOT = map (merged_row t ?q (hot_sets env loaded params projected)) (tabs HOT)"
      using sql_update_Inr(1) [OF updated(2)] assms(2) by (simp add: merged_row_def hot_sets_def)
    then show ?thesis using updated(5) by simp
  qed
  then show "\<exists>new. tabs' HOT = map (merged_row t ?q (hot_sets env loaded params projected)) (tabs HOT) @ new"
    and "distinct (hot_insert_columns projected)" by blast+
qed

text \<open>Both paths, on the rows that were there.\<close>

lemma upsert_rows:
  assumes p: "hot_params ps ev loaded grp dis_channel tax new_id = (params, projected)"
    and up: "upsert_hot env ps (tenant_scope t) ev loaded grp dis_channel tax new_id tabs = Inr (out, tabs')"
  shows "i < length (tabs HOT) \<Longrightarrow> i < length (tabs' HOT) \<and>
      tabs' HOT ! i = merged_row t (hot_incoming env loaded params projected) (hot_sets env loaded params projected) (tabs HOT ! i)"
    and "distinct (hot_update_columns projected)"
    and "pget (hot_incoming env loaded params projected) LAST = PyDt (hg_last_source_event_at grp)"
    and "dget (hot_sets env loaded params projected) LAST = Some (PyDt (hg_last_source_event_at grp))"
proof -
  let ?q = "hot_incoming env loaded params projected" and ?s = "hot_sets env loaded params projected"
  have "(\<exists>new. tabs' HOT = map (merged_row t ?q ?s) (tabs HOT) @ new) \<and> distinct (hot_update_columns projected) \<and>
      pget ?q LAST = PyDt (hg_last_source_event_at grp) \<and> dget ?s LAST = Some (PyDt (hg_last_source_event_at grp))"
  proof (cases "lm_hot_complete loaded")
    case True
    have "insert_on_conflict_hot_complete_path env (tenant_scope t) params projected HOT tabs = Inr (out, tabs')"
      using up p True by (auto elim!: upsert_cases)
    note rows = complete_path_rows [OF this True]
    have "pget ?q LAST = PyDt (hg_last_source_event_at grp)"
      using excluded_last [OF p rows(2), of env HOT] True by (simp add: hot_incoming_def)
    then show ?thesis
      using rows insert_cols_update_cols [OF rows(2)] upd_cols_distinct(2) [OF insert_cols_update_cols [OF rows(2)]] True
      by (simp add: hot_sets_def dget_map_cols)
  next
    case False
    note rows = upsert_incomplete_rows [OF False p up]
    show ?thesis using rows False pget_bind [OF upd_cols_distinct(2) [OF rows(2)]] by (simp add: hot_incoming_def hot_sets_def)
  qed
  then show "i < length (tabs HOT) \<Longrightarrow> i < length (tabs' HOT) \<and> tabs' HOT ! i = merged_row t ?q ?s (tabs HOT ! i)"
    and "distinct (hot_update_columns projected)" and "pget ?q LAST = PyDt (hg_last_source_event_at grp)"
    and "dget ?s LAST = Some (PyDt (hg_last_source_event_at grp))"
    by (auto simp: nth_append)
qed

lemma key_free_sets: "key_free projected \<Longrightarrow> list_all (\<lambda>c. c \<notin> set (dkeys (hot_sets env loaded params projected))) KEY_COLUMNS"
  by (rule update_columns_key_free) simp_all

lemma projected_of_params:
  "hot_params ps ev loaded grp dis_channel tax new_id = (params, projected) \<Longrightarrow> projected = hg_projected grp"
  by (auto simp: hot_params_def Let_def split: prod.splits)

section \<open>Two writers\<close>

lemma merged_row_commute:
  assumes kf: "list_all (\<lambda>c. c \<notin> set (dkeys s1)) KEY_COLUMNS" "list_all (\<lambda>c. c \<notin> set (dkeys s2)) KEY_COLUMNS"
    and d: "distinct (dkeys s1)" "distinct (dkeys s2)"
    and last: "dget s1 LAST = Some (pget q1 LAST)" "dget s2 LAST = Some (pget q2 LAST)"
    and older: "instant_of (pget q1 LAST) < instant_of (pget q2 LAST)"
    and nn: "pget q2 LAST \<noteq> PyNone"
    and c: "c \<in> set (dkeys s2) \<or> c \<notin> set (dkeys s1)"
  shows "dget (merged_row t q2 s2 (merged_row t q1 s1 r)) c = dget (merged_row t q1 s1 (merged_row t q2 s2 r)) c"
proof -
  have tenant: "pget (dupdate r s1) ''tenant_id'' = pget r ''tenant_id''" "pget (dupdate r s2) ''tenant_id'' = pget r ''tenant_id''" for r
    using kf by (intro dget_dupdate_absent, simp add: KEY_COLUMNS_def)+
  have match: "hot_key_match q (dupdate r s1) = hot_key_match q r" "hot_key_match q (dupdate r s2) = hot_key_match q r" for q r
    by (simp_all add: hot_key_match_def key_kept [OF kf(1)] key_kept [OF kf(2)])
  have over: "dget (dupdate (dupdate r s1) s2) c = dget (dupdate r s2) c"
    using d(2) c dget_dupdate_notin [of c s1 r] by (intro dget_dupdate_cong) (auto simp: dict_ok_def simp flip: set_map)
  have w2: "event_time_wins q2 (dupdate r s1)" and w1: "\<not> event_time_wins q1 (dupdate r s2)"
    using older nn by (simp_all add: event_time_wins_def pget_dupdate_Some [OF d(1) last(1)] pget_dupdate_Some [OF d(2) last(2)])
  have w12: "event_time_wins q2 r" if "event_time_wins q1 r" using that older by (auto simp: event_time_wins_def)
  show ?thesis using w1 w2 w12 over by (auto simp: merged_row_def tenant match)
qed

text \<open>C38: Arrival order does not decide, whichever of the two paths each writer takes: when two writers of
  one tenant merge events of different times into a position that exists, and the merges
  succeed in either order, every column the later event sets, and every column the earlier one
  does not, ends the same whichever of them comes first. The projections name no column of the
  key, as those the pipeline builds.\<close>

theorem arrival_order_irrelevant:
  assumes "key_free (hg_projected g1)" "key_free (hg_projected g2)"
    and "group_time g1 < group_time g2"
    and "upsert_hot env ps (tenant_scope t) ev1 loaded1 g1 ch1 tax1 id1 tabs = Inr (o1, a)"
    and "upsert_hot env ps (tenant_scope t) ev2 loaded2 g2 ch2 tax2 id2 a = Inr (o2, ab)"
    and "upsert_hot env ps (tenant_scope t) ev2 loaded2 g2 ch2 tax2 id2 tabs = Inr (o3, b)"
    and "upsert_hot env ps (tenant_scope t) ev1 loaded1 g1 ch1 tax1 id1 b = Inr (o4, ba)"
    and "i < length (tabs HOT)"
    and "c \<in> set (hot_update_columns (hg_projected g2)) \<or> c \<notin> set (hot_update_columns (hg_projected g1))"
  shows "dget (ab HOT ! i) c = dget (ba HOT ! i) c"
proof -
  obtain q1 j1 where p1: "hot_params ps ev1 loaded1 g1 ch1 tax1 id1 = (q1, j1)" by fastforce
  obtain q2 j2 where p2: "hot_params ps ev2 loaded2 g2 ch2 tax2 id2 = (q2, j2)" by fastforce
  note j = projected_of_params [OF p1] projected_of_params [OF p2]
  note r1 = upsert_rows [OF p1 assms(4)] and r2 = upsert_rows [OF p2 assms(5)]
    and r3 = upsert_rows [OF p2 assms(6)] and r4 = upsert_rows [OF p1 assms(7)]
  let ?q1 = "hot_incoming env loaded1 q1 j1" and ?s1 = "hot_sets env loaded1 q1 j1"
  let ?q2 = "hot_incoming env loaded2 q2 j2" and ?s2 = "hot_sets env loaded2 q2 j2"
  have "dget (merged_row t ?q2 ?s2 (merged_row t ?q1 ?s1 (tabs HOT ! i))) c =
      dget (merged_row t ?q1 ?s1 (merged_row t ?q2 ?s2 (tabs HOT ! i))) c"
    using assms(3,9) r1(2-4) r2(2-4) key_free_sets [of j1 env loaded1 q1] key_free_sets [of j2 env loaded2 q2] assms(1,2)
    by (intro merged_row_commute) (simp_all add: j)
  then show ?thesis using r1(1) [OF assms(8)] r2(1) [of i] r3(1) [OF assms(8)] r4(1) [of i] by simp
qed

section \<open>Redelivery\<close>

lemma hot_params_ids:
  assumes "hot_params ps ev loaded grp dis_channel tax id1 = (p1, j)" and "hot_params ps ev loaded grp dis_channel tax id2 = (p2, j2)"
    and "dict_ok j" and "c \<noteq> ''id''"
  shows "pget p2 c = pget p1 c"
proof -
  from assms(1,2) have "j2 = j" using projected_of_params by blast
  with assms show ?thesis unfolding pget_def
    by (intro arg_cong [where f = "case_option PyNone (\<lambda>v. v)"])
      (auto simp: hot_params_def Let_def dget_Cons split: prod.splits intro!: dget_dupdate_cong)
qed

text \<open>Redelivery is idempotent on the current position: merging the same group again, with a newly
  minted row id, changes no row, because an event of the same time rewrites the same values.\<close>

theorem redelivered_merge_idempotent:
  assumes "\<not> lm_hot_complete loaded" and "key_free (hg_projected grp)" and "''id'' \<notin> set (dkeys (hg_projected grp))"
    and "upsert_hot env ps (tenant_scope t) ev loaded grp dis_channel tax id1 tabs = Inr (out, tabs')"
    and "upsert_hot env ps (tenant_scope t) ev loaded grp dis_channel tax id2 tabs' = Inr (out', tabs'')"
  shows "tabs'' HOT = tabs' HOT"
proof -
  obtain q1 j1 where p1: "hot_params ps ev loaded grp dis_channel tax id1 = (q1, j1)" by fastforce
  obtain q2 j2 where p2: "hot_params ps ev loaded grp dis_channel tax id2 = (q2, j2)" by fastforce
  have j: "j1 = hg_projected grp" "j2 = hg_projected grp" using p1 p2 projected_of_params by blast+
  note r1 = upsert_incomplete_rows [OF assms(1) p1 assms(4)] and r2 = upsert_incomplete_rows [OF assms(1) p2 assms(5)]
  have dj: "dict_ok j1" using r1(2) by (simp add: hot_update_columns_def dict_ok_def)
  have same: "pget q2 c = pget q1 c" if "c \<noteq> ''id''" for c using hot_params_ids [OF p1 p2 dj that] .
  let ?s1 = "bind_columns env (hot_update_columns j1) q1"
  have "''id'' \<notin> set (hot_update_columns j1)" using assms(3) j by (simp add: hot_update_columns_def)
  then have s: "bind_columns env (hot_update_columns j2) q2 = ?s1" using same j by (auto simp: bind_columns_def) (metis same)+
  have q: "hot_key_match q2 = hot_key_match q1" "event_time_wins q2 = event_time_wins q1"
    using same by (auto simp: fun_eq_iff hot_key_match_def hot_key_def event_time_wins_def)
  have "merged_row t q2 ?s1 (merged_row t q1 ?s1 r) = merged_row t q1 ?s1 r" for r
    using r1(2) by (auto simp: merged_row_def q dupdate_idem)
  then show ?thesis by (simp add: r1(1) r2(1) s)
qed

section \<open>The duplicate report\<close>

lemma duplicate_hits_Inr:
  assumes "duplicate_hits ps cols returned batch = Inr hits"
  shows "list_all (\<lambda>h. uuid_of_pyval (pget (last returned) ''trace_id'') = Inr (dh_prior_trace_id h)) hits"
    and "map dh_source_event_id hits = filter (\<lambda>k. dget (foldl (\<lambda>d r. dset (py_str (pget r ''source_event_id'')) r d) [] returned) k \<noteq> None)
      (map er_source_event_id batch)"
proof -
  let ?d = "foldl (\<lambda>d r. dset (py_str (pget r ''source_event_id'')) r d) [] returned"
  have hits: "map_result f rows = Inr hits \<Longrightarrow> (\<And>row h. row \<in> set rows \<Longrightarrow> f row = Inr h \<Longrightarrow>
      uuid_of_pyval (pget (last returned) ''trace_id'') = Inr (dh_prior_trace_id h) \<and> dh_source_event_id h = er_source_event_id row) \<Longrightarrow>
      list_all (\<lambda>h. uuid_of_pyval (pget (last returned) ''trace_id'') = Inr (dh_prior_trace_id h)) hits \<and>
      map dh_source_event_id hits = map er_source_event_id rows" for f rows hits
  proof (induction rows arbitrary: hits)
    case (Cons row rows)
    then show ?case by (fastforce simp: result_simps)
  qed simp
  have "list_all (\<lambda>h. uuid_of_pyval (pget (last returned) ''trace_id'') = Inr (dh_prior_trace_id h)) hits \<and>
      map dh_source_event_id hits = map er_source_event_id (filter (\<lambda>row. dget ?d (er_source_event_id row) \<noteq> None) batch)"
    using assms unfolding duplicate_hits_def Let_def by (rule hits) (auto simp: result_simps)
  then show "list_all (\<lambda>h. uuid_of_pyval (pget (last returned) ''trace_id'') = Inr (dh_prior_trace_id h)) hits"
    and "map dh_source_event_id hits = filter (\<lambda>k. dget ?d k \<noteq> None) (map er_source_event_id batch)"
    by (simp_all add: filter_map comp_def)
qed

text \<open>Every hit of a batch reports one and the same prior trace, the one of the last row the
  statement returned, whatever row it is a duplicate of.\<close>

theorem duplicate_hits_share_trace:
  assumes "detect_duplicates env ps g ev loaded batch table ts tabs = Inr hits"
  shows "\<exists>t. list_all (\<lambda>h. dh_prior_trace_id h = t) hits"
proof (cases hits)
  case (Cons h hs)
  then show ?thesis
    using duplicate_hits_Inr(1) [OF assms [unfolded detect_duplicates_def]]
    by (intro exI [of _ "dh_prior_trace_id h"]) (auto simp: list_all_iff)
qed simp

lemma dget_fold_keys:
  "dget (foldl (\<lambda>d r. dset (f r) r d) d0 rs) k \<noteq> None \<longleftrightarrow> k \<in> f ` set rs \<or> dget d0 k \<noteq> None"
  by (induction rs arbitrary: d0) auto

lemma latest_prior_mem: "latest_prior ts r rs \<in> set (r # rs)"
proof -
  have "foldl (\<lambda>best x. if prior_rank ts best < prior_rank ts x then x else best) r rs \<in> set (r # rs)"
    by (induction rs arbitrary: r) (auto split: if_splits)
  then show ?thesis by (simp add: latest_prior_def)
qed

text \<open>The duplicate report flags exactly the rows of the batch whose dedup key the tenant's store and
  source already have, once per row and in batch order.\<close>

theorem duplicates_flagged:
  assumes "detect_duplicates env ps g ev loaded batch table ts tabs = Inr hits"
    and "\<And>ks. set (pg_collate env ks) = set ks"
  shows "map dh_source_event_id hits =
    filter (\<lambda>k. PyStr k \<in> set (map (\<lambda>r. pget r ''source_event_id'') (sql_select g table (dedup_match ev batch) tabs)))
      (map er_source_event_id batch)"
proof -
  let ?rows = "sql_select g table (dedup_match ev batch) tabs"
  let ?key = "\<lambda>r. pget r ''source_event_id''"
  have str: "\<exists>k. ?key r = PyStr k" if "r \<in> set ?rows" for r
    using that by (auto simp: sql_select_def dedup_match_def)
  let ?keys = "pg_collate env (first_occurrences (map (\<lambda>r. py_str (?key r)) ?rows))"
  have keys: "set ?keys = (\<lambda>r. py_str (?key r)) ` set ?rows" by (simp add: assms(2))
  have "(\<lambda>r. py_str (?key r)) ` set (distinct_on_latest env ts ?rows) = set ?keys"
  proof
    show "set ?keys \<subseteq> (\<lambda>r. py_str (?key r)) ` set (distinct_on_latest env ts ?rows)"
    proof
      fix k assume k: "k \<in> set ?keys"
      then obtain r where "r \<in> set ?rows" "k = py_str (?key r)" unfolding keys by (rule imageE)
      moreover from str [OF this(1)] obtain k0 where "?key r = PyStr k0" by (rule exE)
      ultimately have "r \<in> set ?rows" "?key r = PyStr k" by simp_all
      then have "r \<in> set (filter (\<lambda>r. ?key r = PyStr k) ?rows)" by simp
      then obtain x xs where f: "filter (\<lambda>r. ?key r = PyStr k) ?rows = x # xs"
        by (cases "filter (\<lambda>r. ?key r = PyStr k) ?rows") (simp_all only: list.set empty_iff)
      have "latest_prior ts x xs \<in> set (filter (\<lambda>r. ?key r = PyStr k) ?rows)"
        unfolding f by (rule latest_prior_mem)
      then have "?key (latest_prior ts x xs) = PyStr k" by simp
      moreover have "latest_prior ts x xs \<in> set (distinct_on_latest env ts ?rows)"
        using k f unfolding distinct_on_latest_def by (auto intro!: bexI [of _ k])
      ultimately show "k \<in> (\<lambda>r. py_str (?key r)) ` set (distinct_on_latest env ts ?rows)" by force
    qed
    show "(\<lambda>r. py_str (?key r)) ` set (distinct_on_latest env ts ?rows) \<subseteq> set ?keys"
    proof
      fix k assume "k \<in> (\<lambda>r. py_str (?key r)) ` set (distinct_on_latest env ts ?rows)"
      then obtain k' x xs where "filter (\<lambda>r. ?key r = PyStr k') ?rows = x # xs" and k: "k = py_str (?key (latest_prior ts x xs))"
        by (auto simp: distinct_on_latest_def split: list.splits) (drule sym, blast)
      then have "latest_prior ts x xs \<in> set (filter (\<lambda>r. ?key r = PyStr k') ?rows)" by (simp only: latest_prior_mem)
      then have "latest_prior ts x xs \<in> set ?rows" by simp
      then show "k \<in> set ?keys" using keys k by auto
    qed
  qed
  then have all: "(\<lambda>r. py_str (?key r)) ` set (distinct_on_latest env ts ?rows) = (\<lambda>r. py_str (?key r)) ` set ?rows"
    unfolding keys .
  have mem: "k \<in> (\<lambda>r. py_str (?key r)) ` set ?rows \<longleftrightarrow> PyStr k \<in> set (map ?key ?rows)" for k
  proof
    assume "k \<in> (\<lambda>r. py_str (?key r)) ` set ?rows"
    then obtain r where r: "k = py_str (?key r)" "r \<in> set ?rows" by (rule imageE)
    from str [OF r(2)] obtain k0 where "?key r = PyStr k0" by (rule exE)
    then have "PyStr k = ?key r" using r(1) by simp
    then show "PyStr k \<in> set (map ?key ?rows)" using r(2) unfolding set_map by (rule image_eqI)
  next
    assume "PyStr k \<in> set (map ?key ?rows)"
    then obtain r where "PyStr k = ?key r" "r \<in> set ?rows" unfolding set_map by (rule imageE)
    then show "k \<in> (\<lambda>r. py_str (?key r)) ` set ?rows" by (intro image_eqI [of _ _ r]) (simp_all flip: \<open>PyStr k = ?key r\<close>)
  qed
  have "dget (foldl (\<lambda>d r. dset (py_str (?key r)) r d) [] (distinct_on_latest env ts ?rows)) k \<noteq> None \<longleftrightarrow>
      PyStr k \<in> set (map ?key ?rows)" for k
    unfolding dget_fold_keys all mem by simp
  then show ?thesis using duplicate_hits_Inr(2) [OF assms(1) [unfolded detect_duplicates_def]] by simp
qed

end
