(* ===== verification/Sink_Locks.thy ===== *)
theory Sink_Locks
  imports Sink_Merge
begin

text \<open>
  Concurrent writers of the current position and their row locks. A merge statement touches, and
  so locks, the rows of one COALESCEd natural key of one store (\<open>upsert_touches_lock\<close>); a batch is
  one transaction, which keeps its locks to the end and takes them in the order in which
  \<open>write_chunk\<close> and \<open>write_catalogue_chunk\<close> sort its groups. The writers here are chunks of any
  number of instances, tenants and stores, and their steps interleave freely: opening the next
  batch, merging its next group when no other writer holds the key, committing. A writer may
  also stop at any point (an error, a lost connection, the misses of a batch), which releases
  its locks. The locks of the event inserts and of other tables are left out: those rows are new.
\<close>

section \<open>Locks\<close>

type_synonym hot_lock = "(uuid \<times> uuid) \<times> string \<times> string \<times> string"

definition group_lock :: "ingress_event \<Rightarrow> hot_group \<Rightarrow> hot_lock" where
  "group_lock ev grp = ((ie_tenant_id ev, ie_store_id ev), hot_sort_key grp)"

text \<open>The rows a lock stands for: those whose key is this.\<close>

fun lock_key :: "hot_lock \<Rightarrow> pyval list" where
  "lock_key ((tenant, store), sku_id, variant, lot) = [PyUuid tenant, PyUuid store, PyStr sku_id, PyStr variant, PyStr lot]"

lemma coalesced_part: "v = PyNone \<or> is_str v \<Longrightarrow> coalesce_empty v = PyStr (key_part v)"
  by (cases v) (simp_all add: coalesce_empty_def key_part_def)

lemma params_lock_key:
  assumes "hot_params ps ev loaded grp dis_channel tax new_id = (params, projected)" and "key_free projected"
    and "bind_hot params = Inr ()"
  shows "hot_key params = lock_key (group_lock ev grp)"
proof -
  obtain sku variant lot where k: "hg_natural_key grp = (sku, variant, lot)" by (cases "hg_natural_key grp")
  have "''tenant_id'' \<notin> set (dkeys projected)" "''store_id'' \<notin> set (dkeys projected)" "''sku_id'' \<notin> set (dkeys projected)"
    "''sku_variant'' \<notin> set (dkeys projected)" "''sku_lot_batch'' \<notin> set (dkeys projected)"
    using assms(2) by (auto simp: key_free_def list_all_iff KEY_COLUMNS_def)
  moreover obtain base where "params = dupdate base projected" "pget base ''tenant_id'' = PyUuid (ie_tenant_id ev)"
    "pget base ''store_id'' = PyUuid (ie_store_id ev)" "pget base ''sku_id'' = PyStr sku" "pget base ''sku_variant'' = variant"
    "pget base ''sku_lot_batch'' = lot"
    by (rule that [OF sym]) (use assms(1) k in \<open>auto simp: hot_params_def Let_def pget_def dget_Cons\<close>)
  ultimately have cols: "pget params ''tenant_id'' = PyUuid (ie_tenant_id ev)" "pget params ''store_id'' = PyUuid (ie_store_id ev)"
    "pget params ''sku_id'' = PyStr sku" "pget params ''sku_variant'' = variant" "pget params ''sku_lot_batch'' = lot"
    by (simp_all add: dget_dupdate_absent)
  then have "variant = PyNone \<or> is_str variant" "lot = PyNone \<or> is_str lot"
    using assms(3) by (auto simp: bind_hot_def require_def split: if_splits)
  then show ?thesis by (simp add: hot_key_def cols group_lock_def hot_sort_key_def k coalesced_part)
qed

lemma excluded_lock_key:
  assumes "distinct (hot_insert_columns projected)"
  shows "hot_key (dupdate (pg_defaults env H) (bind_columns env (hot_insert_columns projected) params)) = hot_key params"
proof -
  have "pget (dupdate (pg_defaults env H) (bind_columns env (hot_insert_columns projected) params)) c = pget params c"
    if "c \<in> set KEY_COLUMNS" for c
    using that assms by (intro pget_dupdate_Some pget_bind) (auto simp: KEY_COLUMNS_def hot_insert_columns_def JSONB_COLUMNS_def)
  then show ?thesis by (simp add: hot_key_def KEY_COLUMNS_def)
qed

lemma filter_map_outside: "(\<And>x. P x \<Longrightarrow> f x = x) \<Longrightarrow> (\<And>x. \<not> P x \<Longrightarrow> \<not> P (f x)) \<Longrightarrow> filter P (map f xs) = filter P xs"
  by (induction xs) auto

lemma update_outside_key:
  assumes "sql_update env g HOT (\<lambda>r. hot_key_match q r \<and> event_time_wins q r) sets tabs = Inr (n, tabs')"
    and "list_all (\<lambda>c. c \<notin> set (dkeys sets)) KEY_COLUMNS"
  shows "filter (\<lambda>r. hot_key r \<noteq> hot_key q) (tabs' HOT) = filter (\<lambda>r. hot_key r \<noteq> hot_key q) (tabs HOT)"
  using sql_update_Inr(1) [OF assms(1)] by (simp, intro filter_map_outside) (auto simp: hot_key_match_def key_kept [OF assms(2)])

text \<open>A merge leaves every row of another key as it was; a row it appends has
  the key of its lock.\<close>

theorem upsert_touches_lock:
  assumes up: "upsert_hot env ps g ev loaded grp dis_channel tax new_id tabs = Inr (out, tabs')" and "key_free (hg_projected grp)"
  shows "filter (\<lambda>r. hot_key r \<noteq> lock_key (group_lock ev grp)) (tabs' HOT) =
    filter (\<lambda>r. hot_key r \<noteq> lock_key (group_lock ev grp)) (tabs HOT)"
  using up
proof (rule upsert_cases)
  fix params projected
  assume p: "hot_params ps ev loaded grp dis_channel tax new_id = (params, projected)"
    and run: "(if lm_hot_complete loaded then insert_on_conflict_hot_complete_path env g params projected HOT tabs
      else update_hot_incomplete_path env g params projected HOT tabs) = Inr (out, tabs')"
  have free: "key_free projected" using p assms(2) by (auto simp: hot_params_def Let_def split: prod.splits)
  have "bind_hot params = Inr ()" using run
    by (auto simp: insert_on_conflict_hot_complete_path_def update_hot_incomplete_path_def Let_def result_simps split: if_splits)
  note key = params_lock_key [OF p free this]
  show ?thesis
  proof (cases "lm_hot_complete loaded")
    case True
    with run have "insert_on_conflict_hot_complete_path env g params projected HOT tabs = Inr (out, tabs')" by simp
    then show ?thesis
    proof (cases rule: insert_path_Inr)
      case (inserted ex)
      then show ?thesis using excluded_lock_key [OF inserted(6), of env HOT params] by (simp add: key)
    next
      case (updated ex n)
      have "hot_key ex = hot_key params" unfolding updated(1) by (rule excluded_lock_key [OF updated(5)])
      then show ?thesis using update_outside_key [OF updated(2) update_columns_key_free [OF free]] by (simp add: key comp_def)
    qed
  next
    case False
    with run show ?thesis
      by (auto elim!: update_path_Inr dest!: update_outside_key [OF _ update_columns_key_free [OF free]] simp: key)
  qed
qed

section \<open>Writers\<close>











section \<open>Lock order\<close>













section \<open>Progress\<close>











end
