(* ===== verification/Sink_Examples.thy ===== *)
theory Sink_Examples
  imports Sink_Redelivery Sink_Locks
begin

text \<open>
  Concrete chunks on which the statements about the canonical sink are exercised: a store with
  one hot row, groups of different event times, and batches with duplicates and out-of-order
  rows.
\<close>

section \<open>A store with one hot row\<close>

definition demo_hot_row :: payload where
  "demo_hot_row = [(''tenant_id'', PyUuid 5), (''store_id'', PyUuid 5), (''sku_id'', PyStr ''A'')]"

definition demo_tabs :: tables where
  "demo_tabs = (\<lambda>T. if T = HOT then [demo_hot_row] else [])"

definition demo_row_at :: "string \<Rightarrow> int \<Rightarrow> payload \<Rightarrow> event_row" where
  "demo_row_at sku t contributions = \<lparr>er_params = [(''tenant_id'', PyUuid 5)], er_source_event_id = sku,
     er_event_ts = PyDatetime t (Some 0), er_natural_key = (sku, PyNone, PyNone), er_hot_contributions = contributions,
     er_payload = [], er_row_hash = '''', er_chunk_row_index = 0\<rparr>"

definition demo_group :: "string \<Rightarrow> int \<Rightarrow> payload \<Rightarrow> hot_group" where
  "demo_group sku t projected = \<lparr>hg_natural_key = (sku, PyNone, PyNone), hg_projected = projected,
     hg_last_source_event_at = PyDatetime t (Some 0), hg_source_event_id = sku, hg_chunk_row_index = 0\<rparr>"

abbreviation demo_upsert :: "hot_group \<Rightarrow> uuid \<Rightarrow> hot_merge_outcome txn_body" where
  "demo_upsert grp new_id \<equiv> upsert_hot demo_env demo_pystd (tenant_scope 5) demo_event demo_change_loaded grp ''csv'' None new_id"

lemma update_rows_demo:
  "policed T \<Longrightarrow> ''tenant_id'' \<notin> set (dkeys sets) \<Longrightarrow> \<exists>n rs'. update_rows demo_env (tenant_scope t) T p sets rs = Inr (n, rs')"
proof (induction rs)
  case (Cons r rs)
  then obtain n rs' where "update_rows demo_env (tenant_scope t) T p sets rs = Inr (n, rs')" by blast
  moreover have "admit demo_env (tenant_scope t) T (dupdate r sets) = Inr (dupdate r sets)" if "pget r ''tenant_id'' = PyUuid t"
    using that dget_dupdate_absent [OF Cons.prems(2), of r] Cons.prems(1) by (simp add: admit_Inr demo_env_def)
  ultimately show ?case using Cons.prems(1) by auto
qed simp

lemma demo_incomplete [simp]: "\<not> lm_hot_complete demo_change_loaded"
  by (simp add: demo_change_loaded_def)

lemma demo_upsert_ok: "\<exists>out tabs'. demo_upsert (demo_group sku t [(''unit_cost'', PyInt v)]) new_id tabs = Inr (out, tabs')"
proof -
  let ?proj = "[(''unit_cost'', PyInt v)]"
  obtain params where p: "hot_params demo_pystd demo_event demo_change_loaded (demo_group sku t ?proj) ''csv'' None new_id = (params, ?proj)"
    by (simp add: hot_params_def demo_group_def Let_def)
  have "bind_hot params = Inr ()"
    using p by (auto simp: bind_hot_def hot_params_def demo_group_def Let_def pget_def dget_Cons)
  moreover have "distinct (hot_update_columns ?proj)" "''tenant_id'' \<notin> set (hot_update_columns ?proj)"
    by (simp_all add: hot_update_columns_def)
  moreover have "\<exists>n rs'. update_rows demo_env (tenant_scope 5) HOT (\<lambda>r. hot_key_match params r \<and> event_time_wins params r)
      (bind_columns demo_env (hot_update_columns ?proj) params) (tabs HOT) = Inr (n, rs')"
    by (rule update_rows_demo) (simp_all add: hot_update_columns_def)
  ultimately show ?thesis
    by (auto simp: upsert_hot_def p demo_incomplete update_hot_incomplete_path_def sql_update_def columns_once_def)
qed

abbreviation demo_complete_upsert :: "hot_group \<Rightarrow> uuid \<Rightarrow> hot_merge_outcome txn_body" where
  "demo_complete_upsert grp new_id \<equiv> upsert_hot demo_env demo_pystd (tenant_scope 5) demo_event
     (demo_change_loaded\<lparr>lm_hot_complete := True\<rparr>) grp ''csv'' None new_id"

lemma demo_complete_ok:
  "\<exists>out tabs'. demo_complete_upsert (demo_group sku t [(''unit_cost'', PyInt v)]) new_id tabs = Inr (out, tabs')"
proof -
  let ?proj = "[(''unit_cost'', PyInt v)]" and ?loaded = "demo_change_loaded\<lparr>lm_hot_complete := True\<rparr>"
  obtain params where p: "hot_params demo_pystd demo_event ?loaded (demo_group sku t ?proj) ''csv'' None new_id = (params, ?proj)"
    by (simp add: hot_params_def demo_group_def Let_def)
  have q: "bind_hot params = Inr ()" "pget params ''tenant_id'' = PyUuid 5"
    using p by (auto simp: bind_hot_def hot_params_def demo_group_def demo_event_def Let_def pget_def dget_Cons)
  let ?cols = "bind_columns demo_env (hot_insert_columns ?proj) params"
  have cols: "dkeys ?cols = hot_insert_columns ?proj" by simp
  have "pget (dupdate (pg_defaults demo_env HOT) ?cols) ''tenant_id'' = PyUuid 5"
    using q(2) by (intro pget_dupdate_Some) (simp_all add: hot_insert_columns_def pget_bind JSONB_COLUMNS_def)
  then have "admit demo_env (tenant_scope 5) HOT (dupdate (pg_defaults demo_env HOT) ?cols) = Inr (dupdate (pg_defaults demo_env HOT) ?cols)"
    by (simp add: admit_def rls_with_check_def row_tenant_is_def demo_env_def)
  moreover obtain n rs' where "update_rows demo_env (tenant_scope 5) HOT
      (\<lambda>r. hot_key_match (dupdate (pg_defaults demo_env HOT) ?cols) r \<and> event_time_wins (dupdate (pg_defaults demo_env HOT) ?cols) r)
      (map (\<lambda>c. (c, pget (dupdate (pg_defaults demo_env HOT) ?cols) c)) (hot_update_columns ?proj)) (tabs HOT) = Inr (n, rs')"
    using update_rows_demo [of HOT] by (fastforce simp: hot_update_columns_def)
  ultimately show ?thesis
    using q(1) by (auto simp: upsert_hot_def p insert_on_conflict_hot_complete_path_def Let_def sql_update_def columns_once_def cols
        hot_insert_columns_def hot_update_columns_def)
qed

section \<open>Witnesses\<close>

theorem incomplete_never_inserts_witness:
  "length (pg_tables (snd (write_chunk demo_env demo_pystd (\<lambda>i k. 1) demo_event demo_change_loaded
     [demo_row_at ''A'' 10 []] ''csv'' None 500 demo_state)) HOT) = 0"
  using incomplete_never_inserts [OF demo_incomplete, of demo_env demo_pystd "\<lambda>i k. 1" demo_event
      "[demo_row_at ''A'' 10 []]" "''csv''" None 500 demo_state]
  by (simp add: demo_state_def)

theorem incomplete_merge_outcome_witness:
  "\<exists>out tabs'. demo_upsert (demo_group ''B'' 10 [(''unit_cost'', PyInt 1)]) 1 demo_tabs = Inr (out, tabs') \<and> out = Missing"
proof -
  let ?g = "demo_group ''B'' 10 [(''unit_cost'', PyInt 1)]"
  obtain out tabs' where u: "demo_upsert ?g 1 demo_tabs = Inr (out, tabs')" using demo_upsert_ok by blast
  have none: "\<not> hot_key_match (fst (hot_params demo_pystd demo_event demo_change_loaded ?g ''csv'' None 1)) demo_hot_row"
    by (simp add: hot_params_def demo_group_def Let_def hot_key_match_def hot_key_def pget_def dget_Cons demo_hot_row_def)
  show ?thesis
    using incomplete_merge_outcome [of demo_change_loaded demo_env demo_pystd demo_event ?g "''csv''" None 1 demo_tabs out tabs'] u none
    by (auto simp: demo_event_def demo_tabs_def)
qed

theorem write_chunk_history_witness:
  "\<exists>k \<le> length (batches 500 [demo_row_at ''A'' 10 []]).
     pg_tables (snd (write_chunk demo_env demo_pystd (\<lambda>i k. 1) demo_event demo_change_loaded
       [demo_row_at ''A'' 10 []] ''csv'' None 500 demo_state)) (event_table StoreSkuChangeEvent) =
     map (event_candidate demo_env StoreSkuChangeEvent) (concat (take k (batches 500 [demo_row_at ''A'' 10 []])))"
proof -
  have m: "lm_target_model demo_change_loaded = StoreSkuChangeEvent" "pg_tables demo_state (event_table StoreSkuChangeEvent) = []"
    by (simp_all add: demo_change_loaded_def demo_state_def)
  note h = write_chunk_history [where batch_size = 500 and rows = "[demo_row_at ''A'' 10 []]" and env = demo_env
      and ps = demo_pystd and fresh = "\<lambda>i k. 1" and ev = demo_event and loaded = demo_change_loaded and dis_channel = "''csv''"
      and tax = None and s = demo_state, unfolded case_prod_beta m append_Nil]
  show ?thesis by (rule exE [OF h]) blast
qed

lemma demo_group_hot: "group_hot [demo_row_at ''A'' 10 []] = Inr [demo_group ''A'' 10 []]"
  by (simp add: group_hot_def group_row_def demo_row_at_def demo_group_def)

definition ready_state :: pgstate where
  "ready_state = demo_state\<lparr>pg_verified := True\<rparr>"

lemma demo_batch:
  "\<exists>b tabs'. write_batch demo_env demo_pystd demo_event demo_change_loaded ''csv'' None (event_table StoreSkuChangeEvent)
     (event_ts_column StoreSkuChangeEvent) (\<lambda>k. 1) [demo_row_at ''A'' 10 []] (sort_key hot_sort_key [demo_group ''A'' 10 []])
     (tenant_scope 5) (pg_tables ready_state) = Inr (b, tabs') \<and> length (bo_misses b) = 1"
proof -
  let ?T = "event_table StoreSkuChangeEvent" and ?cols = "event_insert_columns StoreSkuChangeEvent"
  let ?row = "bind_columns demo_env ?cols [(''tenant_id'', PyUuid 5)]"
  have cols: "distinct ?cols" "''tenant_id'' \<in> set ?cols" "''tenant_id'' \<notin> set JSONB_COLUMNS" by code_simp+
  have "pget (dupdate [] ?row) ''tenant_id'' = PyUuid 5"
    by (rule pget_dupdate_Some) (simp_all add: cols pget_bind [OF cols(2,3)] pget_def dget_Cons)
  then have ins: "sql_insert_many demo_env (tenant_scope 5) ?T [?row] (\<lambda>T. []) = Inr ((\<lambda>T. [])(?T := [dupdate [] ?row]))"
    using cols(1) by (simp add: sql_insert_def columns_once_def admit_def demo_env_def)
  have dups: "detect_duplicates demo_env demo_pystd (tenant_scope 5) demo_event demo_change_loaded [demo_row_at ''A'' 10 []] ?T
      (event_ts_column StoreSkuChangeEvent) (\<lambda>T. []) = Inr []"
    by (simp add: detect_duplicates_def sql_select_def distinct_on_latest_def demo_env_def duplicate_hits_def)
  have up: "demo_upsert (demo_group ''A'' 10 []) 1 tabs = Inr (Missing, tabs(HOT := []))" if "tabs HOT = []" for tabs
    using that by (simp add: upsert_hot_def hot_params_def demo_group_def Let_def update_hot_incomplete_path_def bind_hot_def
        pget_def dget_Cons sql_update_def columns_once_def hot_update_columns_def sql_select_def)
  have sorted: "sort_key hot_sort_key [demo_group ''A'' 10 []] = [demo_group ''A'' 10 []]" by simp
  show ?thesis unfolding sorted
    using ins dups up [of "(\<lambda>T. [])(?T := [dupdate [] ?row])"]
    by (simp add: write_batch_def ready_state_def demo_state_def demo_row_at_def count_outcome_def demo_change_loaded_def)
qed

theorem miss_raises_after_commit_witness:
  "\<exists>s'. write_chunk demo_env demo_pystd (\<lambda>i k. 1) demo_event demo_change_loaded [demo_row_at ''A'' 10 []] ''csv'' None 500 ready_state =
      (Inl (hot_position_missing_error (Some (uuid_str 5)) (Some (uuid_str 5)) 3 1), s') \<and>
    length (pg_tables s' (event_table StoreSkuChangeEvent)) = 1"
proof -
  obtain b tabs' where b: "write_batch demo_env demo_pystd demo_event demo_change_loaded ''csv'' None (event_table StoreSkuChangeEvent)
     (event_ts_column StoreSkuChangeEvent) (\<lambda>k. 1) [demo_row_at ''A'' 10 []] (sort_key hot_sort_key [demo_group ''A'' 10 []])
     (tenant_scope 5) (pg_tables ready_state) = Inr (b, tabs')" "length (bo_misses b) = 1"
    using demo_batch by blast
  have m: "lm_target_model demo_change_loaded = StoreSkuChangeEvent" "ie_tenant_id demo_event = 5" "ie_trace_id demo_event = 5"
    "lm_mapping_version_id demo_change_loaded = 3" "pg_verified ready_state" "pg_fault demo_env (pg_txn ready_state) = None"
    "pg_tables ready_state T = []" for T
    by (simp_all add: demo_change_loaded_def demo_event_def ready_state_def demo_state_def demo_env_def)
  have "bo_misses b \<noteq> []" using b(2) by auto
  then show ?thesis
    using miss_raises_after_commit [of demo_change_loaded "[demo_row_at ''A'' 10 []]" 500 ready_state demo_env
        "[demo_group ''A'' 10 []]" demo_pystd demo_event "''csv''" None "\<lambda>i k. 1" b tabs'] b demo_group_hot
    by (auto simp: m)
qed






definition ordered_batch :: "event_row list" where
  "ordered_batch = [demo_row_at ''A'' 10 [(''unit_cost'', PyInt 1), (''currency'', PyStr ''EUR'')],
     demo_row_at ''A'' 20 [(''unit_cost'', PyInt 2)]]"

lemma ordered_batch_groups:
  "group_hot ordered_batch = Inr [demo_group ''A'' 20 [(''unit_cost'', PyInt 2), (''currency'', PyStr ''EUR'')]]"
  by (simp add: group_hot_def group_row_def ordered_batch_def demo_row_at_def demo_group_def dget_Cons dt_ge_def dt_instant_def
      merge_columns_def)

theorem group_hot_covers_witness:
  "group_hot ordered_batch = Inr [demo_group ''A'' 20 [(''unit_cost'', PyInt 2), (''currency'', PyStr ''EUR'')]] \<and>
   set (map er_natural_key ordered_batch) = {(''A'', PyNone, PyNone)}"
  using group_hot_covers [OF ordered_batch_groups] ordered_batch_groups by (simp add: demo_group_def)

theorem group_hot_latest_wins_witness:
  "latest_contribution ordered_batch (''A'', PyNone, PyNone) ''unit_cost'' = Some (PyInt 2)"
proof -
  have "time_ordered ordered_batch" "list_all (\<lambda>row. dict_ok (er_hot_contributions row)) ordered_batch"
    by (simp_all add: time_ordered_def ordered_batch_def demo_row_at_def instant_of_def dt_instant_def dict_ok_def)
  from group_hot_latest_wins [OF ordered_batch_groups this, of "''unit_cost''"]
  show ?thesis by (simp add: demo_group_def dget_Cons)
qed

text \<open>The within-batch merge is not latest-wins per column when rows arrive out of order: of two
  rows older than the group's date, the first to contribute a column keeps it, even when the
  second has the later event time.\<close>

theorem group_hot_out_of_order:
  "group_hot [demo_row_at ''A'' 10 [(''currency'', PyStr ''EUR'')], demo_row_at ''A'' 5 [(''unit_cost'', PyInt 2)],
     demo_row_at ''A'' 7 [(''unit_cost'', PyInt 3)]] =
   Inr [demo_group ''A'' 10 [(''currency'', PyStr ''EUR''), (''unit_cost'', PyInt 2)]]"
  by (simp add: group_hot_def group_row_def demo_row_at_def demo_group_def dget_Cons dt_ge_def dt_instant_def
      merge_columns_def)

theorem writers_keep_key_unique_witness:
  "\<exists>rows. build_event_rows demo_pystd demo_event demo_bronze demo_change_loaded demo_change_result None of_nat = Inr rows \<and>
     distinct (map hot_key (pg_tables (snd (write_chunk demo_env demo_pystd (\<lambda>i k. 1) demo_event demo_change_loaded rows
       ''csv'' None 500 demo_state)) HOT))"
proof -
  obtain rows where rows: "build_event_rows demo_pystd demo_event demo_bronze demo_change_loaded demo_change_result None of_nat = Inr rows"
    using demo_build_rows by blast
  have "distinct (map hot_key (pg_tables demo_state HOT))" by (simp add: demo_state_def)
  from writers_keep_key_unique [OF this rows] rows show ?thesis by blast
qed

theorem arrival_order_irrelevant_witness:
  "\<exists>a ab b ba o1 o2 o3 o4.
     demo_upsert (demo_group ''A'' 10 [(''unit_cost'', PyInt 1)]) 1 demo_tabs = Inr (o1, a) \<and>
     demo_complete_upsert (demo_group ''A'' 20 [(''unit_cost'', PyInt 2)]) 2 a = Inr (o2, ab) \<and>
     demo_complete_upsert (demo_group ''A'' 20 [(''unit_cost'', PyInt 2)]) 2 demo_tabs = Inr (o3, b) \<and>
     demo_upsert (demo_group ''A'' 10 [(''unit_cost'', PyInt 1)]) 1 b = Inr (o4, ba) \<and>
     dget (ab HOT ! 0) ''unit_cost'' = dget (ba HOT ! 0) ''unit_cost''"
proof -
  let ?g1 = "demo_group ''A'' 10 [(''unit_cost'', PyInt 1)]" and ?g2 = "demo_group ''A'' 20 [(''unit_cost'', PyInt 2)]"
  obtain o1 a where r1: "demo_upsert ?g1 1 demo_tabs = Inr (o1, a)" using demo_upsert_ok by blast
  obtain o2 ab where r2: "demo_complete_upsert ?g2 2 a = Inr (o2, ab)" using demo_complete_ok by blast
  obtain o3 b where r3: "demo_complete_upsert ?g2 2 demo_tabs = Inr (o3, b)" using demo_complete_ok by blast
  obtain o4 ba where r4: "demo_upsert ?g1 1 b = Inr (o4, ba)" using demo_upsert_ok by blast
  have "dget (ab HOT ! 0) ''unit_cost'' = dget (ba HOT ! 0) ''unit_cost''"
    by (rule arrival_order_irrelevant [OF _ _ _ r1 r2 r3 r4])
      (simp_all add: demo_group_def key_free_def KEY_COLUMNS_def instant_of_def dt_instant_def demo_tabs_def hot_update_columns_def)
  with r1 r2 r3 r4 show ?thesis by blast
qed

theorem redelivered_merge_idempotent_witness:
  "\<exists>out out' a b. demo_upsert (demo_group ''A'' 10 [(''unit_cost'', PyInt 1)]) 1 demo_tabs = Inr (out, a) \<and>
     demo_upsert (demo_group ''A'' 10 [(''unit_cost'', PyInt 1)]) 2 a = Inr (out', b) \<and> b HOT = a HOT"
proof -
  let ?g = "demo_group ''A'' 10 [(''unit_cost'', PyInt 1)]"
  obtain out a where r1: "demo_upsert ?g 1 demo_tabs = Inr (out, a)" using demo_upsert_ok by blast
  obtain out' b where r2: "demo_upsert ?g 2 a = Inr (out', b)" using demo_upsert_ok by blast
  have "b HOT = a HOT"
    by (rule redelivered_merge_idempotent [OF demo_incomplete _ _ r1 r2]) (simp_all add: demo_group_def key_free_def KEY_COLUMNS_def)
  with r1 r2 show ?thesis by blast
qed

section \<open>A batch of two duplicates\<close>

definition prior_rows :: "payload list" where
  "prior_rows = [[(''id'', PyUuid 1), (''tenant_id'', PyUuid 5), (''store_id'', PyUuid 5), (''source_id'', PyStr ''pos''),
       (''source_event_id'', PyStr ''A''), (''trace_id'', PyUuid 11)],
     [(''id'', PyUuid 2), (''tenant_id'', PyUuid 5), (''store_id'', PyUuid 5), (''source_id'', PyStr ''pos''),
       (''source_event_id'', PyStr ''B''), (''trace_id'', PyUuid 12)]]"

abbreviation demo_detect :: "(exn, duplicate_hit list) result" where
  "demo_detect \<equiv> detect_duplicates demo_env demo_pystd (tenant_scope 5) demo_event demo_change_loaded
     [demo_row_at ''A'' 10 [], demo_row_at ''B'' 10 []] ''canonical.store_sku_change_events'' ''source_event_timestamp''
     (\<lambda>T. prior_rows)"

lemma demo_duplicates:
  "\<exists>hits. demo_detect = Inr hits \<and> map dh_source_event_id hits = [''A'', ''B''] \<and> map dh_prior_trace_id hits = [12, 12]"
proof -
  have sel: "policed T \<Longrightarrow> sql_select (tenant_scope 5) T (dedup_match demo_event [demo_row_at ''A'' 10 [], demo_row_at ''B'' 10 []]) (\<lambda>T. prior_rows) =
      prior_rows" for T
    by (simp add: sql_select_def dedup_match_def prior_rows_def demo_row_at_def demo_event_def pget_def dget_Cons)
  have lat: "distinct_on_latest demo_env ''source_event_timestamp'' prior_rows = prior_rows"
    by (simp add: distinct_on_latest_def prior_rows_def demo_env_def pget_def dget_Cons latest_prior_def)
  show ?thesis
    by (simp add: detect_duplicates_def sel lat) (simp add: duplicate_hits_def prior_rows_def demo_row_at_def pget_def dget_Cons
        uuid_of_pyval_def)
qed

theorem duplicate_hits_share_trace_witness:
  "\<exists>hits t. demo_detect = Inr hits \<and> map dh_source_event_id hits = [''A'', ''B''] \<and>
     list_all (\<lambda>h. dh_prior_trace_id h = t) hits \<and> t = 12"
proof -
  obtain hits where h: "demo_detect = Inr hits" "map dh_source_event_id hits = [''A'', ''B'']" "map dh_prior_trace_id hits = [12, 12]"
    by (rule exE [OF demo_duplicates]) (elim conjE)
  from duplicate_hits_share_trace [OF h(1)] obtain t where t: "list_all (\<lambda>h. dh_prior_trace_id h = t) hits" by (rule exE)
  have "12 \<in> dh_prior_trace_id ` set hits" using h(3) by (metis list.set_intros(1) set_map)
  then have "t = 12" using t unfolding list_all_iff by (metis imageE)
  then show ?thesis using h(1,2) t by (intro exI [of _ hits] exI [of _ t] conjI)
qed

theorem duplicates_flagged_witness:
  "\<exists>hits. demo_detect = Inr hits \<and>
     map dh_source_event_id hits = filter (\<lambda>k. PyStr k \<in> set (map (\<lambda>r. pget r ''source_event_id'')
       (sql_select (tenant_scope 5) ''canonical.store_sku_change_events''
         (dedup_match demo_event [demo_row_at ''A'' 10 [], demo_row_at ''B'' 10 []]) (\<lambda>T. prior_rows)))) [''A'', ''B'']"
proof -
  obtain hits where h: "demo_detect = Inr hits"
    by (rule exE [OF demo_duplicates]) (elim conjE)
  have "set (pg_collate demo_env ks) = set ks" for ks by (simp add: demo_env_def)
  from duplicates_flagged [OF h this] h show ?thesis by (auto simp: demo_row_at_def)
qed

end
