(* ===== verification/Csv_Envelope.thy ===== *)
theory Csv_Envelope
  imports Ingress_Event
begin

text \<open>
  The two envelopes of the CSV ingest worker: \<open>csv.received\<close> as it parses it
  (\<open>csv_ingest_worker/envelope.py\<close>) and \<open>ingress.ready\<close> as it builds and serialises it
  (\<open>csv_ingest_worker/publisher.py\<close>). The outgoing envelope has the fields of the consumer's
  \<open>IngressReadyEvent\<close>, so one record serves both sides. How pydantic prints a datetime in JSON is
  the argument \<open>dt_json\<close>; \<open>json.dumps\<close> of the document is outside.
\<close>

section \<open>csv.received\<close>

record csv_event =
  ce_schema_version :: int
  ce_trace_id :: uuid
  ce_tenant_id :: uuid
  ce_store_id :: uuid
  ce_source_id :: string
  ce_template_id :: uuid
  ce_upload_session_id :: string
  ce_gcs_uri :: string
  ce_received_ts :: pydatetime
  ce_delimiter :: string
  ce_tenant_display_code :: "string option"
  ce_store_code :: "string option"

definition session_char :: "char \<Rightarrow> bool" where
  "session_char c \<longleftrightarrow> (let n = of_char c :: nat in (97 \<le> n \<and> n \<le> 122) \<or> (48 \<le> n \<and> n \<le> 57))"

text \<open>\<open>^us_[a-z0-9]{12}$\<close>.\<close>

definition upload_session_pattern :: "string \<Rightarrow> bool" where
  "upload_session_pattern s \<longleftrightarrow> take 3 s = ''us_'' \<and> length s = 15 \<and> list_all session_char (drop 3 s)"

definition conv_session :: "pyval \<Rightarrow> string option" where
  "conv_session v = (case v of PyStr s \<Rightarrow> if upload_session_pattern s then Some s else None | _ \<Rightarrow> None)"

definition csv_fields :: "string list" where
  "csv_fields = [''schema_version'', ''trace_id'', ''tenant_id'', ''store_id'', ''source_id'', ''template_id'',
     ''upload_session_id'', ''gcs_uri'', ''received_ts'', ''delimiter'', ''tenant_display_code'', ''store_code'']"

definition csv_validate :: "pydantic \<Rightarrow> (string, pyval) pydict \<Rightarrow> (validation_failure, csv_event) result" where
  "csv_validate pd raw =
    (let sv = field_required raw ''schema_version'' conv_one;
         tr = field_required raw ''trace_id'' (pd_uuid pd);
         te = field_required raw ''tenant_id'' (pd_uuid pd);
         st = field_required raw ''store_id'' (pd_uuid pd);
         so = field_required raw ''source_id'' (conv_str 1 None);
         tm = field_required raw ''template_id'' (pd_uuid pd);
         us = field_required raw ''upload_session_id'' conv_session;
         gc = field_required raw ''gcs_uri'' (conv_str 1 None);
         re = field_required raw ''received_ts'' (conv_aware pd);
         dl = field_default raw ''delimiter'' (conv_str 1 (Some 1)) '','';
         dc = field_default raw ''tenant_display_code'' (conv_opt (conv_str 0 None)) None;
         sc = field_default raw ''store_code'' (conv_opt (conv_str 0 None)) None;
         bad = bad_of sv @ bad_of tr @ bad_of te @ bad_of st @ bad_of so @ bad_of tm @ bad_of us @
           bad_of gc @ bad_of re @ bad_of dl @ bad_of dc @ bad_of sc @
           filter (\<lambda>k. k \<notin> set csv_fields) (dkeys raw)
     in case raised_by_validator pd raw of Some e \<Rightarrow> Inl (Raised e) | None \<Rightarrow>
        if bad \<noteq> [] then Inl (BadFields bad)
        else Inr \<lparr>ce_schema_version = good_of sv, ce_trace_id = good_of tr, ce_tenant_id = good_of te,
               ce_store_id = good_of st, ce_source_id = good_of so, ce_template_id = good_of tm,
               ce_upload_session_id = good_of us, ce_gcs_uri = good_of gc, ce_received_ts = good_of re,
               ce_delimiter = good_of dl, ce_tenant_display_code = good_of dc, ce_store_code = good_of sc\<rparr>)"

definition parse_csv_received :: "pydantic \<Rightarrow> pyval option \<Rightarrow> (exn, csv_event) result" where
  "parse_csv_received pd decoded = (case decoded of
     None \<Rightarrow> Inl (event_contract_error None None None)
   | Some (PyDict raw) \<Rightarrow>
       (case csv_validate pd raw of
          Inr ev \<Rightarrow> Inr ev
        | Inl (Raised e) \<Rightarrow> Inl e
        | Inl (BadFields bad) \<Rightarrow> Inl (event_contract_error (Some (hd (sorted_set bad)))
            (identifier_or_none raw ''tenant_id'') (identifier_or_none raw ''trace_id'')))
   | Some _ \<Rightarrow> Inl (event_contract_error None None None))"

section \<open>ingress.ready\<close>

definition build_ingress_ready ::
  "csv_event \<Rightarrow> uuid \<Rightarrow> uuid \<Rightarrow> pydatetime \<Rightarrow> string \<Rightarrow> (exn, ingress_event) result" where
  "build_ingress_ready ev trace_id bronze_ref received_at delimiter =
     rbind (ensure_utc received_at) (\<lambda>ts.
     if 1 \<le> length (ce_source_id ev) \<and> 1 \<le> length (ce_gcs_uri ev) \<and> length delimiter = 1
     then Inr \<lparr>ie_schema_version = 1, ie_trace_id = trace_id, ie_tenant_id = ce_tenant_id ev,
       ie_store_id = ce_store_id ev, ie_source_id = ce_source_id ev, ie_template_id = ce_template_id ev,
       ie_bronze_ref = bronze_ref, ie_gcs_uri = ce_gcs_uri ev, ie_received_ts = ts, ie_delimiter = delimiter,
       ie_tenant_display_code = ce_tenant_display_code ev, ie_store_code = ce_store_code ev,
       ie_replay = False, ie_parent_trace_id = None\<rparr>
     else Inl (py_exn (PyForeign ''ValidationError'')))"

text \<open>\<open>model_dump(mode="json", exclude_none=True)\<close>.\<close>

definition present :: "string \<Rightarrow> ('a \<Rightarrow> pyval) \<Rightarrow> 'a option \<Rightarrow> payload" where
  "present k f v = (case v of None \<Rightarrow> [] | Some x \<Rightarrow> [(k, f x)])"

definition ingress_doc :: "(pydatetime \<Rightarrow> string) \<Rightarrow> ingress_event \<Rightarrow> payload" where
  "ingress_doc dt_json e =
     [(''schema_version'', PyInt (ie_schema_version e)), (''trace_id'', PyStr (uuid_str (ie_trace_id e))),
      (''tenant_id'', PyStr (uuid_str (ie_tenant_id e))), (''store_id'', PyStr (uuid_str (ie_store_id e))),
      (''source_id'', PyStr (ie_source_id e)), (''template_id'', PyStr (uuid_str (ie_template_id e))),
      (''bronze_ref'', PyStr (uuid_str (ie_bronze_ref e))), (''gcs_uri'', PyStr (ie_gcs_uri e)),
      (''received_ts'', PyStr (dt_json (ie_received_ts e))), (''delimiter'', PyStr (ie_delimiter e))] @
     present ''tenant_display_code'' PyStr (ie_tenant_display_code e) @ present ''store_code'' PyStr (ie_store_code e) @
     [(''replay'', PyBool (ie_replay e))] @
     present ''parent_trace_id'' (\<lambda>u. PyStr (uuid_str u)) (ie_parent_trace_id e)"

section \<open>What the worker publishes, the consumer reads\<close>

lemma dget_append: "dget (xs @ ys) k = (case dget xs k of None \<Rightarrow> dget ys k | Some v \<Rightarrow> Some v)"
  by (induction xs) (auto simp: dget_Cons)

lemma dget_present: "dget (present k f v) k' = (if k = k' then map_option f v else None)"
  by (simp add: present_def dget_Cons split: option.splits)

lemma ingress_doc_fields:
  "dget (ingress_doc dj e) ''schema_version'' = Some (PyInt (ie_schema_version e))"
  "dget (ingress_doc dj e) ''trace_id'' = Some (PyStr (uuid_str (ie_trace_id e)))"
  "dget (ingress_doc dj e) ''tenant_id'' = Some (PyStr (uuid_str (ie_tenant_id e)))"
  "dget (ingress_doc dj e) ''store_id'' = Some (PyStr (uuid_str (ie_store_id e)))"
  "dget (ingress_doc dj e) ''source_id'' = Some (PyStr (ie_source_id e))"
  "dget (ingress_doc dj e) ''template_id'' = Some (PyStr (uuid_str (ie_template_id e)))"
  "dget (ingress_doc dj e) ''bronze_ref'' = Some (PyStr (uuid_str (ie_bronze_ref e)))"
  "dget (ingress_doc dj e) ''gcs_uri'' = Some (PyStr (ie_gcs_uri e))"
  "dget (ingress_doc dj e) ''received_ts'' = Some (PyStr (dj (ie_received_ts e)))"
  "dget (ingress_doc dj e) ''delimiter'' = Some (PyStr (ie_delimiter e))"
  "dget (ingress_doc dj e) ''tenant_display_code'' = map_option PyStr (ie_tenant_display_code e)"
  "dget (ingress_doc dj e) ''store_code'' = map_option PyStr (ie_store_code e)"
  "dget (ingress_doc dj e) ''replay'' = Some (PyBool (ie_replay e))"
  "dget (ingress_doc dj e) ''parent_trace_id'' = map_option (\<lambda>u. PyStr (uuid_str u)) (ie_parent_trace_id e)"
  by (simp_all add: ingress_doc_def dget_append dget_present dget_Cons split: option.splits)

lemma ingress_doc_known: "filter (\<lambda>k. k \<notin> set envelope_fields) (dkeys (ingress_doc dj e)) = []"
  by (simp add: ingress_doc_def envelope_fields_def present_def filter_empty_conv split: option.splits)

lemma ingress_doc_validates:
  assumes "\<And>u. pd_uuid pd (PyStr (uuid_str u)) = Some u" and "\<And>b. pd_bool pd (PyBool b) = Some b"
    and "pd_datetime pd (PyStr (dj (ie_received_ts e))) = Some (ie_received_ts e)"
    and "ensure_utc (ie_received_ts e) = Inr (ie_received_ts e)"
    and "ie_schema_version e = 1" "1 \<le> length (ie_source_id e)" "1 \<le> length (ie_gcs_uri e)" "length (ie_delimiter e) = 1"
  shows "model_validate pd (ingress_doc dj e) = Inr e"
  unfolding model_validate_def Let_def raised_by_validator_def field_required_def field_default_def ingress_doc_fields ingress_doc_known
  using assms
  by (cases "ie_tenant_display_code e"; cases "ie_store_code e"; cases "ie_parent_trace_id e")
    (simp_all add: conv_one_def conv_str_def conv_aware_def conv_opt_def bad_of_def good_of_def)

text \<open>C14: What the worker publishes the consumer accepts and reads back field by field: the document of
  an envelope the worker built parses, under the consumer's copy of the contract, to that same
  envelope, when pydantic reads a UUID and a UTC datetime back from the texts it prints for
  them.\<close>

theorem ingress_ready_roundtrip:
  assumes "build_ingress_ready ev trace_id bronze_ref received_at delimiter = Inr e"
    and "\<And>u. pd_uuid pd (PyStr (uuid_str u)) = Some u" and "\<And>b. pd_bool pd (PyBool b) = Some b"
    and "\<And>t. ensure_utc t = Inr t \<Longrightarrow> pd_datetime pd (PyStr (dt_json t)) = Some t"
  shows "parse_ingress_ready pd (Some (PyDict (ingress_doc dt_json e))) = Inr e"
proof -
  from assms(1) obtain ts where ts: "ensure_utc received_at = Inr ts" and e: "ie_received_ts e = ts"
    and shape: "ie_schema_version e = 1" "1 \<le> length (ie_source_id e)" "1 \<le> length (ie_gcs_uri e)" "length (ie_delimiter e) = 1"
    by (auto simp: build_ingress_ready_def result_simps split: if_splits)
  have utc: "ensure_utc (ie_received_ts e) = Inr (ie_received_ts e)" using ensure_utc_idem [OF ts] e by simp
  have "model_validate pd (ingress_doc dt_json e) = Inr e"
    using assms(2,3) assms(4) [OF utc] utc shape by (rule ingress_doc_validates)
  then show ?thesis by (simp add: parse_ingress_ready_def)
qed

text \<open>A receipt time without a zone leaves this parser too as a \<open>NaiveDatetimeError\<close>.\<close>

lemma csv_naive_received_ts:
  assumes "dget raw ''received_ts'' = Some v" and "pd_datetime pd v = Some dt" and "dt_offset dt = None"
  shows "parse_csv_received pd (Some (PyDict raw)) = Inl (py_exn NaiveDatetimeError)"
  using assms by (simp add: parse_csv_received_def csv_validate_def raised_by_validator_def ensure_utc_def Let_def)

section \<open>A concrete envelope\<close>

definition tally :: "pydatetime \<Rightarrow> string" where
  "tally t = replicate (nat (dt_wall t)) (CHR ''x'')"

definition text_pydantic :: pydantic where
  "text_pydantic = \<lparr>pd_uuid = (\<lambda>v. case v of PyStr s \<Rightarrow> uuid_of s | _ \<Rightarrow> None),
     pd_datetime = (\<lambda>v. case v of PyStr s \<Rightarrow> Some (PyDatetime (int (length s)) (Some 0)) | _ \<Rightarrow> None),
     pd_bool = (\<lambda>v. case v of PyBool b \<Rightarrow> Some b | _ \<Rightarrow> None)\<rparr>"

definition demo_csv :: csv_event where
  "demo_csv = \<lparr>ce_schema_version = 1, ce_trace_id = 5, ce_tenant_id = 5, ce_store_id = 5, ce_source_id = ''pos'',
     ce_template_id = 5, ce_upload_session_id = ''us_000000000000'', ce_gcs_uri = ''gs://bronze/k'',
     ce_received_ts = demo_ts, ce_delimiter = '','', ce_tenant_display_code = Some ''T'', ce_store_code = None\<rparr>"

lemma tally_read: "ensure_utc t = Inr t \<Longrightarrow> pd_datetime text_pydantic (PyStr (tally t)) = Some t"
  by (cases t) (auto simp: text_pydantic_def tally_def dt_in_range_def dest!: ensure_utc_offset)

theorem ingress_ready_roundtrip_witness:
  "\<exists>e. build_ingress_ready demo_csv 5 9 demo_ts '';'' = Inr e \<and> ie_bronze_ref e = 9 \<and>
     parse_ingress_ready text_pydantic (Some (PyDict (ingress_doc tally e))) = Inr e"
proof -
  obtain e where e: "build_ingress_ready demo_csv 5 9 demo_ts '';'' = Inr e" "ie_bronze_ref e = 9"
    by (simp add: build_ingress_ready_def demo_ts_utc demo_csv_def)
  have "parse_ingress_ready text_pydantic (Some (PyDict (ingress_doc tally e))) = Inr e"
    by (rule ingress_ready_roundtrip [OF e(1) _ _ tally_read]) (simp_all add: text_pydantic_def uuid_of_str)
  with e show ?thesis by blast
qed

end
