(* ===== verification/Pii_Gate.thy ===== *)
theory Pii_Gate
  imports Py_Values
begin

text \<open>
  \<open>libs/dis-pii\<close>: detection of personal-data columns by name and the fail-loud gate, and the CSV
  worker's use of it on a header (\<open>csv_ingest_worker/pii_gate.py\<close>). The two regular expressions are
  written as recognisers. A backend is only asked for its presence, so it is a truth value. A
  frozenset of names is its sorted list.
\<close>

section \<open>Detectors\<close>

text \<open>\<open>str.lower\<close> on the code points below 256.\<close>

definition lower_char :: "char \<Rightarrow> char" where
  "lower_char c = (let n = of_char c :: nat in
     if (65 \<le> n \<and> n \<le> 90) \<or> (192 \<le> n \<and> n \<le> 222 \<and> n \<noteq> 215) then char_of (n + 32) else c)"

definition py_lower :: "string \<Rightarrow> string" where
  "py_lower s = map lower_char s"

definition PII_NAME_PATTERN :: "string list" where
  "PII_NAME_PATTERN = [''email'', ''phone'', ''mobile'', ''msisdn'', ''loyalty'', ''aadhaar'', ''aadhar'']"

definition PII_EXACT_TOKENS :: "string list" where
  "PII_EXACT_TOKENS = [''pan'', ''ssn'', ''aadhaar'', ''aadhar'']"

definition token_char :: "char \<Rightarrow> bool" where
  "token_char c \<longleftrightarrow> (let n = of_char c :: nat in (97 \<le> n \<and> n \<le> 122) \<or> (48 \<le> n \<and> n \<le> 57))"

text \<open>\<open>[t for t in re.split("[^a-z0-9]+", s) if t]\<close>: the maximal runs of token characters.\<close>

fun token_split :: "string \<Rightarrow> string \<Rightarrow> string list" where
  "token_split run [] = (if run = [] then [] else [rev run])"
| "token_split run (c # cs) =
     (if token_char c then token_split (c # run) cs
      else if run = [] then token_split [] cs else rev run # token_split [] cs)"

definition is_pii_column :: "string \<Rightarrow> bool" where
  "is_pii_column name = (let normalised = py_lower (py_strip name) in
     if normalised = [] then False
     else if list_ex (\<lambda>p. contains_str p normalised) PII_NAME_PATTERN then True
     else list_ex (\<lambda>t. t \<in> set PII_EXACT_TOKENS) (token_split [] normalised))"

definition dict_of :: "pyval \<Rightarrow> payload option" where
  "dict_of v = (case v of PyDict d \<Rightarrow> Some d | _ \<Rightarrow> None)"

text \<open>Every column name a mapping refers to; an unknown shape refers to none.\<close>

definition iter_mapping_columns :: "payload \<Rightarrow> string list" where
  "iter_mapping_columns mapping =
    (case (case dget mapping ''mapping_rules'' of None \<Rightarrow> Some mapping | Some v \<Rightarrow> dict_of v) of
       None \<Rightarrow> []
     | Some rules \<Rightarrow>
         (case dict_of (pget rules ''rename'') of None \<Rightarrow> []
          | Some rename \<Rightarrow> concat (map (\<lambda>(source_name, canonical_name). [source_name, py_str canonical_name]) rename)) @
         concat (map (\<lambda>name. case dict_of (pget rules name) of None \<Rightarrow> [] | Some block \<Rightarrow> dkeys block)
           [''normalize'', ''cast'', ''derive'']))"

definition detect_pii_columns :: "payload \<Rightarrow> string list" where
  "detect_pii_columns mapping = sorted_set (filter is_pii_column (iter_mapping_columns mapping))"

section \<open>The gate\<close>

definition assert_pii_handled :: "payload \<Rightarrow> bool \<Rightarrow> string option \<Rightarrow> string option \<Rightarrow> (exn, unit) result" where
  "assert_pii_handled mapping backend tenant_id trace_id = (let cols = detect_pii_columns mapping in
     if cols \<noteq> [] \<and> \<not> backend then Inl (pii_backend_not_configured_error cols tenant_id trace_id) else Inr ())"

definition synthetic_mapping :: "string list \<Rightarrow> payload" where
  "synthetic_mapping cols = [(''rename'', PyDict (foldl (\<lambda>d name. dset name (PyStr name) d) [] cols))]"

definition gate_csv_headers :: "string list \<Rightarrow> string \<Rightarrow> string \<Rightarrow> bool \<Rightarrow> (exn, string list) result" where
  "gate_csv_headers cols tenant_id trace_id backend = (let mapping = synthetic_mapping cols in
     rbind (assert_pii_handled mapping backend (Some tenant_id) (Some trace_id)) (\<lambda>_.
     Inr (detect_pii_columns mapping)))"

section \<open>Properties\<close>

lemma dset_names: "list_all (\<lambda>(n, v). v = PyStr n) d \<Longrightarrow> list_all (\<lambda>(n, v). v = PyStr n) (dset c (PyStr c) d)"
  by (induction d) auto

lemma synthetic_names:
  "list_all (\<lambda>(n, v). v = PyStr n) d0 \<Longrightarrow> list_all (\<lambda>(n, v). v = PyStr n) (foldl (\<lambda>d name. dset name (PyStr name) d) d0 cols)"
  by (induction cols arbitrary: d0) (auto intro: dset_names)

lemma synthetic_keys: "set (dkeys (foldl (\<lambda>d name. dset name (PyStr name) d) d0 cols)) = set (dkeys d0) \<union> set cols"
  by (induction cols arbitrary: d0) auto

lemma both_names: "list_all (\<lambda>(n, v). v = PyStr n) d \<Longrightarrow> set (concat (map (\<lambda>(s, c). [s, py_str c]) d)) = set (dkeys d)"
  by (induction d) auto

text \<open>The detector sees exactly the header: the synthetic mapping refers to its names and no other.\<close>

lemma detect_synthetic: "set (detect_pii_columns (synthetic_mapping cols)) = {c \<in> set cols. is_pii_column c}"
proof -
  let ?d = "foldl (\<lambda>d name. dset name (PyStr name) d) [] cols"
  have "iter_mapping_columns (synthetic_mapping cols) = concat (map (\<lambda>(s, c). [s, py_str c]) ?d)"
    by (simp add: iter_mapping_columns_def synthetic_mapping_def dget_Cons pget_def dict_of_def)
  moreover have "set (concat (map (\<lambda>(s, c). [s, py_str c]) ?d)) = set cols"
    using both_names [OF synthetic_names [of "[]" cols]] synthetic_keys [of "[]" cols] by simp
  ultimately show ?thesis by (auto simp: detect_pii_columns_def)
qed

lemma gate_csv_headers_iff:
  "(if list_ex is_pii_column cols \<and> \<not> backend
    then gate_csv_headers cols tenant_id trace_id backend = Inl (pii_backend_not_configured_error
           (detect_pii_columns (synthetic_mapping cols)) (Some tenant_id) (Some trace_id))
    else gate_csv_headers cols tenant_id trace_id backend = Inr (detect_pii_columns (synthetic_mapping cols)))"
proof -
  have "detect_pii_columns (synthetic_mapping cols) \<noteq> [] \<longleftrightarrow> list_ex is_pii_column cols"
    using detect_synthetic [of cols] by (auto simp: list_ex_iff simp del: set_empty simp flip: set_empty)
  then show ?thesis by (auto simp: gate_csv_headers_def assert_pii_handled_def Let_def)
qed

end
