(* ===== verification/Effects.thy ===== *)
theory Effects
  imports Pg_Store
begin

text \<open>
  Stateful code that may raise, as the services outside the consumer's pipeline are written: a
  step takes the state and returns a value or an exception, with the state in both cases,
  because what was done before an exception stays done. The rules for preconditions,
  postconditions and exceptional postconditions are stated once for every state type.
\<close>

section \<open>Steps\<close>

type_synonym ('s, 'a) eff = "'s \<Rightarrow> (exn, 'a) result \<times> 's"

definition ereturn :: "'a \<Rightarrow> ('s, 'a) eff" where
  "ereturn a s = (Inr a, s)"

definition eraise :: "exn \<Rightarrow> ('s, 'a) eff" where
  "eraise e s = (Inl e, s)"

definition elift :: "(exn, 'a) result \<Rightarrow> ('s, 'a) eff" where
  "elift r s = (r, s)"

definition ebind :: "('s, 'a) eff \<Rightarrow> ('a \<Rightarrow> ('s, 'b) eff) \<Rightarrow> ('s, 'b) eff" where
  "ebind m f s = (case m s of (Inl e, s') \<Rightarrow> (Inl e, s') | (Inr a, s') \<Rightarrow> f a s')"

text \<open>\<open>try: m except Exception as e: h(e)\<close>.\<close>

definition ecatch :: "('s, 'a) eff \<Rightarrow> (exn \<Rightarrow> ('s, 'a) eff) \<Rightarrow> ('s, 'a) eff" where
  "ecatch m h s = (case m s of (Inl e, s') \<Rightarrow> h e s' | (Inr a, s') \<Rightarrow> (Inr a, s'))"

lemma ebind_Inr: "ebind m f s = (Inr b, s') \<longleftrightarrow> (\<exists>a t. m s = (Inr a, t) \<and> f a t = (Inr b, s'))"
  by (auto simp: ebind_def split: prod.splits sum.splits)

lemma elift_Inr: "elift r s = (Inr a, s') \<longleftrightarrow> r = Inr a \<and> s' = s"
  by (auto simp: elift_def)

lemma ereturn_Inr: "ereturn a s = (Inr b, s') \<longleftrightarrow> b = a \<and> s' = s"
  by (auto simp: ereturn_def)

lemma eraise_Inr: "eraise e s \<noteq> (Inr b, s')"
  by (simp add: eraise_def)

lemmas eff_Inr = ebind_Inr elift_Inr ereturn_Inr eraise_Inr

section \<open>Triples\<close>

definition triple :: "('s \<Rightarrow> bool) \<Rightarrow> ('s, 'a) eff \<Rightarrow> ('a \<Rightarrow> 's \<Rightarrow> bool) \<Rightarrow> (exn \<Rightarrow> 's \<Rightarrow> bool) \<Rightarrow> bool" where
  "triple P m Q E \<longleftrightarrow> (\<forall>s. P s \<longrightarrow> (case m s of (Inl e, s') \<Rightarrow> E e s' | (Inr a, s') \<Rightarrow> Q a s'))"

named_theorems hoare

lemma tripleI:
  "(\<And>s a s'. P s \<Longrightarrow> m s = (Inr a, s') \<Longrightarrow> Q a s') \<Longrightarrow> (\<And>s e s'. P s \<Longrightarrow> m s = (Inl e, s') \<Longrightarrow> E e s') \<Longrightarrow> triple P m Q E"
  by (auto simp: triple_def split: sum.splits)

lemma tripleD:
  assumes "triple P m Q E" and "P s"
  shows "m s = (Inr a, s') \<Longrightarrow> Q a s'" and "m s = (Inl e, s') \<Longrightarrow> E e s'"
  using assms unfolding triple_def by fastforce+

lemma triple_return [hoare]: "(\<And>s. P s \<Longrightarrow> Q a s) \<Longrightarrow> triple P (ereturn a) Q E"
  by (simp add: triple_def ereturn_def)

lemma triple_raise [hoare]: "(\<And>s. P s \<Longrightarrow> E e s) \<Longrightarrow> triple P (eraise e) Q E"
  by (simp add: triple_def eraise_def)

lemma triple_lift: "(\<And>s a. P s \<Longrightarrow> r = Inr a \<Longrightarrow> Q a s) \<Longrightarrow> (\<And>s e. P s \<Longrightarrow> r = Inl e \<Longrightarrow> E e s) \<Longrightarrow> triple P (elift r) Q E"
  by (auto simp: triple_def elift_def split: sum.splits)

lemma triple_bind:
  assumes "triple P m M E" and "\<And>a. triple (M a) (f a) Q E"
  shows "triple P (ebind m f) Q E"
proof (rule tripleI)
  fix s a s'
  assume "P s" and run: "ebind m f s = (Inr a, s')"
  then obtain b t where "m s = (Inr b, t)" "f b t = (Inr a, s')" by (auto simp: ebind_def split: prod.splits sum.splits)
  then show "Q a s'" using tripleD(1) [OF assms(1) \<open>P s\<close>] tripleD(1) [OF assms(2)] by blast
next
  fix s e s'
  assume "P s" and run: "ebind m f s = (Inl e, s')"
  then have "m s = (Inl e, s') \<or> (\<exists>b t. m s = (Inr b, t) \<and> f b t = (Inl e, s'))" by (auto simp: ebind_def split: prod.splits sum.splits)
  then show "E e s'" using tripleD [OF assms(1) \<open>P s\<close>] tripleD(2) [OF assms(2)] by blast
qed

lemma triple_catch:
  assumes "triple P m Q M" and "\<And>e. triple (M e) (h e) Q E"
  shows "triple P (ecatch m h) Q E"
proof (rule tripleI)
  fix s a s'
  assume "P s" and run: "ecatch m h s = (Inr a, s')"
  then have "m s = (Inr a, s') \<or> (\<exists>e t. m s = (Inl e, t) \<and> h e t = (Inr a, s'))" by (auto simp: ecatch_def split: prod.splits sum.splits)
  then show "Q a s'" using tripleD [OF assms(1) \<open>P s\<close>] tripleD(1) [OF assms(2)] by blast
next
  fix s e s'
  assume "P s" and run: "ecatch m h s = (Inl e, s')"
  then obtain e' t where "m s = (Inl e', t)" "h e' t = (Inl e, s')" by (auto simp: ecatch_def split: prod.splits sum.splits)
  then show "E e s'" using tripleD(2) [OF assms(1) \<open>P s\<close>] tripleD(2) [OF assms(2)] by blast
qed

lemma triple_weaken:
  "triple P m Q E \<Longrightarrow> (\<And>s. P' s \<Longrightarrow> P s) \<Longrightarrow> (\<And>a s. Q a s \<Longrightarrow> Q' a s) \<Longrightarrow> (\<And>e s. E e s \<Longrightarrow> E' e s) \<Longrightarrow> triple P' m Q' E'"
  unfolding triple_def by (fastforce split: prod.splits sum.splits)

lemma triple_if [hoare]: "(b \<Longrightarrow> triple P m Q E) \<Longrightarrow> (\<not> b \<Longrightarrow> triple P n Q E) \<Longrightarrow> triple P (if b then m else n) Q E"
  by simp

lemma triple_case_option [hoare]:
  "(x = None \<Longrightarrow> triple P m Q E) \<Longrightarrow> (\<And>a. x = Some a \<Longrightarrow> triple P (f a) Q E) \<Longrightarrow> triple P (case x of None \<Rightarrow> m | Some a \<Rightarrow> f a) Q E"
  by (cases x) simp_all



lemma triple_snd: "triple P m (\<lambda>_. Q) (\<lambda>_. Q) \<Longrightarrow> P s \<Longrightarrow> Q (snd (m s))"
  by (cases "m s"; cases "fst (m s)") (auto dest: tripleD)

lemma triple_pure: "(p \<Longrightarrow> triple P m Q E) \<Longrightarrow> triple (\<lambda>s. P s \<and> p) m Q E"
  by (auto simp: triple_def)

lemma triple_state: "(\<And>s0. P s0 \<Longrightarrow> triple (\<lambda>s. s = s0) m Q E) \<Longrightarrow> triple P m Q E"
  by (simp add: triple_def)

lemma triple_exists: "(\<And>x. triple (\<lambda>s. P s \<and> A x s) m Q E) \<Longrightarrow> triple (\<lambda>s. P s \<and> (\<exists>x. A x s)) m Q E"
  by (rule triple_state) (auto intro: triple_weaken)

section \<open>Steps that keep a relation\<close>

definition moves :: "('s \<Rightarrow> 's \<Rightarrow> bool) \<Rightarrow> ('s, 'a) eff \<Rightarrow> bool" where
  "moves R m \<longleftrightarrow> (\<forall>s. R s (snd (m s)))"

named_theorems move

lemma movesD: "moves R m \<Longrightarrow> m s = (r, s') \<Longrightarrow> R s s'"
  unfolding moves_def by (metis snd_conv)

lemma moves_mono: "moves R m \<Longrightarrow> (\<And>s s'. R s s' \<Longrightarrow> R' s s') \<Longrightarrow> moves R' m"
  by (simp add: moves_def)

lemma moves_if [move]: "(b \<Longrightarrow> moves R m) \<Longrightarrow> (\<not> b \<Longrightarrow> moves R n) \<Longrightarrow> moves R (if b then m else n)"
  by simp

lemma moves_case_option [move]:
  "(x = None \<Longrightarrow> moves R m) \<Longrightarrow> (\<And>a. x = Some a \<Longrightarrow> moves R (f a)) \<Longrightarrow> moves R (case x of None \<Rightarrow> m | Some a \<Rightarrow> f a)"
  by (cases x) simp_all

text \<open>Reflexive and transitive relations are kept by sequences.\<close>

locale step_relation =
  fixes R :: "'s \<Rightarrow> 's \<Rightarrow> bool"
  assumes step_refl: "R s s"
    and step_trans: "R a b \<Longrightarrow> R b c \<Longrightarrow> R a c"
begin

lemma moves_pure [move]: "moves R (ereturn a)" "moves R (eraise e)" "moves R (elift r)"
  by (simp_all add: moves_def ereturn_def eraise_def elift_def step_refl)

lemma moves_bind_result:
  assumes "moves R m" and "\<And>s a s'. m s = (Inr a, s') \<Longrightarrow> moves R (f a)"
  shows "moves R (ebind m f)"
  unfolding moves_def
proof
  fix s
  obtain r s' where m: "m s = (r, s')" by (cases "m s")
  show "R s (snd (ebind m f s))"
  proof (cases r)
    case (Inr a)
    have "R s' (snd (f a s'))" using assms(2) [of s a s'] m Inr by (simp add: moves_def)
    then show ?thesis using step_trans movesD [OF assms(1) m] by (simp add: ebind_def m Inr)
  qed (simp add: ebind_def m movesD [OF assms(1) m])
qed

lemma moves_bind [move]: "moves R m \<Longrightarrow> (\<And>a. moves R (f a)) \<Longrightarrow> moves R (ebind m f)"
  by (rule moves_bind_result)

lemma moves_bind_lift: "(\<And>a. r = Inr a \<Longrightarrow> moves R (f a)) \<Longrightarrow> moves R (ebind (elift r) f)"
  by (rule moves_bind_result) (auto simp: move elift_def)

lemma moves_catch [move]:
  assumes "moves R m" and "\<And>e. moves R (h e)"
  shows "moves R (ecatch m h)"
  unfolding moves_def
proof
  fix s
  obtain r s' where m: "m s = (r, s')" by (cases "m s")
  show "R s (snd (ecatch m h s))"
    using step_trans movesD [OF assms(1) m] assms(2) by (cases r) (auto simp: ecatch_def m moves_def)
qed

end

end
