(* ===== verification/Audit_Log.thy ===== *)
theory Audit_Log
  imports Pg_Store
begin

text \<open>
  \<open>libs/dis-audit\<close>: the stage, scope, outcome and failure-code vocabularies, the audit event and
  its insert parameters, the fire-and-forget writer and the schema-drift comparison.
  \<open>json.dumps\<close> is an argument.
\<close>

section \<open>Vocabularies\<close>

datatype event_scope = INGRESS_EVENT | ROW

datatype outcome = SUCCESS | FAILURE | SKIPPED | RETRIED | OUTCOME_DUPLICATE_NOOP | OUTCOME_DUPLICATE_OVERWRITTEN

datatype stage = RECEIVED | PII_TOKENIZED | BRONZE_WRITTEN | INGRESS_PUBLISHED | MAPPING_LOOKED_UP
  | IDENTITY_VALIDATED | PRE_MAPPING_VALIDATED | MAPPING_EXECUTED | POST_MAPPING_VALIDATED
  | CANONICAL_WRITTEN | QUARANTINED | SIGNAL_COMPUTED

fun scope_value :: "event_scope \<Rightarrow> string" where
  "scope_value INGRESS_EVENT = ''INGRESS_EVENT''"
| "scope_value ROW = ''ROW''"

fun outcome_value :: "outcome \<Rightarrow> string" where
  "outcome_value SUCCESS = ''SUCCESS''"
| "outcome_value FAILURE = ''FAILURE''"
| "outcome_value SKIPPED = ''SKIPPED''"
| "outcome_value RETRIED = ''RETRIED''"
| "outcome_value OUTCOME_DUPLICATE_NOOP = ''DUPLICATE_NOOP''"
| "outcome_value OUTCOME_DUPLICATE_OVERWRITTEN = ''DUPLICATE_OVERWRITTEN''"

fun stage_value :: "stage \<Rightarrow> string" where
  "stage_value RECEIVED = ''RECEIVED''"
| "stage_value PII_TOKENIZED = ''PII_TOKENIZED''"
| "stage_value BRONZE_WRITTEN = ''BRONZE_WRITTEN''"
| "stage_value INGRESS_PUBLISHED = ''INGRESS_PUBLISHED''"
| "stage_value MAPPING_LOOKED_UP = ''MAPPING_LOOKED_UP''"
| "stage_value IDENTITY_VALIDATED = ''IDENTITY_VALIDATED''"
| "stage_value PRE_MAPPING_VALIDATED = ''PRE_MAPPING_VALIDATED''"
| "stage_value MAPPING_EXECUTED = ''MAPPING_EXECUTED''"
| "stage_value POST_MAPPING_VALIDATED = ''POST_MAPPING_VALIDATED''"
| "stage_value CANONICAL_WRITTEN = ''CANONICAL_WRITTEN''"
| "stage_value QUARANTINED = ''QUARANTINED''"
| "stage_value SIGNAL_COMPUTED = ''SIGNAL_COMPUTED''"

datatype failure_code =
    UPLOAD_REQUEST_MALFORMED | UPLOAD_TOO_LARGE | UPLOAD_EMPTY_FILE | UPLOAD_NOT_UTF8 | UPLOAD_NOT_CSV
  | UPLOAD_BELOW_MIN_ROWS | TEMPLATE_NOT_FOUND | TEMPLATE_NOT_ACTIVE | STORE_NOT_FOUND | STORE_NOT_ACTIVE
  | GCS_WRITE_FAILED | PUBLISH_FAILED
  | PATH_MISMATCH | PREFLIGHT_NOT_CSV | PREFLIGHT_NO_COLUMNS | PREFLIGHT_NO_HEADER | PREFLIGHT_NO_DATA_ROWS
  | PII_BACKEND_NOT_CONFIGURED
  | CONTRACT_VIOLATION | MAPPING_CONFIG_INVALID | SUITE_REF_UNSUPPORTED | PRE_VALIDATION_FAILED
  | MAPPING_EXECUTION_FAILED | POST_VALIDATION_FAILED | VALIDATION_ROW_FAILED | HOT_POSITION_MISSING
  | INFRA_FAILURE

fun failure_code_value :: "failure_code \<Rightarrow> string" where
  "failure_code_value UPLOAD_REQUEST_MALFORMED = ''UPLOAD_REQUEST_MALFORMED''"
| "failure_code_value UPLOAD_TOO_LARGE = ''UPLOAD_TOO_LARGE''"
| "failure_code_value UPLOAD_EMPTY_FILE = ''UPLOAD_EMPTY_FILE''"
| "failure_code_value UPLOAD_NOT_UTF8 = ''UPLOAD_NOT_UTF8''"
| "failure_code_value UPLOAD_NOT_CSV = ''UPLOAD_NOT_CSV''"
| "failure_code_value UPLOAD_BELOW_MIN_ROWS = ''UPLOAD_BELOW_MIN_ROWS''"
| "failure_code_value TEMPLATE_NOT_FOUND = ''TEMPLATE_NOT_FOUND''"
| "failure_code_value TEMPLATE_NOT_ACTIVE = ''TEMPLATE_NOT_ACTIVE''"
| "failure_code_value STORE_NOT_FOUND = ''STORE_NOT_FOUND''"
| "failure_code_value STORE_NOT_ACTIVE = ''STORE_NOT_ACTIVE''"
| "failure_code_value GCS_WRITE_FAILED = ''GCS_WRITE_FAILED''"
| "failure_code_value PUBLISH_FAILED = ''PUBLISH_FAILED''"
| "failure_code_value PATH_MISMATCH = ''PATH_MISMATCH''"
| "failure_code_value PREFLIGHT_NOT_CSV = ''PREFLIGHT_NOT_CSV''"
| "failure_code_value PREFLIGHT_NO_COLUMNS = ''PREFLIGHT_NO_COLUMNS''"
| "failure_code_value PREFLIGHT_NO_HEADER = ''PREFLIGHT_NO_HEADER''"
| "failure_code_value PREFLIGHT_NO_DATA_ROWS = ''PREFLIGHT_NO_DATA_ROWS''"
| "failure_code_value PII_BACKEND_NOT_CONFIGURED = ''PII_BACKEND_NOT_CONFIGURED''"
| "failure_code_value CONTRACT_VIOLATION = ''CONTRACT_VIOLATION''"
| "failure_code_value MAPPING_CONFIG_INVALID = ''MAPPING_CONFIG_INVALID''"
| "failure_code_value SUITE_REF_UNSUPPORTED = ''SUITE_REF_UNSUPPORTED''"
| "failure_code_value PRE_VALIDATION_FAILED = ''PRE_VALIDATION_FAILED''"
| "failure_code_value MAPPING_EXECUTION_FAILED = ''MAPPING_EXECUTION_FAILED''"
| "failure_code_value POST_VALIDATION_FAILED = ''POST_VALIDATION_FAILED''"
| "failure_code_value VALIDATION_ROW_FAILED = ''VALIDATION_ROW_FAILED''"
| "failure_code_value HOT_POSITION_MISSING = ''HOT_POSITION_MISSING''"
| "failure_code_value INFRA_FAILURE = ''INFRA_FAILURE''"

definition REGISTRY :: "(exc_class \<times> failure_code) list" where
  "REGISTRY = [(EventPathMismatchError, PATH_MISMATCH), (EventContractError, CONTRACT_VIOLATION),
     (MappingConfigError, MAPPING_CONFIG_INVALID), (SuiteDefinitionError, SUITE_REF_UNSUPPORTED),
     (HotPositionMissingError, HOT_POSITION_MISSING), (PiiBackendNotConfiguredError, PII_BACKEND_NOT_CONFIGURED)]"

definition failure_code_for :: "exn \<Rightarrow> failure_code" where
  "failure_code_for e = (case filter (\<lambda>(exc_type, code). isinstance e exc_type) REGISTRY of
     [] \<Rightarrow> INFRA_FAILURE | (_, code) # _ \<Rightarrow> code)"

section \<open>The event\<close>

record audit_event =
  ae_event_timestamp :: pydatetime
  ae_trace_id :: uuid
  ae_prior_trace_id :: "uuid option"
  ae_tenant_id :: "uuid option"
  ae_data_ingress_event_id :: "uuid option"
  ae_service_name :: string
  ae_service_version :: "string option"
  ae_stage :: stage
  ae_event_scope :: event_scope
  ae_outcome :: outcome
  ae_row_count :: "int option"
  ae_rows_succeeded :: "int option"
  ae_rows_failed :: "int option"
  ae_duration_ms :: "int option"
  ae_row_offset :: "int option"
  ae_mapping_version_id :: "int option"
  ae_failure_code :: "string option"
  ae_failure_message :: "string option"
  ae_event_data :: "payload option"
  ae_auth_principal :: "string option"
  ae_client_ip :: "string option"

definition max_len :: "nat \<Rightarrow> string option \<Rightarrow> bool" where
  "max_len n v = (case v of None \<Rightarrow> True | Some s \<Rightarrow> length s \<le> n)"

definition non_neg :: "int option \<Rightarrow> bool" where
  "non_neg v = (case v of None \<Rightarrow> True | Some i \<Rightarrow> 0 \<le> i)"

text \<open>
  Construction: the field constraints, then the timestamp in UTC. A naive timestamp raises out
  of the validator as \<open>NaiveDatetimeError\<close>; the other refusals are a pydantic error.
\<close>

definition validate_audit_event :: "audit_event \<Rightarrow> (exn, audit_event) result" where
  "validate_audit_event e =
     rbind (ensure_utc (ae_event_timestamp e)) (\<lambda>ts.
     if length (ae_service_name e) \<le> 64 \<and> max_len 64 (ae_service_version e) \<and>
        non_neg (ae_row_count e) \<and> non_neg (ae_rows_succeeded e) \<and> non_neg (ae_rows_failed e) \<and>
        non_neg (ae_duration_ms e) \<and> max_len 64 (ae_failure_code e) \<and> max_len 2048 (ae_failure_message e) \<and>
        max_len 256 (ae_auth_principal e)
     then Inr (e\<lparr>ae_event_timestamp := ts\<rparr>) else Inl (py_exn (PyForeign ''ValidationError'')))"

definition opt_val :: "('a \<Rightarrow> pyval) \<Rightarrow> 'a option \<Rightarrow> pyval" where
  "opt_val f v = (case v of None \<Rightarrow> PyNone | Some x \<Rightarrow> f x)"

text \<open>The UTC date of an instant, as a proleptic Gregorian ordinal.\<close>

definition utc_date :: "pydatetime \<Rightarrow> pyval" where
  "utc_date dt = PyDate (dt_wall dt div us_per_day + 1)"

definition audit_insert_params :: "(pyval \<Rightarrow> string) \<Rightarrow> audit_event \<Rightarrow> payload" where
  "audit_insert_params dumps e =
    [(''event_timestamp'', PyDt (ae_event_timestamp e)), (''event_date'', utc_date (ae_event_timestamp e)),
     (''trace_id'', PyUuid (ae_trace_id e)), (''prior_trace_id'', opt_val PyUuid (ae_prior_trace_id e)),
     (''tenant_id'', opt_val PyUuid (ae_tenant_id e)), (''data_ingress_event_id'', opt_val PyUuid (ae_data_ingress_event_id e)),
     (''service_name'', PyStr (ae_service_name e)), (''service_version'', opt_val PyStr (ae_service_version e)),
     (''stage'', PyStr (stage_value (ae_stage e))), (''event_scope'', PyStr (scope_value (ae_event_scope e))),
     (''outcome'', PyStr (outcome_value (ae_outcome e))), (''row_count'', opt_val PyInt (ae_row_count e)),
     (''rows_succeeded'', opt_val PyInt (ae_rows_succeeded e)), (''rows_failed'', opt_val PyInt (ae_rows_failed e)),
     (''duration_ms'', opt_val PyInt (ae_duration_ms e)), (''row_offset'', opt_val PyInt (ae_row_offset e)),
     (''mapping_version_id'', opt_val PyInt (ae_mapping_version_id e)), (''failure_code'', opt_val PyStr (ae_failure_code e)),
     (''failure_message'', opt_val PyStr (ae_failure_message e)),
     (''event_data'', opt_val (\<lambda>d. PyStr (dumps (PyDict d))) (ae_event_data e)),
     (''auth_principal'', opt_val PyStr (ae_auth_principal e)), (''client_ip'', opt_val PyStr (ae_client_ip e))]"

definition audit_model_fields :: "string list" where
  "audit_model_fields = [''id'', ''event_timestamp'', ''event_date'', ''trace_id'', ''prior_trace_id'', ''tenant_id'',
     ''data_ingress_event_id'', ''service_name'', ''service_version'', ''stage'', ''event_scope'', ''outcome'', ''row_count'',
     ''rows_succeeded'', ''rows_failed'', ''duration_ms'', ''row_offset'', ''mapping_version_id'', ''failure_code'',
     ''failure_message'', ''event_data'', ''auth_principal'', ''client_ip'', ''loaded_at'']"

definition db_column_names :: "string list" where
  "db_column_names = map (\<lambda>name. if name = ''loaded_at'' then ''_loaded_at'' else name) audit_model_fields"

section \<open>The writer\<close>

abbreviation AUDIT :: string where "AUDIT \<equiv> ''audit.events''"

text \<open>\<open>PostgresAuditWriter.write\<close>: confirmed or dropped, never raised.\<close>

definition audit_write :: "pgenv \<Rightarrow> (pyval \<Rightarrow> string) \<Rightarrow> audit_event \<Rightarrow> pgstate \<Rightarrow> bool \<times> pgstate" where
  "audit_write env dumps e s = (case ae_tenant_id e of
     None \<Rightarrow> (False, s)
   | Some t \<Rightarrow>
       (case rls_session env t (\<lambda>g tabs.
               rbind (sql_insert env g AUDIT (map (\<lambda>(c, v). (c, if c = ''event_data'' then pg_jsonb env v else v))
                        (audit_insert_params dumps e)) tabs) (\<lambda>tabs'. Inr ((), tabs'))) s of
          (Inl _, s') \<Rightarrow> (False, s')
        | (Inr _, s') \<Rightarrow> (True, s')))"

datatype audit_backend = POSTGRES | BIGQUERY

datatype audit_writer = PostgresAuditWriter | BigQueryAuditWriter

definition select_writer :: "audit_backend \<Rightarrow> bool \<Rightarrow> (exn, audit_writer) result" where
  "select_writer backend has_engine = (case backend of
     POSTGRES \<Rightarrow> if has_engine then Inr PostgresAuditWriter else Inl (Exn AuditWriteError [])
   | BIGQUERY \<Rightarrow> Inr BigQueryAuditWriter)"

section \<open>The schema contract\<close>

record column_spec =
  cs_data_type :: string
  cs_is_nullable :: string
  cs_character_maximum_length :: "nat option"

definition mk_column_spec :: "string \<Rightarrow> string \<Rightarrow> nat option \<Rightarrow> column_spec" where
  "mk_column_spec t n l = \<lparr>cs_data_type = t, cs_is_nullable = n, cs_character_maximum_length = l\<rparr>"

definition EXPECTED_COLUMNS :: "(string, column_spec) pydict" where
  "EXPECTED_COLUMNS = (let timestamptz = ''timestamp with time zone''; varchar = ''character varying'' in
    [(''id'', mk_column_spec ''uuid'' ''NO'' None), (''event_timestamp'', mk_column_spec timestamptz ''NO'' None),
     (''event_date'', mk_column_spec ''date'' ''NO'' None), (''trace_id'', mk_column_spec ''uuid'' ''NO'' None),
     (''prior_trace_id'', mk_column_spec ''uuid'' ''YES'' None), (''tenant_id'', mk_column_spec ''uuid'' ''YES'' None),
     (''data_ingress_event_id'', mk_column_spec ''uuid'' ''YES'' None), (''service_name'', mk_column_spec varchar ''NO'' (Some 64)),
     (''service_version'', mk_column_spec varchar ''YES'' (Some 64)), (''stage'', mk_column_spec varchar ''NO'' (Some 64)),
     (''event_scope'', mk_column_spec varchar ''NO'' (Some 32)), (''outcome'', mk_column_spec varchar ''NO'' (Some 32)),
     (''row_count'', mk_column_spec ''integer'' ''YES'' None), (''rows_succeeded'', mk_column_spec ''integer'' ''YES'' None),
     (''rows_failed'', mk_column_spec ''integer'' ''YES'' None), (''duration_ms'', mk_column_spec ''integer'' ''YES'' None),
     (''row_offset'', mk_column_spec ''integer'' ''YES'' None), (''mapping_version_id'', mk_column_spec ''bigint'' ''YES'' None),
     (''failure_code'', mk_column_spec varchar ''YES'' (Some 64)), (''failure_message'', mk_column_spec varchar ''YES'' (Some 2048)),
     (''event_data'', mk_column_spec ''jsonb'' ''YES'' None), (''auth_principal'', mk_column_spec varchar ''YES'' (Some 256)),
     (''client_ip'', mk_column_spec ''inet'' ''YES'' None), (''_loaded_at'', mk_column_spec timestamptz ''NO'' None)])"

datatype schema_diff = MissingLive string | NotInContract string | TypeDiffers string | NullableDiffers string | LengthDiffers string

definition column_diffs :: "string \<Rightarrow> column_spec \<Rightarrow> column_spec \<Rightarrow> schema_diff list" where
  "column_diffs name want got =
     (if cs_data_type got \<noteq> cs_data_type want then [TypeDiffers name] else []) @
     (if cs_is_nullable got \<noteq> cs_is_nullable want then [NullableDiffers name] else []) @
     (if cs_character_maximum_length got \<noteq> cs_character_maximum_length want then [LengthDiffers name] else [])"

definition diff_schema ::
  "(string \<times> string \<times> string \<times> nat option) list \<Rightarrow> (string, column_spec) pydict \<Rightarrow> schema_diff list" where
  "diff_schema live_rows expected =
    (let live = foldl (\<lambda>d (name, dtype, nullable, l). dset name (mk_column_spec dtype nullable l) d) [] live_rows in
     map MissingLive (sorted_set (filter (\<lambda>n. dget live n = None) (dkeys expected))) @
     map NotInContract (sorted_set (filter (\<lambda>n. dget expected n = None) (dkeys live))) @
     concat (map (\<lambda>n. column_diffs n (the (dget expected n)) (the (dget live n)))
       (sorted_set (filter (\<lambda>n. dget live n \<noteq> None) (dkeys expected)))))"

section \<open>Properties\<close>

text \<open>The model, the frozen contract and the insert agree: the event's columns are exactly the
  contract's, and the insert names each of them once except the two the database fills.\<close>

theorem audit_columns_agree:
  "set db_column_names = set (dkeys EXPECTED_COLUMNS) \<and> distinct db_column_names \<and>
   distinct (dkeys (audit_insert_params dumps e)) \<and>
   set (dkeys (audit_insert_params dumps e)) = set db_column_names - {''id'', ''_loaded_at''}"
proof -
  have "set db_column_names = set (dkeys EXPECTED_COLUMNS)" "distinct db_column_names" by code_simp+
  moreover have "dkeys (audit_insert_params dumps e) = filter (\<lambda>c. c \<noteq> ''id'' \<and> c \<noteq> ''_loaded_at'') db_column_names"
    by (simp add: audit_insert_params_def db_column_names_def audit_model_fields_def)
  ultimately show ?thesis by auto
qed

lemma column_diffs_Nil: "column_diffs n want got = [] \<longleftrightarrow> got = want"
  by (auto simp: column_diffs_def)

text \<open>The drift comparison is exact: it reports nothing precisely when the live table has the
  contract's columns and each with the same type, nullability and length.\<close>

theorem diff_schema_exact:
  "diff_schema live_rows expected = [] \<longleftrightarrow>
     dget (foldl (\<lambda>d (name, dtype, nullable, l). dset name (mk_column_spec dtype nullable l) d) [] live_rows) = dget expected"
proof -
  let ?live = "foldl (\<lambda>d (name, dtype, nullable, l). dset name (mk_column_spec dtype nullable l) d) [] live_rows"
  have empty: "sorted_set xs = [] \<longleftrightarrow> xs = []" for xs :: "string list"
    by (metis set_empty set_sorted_set)
  have "diff_schema live_rows expected = [] \<longleftrightarrow>
      (\<forall>n \<in> set (dkeys expected). dget ?live n \<noteq> None) \<and> (\<forall>n \<in> set (dkeys ?live). dget expected n \<noteq> None) \<and>
      (\<forall>n \<in> set (dkeys expected). dget ?live n \<noteq> None \<longrightarrow> the (dget ?live n) = the (dget expected n))"
    by (auto simp: diff_schema_def Let_def empty filter_empty_conv column_diffs_Nil)
  also have "\<dots> \<longleftrightarrow> dget ?live = dget expected"
  proof
    assume a: "(\<forall>n \<in> set (dkeys expected). dget ?live n \<noteq> None) \<and> (\<forall>n \<in> set (dkeys ?live). dget expected n \<noteq> None) \<and>
      (\<forall>n \<in> set (dkeys expected). dget ?live n \<noteq> None \<longrightarrow> the (dget ?live n) = the (dget expected n))"
    show "dget ?live = dget expected"
    proof
      fix n
      show "dget ?live n = dget expected n"
        using a dget_None_iff [of expected n] dget_None_iff [of ?live n]
        by (cases "dget expected n"; cases "dget ?live n") auto
    qed
  next
    assume eq: "dget ?live = dget expected"
    have mem: "n \<in> set (dkeys d) \<longleftrightarrow> dget d n \<noteq> None" for n and d :: "(string, column_spec) pydict"
      by (simp add: dget_None_iff)
    show "(\<forall>n \<in> set (dkeys expected). dget ?live n \<noteq> None) \<and> (\<forall>n \<in> set (dkeys ?live). dget expected n \<noteq> None) \<and>
      (\<forall>n \<in> set (dkeys expected). dget ?live n \<noteq> None \<longrightarrow> the (dget ?live n) = the (dget expected n))"
      unfolding Ball_def mem eq by blast
  qed
  finally show ?thesis .
qed

lemma audit_write_tables:
  assumes "audit_write env dumps e s = (b, s')"
  shows "if b then \<exists>row. pg_tables s' = (pg_tables s)(AUDIT := pg_tables s AUDIT @ [row]) else pg_tables s' = pg_tables s"
proof (cases "ae_tenant_id e")
  case None
  then show ?thesis using assms by (simp add: audit_write_def)
next
  case (Some t)
  let ?cols = "map (\<lambda>(c, v). (c, if c = ''event_data'' then pg_jsonb env v else v)) (audit_insert_params dumps e)"
  let ?body = "\<lambda>g tabs. rbind (sql_insert env g AUDIT ?cols tabs) (\<lambda>tabs'. Inr ((), tabs'))"
  obtain r s1 where run: "rls_session env t ?body s = (r, s1)" by fastforce
  show ?thesis
  proof (cases r)
    case (Inl x)
    have "b = False" "s' = s1" using assms Some run Inl by (simp_all add: audit_write_def)
    moreover have "pg_tables s1 = pg_tables s"
      using run Inl unfolding rls_session_def by (auto dest: verified_transaction_Inl)
    ultimately show ?thesis by simp
  next
    case (Inr u)
    have "b = True" "s' = s1" using assms Some run Inr by (simp_all add: audit_write_def)
    moreover have "?body (tenant_scope t) (pg_tables s) = Inr (u, pg_tables s1)"
      using run Inr unfolding rls_session_def by (auto dest: verified_transaction_Inr)
    then have "sql_insert env (tenant_scope t) AUDIT ?cols (pg_tables s) = Inr (pg_tables s1)" by (auto simp: result_simps)
    ultimately show ?thesis unfolding sql_insert_Inr by auto
  qed
qed

lemma audit_write_other: "T \<noteq> AUDIT \<Longrightarrow> pg_tables (snd (audit_write env dumps e s)) T = pg_tables s T"
  using audit_write_tables [of env dumps e s "fst (audit_write env dumps e s)" "snd (audit_write env dumps e s)"]
  by (auto split: if_splits)

text \<open>The stable code of a failure is decided by the registry alone: it is INFRA_FAILURE exactly for
  an exception that is an instance of no registered type, and the two contract errors keep
  their own codes although they share a base class.\<close>

theorem failure_code_for_exact:
  "(failure_code_for e = INFRA_FAILURE \<longleftrightarrow> list_all (\<lambda>(c, code). \<not> isinstance e c) REGISTRY) \<and>
   (failure_code_for e = CONTRACT_VIOLATION \<longleftrightarrow> isinstance e EventContractError) \<and>
   (failure_code_for e = PATH_MISMATCH \<longleftrightarrow> isinstance e EventPathMismatchError) \<and>
   (failure_code_for e = MAPPING_CONFIG_INVALID \<longleftrightarrow> isinstance e MappingConfigError) \<and>
   (failure_code_for e = SUITE_REF_UNSUPPORTED \<longleftrightarrow> isinstance e SuiteDefinitionError) \<and>
   (failure_code_for e = HOT_POSITION_MISSING \<longleftrightarrow> isinstance e HotPositionMissingError)"
proof -
  obtain c attrs where e: "e = Exn c attrs" by (cases e)
  have leaf: "is_instance c d \<longleftrightarrow> c = d"
    if "d \<in> {EventPathMismatchError, EventContractError, MappingConfigError, SuiteDefinitionError, HotPositionMissingError,
      PiiBackendNotConfiguredError}" for d
    using that by (cases c) (auto simp: is_instance_def numeral_eq_Suc)
  show ?thesis
    by (simp add: e isinstance_def failure_code_for_def REGISTRY_def leaf)
qed

end
