(* ===== verification/Pull_Loop.thy ===== *)
theory Pull_Loop
  imports Dis_Core "HOL-Library.Multiset" "HOL-Library.Sublist"
begin

text \<open>
  The pull loop both consumers run: \<open>Subscriber.poll_once\<close> and \<open>run_forever\<close> are the same code in
  \<open>streaming_consumer/clients/pubsub.py\<close> and \<open>csv_ingest_worker/subscriber.py\<close>. The service's
  \<open>process_message\<close> is the argument \<open>decide\<close>, its state the type of the subscription's world. The
  broker is a record of whether it takes an acknowledgement or a deadline change; the ids the
  service has acknowledged or handed back are part of the state.
\<close>

section \<open>Model\<close>

datatype decision = Ack | Nack

record message =
  ms_ack_id :: string
  ms_data :: string

record broker =
  tp_acknowledge :: "nat \<Rightarrow> string list \<Rightarrow> exn option"
  tp_modify_ack_deadline :: "nat \<Rightarrow> string list \<Rightarrow> exn option"

record 'w subscription =
  sb_world :: 'w
  sb_calls :: nat
  sb_acked :: "string list"
  sb_nacked :: "string list"

type_synonym 'w handler = "string \<Rightarrow> 'w \<Rightarrow> (exn, decision) result \<times> 'w"

text \<open>The loop of a pass: the decisions in order of delivery; an exception ends the pass.\<close>

fun route_messages :: "'w handler \<Rightarrow> message list \<Rightarrow> 'w \<Rightarrow> (exn, string list \<times> string list) result \<times> 'w" where
  "route_messages decide [] w = (Inr ([], []), w)"
| "route_messages decide (m # ms) w =
    (case decide (ms_data m) w of
       (Inl e, w') \<Rightarrow> (Inl e, w')
     | (Inr d, w') \<Rightarrow>
       (case route_messages decide ms w' of
          (Inl e, w'') \<Rightarrow> (Inl e, w'')
        | (Inr (acks, nacks), w'') \<Rightarrow>
            (Inr (if d = Ack then (ms_ack_id m # acks, nacks) else (acks, ms_ack_id m # nacks)), w'')))"

definition acknowledge :: "'z broker_scheme \<Rightarrow> string list \<Rightarrow> 'w subscription \<Rightarrow> (exn, unit) result \<times> 'w subscription" where
  "acknowledge tp ids sb = (if ids = [] then (Inr (), sb) else
     let sb1 = sb\<lparr>sb_calls := Suc (sb_calls sb)\<rparr> in
     case tp_acknowledge tp (sb_calls sb) ids of
       Some e \<Rightarrow> (Inl e, sb1)
     | None \<Rightarrow> (Inr (), sb1\<lparr>sb_acked := sb_acked sb @ ids\<rparr>))"

definition hand_back :: "'z broker_scheme \<Rightarrow> string list \<Rightarrow> 'w subscription \<Rightarrow> (exn, unit) result \<times> 'w subscription" where
  "hand_back tp ids sb = (if ids = [] then (Inr (), sb) else
     let sb1 = sb\<lparr>sb_calls := Suc (sb_calls sb)\<rparr> in
     case tp_modify_ack_deadline tp (sb_calls sb) ids of
       Some e \<Rightarrow> (Inl e, sb1)
     | None \<Rightarrow> (Inr (), sb1\<lparr>sb_nacked := sb_nacked sb @ ids\<rparr>))"

definition poll_once ::
  "'w handler \<Rightarrow> 'z broker_scheme \<Rightarrow> (exn, message list) result \<Rightarrow> 'w subscription \<Rightarrow> (exn, nat) result \<times> 'w subscription" where
  "poll_once decide tp pulled sb = (case pulled of
     Inl e \<Rightarrow> (Inl e, sb)
   | Inr received \<Rightarrow>
     (case route_messages decide received (sb_world sb) of
        (Inl e, w) \<Rightarrow> (Inl e, sb\<lparr>sb_world := w\<rparr>)
      | (Inr (acks, nacks), w) \<Rightarrow>
        (case acknowledge tp acks (sb\<lparr>sb_world := w\<rparr>) of
           (Inl e, sb1) \<Rightarrow> (Inl e, sb1)
         | (Inr _, sb1) \<Rightarrow>
           (case hand_back tp nacks sb1 of
              (Inl e, sb2) \<Rightarrow> (Inl e, sb2)
            | (Inr _, sb2) \<Rightarrow> (Inr (length received), sb2)))))"

text \<open>\<open>run_forever\<close> for the pulls of a finite run: a pass that raised is followed by the next.\<close>

fun run_passes ::
  "'w handler \<Rightarrow> 'z broker_scheme \<Rightarrow> (exn, message list) result list \<Rightarrow> 'w subscription \<Rightarrow> 'w subscription" where
  "run_passes decide tp [] sb = sb"
| "run_passes decide tp (p # ps) sb = run_passes decide tp ps (snd (poll_once decide tp p sb))"

section \<open>Passes\<close>

lemma route_messages_ids:
  "route_messages decide ms w = (Inr (acks, nacks), w') \<Longrightarrow>
   mset acks + mset nacks = mset (map ms_ack_id ms) \<and> subseq acks (map ms_ack_id ms) \<and> subseq nacks (map ms_ack_id ms)"
proof (induction ms arbitrary: w acks nacks)
  case (Cons m ms)
  from Cons.prems obtain d w1 acks1 nacks1 where
    "route_messages decide ms w1 = (Inr (acks1, nacks1), w')"
    and "(if d = Ack then (ms_ack_id m # acks1, nacks1) else (acks1, ms_ack_id m # nacks1)) = (acks, nacks)"
    by (auto split: sum.splits prod.splits)
  with Cons.IH [of w1 acks1 nacks1] show ?case by (auto split: if_splits)
qed simp

text \<open>C6: A pass that returns has settled every message it pulled exactly once, whatever the service does
  with it: the ids it acknowledged and the ids it handed back are together the ids of the
  delivery, each as often as it came, and both in the order of delivery.\<close>

theorem poll_once_settles_each:
  assumes "poll_once decide tp (Inr received) sb = (Inr n, sb')"
  shows "\<exists>acks nacks. n = length received \<and> sb_acked sb' = sb_acked sb @ acks \<and> sb_nacked sb' = sb_nacked sb @ nacks \<and>
    mset acks + mset nacks = mset (map ms_ack_id received) \<and>
    subseq acks (map ms_ack_id received) \<and> subseq nacks (map ms_ack_id received)"
proof -
  obtain r w where run: "route_messages decide received (sb_world sb) = (r, w)"
    by (cases "route_messages decide received (sb_world sb)")
  from assms obtain acks nacks where r: "r = Inr (acks, nacks)"
    by (cases r) (auto simp: poll_once_def run)
  obtain r1 sb1 where a: "acknowledge tp acks (sb\<lparr>sb_world := w\<rparr>) = (r1, sb1)" by (cases "acknowledge tp acks (sb\<lparr>sb_world := w\<rparr>)")
  obtain r2 sb2 where h: "hand_back tp nacks sb1 = (r2, sb2)" by (cases "hand_back tp nacks sb1")
  have ok: "is_ok r1" "is_ok r2" "sb2 = sb'" "n = length received"
    using assms by (auto simp: poll_once_def run r a h split: sum.splits)
  have "sb_acked sb1 = sb_acked sb @ acks \<and> sb_nacked sb1 = sb_nacked sb"
    using a ok(1) by (auto simp: acknowledge_def Let_def split: if_splits option.splits)
  moreover have "sb_nacked sb2 = sb_nacked sb1 @ nacks \<and> sb_acked sb2 = sb_acked sb1"
    using h ok(2) by (auto simp: hand_back_def Let_def split: if_splits option.splits)
  ultimately show ?thesis using route_messages_ids [OF run [unfolded r]] ok(3,4) by (intro exI [of _ acks] exI [of _ nacks]) simp
qed

text \<open>A message the handler raises on is poison: it ends the pass before anything is settled.\<close>

definition poisonous :: "'w handler \<Rightarrow> message \<Rightarrow> bool" where
  "poisonous decide m \<longleftrightarrow> (\<forall>w. \<not> is_ok (fst (decide (ms_data m) w)))"

lemma route_messages_poison: "list_ex (poisonous decide) ms \<Longrightarrow> \<not> is_ok (fst (route_messages decide ms w))"
proof (induction ms arbitrary: w)
  case (Cons m ms)
  obtain r w1 where run: "decide (ms_data m) w = (r, w1)" by (cases "decide (ms_data m) w")
  show ?case
  proof (cases "poisonous decide m")
    case True
    then have "\<not> is_ok (fst (decide (ms_data m) w))" by (simp add: poisonous_def)
    then show ?thesis by (cases r) (simp_all add: run)
  next
    case False
    have "\<not> is_ok (fst (route_messages decide ms w1))" using Cons False by simp
    then show ?thesis by (cases r) (auto simp: run split: sum.splits prod.splits)
  qed
qed simp

lemma poll_once_poison:
  assumes "list_ex (poisonous decide) received"
  shows "sb_acked (snd (poll_once decide tp (Inr received) sb)) = sb_acked sb"
    and "sb_nacked (snd (poll_once decide tp (Inr received) sb)) = sb_nacked sb"
  using route_messages_poison [OF assms, of "sb_world sb"]
  by (auto simp: poll_once_def split: sum.splits prod.splits)

lemma run_passes_poison:
  "list_all (\<lambda>p. case p of Inl _ \<Rightarrow> True | Inr received \<Rightarrow> list_ex (poisonous decide) received) pulls \<Longrightarrow>
   sb_acked (run_passes decide tp pulls sb) = sb_acked sb \<and> sb_nacked (run_passes decide tp pulls sb) = sb_nacked sb"
proof (induction pulls arbitrary: sb)
  case (Cons p ps)
  have "sb_acked (snd (poll_once decide tp p sb)) = sb_acked sb \<and> sb_nacked (snd (poll_once decide tp p sb)) = sb_nacked sb"
    using Cons.prems by (cases p) (simp_all add: poll_once_poison poll_once_def [where pulled = "Inl e" for e])
  with Cons show ?case by simp
qed simp

section \<open>What every message keeps\<close>

lemma settle_world [simp]:
  "sb_world (snd (acknowledge tp ids sb)) = sb_world sb" "sb_world (snd (hand_back tp ids sb)) = sb_world sb"
  by (simp_all add: acknowledge_def hand_back_def Let_def split: option.splits)

lemma poll_once_world:
  "sb_world (snd (poll_once decide tp (Inr ms) sb)) = snd (route_messages decide ms (sb_world sb))"
proof -
  obtain r w where run: "route_messages decide ms (sb_world sb) = (r, w)" by (cases "route_messages decide ms (sb_world sb)")
  show ?thesis
  proof (cases r)
    case (Inr ids)
    obtain acks nacks where ids: "ids = (acks, nacks)" by (cases ids)
    obtain r1 sb1 where a: "acknowledge tp acks (sb\<lparr>sb_world := w\<rparr>) = (r1, sb1)" by (cases "acknowledge tp acks (sb\<lparr>sb_world := w\<rparr>)")
    obtain r2 sb2 where h: "hand_back tp nacks sb1 = (r2, sb2)" by (cases "hand_back tp nacks sb1")
    have "sb_world sb1 = w" "sb_world sb2 = w"
      using settle_world(1) [of tp acks "sb\<lparr>sb_world := w\<rparr>"] settle_world(2) [of tp nacks sb1] a h by simp_all
    then show ?thesis by (cases r1; cases r2) (simp_all add: poll_once_def run Inr ids a h)
  qed (simp add: poll_once_def run)
qed

text \<open>The contract of a handler: each message moves the state along a reflexive and transitive
  relation, also when it raises.\<close>

locale handler_relation =
  fixes decide :: "'w handler" and R :: "'w \<Rightarrow> 'w \<Rightarrow> bool"
  assumes world_refl: "R w w"
    and world_trans: "R a b \<Longrightarrow> R b c \<Longrightarrow> R a c"
    and decide_R: "R w (snd (decide data w))"
begin

lemma route_messages_R: "R w (snd (route_messages decide ms w))"
proof (induction ms arbitrary: w)
  case (Cons m ms)
  obtain r w1 where run: "decide (ms_data m) w = (r, w1)" by (cases "decide (ms_data m) w")
  have "R w w1" using decide_R [of w "ms_data m"] run by simp
  then show ?case using world_trans Cons.IH [of w1] run by (cases r) (auto split: sum.splits prod.splits)
qed (simp add: world_refl)

lemma run_passes_R: "R (sb_world sb) (sb_world (run_passes decide tp pulls sb))"
proof (induction pulls arbitrary: sb)
  case (Cons p ps)
  have "R (sb_world sb) (sb_world (snd (poll_once decide tp p sb)))"
    by (cases p) (simp_all add: poll_once_def [where pulled = "Inl e" for e] world_refl poll_once_world route_messages_R)
  then show ?case using world_trans [OF _ Cons.IH] by simp
qed (simp add: world_refl)

end

end
