(* ===== verification/Ingest_Worker.thy ===== *)
theory Ingest_Worker
  imports Csv_Envelope Pii_Gate Effects Audit_Log Pull_Loop
begin

text \<open>
  The CSV ingest worker, \<open>services/csv-ingest-worker\<close>: \<open>bronze.py\<close>, \<open>preflight.py\<close>, \<open>audit.py\<close>,
  \<open>pipeline.py\<close> and the routing of \<open>subscriber.py\<close>.

  \<^item> The state is the database, the messages the broker has taken on \<open>ingress.ready\<close>, a count of
    publish calls, a count of clock and id readings and the mark of the lap timer.
  \<^item> Outside are the record \<open>worker_runtime\<close>: the database environment, DuckDB's answer on a file,
    the object store, SHA-256, the clocks, minted ids, the broker and the texts of exceptions.
    \<open>now_utc()\<close> is \<open>wr_clock\<close> in UTC, in microseconds.
\<close>

section \<open>State\<close>

text \<open>DuckDB on one file: an error of the given class, no row, or the sniffed delimiter, header flag,
  columns with their types, and the row count.\<close>

datatype sniff = Sniff_error string | Sniff_none | Sniffed string bool "(string \<times> string) list" "int option"

record worker_runtime =
  wr_env :: pgenv
  wr_json_dumps :: "pyval \<Rightarrow> string"
  wr_mono :: "nat \<Rightarrow> int"
  wr_clock :: "nat \<Rightarrow> int"
  wr_new_id :: "nat \<Rightarrow> uuid"
  wr_download :: "string \<Rightarrow> (exn, string) result"
  wr_sha256 :: "string \<Rightarrow> string"
  wr_sniff :: "string \<Rightarrow> sniff"
  wr_publish :: "nat \<Rightarrow> string \<Rightarrow> ingress_event \<Rightarrow> exn option"
  wr_exn_str :: "exn \<Rightarrow> string"
  wr_exn_name :: "exn \<Rightarrow> string"
  wr_bronze_bucket :: string
  wr_ingress_topic :: string
  wr_pii_backend :: bool

record worker =
  wk_pg :: pgstate
  wk_ticks :: nat
  wk_mark :: int
  wk_sends :: nat
  wk_published :: "(string \<times> ingress_event) list"

type_synonym 'a work = "(worker, 'a) eff"

abbreviation BRONZE :: string where "BRONZE \<equiv> ''bronze.data_ingress_events''"

definition WORKER_SERVICE_NAME :: string where "WORKER_SERVICE_NAME = ''csv-ingest-worker''"

definition DEDUP_WINDOW_HOURS :: int where "DEDUP_WINDOW_HOURS = 24"

definition dedup_window :: int where "dedup_window = DEDUP_WINDOW_HOURS * 3600 * 1000000"

definition wpg :: "(pgstate \<Rightarrow> (exn, 'a) result \<times> pgstate) \<Rightarrow> 'a work" where
  "wpg f s = (case f (wk_pg s) of (r, pg) \<Rightarrow> (r, s\<lparr>wk_pg := pg\<rparr>))"

definition wnow :: "worker_runtime \<Rightarrow> pydatetime work" where
  "wnow rt s = (Inr (PyDatetime (wr_clock rt (wk_ticks s)) (Some 0)), s\<lparr>wk_ticks := Suc (wk_ticks s)\<rparr>)"

definition wnew_id :: "worker_runtime \<Rightarrow> uuid work" where
  "wnew_id rt s = (Inr (wr_new_id rt (wk_ticks s)), s\<lparr>wk_ticks := Suc (wk_ticks s)\<rparr>)"

definition wlap :: "worker_runtime \<Rightarrow> int work" where
  "wlap rt s = (let now = wr_mono rt (wk_ticks s) in
     (Inr (max ((now - wk_mark s) div 1000) 0), s\<lparr>wk_mark := now, wk_ticks := Suc (wk_ticks s)\<rparr>))"

definition wpublish :: "worker_runtime \<Rightarrow> ingress_event \<Rightarrow> unit work" where
  "wpublish rt e s = (let s1 = s\<lparr>wk_sends := Suc (wk_sends s)\<rparr> in
     case wr_publish rt (wk_sends s) (wr_ingress_topic rt) e of
       Some x \<Rightarrow> (Inl x, s1)
     | None \<Rightarrow> (Inr (), s1\<lparr>wk_published := wk_published s @ [(wr_ingress_topic rt, e)]\<rparr>))"

section \<open>Audit\<close>

definition worker_event :: "uuid \<Rightarrow> uuid \<Rightarrow> stage \<Rightarrow> outcome \<Rightarrow> audit_event" where
  "worker_event tenant trace stg out = \<lparr>ae_event_timestamp = PyDatetime 0 None, ae_trace_id = trace, ae_prior_trace_id = None,
     ae_tenant_id = Some tenant, ae_data_ingress_event_id = None, ae_service_name = WORKER_SERVICE_NAME,
     ae_service_version = None, ae_stage = stg, ae_event_scope = INGRESS_EVENT, ae_outcome = out, ae_row_count = None,
     ae_rows_succeeded = None, ae_rows_failed = None, ae_duration_ms = None, ae_row_offset = None,
     ae_mapping_version_id = None, ae_failure_code = None, ae_failure_message = None, ae_event_data = None,
     ae_auth_principal = None, ae_client_ip = None\<rparr>"

text \<open>\<open>WorkerAudit.emit\<close> with the lap timer of its caller: stamp, build, write; every failure is swallowed.\<close>

definition worker_emit :: "worker_runtime \<Rightarrow> audit_event \<Rightarrow> unit work" where
  "worker_emit rt e = ebind (wlap rt) (\<lambda>ms. ebind (wnow rt) (\<lambda>now s.
     case validate_audit_event (e\<lparr>ae_event_timestamp := now, ae_duration_ms := Some ms\<rparr>) of
       Inl _ \<Rightarrow> (Inr (), s)
     | Inr e' \<Rightarrow> (Inr (), s\<lparr>wk_pg := snd (audit_write (wr_env rt) (wr_json_dumps rt) e' (wk_pg s))\<rparr>)))"

section \<open>Bronze\<close>

record prior_ingest =
  pi_bronze_id :: uuid
  pi_trace_id :: uuid
  pi_store_id :: "uuid option"
  pi_source_id :: string
  pi_gcs_uri :: string
  pi_received_at :: pydatetime
  pi_published_at :: "pydatetime option"
  pi_processing_status :: string

definition is_published :: "prior_ingest \<Rightarrow> bool" where
  "is_published p \<longleftrightarrow> pi_published_at p \<noteq> None \<or> pi_processing_status p = ''PUBLISHED''"

record new_bronze =
  bn_id :: uuid
  bn_tenant_id :: uuid
  bn_store_id :: uuid
  bn_source_id :: string
  bn_trace_id :: uuid
  bn_gcs_uri :: string
  bn_payload_size_bytes :: int
  bn_payload_sha256 :: string
  bn_row_count :: "int option"
  bn_source_payload_id :: string
  bn_template_id :: uuid
  bn_received_at :: pydatetime
  bn_processing_status :: string

definition require_key_component :: "string \<Rightarrow> string \<Rightarrow> string \<Rightarrow> string \<Rightarrow> (exn, unit) result" where
  "require_key_component name v tenant_id trace_id =
     require (py_strip v \<noteq> []) (event_contract_error (Some name) (Some tenant_id) (Some trace_id))"

text \<open>The instant of a TIMESTAMPTZ column; a null has none.\<close>

definition row_instant :: "payload \<Rightarrow> string \<Rightarrow> int option" where
  "row_instant r col = (case pget r col of PyDt d \<Rightarrow> dt_instant d | _ \<Rightarrow> None)"

definition same_upload :: "string \<Rightarrow> string \<Rightarrow> payload \<Rightarrow> bool" where
  "same_upload session sha r \<longleftrightarrow> pget r ''source_payload_id'' = PyStr session \<and> pget r ''payload_sha256'' = PyStr sha \<and>
     pget r ''dis_channel'' = PyStr ''csv_upload''"

definition received_since :: "int \<Rightarrow> payload \<Rightarrow> bool" where
  "received_since cutoff r = (case row_instant r ''received_at'' of None \<Rightarrow> False | Some i \<Rightarrow> cutoff \<le> i)"

text \<open>\<open>ORDER BY received_at DESC LIMIT 1\<close>; among equal times the first row of the table.\<close>

definition latest_received :: "payload list \<Rightarrow> payload option" where
  "latest_received rows = (case rows of [] \<Rightarrow> None | r # rs \<Rightarrow> Some
     (foldl (\<lambda>best x. if the (row_instant best ''received_at'') < the (row_instant x ''received_at'') then x else best) r rs))"

definition uuid_val :: "pyval \<Rightarrow> uuid" where
  "uuid_val v = (case v of PyUuid u \<Rightarrow> u | _ \<Rightarrow> 0)"

definition dt_val :: "pyval \<Rightarrow> pydatetime option" where
  "dt_val v = (case v of PyDt d \<Rightarrow> Some d | _ \<Rightarrow> None)"

definition prior_of :: "payload \<Rightarrow> prior_ingest" where
  "prior_of r = \<lparr>pi_bronze_id = uuid_val (pget r ''id''), pi_trace_id = uuid_val (pget r ''trace_id''),
     pi_store_id = (case pget r ''store_id'' of PyUuid u \<Rightarrow> Some u | _ \<Rightarrow> None), pi_source_id = py_str (pget r ''source_id''),
     pi_gcs_uri = py_str (pget r ''gcs_uri''),
     pi_received_at = (case dt_val (pget r ''received_at'') of Some d \<Rightarrow> d | None \<Rightarrow> PyDatetime 0 None),
     pi_published_at = dt_val (pget r ''published_at''), pi_processing_status = py_str (pget r ''processing_status'')\<rparr>"

text \<open>
  \<open>find_prior\<close> in its session. The clock is read for the cutoff; it is read first here, where the
  code checks the two key components before, and neither the checks nor the session read a clock.
  Of rows received at the same instant, which \<open>ORDER BY\<close> leaves to the server, the first is taken.
\<close>

definition find_prior :: "worker_runtime \<Rightarrow> csv_event \<Rightarrow> string \<Rightarrow> prior_ingest option work" where
  "find_prior rt ev sha = ebind (wnow rt) (\<lambda>now. wpg (rls_session (wr_env rt) (ce_tenant_id ev) (\<lambda>g tabs.
     rbind (require_key_component ''upload_session_id'' (ce_upload_session_id ev) (uuid_str (ce_tenant_id ev)) (uuid_str (ce_trace_id ev))) (\<lambda>_.
     rbind (require_key_component ''payload_sha256'' sha (uuid_str (ce_tenant_id ev)) (uuid_str (ce_trace_id ev))) (\<lambda>_.
     Inr (map_option prior_of (latest_received (sql_select g BRONZE
       (\<lambda>r. same_upload (ce_upload_session_id ev) sha r \<and> received_since (dt_wall now - dedup_window) r) tabs)), tabs))))))"

definition bronze_params :: "new_bronze \<Rightarrow> payload" where
  "bronze_params b =
    [(''id'', PyUuid (bn_id b)), (''tenant_id'', PyUuid (bn_tenant_id b)), (''store_id'', PyUuid (bn_store_id b)),
     (''source_id'', PyStr (bn_source_id b)), (''dis_channel'', PyStr ''csv_upload''), (''trace_id'', PyUuid (bn_trace_id b)),
     (''gcs_uri'', PyStr (bn_gcs_uri b)), (''payload_size_bytes'', PyInt (bn_payload_size_bytes b)),
     (''payload_sha256'', PyStr (bn_payload_sha256 b)), (''row_count'', opt_val PyInt (bn_row_count b)),
     (''content_type'', PyStr ''text/csv''), (''source_payload_id'', PyStr (bn_source_payload_id b)),
     (''template_id'', PyUuid (bn_template_id b)), (''received_at'', PyDt (bn_received_at b)),
     (''processing_status'', PyStr (bn_processing_status b))]"

definition insert_row :: "worker_runtime \<Rightarrow> uuid \<Rightarrow> new_bronze \<Rightarrow> unit work" where
  "insert_row rt tenant b = wpg (rls_session (wr_env rt) tenant (\<lambda>g tabs.
     rbind (sql_insert (wr_env rt) g BRONZE (bronze_params b) tabs) (\<lambda>tabs'. Inr ((), tabs'))))"

definition published_columns :: "pydatetime \<Rightarrow> payload" where
  "published_columns published_at = [(''published_at'', PyDt published_at), (''processing_status'', PyStr ''PUBLISHED'')]"

definition mark_published :: "worker_runtime \<Rightarrow> uuid \<Rightarrow> uuid \<Rightarrow> unit work" where
  "mark_published rt tenant bronze_id = ebind (wnow rt) (\<lambda>published_at. wpg (rls_session (wr_env rt) tenant (\<lambda>g tabs.
     rbind (sql_update (wr_env rt) g BRONZE (\<lambda>r. pget r ''id'' = PyUuid bronze_id) (published_columns published_at) tabs)
       (\<lambda>(n, tabs'). Inr ((), tabs')))))"

section \<open>Preflight\<close>

definition preflight_failed_error :: "string \<Rightarrow> string option \<Rightarrow> string \<Rightarrow> string \<Rightarrow> exn" where
  "preflight_failed_error reason detail tenant trace = Exn PreflightFailedError
     [(''tenant_id'', AStr tenant), (''trace_id'', AStr trace), (''reason'', AStr reason), (''detail'', opt_str detail)]"

record preflight_result =
  pf_columns :: "string list"
  pf_column_types :: "string list"
  pf_row_count :: int
  pf_size_bytes :: int
  pf_delimiter :: string

text \<open>\<open>bytes.strip()\<close> is empty: only ASCII white space.\<close>

definition blank_bytes :: "string \<Rightarrow> bool" where
  "blank_bytes data = list_all (\<lambda>c. let n = of_char c :: nat in n = 32 \<or> (9 \<le> n \<and> n \<le> 13)) data"

definition run_preflight :: "worker_runtime \<Rightarrow> string \<Rightarrow> string \<Rightarrow> string \<Rightarrow> (exn, preflight_result) result" where
  "run_preflight rt data tenant trace =
    (if blank_bytes data then Inl (preflight_failed_error ''not_csv'' (Some ''empty object'') tenant trace)
     else case wr_sniff rt data of
       Sniff_error cls \<Rightarrow> Inl (preflight_failed_error ''not_csv'' (Some cls) tenant trace)
     | Sniff_none \<Rightarrow> Inl (preflight_failed_error ''not_csv'' None tenant trace)
     | Sniffed delimiter has_header columns_raw counted \<Rightarrow>
         let columns = map fst columns_raw; row_count = (case counted of None \<Rightarrow> 0 | Some n \<Rightarrow> n);
             detail = Some (''columns='' @ dec_str (length columns)) in
         if columns = [] then Inl (preflight_failed_error ''no_columns'' None tenant trace)
         else if \<not> has_header then Inl (preflight_failed_error ''no_header'' detail tenant trace)
         else if row_count < 1 then Inl (preflight_failed_error ''no_data_rows'' detail tenant trace)
         else Inr \<lparr>pf_columns = columns, pf_column_types = map snd columns_raw, pf_row_count = row_count,
                pf_size_bytes = int (length data), pf_delimiter = delimiter\<rparr>)"

section \<open>The pipeline\<close>

datatype ingest_disposition = Ingested | Duplicate_noop | Duplicate_resumed | Preflight_failed

record ingest_outcome =
  io_disposition :: ingest_disposition
  io_trace_id :: uuid
  io_bronze_id :: "uuid option"

definition PREFLIGHT_CODES :: "(string, failure_code) pydict" where
  "PREFLIGHT_CODES = [(''not_csv'', PREFLIGHT_NOT_CSV), (''no_columns'', PREFLIGHT_NO_COLUMNS),
     (''no_header'', PREFLIGHT_NO_HEADER), (''no_data_rows'', PREFLIGHT_NO_DATA_ROWS)]"

definition path_checks :: "worker_runtime \<Rightarrow> csv_event \<Rightarrow> string \<Rightarrow> parsed_object_path \<Rightarrow> (string \<times> string \<times> string) list" where
  "path_checks rt ev bucket parsed =
     [(''bucket'', bucket, wr_bronze_bucket rt), (''tenant_id'', uuid_str (pop_tenant_id parsed), uuid_str (ce_tenant_id ev)),
      (''source_id'', pop_source_id parsed, ce_source_id ev), (''trace_id'', pop_trace_id parsed, uuid_str (ce_trace_id ev)),
      (''ext'', pop_ext parsed, ''csv'')]"

definition worker_cross_check :: "worker_runtime \<Rightarrow> csv_event \<Rightarrow> string work" where
  "worker_cross_check rt ev =
     ebind (elift (split_object_uri (ce_gcs_uri ev))) (\<lambda>(bucket, object_key).
     ebind (elift (parse_object_path object_key)) (\<lambda>parsed.
     case filter (\<lambda>(name, path_value, event_value). path_value \<noteq> event_value) (path_checks rt ev bucket parsed) of
       [] \<Rightarrow> ereturn object_key
     | (name, path_value, event_value) # _ \<Rightarrow>
         let error = event_path_mismatch_error (Some name) (Some event_value) (Some path_value)
               (Some (uuid_str (ce_tenant_id ev))) (Some (uuid_str (ce_trace_id ev))) in
         ebind (worker_emit rt ((worker_event (ce_tenant_id ev) (ce_trace_id ev) RECEIVED FAILURE)
           \<lparr>ae_failure_code := Some (failure_code_value PATH_MISMATCH), ae_failure_message := Some (wr_exn_str rt error),
            ae_event_data := Some [(''field'', PyStr name), (''event_value'', PyStr event_value), (''path_value'', PyStr path_value)]\<rparr>))
           (\<lambda>_. eraise error)))"

definition publish_and_mark :: "worker_runtime \<Rightarrow> csv_event \<Rightarrow> uuid \<Rightarrow> uuid \<Rightarrow> pydatetime \<Rightarrow> string \<Rightarrow> unit work" where
  "publish_and_mark rt ev trace_id bronze_id received_at delimiter =
     ebind (elift (build_ingress_ready ev trace_id bronze_id received_at delimiter)) (\<lambda>envelope.
     ebind (wpublish rt envelope) (\<lambda>_. mark_published rt (ce_tenant_id ev) bronze_id))"

definition handle_duplicate :: "worker_runtime \<Rightarrow> csv_event \<Rightarrow> prior_ingest \<Rightarrow> string \<Rightarrow> ingest_outcome work" where
  "handle_duplicate rt ev prior data =
    (if pi_processing_status prior = ''FAILED'' \<or> is_published prior
     then ebind (worker_emit rt ((worker_event (ce_tenant_id ev) (ce_trace_id ev) RECEIVED OUTCOME_DUPLICATE_NOOP)
            \<lparr>ae_prior_trace_id := Some (pi_trace_id prior), ae_data_ingress_event_id := Some (pi_bronze_id prior),
             ae_event_data := Some [(''prior_status'', PyStr (pi_processing_status prior))]\<rparr>)) (\<lambda>_.
          ereturn \<lparr>io_disposition = Duplicate_noop, io_trace_id = pi_trace_id prior, io_bronze_id = Some (pi_bronze_id prior)\<rparr>)
     else ebind (elift (run_preflight rt data (uuid_str (ce_tenant_id ev)) (uuid_str (ce_trace_id ev)))) (\<lambda>preflight.
          ebind (publish_and_mark rt ev (pi_trace_id prior) (pi_bronze_id prior) (pi_received_at prior) (pf_delimiter preflight)) (\<lambda>_.
          ebind (worker_emit rt ((worker_event (ce_tenant_id ev) (pi_trace_id prior) INGRESS_PUBLISHED RETRIED)
            \<lparr>ae_data_ingress_event_id := Some (pi_bronze_id prior),
             ae_event_data := Some [(''resumed'', PyBool True), (''topic'', PyStr (wr_ingress_topic rt))]\<rparr>)) (\<lambda>_.
          ereturn \<lparr>io_disposition = Duplicate_resumed, io_trace_id = pi_trace_id prior, io_bronze_id = Some (pi_bronze_id prior)\<rparr>))))"

definition attr_val :: "attr \<Rightarrow> pyval" where
  "attr_val a = (case a of ANone \<Rightarrow> PyNone | AStr s \<Rightarrow> PyStr s | AInt i \<Rightarrow> PyInt i | AList xs \<Rightarrow> PyList (map PyStr xs))"

definition bronze_for ::
  "csv_event \<Rightarrow> uuid \<Rightarrow> int \<Rightarrow> string \<Rightarrow> int option \<Rightarrow> pydatetime \<Rightarrow> string \<Rightarrow> new_bronze" where
  "bronze_for ev bronze_id size_bytes sha row_count received_at status = \<lparr>bn_id = bronze_id, bn_tenant_id = ce_tenant_id ev,
     bn_store_id = ce_store_id ev, bn_source_id = ce_source_id ev, bn_trace_id = ce_trace_id ev, bn_gcs_uri = ce_gcs_uri ev,
     bn_payload_size_bytes = size_bytes, bn_payload_sha256 = sha, bn_row_count = row_count,
     bn_source_payload_id = ce_upload_session_id ev, bn_template_id = ce_template_id ev, bn_received_at = received_at,
     bn_processing_status = status\<rparr>"

definition handle_preflight_failure :: "worker_runtime \<Rightarrow> csv_event \<Rightarrow> string \<Rightarrow> int \<Rightarrow> exn \<Rightarrow> ingest_outcome work" where
  "handle_preflight_failure rt ev sha size_bytes error =
     ebind (wnew_id rt) (\<lambda>bronze_id.
     ebind (wnow rt) (\<lambda>received_at.
     ebind (insert_row rt (ce_tenant_id ev) (bronze_for ev bronze_id size_bytes sha None received_at ''FAILED'')) (\<lambda>_.
     ebind (worker_emit rt ((worker_event (ce_tenant_id ev) (ce_trace_id ev) RECEIVED FAILURE)
       \<lparr>ae_data_ingress_event_id := Some bronze_id,
        ae_failure_code := Some (failure_code_value (case getattr_none error ''reason'' of
           AStr reason \<Rightarrow> (case dget PREFLIGHT_CODES reason of Some code \<Rightarrow> code | None \<Rightarrow> INFRA_FAILURE)
         | _ \<Rightarrow> INFRA_FAILURE)),
        ae_failure_message := Some (wr_exn_str rt error),
        ae_event_data := Some [(''preflight_failed'', PyBool True), (''reason'', attr_val (getattr_none error ''reason'')),
          (''detail'', attr_val (getattr_none error ''detail''))]\<rparr>)) (\<lambda>_.
     ereturn \<lparr>io_disposition = Preflight_failed, io_trace_id = ce_trace_id ev, io_bronze_id = Some bronze_id\<rparr>))))"

definition gate_pii :: "worker_runtime \<Rightarrow> csv_event \<Rightarrow> preflight_result \<Rightarrow> string list work" where
  "gate_pii rt ev preflight =
    (case gate_csv_headers (pf_columns preflight) (uuid_str (ce_tenant_id ev)) (uuid_str (ce_trace_id ev)) (wr_pii_backend rt) of
       Inl exc \<Rightarrow>
         ebind (worker_emit rt ((worker_event (ce_tenant_id ev) (ce_trace_id ev) PII_TOKENIZED FAILURE)
           \<lparr>ae_failure_code := Some (failure_code_value (failure_code_for exc)), ae_failure_message := Some (wr_exn_str rt exc),
            ae_event_data := Some ((''exception_class'', PyStr (wr_exn_name rt exc)) #
              (if isinstance exc PiiBackendNotConfiguredError
               then [(''pii_columns_detected'', PyInt (case getattr_none exc ''columns'' of AList cs \<Rightarrow> int (length cs) | _ \<Rightarrow> 0))]
               else []))\<rparr>)) (\<lambda>_. eraise exc)
     | Inr detected \<Rightarrow>
         ebind (worker_emit rt ((worker_event (ce_tenant_id ev) (ce_trace_id ev) PII_TOKENIZED SUCCESS)
           \<lparr>ae_event_data := Some [(''pii_columns_detected'', PyInt (int (length detected))),
              (''backend_configured'', PyBool (wr_pii_backend rt))]\<rparr>)) (\<lambda>_. ereturn detected))"

text \<open>Stages 5 to 7 of a new upload: the gate, the bronze row, the publish and its mark.\<close>

definition ingest_fresh :: "worker_runtime \<Rightarrow> csv_event \<Rightarrow> string \<Rightarrow> preflight_result \<Rightarrow> ingest_outcome work" where
  "ingest_fresh rt ev sha preflight =
     ebind (worker_emit rt ((worker_event (ce_tenant_id ev) (ce_trace_id ev) RECEIVED SUCCESS)
       \<lparr>ae_row_count := Some (pf_row_count preflight),
        ae_event_data := Some [(''preflight'', PyDict [(''columns'', PyInt (int (length (pf_columns preflight)))),
            (''row_count'', PyInt (pf_row_count preflight)), (''size_bytes'', PyInt (pf_size_bytes preflight))]),
          (''upload_session_id'', PyStr (ce_upload_session_id ev))]\<rparr>)) (\<lambda>_.
     ebind (gate_pii rt ev preflight) (\<lambda>detected.
     ebind (wnew_id rt) (\<lambda>bronze_id.
     ebind (wnow rt) (\<lambda>received_at.
     ebind (insert_row rt (ce_tenant_id ev) (bronze_for ev bronze_id (pf_size_bytes preflight) sha (Some (pf_row_count preflight))
       received_at ''RECEIVED'')) (\<lambda>_.
     ebind (worker_emit rt ((worker_event (ce_tenant_id ev) (ce_trace_id ev) BRONZE_WRITTEN SUCCESS)
       \<lparr>ae_data_ingress_event_id := Some bronze_id, ae_row_count := Some (pf_row_count preflight),
        ae_event_data := Some [(''pii_columns_detected'', PyInt (int (length detected)))]\<rparr>)) (\<lambda>_.
     ebind (publish_and_mark rt ev (ce_trace_id ev) bronze_id received_at (pf_delimiter preflight)) (\<lambda>_.
     ebind (worker_emit rt ((worker_event (ce_tenant_id ev) (ce_trace_id ev) INGRESS_PUBLISHED SUCCESS)
       \<lparr>ae_data_ingress_event_id := Some bronze_id, ae_event_data := Some [(''topic'', PyStr (wr_ingress_topic rt))]\<rparr>)) (\<lambda>_.
     ereturn \<lparr>io_disposition = Ingested, io_trace_id = ce_trace_id ev, io_bronze_id = Some bronze_id\<rparr>))))))))"

definition ingest_event :: "worker_runtime \<Rightarrow> csv_event \<Rightarrow> ingest_outcome work" where
  "ingest_event rt ev =
     ebind (worker_cross_check rt ev) (\<lambda>object_key.
     ebind (elift (wr_download rt object_key)) (\<lambda>data.
     ebind (find_prior rt ev (wr_sha256 rt data)) (\<lambda>prior.
     case prior of
       Some p \<Rightarrow> handle_duplicate rt ev p data
     | None \<Rightarrow>
       (case run_preflight rt data (uuid_str (ce_tenant_id ev)) (uuid_str (ce_trace_id ev)) of
          Inl exc \<Rightarrow> if isinstance exc PreflightFailedError
            then handle_preflight_failure rt ev (wr_sha256 rt data) (int (length data)) exc else eraise exc
        | Inr preflight \<Rightarrow> ingest_fresh rt ev (wr_sha256 rt data) preflight))))"

text \<open>\<open>IngestPipeline.process\<close>: a new lap timer, then the stages.\<close>

definition ingest_process :: "worker_runtime \<Rightarrow> csv_event \<Rightarrow> ingest_outcome work" where
  "ingest_process rt ev s = ingest_event rt ev (s\<lparr>wk_mark := wr_mono rt (wk_ticks s), wk_ticks := Suc (wk_ticks s)\<rparr>)"

section \<open>The subscriber\<close>

definition TERMINAL :: "exc_class list" where
  "TERMINAL = [EventContractError, EventPathMismatchError, PiiBackendNotConfiguredError]"

record intake =
  in_decode :: "string \<Rightarrow> pyval option"
  in_pydantic :: pydantic

definition ingest_message :: "worker_runtime \<Rightarrow> intake \<Rightarrow> worker handler" where
  "ingest_message rt src data s =
    (case parse_csv_received (in_pydantic src) (in_decode src data) of
       Inl e \<Rightarrow> if isinstance e EventContractError then (Inr Ack, s) else (Inl e, s)
     | Inr ev \<Rightarrow>
       (case ingest_process rt ev s of
          (Inl e, s') \<Rightarrow> (Inr (if list_ex (isinstance e) TERMINAL then Ack else Nack), s')
        | (Inr out, s') \<Rightarrow> (Inr Ack, s')))"

definition ingest_passes ::
  "worker_runtime \<Rightarrow> intake \<Rightarrow> broker \<Rightarrow> (exn, message list) result list \<Rightarrow> worker subscription \<Rightarrow> worker subscription" where
  "ingest_passes rt src tp = run_passes (ingest_message rt src) tp"

end
