(* ===== verification/Upload_Stream.thy ===== *)
theory Upload_Stream
  imports Ingest_Worker
begin

text \<open>
  The body of a CSV upload in \<open>dis-ui-server\<close>: the streaming multipart reader with its byte limits
  (\<open>upload_stream.py\<close>) and the structural gate (\<open>tier0.py\<close>).

  \<^item> A body is bytes; a text that was decoded is kept as its UTF-8 bytes, and as code points where the
    gate looks at characters. Python's UTF-8 codec and its \<open>csv\<close> reader are modelled.
  \<^item> The push parser of \<open>python_multipart\<close> is the record \<open>multipart\<close>: what it calls back for each chunk,
    given the chunks before, and what it raises by itself. Nothing is assumed of it.
\<close>

section \<open>Limits\<close>

definition MAX_TEXT_FIELD_BYTES :: nat where "MAX_TEXT_FIELD_BYTES = 1024"

definition CSV_UPLOAD_MAX_FILE_BYTES :: nat where "CSV_UPLOAD_MAX_FILE_BYTES = 10 * 1024 * 1024"

definition CSV_UPLOAD_BODY_CEILING_BYTES :: nat where
  "CSV_UPLOAD_BODY_CEILING_BYTES = CSV_UPLOAD_MAX_FILE_BYTES + 64 * 1024"

definition payload_too_large_error :: "nat \<Rightarrow> nat \<Rightarrow> exn" where
  "payload_too_large_error limit observed = Exn PayloadTooLargeError
     [(''limit_bytes'', AInt (int limit)), (''observed_bytes'', AInt (int observed)), (''tenant_id'', ANone), (''trace_id'', ANone)]"

definition upload_request_error :: "string option \<Rightarrow> exn" where
  "upload_request_error part = Exn UploadRequestError [(''part'', opt_str part), (''tenant_id'', ANone), (''trace_id'', ANone)]"

definition upload_structure_error :: "string \<Rightarrow> string \<Rightarrow> string \<Rightarrow> exn" where
  "upload_structure_error reason tenant trace = Exn UploadStructureError
     [(''reason'', AStr reason), (''tenant_id'', AStr tenant), (''trace_id'', AStr trace)]"

section \<open>UTF-8\<close>

definition codes :: "string \<Rightarrow> nat list" where
  "codes bs = map of_char bs"

abbreviation continues :: "nat \<Rightarrow> bool" where
  "continues b \<equiv> 128 \<le> b \<and> b \<le> 191"

text \<open>The strict decoder: no overlong form, no surrogate, nothing above 10FFFF.\<close>

fun utf8 :: "nat list \<Rightarrow> nat list option" where
  "utf8 [] = Some []"
| "utf8 (a # bs) =
    (if a < 128 then map_option (Cons a) (utf8 bs)
     else case bs of
       [] \<Rightarrow> None
     | b # cs \<Rightarrow>
       if 194 \<le> a \<and> a \<le> 223 then if continues b then map_option (Cons ((a - 192) * 64 + (b - 128))) (utf8 cs) else None
       else (case cs of
         [] \<Rightarrow> None
       | c # ds \<Rightarrow>
         if 224 \<le> a \<and> a \<le> 239
         then if continues b \<and> continues c \<and> (a = 224 \<longrightarrow> 160 \<le> b) \<and> (a = 237 \<longrightarrow> b \<le> 159)
              then map_option (Cons ((a - 224) * 4096 + (b - 128) * 64 + (c - 128))) (utf8 ds) else None
         else (case ds of
           [] \<Rightarrow> None
         | d # es \<Rightarrow>
           if 240 \<le> a \<and> a \<le> 244 \<and> continues b \<and> continues c \<and> continues d \<and> (a = 240 \<longrightarrow> 144 \<le> b) \<and> (a = 244 \<longrightarrow> b \<le> 143)
           then map_option (Cons ((a - 240) * 262144 + (b - 128) * 4096 + (c - 128) * 64 + (d - 128))) (utf8 es) else None)))"

text \<open>\<open>decode("utf-8-sig")\<close>: a leading byte order mark is dropped.\<close>

definition decode_utf8_sig :: "string \<Rightarrow> nat list option" where
  "decode_utf8_sig bs = utf8 (if take 3 (codes bs) = [239, 187, 191] then drop 3 (codes bs) else codes bs)"

text \<open>The characters \<open>str.strip\<close> removes.\<close>

definition is_space_code :: "nat \<Rightarrow> bool" where
  "is_space_code c \<longleftrightarrow> (let n = int c in (9 \<le> n \<and> n \<le> 13) \<or> (28 \<le> n \<and> n \<le> 32) \<or> n = 133 \<or> n = 160 \<or> n = 5760 \<or>
     (8192 \<le> n \<and> n \<le> 8202) \<or> n \<in> {8232, 8233, 8239, 8287, 12288})"

section \<open>The csv reader\<close>

text \<open>
  \<open>csv.reader\<close> with the default dialect, a state machine fed one character at a time and the end of
  each line; a field holds at most 131072 characters.
\<close>

datatype csv_mode = Start_record | Start_field | In_field | In_quoted | Quote_in_quoted | Eat_crnl

record csv_state =
  cs_mode :: csv_mode
  cs_field :: "nat list"
  cs_fields :: "nat list list"

definition FIELD_LIMIT :: int where "FIELD_LIMIT = 131072"

definition csv_start :: csv_state where
  "csv_start = \<lparr>cs_mode = Start_record, cs_field = [], cs_fields = []\<rparr>"

definition add_char :: "csv_mode \<Rightarrow> nat \<Rightarrow> csv_state \<Rightarrow> csv_state option" where
  "add_char m c st = (if FIELD_LIMIT \<le> int (length (cs_field st)) then None
     else Some (st\<lparr>cs_mode := m, cs_field := cs_field st @ [c]\<rparr>))"

definition save_field :: "csv_mode \<Rightarrow> csv_state \<Rightarrow> csv_state option" where
  "save_field m st = Some (st\<lparr>cs_mode := m, cs_fields := cs_fields st @ [cs_field st], cs_field := []\<rparr>)"

definition in_crnl :: "nat \<Rightarrow> bool" where "in_crnl c \<longleftrightarrow> c = 10 \<or> c = 13"

definition start_field :: "nat \<Rightarrow> csv_state \<Rightarrow> csv_state option" where
  "start_field c st =
    (if in_crnl c then save_field Eat_crnl st
     else if c = 34 then Some (st\<lparr>cs_mode := In_quoted\<rparr>)
     else if c = 44 then save_field Start_field st
     else add_char In_field c st)"

definition csv_char :: "nat \<Rightarrow> csv_state \<Rightarrow> csv_state option" where
  "csv_char c st = (case cs_mode st of
     Start_record \<Rightarrow> if in_crnl c then Some (st\<lparr>cs_mode := Eat_crnl\<rparr>) else start_field c st
   | Start_field \<Rightarrow> start_field c st
   | In_field \<Rightarrow> if in_crnl c then save_field Eat_crnl st else if c = 44 then save_field Start_field st else add_char In_field c st
   | In_quoted \<Rightarrow> if c = 34 then Some (st\<lparr>cs_mode := Quote_in_quoted\<rparr>) else add_char In_quoted c st
   | Quote_in_quoted \<Rightarrow> if c = 34 then add_char In_quoted c st else if c = 44 then save_field Start_field st
       else if in_crnl c then save_field Eat_crnl st else add_char In_field c st
   | Eat_crnl \<Rightarrow> if in_crnl c then Some st else None)"

definition csv_line_end :: "csv_state \<Rightarrow> csv_state option" where
  "csv_line_end st = (case cs_mode st of
     Start_record \<Rightarrow> Some st
   | In_quoted \<Rightarrow> Some st
   | Eat_crnl \<Rightarrow> Some (st\<lparr>cs_mode := Start_record\<rparr>)
   | _ \<Rightarrow> save_field Start_record st)"

fun csv_line :: "nat list \<Rightarrow> csv_state \<Rightarrow> csv_state option" where
  "csv_line [] st = csv_line_end st"
| "csv_line (c # cs) st = (case csv_char c st of None \<Rightarrow> None | Some st' \<Rightarrow> csv_line cs st')"

fun csv_records :: "nat list list \<Rightarrow> csv_state \<Rightarrow> nat list list list option" where
  "csv_records [] st = (if cs_field st \<noteq> [] \<or> cs_mode st = In_quoted then Some [cs_fields st @ [cs_field st]] else Some [])"
| "csv_records (l # ls) st = (case csv_line l st of
     None \<Rightarrow> None
   | Some st' \<Rightarrow> if cs_mode st' = Start_record then map_option (Cons (cs_fields st')) (csv_records ls csv_start) else csv_records ls st')"

text \<open>Iterating a \<open>StringIO\<close>: lines end with their newline.\<close>

fun text_lines :: "nat list \<Rightarrow> nat list list" where
  "text_lines [] = []"
| "text_lines (c # cs) = (if c = 10 then [c] # text_lines cs else case text_lines cs of [] \<Rightarrow> [[c]] | l # ls \<Rightarrow> (c # l) # ls)"

section \<open>Tier 0\<close>

definition MIN_CSV_RECORDS :: nat where "MIN_CSV_RECORDS = 2"

definition filled :: "nat list list \<Rightarrow> bool" where
  "filled row = list_ex (list_ex (\<lambda>c. \<not> is_space_code c)) row"

definition run_tier0 :: "string \<Rightarrow> string \<Rightarrow> string \<Rightarrow> (exn, nat) result" where
  "run_tier0 file_bytes tenant trace =
    (if blank_bytes file_bytes then Inl (upload_structure_error ''empty_file'' tenant trace)
     else case decode_utf8_sig file_bytes of
       None \<Rightarrow> Inl (upload_structure_error ''not_utf8'' tenant trace)
     | Some text \<Rightarrow> (case csv_records (text_lines text) csv_start of
         None \<Rightarrow> Inl (upload_structure_error ''not_csv'' tenant trace)
       | Some rows \<Rightarrow> let records = filter filled rows in
           if length records < MIN_CSV_RECORDS then Inl (upload_structure_error ''below_min_rows'' tenant trace)
           else Inr (length records - 1)))"

section \<open>The multipart reader\<close>

datatype part_event = Part_begin | Header_field string | Header_value string | Header_end | Headers_finished | Part_data string | Part_end

text \<open>\<open>mp_options\<close> is \<open>parse_options_header\<close>; a write of a chunk gives the callbacks it makes and what it
  raises after them, if anything.\<close>

record multipart =
  mp_options :: "string option \<Rightarrow> string \<times> (string, string) pydict"
  mp_write :: "string \<Rightarrow> string list \<Rightarrow> string \<Rightarrow> part_event list \<times> exn option"
  mp_finalize :: "string \<Rightarrow> string list \<Rightarrow> part_event list \<times> exn option"

record parsed_upload =
  pu_file_bytes :: string
  pu_filename :: "string option"
  pu_fields :: "(string, string) pydict"

record collector =
  co_file_data :: "string option"
  co_filename :: "string option"
  co_fields :: "(string, string) pydict"
  co_headers :: "(string, string) pydict"
  co_header_field :: string
  co_header_value :: string
  co_part_name :: "string option"
  co_part_is_file :: bool
  co_part_buffer :: string

definition collector_start :: collector where
  "collector_start = \<lparr>co_file_data = None, co_filename = None, co_fields = [], co_headers = [], co_header_field = [],
     co_header_value = [], co_part_name = None, co_part_is_file = False, co_part_buffer = []\<rparr>"

definition FILE_PART :: string where "FILE_PART = ''file''"

definition TEXT_PARTS :: "string list" where "TEXT_PARTS = [''store_code'', ''template_id'']"

definition lower_bytes :: "string \<Rightarrow> string" where
  "lower_bytes s = map (\<lambda>c. let n = of_char c :: nat in if 65 \<le> n \<and> n \<le> 90 then char_of (n + 32) else c) s"

definition on_headers_finished :: "multipart \<Rightarrow> collector \<Rightarrow> (exn, collector) result" where
  "on_headers_finished mp co =
    (let params = snd (mp_options mp (dget (co_headers co) ''content-disposition'')); name = dget params ''name'' in
     if name = Some FILE_PART
     then if co_file_data co \<noteq> None then Inl (upload_request_error (Some FILE_PART))
          else Inr (co\<lparr>co_part_is_file := True, co_part_name := name, co_filename := dget params ''filename''\<rparr>)
     else case name of
       Some n \<Rightarrow> if n \<in> set TEXT_PARTS
         then if n \<in> set (dkeys (co_fields co)) then Inl (upload_request_error (Some n))
              else Inr (co\<lparr>co_part_is_file := False, co_part_name := Some n\<rparr>)
         else Inr (co\<lparr>co_part_is_file := False, co_part_name := None\<rparr>)
     | None \<Rightarrow> Inr (co\<lparr>co_part_is_file := False, co_part_name := None\<rparr>))"

definition on_part_data :: "nat \<Rightarrow> string \<Rightarrow> collector \<Rightarrow> (exn, collector) result" where
  "on_part_data max_file data co = (case co_part_name co of
     None \<Rightarrow> Inr co
   | Some n \<Rightarrow> let buf = co_part_buffer co @ data in
       if co_part_is_file co
       then if max_file < length buf then Inl (payload_too_large_error max_file (length buf)) else Inr (co\<lparr>co_part_buffer := buf\<rparr>)
       else if MAX_TEXT_FIELD_BYTES < length buf then Inl (upload_request_error (Some n)) else Inr (co\<lparr>co_part_buffer := buf\<rparr>))"

definition on_part_end :: "collector \<Rightarrow> (exn, collector) result" where
  "on_part_end co = (case co_part_name co of
     None \<Rightarrow> Inr co
   | Some n \<Rightarrow> let ended = co\<lparr>co_part_name := None, co_part_is_file := False\<rparr> in
       if co_part_is_file co then Inr (ended\<lparr>co_file_data := Some (co_part_buffer co)\<rparr>)
       else if utf8 (codes (co_part_buffer co)) = None then Inl (upload_request_error (Some n))
       else Inr (ended\<lparr>co_fields := dset n (co_part_buffer co) (co_fields co)\<rparr>))"

fun on_event :: "multipart \<Rightarrow> nat \<Rightarrow> part_event \<Rightarrow> collector \<Rightarrow> (exn, collector) result" where
  "on_event mp max_file Part_begin co = Inr (co\<lparr>co_headers := [], co_part_buffer := []\<rparr>)"
| "on_event mp max_file (Header_field d) co = Inr (co\<lparr>co_header_field := co_header_field co @ d\<rparr>)"
| "on_event mp max_file (Header_value d) co = Inr (co\<lparr>co_header_value := co_header_value co @ d\<rparr>)"
| "on_event mp max_file Header_end co =
     Inr (co\<lparr>co_headers := dset (lower_bytes (co_header_field co)) (co_header_value co) (co_headers co), co_header_field := [], co_header_value := []\<rparr>)"
| "on_event mp max_file Headers_finished co = on_headers_finished mp co"
| "on_event mp max_file (Part_data d) co = on_part_data max_file d co"
| "on_event mp max_file Part_end co = on_part_end co"

fun on_events :: "multipart \<Rightarrow> nat \<Rightarrow> part_event list \<Rightarrow> collector \<Rightarrow> (exn, collector) result" where
  "on_events mp max_file [] co = Inr co"
| "on_events mp max_file (e # es) co = rbind (on_event mp max_file e co) (\<lambda>co'. on_events mp max_file es co')"

text \<open>A call of the parser: its callbacks run, then its own exception, if any, is raised.\<close>

definition parser_call :: "multipart \<Rightarrow> nat \<Rightarrow> part_event list \<times> exn option \<Rightarrow> collector \<Rightarrow> (exn, collector) result" where
  "parser_call mp max_file answer co = rbind (on_events mp max_file (fst answer) co) (\<lambda>co'.
     case snd answer of None \<Rightarrow> Inr co' | Some e \<Rightarrow> Inl e)"

text \<open>The loop over the stream, with the count of raw bytes and the chunks already written.\<close>

fun read_chunks :: "multipart \<Rightarrow> nat \<Rightarrow> nat \<Rightarrow> string \<Rightarrow> nat \<Rightarrow> string list \<Rightarrow> string list \<Rightarrow> collector \<Rightarrow> (exn, collector \<times> string list) result" where
  "read_chunks mp max_file ceiling boundary seen past [] co = Inr (co, past)"
| "read_chunks mp max_file ceiling boundary seen past (chunk # chunks) co =
    (if chunk = [] then read_chunks mp max_file ceiling boundary seen past chunks co
     else if ceiling < seen + length chunk then Inl (payload_too_large_error ceiling (seen + length chunk))
     else rbind (parser_call mp max_file (mp_write mp boundary past chunk) co) (\<lambda>co'.
       read_chunks mp max_file ceiling boundary (seen + length chunk) (past @ [chunk]) chunks co'))"

record upload_request =
  up_headers :: "(string, string) pydict"
  up_chunks :: "string list"

text \<open>
  A header is Latin-1 text. \<open>str.isdigit\<close> accepts the ASCII digits and the superscripts two, three
  and one; \<open>int\<close> refuses the superscripts, and texts of more than 4300 digits.
\<close>

definition is_digits :: "string \<Rightarrow> bool" where
  "is_digits s \<longleftrightarrow> s \<noteq> [] \<and> list_all (\<lambda>c. is_digit c \<or> (of_char c :: nat) \<in> {178, 179, 185}) s"

definition declared_length :: "string \<Rightarrow> (exn, nat option) result" where
  "declared_length d = (if \<not> is_digits d then Inr None
     else if list_all is_digit d \<and> length d \<le> 4300 then Inr (Some (dec_int d)) else Inl (py_exn PyValueError))"

definition missing_part :: "collector \<Rightarrow> string option" where
  "missing_part co = (case filter (\<lambda>n. py_strip (case dget (co_fields co) n of None \<Rightarrow> [] | Some v \<Rightarrow> v) = []) TEXT_PARTS of
     [] \<Rightarrow> None | n # _ \<Rightarrow> Some n)"

definition read_body :: "multipart \<Rightarrow> upload_request \<Rightarrow> nat \<Rightarrow> nat \<Rightarrow> string \<Rightarrow> (exn, parsed_upload) result" where
  "read_body mp req max_file ceiling boundary =
     rbind (read_chunks mp max_file ceiling boundary 0 [] (up_chunks req) collector_start) (\<lambda>(co, past).
     rbind (parser_call mp max_file (mp_finalize mp boundary past) co) (\<lambda>co'.
     case co_file_data co' of
       None \<Rightarrow> Inl (upload_request_error (Some FILE_PART))
     | Some data \<Rightarrow> (case missing_part co' of
         Some n \<Rightarrow> Inl (upload_request_error (Some n))
       | None \<Rightarrow> Inr \<lparr>pu_file_bytes = data, pu_filename = co_filename co', pu_fields = co_fields co'\<rparr>)))"

definition read_csv_upload :: "multipart \<Rightarrow> upload_request \<Rightarrow> nat \<Rightarrow> nat \<Rightarrow> (exn, parsed_upload) result" where
  "read_csv_upload mp req max_file ceiling =
    (let (content_type, params) = mp_options mp (dget (up_headers req) ''content-type'') in
     case dget params ''boundary'' of
       None \<Rightarrow> Inl (upload_request_error None)
     | Some boundary \<Rightarrow>
       if content_type \<noteq> ''multipart/form-data'' then Inl (upload_request_error None)
       else (case dget (up_headers req) ''content-length'' of
         Some d \<Rightarrow> rbind (declared_length d) (\<lambda>n. case n of
             Some k \<Rightarrow> if ceiling < k then Inl (payload_too_large_error ceiling k) else read_body mp req max_file ceiling boundary
           | None \<Rightarrow> read_body mp req max_file ceiling boundary)
       | None \<Rightarrow> read_body mp req max_file ceiling boundary))"

section \<open>What the limits give\<close>

text \<open>
  The order the parser documents for its callbacks: a part begins, its headers finish once, its data
  and its end follow. The flag says that a part has begun and its headers have not finished.
\<close>

fun orderly :: "bool \<Rightarrow> part_event list \<Rightarrow> bool" where
  "orderly b [] = True"
| "orderly b (Part_begin # es) = orderly True es"
| "orderly b (Headers_finished # es) = (b \<and> orderly False es)"
| "orderly b (Part_data d # es) = (\<not> b \<and> orderly b es)"
| "orderly b (Part_end # es) = (\<not> b \<and> orderly b es)"
| "orderly b (e # es) = orderly b es"

fun body_events :: "multipart \<Rightarrow> string \<Rightarrow> string list \<Rightarrow> string list \<Rightarrow> part_event list" where
  "body_events mp boundary past [] = fst (mp_finalize mp boundary past)"
| "body_events mp boundary past (c # cs) =
    (if c = [] then body_events mp boundary past cs
     else fst (mp_write mp boundary past c) @ body_events mp boundary (past @ [c]) cs)"

definition collector_ok :: "nat \<Rightarrow> bool \<Rightarrow> collector \<Rightarrow> bool" where
  "collector_ok max_file b co \<longleftrightarrow> (\<forall>d. co_file_data co = Some d \<longrightarrow> length d \<le> max_file) \<and>
     (\<forall>(n, v) \<in> set (co_fields co). n \<in> set TEXT_PARTS \<and> length v \<le> MAX_TEXT_FIELD_BYTES) \<and>
     (b \<longrightarrow> co_part_buffer co = []) \<and>
     (\<forall>n. co_part_name co = Some n \<longrightarrow>
        (if co_part_is_file co then length (co_part_buffer co) \<le> max_file
         else n \<in> set TEXT_PARTS \<and> length (co_part_buffer co) \<le> MAX_TEXT_FIELD_BYTES))"

lemma set_dset: "set (dset k v d) \<subseteq> insert (k, v) (set d)"
  by (induction d) (auto split: if_splits)

lemma on_event_ok:
  assumes "on_event mp max_file e co = Inr co'" and "collector_ok max_file b co" and "orderly b (e # es)"
  shows "\<exists>b'. collector_ok max_file b' co' \<and> orderly b' es"
proof (cases e)
  case Headers_finished
  with assms have "collector_ok max_file False co'"
    by (auto simp: on_headers_finished_def collector_ok_def Let_def split: if_splits option.splits)
  with Headers_finished assms(3) show ?thesis by auto
next
  case (Part_data d)
  with assms have "collector_ok max_file b co'"
    by (auto simp: on_part_data_def collector_ok_def Let_def split: if_splits option.splits)
  with Part_data assms(3) show ?thesis by auto
next
  case Part_end
  with assms have "collector_ok max_file b co'"
    using set_dset by (fastforce simp: on_part_end_def collector_ok_def Let_def split: if_splits option.splits)
  with Part_end assms(3) show ?thesis by auto
next
  case Part_begin
  with assms have "collector_ok max_file True co'" by (auto simp: collector_ok_def)
  with Part_begin assms(3) show ?thesis by auto
qed (use assms in \<open>auto simp: collector_ok_def\<close>)

lemma on_events_ok:
  "on_events mp max_file es co = Inr co' \<Longrightarrow> collector_ok max_file b co \<Longrightarrow> orderly b es \<Longrightarrow> \<exists>b'. collector_ok max_file b' co'"
proof (induction es arbitrary: co b)
  case (Cons e es)
  then obtain co1 where "on_event mp max_file e co = Inr co1" "on_events mp max_file es co1 = Inr co'" by (auto simp: result_simps)
  with on_event_ok [OF _ Cons.prems(2,3)] Cons.IH show ?case by blast
qed auto

lemma on_events_append:
  "on_events mp max_file es co = Inr co1 \<Longrightarrow> on_events mp max_file fs co1 = Inr co2 \<Longrightarrow> on_events mp max_file (es @ fs) co = Inr co2"
  by (induction es arbitrary: co) (auto simp: result_simps)

lemma parser_call_Inr: "parser_call mp max_file answer co = Inr co' \<longleftrightarrow> on_events mp max_file (fst answer) co = Inr co' \<and> snd answer = None"
  by (auto simp: parser_call_def result_simps split: option.splits)

text \<open>A body that was read is the callbacks of the whole body on the empty collector, within the ceiling.\<close>

lemma read_chunks_events:
  "read_chunks mp max_file ceiling boundary seen past chunks co = Inr (co', past') \<Longrightarrow>
   parser_call mp max_file (mp_finalize mp boundary past') co' = Inr co'' \<Longrightarrow>
   on_events mp max_file (body_events mp boundary past chunks) co = Inr co'' \<and> (seen \<le> ceiling \<longrightarrow> seen + sum_list (map length chunks) \<le> ceiling)"
proof (induction chunks arbitrary: seen past co)
  case (Cons c cs)
  show ?case
  proof (cases "c = []")
    case True
    with Cons show ?thesis by simp
  next
    case False
    with Cons.prems(1) obtain co1 where "parser_call mp max_file (mp_write mp boundary past c) co = Inr co1" "seen + length c \<le> ceiling"
      and rest: "read_chunks mp max_file ceiling boundary (seen + length c) (past @ [c]) cs co1 = Inr (co', past')"
      by (auto simp: result_simps split: if_splits)
    with Cons.IH [OF rest Cons.prems(2)] False show ?thesis by (auto simp: parser_call_Inr intro: on_events_append)
  qed
qed (simp add: parser_call_Inr)

text \<open>C27: The upload limits hold whatever arrives and however it is chunked, framed and declared: when a body is
  accepted, its raw bytes are within the ceiling, the file is within the file limit, and the
  fields handed on are the two expected ones, each of at most 1024 bytes, so a part with another
  name never reaches the handler. The parser may call back anything in its documented order.\<close>

theorem upload_size_bounded:
  assumes "read_csv_upload mp req max_file ceiling = Inr parsed"
    and "\<And>boundary. orderly False (body_events mp boundary [] (up_chunks req))"
  shows "sum_list (map length (up_chunks req)) \<le> ceiling \<and> length (pu_file_bytes parsed) \<le> max_file \<and>
    set (dkeys (pu_fields parsed)) = {''template_id'', ''store_code''} \<and> (\<forall>v \<in> set (dvals (pu_fields parsed)). length v \<le> 1024)"
proof -
  from assms(1) obtain boundary co past co' where chunks: "read_chunks mp max_file ceiling boundary 0 [] (up_chunks req) collector_start = Inr (co, past)"
    and fin: "parser_call mp max_file (mp_finalize mp boundary past) co = Inr co'" and data: "co_file_data co' = Some (pu_file_bytes parsed)"
    and all: "missing_part co' = None" and parsed: "pu_fields parsed = co_fields co'"
    by (auto simp: read_csv_upload_def read_body_def result_simps split: prod.splits option.splits if_splits)
  note ev = read_chunks_events [OF chunks fin]
  have "collector_ok max_file False collector_start" by (simp add: collector_ok_def collector_start_def)
  then obtain b where ok: "collector_ok max_file b co'" using on_events_ok [OF conjunct1 [OF ev] _ assms(2)] by blast
  have "n \<in> set (dkeys (co_fields co'))" if "n \<in> set TEXT_PARTS" for n
    using all that by (auto simp: missing_part_def filter_empty_conv py_strip_def dget_def map_of_eq_None_iff split: list.splits option.splits)
  then show ?thesis
    using ev ok data by (auto simp: collector_ok_def parsed TEXT_PARTS_def MAX_TEXT_FIELD_BYTES_def)
qed

end
