(* ===== verification/Validation.thy ===== *)
theory Validation
  imports Mapping_Props Enrichment
begin

text \<open>
  The two validation suites of \<open>libs/dis-validation\<close>: the source-shape suite derived from a
  mapping's rename map, the canonical-shape suite derived from the annotations of a canonical
  model, the runner around pandera and the failure formatter. What \<open>schema.validate\<close> finds and
  how polars prints a dtype is the record \<open>pandera\<close>.
\<close>

section \<open>Schemas as pandera takes them\<close>

text \<open>A float bound \<open>m / 2 ^ k\<close>.\<close>

type_synonym dyadic = "int \<times> nat"

datatype pa_check = Str_matches string | Max_null_fraction dyadic | Row_count int "int option"
  | Is_in "string list" | Str_length nat | Authored string

record pa_column =
  pc_dtype :: "dtype option"
  pc_checks :: "pa_check list"
  pc_nullable :: bool

record pa_schema =
  pa_columns :: "(string, pa_column) pydict"
  pa_checks :: "pa_check list"
  pa_strict :: bool
  pa_name :: string

record failure_case =
  fc_failure_case :: "string option"
  fc_schema_context :: "string option"
  fc_column :: "string option"
  fc_check :: "string option"
  fc_index :: "int option"

datatype pandera_error = SchemaErrors "failure_case list" | SchemaError | Crash exn

record pandera =
  pd_validate :: "pa_schema \<Rightarrow> frame \<Rightarrow> (pandera_error, unit) result"
  pd_dtype_str :: "dtype \<Rightarrow> string"

section \<open>Failure formatting\<close>

record shape_failure =
  sf_column :: "string option"
  sf_check :: string
  sf_row_index :: "int option"
  sf_value :: "string option"
  sf_reason :: string

definition str_of :: "string option \<Rightarrow> string" where
  "str_of v = (case v of None \<Rightarrow> ''None'' | Some s \<Rightarrow> s)"

definition repr_opt :: "string option \<Rightarrow> string" where
  "repr_opt v = (case v of None \<Rightarrow> ''None'' | Some s \<Rightarrow> repr_str s)"

text \<open>Frame-level checks report the schema name in the column slot.\<close>

definition case_column :: "failure_case \<Rightarrow> string option" where
  "case_column c = (if str_of (fc_schema_context c) = ''DataFrameSchema'' then None else fc_column c)"

definition at_row :: "string \<Rightarrow> string \<Rightarrow> int option \<Rightarrow> string" where
  "at_row pre post i = (case i of None \<Rightarrow> '''' | Some n \<Rightarrow> pre @ int_str n @ post)"

definition mk_shape_failure :: "string option \<Rightarrow> string \<Rightarrow> int option \<Rightarrow> string option \<Rightarrow> string \<Rightarrow> shape_failure" where
  "mk_shape_failure column check i value reason =
     \<lparr>sf_column = column, sf_check = check, sf_row_index = i, sf_value = value, sf_reason = reason\<rparr>"

definition format_source_case :: "string list \<Rightarrow> failure_case \<Rightarrow> shape_failure" where
  "format_source_case unexpected c =
    (let check = str_of (fc_check c); value = fc_failure_case c; column = case_column c; i = fc_index c in
     if check = ''column_in_dataframe'' then
       mk_shape_failure value check None None (''expected column '' @ repr_opt value @ '', got '' @
         (if unexpected = [] then ''no candidate column'' else join_str '', '' (map repr_str unexpected)))
     else if check = ''column_in_schema'' then
       mk_shape_failure value check None None
         (''unexpected column '' @ repr_opt value @ '' is not in this source'' @ [CHR 0x27] @ ''s declared vocabulary'')
     else if starts_with ''row_count'' check then
       mk_shape_failure None check None None
         (''chunk row count is implausible: expected '' @ drop (length ''row_count'') check)
     else if starts_with ''max_null_fraction'' check then
       mk_shape_failure column check None None
         (''column '' @ repr_opt column @ '' has more nulls than the declared bound ('' @ check @ '')'')
     else mk_shape_failure column check i value
         (''column '' @ repr_opt column @ '': value failed '' @ check @ at_row '' (row '' '')'' i))"

definition format_source_shape_failures :: "failure_case list \<Rightarrow> string list \<Rightarrow> string list \<Rightarrow> shape_failure list" where
  "format_source_shape_failures cases observed expected =
     map (format_source_case (filter (\<lambda>name. name \<notin> set expected) observed)) cases"

definition format_canonical_case :: "failure_case \<Rightarrow> shape_failure" where
  "format_canonical_case c =
    (let check = str_of (fc_check c); value = fc_failure_case c; column = case_column c; i = fc_index c in
     if check = ''column_in_dataframe'' then
       mk_shape_failure value check None None (''contribution is missing owned column '' @ repr_opt value)
     else if check = ''column_in_schema'' then
       mk_shape_failure value check None None
         (''contribution carries column '' @ repr_opt value @ '' outside the source-owned, mapping-produced set'')
     else if column = None then
       mk_shape_failure None check i value (''cross-field invariant '' @ repr_str check @ '' failed'' @ at_row '' at row '' '''' i)
     else if check = ''not_nullable'' then
       mk_shape_failure column check i None (''column '' @ repr_opt column @ '' is required but arrived empty'' @ at_row '' (row '' '')'' i)
     else mk_shape_failure column check i value
       (''column '' @ repr_opt column @ '' failed '' @ repr_str check @ at_row '' at row '' '''' i))"

definition format_canonical_shape_failures :: "failure_case list \<Rightarrow> shape_failure list" where
  "format_canonical_shape_failures = map format_canonical_case"

section \<open>The source-shape suite\<close>

record column_expectation =
  ce_name :: string
  ce_pattern :: "string option"
  ce_max_null_fraction :: "dyadic option"

definition in_unit :: "dyadic \<Rightarrow> bool" where
  "in_unit f \<longleftrightarrow> (case f of (m, k) \<Rightarrow> 0 \<le> m \<and> m \<le> 2 ^ k)"

definition validate_expectation :: "column_expectation \<Rightarrow> (exn, unit) result" where
  "validate_expectation c =
     (if ce_name c = '''' then Inl (suite_definition_error None None)
      else case ce_max_null_fraction c of
        None \<Rightarrow> Inr ()
      | Some f \<Rightarrow> require (in_unit f) (suite_definition_error None (Some (ce_name c))))"

record source_shape_suite =
  ss_expected_columns :: "column_expectation list"
  ss_min_rows :: int
  ss_max_rows :: "int option"
  ss_allow_extra_columns :: bool

definition validate_source_suite :: "source_shape_suite \<Rightarrow> (exn, unit) result" where
  "validate_source_suite d =
     (if ss_expected_columns d = [] then Inl (suite_definition_error None None)
      else if \<not> distinct (map ce_name (ss_expected_columns d)) then Inl (suite_definition_error None None)
      else require (\<not> (ss_min_rows d < 0 \<or> (case ss_max_rows d of None \<Rightarrow> False | Some hi \<Rightarrow> hi < ss_min_rows d)))
             (suite_definition_error None None))"

definition from_rename ::
  "(string, string) pydict \<Rightarrow> int \<Rightarrow> int option \<Rightarrow> bool \<Rightarrow> (string, column_expectation) pydict \<Rightarrow>
   (exn, source_shape_suite) result" where
  "from_rename rename min_rows max_rows allow_extra overrides =
    (case filter (\<lambda>name. name \<notin> set (dkeys rename)) (dkeys overrides) of
       u # _ \<Rightarrow> Inl (suite_definition_error None (Some u))
     | [] \<Rightarrow>
       rbind (map_result (\<lambda>source. case dget overrides source of
           Some c \<Rightarrow> Inr c
         | None \<Rightarrow> (let c = \<lparr>ce_name = source, ce_pattern = None, ce_max_null_fraction = None\<rparr> in
             rbind (validate_expectation c) (\<lambda>_. Inr c))) (dkeys rename)) (\<lambda>cols.
       let d = \<lparr>ss_expected_columns = cols, ss_min_rows = min_rows, ss_max_rows = max_rows,
                ss_allow_extra_columns = allow_extra\<rparr> in
       rbind (validate_source_suite d) (\<lambda>_. Inr d)))"

definition materialize_source_shape :: "source_shape_suite \<Rightarrow> pa_schema" where
  "materialize_source_shape d =
    \<lparr>pa_columns = foldl (\<lambda>cols c. dset (ce_name c)
        \<lparr>pc_dtype = None,
         pc_checks = (case ce_pattern c of None \<Rightarrow> [] | Some p \<Rightarrow> [Str_matches p]) @
           (case ce_max_null_fraction c of None \<Rightarrow> [] | Some f \<Rightarrow> [Max_null_fraction f]),
         pc_nullable = True\<rparr> cols) [] (ss_expected_columns d),
     pa_checks = [Row_count (ss_min_rows d) (ss_max_rows d)],
     pa_strict = (\<not> ss_allow_extra_columns d), pa_name = ''source_shape''\<rparr>"

record shape_result =
  sr_passed :: bool
  sr_failures :: "shape_failure list"

definition run_source_shape :: "pandera \<Rightarrow> source_shape_suite \<Rightarrow> frame \<Rightarrow> (exn, shape_result) result" where
  "run_source_shape pd d chunk = (case pd_validate pd (materialize_source_shape d) chunk of
     Inr _ \<Rightarrow> Inr \<lparr>sr_passed = True, sr_failures = []\<rparr>
   | Inl (SchemaErrors cases) \<Rightarrow> Inr \<lparr>sr_passed = False,
       sr_failures = format_source_shape_failures cases (dkeys chunk) (map ce_name (ss_expected_columns d))\<rparr>
   | Inl SchemaError \<Rightarrow> Inl (py_exn (PyForeign ''SchemaError''))
   | Inl (Crash e) \<Rightarrow> Inl e)"

section \<open>The canonical-shape suite\<close>

text \<open>The annotation of a model field after unwrapping: its base type and whether \<open>None\<close> is allowed.\<close>

datatype base_type = LiteralT "string list" | EnumT "string list" | StrT "nat option" | DecimalT "(nat \<times> nat) option"
  | IntT | BoolT | DatetimeT | DateT | AnyT | UuidT

definition TAX_TREATMENT :: "string list" where "TAX_TREATMENT = [''INCLUSIVE'', ''EXCLUSIVE'']"
definition EXPIRY_SOURCE :: "string list" where "EXPIRY_SOURCE = [''PRINTED'', ''SCANNED'', ''ESTIMATED'', ''CV_DETECTED'']"
definition EVENT_CATEGORY :: "string list" where
  "EVENT_CATEGORY = [''INVENTORY'', ''PRICE'', ''COST'', ''REGULATORY'', ''STATUS'', ''CATALOGUE'', ''OTHER'']"
definition SALE_EVENT_SUBTYPE :: "string list" where "SALE_EVENT_SUBTYPE = [''SALE'', ''RETURN'', ''VOID'']"

definition current_position_annotations :: "(string \<times> base_type \<times> bool) list" where
  "current_position_annotations = [
     (''id'', UuidT, True), (''tenant_id'', UuidT, False), (''store_id'', UuidT, False),
     (''sku_id'', StrT (Some 128), False), (''sku_variant'', StrT (Some 128), True),
     (''sku_lot_batch'', StrT (Some 128), True), (''barcode'', StrT (Some 128), True),
     (''product_name'', StrT (Some 128), False), (''product_description'', StrT (Some 128), True),
     (''product_category'', StrT (Some 128), True), (''product_sub_category'', StrT (Some 128), True),
     (''product_department'', StrT (Some 128), True), (''supplier_id'', StrT (Some 128), True),
     (''packaging_type'', StrT (Some 128), True), (''sku_size'', DecimalT (Some (8, 3)), True),
     (''unit_of_measure'', StrT (Some 64), True), (''current_retail_price'', DecimalT (Some (12, 4)), False),
     (''unit_cost'', DecimalT (Some (12, 4)), True), (''promo_price'', DecimalT (Some (12, 4)), True),
     (''promo_identifier'', StrT (Some 128), True),
     (''yesterday_retail_price'', DecimalT (Some (12, 4)), True),
     (''tax_treatment'', EnumT TAX_TREATMENT, False), (''stock_qty'', DecimalT (Some (14, 3)), True),
     (''lead_time_days'', IntT, True), (''expiry_date'', DateT, True), (''receipt_date'', DateT, True),
     (''expiry_source'', EnumT EXPIRY_SOURCE, True), (''expiry_confidence'', DecimalT (Some (3, 2)), True),
     (''regulatory_flag'', BoolT, True), (''regulatory_type'', StrT (Some 128), True),
     (''currency'', StrT (Some 3), False), (''reorder_point'', DecimalT (Some (14, 3)), True),
     (''sku_status'', StrT (Some 32), True), (''velocity_7day'', DecimalT (Some (10, 4)), True),
     (''stock_age_days'', IntT, True), (''unit_cost_trend_30day'', DecimalT (Some (12, 4)), True),
     (''attribute_staleness_map'', AnyT, True), (''last_source_event_at'', DatetimeT, True),
     (''mapping_version_id'', IntT, False), (''trace_id'', UuidT, False),
     (''dis_channel'', StrT (Some 32), False), (''last_updated_at'', DatetimeT, True),
     (''ingest_metadata'', AnyT, True)]"

definition sale_event_annotations :: "(string \<times> base_type \<times> bool) list" where
  "sale_event_annotations = [
     (''id'', UuidT, True), (''event_date'', DateT, False), (''tenant_id'', UuidT, False),
     (''store_id'', UuidT, False), (''sku_id'', StrT (Some 128), False),
     (''sku_variant'', StrT (Some 128), True), (''sku_lot_batch'', StrT (Some 128), True),
     (''event_subtype'', LiteralT SALE_EVENT_SUBTYPE, False), (''source_sale_timestamp'', DatetimeT, False),
     (''transaction_id'', StrT (Some 128), True), (''line_item_seq'', IntT, True),
     (''quantity'', DecimalT (Some (14, 3)), False), (''unit_retail_price'', DecimalT (Some (12, 4)), False),
     (''unit_sale_price'', DecimalT (Some (12, 4)), False),
     (''discount_amount'', DecimalT (Some (12, 4)), True), (''discount_pct'', DecimalT (Some (5, 2)), True),
     (''unit_cost'', DecimalT (Some (12, 4)), True), (''promo_identifier'', StrT (Some 128), True),
     (''tax_amount'', DecimalT (Some (12, 4)), True), (''tax_treatment'', EnumT TAX_TREATMENT, False),
     (''currency'', StrT (Some 3), False), (''payment_method'', StrT (Some 64), True),
     (''customer_token'', StrT (Some 128), True), (''sale_channel'', StrT (Some 32), True),
     (''store_sku_current_position_id'', UuidT, True), (''related_sale_event_id'', UuidT, True),
     (''source_id'', StrT (Some 128), False), (''source_event_id'', StrT (Some 256), False),
     (''mapping_version_id'', IntT, False), (''trace_id'', UuidT, False),
     (''dis_channel'', StrT (Some 32), False), (''last_updated_at'', DatetimeT, True),
     (''ingest_metadata'', AnyT, True)]"

definition change_event_annotations :: "(string \<times> base_type \<times> bool) list" where
  "change_event_annotations = [
     (''id'', UuidT, True), (''event_date'', DateT, False), (''tenant_id'', UuidT, False),
     (''store_id'', UuidT, False), (''sku_id'', StrT (Some 128), False),
     (''sku_variant'', StrT (Some 128), True), (''sku_lot_batch'', StrT (Some 128), True),
     (''store_sku_current_position_id'', UuidT, True), (''event_category'', LiteralT EVENT_CATEGORY, False),
     (''event_subtype'', StrT (Some 64), False), (''source_event_timestamp'', DatetimeT, False),
     (''effective_from'', DatetimeT, True), (''effective_until'', DatetimeT, True),
     (''attribute_name'', StrT (Some 64), True), (''value_before'', AnyT, True),
     (''value_after'', AnyT, True), (''numeric_value_before'', DecimalT (Some (14, 4)), True),
     (''numeric_value_after'', DecimalT (Some (14, 4)), True),
     (''numeric_change'', DecimalT (Some (14, 4)), True), (''reason_code'', StrT (Some 64), True),
     (''reason_note'', StrT (Some 256), True), (''change_context'', AnyT, True),
     (''source_id'', StrT (Some 128), False), (''source_event_id'', StrT (Some 256), False),
     (''mapping_version_id'', IntT, False), (''trace_id'', UuidT, False),
     (''dis_channel'', StrT (Some 32), False), (''last_updated_at'', DatetimeT, True),
     (''ingest_metadata'', AnyT, True)]"

definition signal_history_annotations :: "(string \<times> base_type \<times> bool) list" where
  "signal_history_annotations = [
     (''id'', UuidT, True), (''as_of_date'', DateT, False), (''tenant_id'', UuidT, False),
     (''store_id'', UuidT, False), (''sku_id'', StrT (Some 128), False),
     (''sku_variant'', StrT (Some 128), True), (''sku_lot_batch'', StrT (Some 128), True),
     (''store_sku_current_position_id'', UuidT, True), (''velocity_7day'', DecimalT (Some (10, 4)), True),
     (''stock_age_days'', IntT, True), (''unit_cost_trend_30day'', DecimalT (Some (12, 4)), True),
     (''trace_id'', UuidT, False), (''created_at'', DatetimeT, True), (''compute_metadata'', AnyT, True)]"

fun model_annotations :: "canonical_model \<Rightarrow> (string \<times> base_type \<times> bool) list" where
  "model_annotations StoreSkuCurrentPosition = current_position_annotations"
| "model_annotations StoreSkuSaleEvent = sale_event_annotations"
| "model_annotations StoreSkuChangeEvent = change_event_annotations"
| "model_annotations StoreSkuSignalHistory = signal_history_annotations"

definition column_from_field ::
  "canonical_model \<Rightarrow> string \<Rightarrow> base_type \<times> bool \<Rightarrow> bool \<Rightarrow> pa_check list \<Rightarrow> (exn, pa_column) result" where
  "column_from_field model name annotation is_required authored = (case annotation of (base, optional) \<Rightarrow>
    (let nullable = (optional \<or> \<not> is_required);
         column = (\<lambda>dt checks. Inr \<lparr>pc_dtype = dt, pc_checks = authored @ checks, pc_nullable = nullable\<rparr>);
         unsupported = Inl (suite_definition_error (Some (model_name model)) (Some name)) in
     case base of
       LiteralT vs \<Rightarrow> column (Some DString) [Is_in vs]
     | EnumT vs \<Rightarrow> column (Some DString) [Is_in vs]
     | StrT None \<Rightarrow> column (Some DString) []
     | StrT (Some n) \<Rightarrow> column (Some DString) [Str_length n]
     | DecimalT None \<Rightarrow> unsupported
     | DecimalT (Some (p, sc)) \<Rightarrow> column (Some (DDecimal (int p) (int sc))) []
     | IntT \<Rightarrow> column (Some DInt64) []
     | BoolT \<Rightarrow> column (Some DBoolean) []
     | DatetimeT \<Rightarrow> column (Some (DDatetime ''us'' (Some ''UTC''))) []
     | DateT \<Rightarrow> column (Some DDate) []
     | AnyT \<Rightarrow> column None []
     | UuidT \<Rightarrow> unsupported))"

record canonical_shape_suite =
  ca_target_model :: canonical_model
  ca_owned_columns :: "string list"
  ca_column_checks :: "(string, pa_check list) pydict"
  ca_frame_checks :: "pa_check list"

definition field_column :: "canonical_shape_suite \<Rightarrow> string \<Rightarrow> (exn, string \<times> pa_column) result" where
  "field_column d name =
    (let model = ca_target_model d in
     case (dget (model_annotations model) name, dget (model_fields model) name) of
       (Some annotation, Some is_required) \<Rightarrow>
         rbind (column_from_field model name annotation is_required
                  (case dget (ca_column_checks d) name of None \<Rightarrow> [] | Some cs \<Rightarrow> cs)) (\<lambda>c. Inr (name, c))
     | _ \<Rightarrow> Inl (py_exn PyKeyError))"

definition materialize_canonical_shape :: "canonical_shape_suite \<Rightarrow> (exn, pa_schema) result" where
  "materialize_canonical_shape d =
    (let model = ca_target_model d; owned = first_occurrences (ca_owned_columns d) in
     rbind (mapping_produced_columns model) (\<lambda>mapped.
     rbind (enrichment_produced_columns model) (\<lambda>enriched.
     if owned = [] then Inl (suite_definition_error (Some (model_name model)) None)
     else (case filter (\<lambda>c. c \<notin> set (mapped @ enriched)) owned of
         u # _ \<Rightarrow> Inl (suite_drift_error (Some (model_name model)) (Some u))
       | [] \<Rightarrow> (case filter (\<lambda>c. c \<notin> set owned) (dkeys (ca_column_checks d)) of
           u # _ \<Rightarrow> Inl (suite_definition_error (Some (model_name model)) (Some u))
         | [] \<Rightarrow> rbind (map_result (field_column d) owned) (\<lambda>columns.
             Inr \<lparr>pa_columns = columns, pa_checks = ca_frame_checks d, pa_strict = True,
                  pa_name = ''canonical_shape:'' @ model_name model\<rparr>))))))"

text \<open>\<open>_decimal_dtype_precheck\<close>: a Decimal schema column over data of another dtype.\<close>

fun is_decimal :: "dtype option \<Rightarrow> bool" where
  "is_decimal (Some (DDecimal p s)) = True"
| "is_decimal _ = False"

definition decimal_mismatch :: "frame \<Rightarrow> string \<times> pa_column \<Rightarrow> bool" where
  "decimal_mismatch f nc \<longleftrightarrow> is_decimal (pc_dtype (snd nc)) \<and>
     (case dget f (fst nc) of None \<Rightarrow> False | Some s \<Rightarrow> \<not> is_decimal (Some (ser_dtype s)))"

definition decimal_case :: "pandera \<Rightarrow> frame \<Rightarrow> string \<times> pa_column \<Rightarrow> failure_case" where
  "decimal_case pd f nc = \<lparr>fc_failure_case = Some (pd_dtype_str pd (ser_dtype (the (dget f (fst nc))))),
     fc_schema_context = Some ''Column'', fc_column = Some (fst nc),
     fc_check = Some (''dtype('' @ [CHR 0x27] @ pd_dtype_str pd (the (pc_dtype (snd nc))) @ [CHR 0x27] @ '')''),
     fc_index = None\<rparr>"

definition decimal_dtype_precheck :: "pandera \<Rightarrow> pa_schema \<Rightarrow> frame \<Rightarrow> pa_schema \<times> failure_case list option" where
  "decimal_dtype_precheck pd schema f =
    (let bad = filter (decimal_mismatch f) (pa_columns schema) in
     if bad = [] then (schema, None)
     else (schema\<lparr>pa_columns := map (\<lambda>nc. if decimal_mismatch f nc
               then (fst nc, \<lparr>pc_dtype = None, pc_checks = [], pc_nullable = True\<rparr>) else nc) (pa_columns schema),
             pa_strict := True\<rparr>,
           Some (map (decimal_case pd f) bad)))"

definition run_canonical_shape :: "pandera \<Rightarrow> canonical_shape_suite \<Rightarrow> frame \<Rightarrow> (exn, shape_result) result" where
  "run_canonical_shape pd d f =
     rbind (materialize_canonical_shape d) (\<lambda>schema0.
     case decimal_dtype_precheck pd schema0 f of (schema, synthesized) \<Rightarrow>
     (case pd_validate pd schema f of
        Inl (SchemaErrors cases) \<Rightarrow> Inr \<lparr>sr_passed = False, sr_failures = format_canonical_shape_failures
            ((case synthesized of None \<Rightarrow> [] | Some extra \<Rightarrow> extra) @ cases)\<rparr>
      | Inl SchemaError \<Rightarrow> Inl (suite_definition_error (Some (model_name (ca_target_model d))) None)
      | Inl (Crash e) \<Rightarrow> Inl e
      | Inr _ \<Rightarrow> (case synthesized of
          Some extra \<Rightarrow> Inr \<lparr>sr_passed = False, sr_failures = format_canonical_shape_failures extra\<rparr>
        | None \<Rightarrow> Inr \<lparr>sr_passed = True, sr_failures = []\<rparr>)))"

section \<open>Properties\<close>

text \<open>The annotations name the same fields as the models, in the same order.\<close>

lemma annotations_complete: "map fst (model_annotations m) = map fst (model_fields m)"
proof -
  have "map fst (model_annotations StoreSkuCurrentPosition) = map fst (model_fields StoreSkuCurrentPosition)"
    "map fst (model_annotations StoreSkuSaleEvent) = map fst (model_fields StoreSkuSaleEvent)"
    "map fst (model_annotations StoreSkuChangeEvent) = map fst (model_fields StoreSkuChangeEvent)"
    "map fst (model_annotations StoreSkuSignalHistory) = map fst (model_fields StoreSkuSignalHistory)"
    by code_simp+
  then show ?thesis by (cases m) simp_all
qed

definition owned_suite :: "canonical_model \<Rightarrow> string list \<Rightarrow> canonical_shape_suite" where
  "owned_suite m owned = \<lparr>ca_target_model = m, ca_owned_columns = owned, ca_column_checks = [], ca_frame_checks = []\<rparr>"

lemma field_column_owned: "field_column (owned_suite m owned) c = field_column (owned_suite m []) c"
  by (simp add: field_column_def owned_suite_def split: option.splits)

lemma enrichment_produced_eq:
  "enrichment_produced_columns StoreSkuCurrentPosition = Inr (cp_enrichment_produced current_position_provenance)"
  "enrichment_produced_columns StoreSkuSaleEvent = Inr (cp_enrichment_produced sale_event_provenance)"
  "enrichment_produced_columns StoreSkuChangeEvent = Inr (cp_enrichment_produced change_event_provenance)"
  by (simp_all add: enrichment_produced_columns_def no_drift provenance_of_def PROVENANCE_def dget_def)

definition source_owned :: "canonical_model \<Rightarrow> string list" where
  "source_owned m = (case (mapping_produced_columns m, enrichment_produced_columns m) of
     (Inr a, Inr b) \<Rightarrow> a @ b | _ \<Rightarrow> [])"

lemma produced_columns_ok:
  "m \<in> {StoreSkuCurrentPosition, StoreSkuSaleEvent, StoreSkuChangeEvent} \<Longrightarrow>
   list_all (\<lambda>c. is_ok (field_column (owned_suite m []) c)) (source_owned m)"
proof -
  have "list_all (\<lambda>c. is_ok (field_column (owned_suite StoreSkuCurrentPosition []) c)) (source_owned StoreSkuCurrentPosition)"
    "list_all (\<lambda>c. is_ok (field_column (owned_suite StoreSkuSaleEvent []) c)) (source_owned StoreSkuSaleEvent)"
    "list_all (\<lambda>c. is_ok (field_column (owned_suite StoreSkuChangeEvent []) c)) (source_owned StoreSkuChangeEvent)"
    by code_simp+
  then show "m \<in> {StoreSkuCurrentPosition, StoreSkuSaleEvent, StoreSkuChangeEvent} \<Longrightarrow>
    list_all (\<lambda>c. is_ok (field_column (owned_suite m []) c)) (source_owned m)" by blast
qed

lemma source_owned_eq:
  assumes "m \<in> {StoreSkuCurrentPosition, StoreSkuSaleEvent, StoreSkuChangeEvent}"
  obtains a b where "mapping_produced_columns m = Inr a" "enrichment_produced_columns m = Inr b" "source_owned m = a @ b"
  using assms mapping_produced_eq enrichment_produced_eq by (auto simp: source_owned_def)

lemma map_result_ok: "list_all (\<lambda>x. is_ok (f x)) xs \<Longrightarrow> \<exists>ys. map_result f xs = Inr ys"
  by (induction xs) (auto simp: is_ok_iff)

lemma materialize_ok:
  assumes "m \<in> {StoreSkuCurrentPosition, StoreSkuSaleEvent, StoreSkuChangeEvent}"
    and "owned \<noteq> []" and "set owned \<subseteq> set (source_owned m)"
  shows "\<exists>schema. materialize_canonical_shape (owned_suite m owned) = Inr schema"
proof -
  obtain a b where ab: "mapping_produced_columns m = Inr a" "enrichment_produced_columns m = Inr b" "source_owned m = a @ b"
    using assms(1) by (rule source_owned_eq)
  have "list_all (\<lambda>c. is_ok (field_column (owned_suite m owned) c)) (first_occurrences owned)"
    using produced_columns_ok [OF assms(1)] assms(3) by (auto simp: list_all_iff field_column_owned [of m owned])
  then obtain cols where cols: "map_result (field_column (owned_suite m owned)) (first_occurrences owned) = Inr cols"
    using map_result_ok by blast
  have "filter (\<lambda>c. c \<notin> set a \<and> c \<notin> set b) (first_occurrences owned) = []"
    using assms(3) ab(3) by (auto simp: filter_empty_conv)
  moreover have "first_occurrences owned \<noteq> []" using assms(2) by (metis set_empty set_first_occurrences)
  moreover have "ca_target_model (owned_suite m owned) = m" "ca_owned_columns (owned_suite m owned) = owned"
    "ca_column_checks (owned_suite m owned) = []"
    by (simp_all add: owned_suite_def)
  ultimately show ?thesis using ab(1,2) cols by (simp add: materialize_canonical_shape_def Let_def)
qed

lemma precheck_neutral:
  assumes "decimal_dtype_precheck pd schema f = (schema', synth)"
  shows "filter (decimal_mismatch f) (pa_columns schema') = []"
  using assms by (auto simp: decimal_dtype_precheck_def Let_def filter_empty_conv decimal_mismatch_def split: if_splits)

text \<open>The post-mapping gate never raises on data: for columns the source may own, and with pandera
  raising nothing but its collected schema errors when no Decimal column meets data of
  another type, the run returns a verdict, and every Decimal column that arrived with
  another type makes it a failure.\<close>

theorem canonical_shape_total:
  assumes "m \<in> {StoreSkuCurrentPosition, StoreSkuSaleEvent, StoreSkuChangeEvent}"
    and "owned \<noteq> []" and "set owned \<subseteq> set (source_owned m)"
    and "\<And>schema. filter (decimal_mismatch f) (pa_columns schema) = [] \<Longrightarrow>
      (\<exists>cases. pd_validate pd schema f = Inl (SchemaErrors cases)) \<or> pd_validate pd schema f = Inr ()"
  shows "\<exists>r schema. run_canonical_shape pd (owned_suite m owned) f = Inr r \<and>
    materialize_canonical_shape (owned_suite m owned) = Inr schema \<and>
    (list_ex (decimal_mismatch f) (pa_columns schema) \<longrightarrow> \<not> sr_passed r)"
proof -
  obtain schema where m: "materialize_canonical_shape (owned_suite m owned) = Inr schema"
    using materialize_ok [OF assms(1-3)] by blast
  obtain schema' synth where p: "decimal_dtype_precheck pd schema f = (schema', synth)" by fastforce
  have v: "(\<exists>cases. pd_validate pd schema' f = Inl (SchemaErrors cases)) \<or> pd_validate pd schema' f = Inr ()"
    using assms(4) precheck_neutral [OF p] by blast
  have s: "synth \<noteq> None" if "list_ex (decimal_mismatch f) (pa_columns schema)"
    using that p by (auto simp: decimal_dtype_precheck_def Let_def list_ex_iff filter_empty_conv split: if_splits)
  show ?thesis using v s by (auto simp: run_canonical_shape_def m p split: option.splits)
qed

definition demo_pandera :: pandera where
  "demo_pandera = \<lparr>pd_validate = (\<lambda>schema f. Inr ()), pd_dtype_str = (\<lambda>d. ''String'')\<rparr>"

theorem canonical_shape_total_witness:
  "\<exists>r. run_canonical_shape demo_pandera (owned_suite StoreSkuSaleEvent [''sku_id'', ''quantity''])
     [(''quantity'', \<lparr>ser_dtype = DString, ser_vals = []\<rparr>)] = Inr r \<and> \<not> sr_passed r"
proof -
  let ?f = "[(''quantity'', \<lparr>ser_dtype = DString, ser_vals = []\<rparr>)]"
  have owned: "set [''sku_id'', ''quantity''] \<subseteq> set (source_owned StoreSkuSaleEvent)" by code_simp
  have "\<exists>r schema. run_canonical_shape demo_pandera (owned_suite StoreSkuSaleEvent [''sku_id'', ''quantity'']) ?f = Inr r \<and>
    materialize_canonical_shape (owned_suite StoreSkuSaleEvent [''sku_id'', ''quantity'']) = Inr schema \<and>
    (list_ex (decimal_mismatch ?f) (pa_columns schema) \<longrightarrow> \<not> sr_passed r)"
    by (rule canonical_shape_total) (use owned in \<open>simp_all add: demo_pandera_def\<close>)
  moreover have "case materialize_canonical_shape (owned_suite StoreSkuSaleEvent [''sku_id'', ''quantity'']) of
      Inl e \<Rightarrow> False | Inr schema \<Rightarrow> list_ex (decimal_mismatch ?f) (pa_columns schema)"
    by code_simp
  ultimately show ?thesis by auto
qed

end
