(* ===== verification/Ui_Scope.thy ===== *)
theory Ui_Scope
  imports Pg_Store
begin

text \<open>
  Who may act for which tenant in \<open>dis-ui-server\<close>: token claims (\<open>auth/verifier.py\<close>), the scope
  dependencies (\<open>auth/scope.py\<close>) and the session openers (\<open>db.py\<close>). Signature, expiry, issuer and
  audience are PyJWT's: its answer for a token is the argument \<open>decode\<close>.
\<close>

section \<open>Tokens\<close>

datatype user_type = TENANT | PLATFORM

record identity =
  id_user_id :: string
  id_tenant_id :: "string option"
  id_store_id :: "string option"
  id_roles :: "string list"
  id_user_type :: user_type

text \<open>What \<open>jwt.decode\<close> gives: expired, any other refusal, or the claims.\<close>

datatype token = Token_expired | Token_refused | Token_claims payload

definition auth_token_error :: "string \<Rightarrow> exn" where
  "auth_token_error reason = Exn AuthTokenError [(''reason'', AStr reason)]"

definition tenant_scope_error :: "string option \<Rightarrow> exn" where
  "tenant_scope_error tenant_id = Exn TenantScopeError [(''tenant_id'', opt_str tenant_id)]"

definition ops_role_required_error :: exn where
  "ops_role_required_error = Exn OpsRoleRequiredError []"

definition CLAIMS_NAMESPACE :: string where "CLAIMS_NAMESPACE = ''https://sevyn8.com/''"

definition claim :: "payload \<Rightarrow> string \<Rightarrow> pyval" where
  "claim claims name = pget claims name"

definition optional_str_claim :: "payload \<Rightarrow> string \<Rightarrow> (exn, string option) result" where
  "optional_str_claim claims name = (case claim claims name of
     PyNone \<Rightarrow> Inr None | PyStr s \<Rightarrow> Inr (Some s) | _ \<Rightarrow> Inl (auth_token_error ''bad_claims''))"

definition required_str_claim :: "payload \<Rightarrow> string \<Rightarrow> (exn, string) result" where
  "required_str_claim claims name = (case claim claims name of
     PyStr s \<Rightarrow> if s = [] then Inl (auth_token_error ''bad_claims'') else Inr s
   | _ \<Rightarrow> Inl (auth_token_error ''bad_claims''))"

definition roles_claim :: "payload \<Rightarrow> string \<Rightarrow> (exn, string list) result" where
  "roles_claim claims name = (case claim claims name of
     PyNone \<Rightarrow> Inr []
   | PyList vs \<Rightarrow> if list_all is_str vs then Inr (map py_str vs) else Inl (auth_token_error ''bad_claims'')
   | _ \<Rightarrow> Inl (auth_token_error ''bad_claims''))"

definition user_type_claim :: "payload \<Rightarrow> string \<Rightarrow> (exn, user_type) result" where
  "user_type_claim claims name = (case claim claims name of
     PyStr s \<Rightarrow> if s = ''TENANT'' then Inr TENANT else if s = ''PLATFORM'' then Inr PLATFORM
       else Inl (auth_token_error ''bad_claims'')
   | _ \<Rightarrow> Inl (auth_token_error ''bad_claims''))"

text \<open>\<open>not tenant_id\<close>: null and the empty string.\<close>

definition falsy :: "string option \<Rightarrow> bool" where
  "falsy s \<longleftrightarrow> s = None \<or> s = Some []"

definition verify :: "(string \<Rightarrow> token) \<Rightarrow> string \<Rightarrow> (exn, identity) result" where
  "verify decode raw = (case decode raw of
     Token_expired \<Rightarrow> Inl (auth_token_error ''expired'')
   | Token_refused \<Rightarrow> Inl (auth_token_error ''invalid'')
   | Token_claims claims \<Rightarrow>
       rbind (required_str_claim claims ''sub'') (\<lambda>_.
       rbind (required_str_claim claims (CLAIMS_NAMESPACE @ ''user_id'')) (\<lambda>user_id.
       rbind (user_type_claim claims (CLAIMS_NAMESPACE @ ''user_type'')) (\<lambda>ut.
       rbind (optional_str_claim claims (CLAIMS_NAMESPACE @ ''tenant_id'')) (\<lambda>tenant_id.
       if ut = TENANT \<and> falsy tenant_id then Inl (auth_token_error ''bad_claims'')
       else if ut = PLATFORM \<and> \<not> falsy tenant_id then Inl (auth_token_error ''bad_claims'')
       else rbind (optional_str_claim claims (CLAIMS_NAMESPACE @ ''store_id'')) (\<lambda>store_id.
            rbind (roles_claim claims (CLAIMS_NAMESPACE @ ''roles'')) (\<lambda>roles.
            Inr \<lparr>id_user_id = user_id, id_tenant_id = tenant_id, id_store_id = store_id, id_roles = roles, id_user_type = ut\<rparr>)))))))"

section \<open>Scopes\<close>

definition OPS_ROLE :: string where "OPS_ROLE = ''dis:ops''"

definition BEARER_PREFIX :: string where "BEARER_PREFIX = ''Bearer ''"

definition get_current_identity :: "(string \<Rightarrow> token) \<Rightarrow> string option \<Rightarrow> (exn, identity) result" where
  "get_current_identity decode header = (case header of
     None \<Rightarrow> Inl (auth_token_error ''missing_bearer'')
   | Some h \<Rightarrow> if take (length BEARER_PREFIX) h \<noteq> BEARER_PREFIX then Inl (auth_token_error ''missing_bearer'')
       else verify decode (drop (length BEARER_PREFIX) h))"

definition require_tenant :: "identity \<Rightarrow> (exn, identity) result" where
  "require_tenant i = (if id_tenant_id i = None then Inl (tenant_scope_error None) else Inr i)"

definition require_ops :: "identity \<Rightarrow> (exn, identity) result" where
  "require_ops i = (if OPS_ROLE \<notin> set (id_roles i) then Inl ops_role_required_error else Inr i)"

definition tenant_uuid_of :: "identity \<Rightarrow> (exn, uuid) result" where
  "tenant_uuid_of i = (case id_tenant_id i of
     None \<Rightarrow> Inl (tenant_scope_error None)
   | Some s \<Rightarrow> (case uuid_of s of None \<Rightarrow> Inl (tenant_scope_error None) | Some u \<Rightarrow> Inr u))"

record read_scope =
  rs_is_platform :: bool
  rs_tenant_id :: "uuid option"

record write_scope =
  ws_user_type :: user_type
  ws_token_tenant :: "uuid option"
  ws_has_ops :: bool

definition require_read_scope :: "identity \<Rightarrow> (exn, read_scope) result" where
  "require_read_scope i =
    (if id_user_type i = PLATFORM
     then if OPS_ROLE \<notin> set (id_roles i) then Inl ops_role_required_error
          else Inr \<lparr>rs_is_platform = True, rs_tenant_id = None\<rparr>
     else rbind (tenant_uuid_of i) (\<lambda>t. Inr \<lparr>rs_is_platform = False, rs_tenant_id = Some t\<rparr>))"

definition require_write_scope :: "identity \<Rightarrow> (exn, write_scope) result" where
  "require_write_scope i =
     rbind (if id_user_type i = TENANT then rbind (tenant_uuid_of i) (\<lambda>t. Inr (Some t)) else Inr None) (\<lambda>token_tenant.
     Inr \<lparr>ws_user_type = id_user_type i, ws_token_tenant = token_tenant, ws_has_ops = (OPS_ROLE \<in> set (id_roles i))\<rparr>)"

definition resolve_acted_for :: "write_scope \<Rightarrow> uuid option \<Rightarrow> (exn, uuid) result" where
  "resolve_acted_for scope body_tenant_id =
    (if ws_user_type scope = TENANT
     then if body_tenant_id \<noteq> None then Inl (tenant_scope_error None)
          else (case ws_token_tenant scope of None \<Rightarrow> Inl (tenant_scope_error None) | Some t \<Rightarrow> Inr t)
     else if \<not> ws_has_ops scope then Inl ops_role_required_error
     else (case body_tenant_id of None \<Rightarrow> Inl (tenant_scope_error None) | Some t \<Rightarrow> Inr t))"

section \<open>Sessions\<close>

definition read_session ::
  "pgenv \<Rightarrow> bool \<Rightarrow> uuid option \<Rightarrow> (gucs \<Rightarrow> 'a txn_body) \<Rightarrow> pgstate \<Rightarrow> (exn, 'a) result \<times> pgstate" where
  "read_session env is_platform tenant_id body s =
    (if is_platform then rls_platform_session env None body s
     else case tenant_id of None \<Rightarrow> (Inl (tenant_scope_error None), s) | Some t \<Rightarrow> rls_session env t body s)"

definition write_session ::
  "pgenv \<Rightarrow> bool \<Rightarrow> uuid \<Rightarrow> (gucs \<Rightarrow> 'a txn_body) \<Rightarrow> pgstate \<Rightarrow> (exn, 'a) result \<times> pgstate" where
  "write_session env is_platform acted_for body s =
    (if is_platform then rls_platform_session env (Some acted_for) body s else rls_session env acted_for body s)"

text \<open>The session mode of a write.\<close>

definition write_gucs :: "bool \<Rightarrow> uuid \<Rightarrow> gucs" where
  "write_gucs is_platform acted_for = (if is_platform then platform_scope (Some acted_for) else tenant_scope acted_for)"

lemma write_session_run: "write_session env p t body s = verified_transaction env (body (write_gucs p t)) s"
  by (simp add: write_session_def write_gucs_def rls_platform_session_def rls_session_def)

section \<open>What a scope grants\<close>

lemma verify_coherent:
  assumes "verify decode raw = Inr i"
  shows "\<exists>claims. decode raw = Token_claims claims" and "id_user_type i = TENANT \<Longrightarrow> \<not> falsy (id_tenant_id i)"
    and "id_user_type i = PLATFORM \<Longrightarrow> falsy (id_tenant_id i)"
  using assms by (auto simp: verify_def result_simps split: token.splits if_splits)

text \<open>C20: A write acts for a tenant only on the strength of the verified token: a TENANT token acts for
  the tenant of its own claim and for nothing a request names, a PLATFORM token only with the
  operations role and for the tenant the request names; a request without a token that PyJWT
  accepts acts for no one.\<close>

theorem acted_for_verified:
  assumes "get_current_identity decode header = Inr i" and "require_write_scope i = Inr scope"
    and "resolve_acted_for scope body_tenant_id = Inr t"
  shows "(\<exists>raw claims. header = Some (''Bearer '' @ raw) \<and> decode raw = Token_claims claims) \<and>
    (id_user_type i = TENANT \<and> body_tenant_id = None \<and> (\<exists>s. id_tenant_id i = Some s \<and> uuid_of s = Some t) \<or>
     id_user_type i = PLATFORM \<and> ''dis:ops'' \<in> set (id_roles i) \<and> body_tenant_id = Some t \<and> falsy (id_tenant_id i))"
proof
  from assms(1) obtain h where h: "header = Some h" "take (length BEARER_PREFIX) h = BEARER_PREFIX"
    and v: "verify decode (drop (length BEARER_PREFIX) h) = Inr i"
    by (auto simp: get_current_identity_def split: option.splits if_splits)
  have "h = ''Bearer '' @ drop (length BEARER_PREFIX) h"
    using append_take_drop_id [of "length BEARER_PREFIX" h] unfolding h(2) by (simp only: BEARER_PREFIX_def)
  then show "\<exists>raw claims. header = Some (''Bearer '' @ raw) \<and> decode raw = Token_claims claims"
    using h(1) verify_coherent(1) [OF v] by blast
  show "id_user_type i = TENANT \<and> body_tenant_id = None \<and> (\<exists>s. id_tenant_id i = Some s \<and> uuid_of s = Some t) \<or>
     id_user_type i = PLATFORM \<and> ''dis:ops'' \<in> set (id_roles i) \<and> body_tenant_id = Some t \<and> falsy (id_tenant_id i)"
    using assms(2,3) verify_coherent(3) [OF v]
    by (cases "id_user_type i")
      (auto simp: require_write_scope_def resolve_acted_for_def tenant_uuid_of_def OPS_ROLE_def result_simps split: option.splits if_splits)
qed

definition demo_claims :: payload where
  "demo_claims = [(''sub'', PyStr ''auth0|1''), (CLAIMS_NAMESPACE @ ''user_id'', PyStr ''u''), (CLAIMS_NAMESPACE @ ''user_type'', PyStr ''PLATFORM''),
     (CLAIMS_NAMESPACE @ ''roles'', PyList [PyStr ''dis:ops''])]"

definition demo_identity :: identity where
  "demo_identity = \<lparr>id_user_id = ''u'', id_tenant_id = None, id_store_id = None, id_roles = [''dis:ops''], id_user_type = PLATFORM\<rparr>"

lemma demo_verified: "get_current_identity (\<lambda>raw. Token_claims demo_claims) (Some ''Bearer x'') = Inr demo_identity"
  by code_simp

theorem acted_for_verified_witness:
  "resolve_acted_for \<lparr>ws_user_type = PLATFORM, ws_token_tenant = None, ws_has_ops = True\<rparr> (Some 5) = Inr 5 \<and>
   ''dis:ops'' \<in> set (id_roles demo_identity)"
proof -
  have scope: "require_write_scope demo_identity = Inr \<lparr>ws_user_type = PLATFORM, ws_token_tenant = None, ws_has_ops = True\<rparr>" by code_simp
  have acts: "resolve_acted_for \<lparr>ws_user_type = PLATFORM, ws_token_tenant = None, ws_has_ops = True\<rparr> (Some 5) = Inr 5"
    by (simp add: resolve_acted_for_def)
  show ?thesis using acted_for_verified [OF demo_verified scope acts] acts by (auto simp: demo_identity_def)
qed

section \<open>Writes stay with the tenant\<close>

lemma guc_write [simp]: "guc_tenant (write_gucs p t) = Some t"
proof -
  have "uuid_str t \<noteq> ''''" using uuid_of_str [of t] by (auto simp: uuid_str_def dashed_def)
  then show ?thesis by (simp add: write_gucs_def guc_tenant_def platform_scope_def tenant_scope_def uuid_of_str)
qed

lemma write_with_check [simp]:
  "policed table \<Longrightarrow> rls_with_check (write_gucs p t) table r \<longleftrightarrow> pget r ''tenant_id'' = PyUuid t"
  by (simp add: rls_with_check_def row_tenant_is_def)

end
