(* ===== verification/Template_Gate.thy ===== *)
theory Template_Gate
  imports Hot_Mapping Validation Audit_Log Ui_Scope
begin

text \<open>
  How \<open>dis-ui-server\<close> turns a request for a mapping template into rules and decides whether the
  streaming consumer could run them: \<open>mapping_translation.py\<close>, the reflection it uses of
  \<open>catalog/field_catalog.py\<close>, \<open>mapping_validation.py\<close> and the status table of \<open>errors_http.py\<close>.
  Pydantic's reading of a rules document is the argument \<open>read_rules\<close>, as on the consumer's side.
\<close>

section \<open>Errors\<close>

definition invalid_template_type_error :: "string \<Rightarrow> string \<Rightarrow> exn" where
  "invalid_template_type_error template_type tenant = Exn InvalidTemplateTypeError
     [(''column'', ANone), (''tenant_id'', AStr tenant), (''trace_id'', ANone), (''template_type'', AStr template_type)]"

definition field_catalog_drift_error :: exn where
  "field_catalog_drift_error = Exn FieldCatalogDriftError [(''missing'', AList []), (''stale'', AList [])]"

abbreviation rules_error :: "string \<Rightarrow> exn" where
  "rules_error tenant \<equiv> mapping_error MappingConfigError None (Some tenant) None"

definition STATUS_BY_ERROR :: "(exc_class, nat) pydict" where
  "STATUS_BY_ERROR = [(AuthTokenError, 401), (TenantScopeError, 403), (OpsRoleRequiredError, 403), (SuperAdminRequiredError, 403),
     (CmPermissionsClientError, 503), (DraftNotRatifiedError, 422), (DraftStateConflictError, 409), (MappingConfigError, 400),
     (InvalidTemplateTypeError, 400), (ResourceNotFoundError, 404), (MappingTemplateNameConflictError, 409),
     (MappingStateConflictError, 409), (RlsContextError, 500), (UploadRequestError, 400), (PayloadTooLargeError, 413),
     (UploadStructureError, 422), (StoreStateConflictError, 409), (StorageError, 503), (EventPublishError, 503)]"

text \<open>\<open>_status_for\<close> walks the bases of the class; four steps reach the top of every chain.\<close>

fun status_walk :: "nat \<Rightarrow> exc_class \<Rightarrow> nat" where
  "status_walk n c = (case dget STATUS_BY_ERROR c of Some st \<Rightarrow> st
     | None \<Rightarrow> (case n of 0 \<Rightarrow> 500 | Suc k \<Rightarrow> (case exc_base c of None \<Rightarrow> 500 | Some b \<Rightarrow> status_walk k b)))"

definition status_for :: "exn \<Rightarrow> nat" where
  "status_for e = status_walk 4 (exn_class e)"

section \<open>Reflection\<close>

datatype field_datatype = Text_field | Choice_field | Integer_field | Number_field | Date_field | Datetime_field | Boolean_field | Json_field

definition datatype_of :: "base_type \<Rightarrow> (exn, field_datatype) result" where
  "datatype_of base = (case base of
     LiteralT vs \<Rightarrow> Inr Choice_field | EnumT vs \<Rightarrow> Inr Choice_field | AnyT \<Rightarrow> Inr Json_field | BoolT \<Rightarrow> Inr Boolean_field
   | IntT \<Rightarrow> Inr Integer_field | DecimalT d \<Rightarrow> Inr Number_field | DatetimeT \<Rightarrow> Inr Datetime_field | DateT \<Rightarrow> Inr Date_field
   | StrT n \<Rightarrow> Inr Text_field | UuidT \<Rightarrow> Inl field_catalog_drift_error)"

definition reflect_field_shape ::
  "canonical_model \<Rightarrow> string \<Rightarrow> (exn, field_datatype \<times> int option \<times> int option) result" where
  "reflect_field_shape model name = (case dget (model_annotations model) name of
     None \<Rightarrow> Inl (py_exn PyKeyError)
   | Some (base, optional) \<Rightarrow> rbind (datatype_of base) (\<lambda>dt.
       Inr (dt, case base of DecimalT (Some (p, sc)) \<Rightarrow> Some (int p) | _ \<Rightarrow> None,
                case base of DecimalT (Some (p, sc)) \<Rightarrow> Some (int sc) | _ \<Rightarrow> None)))"

section \<open>Translation\<close>

record mapping_column =
  mc_src_key :: string
  mc_dest_key :: string
  mc_src_datetime_format :: "string option"
  mc_src_decimal_separator :: "string option"
  mc_src_thousand_separator :: "string option"
  mc_src_is_percentage :: "bool option"

record template_create =
  tc_source_id :: string
  tc_template_name :: string
  tc_template_type :: string
  tc_columns :: "mapping_column list"
  tc_acting_for_tenant_id :: "uuid option"

definition DATE_TOKEN_TO_STRPTIME :: "(string, string) pydict" where
  "DATE_TOKEN_TO_STRPTIME = [(''DD-MM-YYYY'', ''%d-%m-%Y''), (''DD/MM/YYYY'', ''%d/%m/%Y''), (''MM/DD/YYYY'', ''%m/%d/%Y''),
     (''YYYY-MM-DD'', ''%Y-%m-%d''), (''DD-MM-YY'', ''%d-%m-%y'')]"

definition CAST_TYPE_BY_DATATYPE :: "(field_datatype, string) pydict" where
  "CAST_TYPE_BY_DATATYPE = [(Text_field, ''string''), (Choice_field, ''string''), (Integer_field, ''integer''), (Number_field, ''decimal''),
     (Date_field, ''date''), (Datetime_field, ''datetime''), (Boolean_field, ''boolean'')]"

definition date_token_to_strptime :: "string \<Rightarrow> string \<Rightarrow> (exn, string) result" where
  "date_token_to_strptime token tenant = (case dget DATE_TOKEN_TO_STRPTIME token of
     None \<Rightarrow> Inl (rules_error tenant) | Some code \<Rightarrow> Inr code)"

definition op_doc :: "string \<Rightarrow> payload \<Rightarrow> pyval" where
  "op_doc name args = PyDict [(''op'', PyStr name), (''args'', PyDict args)]"

definition separators :: "mapping_column \<Rightarrow> payload" where
  "separators column = [(''decimal_separator'', opt_val PyStr (mc_src_decimal_separator column)),
     (''thousands_separator'', opt_val PyStr (mc_src_thousand_separator column))]"

definition normalize_ops :: "mapping_column \<Rightarrow> field_datatype \<Rightarrow> string \<Rightarrow> (exn, pyval list) result" where
  "normalize_ops column dt tenant =
     rbind (case mc_src_datetime_format column of
         Some token \<Rightarrow> if dt = Date_field \<or> dt = Datetime_field
           then rbind (date_token_to_strptime token tenant) (\<lambda>fmt.
             Inr [if dt = Date_field then op_doc ''parse_date'' [(''format'', PyStr fmt)]
                  else op_doc ''parse_datetime'' [(''format'', PyStr fmt), (''timezone'', PyStr ''UTC'')]])
           else Inr []
       | None \<Rightarrow> Inr []) (\<lambda>dates.
     Inr (dates @ (if dt = Number_field
       then if mc_src_is_percentage column = Some True then [op_doc ''parse_percent'' (separators column)]
            else if mc_src_decimal_separator column \<noteq> None then [op_doc ''parse_decimal'' (separators column)] else []
       else [])))"

definition cast_doc :: "field_datatype \<Rightarrow> int option \<Rightarrow> int option \<Rightarrow> string \<Rightarrow> (exn, pyval) result" where
  "cast_doc dt precision scale tenant = (case dget CAST_TYPE_BY_DATATYPE dt of
     None \<Rightarrow> Inl (rules_error tenant)
   | Some cast_type \<Rightarrow> Inr (PyDict ((''type'', PyStr cast_type) #
       (if cast_type = ''decimal'' then [(''precision'', opt_val PyInt precision), (''scale'', opt_val PyInt scale)] else []))))"

record rules_parts =
  rp_rename :: payload
  rp_normalize :: payload
  rp_cast :: payload

definition translate_column :: "canonical_model \<Rightarrow> string \<Rightarrow> mapping_column \<Rightarrow> rules_parts \<Rightarrow> (exn, rules_parts) result" where
  "translate_column model tenant column parts =
    (let dest_key = mc_dest_key column in
     if dest_key = ''__ignore__'' then Inr parts
     else let parts1 = parts\<lparr>rp_rename := dset (mc_src_key column) (PyStr dest_key) (rp_rename parts)\<rparr> in
     if dest_key \<notin> set (map fst (model_fields model)) then Inr parts1
     else rbind (reflect_field_shape model dest_key) (\<lambda>(dt, precision, scale).
          rbind (normalize_ops column dt tenant) (\<lambda>ops.
          rbind (cast_doc dt precision scale tenant) (\<lambda>spec.
          Inr (parts1\<lparr>rp_normalize := (if ops = [] then rp_normalize parts else dset dest_key (PyList ops) (rp_normalize parts)),
                      rp_cast := dset dest_key spec (rp_cast parts)\<rparr>)))))"

fun translate_columns :: "canonical_model \<Rightarrow> string \<Rightarrow> mapping_column list \<Rightarrow> rules_parts \<Rightarrow> (exn, rules_parts) result" where
  "translate_columns model tenant [] parts = Inr parts"
| "translate_columns model tenant (c # cs) parts =
     rbind (translate_column model tenant c parts) (\<lambda>parts'. translate_columns model tenant cs parts')"

definition translate_columns_to_mapping_rules :: "template_create \<Rightarrow> string \<Rightarrow> (exn, pyval) result" where
  "translate_columns_to_mapping_rules body tenant =
     rbind (model_for_template_type (tc_template_type body)) (\<lambda>model.
     rbind (translate_columns model tenant (tc_columns body) \<lparr>rp_rename = [], rp_normalize = [], rp_cast = []\<rparr>) (\<lambda>parts.
     Inr (PyDict [(''version'', PyInt 1), (''rename'', PyDict (rp_rename parts)), (''normalize'', PyDict (rp_normalize parts)),
       (''cast'', PyDict (rp_cast parts)), (''derive'', PyDict [])])))"

section \<open>The gate\<close>

text \<open>\<open>exc.tenant_id = exc.tenant_id or tenant_id\<close>.\<close>

definition attach_tenant :: "string \<Rightarrow> exn \<Rightarrow> exn" where
  "attach_tenant tenant e = (case e of Exn c attrs \<Rightarrow>
     Exn c (if getattr_none e ''tenant_id'' \<in> {ANone, AStr []} then dset ''tenant_id'' (AStr tenant) attrs else attrs))"

definition parse_mapping_rules :: "(pyval \<Rightarrow> source_mapping option) \<Rightarrow> pyval \<Rightarrow> string \<Rightarrow> (exn, source_mapping) result" where
  "parse_mapping_rules read_rules raw tenant = (case read_rules raw of
     None \<Rightarrow> Inl (rules_error tenant)
   | Some source \<Rightarrow>
     (case validate_rules source of
        Inl e \<Rightarrow> Inl (if isinstance e MappingConfigError then attach_tenant tenant e else e)
      | Inr _ \<Rightarrow> if sm_rename source = [] then Inl (rules_error tenant) else Inr source))"

definition ui_route_target_model :: "source_mapping \<Rightarrow> string \<Rightarrow> (exn, canonical_model) result" where
  "ui_route_target_model source tenant =
     rbind (map_result (\<lambda>m. rbind (mapping_produced_columns m) (\<lambda>cols. Inr (m, subset_list (target_columns source) cols))) EVENT_MODELS) (\<lambda>fits.
     case map fst (filter snd fits) of [m] \<Rightarrow> Inr m | _ \<Rightarrow> Inl (rules_error tenant))"

definition enrichment_guaranteed_for :: "canonical_model \<Rightarrow> string list" where
  "enrichment_guaranteed_for model = (if model = StoreSkuCurrentPosition then enrichment_fields CURRENT_POSITION else [])"

definition check_mandatory_coverage :: "source_mapping \<Rightarrow> canonical_model \<Rightarrow> string \<Rightarrow> (exn, unit) result" where
  "check_mandatory_coverage source model tenant =
     rbind (mandatory_mapping_produced model (enrichment_guaranteed_for model)) (\<lambda>mandatory.
     require (list_minus mandatory (target_columns source) = []) (rules_error tenant))"

definition CATALOGUE_PRESENCE_PAIRINGS :: "(string list \<times> string list) list" where
  "CATALOGUE_PRESENCE_PAIRINGS = [([''promo_identifier''], [''promo_price'']),
     ([''expiry_date'', ''expiry_source'', ''expiry_confidence''], [''expiry_date'', ''expiry_source'', ''expiry_confidence''])]"

definition require_template_type :: "string \<Rightarrow> string \<Rightarrow> (exn, unit) result" where
  "require_template_type template_type tenant = require (is_template_type template_type) (invalid_template_type_error template_type tenant)"

definition check_target_legality :: "source_mapping \<Rightarrow> canonical_model \<Rightarrow> string \<Rightarrow> (exn, unit) result" where
  "check_target_legality source model tenant =
     rbind (mapping_produced_columns model) (\<lambda>produced.
     require (list_minus (target_columns source) produced = []) (rules_error tenant))"

definition check_presence_pairings :: "source_mapping \<Rightarrow> string \<Rightarrow> (exn, unit) result" where
  "check_presence_pairings source tenant = for_each (\<lambda>(trigger, companion).
     require (\<not> (list_inter trigger (target_columns source) \<noteq> [] \<and> \<not> subset_list companion (target_columns source))) (rules_error tenant))
     CATALOGUE_PRESENCE_PAIRINGS"

definition validate_mapping_rules :: "(pyval \<Rightarrow> source_mapping option) \<Rightarrow> pyval \<Rightarrow> string \<Rightarrow> (exn, source_mapping) result" where
  "validate_mapping_rules read_rules raw tenant =
     rbind (parse_mapping_rules read_rules raw tenant) (\<lambda>source.
     rbind (ui_route_target_model source tenant) (\<lambda>model.
     rbind (check_mandatory_coverage source model tenant) (\<lambda>_. Inr source)))"

definition validate_mapping_rules_for_type ::
  "(pyval \<Rightarrow> source_mapping option) \<Rightarrow> pyval \<Rightarrow> string \<Rightarrow> string \<Rightarrow> (exn, source_mapping) result" where
  "validate_mapping_rules_for_type read_rules raw template_type tenant =
     rbind (require_template_type template_type tenant) (\<lambda>_.
     rbind (parse_mapping_rules read_rules raw tenant) (\<lambda>source.
     rbind (model_for_template_type template_type) (\<lambda>model.
     rbind (check_target_legality source model tenant) (\<lambda>_.
     rbind (check_mandatory_coverage source model tenant) (\<lambda>_.
     rbind (if model = StoreSkuCurrentPosition then check_presence_pairings source tenant else Inr ()) (\<lambda>_.
     Inr source))))))"

section \<open>The gate and the consumer agree\<close>

lemma mandatory_sets:
  "mandatory_mapping_produced StoreSkuCurrentPosition (enrichment_guaranteed_for StoreSkuCurrentPosition) =
     Inr [''sku_id'', ''product_name'', ''current_retail_price'']"
  "mandatory_mapping_produced StoreSkuSaleEvent (enrichment_guaranteed_for StoreSkuSaleEvent) =
     Inr [''event_date'', ''sku_id'', ''event_subtype'', ''source_sale_timestamp'', ''quantity'', ''unit_retail_price'',
       ''unit_sale_price'', ''currency'']"
  "mandatory_mapping_produced StoreSkuChangeEvent (enrichment_guaranteed_for StoreSkuChangeEvent) =
     Inr [''event_date'', ''sku_id'', ''event_category'', ''event_subtype'', ''source_event_timestamp'']"
  by code_simp+

lemma template_types: "is_template_type ty \<longleftrightarrow> ty = SNAPSHOT \<or> ty = SALES \<or> ty = INVENTORY_CHANGE"
  by (auto simp: is_template_type_def MODEL_BY_TYPE_def)

lemma type_names [simp]: "SALES \<noteq> SNAPSHOT" "INVENTORY_CHANGE \<noteq> SNAPSHOT" "INVENTORY_CHANGE \<noteq> SALES"
  "model_for_template_type SNAPSHOT = Inr StoreSkuCurrentPosition" "model_for_template_type SALES = Inr StoreSkuSaleEvent"
  "model_for_template_type INVENTORY_CHANGE = Inr StoreSkuChangeEvent"
  by code_simp+

lemma list_minus_empty: "list_minus xs ys = [] \<longleftrightarrow> set xs \<subseteq> set ys"
  by (auto simp: list_minus_def filter_empty_conv)

lemma subset_list_set: "subset_list xs ys \<longleftrightarrow> set xs \<subseteq> set ys"
  by (auto simp: subset_list_def list_all_iff)

lemma gate_accepts:
  assumes "validate_mapping_rules_for_type read_rules raw ty tenant = Inr source"
  obtains model mandatory produced where "model_for_template_type ty = Inr model" and "is_template_type ty"
    and "validate_rules source = Inr ()" "sm_rename source \<noteq> []"
    and "mapping_produced_columns model = Inr produced" "set (target_columns source) \<subseteq> set produced"
    and "mandatory_mapping_produced model (enrichment_guaranteed_for model) = Inr mandatory" "set mandatory \<subseteq> set (target_columns source)"
    and "model = StoreSkuCurrentPosition \<longrightarrow> is_ok (check_presence_pairings source tenant)"
  using assms
  by (auto simp: validate_mapping_rules_for_type_def result_simps require_template_type_def require_def parse_mapping_rules_def
      check_target_legality_def check_mandatory_coverage_def list_minus_empty is_ok_iff split: option.splits sum.splits if_splits)

lemma pairings_ok:
  "is_ok (check_presence_pairings source tenant) \<longleftrightarrow> (let t = set (target_columns source) in
     (''promo_identifier'' \<in> t \<longrightarrow> ''promo_price'' \<in> t) \<and>
     (''expiry_date'' \<in> t \<or> ''expiry_source'' \<in> t \<or> ''expiry_confidence'' \<in> t \<longrightarrow>
      ''expiry_date'' \<in> t \<and> ''expiry_source'' \<in> t \<and> ''expiry_confidence'' \<in> t))"
  by (auto simp: check_presence_pairings_def CATALOGUE_PRESENCE_PAIRINGS_def require_def subset_list_def list_inter_def Let_def)

text \<open>The consumer infers the event model from the columns; the gate's mandatory columns make the
  inference agree with the stored type.\<close>

lemma route_by_targets:
  assumes "set (target_columns source) \<subseteq> set (cp_mapping_produced (the (dget PROVENANCE m)))"
    and "m = StoreSkuSaleEvent \<and> ''source_sale_timestamp'' \<in> set (target_columns source) \<or>
      m = StoreSkuChangeEvent \<and> ''source_event_timestamp'' \<in> set (target_columns source)"
  shows "route_target_model source tenant trace = Inr m"
proof -
  let ?S = "set (cp_mapping_produced sale_event_provenance)" and ?C = "set (cp_mapping_produced change_event_provenance)"
  have out: "''source_sale_timestamp'' \<notin> ?C" "''source_event_timestamp'' \<notin> ?S"
    by (simp_all add: sale_event_provenance_def change_event_provenance_def)
  have "subset_list (target_columns source) (cp_mapping_produced sale_event_provenance) \<longleftrightarrow> m = StoreSkuSaleEvent"
    "subset_list (target_columns source) (cp_mapping_produced change_event_provenance) \<longleftrightarrow> m = StoreSkuChangeEvent"
    using assms out by (auto simp: subset_list_set PROVENANCE_def dget_def)
  then show ?thesis using assms(2) by (auto simp: route_target_model_def EVENT_MODELS_def mapping_produced_eq)
qed

lemma event_classified: "target \<in> {StoreSkuSaleEvent, StoreSkuChangeEvent} \<Longrightarrow> classify_hot_completeness source target = Inr False"
proof -
  assume t: "target \<in> {StoreSkuSaleEvent, StoreSkuChangeEvent}"
  then have "is_ok (guaranteed_hot_columns source target)"
    by (auto simp: guaranteed_hot_columns_def Let_def split: option.splits)
  then obtain g where g: "guaranteed_hot_columns source target = Inr g" by (auto simp: is_ok_iff)
  then show ?thesis using event_guaranteed [OF g] t by (auto simp: classify_hot_completeness_def hot_required_eq)
qed

lemma gate_routes:
  assumes "validate_mapping_rules_for_type read_rules raw ty tenant = Inr source"
  shows "(if ty = SNAPSHOT then Inr StoreSkuCurrentPosition else route_target_model source t trace) = model_for_template_type ty"
    and "model_for_template_type ty = Inr model \<Longrightarrow> classify_hot_completeness source model = Inr (ty = SNAPSHOT)"
proof -
  obtain model mandatory produced where m: "model_for_template_type ty = Inr model" "is_template_type ty"
    and "validate_rules source = Inr ()" "sm_rename source \<noteq> []"
    and p: "mapping_produced_columns model = Inr produced" "set (target_columns source) \<subseteq> set produced"
    and d: "mandatory_mapping_produced model (enrichment_guaranteed_for model) = Inr mandatory" "set mandatory \<subseteq> set (target_columns source)"
    and k: "model = StoreSkuCurrentPosition \<longrightarrow> is_ok (check_presence_pairings source tenant)"
    using assms by (rule gate_accepts)
  consider "ty = SNAPSHOT" "model = StoreSkuCurrentPosition" | "ty = SALES" "model = StoreSkuSaleEvent"
    | "ty = INVENTORY_CHANGE" "model = StoreSkuChangeEvent"
    using m by (auto simp: template_types)
  note cases = this
  show "(if ty = SNAPSHOT then Inr StoreSkuCurrentPosition else route_target_model source t trace) = model_for_template_type ty"
  proof (cases rule: cases)
    case 2
    with p d have "route_target_model source t trace = Inr model"
      by (intro route_by_targets) (auto simp: mapping_produced_eq mandatory_sets PROVENANCE_def dget_def)
    with 2 show ?thesis by simp
  next
    case 3
    with p d have "route_target_model source t trace = Inr model"
      by (intro route_by_targets) (auto simp: mapping_produced_eq mandatory_sets PROVENANCE_def dget_def)
    with 3 show ?thesis by simp
  qed simp
  show "classify_hot_completeness source model' = Inr (ty = SNAPSHOT)" if "model_for_template_type ty = Inr model'" for model'
    using that
  proof (cases rule: cases)
    case 1
    then have "''sku_id'' \<in> set (target_columns source)" "''product_name'' \<in> set (target_columns source)"
      "''current_retail_price'' \<in> set (target_columns source)"
      using d mandatory_sets(1) by auto
    then have "classify_hot_completeness source StoreSkuCurrentPosition = Inr True"
      using k 1(2) unfolding pairings_ok Let_def conjunct2 [OF snapshot_complete_iff] by argo
    then show ?thesis using 1 that by simp
  qed (use m event_classified in auto)
qed

text \<open>What the template gate accepts the consumer runs: rules accepted for a template type load under
  the consumer's own checks, as the rules the gate returned, for the model of that type, and
  may create positions exactly when the type is the snapshot; so no accepted template is
  refused or read as another kind later.\<close>

theorem gate_accepted_loads:
  assumes "validate_mapping_rules_for_type read_rules raw ty tenant = Inr source"
    and "read_rules (row_mapping_rules row) = Some source" and "row_template_type row = ty"
    and "row_pre_suite_ref row = None" "row_post_suite_ref row = None"
    and "select_mapping (ie_tenant_id ev) (ie_source_id ev) (ie_template_id ev) = Inr (Some row)"
  shows "\<exists>model. model_for_template_type ty = Inr model \<and> load_active_mapping select_mapping read_rules ev =
    Inr \<lparr>lm_mapping_version_id = row_mapping_version_id row, lm_source = source, lm_target_model = model, lm_hot_complete = (ty = SNAPSHOT)\<rparr>"
proof -
  from assms(1) obtain model where m: "model_for_template_type ty = Inr model"
    and v: "validate_rules source = Inr ()" "sm_rename source \<noteq> []" by (rule gate_accepts)
  have "(if row_template_type row = SNAPSHOT then Inr StoreSkuCurrentPosition
      else route_target_model source (uuid_str (ie_tenant_id ev)) (uuid_str (ie_trace_id ev))) = Inr model"
    unfolding assms(3) gate_routes(1) [OF assms(1)] by (rule m)
  with gate_routes(2) [OF assms(1) m] show ?thesis by (simp add: load_active_mapping_def Let_def assms(2-) v m)
qed

definition snapshot_rules :: source_mapping where
  "snapshot_rules = \<lparr>sm_version = 1, sm_rename = [(''sku'', ''sku_id''), (''name'', ''product_name''), (''price'', ''current_retail_price'')],
     sm_normalize = [], sm_cast = [], sm_derive = []\<rparr>"

lemma snapshot_rules_accepted: "validate_mapping_rules_for_type (\<lambda>_. Some snapshot_rules) raw SNAPSHOT tenant = Inr snapshot_rules"
proof -
  have v: "validate_rules snapshot_rules = Inr ()" "is_template_type SNAPSHOT" by code_simp+
  have t: "target_columns snapshot_rules = [''sku_id'', ''product_name'', ''current_retail_price'']" "sm_rename snapshot_rules \<noteq> []"
    by code_simp+
  have "is_ok (check_presence_pairings snapshot_rules tenant)" by (simp add: pairings_ok t Let_def)
  moreover have "set [''sku_id'', ''product_name'', ''current_retail_price''] \<subseteq> set (cp_mapping_produced current_position_provenance)"
    by code_simp
  ultimately show ?thesis
    by (auto simp: validate_mapping_rules_for_type_def require_template_type_def require_def parse_mapping_rules_def v t(2)
        check_target_legality_def mapping_produced_eq list_minus_empty t(1) check_mandatory_coverage_def mandatory_sets is_ok_iff)
qed

theorem gate_accepted_loads_witness:
  "load_active_mapping (\<lambda>_ _ _. Inr (Some demo_row)) (\<lambda>_. Some snapshot_rules) demo_event =
     Inr \<lparr>lm_mapping_version_id = 7, lm_source = snapshot_rules, lm_target_model = StoreSkuCurrentPosition, lm_hot_complete = True\<rparr>"
  using gate_accepted_loads [OF snapshot_rules_accepted, of demo_row "\<lambda>_ _ _. Inr (Some demo_row)" demo_event] by (simp add: demo_row_def)

section \<open>What a request cannot express\<close>

lemma translate_column_error:
  assumes "c \<in> set cs" and "\<And>parts. translate_column model tenant c parts = Inl e"
  shows "\<not> is_ok (translate_columns model tenant cs parts)"
  using assms(1)
proof (induction cs arbitrary: parts)
  case (Cons d cs)
  then show ?case using assms(2) by (cases "translate_column model tenant d parts") auto
qed simp

lemma change_json_fields:
  assumes "d \<in> {''value_before'', ''value_after'', ''change_context''}"
  shows "reflect_field_shape StoreSkuChangeEvent d = Inr (Json_field, None, None)" "d \<in> set (map fst (model_fields StoreSkuChangeEvent))"
  using assms by (elim insertE; simp; code_simp)+

lemma json_refused:
  assumes "reflect_field_shape model (mc_dest_key c) = Inr (Json_field, None, None)"
    and "mc_dest_key c \<in> set (map fst (model_fields model))" "mc_dest_key c \<noteq> ''__ignore__''"
  shows "translate_column model tenant c parts = Inl (rules_error tenant)"
  using assms by (simp add: translate_column_def Let_def normalize_ops_def cast_doc_def CAST_TYPE_BY_DATATYPE_def dget_Cons split: option.splits)

text \<open>C29: A change template can never carry a value: the request that creates an inventory-change
  template is refused as soon as one of its columns is mapped to the value before, the value
  after or the context of the change, although the gate would accept each of them, because the
  translation has no cast for their type.\<close>

theorem change_values_unmappable:
  assumes "tc_template_type body = INVENTORY_CHANGE" and "c \<in> set (tc_columns body)"
    and "mc_dest_key c \<in> {''value_before'', ''value_after'', ''change_context''}"
  shows "\<not> is_ok (translate_columns_to_mapping_rules body tenant) \<and>
    mc_dest_key c \<in> set (cp_mapping_produced change_event_provenance)"
proof
  have "translate_column StoreSkuChangeEvent tenant c parts = Inl (rules_error tenant)" for parts
    using assms(3) by (intro json_refused change_json_fields) auto
  from translate_column_error [OF assms(2) this] show "\<not> is_ok (translate_columns_to_mapping_rules body tenant)"
    using assms(1) by (auto simp: translate_columns_to_mapping_rules_def is_ok_iff result_simps)
  show "mc_dest_key c \<in> set (cp_mapping_produced change_event_provenance)"
    using assms(3) by (auto simp: change_event_provenance_def)
qed

definition change_column :: mapping_column where
  "change_column = \<lparr>mc_src_key = ''new'', mc_dest_key = ''value_after'', mc_src_datetime_format = None, mc_src_decimal_separator = None,
     mc_src_thousand_separator = None, mc_src_is_percentage = None\<rparr>"

definition change_request :: template_create where
  "change_request = \<lparr>tc_source_id = ''pos'', tc_template_name = ''n'', tc_template_type = INVENTORY_CHANGE, tc_columns = [change_column],
     tc_acting_for_tenant_id = None\<rparr>"

theorem change_values_unmappable_witness: "\<not> is_ok (translate_columns_to_mapping_rules change_request ''t'')"
  using change_values_unmappable [of change_request change_column "''t''"] by (simp add: change_request_def change_column_def)

text \<open>A request that maps a column to an identifier of the model is a server error, not a refusal.\<close>

lemma identifier_target_500:
  assumes "tc_template_type body = SALES" and "tc_columns body = c # cs" and "mc_dest_key c = ''tenant_id''"
  shows "\<exists>e. translate_columns_to_mapping_rules body tenant = Inl e \<and> status_for e = 500"
proof -
  have "reflect_field_shape StoreSkuSaleEvent ''tenant_id'' = Inl field_catalog_drift_error"
    "''tenant_id'' \<in> set (map fst (model_fields StoreSkuSaleEvent))" "status_for field_catalog_drift_error = 500" by code_simp+
  then show ?thesis using assms by (simp add: translate_columns_to_mapping_rules_def translate_column_def)
qed

end
