(* ===== verification/Template_Repo.thy ===== *)
theory Template_Repo
  imports Template_Gate
begin

text \<open>
  Mapping templates in \<open>dis-ui-server\<close>: the statements of \<open>repos/mapping_templates.py\<close> on
  \<open>config.source_mappings\<close>.

  \<^item> The table has its primary key, and the trigger and the three cross-row constraints of the
    migration 0005: the version sequence per template, one version per sequence number, one
    ACTIVE version per template, and a name used by one template among the rows that are not
    deprecated. The sequence number is a SMALLINT.
  \<^item> What else the table may reject (foreign key, checks) is \<open>pg_reject\<close> of the database; the serial
    id, the minted template id and the time of an insert are arguments.
  \<^item> \<open>plan_edit\<close> and \<open>rename_lineage\<close> are the decision and the rename of the two PATCH functions.
\<close>

section \<open>The table\<close>

abbreviation CSM :: string where "CSM \<equiv> ''config.source_mappings''"

definition seq_of :: "payload \<Rightarrow> int" where
  "seq_of r = (case pget r ''version_seq_per_source'' of PyInt n \<Rightarrow> n | _ \<Rightarrow> 0)"

definition version_of :: "payload \<Rightarrow> int" where
  "version_of r = (case pget r ''mapping_version_id'' of PyInt n \<Rightarrow> n | _ \<Rightarrow> 0)"

definition status_of :: "payload \<Rightarrow> string" where
  "status_of r = py_str (pget r ''status'')"

definition same_lineage :: "payload \<Rightarrow> payload \<Rightarrow> bool" where
  "same_lineage a b \<longleftrightarrow> pget a ''tenant_id'' = pget b ''tenant_id'' \<and> pget a ''source_id'' = pget b ''source_id'' \<and>
     pget a ''template_id'' = pget b ''template_id''"

text \<open>\<open>set_csm_version_seq\<close>: the scan runs under the session's own policy.\<close>

definition set_csm_version_seq :: "gucs \<Rightarrow> tables \<Rightarrow> payload \<Rightarrow> payload" where
  "set_csm_version_seq g tabs r =
    (if pget r ''version_seq_per_source'' = PyNone \<or> pget r ''version_seq_per_source'' = PyInt 0
     then dset ''version_seq_per_source''
       (PyInt ((case map seq_of (sql_select g CSM (same_lineage r) tabs) of [] \<Rightarrow> 0 | s # ss \<Rightarrow> foldl max s ss) + 1)) r
     else r)"

definition smallint_ok :: "int \<Rightarrow> bool" where
  "smallint_ok n \<longleftrightarrow> - 32768 \<le> n \<and> n \<le> 32767"

definition csm_clash :: "payload \<Rightarrow> payload \<Rightarrow> string option" where
  "csm_clash a b =
    (if pget a ''mapping_version_id'' = pget b ''mapping_version_id'' then Some ''pk_csm''
     else if same_lineage a b \<and> seq_of a = seq_of b then Some ''uq_csm_seq_per_source''
     else if same_lineage a b \<and> status_of a = ''ACTIVE'' \<and> status_of b = ''ACTIVE'' then Some ''uq_csm_active_per_source''
     else if pget a ''tenant_id'' = pget b ''tenant_id'' \<and> pget a ''source_id'' = pget b ''source_id'' \<and>
        pget a ''template_name'' = pget b ''template_name'' \<and> pget a ''template_id'' \<noteq> pget b ''template_id'' \<and>
        status_of a \<noteq> ''DEPRECATED'' \<and> status_of b \<noteq> ''DEPRECATED'' then Some ''ex_csm_template_name_per_source''
     else None)"

definition integrity_error :: "string \<Rightarrow> exn" where
  "integrity_error constraint = Exn (PyForeign ''IntegrityError'') [(''constraint_name'', AStr constraint)]"

definition csm_check :: "payload \<Rightarrow> payload list \<Rightarrow> (exn, unit) result" where
  "csm_check r others = for_each (\<lambda>x. case csm_clash r x of None \<Rightarrow> Inr () | Some c \<Rightarrow> Inl (integrity_error c)) others"

text \<open>INSERT: trigger, row policy, column types and checks, then the cross-row constraints.\<close>

definition csm_insert :: "pgenv \<Rightarrow> int \<Rightarrow> gucs \<Rightarrow> payload \<Rightarrow> tables \<Rightarrow> (exn, payload \<times> tables) result" where
  "csm_insert env serial g cols tabs =
    (let r = set_csm_version_seq g tabs (dupdate (dupdate (pg_defaults env CSM) [(''mapping_version_id'', PyInt serial)]) cols) in
     rbind (columns_once cols) (\<lambda>_.
     rbind (require (smallint_ok (seq_of r)) (py_exn (PyForeign ''DataError''))) (\<lambda>_.
     rbind (admit env g CSM r) (\<lambda>_.
     rbind (csm_check r (tabs CSM)) (\<lambda>_.
     Inr (r, tabs(CSM := tabs CSM @ [r])))))))"

text \<open>UPDATE: row by row; the constraints hold against the rows done and the rows to come.\<close>

fun csm_update_rows ::
  "pgenv \<Rightarrow> gucs \<Rightarrow> (payload \<Rightarrow> bool) \<Rightarrow> payload \<Rightarrow> payload list \<Rightarrow> payload list \<Rightarrow> (exn, payload list) result" where
  "csm_update_rows env g p sets done [] = Inr done"
| "csm_update_rows env g p sets done (r # rs) =
    (if rls_using g CSM r \<and> p r
     then rbind (admit env g CSM (dupdate r sets)) (\<lambda>r'.
          rbind (csm_check r' (done @ rs)) (\<lambda>_. csm_update_rows env g p sets (done @ [r']) rs))
     else csm_update_rows env g p sets (done @ [r]) rs)"

definition csm_update :: "pgenv \<Rightarrow> gucs \<Rightarrow> (payload \<Rightarrow> bool) \<Rightarrow> payload \<Rightarrow> tables \<Rightarrow> (exn, tables) result" where
  "csm_update env g p sets tabs = rbind (csm_update_rows env g p sets [] (tabs CSM)) (\<lambda>rows. Inr (tabs(CSM := rows)))"

section \<open>The repository\<close>

definition violates :: "exn \<Rightarrow> string \<Rightarrow> bool" where
  "violates e constraint \<longleftrightarrow> exn_class e = PyForeign ''IntegrityError'' \<and> getattr_none e ''constraint_name'' = AStr constraint"

definition resource_not_found_error :: "string \<Rightarrow> string \<Rightarrow> string option \<Rightarrow> exn" where
  "resource_not_found_error resource identifier tenant = Exn ResourceNotFoundError
     [(''resource'', AStr resource), (''identifier'', AStr identifier), (''tenant_id'', opt_str tenant)]"

definition mapping_template_name_conflict_error :: "string \<Rightarrow> string \<Rightarrow> string \<Rightarrow> exn" where
  "mapping_template_name_conflict_error tenant source_id template_name = Exn MappingTemplateNameConflictError
     [(''tenant_id'', AStr tenant), (''source_id'', AStr source_id), (''template_name'', AStr template_name)]"

definition mapping_state_conflict_error :: "string \<Rightarrow> string \<Rightarrow> string \<Rightarrow> string \<Rightarrow> exn" where
  "mapping_state_conflict_error template_id tenant expected actual = Exn MappingStateConflictError
     [(''template_id'', AStr template_id), (''tenant_id'', AStr tenant), (''expected'', AStr expected), (''actual'', AStr actual)]"

text \<open>\<open>WHERE template_id = ... ORDER BY version_seq_per_source DESC\<close>, the visible rows.\<close>

definition lineage :: "gucs \<Rightarrow> uuid \<Rightarrow> tables \<Rightarrow> payload list" where
  "lineage g template_id tabs = sort_key (\<lambda>r. - seq_of r) (sql_select g CSM (\<lambda>r. pget r ''template_id'' = PyUuid template_id) tabs)"

definition get_template_rows :: "pgenv \<Rightarrow> read_scope \<Rightarrow> uuid \<Rightarrow> pgstate \<Rightarrow> (exn, payload list) result \<times> pgstate" where
  "get_template_rows env scope template_id =
     read_session env (rs_is_platform scope) (rs_tenant_id scope) (\<lambda>g tabs. Inr (lineage g template_id tabs, tabs))"

definition active_of :: "uuid \<Rightarrow> uuid \<Rightarrow> payload list \<Rightarrow> (exn, payload) result" where
  "active_of tenant_id template_id rows = (case rows of
     [] \<Rightarrow> Inl (resource_not_found_error ''mapping_template'' (uuid_str template_id) (Some (uuid_str tenant_id)))
   | head # _ \<Rightarrow> (case filter (\<lambda>r. status_of r = ''ACTIVE'') rows of
       [] \<Rightarrow> Inl (mapping_state_conflict_error (uuid_str template_id) (uuid_str tenant_id) ''ACTIVE'' (status_of head))
     | r # _ \<Rightarrow> Inr r))"

definition resolve_active_template :: "pgenv \<Rightarrow> uuid \<Rightarrow> uuid \<Rightarrow> pgstate \<Rightarrow> (exn, payload) result \<times> pgstate" where
  "resolve_active_template env tenant_id template_id s =
    (case get_template_rows env \<lparr>rs_is_platform = False, rs_tenant_id = Some tenant_id\<rparr> template_id s of
       (Inl e, s') \<Rightarrow> (Inl e, s')
     | (Inr rows, s') \<Rightarrow> (active_of tenant_id template_id rows, s'))"

record new_template =
  nt_template_id :: uuid
  nt_source_id :: string
  nt_template_name :: string
  nt_template_type :: string
  nt_mapping_rules :: pyval
  nt_created_by_user_id :: "uuid option"

definition create_values :: "uuid \<Rightarrow> pydatetime \<Rightarrow> new_template \<Rightarrow> payload" where
  "create_values tenant_id now t = [(''tenant_id'', PyUuid tenant_id), (''source_id'', PyStr (nt_source_id t)),
     (''template_id'', PyUuid (nt_template_id t)), (''template_name'', PyStr (nt_template_name t)),
     (''template_type'', PyStr (nt_template_type t)), (''status'', PyStr ''ACTIVE''), (''activated_at'', PyDt now),
     (''mapping_rules'', nt_mapping_rules t), (''created_by_user_id'', opt_val PyUuid (nt_created_by_user_id t))]"

definition create_template ::
  "pgenv \<Rightarrow> int \<Rightarrow> pydatetime \<Rightarrow> user_type \<Rightarrow> uuid \<Rightarrow> new_template \<Rightarrow> pgstate \<Rightarrow> (exn, payload) result \<times> pgstate" where
  "create_template env serial now ut tenant_id t = write_session env (ut = PLATFORM) tenant_id (\<lambda>g tabs.
     case csm_insert env serial g (create_values tenant_id now t) tabs of
       Inr (row, tabs') \<Rightarrow> Inr (row, tabs')
     | Inl e \<Rightarrow> Inl (if violates e ''ex_csm_template_name_per_source''
           then mapping_template_name_conflict_error (uuid_str tenant_id) (nt_source_id t) (nt_template_name t)
         else if violates e ''fk_csm_tenant'' then tenant_scope_error (Some (uuid_str tenant_id)) else e))"

datatype edit_plan = Edit_draft payload | Chain_off payload | Lineage_closed

text \<open>What \<open>_apply_rules_edit\<close> decides on the rows it was given, newest version first.\<close>

definition plan_edit :: "payload list \<Rightarrow> edit_plan" where
  "plan_edit locked = (case filter (\<lambda>r. status_of r = ''DRAFT'') locked of
     draft # _ \<Rightarrow> Edit_draft draft
   | [] \<Rightarrow> (case filter (\<lambda>r. status_of r \<noteq> ''DEPRECATED'') locked of
       head # _ \<Rightarrow> Chain_off head | [] \<Rightarrow> Lineage_closed))"

definition draft_values :: "uuid \<Rightarrow> uuid \<Rightarrow> string \<Rightarrow> pyval \<Rightarrow> uuid option \<Rightarrow> payload \<Rightarrow> payload" where
  "draft_values tenant_id template_id template_name rules created_by head =
    [(''tenant_id'', PyUuid tenant_id), (''source_id'', pget head ''source_id''), (''template_id'', PyUuid template_id),
     (''template_name'', PyStr template_name), (''template_type'', pget head ''template_type''), (''status'', PyStr ''DRAFT''),
     (''mapping_rules'', rules), (''predecessor_version_id'', pget head ''mapping_version_id''),
     (''created_by_user_id'', opt_val PyUuid created_by)]"

definition apply_rules_edit ::
  "pgenv \<Rightarrow> int \<Rightarrow> gucs \<Rightarrow> payload list \<Rightarrow> uuid \<Rightarrow> uuid \<Rightarrow> string \<Rightarrow> pyval \<Rightarrow> uuid option \<Rightarrow> tables \<Rightarrow> (exn, tables) result" where
  "apply_rules_edit env serial g locked tenant_id template_id template_name rules created_by tabs = (case plan_edit locked of
     Edit_draft draft \<Rightarrow>
       csm_update env g (\<lambda>r. pget r ''mapping_version_id'' = pget draft ''mapping_version_id'') [(''mapping_rules'', rules)] tabs
   | Lineage_closed \<Rightarrow>
       Inl (mapping_state_conflict_error (uuid_str template_id) (uuid_str tenant_id) ''DRAFT, STAGED or ACTIVE'' ''DEPRECATED'')
   | Chain_off head \<Rightarrow>
       (case csm_insert env serial g (draft_values tenant_id template_id template_name rules created_by head) tabs of
          Inr (row, tabs') \<Rightarrow> Inr tabs'
        | Inl e \<Rightarrow> Inl (if violates e ''uq_csm_seq_per_source''
            then mapping_state_conflict_error (uuid_str template_id) (uuid_str tenant_id) ''exclusive lineage head'' ''concurrent writer'' else e)))"

definition rename_lineage ::
  "pgenv \<Rightarrow> gucs \<Rightarrow> payload list \<Rightarrow> uuid \<Rightarrow> uuid \<Rightarrow> string option \<Rightarrow> tables \<Rightarrow> (exn, string \<times> tables) result" where
  "rename_lineage env g locked tenant_id template_id template_name tabs =
    (let current = py_str (pget (hd locked) ''template_name'') in
     case template_name of
       None \<Rightarrow> Inr (current, tabs)
     | Some n \<Rightarrow> if n = current then Inr (current, tabs)
         else (case csm_update env g (\<lambda>r. pget r ''template_id'' = PyUuid template_id) [(''template_name'', PyStr n)] tabs of
             Inr tabs' \<Rightarrow> Inr (n, tabs')
           | Inl e \<Rightarrow> Inl (if violates e ''ex_csm_template_name_per_source''
               then mapping_template_name_conflict_error (uuid_str tenant_id) (py_str (pget (hd locked) ''source_id'')) n else e)))"

text \<open>The rest of the PATCH, on the rows the second locking read gave.\<close>

definition patch_locked ::
  "pgenv \<Rightarrow> int \<Rightarrow> uuid \<Rightarrow> uuid \<Rightarrow> string option \<Rightarrow> pyval option \<Rightarrow> uuid option \<Rightarrow> gucs \<Rightarrow> payload list \<Rightarrow> payload list txn_body" where
  "patch_locked env serial tenant_id template_id template_name rules created_by g locked tabs =
    (if locked = [] then Inl (resource_not_found_error ''mapping_template'' (uuid_str template_id) (Some (uuid_str tenant_id)))
     else rbind (rename_lineage env g locked tenant_id template_id template_name tabs) (\<lambda>(effective_name, tabs1).
          rbind (case rules of None \<Rightarrow> Inr tabs1
            | Some rs \<Rightarrow> apply_rules_edit env serial g locked tenant_id template_id effective_name rs created_by tabs1) (\<lambda>tabs2.
          Inr (lineage g template_id tabs2, tabs2))))"

text \<open>A PATCH that runs alone reads the same rows twice.\<close>

definition patch_body ::
  "pgenv \<Rightarrow> int \<Rightarrow> uuid \<Rightarrow> uuid \<Rightarrow> string option \<Rightarrow> pyval option \<Rightarrow> uuid option \<Rightarrow> gucs \<Rightarrow> payload list txn_body" where
  "patch_body env serial tenant_id template_id template_name rules created_by g tabs =
     patch_locked env serial tenant_id template_id template_name rules created_by g (lineage g template_id tabs) tabs"

definition patch_template ::
  "pgenv \<Rightarrow> int \<Rightarrow> user_type \<Rightarrow> uuid \<Rightarrow> uuid \<Rightarrow> string option \<Rightarrow> pyval option \<Rightarrow> uuid option \<Rightarrow> pgstate \<Rightarrow>
   (exn, payload list) result \<times> pgstate" where
  "patch_template env serial ut tenant_id template_id template_name rules created_by =
     write_session env (ut = PLATFORM) tenant_id (patch_body env serial tenant_id template_id template_name rules created_by)"

end
