(* ===== verification/Template_Props.thy ===== *)
theory Template_Props
  imports Template_Repo
begin

text \<open>
  What every write to \<open>config.source_mappings\<close> keeps: the cross-row constraints, at most one draft per
  template, the bounds of the version number, published versions, and the rows of other tenants.
\<close>

section \<open>The statements\<close>

lemma csm_clash_sym: "csm_clash a b = None \<longleftrightarrow> csm_clash b a = None"
  by (auto simp: csm_clash_def same_lineage_def)

lemma csm_check_Inr: "csm_check r others = Inr u \<longleftrightarrow> (\<forall>x \<in> set others. csm_clash r x = None)"
  by (induction others) (auto simp: csm_check_def result_simps split: option.splits)

lemma pget_dupdate_other: "c \<notin> set (dkeys sets) \<Longrightarrow> pget (dupdate r sets) c = pget r c"
  by (simp add: pget_def dget_dupdate_notin)

lemma csm_update_rows_Inr:
  "csm_update_rows env g p sets done rs = Inr rows \<Longrightarrow>
   rows = done @ map (\<lambda>r. if rls_using g CSM r \<and> p r then dupdate r sets else r) rs \<and>
   (\<forall>r \<in> set rs. rls_using g CSM r \<and> p r \<longrightarrow> rls_with_check g CSM (dupdate r sets))"
proof (induction rs arbitrary: "done")
  case (Cons r rs)
  show ?case
  proof (cases "rls_using g CSM r \<and> p r")
    case True
    with Cons.prems have "csm_update_rows env g p sets (done @ [dupdate r sets]) rs = Inr rows" "rls_with_check g CSM (dupdate r sets)"
      by (auto simp: result_simps admit_Inr)
    with True Cons.IH [of "done @ [dupdate r sets]"] show ?thesis by auto
  next
    case False
    with Cons.prems have "csm_update_rows env g p sets (done @ [r]) rs = Inr rows" by (simp only: csm_update_rows.simps if_False)
    with False Cons.IH [of "done @ [r]"] show ?thesis by auto
  qed
qed simp

lemma csm_update_Inr:
  assumes "csm_update env g p sets tabs = Inr tabs'"
  shows "tabs' = tabs(CSM := map (\<lambda>r. if rls_using g CSM r \<and> p r then dupdate r sets else r) (tabs CSM))"
    and "r \<in> set (tabs CSM) \<Longrightarrow> rls_using g CSM r \<Longrightarrow> p r \<Longrightarrow> rls_with_check g CSM (dupdate r sets)"
  using assms csm_update_rows_Inr by (fastforce simp: csm_update_def result_simps)+

lemma csm_insert_Inr:
  assumes "csm_insert env serial g cols tabs = Inr (r, tabs')"
  shows "tabs' = tabs(CSM := tabs CSM @ [r])" and "rls_with_check g CSM r" and "smallint_ok (seq_of r)"
    and "x \<in> set (tabs CSM) \<Longrightarrow> csm_clash r x = None"
    and "r = set_csm_version_seq g tabs (dupdate (dupdate (pg_defaults env CSM) [(''mapping_version_id'', PyInt serial)]) cols)"
  using assms by (auto simp: csm_insert_def Let_def result_simps admit_Inr csm_check_Inr require_def split: if_splits)

lemma inserted_field:
  assumes "csm_insert env serial g cols tabs = Inr (r, tabs')" and "distinct (dkeys cols)" and "(c, v) \<in> set cols" and "c \<noteq> ''version_seq_per_source''"
  shows "pget r c = v"
proof -
  have "pget (dupdate d cols) c = v" for d
  proof -
    have "dget cols c = Some v" using assms(2,3) by (simp add: dget_def)
    moreover have "dget (dupdate d cols) c = dget cols c"
      by (rule dget_dupdate_in) (use assms(2,3) in \<open>force simp: dict_ok_def\<close>)+
    ultimately show ?thesis by (simp add: pget_def)
  qed
  then show ?thesis using csm_insert_Inr(5) [OF assms(1)] assms(4) by (simp add: set_csm_version_seq_def pget_def dget_dset)
qed

section \<open>The invariant\<close>

abbreviation same_template :: "payload \<Rightarrow> payload \<Rightarrow> bool" where
  "same_template a b \<equiv> pget a ''tenant_id'' = pget b ''tenant_id'' \<and> pget a ''template_id'' = pget b ''template_id''"

definition one_draft :: "payload list \<Rightarrow> bool" where
  "one_draft rows \<longleftrightarrow> sorted_wrt (\<lambda>a b. \<not> (same_template a b \<and> status_of a = ''DRAFT'' \<and> status_of b = ''DRAFT'')) rows"

definition constraints_hold :: "payload list \<Rightarrow> bool" where
  "constraints_hold rows \<longleftrightarrow> sorted_wrt (\<lambda>a b. csm_clash a b = None) rows"

definition sequences_bounded :: "payload list \<Rightarrow> bool" where
  "sequences_bounded rows \<longleftrightarrow> list_all (\<lambda>r. 1 \<le> seq_of r \<and> seq_of r \<le> 32767) rows"

definition templates_ok :: "payload list \<Rightarrow> bool" where
  "templates_ok rows \<longleftrightarrow> constraints_hold rows \<and> one_draft rows \<and> sequences_bounded rows"

text \<open>A list whose elements are exchanged for ones that agree in what a relation looks at keeps the relation.\<close>

lemma sorted_wrt_exchange:
  assumes "sorted_wrt R xs" and "\<And>x y. x \<in> set xs \<Longrightarrow> y \<in> set xs \<Longrightarrow> R x y \<Longrightarrow> R (f x) (f y)"
  shows "sorted_wrt R (map f xs)"
  using assms by (induction xs) auto

lemma csm_update_rows_constraints:
  "csm_update_rows env g p sets done rs = Inr rows \<Longrightarrow> constraints_hold (done @ rs) \<Longrightarrow> constraints_hold rows"
proof (induction rs arbitrary: "done")
  case (Cons r rs)
  show ?case
  proof (cases "rls_using g CSM r \<and> p r")
    case True
    let ?r = "dupdate r sets"
    from True Cons.prems(1) have run: "csm_update_rows env g p sets (done @ [?r]) rs = Inr rows"
      and clash: "\<forall>x \<in> set (done @ rs). csm_clash ?r x = None"
      by (auto simp: result_simps admit_Inr csm_check_Inr)
    have "constraints_hold ((done @ [?r]) @ rs)"
      using Cons.prems(2) clash csm_clash_sym [of ?r] by (auto simp: constraints_hold_def sorted_wrt_append)
    then show ?thesis by (rule Cons.IH [OF run])
  next
    case False
    then have "csm_update_rows env g p sets (done @ [r]) rs = Inr rows"
      using Cons.prems(1) by (simp only: csm_update_rows.simps if_False)
    then show ?thesis by (rule Cons.IH) (use Cons.prems(2) in simp)
  qed
qed simp

lemma csm_update_ok:
  assumes "csm_update env g p sets tabs = Inr tabs'" and "templates_ok (tabs CSM)"
    and "set (dkeys sets) \<inter> {''tenant_id'', ''template_id'', ''status'', ''version_seq_per_source''} = {}"
  shows "templates_ok (tabs' CSM)"
proof -
  let ?f = "\<lambda>r. if rls_using g CSM r \<and> p r then dupdate r sets else r"
  have rows: "tabs' CSM = map ?f (tabs CSM)" using csm_update_Inr(1) [OF assms(1)] by simp
  have kept: "pget (?f r) c = pget r c" if "c \<in> {''tenant_id'', ''template_id'', ''status'', ''version_seq_per_source''}" for r c
    using that assms(3) by (auto intro!: pget_dupdate_other)
  have "one_draft (map ?f (tabs CSM))"
    using assms(2) unfolding templates_ok_def one_draft_def
    by (intro sorted_wrt_exchange) (auto simp: status_of_def kept)
  moreover have "seq_of (?f r) = seq_of r" for r unfolding seq_of_def by (subst kept) simp_all
  then have "sequences_bounded (map ?f (tabs CSM))"
    using assms(2) by (auto simp only: templates_ok_def sequences_bounded_def list_all_iff set_map image_iff)
  moreover have "constraints_hold (tabs' CSM)"
    using assms(1,2) csm_update_rows_constraints [of env g p sets "[]" "tabs CSM"]
    by (auto simp: csm_update_def result_simps templates_ok_def)
  ultimately show ?thesis by (simp add: templates_ok_def rows)
qed

lemma max_seq_bound: "list_all (\<lambda>r. 1 \<le> seq_of r) rows \<Longrightarrow> 0 \<le> (case map seq_of rows of [] \<Rightarrow> 0 | s # ss \<Rightarrow> foldl max s ss)"
proof -
  have fold: "s \<le> foldl max s ss" for s :: int and ss by (induction ss arbitrary: s) (auto intro: order_trans [OF max.cobounded1])
  assume "list_all (\<lambda>r. 1 \<le> seq_of r) rows"
  then show ?thesis using fold order_trans [of 0 1] by (cases rows) (auto intro: order_trans [OF _ fold])
qed

text \<open>The table of a database on which the modelled defaults give no version number.\<close>

abbreviation no_seq_default :: "pgenv \<Rightarrow> bool" where
  "no_seq_default env \<equiv> dget (pg_defaults env CSM) ''version_seq_per_source'' = None"

lemma write_sees_own: "pget r ''tenant_id'' = PyUuid t \<Longrightarrow> rls_using (write_gucs p t) CSM r"
  by (simp add: rls_using_def row_tenant_is_def)

text \<open>The trigger numbers a row by the rows of its own template: the session sees all of them.\<close>

lemma inserted_seq:
  assumes "csm_insert env serial (write_gucs p t) cols tabs = Inr (r, tabs')" and "no_seq_default env"
    and "''version_seq_per_source'' \<notin> set (dkeys cols)"
  shows "seq_of r = (case map seq_of (filter (same_lineage r) (tabs CSM)) of [] \<Rightarrow> 0 | s # ss \<Rightarrow> foldl max s ss) + 1"
proof -
  let ?r = "dupdate (dupdate (pg_defaults env CSM) [(''mapping_version_id'', PyInt serial)]) cols"
  have none: "pget ?r ''version_seq_per_source'' = PyNone"
    using assms(2,3) by (simp add: pget_def dget_dupdate_notin dupdate_def [of "pg_defaults env CSM"])
  note r = csm_insert_Inr(5) [OF assms(1)]
  have same: "same_lineage r = same_lineage ?r"
    unfolding r same_lineage_def by (simp add: set_csm_version_seq_def pget_def dget_dset fun_eq_iff)
  have "pget r ''tenant_id'' = PyUuid t" using csm_insert_Inr(2) [OF assms(1)] by simp
  then have "sql_select (write_gucs p t) CSM (same_lineage ?r) tabs = filter (same_lineage r) (tabs CSM)"
    unfolding sql_select_def same [symmetric] by (intro filter_cong refl) (auto simp: same_lineage_def write_sees_own)
  then show ?thesis
    using none by (subst r) (simp add: set_csm_version_seq_def seq_of_def [of "dset _ _ _"] pget_def)
qed

lemma csm_insert_ok:
  assumes "csm_insert env serial (write_gucs p t) cols tabs = Inr (r, tabs')" and "templates_ok (tabs CSM)"
    and "\<And>x. x \<in> set (tabs CSM) \<Longrightarrow> same_template x r \<Longrightarrow> status_of r = ''DRAFT'' \<Longrightarrow> status_of x \<noteq> ''DRAFT''"
    and "no_seq_default env" "''version_seq_per_source'' \<notin> set (dkeys cols)"
  shows "templates_ok (tabs' CSM)"
proof -
  have rows: "tabs' CSM = tabs CSM @ [r]" using csm_insert_Inr(1) [OF assms(1)] by simp
  have "list_all (\<lambda>r. 1 \<le> seq_of r) (filter (same_lineage r) (tabs CSM))"
    using assms(2) by (auto simp: templates_ok_def sequences_bounded_def list_all_iff)
  then have "1 \<le> seq_of r" unfolding inserted_seq [OF assms(1,4,5)] using max_seq_bound by (metis add.commute le_add_same_cancel1)
  then have "sequences_bounded (tabs CSM @ [r])"
    using assms(2) csm_insert_Inr(3) [OF assms(1)] by (simp add: templates_ok_def sequences_bounded_def smallint_ok_def)
  moreover have "constraints_hold (tabs CSM @ [r])"
    using assms(2) csm_insert_Inr(4) [OF assms(1)] csm_clash_sym [of r] by (auto simp: templates_ok_def constraints_hold_def sorted_wrt_append)
  moreover have "one_draft (tabs CSM @ [r])"
    using assms(2,3) by (auto simp: templates_ok_def one_draft_def sorted_wrt_append)
  ultimately show ?thesis by (simp add: templates_ok_def rows)
qed

section \<open>The operations\<close>

lemma create_insert_ok:
  assumes "csm_insert env serial (write_gucs p t) (create_values t now nt) tabs = Inr (row, tabs')" and "templates_ok (tabs CSM)"
    and "no_seq_default env"
  shows "templates_ok (tabs' CSM)"
proof -
  have "status_of row = ''ACTIVE''"
    using inserted_field [OF assms(1), of "''status''" "PyStr ''ACTIVE''"] by (simp add: create_values_def status_of_def)
  then show ?thesis by (intro csm_insert_ok [OF assms(1,2)]) (simp_all add: assms(3), simp add: create_values_def)
qed

lemma rename_lineage_Inr:
  assumes "rename_lineage env g locked t i n tabs = Inr (m, tabs')"
  obtains "tabs' = tabs" | "csm_update env g (\<lambda>r. pget r ''template_id'' = PyUuid i) [(''template_name'', PyStr m)] tabs = Inr tabs'"
  using assms by (auto simp: rename_lineage_def Let_def split: option.splits if_splits sum.splits)

lemma rename_rows:
  assumes "rename_lineage env g locked t i n tabs = Inr (m, tabs')" and "x \<in> set (tabs' CSM)"
  shows "\<exists>y \<in> set (tabs CSM). \<forall>c. c \<noteq> ''template_name'' \<longrightarrow> pget x c = pget y c"
  using assms(1)
proof (cases rule: rename_lineage_Inr)
  case 2
  have "pget (dupdate r [(''template_name'', PyStr m)]) c = pget r c" if "c \<noteq> ''template_name''" for r c
    using that by (intro pget_dupdate_other) simp
  moreover have "\<exists>y \<in> set (tabs CSM). x = y \<or> x = dupdate y [(''template_name'', PyStr m)]"
    using assms(2) unfolding csm_update_Inr(1) [OF 2] by (auto simp only: fun_upd_same set_map image_iff split: if_splits)
  ultimately show ?thesis by metis
qed (use assms(2) in auto)

lemma plan_edit_cases:
  "plan_edit locked = Chain_off h \<Longrightarrow> h \<in> set locked \<and> (\<forall>r \<in> set locked. status_of r \<noteq> ''DRAFT'')"
  "plan_edit locked = Edit_draft d \<Longrightarrow> d \<in> set locked \<and> status_of d = ''DRAFT''"
  by (auto simp: plan_edit_def filter_empty_conv split: list.splits dest!: filter_eq_ConsD)

lemma set_lineage: "set (lineage g i tabs) = {r \<in> set (tabs CSM). rls_using g CSM r \<and> pget r ''template_id'' = PyUuid i}"
  by (auto simp: lineage_def sql_select_def)

lemma chained_row:
  assumes "csm_insert env serial g (draft_values t i n rules cb h) tabs = Inr (r, tabs')"
  shows "pget r ''tenant_id'' = PyUuid t" "pget r ''template_id'' = PyUuid i" "status_of r = ''DRAFT''"
  using inserted_field [OF assms, of "''tenant_id''" "PyUuid t"] inserted_field [OF assms, of "''template_id''" "PyUuid i"]
    inserted_field [OF assms, of "''status''" "PyStr ''DRAFT''"]
  by (simp_all add: draft_values_def status_of_def)

lemma patch_body_ok:
  assumes "patch_body env serial t i n rules cb (write_gucs p t) tabs = Inr (rows, tabs')" and "templates_ok (tabs CSM)"
    and "no_seq_default env"
  shows "templates_ok (tabs' CSM)"
proof -
  let ?g = "write_gucs p t" and ?locked = "lineage (write_gucs p t) i tabs"
  from assms(1) obtain m tabs1 where ren: "rename_lineage env ?g ?locked t i n tabs = Inr (m, tabs1)"
    and edit: "(case rules of None \<Rightarrow> Inr tabs1
      | Some rs \<Rightarrow> apply_rules_edit env serial ?g ?locked t i m rs cb tabs1) = Inr tabs'"
    by (auto simp: patch_body_def patch_locked_def Let_def result_simps split: if_splits)
  from ren have ok: "templates_ok (tabs1 CSM)"
    by (cases rule: rename_lineage_Inr) (use assms(2) csm_update_ok in auto)
  show ?thesis
  proof (cases rules)
    case None
    then show ?thesis using ok edit by simp
  next
    case (Some rs)
    show ?thesis
    proof (cases "plan_edit ?locked")
      case (Edit_draft d)
      then show ?thesis using Some edit ok csm_update_ok by (auto simp: apply_rules_edit_def)
    next
      case (Chain_off h)
      then obtain r where ins: "csm_insert env serial ?g (draft_values t i m rs cb h) tabs1 = Inr (r, tabs')"
        using Some edit by (auto simp: apply_rules_edit_def split: sum.splits)
      show ?thesis
      proof (rule csm_insert_ok [OF ins ok])
        fix x
        assume x: "x \<in> set (tabs1 CSM)" "same_template x r"
        obtain y where y: "y \<in> set (tabs CSM)" "\<And>c. c \<noteq> ''template_name'' \<Longrightarrow> pget x c = pget y c"
          using rename_rows [OF ren x(1)] by blast
        have "y \<in> set ?locked" using x(2) y chained_row [OF ins] by (auto simp: set_lineage write_sees_own)
        then show "status_of x \<noteq> ''DRAFT''" using plan_edit_cases(1) [OF Chain_off] y(2) by (auto simp: status_of_def)
      qed (simp_all add: assms(3) draft_values_def)
    next
      case Lineage_closed
      then show ?thesis using Some edit by (simp add: apply_rules_edit_def)
    qed
  qed
qed

end
