(* ===== verification/Template_Handlers.thy ===== *)
theory Template_Handlers
  imports Template_Props "HOL-Library.Product_Lexorder"
begin

text \<open>
  The resource \<open>/mapping-templates\<close> of \<open>dis-ui-server\<close> (\<open>handlers/mapping_templates.py\<close>) and the
  consumer's lookup of a live mapping, both on the same table.

  \<^item> \<open>read_rules\<close> is Pydantic's reading of a stored document and \<open>dump_rules\<close> the document that
    \<open>model_dump(mode="json")\<close> puts in the JSONB column; that reading a dump gives the rules back is
    a hypothesis where it is used.
  \<^item> The creation times of a response are left out.
\<close>

section \<open>Responses\<close>

definition STATUS_WIRE :: "(string, string) pydict" where
  "STATUS_WIRE = [(''DRAFT'', ''draft''), (''STAGED'', ''staged''), (''ACTIVE'', ''active''), (''DEPRECATED'', ''deprecated'')]"

definition created_by_uuid :: "identity \<Rightarrow> uuid option" where
  "created_by_uuid i = uuid_of (id_user_id i)"

record template_version =
  tv_mapping_version_id :: int
  tv_version :: int
  tv_status :: string
  tv_mapping_rules :: source_mapping
  tv_field_count :: nat
  tv_transform_count :: nat
  tv_predecessor_version_id :: pyval
  tv_created_by_user_id :: "string option"
  tv_activated_at :: pyval
  tv_deprecated_at :: pyval

definition specs_count :: "(string, transform_spec list) pydict \<Rightarrow> nat" where
  "specs_count d = sum_list (map length (dvals d))"

definition to_version :: "(pyval \<Rightarrow> source_mapping option) \<Rightarrow> payload \<Rightarrow> (exn, template_version) result" where
  "to_version read_rules row = (case read_rules (pget row ''mapping_rules'') of
     None \<Rightarrow> Inl (py_exn (PyForeign ''ValidationError''))
   | Some rules \<Rightarrow> rbind (validate_rules rules) (\<lambda>_.
     case dget STATUS_WIRE (status_of row) of
       None \<Rightarrow> Inl (py_exn PyKeyError)
     | Some status \<Rightarrow> Inr \<lparr>tv_mapping_version_id = version_of row, tv_version = seq_of row, tv_status = status,
         tv_mapping_rules = rules, tv_field_count = length (sm_rename rules),
         tv_transform_count = specs_count (sm_normalize rules) + length (sm_cast rules) + specs_count (sm_derive rules),
         tv_predecessor_version_id = pget row ''predecessor_version_id'',
         tv_created_by_user_id = (case pget row ''created_by_user_id'' of PyUuid u \<Rightarrow> Some (uuid_str u) | _ \<Rightarrow> None),
         tv_activated_at = pget row ''activated_at'', tv_deprecated_at = pget row ''deprecated_at''\<rparr>))"

definition version_seq_for :: "payload list \<Rightarrow> string \<Rightarrow> int option" where
  "version_seq_for rows status = (case filter (\<lambda>r. status_of r = status) rows of [] \<Rightarrow> None | r # _ \<Rightarrow> Some (seq_of r))"

record template_summary =
  ts_template_id :: string
  ts_source_id :: string
  ts_template_name :: string
  ts_template_type :: string
  ts_latest_version :: int
  ts_active_version :: "int option"
  ts_staged_version :: "int option"
  ts_draft_version :: "int option"
  ts_versions_count :: nat

text \<open>\<open>max(rows, key=...)\<close>: the first of the rows with the greatest number.\<close>

definition newest :: "payload list \<Rightarrow> payload" where
  "newest rows = foldl (\<lambda>m r. if seq_of m < seq_of r then r else m) (hd rows) (tl rows)"

definition template_id_of :: "payload \<Rightarrow> uuid" where
  "template_id_of r = (case pget r ''template_id'' of PyUuid u \<Rightarrow> u | _ \<Rightarrow> 0)"

definition summary_fields :: "payload list \<Rightarrow> template_summary" where
  "summary_fields rows = (let r = newest rows in
    \<lparr>ts_template_id = uuid_str (template_id_of r), ts_source_id = py_str (pget r ''source_id''),
     ts_template_name = py_str (pget r ''template_name''), ts_template_type = py_str (pget r ''template_type''),
     ts_latest_version = seq_of r, ts_active_version = version_seq_for rows ''ACTIVE'',
     ts_staged_version = version_seq_for rows ''STAGED'', ts_draft_version = version_seq_for rows ''DRAFT'',
     ts_versions_count = length rows\<rparr>)"

type_synonym template_detail = "template_summary \<times> template_version list"

definition to_detail :: "(pyval \<Rightarrow> source_mapping option) \<Rightarrow> payload list \<Rightarrow> (exn, template_detail) result" where
  "to_detail read_rules rows = (let ordered = sort_key (\<lambda>r. - seq_of r) rows in
     rbind (map_result (to_version read_rules) ordered) (\<lambda>versions. Inr (summary_fields ordered, versions)))"

section \<open>Reads\<close>

definition list_template_rows :: "pgenv \<Rightarrow> read_scope \<Rightarrow> string option \<Rightarrow> pgstate \<Rightarrow> (exn, payload list) result \<times> pgstate" where
  "list_template_rows env scope source_id =
     read_session env (rs_is_platform scope) (rs_tenant_id scope) (\<lambda>g tabs.
       Inr (sort_key (\<lambda>r. (py_str (pget r ''source_id''), py_str (pget r ''template_name''), template_id_of r, - seq_of r))
         (sql_select g CSM (\<lambda>r. case source_id of None \<Rightarrow> True | Some src \<Rightarrow> pget r ''source_id'' = PyStr src) tabs), tabs))"

definition by_template :: "payload list \<Rightarrow> (pyval, payload list) pydict" where
  "by_template rows = foldl (\<lambda>d r. let i = pget r ''template_id'' in
     dset i ((case dget d i of None \<Rightarrow> [] | Some rs \<Rightarrow> rs) @ [r]) d) [] rows"

definition list_mapping_templates ::
  "pgenv \<Rightarrow> read_scope \<Rightarrow> string option \<Rightarrow> pgstate \<Rightarrow> (exn, template_summary list) result \<times> pgstate" where
  "list_mapping_templates env scope source_id s = (case list_template_rows env scope source_id s of
     (Inl e, s') \<Rightarrow> (Inl e, s')
   | (Inr rows, s') \<Rightarrow>
       (Inr (sort_key (\<lambda>t. (ts_source_id t, ts_template_name t)) (map summary_fields (dvals (by_template rows)))), s'))"

definition get_mapping_template ::
  "pgenv \<Rightarrow> (pyval \<Rightarrow> source_mapping option) \<Rightarrow> read_scope \<Rightarrow> uuid \<Rightarrow> pgstate \<Rightarrow> (exn, template_detail) result \<times> pgstate" where
  "get_mapping_template env read_rules scope template_id s = (case get_template_rows env scope template_id s of
     (Inl e, s') \<Rightarrow> (Inl e, s')
   | (Inr rows, s') \<Rightarrow>
       (if rows = [] then Inl (resource_not_found_error ''mapping_template'' (uuid_str template_id) (map_option uuid_str (rs_tenant_id scope)))
        else to_detail read_rules rows, s'))"

section \<open>Writes\<close>

text \<open>What \<open>POST /mapping-templates\<close> decides before it touches the database.\<close>

definition gated_rules ::
  "(pyval \<Rightarrow> source_mapping option) \<Rightarrow> uuid \<Rightarrow> template_create \<Rightarrow> (exn, source_mapping) result" where
  "gated_rules read_rules acted_for body =
     rbind (require_template_type (tc_template_type body) (uuid_str acted_for)) (\<lambda>_.
     rbind (translate_columns_to_mapping_rules body (uuid_str acted_for)) (\<lambda>raw_rules.
     validate_mapping_rules_for_type read_rules raw_rules (tc_template_type body) (uuid_str acted_for)))"

definition create_mapping_template ::
  "pgenv \<Rightarrow> (pyval \<Rightarrow> source_mapping option) \<Rightarrow> (source_mapping \<Rightarrow> pyval) \<Rightarrow> uuid \<Rightarrow> int \<Rightarrow> pydatetime \<Rightarrow>
   identity \<Rightarrow> write_scope \<Rightarrow> template_create \<Rightarrow> pgstate \<Rightarrow> (exn, template_detail) result \<times> pgstate" where
  "create_mapping_template env read_rules dump_rules new_uuid7 serial now identity write_scope body s =
    (case resolve_acted_for write_scope (tc_acting_for_tenant_id body) of
       Inl e \<Rightarrow> (Inl e, s)
     | Inr acted_for \<Rightarrow> (case gated_rules read_rules acted_for body of
         Inl e \<Rightarrow> (Inl e, s)
       | Inr source \<Rightarrow> (case create_template env serial now (ws_user_type write_scope) acted_for
             \<lparr>nt_template_id = new_uuid7, nt_source_id = tc_source_id body, nt_template_name = tc_template_name body,
              nt_template_type = tc_template_type body, nt_mapping_rules = dump_rules source,
              nt_created_by_user_id = created_by_uuid identity\<rparr> s of
           (Inl e, s') \<Rightarrow> (Inl e, s')
         | (Inr row, s') \<Rightarrow> (to_detail read_rules [row], s'))))"

record template_patch =
  tp_template_name :: "string option"
  tp_mapping_rules :: "pyval option"
  tp_acting_for_tenant_id :: "uuid option"

text \<open>The rules part of \<open>PATCH\<close>: validated for the type the template was created with.\<close>

definition patched_rules ::
  "pgenv \<Rightarrow> (pyval \<Rightarrow> source_mapping option) \<Rightarrow> (source_mapping \<Rightarrow> pyval) \<Rightarrow> uuid \<Rightarrow> uuid \<Rightarrow> pyval option \<Rightarrow>
   pgstate \<Rightarrow> (exn, pyval option) result \<times> pgstate" where
  "patched_rules env read_rules dump_rules acted_for template_id rules s = (case rules of
     None \<Rightarrow> (Inr None, s)
   | Some raw \<Rightarrow> (case get_template_rows env \<lparr>rs_is_platform = False, rs_tenant_id = Some acted_for\<rparr> template_id s of
       (Inl e, s') \<Rightarrow> (Inl e, s')
     | (Inr rows, s') \<Rightarrow>
         (case rows of
            [] \<Rightarrow> Inl (resource_not_found_error ''mapping_template'' (uuid_str template_id) (Some (uuid_str acted_for)))
          | row # _ \<Rightarrow> rbind (validate_mapping_rules_for_type read_rules raw (py_str (pget row ''template_type'')) (uuid_str acted_for))
              (\<lambda>source. Inr (Some (dump_rules source))), s')))"

definition patch_mapping_template ::
  "pgenv \<Rightarrow> (pyval \<Rightarrow> source_mapping option) \<Rightarrow> (source_mapping \<Rightarrow> pyval) \<Rightarrow> int \<Rightarrow>
   identity \<Rightarrow> write_scope \<Rightarrow> uuid \<Rightarrow> template_patch \<Rightarrow> pgstate \<Rightarrow> (exn, template_detail) result \<times> pgstate" where
  "patch_mapping_template env read_rules dump_rules serial identity write_scope template_id body s =
    (case resolve_acted_for write_scope (tp_acting_for_tenant_id body) of
       Inl e \<Rightarrow> (Inl e, s)
     | Inr acted_for \<Rightarrow> (case patched_rules env read_rules dump_rules acted_for template_id (tp_mapping_rules body) s of
         (Inl e, s1) \<Rightarrow> (Inl e, s1)
       | (Inr rules, s1) \<Rightarrow>
           (case patch_template env serial (ws_user_type write_scope) acted_for template_id (tp_template_name body) rules
               (created_by_uuid identity) s1 of
              (Inl e, s2) \<Rightarrow> (Inl e, s2)
            | (Inr rows, s2) \<Rightarrow> (to_detail read_rules rows, s2))))"

section \<open>The consumer's lookup\<close>

definition text_column :: "pyval \<Rightarrow> string option" where
  "text_column v = (case v of PyStr t \<Rightarrow> Some t | _ \<Rightarrow> None)"

definition live_rows :: "gucs \<Rightarrow> uuid \<Rightarrow> string \<Rightarrow> uuid \<Rightarrow> tables \<Rightarrow> payload list" where
  "live_rows g tenant_id source_id template_id = sql_select g CSM (\<lambda>r. pget r ''tenant_id'' = PyUuid tenant_id \<and>
     pget r ''source_id'' = PyStr source_id \<and> pget r ''template_id'' = PyUuid template_id \<and> status_of r = ''ACTIVE'')"

definition to_mapping_row :: "payload \<Rightarrow> mapping_row" where
  "to_mapping_row r = \<lparr>row_mapping_version_id = version_of r, row_mapping_rules = pget r ''mapping_rules'',
     row_template_type = py_str (pget r ''template_type''), row_pre_suite_ref = text_column (pget r ''pre_validation_suite_ref''),
     row_post_suite_ref = text_column (pget r ''post_validation_suite_ref'')\<rparr>"

text \<open>The SELECT of \<open>load_active_mapping\<close> in its own session on the state \<open>s\<close>, and its \<open>.first()\<close>.\<close>

definition select_live_mapping :: "pgenv \<Rightarrow> pgstate \<Rightarrow> uuid \<Rightarrow> string \<Rightarrow> uuid \<Rightarrow> (exn, mapping_row option) result" where
  "select_live_mapping env s tenant_id source_id template_id =
     fst (rls_session env tenant_id (\<lambda>g tabs.
       Inr (case live_rows g tenant_id source_id template_id tabs of [] \<Rightarrow> None | r # _ \<Rightarrow> Some (to_mapping_row r), tabs)) s)"

end
