(* ===== verification/Template_Laws.thy ===== *)
theory Template_Laws
  imports Template_Handlers
begin

text \<open>
  What requests on mapping templates keep, over any sequence of them: the versions already
  published, the numbering, the constraints, the rows of other tenants and the mapping the
  consumer runs.
\<close>

section \<open>Rows that stay\<close>

text \<open>A row may change its name, and a draft also its rules.\<close>

definition row_kept :: "payload \<Rightarrow> payload \<Rightarrow> bool" where
  "row_kept a b \<longleftrightarrow> (\<forall>c. c \<noteq> ''template_name'' \<and> (status_of a = ''DRAFT'' \<longrightarrow> c \<noteq> ''mapping_rules'') \<longrightarrow> pget b c = pget a c)"

definition table_kept :: "payload list \<Rightarrow> payload list \<Rightarrow> bool" where
  "table_kept rows rows' \<longleftrightarrow> length rows \<le> length rows' \<and> list_all2 row_kept rows (take (length rows) rows')"

lemma row_kept_refl [simp]: "row_kept a a"
  by (simp add: row_kept_def)

lemma row_kept_columns:
  assumes "row_kept a b"
  shows "status_of b = status_of a" "seq_of b = seq_of a" "version_of b = version_of a" "pget b ''tenant_id'' = pget a ''tenant_id''"
    "pget b ''source_id'' = pget a ''source_id''" "pget b ''template_id'' = pget a ''template_id''"
    "pget b ''mapping_version_id'' = pget a ''mapping_version_id''" "pget b ''template_type'' = pget a ''template_type''"
    "pget b ''pre_validation_suite_ref'' = pget a ''pre_validation_suite_ref''"
    "pget b ''post_validation_suite_ref'' = pget a ''post_validation_suite_ref''"
  using assms unfolding row_kept_def status_of_def seq_of_def version_of_def by simp_all

lemma row_kept_rules: "row_kept a b \<Longrightarrow> status_of a \<noteq> ''DRAFT'' \<Longrightarrow> pget b ''mapping_rules'' = pget a ''mapping_rules''"
  by (simp add: row_kept_def)

lemma row_kept_trans: "row_kept a b \<Longrightarrow> row_kept b c \<Longrightarrow> row_kept a c"
  using row_kept_columns(1) [of a b] by (simp add: row_kept_def)

lemma table_kept_refl [simp]: "table_kept rows rows"
  by (simp add: table_kept_def list_all2_same)

lemma table_kept_append: "list_all2 row_kept rows mid \<Longrightarrow> table_kept rows (mid @ news)"
  by (simp add: table_kept_def list_all2_lengthD)

lemma table_keptE:
  assumes "table_kept rows rows'"
  obtains mid news where "rows' = mid @ news" "list_all2 row_kept rows mid"
  using assms append_take_drop_id [of "length rows" rows'] unfolding table_kept_def by metis

lemma table_kept_trans: "table_kept a b \<Longrightarrow> table_kept b c \<Longrightarrow> table_kept a c"
proof (elim table_keptE)
  fix m n m' n' assume "b = m @ n" "list_all2 row_kept a m" "c = m' @ n'" "list_all2 row_kept b m'"
  moreover from this obtain m1 m2 where "m' = m1 @ m2" "list_all2 row_kept m m1" by (auto simp: list_all2_append1)
  ultimately show ?thesis using list_all2_trans [of row_kept row_kept row_kept a m m1] row_kept_trans
    by (auto intro!: table_kept_append)
qed

lemma list_all2_member: "list_all2 P xs ys \<Longrightarrow> x \<in> set xs \<Longrightarrow> \<exists>y \<in> set ys. P x y"
  by (induction rule: list_all2_induct) auto

lemma table_kept_row: "table_kept rows rows' \<Longrightarrow> r \<in> set rows \<Longrightarrow> \<exists>r' \<in> set rows'. row_kept r r'"
  by (elim table_keptE) (auto dest: list_all2_member)

lemma pk_unique:
  assumes "constraints_hold rows" and "a \<in> set rows" "b \<in> set rows" and "pget a ''mapping_version_id'' = pget b ''mapping_version_id''"
  shows "a = b"
  using assms unfolding constraints_hold_def by (induction rows) (auto simp: csm_clash_def)

lemma csm_update_kept:
  assumes "csm_update env g p sets tabs = Inr tabs'"
    and "\<And>r. r \<in> set (tabs CSM) \<Longrightarrow> rls_using g CSM r \<Longrightarrow> p r \<Longrightarrow> row_kept r (dupdate r sets)"
  shows "list_all2 row_kept (tabs CSM) (tabs' CSM)"
  unfolding csm_update_Inr(1) [OF assms(1)] using assms(2) by (simp add: list.rel_map list_all2_same)

lemma rename_kept:
  assumes "rename_lineage env g locked t i n tabs = Inr (m, tabs')"
  shows "list_all2 row_kept (tabs CSM) (tabs' CSM)"
  using assms
proof (cases rule: rename_lineage_Inr)
  case 2
  then show ?thesis
    by (rule csm_update_kept) (simp only: row_kept_def, intro allI impI pget_dupdate_other, simp)
qed (simp add: list_all2_same)

lemma edit_kept:
  assumes "apply_rules_edit env serial g locked t i n rs cb tabs = Inr tabs'" and "constraints_hold (tabs CSM)"
    and "\<And>r. r \<in> set locked \<Longrightarrow> \<exists>r' \<in> set (tabs CSM). row_kept r r'"
  shows "table_kept (tabs CSM) (tabs' CSM)"
proof (cases "plan_edit locked")
  case (Edit_draft d)
  then have upd: "csm_update env g (\<lambda>r. pget r ''mapping_version_id'' = pget d ''mapping_version_id'') [(''mapping_rules'', rs)] tabs = Inr tabs'"
    using assms(1) by (simp add: apply_rules_edit_def)
  obtain d' where d': "d' \<in> set (tabs CSM)" "row_kept d d'" "status_of d = ''DRAFT''" using plan_edit_cases(2) [OF Edit_draft] assms(3) by blast
  have "row_kept r (dupdate r [(''mapping_rules'', rs)])"
    if "r \<in> set (tabs CSM)" "pget r ''mapping_version_id'' = pget d ''mapping_version_id''" for r
  proof -
    have "r = d'" using pk_unique [OF assms(2) that(1) d'(1)] that(2) row_kept_columns(7) [OF d'(2)] by simp
    then have "status_of r = ''DRAFT''" using row_kept_columns(1) [OF d'(2)] d'(3) by simp
    then show ?thesis unfolding row_kept_def by (intro allI impI pget_dupdate_other) simp
  qed
  then have "list_all2 row_kept (tabs CSM) (tabs' CSM)" using csm_update_kept [OF upd] by blast
  then show ?thesis using table_kept_append [of _ _ "[]"] by simp
next
  case (Chain_off h)
  then obtain r where "csm_insert env serial g (draft_values t i n rs cb h) tabs = Inr (r, tabs')"
    using assms(1) by (auto simp: apply_rules_edit_def split: sum.splits)
  from csm_insert_Inr(1) [OF this] show ?thesis by (simp add: table_kept_append list_all2_same)
qed (use assms(1) in \<open>simp add: apply_rules_edit_def\<close>)

lemma patch_body_steps:
  assumes "patch_body env serial t i n rules cb g tabs = Inr (rows, tabs')"
  obtains m tabs1 where "lineage g i tabs \<noteq> []" "rename_lineage env g (lineage g i tabs) t i n tabs = Inr (m, tabs1)"
    and "(case rules of None \<Rightarrow> Inr tabs1 | Some rs \<Rightarrow> apply_rules_edit env serial g (lineage g i tabs) t i m rs cb tabs1) = Inr tabs'"
    and "rows = lineage g i tabs'"
  using assms by (auto simp: patch_body_def patch_locked_def Let_def result_simps split: if_splits)

lemma rename_ok: "rename_lineage env g locked t i n tabs = Inr (m, tabs') \<Longrightarrow> templates_ok (tabs CSM) \<Longrightarrow> templates_ok (tabs' CSM)"
  by (elim rename_lineage_Inr) (use csm_update_ok in auto)

lemma patch_body_kept:
  assumes "patch_body env serial t i n rules cb g tabs = Inr (rows, tabs')" and "templates_ok (tabs CSM)"
  shows "table_kept (tabs CSM) (tabs' CSM)"
proof -
  from assms(1) obtain m tabs1 where ren: "rename_lineage env g (lineage g i tabs) t i n tabs = Inr (m, tabs1)"
    and edit: "(case rules of None \<Rightarrow> Inr tabs1 | Some rs \<Rightarrow> apply_rules_edit env serial g (lineage g i tabs) t i m rs cb tabs1) = Inr tabs'"
    by (rule patch_body_steps)
  have kept: "table_kept (tabs CSM) (tabs1 CSM)" using table_kept_append [OF rename_kept [OF ren], of "[]"] by simp
  have ok: "constraints_hold (tabs1 CSM)" using rename_ok [OF ren assms(2)] by (simp add: templates_ok_def)
  show ?thesis
  proof (cases rules)
    case (Some rs)
    with edit have "apply_rules_edit env serial g (lineage g i tabs) t i m rs cb tabs1 = Inr tabs'" by simp
    from edit_kept [OF this ok] have "table_kept (tabs1 CSM) (tabs' CSM)"
      using table_kept_row [OF kept] by (simp add: set_lineage)
    then show ?thesis by (rule table_kept_trans [OF kept])
  qed (use kept edit in simp)
qed

section \<open>Requests as steps\<close>

text \<open>A request runs one of the two write handlers, for any caller, body, minted id and time.\<close>

inductive template_request ::
  "pgenv \<Rightarrow> (pyval \<Rightarrow> source_mapping option) \<Rightarrow> (source_mapping \<Rightarrow> pyval) \<Rightarrow> pgstate \<Rightarrow> pgstate \<Rightarrow> bool"
  for env read_rules dump_rules where
  created: "template_request env read_rules dump_rules s
      (snd (create_mapping_template env read_rules dump_rules new_uuid7 serial now idn scope body s))"
| patched: "template_request env read_rules dump_rules s
      (snd (patch_mapping_template env read_rules dump_rules serial idn scope template_id patch s))"

text \<open>What a request does to the table, in the session of the tenant it acts for.\<close>

inductive table_write :: "pgenv \<Rightarrow> uuid \<Rightarrow> tables \<Rightarrow> tables \<Rightarrow> bool" for env t where
  none: "table_write env t tabs tabs"
| insert: "csm_insert env serial (write_gucs p t) (create_values t now nt) tabs = Inr (row, tabs') \<Longrightarrow> table_write env t tabs tabs'"
| patch: "patch_body env serial t i n rules cb (write_gucs p t) tabs = Inr (rows, tabs') \<Longrightarrow> table_write env t tabs tabs'"

lemma create_template_write:
  "create_template env serial now ut t nt s = (r, s') \<Longrightarrow> table_write env t (pg_tables s) (pg_tables s')"
  by (cases r) (auto simp: create_template_def write_session_run intro: table_write.intros
      dest!: verified_transaction_Inl verified_transaction_Inr split: sum.splits prod.splits)

lemma patch_template_write:
  "patch_template env serial ut t i n rules cb s = (r, s') \<Longrightarrow> table_write env t (pg_tables s) (pg_tables s')"
  by (cases r) (auto simp: patch_template_def write_session_run intro: table_write.intros
      dest!: verified_transaction_Inl verified_transaction_Inr)

lemma get_template_rows_tables: "get_template_rows env scope i s = (r, s') \<Longrightarrow> pg_tables s' = pg_tables s"
  by (auto simp: get_template_rows_def read_session_def rls_session_def rls_platform_session_def verified_transaction_def Let_def
      split: option.splits sum.splits if_splits)

lemma patched_rules_tables: "patched_rules env rd dp t i rules s = (r, s') \<Longrightarrow> pg_tables s' = pg_tables s"
  by (auto simp: patched_rules_def split: option.splits prod.splits sum.splits dest: get_template_rows_tables)

lemma create_mapping_template_write:
  "resolve_acted_for scope (tc_acting_for_tenant_id body) = Inr t \<Longrightarrow>
   table_write env t (pg_tables s) (pg_tables (snd (create_mapping_template env rd dp u serial now idn scope body s)))"
  by (auto simp: create_mapping_template_def split: sum.splits prod.splits intro: table_write.none dest: create_template_write)

lemma patch_mapping_template_write:
  "resolve_acted_for scope (tp_acting_for_tenant_id patch) = Inr t \<Longrightarrow>
   table_write env t (pg_tables s) (pg_tables (snd (patch_mapping_template env rd dp serial idn scope i patch s)))"
  by (auto simp: patch_mapping_template_def split: sum.splits prod.splits dest!: patched_rules_tables patch_template_write)
    (metis table_write.none)+

lemma request_writes: "template_request env rd dp s s' \<Longrightarrow> \<exists>t. table_write env t (pg_tables s) (pg_tables s')"
proof (induction rule: template_request.induct)
  case (created s u serial now idn scope body)
  then show ?case
    using create_mapping_template_write [of scope body _ env s rd dp u serial now idn]
    by (cases "resolve_acted_for scope (tc_acting_for_tenant_id body)") (auto simp: create_mapping_template_def intro: table_write.none)
next
  case (patched s serial idn scope i patch)
  then show ?case
    using patch_mapping_template_write [of scope patch _ env s rd dp serial idn i]
    by (cases "resolve_acted_for scope (tp_acting_for_tenant_id patch)") (auto simp: patch_mapping_template_def intro: table_write.none)
qed

section \<open>Consecutive version numbers\<close>

definition consecutive :: "payload list \<Rightarrow> bool" where
  "consecutive rows \<longleftrightarrow> (\<forall>r \<in> set rows. seq_of ` set (filter (same_lineage r) rows) = {1..int (length (filter (same_lineage r) rows))})"

lemma same_lineage_refl [simp]: "same_lineage r r"
  by (simp add: same_lineage_def)

lemma same_lineage_eq: "same_lineage a b \<Longrightarrow> same_lineage a = same_lineage b"
  by (auto simp: same_lineage_def fun_eq_iff)

lemma same_lineage_sym: "same_lineage a b \<longleftrightarrow> same_lineage b a"
  by (auto simp: same_lineage_def)

lemma next_number:
  assumes "consecutive rows"
  shows "(case map seq_of (filter (same_lineage r) rows) of [] \<Rightarrow> 0 | s # ss \<Rightarrow> foldl max s ss) + 1 =
    int (length (filter (same_lineage r) rows)) + 1"
proof (cases "filter (same_lineage r) rows")
  case (Cons x xs)
  have "same_lineage x = same_lineage r" "x \<in> set rows"
    using same_lineage_eq [of r x] Cons by (auto dest!: filter_eq_ConsD)
  then have numbers: "seq_of ` set (x # xs) = {1..int (length (x # xs))}"
    using assms Cons unfolding consecutive_def by metis
  have "foldl max s ss = Max (set (s # ss))" for s :: int and ss
    by (simp only: Max.set_eq_fold foldl_conv_fold max.commute)
  then have "foldl max (seq_of x) (map seq_of xs) = Max (seq_of ` set (x # xs))" by simp
  also have "\<dots> = int (length (x # xs))" unfolding numbers by (rule Max_eqI) auto
  finally show ?thesis using Cons by simp
qed simp

lemma insert_consecutive:
  assumes "consecutive rows" and "seq_of r = int (length (filter (same_lineage r) rows)) + 1"
  shows "consecutive (rows @ [r])"
  unfolding consecutive_def
proof
  let ?n = "\<lambda>r. length (filter (same_lineage r) rows)"
  fix x
  assume x: "x \<in> set (rows @ [r])"
  have old: "seq_of ` set (filter (same_lineage y) rows) = {1..int (?n y)}" for y
  proof (cases "\<exists>z \<in> set rows. same_lineage y z")
    case True
    then show ?thesis using assms(1) same_lineage_eq unfolding consecutive_def by metis
  next
    case False
    then have "filter (same_lineage y) rows = []" by (simp add: filter_empty_conv)
    then show ?thesis by (simp only: list.set image_empty list.size) simp
  qed
  show "seq_of ` set (filter (same_lineage x) (rows @ [r])) = {1..int (length (filter (same_lineage x) (rows @ [r])))}"
  proof (cases "same_lineage x r")
    case True
    then have "?n r = ?n x" using same_lineage_eq by metis
    then show ?thesis using True old [of x] assms(2) by auto
  next
    case False
    then show ?thesis using old [of x] by simp
  qed
qed

lemma map_consecutive:
  assumes "consecutive rows" and "\<And>r. seq_of (f r) = seq_of r" "\<And>r. same_lineage (f r) r"
  shows "consecutive (map f rows)"
proof -
  have lin: "same_lineage (f r) = same_lineage r" "same_lineage x (f r) \<longleftrightarrow> same_lineage x r" for r x
    using same_lineage_eq [OF assms(3)] same_lineage_sym by metis+
  have "map seq_of (filter (same_lineage x) (map f rows)) = map seq_of (filter (same_lineage x) rows)" for x
    by (simp add: filter_map o_def assms(2) lin(2))
  then have "seq_of ` set (filter (same_lineage x) (map f rows)) = seq_of ` set (filter (same_lineage x) rows)"
    "length (filter (same_lineage x) (map f rows)) = length (filter (same_lineage x) rows)" for x
    by (metis list.set_map, metis length_map)
  then show ?thesis using assms(1) by (simp add: consecutive_def lin(1))
qed

lemma csm_update_consecutive:
  assumes "csm_update env g p sets tabs = Inr tabs'" and "consecutive (tabs CSM)"
    and "set (dkeys sets) \<inter> {''tenant_id'', ''source_id'', ''template_id'', ''version_seq_per_source''} = {}"
  shows "consecutive (tabs' CSM)"
proof -
  have kept: "pget (if q then dupdate r sets else r) c = pget r c"
    if "c \<in> {''tenant_id'', ''source_id'', ''template_id'', ''version_seq_per_source''}" for q r c
    using that assms(3) by (auto intro!: pget_dupdate_other)
  show ?thesis
    unfolding csm_update_Inr(1) [OF assms(1)] fun_upd_same
    by (rule map_consecutive [OF assms(2)]) (simp_all only: seq_of_def same_lineage_def kept insert_iff simp_thms)
qed

section \<open>What a write keeps\<close>

lemma table_write_ok: "table_write env t tabs tabs' \<Longrightarrow> no_seq_default env \<Longrightarrow> templates_ok (tabs CSM) \<Longrightarrow> templates_ok (tabs' CSM)"
  by (induction rule: table_write.induct) (auto intro: create_insert_ok patch_body_ok)

lemma table_write_kept: "table_write env t tabs tabs' \<Longrightarrow> templates_ok (tabs CSM) \<Longrightarrow> table_kept (tabs CSM) (tabs' CSM)"
proof (induction rule: table_write.induct)
  case (insert serial p now nt tabs row tabs')
  from csm_insert_Inr(1) [OF insert(1)] show ?case by (simp add: table_kept_append list_all2_same)
qed (auto intro: patch_body_kept)

lemma csm_insert_consecutive:
  assumes "csm_insert env serial (write_gucs p t) cols tabs = Inr (row, tabs')" and "no_seq_default env"
    and "''version_seq_per_source'' \<notin> set (dkeys cols)" and "consecutive (tabs CSM)"
  shows "consecutive (tabs' CSM)"
  using insert_consecutive [OF assms(4)] inserted_seq [OF assms(1-3)] next_number [OF assms(4)] csm_insert_Inr(1) [OF assms(1)] by simp

lemma edit_consecutive:
  assumes "apply_rules_edit env serial (write_gucs p t) locked t i n rs cb tabs = Inr tabs'" and "no_seq_default env"
    and "consecutive (tabs CSM)"
  shows "consecutive (tabs' CSM)"
proof (cases "plan_edit locked")
  case (Edit_draft d)
  then show ?thesis using assms(1,3) csm_update_consecutive by (auto simp: apply_rules_edit_def)
next
  case (Chain_off h)
  then obtain r where "csm_insert env serial (write_gucs p t) (draft_values t i n rs cb h) tabs = Inr (r, tabs')"
    using assms(1) by (auto simp: apply_rules_edit_def split: sum.splits)
  from csm_insert_consecutive [OF this assms(2) _ assms(3)] show ?thesis by (simp add: draft_values_def)
qed (use assms(1) in \<open>simp add: apply_rules_edit_def\<close>)

lemma rename_consecutive:
  assumes "rename_lineage env g locked t i n tabs = Inr (m, tabs')" and "consecutive (tabs CSM)"
  shows "consecutive (tabs' CSM)"
  using assms(1) by (cases rule: rename_lineage_Inr) (use assms(2) csm_update_consecutive in auto)

lemma table_write_consecutive:
  "table_write env t tabs tabs' \<Longrightarrow> no_seq_default env \<Longrightarrow> consecutive (tabs CSM) \<Longrightarrow> consecutive (tabs' CSM)"
proof (induction rule: table_write.induct)
  case (insert serial p now nt tabs row tabs')
  then show ?case by (intro csm_insert_consecutive [OF insert(1)]) (auto simp: create_values_def)
next
  case (patch serial i n rules cb p tabs rows tabs')
  from patch(1) obtain m tabs1 where ren: "rename_lineage env (write_gucs p t) (lineage (write_gucs p t) i tabs) t i n tabs = Inr (m, tabs1)"
    and edit: "(case rules of None \<Rightarrow> Inr tabs1
      | Some rs \<Rightarrow> apply_rules_edit env serial (write_gucs p t) (lineage (write_gucs p t) i tabs) t i m rs cb tabs1) = Inr tabs'"
    by (rule patch_body_steps)
  have "consecutive (tabs1 CSM)" using rename_consecutive [OF ren patch(3)] .
  then show ?case using edit edit_consecutive patch(2) by (auto split: option.splits)
qed

text \<open>Rows of other tenants: an update that reaches one is refused by the policy.\<close>

lemma csm_update_isolated:
  assumes "csm_update env (write_gucs p t) q sets tabs = Inr tabs'" and "''tenant_id'' \<notin> set (dkeys sets)"
  shows "isolated t tabs tabs'"
proof -
  let ?f = "\<lambda>r. if rls_using (write_gucs p t) CSM r \<and> q r then dupdate r sets else r"
  have "foreign_rows t (map ?f rows) = foreign_rows t rows" if "set rows \<subseteq> set (tabs CSM)" for rows
    using that
  proof (induction rows)
    case (Cons r rows)
    have "pget r ''tenant_id'' = PyUuid t" if "rls_using (write_gucs p t) CSM r \<and> q r"
      using csm_update_Inr(2) [OF assms(1), of r] Cons.prems that pget_dupdate_other [OF assms(2), of r] by simp
    then show ?case using Cons pget_dupdate_other [OF assms(2), of r] by (auto simp: foreign_rows_def)
  qed (simp add: foreign_rows_def)
  then show ?thesis unfolding csm_update_Inr(1) [OF assms(1)] by (simp add: isolated_def)
qed

lemma csm_insert_isolated: "csm_insert env serial (write_gucs p t) cols tabs = Inr (row, tabs') \<Longrightarrow> isolated t tabs tabs'"
  using csm_insert_Inr(1,2) [of env serial "write_gucs p t" cols tabs row tabs'] by (auto simp: isolated_def foreign_rows_def)

lemma table_write_isolated: "table_write env t tabs tabs' \<Longrightarrow> isolated t tabs tabs'"
proof (induction rule: table_write.induct)
  case (patch serial i n rules cb p tabs rows tabs')
  let ?g = "write_gucs p t"
  from patch(1) obtain m tabs1 where ren: "rename_lineage env ?g (lineage ?g i tabs) t i n tabs = Inr (m, tabs1)"
    and edit: "(case rules of None \<Rightarrow> Inr tabs1 | Some rs \<Rightarrow> apply_rules_edit env serial ?g (lineage ?g i tabs) t i m rs cb tabs1) = Inr tabs'"
    by (rule patch_body_steps)
  have "isolated t tabs tabs1"
    using ren by (cases rule: rename_lineage_Inr) (auto intro: csm_update_isolated)
  moreover have "isolated t tabs1 tabs'"
    using edit
    by (auto simp: apply_rules_edit_def split: option.splits edit_plan.splits sum.splits intro: csm_update_isolated csm_insert_isolated)
  ultimately show ?case by (rule isolated_trans)
qed (auto intro: csm_insert_isolated)

end
