(* ===== verification/Template_Service.thy ===== *)
theory Template_Service
  imports Template_Laws
begin

text \<open>
  The template service as a whole: any sequence of requests on \<open>/mapping-templates\<close>, and what the
  streaming consumer finds in the table they leave. \<open>template_request\<close> is one request; the state
  after a sequence of them is the reflexive transitive closure.
\<close>

section \<open>Sequences of requests\<close>

lemma requests_keep:
  assumes "(template_request env rd dp)\<^sup>*\<^sup>* s s'" and "no_seq_default env" and "templates_ok (pg_tables s CSM)"
  shows "templates_ok (pg_tables s' CSM)" and "table_kept (pg_tables s CSM) (pg_tables s' CSM)"
    and "consecutive (pg_tables s CSM) \<Longrightarrow> consecutive (pg_tables s' CSM)"
proof -
  have "templates_ok (pg_tables s' CSM) \<and> table_kept (pg_tables s CSM) (pg_tables s' CSM) \<and>
    (consecutive (pg_tables s CSM) \<longrightarrow> consecutive (pg_tables s' CSM))"
    using assms(1)
  proof (induction rule: rtranclp_induct)
    case (step y z)
    then obtain t where "table_write env t (pg_tables y) (pg_tables z)" using request_writes by blast
    note w = table_write_ok [OF this assms(2)] table_write_kept [OF this] table_write_consecutive [OF this assms(2)]
    have "table_kept (pg_tables s CSM) (pg_tables z CSM)" using step.IH w(2) table_kept_trans by blast
    with step.IH w(1,3) show ?case by blast
  qed (use assms(3) in simp)
  then show "templates_ok (pg_tables s' CSM)" "table_kept (pg_tables s CSM) (pg_tables s' CSM)"
    "consecutive (pg_tables s CSM) \<Longrightarrow> consecutive (pg_tables s' CSM)" by auto
qed

lemma templates_ok_pair:
  assumes "templates_ok rows" and "i < j" "j < length rows"
  shows "csm_clash (rows ! i) (rows ! j) = None"
    and "\<not> (same_template (rows ! i) (rows ! j) \<and> status_of (rows ! i) = ''DRAFT'' \<and> status_of (rows ! j) = ''DRAFT'')"
  using assms by (auto simp: templates_ok_def constraints_hold_def one_draft_def sorted_wrt_iff_nth_less)

text \<open>C15: However templates are created and edited, by tenants and by platform operators, two rows of
  the table never carry the same version number of one template, are never both its ACTIVE
  version or both its DRAFT, and never give one name to two templates of a source, except when
  one of the rows is deprecated.\<close>

theorem template_table_invariant:
  assumes "(template_request env rd dp)\<^sup>*\<^sup>* s s'" and "no_seq_default env" and "templates_ok (pg_tables s CSM)"
    and "i < j" "j < length (pg_tables s' CSM)" and "a = pg_tables s' CSM ! i" "b = pg_tables s' CSM ! j"
    and "pget a ''tenant_id'' = pget b ''tenant_id''" "pget a ''source_id'' = pget b ''source_id''"
  shows "(pget a ''template_id'' = pget b ''template_id'' \<longrightarrow> seq_of a \<noteq> seq_of b \<and>
      \<not> (status_of a = ''ACTIVE'' \<and> status_of b = ''ACTIVE'') \<and> \<not> (status_of a = ''DRAFT'' \<and> status_of b = ''DRAFT'')) \<and>
    (pget a ''template_name'' = pget b ''template_name'' \<and> status_of a \<noteq> ''DEPRECATED'' \<and> status_of b \<noteq> ''DEPRECATED'' \<longrightarrow>
      pget a ''template_id'' = pget b ''template_id'')"
  using templates_ok_pair [OF requests_keep(1) [OF assms(1-3)] assms(4,5)] assms(8,9)
  unfolding assms(6,7) [symmetric] csm_clash_def same_lineage_def by (auto split: if_splits)

text \<open>C23: The versions of a template are numbered 1, 2, ... without gaps or repeats and never beyond
  the range of the SMALLINT column: after any requests on an empty table, the numbers of a
  template with n versions are exactly 1 to n, and n is at most 32767.\<close>

theorem version_numbers_bounded:
  assumes "(template_request env rd dp)\<^sup>*\<^sup>* s s'" and "no_seq_default env" and "pg_tables s CSM = []"
    and "r \<in> set (pg_tables s' CSM)" and "versions = filter (same_lineage r) (pg_tables s' CSM)"
  shows "seq_of ` set versions = {1..int (length versions)} \<and> length versions \<le> 32767"
proof
  have start: "templates_ok (pg_tables s CSM)" "consecutive (pg_tables s CSM)"
    by (simp_all add: assms(3) templates_ok_def constraints_hold_def one_draft_def sequences_bounded_def consecutive_def)
  note keep = requests_keep [OF assms(1,2) start(1)]
  show numbers: "seq_of ` set versions = {1..int (length versions)}"
    using keep(3) [OF start(2)] assms(4) unfolding assms(5) consecutive_def by blast
  have "r \<in> set versions" using assms(4,5) by simp
  then have "int (length versions) \<in> seq_of ` set versions" unfolding numbers by (cases versions) auto
  then obtain v where "v \<in> set (pg_tables s' CSM)" "seq_of v = int (length versions)" unfolding assms(5) by auto
  then show "length versions \<le> 32767" using keep(1) by (auto simp: templates_ok_def sequences_bounded_def list_all_iff)
qed

text \<open>C22: A version that is not a draft is immutable: whatever requests follow, its row stays in the
  table and no column of it changes except the name of the template.\<close>

theorem published_version_immutable:
  assumes "(template_request env rd dp)\<^sup>*\<^sup>* s s'" and "no_seq_default env" and "templates_ok (pg_tables s CSM)"
    and "i < length (pg_tables s CSM)" and "status_of (pg_tables s CSM ! i) \<noteq> ''DRAFT''" and "c \<noteq> ''template_name''"
  shows "i < length (pg_tables s' CSM) \<and> pget (pg_tables s' CSM ! i) c = pget (pg_tables s CSM ! i) c"
  using requests_keep(2) [OF assms(1-3)] assms(4-6)
  by (auto simp: table_kept_def list_all2_conv_all_nth row_kept_def)

section \<open>Other tenants\<close>

text \<open>C19: A request on templates writes only for the tenant it acts for, also when a platform operator,
  whose session sees every tenant's rows, makes it: the rows of every other tenant, in every
  table, are those before; a request that acts for no tenant writes nothing.\<close>

theorem template_writes_isolated:
  "(case resolve_acted_for scope (tc_acting_for_tenant_id body) of
      Inl e \<Rightarrow> create_mapping_template env rd dp u serial now idn scope body s = (Inl e, s)
    | Inr t \<Rightarrow> isolated t (pg_tables s) (pg_tables (snd (create_mapping_template env rd dp u serial now idn scope body s)))) \<and>
   (case resolve_acted_for scope (tp_acting_for_tenant_id patch) of
      Inl e \<Rightarrow> patch_mapping_template env rd dp serial idn scope i patch s = (Inl e, s)
    | Inr t \<Rightarrow> isolated t (pg_tables s) (pg_tables (snd (patch_mapping_template env rd dp serial idn scope i patch s))))"
proof
  show "case resolve_acted_for scope (tc_acting_for_tenant_id body) of
      Inl e \<Rightarrow> create_mapping_template env rd dp u serial now idn scope body s = (Inl e, s)
    | Inr t \<Rightarrow> isolated t (pg_tables s) (pg_tables (snd (create_mapping_template env rd dp u serial now idn scope body s)))"
    by (cases "resolve_acted_for scope (tc_acting_for_tenant_id body)")
      (simp_all add: table_write_isolated [OF create_mapping_template_write], simp add: create_mapping_template_def)
  show "case resolve_acted_for scope (tp_acting_for_tenant_id patch) of
      Inl e \<Rightarrow> patch_mapping_template env rd dp serial idn scope i patch s = (Inl e, s)
    | Inr t \<Rightarrow> isolated t (pg_tables s) (pg_tables (snd (patch_mapping_template env rd dp serial idn scope i patch s)))"
    by (cases "resolve_acted_for scope (tp_acting_for_tenant_id patch)")
      (simp_all add: table_write_isolated [OF patch_mapping_template_write], simp add: patch_mapping_template_def)
qed

section \<open>What the consumer runs\<close>

text \<open>A session of the consumer for the tenant opens.\<close>

definition opens :: "pgenv \<Rightarrow> uuid \<Rightarrow> pgstate \<Rightarrow> bool" where
  "opens env t s \<longleftrightarrow> is_ok (fst (rls_session env t (\<lambda>g tabs. Inr ((), tabs)) s))"

lemma select_live_opens:
  "opens env t s \<Longrightarrow> select_live_mapping env s t src i =
     Inr (case live_rows (tenant_scope t) t src i (pg_tables s) of [] \<Rightarrow> None | r # _ \<Rightarrow> Some (to_mapping_row r))"
  by (auto simp: opens_def select_live_mapping_def rls_session_def verified_transaction_def Let_def split: option.splits sum.splits if_splits)

lemma select_live_Inr:
  "select_live_mapping env s t src i = Inr (Some m) \<Longrightarrow>
     \<exists>r rs. live_rows (tenant_scope t) t src i (pg_tables s) = r # rs \<and> m = to_mapping_row r"
  by (auto simp: select_live_mapping_def rls_session_def verified_transaction_def Let_def split: option.splits sum.splits list.splits if_splits)

lemma set_live_rows:
  "set (live_rows (tenant_scope t) t src i tabs) = {r \<in> set (tabs CSM). pget r ''tenant_id'' = PyUuid t \<and>
     pget r ''source_id'' = PyStr src \<and> pget r ''template_id'' = PyUuid i \<and> status_of r = ''ACTIVE''}"
  by (auto simp: live_rows_def sql_select_def)

lemma constraints_eq: "constraints_hold rows \<Longrightarrow> a \<in> set rows \<Longrightarrow> b \<in> set rows \<Longrightarrow> csm_clash a b \<noteq> None \<Longrightarrow> a = b"
  unfolding constraints_hold_def using csm_clash_sym by (induction rows) auto

lemma live_row_unique:
  assumes "constraints_hold (tabs CSM)" and "r \<in> set (live_rows (tenant_scope t) t src i tabs)"
  shows "\<exists>rs. live_rows (tenant_scope t) t src i tabs = r # rs"
proof (cases "live_rows (tenant_scope t) t src i tabs")
  case (Cons a as)
  then have "a \<in> set (live_rows (tenant_scope t) t src i tabs)" by simp
  with assms have "a = r" by (intro constraints_eq [OF assms(1)]) (auto simp: set_live_rows csm_clash_def same_lineage_def)
  with Cons show ?thesis by simp
qed (use assms(2) in simp)

lemma load_selects:
  "load_active_mapping sel rd ev = Inr l \<Longrightarrow> \<exists>m. sel (ie_tenant_id ev) (ie_source_id ev) (ie_template_id ev) = Inr (Some m)"
  by (auto simp: load_active_mapping_def Let_def result_simps split: option.splits)

lemma load_cong:
  "sel (ie_tenant_id ev) (ie_source_id ev) (ie_template_id ev) = sel' (ie_tenant_id ev) (ie_source_id ev) (ie_template_id ev) \<Longrightarrow>
   load_active_mapping sel rd ev = load_active_mapping sel' rd ev"
  by (simp add: load_active_mapping_def)

text \<open>C17: Editing never touches what runs: once the consumer can load a mapping for a template, it
  loads the same version with the same rules after any further requests by anyone, because
  edits go to a draft and the constraints admit no second ACTIVE version.\<close>

theorem live_mapping_stable:
  assumes "load_active_mapping (select_live_mapping env s) rd ev = Inr l"
    and "(template_request env rd' dp)\<^sup>*\<^sup>* s s'" and "no_seq_default env" and "templates_ok (pg_tables s CSM)"
    and "opens env (ie_tenant_id ev) s'"
  shows "load_active_mapping (select_live_mapping env s') rd ev = Inr l"
proof -
  let ?live = "\<lambda>s. live_rows (tenant_scope (ie_tenant_id ev)) (ie_tenant_id ev) (ie_source_id ev) (ie_template_id ev) (pg_tables s)"
  obtain m where m: "select_live_mapping env s (ie_tenant_id ev) (ie_source_id ev) (ie_template_id ev) = Inr (Some m)"
    using load_selects [OF assms(1)] by blast
  obtain r rs where r: "?live s = r # rs" "m = to_mapping_row r" using select_live_Inr [OF m] by blast
  note keep = requests_keep [OF assms(2-4)]
  have "r \<in> set (?live s)" using r by simp
  then obtain r' where r': "r' \<in> set (pg_tables s' CSM)" "row_kept r r'" and active: "status_of r = ''ACTIVE''"
    using table_kept_row [OF keep(2), of r] by (auto simp: set_live_rows)
  then have "r' \<in> set (?live s')" using \<open>r \<in> _\<close> by (auto simp: set_live_rows row_kept_columns)
  from live_row_unique [OF _ this] obtain rs' where "?live s' = r' # rs'" using keep(1) by (auto simp: templates_ok_def)
  moreover have "to_mapping_row r' = m"
    using r(2) active by (simp add: to_mapping_row_def row_kept_columns [OF r'(2)] row_kept_rules [OF r'(2)])
  ultimately have "select_live_mapping env s' (ie_tenant_id ev) (ie_source_id ev) (ie_template_id ev) = Inr (Some m)"
    using select_live_opens [OF assms(5)] by simp
  then show ?thesis using load_cong [of "select_live_mapping env s'" ev "select_live_mapping env s" rd] m assms(1) by simp
qed

lemma inserted_other:
  assumes "csm_insert env serial g cols tabs = Inr (r, tabs')" and "c \<notin> set (dkeys cols)" "c \<noteq> ''version_seq_per_source''"
  shows "pget r c = (if c = ''mapping_version_id'' then PyInt serial else pget (pg_defaults env CSM) c)"
proof -
  let ?d = "dupdate (pg_defaults env CSM) [(''mapping_version_id'', PyInt serial)]"
  have "pget r c = pget (dupdate ?d cols) c"
    unfolding csm_insert_Inr(5) [OF assms(1)] using assms(3) by (simp add: set_csm_version_seq_def pget_def dget_dset)
  also have "\<dots> = pget ?d c" by (rule pget_dupdate_other [OF assms(2)])
  also have "\<dots> = (if c = ''mapping_version_id'' then PyInt serial else pget (pg_defaults env CSM) c)"
    by (simp add: pget_def dupdate_def)
  finally show ?thesis .
qed

text \<open>The row a create inserts, as the consumer reads it.\<close>

lemma created_row:
  assumes "csm_insert env serial (write_gucs p t) (create_values t now nt) tabs = Inr (r, tabs')"
    and "dget (pg_defaults env CSM) ''pre_validation_suite_ref'' = None" "dget (pg_defaults env CSM) ''post_validation_suite_ref'' = None"
  shows "to_mapping_row r = \<lparr>row_mapping_version_id = serial, row_mapping_rules = nt_mapping_rules nt,
      row_template_type = nt_template_type nt, row_pre_suite_ref = None, row_post_suite_ref = None\<rparr>"
    and "status_of r = ''ACTIVE''" "pget r ''mapping_rules'' = nt_mapping_rules nt"
    and "live_rows (tenant_scope t) t (nt_source_id nt) (nt_template_id nt) tabs' = [r]"
proof -
  have cols: "distinct (dkeys (create_values t now nt))" by (simp add: create_values_def)
  note field = inserted_field [OF assms(1) cols] and other = inserted_other [OF assms(1)]
  have row: "pget r ''tenant_id'' = PyUuid t" "pget r ''source_id'' = PyStr (nt_source_id nt)" "pget r ''template_id'' = PyUuid (nt_template_id nt)"
    "pget r ''template_type'' = PyStr (nt_template_type nt)"
    by (rule field; simp add: create_values_def)+
  show rules: "pget r ''mapping_rules'' = nt_mapping_rules nt" by (rule field; simp add: create_values_def)
  have "pget r ''status'' = PyStr ''ACTIVE''" by (rule field; simp add: create_values_def)
  then show active: "status_of r = ''ACTIVE''" by (simp add: status_of_def)
  have "pget r ''mapping_version_id'' = PyInt serial" "pget r ''pre_validation_suite_ref'' = PyNone" "pget r ''post_validation_suite_ref'' = PyNone"
    by (simp_all add: other create_values_def, simp_all add: pget_def assms(2,3))
  then show "to_mapping_row r = \<lparr>row_mapping_version_id = serial, row_mapping_rules = nt_mapping_rules nt,
      row_template_type = nt_template_type nt, row_pre_suite_ref = None, row_post_suite_ref = None\<rparr>"
    using row(4) rules by (simp add: to_mapping_row_def version_of_def text_column_def)
  have "x \<notin> set (live_rows (tenant_scope t) t (nt_source_id nt) (nt_template_id nt) tabs)" for x
    using csm_insert_Inr(4) [OF assms(1), of x] row active by (auto simp: set_live_rows csm_clash_def same_lineage_def split: if_splits)
  then have "live_rows (tenant_scope t) t (nt_source_id nt) (nt_template_id nt) tabs = []" by (meson last_in_set)
  then show "live_rows (tenant_scope t) t (nt_source_id nt) (nt_template_id nt) tabs' = [r]"
    using row active unfolding csm_insert_Inr(1) [OF assms(1)] by (simp add: live_rows_def sql_select_def)
qed

text \<open>C18: Creating a template is all or nothing, and a created template runs: a request that answers with an
  error leaves every table as it was, also an error of the response itself; after one that
  answers with the template, the consumer loads, for an event naming it, exactly the rules the
  gate accepted, under the new version id and for the model of the requested type.\<close>

theorem created_template_runs:
  assumes "resolve_acted_for scope (tc_acting_for_tenant_id body) = Inr t"
    and "\<And>source. gated_rules rd t body = Inr source \<Longrightarrow> rd (dp source) = Some source"
    and "dget (pg_defaults env CSM) ''pre_validation_suite_ref'' = None" "dget (pg_defaults env CSM) ''post_validation_suite_ref'' = None"
    and "ie_tenant_id ev = t" "ie_source_id ev = tc_source_id body" "ie_template_id ev = u"
  shows "case create_mapping_template env rd dp u serial now idn scope body s of
      (Inl e, s') \<Rightarrow> pg_tables s' = pg_tables s
    | (Inr detail, s') \<Rightarrow> opens env t s' \<longrightarrow> (\<exists>source model. gated_rules rd t body = Inr source \<and>
        model_for_template_type (tc_template_type body) = Inr model \<and> load_active_mapping (select_live_mapping env s') rd ev =
        Inr \<lparr>lm_mapping_version_id = serial, lm_source = source, lm_target_model = model, lm_hot_complete = (tc_template_type body = SNAPSHOT)\<rparr>)"
proof (cases "gated_rules rd t body")
  case (Inr source)
  let ?nt = "\<lparr>nt_template_id = u, nt_source_id = tc_source_id body, nt_template_name = tc_template_name body,
    nt_template_type = tc_template_type body, nt_mapping_rules = dp source, nt_created_by_user_id = created_by_uuid idn\<rparr>"
  from Inr obtain raw where gate: "validate_mapping_rules_for_type rd raw (tc_template_type body) (uuid_str t) = Inr source"
    by (auto simp: gated_rules_def result_simps)
  have v: "validate_rules source = Inr ()" using gate by (rule gate_accepts)
  obtain res s' where run: "create_template env serial now (ws_user_type scope) t ?nt s = (res, s')"
    by (cases "create_template env serial now (ws_user_type scope) t ?nt s")
  show ?thesis
  proof (cases res)
    case (Inl e)
    then have "pg_tables s' = pg_tables s" using run by (auto simp: create_template_def write_session_run dest: verified_transaction_Inl)
    then show ?thesis using Inl run Inr by (simp add: create_mapping_template_def assms(1))
  next
    case row: (Inr r)
    with run have ins: "csm_insert env serial (write_gucs (ws_user_type scope = PLATFORM) t) (create_values t now ?nt) (pg_tables s) = Inr (r, pg_tables s')"
      by (auto simp: create_template_def write_session_run dest!: verified_transaction_Inr split: sum.splits prod.splits)
    note new = created_row [OF ins assms(3,4)]
    have "is_ok (to_detail rd [r])"
      using assms(2) [OF Inr] v by (simp add: to_detail_def to_version_def new(2,3) STATUS_WIRE_def dget_def)
    then obtain d where d: "to_detail rd [r] = Inr d" by (auto simp: is_ok_iff)
    have "\<exists>model. model_for_template_type (tc_template_type body) = Inr model \<and> load_active_mapping (select_live_mapping env s') rd ev =
        Inr \<lparr>lm_mapping_version_id = serial, lm_source = source, lm_target_model = model, lm_hot_complete = (tc_template_type body = SNAPSHOT)\<rparr>"
      if "opens env t s'"
      using gate_accepted_loads [OF gate, of "to_mapping_row r" "select_live_mapping env s'" ev] assms(2) [OF Inr] new(1,4)
        select_live_opens [OF that, of "tc_source_id body" u] by (simp add: assms(5-7))
    then show ?thesis using row run Inr d by (simp add: create_mapping_template_def assms(1))
  qed
qed (simp add: create_mapping_template_def assms(1))

section \<open>No existence oracle\<close>

text \<open>Two states that differ only in rows of other tenants.\<close>

definition same_for :: "uuid \<Rightarrow> pgstate \<Rightarrow> pgstate \<Rightarrow> bool" where
  "same_for t s s' \<longleftrightarrow> pg_verified s = pg_verified s' \<and> pg_txn s = pg_txn s' \<and>
     filter (\<lambda>r. pget r ''tenant_id'' = PyUuid t) (pg_tables s CSM) = filter (\<lambda>r. pget r ''tenant_id'' = PyUuid t) (pg_tables s' CSM)"

lemma own_select:
  assumes "same_for t s s'"
  shows "sql_select (tenant_scope t) CSM p (pg_tables s) = sql_select (tenant_scope t) CSM p (pg_tables s')"
  using arg_cong [where f = "filter p", OF conjunct2 [OF conjunct2 [OF assms [unfolded same_for_def]]]]
  by (simp add: sql_select_def conj_commute)

lemma own_session:
  assumes "same_for t s s'" and "f (pg_tables s) = f (pg_tables s')"
  shows "fst (rls_session env t (\<lambda>g tabs. Inr (f tabs, tabs)) s) = fst (rls_session env t (\<lambda>g tabs. Inr (f tabs, tabs)) s')"
  using assms by (auto simp: same_for_def rls_session_def verified_transaction_def Let_def split: option.splits sum.splits)

lemma own_rows:
  assumes "same_for t s s'"
  shows "fst (get_template_rows env \<lparr>rs_is_platform = False, rs_tenant_id = Some t\<rparr> i s) =
      fst (get_template_rows env \<lparr>rs_is_platform = False, rs_tenant_id = Some t\<rparr> i s')"
    and "fst (list_template_rows env \<lparr>rs_is_platform = False, rs_tenant_id = Some t\<rparr> source_id s) =
      fst (list_template_rows env \<lparr>rs_is_platform = False, rs_tenant_id = Some t\<rparr> source_id s')"
  unfolding get_template_rows_def list_template_rows_def read_session_def rls_session_def lineage_def
  using own_session [OF assms, of "\<lambda>tabs. sort_key (\<lambda>r. - seq_of r) (sql_select (tenant_scope t) CSM (\<lambda>r. pget r ''template_id'' = PyUuid i) tabs)"]
    own_session [OF assms, of "\<lambda>tabs. sort_key (\<lambda>r. (py_str (pget r ''source_id''), py_str (pget r ''template_name''), template_id_of r, - seq_of r))
      (sql_select (tenant_scope t) CSM (\<lambda>r. case source_id of None \<Rightarrow> True | Some src \<Rightarrow> pget r ''source_id'' = PyStr src) tabs)"]
  by (simp_all add: own_select [OF assms] rls_session_def)

text \<open>C21: A tenant cannot learn of another tenant's templates: the list, the detail of any template id and
  the state of a template an upload names are answered the same whatever rows other tenants
  have, so an id that exists elsewhere is answered like one that does not exist.\<close>

theorem tenant_reads_only_own:
  assumes "require_read_scope i = Inr scope" and "id_user_type i = TENANT" and "rs_tenant_id scope = Some t" and "same_for t s s'"
  shows "fst (list_mapping_templates env scope source_id s) = fst (list_mapping_templates env scope source_id s') \<and>
    fst (get_mapping_template env rd scope template_id s) = fst (get_mapping_template env rd scope template_id s') \<and>
    fst (resolve_active_template env t template_id s) = fst (resolve_active_template env t template_id s')"
proof -
  have scope: "scope = \<lparr>rs_is_platform = False, rs_tenant_id = Some t\<rparr>"
    using assms(1-3) by (auto simp: require_read_scope_def result_simps)
  note rows = own_rows [OF assms(4), of env, folded scope]
  show ?thesis
    using rows(1) [of template_id] rows(2) [of source_id]
    by (auto simp: list_mapping_templates_def get_mapping_template_def resolve_active_template_def scope [symmetric]
        split: prod.splits sum.splits)
qed

text \<open>An edit by a tenant of a template it has no row of is answered as if the template did not exist.
  A platform operator's rename is not: its session sees the other tenant's rows.\<close>

lemma tenant_patch_invisible:
  assumes "opens env t s" and "\<forall>r \<in> set (pg_tables s CSM). pget r ''template_id'' = PyUuid i \<longrightarrow> pget r ''tenant_id'' \<noteq> PyUuid t"
  shows "fst (patch_template env serial TENANT t i n rules cb s) =
    Inl (resource_not_found_error ''mapping_template'' (uuid_str i) (Some (uuid_str t)))"
proof -
  have "set (lineage (tenant_scope t) i (pg_tables s)) = {}" using assms(2) by (auto simp: set_lineage)
  then show ?thesis using assms(1)
    by (auto simp: opens_def patch_template_def write_session_def rls_session_def verified_transaction_def patch_body_def patch_locked_def Let_def
        split: option.splits sum.splits if_splits)
qed

lemma platform_rename_forbidden:
  assumes "opens env t s" and "pg_tables s CSM = [r]" and "pget r ''template_id'' = PyUuid i" "pget r ''tenant_id'' \<noteq> PyUuid t"
    and "pget r ''template_name'' = PyStr m" "n \<noteq> m"
  shows "\<exists>e. fst (patch_template env serial PLATFORM t i (Some n) None cb s) = Inl e \<and> exn_class e \<noteq> ResourceNotFoundError"
proof -
  let ?g = "platform_scope (Some t)"
  have g: "?g = write_gucs True t" by (simp add: write_gucs_def)
  have "lineage ?g i (pg_tables s) = [r]"
    using assms(2,3) by (simp add: lineage_def sql_select_def rls_using_def) (simp add: platform_scope_def)
  moreover have "pget (dupdate r [(''template_name'', PyStr n)]) ''tenant_id'' = pget r ''tenant_id''"
    by (rule pget_dupdate_other) simp
  then have "\<not> rls_with_check ?g CSM (dupdate r [(''template_name'', PyStr n)])" using assms(4) unfolding g by simp
  then have "csm_update env ?g (\<lambda>r. pget r ''template_id'' = PyUuid i) [(''template_name'', PyStr n)] (pg_tables s) =
      Inl (py_exn (PyForeign ''InsufficientPrivilegeError''))"
    using assms(2,3) by (simp only: csm_update_def csm_update_rows.simps admit_def) (simp add: rls_using_def, simp add: platform_scope_def)
  ultimately have "patch_body env serial t i (Some n) None cb ?g (pg_tables s) = Inl (py_exn (PyForeign ''InsufficientPrivilegeError''))"
    using assms(5,6) by (simp add: patch_body_def patch_locked_def rename_lineage_def violates_def py_exn_def)
  then show ?thesis using assms(1)
    by (auto simp: opens_def patch_template_def write_session_def rls_session_def rls_platform_session_def verified_transaction_def Let_def
        py_exn_def split: option.splits sum.splits if_splits)
qed

end
