(* ===== verification/Csv_Upload.thy ===== *)
theory Csv_Upload
  imports Upload_Stream Template_Service
begin

text \<open>
  \<open>POST /csv-uploads\<close> of \<open>dis-ui-server\<close> (\<open>handlers/csv_uploads.py\<close>) with the lookups it makes
  (\<open>repos/stores.py\<close>, \<open>repos/tenants.py\<close>), its envelope (\<open>publisher.py\<close>) and its audit (\<open>audit.py\<close>).

  \<^item> The state is the database, the objects written to the bronze bucket, the messages the broker took
    on \<open>csv.received\<close>, and counts of clock readings, object writes and publish calls.
  \<^item> Outside are the record \<open>upload_runtime\<close>: the database environment, clocks, minted trace ids,
    SHA-256, the object store, the broker, the multipart parser and the texts of exceptions.
\<close>

section \<open>State\<close>

record upload_runtime =
  ur_env :: pgenv
  ur_json_dumps :: "pyval \<Rightarrow> string"
  ur_mono :: "nat \<Rightarrow> int"
  ur_clock :: "nat \<Rightarrow> int"
  ur_new_trace :: "nat \<Rightarrow> uuid"
  ur_sha256 :: "string \<Rightarrow> string"
  ur_upload :: "nat \<Rightarrow> string \<Rightarrow> string \<Rightarrow> exn option"
  ur_publish :: "nat \<Rightarrow> string \<Rightarrow> csv_event \<Rightarrow> exn option"
  ur_multipart :: multipart
  ur_exn_str :: "exn \<Rightarrow> string"
  ur_exn_name :: "exn \<Rightarrow> string"
  ur_bucket :: string
  ur_topic :: string

record uploads =
  uw_pg :: pgstate
  uw_ticks :: nat
  uw_puts :: nat
  uw_objects :: "(string \<times> string) list"
  uw_sends :: nat
  uw_published :: "(string \<times> csv_event) list"

type_synonym 'a upload = "(uploads, 'a) eff"

definition upg :: "(pgstate \<Rightarrow> (exn, 'a) result \<times> pgstate) \<Rightarrow> 'a upload" where
  "upg f s = (case f (uw_pg s) of (r, pg) \<Rightarrow> (r, s\<lparr>uw_pg := pg\<rparr>))"

definition unow :: "upload_runtime \<Rightarrow> pydatetime upload" where
  "unow rt s = (Inr (PyDatetime (ur_clock rt (uw_ticks s)) (Some 0)), s\<lparr>uw_ticks := Suc (uw_ticks s)\<rparr>)"

definition unew_trace :: "upload_runtime \<Rightarrow> uuid upload" where
  "unew_trace rt s = (Inr (ur_new_trace rt (uw_ticks s)), s\<lparr>uw_ticks := Suc (uw_ticks s)\<rparr>)"

definition umono :: "upload_runtime \<Rightarrow> int upload" where
  "umono rt s = (Inr (ur_mono rt (uw_ticks s)), s\<lparr>uw_ticks := Suc (uw_ticks s)\<rparr>)"

definition elapsed_ms :: "upload_runtime \<Rightarrow> int \<Rightarrow> int upload" where
  "elapsed_ms rt t0 = ebind (umono rt) (\<lambda>now. ereturn (max ((now - t0) div 1000) 0))"

definition upload_bytes :: "upload_runtime \<Rightarrow> string \<Rightarrow> string \<Rightarrow> unit upload" where
  "upload_bytes rt key data s = (let s1 = s\<lparr>uw_puts := Suc (uw_puts s)\<rparr> in
     case ur_upload rt (uw_puts s) key data of
       Some e \<Rightarrow> (Inl e, s1) | None \<Rightarrow> (Inr (), s1\<lparr>uw_objects := uw_objects s @ [(key, data)]\<rparr>))"

definition upublish :: "upload_runtime \<Rightarrow> csv_event \<Rightarrow> unit upload" where
  "upublish rt e s = (let s1 = s\<lparr>uw_sends := Suc (uw_sends s)\<rparr> in
     case ur_publish rt (uw_sends s) (ur_topic rt) e of
       Some x \<Rightarrow> (Inl x, s1) | None \<Rightarrow> (Inr (), s1\<lparr>uw_published := uw_published s @ [(ur_topic rt, e)]\<rparr>))"

section \<open>Errors and audit\<close>

definition store_state_conflict_error :: "string \<Rightarrow> string \<Rightarrow> string \<Rightarrow> string \<Rightarrow> string \<Rightarrow> exn" where
  "store_state_conflict_error store_id store_code tenant expected actual = Exn StoreStateConflictError
     [(''store_id'', AStr store_id), (''store_code'', AStr store_code), (''tenant_id'', AStr tenant), (''expected'', AStr expected), (''actual'', AStr actual)]"

definition event_publish_error :: "string \<Rightarrow> string \<Rightarrow> string \<Rightarrow> exn" where
  "event_publish_error topic tenant trace = Exn EventPublishError [(''topic'', AStr topic), (''tenant_id'', AStr tenant), (''trace_id'', AStr trace)]"

definition UI_SERVICE_NAME :: string where "UI_SERVICE_NAME = ''dis-ui-server''"

definition ui_event :: "uuid \<Rightarrow> uuid \<Rightarrow> stage \<Rightarrow> outcome \<Rightarrow> audit_event" where
  "ui_event tenant trace stg out = (worker_event tenant trace stg out)\<lparr>ae_service_name := UI_SERVICE_NAME\<rparr>"

definition ui_emit :: "upload_runtime \<Rightarrow> audit_event \<Rightarrow> unit upload" where
  "ui_emit rt e = ebind (unow rt) (\<lambda>now s.
     case validate_audit_event (e\<lparr>ae_event_timestamp := now\<rparr>) of
       Inl _ \<Rightarrow> (Inr (), s)
     | Inr e' \<Rightarrow> (Inr (), s\<lparr>uw_pg := snd (audit_write (ur_env rt) (ur_json_dumps rt) e' (uw_pg s))\<rparr>))"

definition auth_principal :: "identity \<Rightarrow> string" where
  "auth_principal i = ''user:'' @ id_user_id i"

definition emit_failure ::
  "upload_runtime \<Rightarrow> identity \<Rightarrow> string option \<Rightarrow> uuid \<Rightarrow> uuid \<Rightarrow> failure_code \<Rightarrow> exn \<Rightarrow> int \<Rightarrow> payload \<Rightarrow> unit upload" where
  "emit_failure rt identity client_ip tenant trace code failure duration_ms extra =
     ui_emit rt ((ui_event tenant trace RECEIVED FAILURE)\<lparr>ae_duration_ms := Some duration_ms,
       ae_failure_code := Some (failure_code_value code), ae_failure_message := Some (ur_exn_str rt failure),
       ae_event_data := Some (dupdate [(''phase'', PyStr ''csv_upload_phase1'')] extra),
       ae_auth_principal := Some (auth_principal identity), ae_client_ip := client_ip\<rparr>)"

definition TIER0_CODES :: "(string, failure_code) pydict" where
  "TIER0_CODES = [(''empty_file'', UPLOAD_EMPTY_FILE), (''not_utf8'', UPLOAD_NOT_UTF8), (''not_csv'', UPLOAD_NOT_CSV),
     (''below_min_rows'', UPLOAD_BELOW_MIN_ROWS)]"

definition rejection_code :: "string \<Rightarrow> exn \<Rightarrow> failure_code" where
  "rejection_code step e =
    (if isinstance e PayloadTooLargeError then UPLOAD_TOO_LARGE
     else if isinstance e UploadRequestError then UPLOAD_REQUEST_MALFORMED
     else if isinstance e UploadStructureError
     then (case getattr_none e ''reason'' of AStr r \<Rightarrow> (case dget TIER0_CODES r of Some c \<Rightarrow> c | None \<Rightarrow> UPLOAD_REQUEST_MALFORMED)
       | _ \<Rightarrow> UPLOAD_REQUEST_MALFORMED)
     else if isinstance e MappingStateConflictError then TEMPLATE_NOT_ACTIVE
     else if isinstance e StoreStateConflictError then STORE_NOT_ACTIVE
     else if isinstance e ResourceNotFoundError then (if step = ''template'' then TEMPLATE_NOT_FOUND else STORE_NOT_FOUND)
     else INFRA_FAILURE)"

section \<open>Lookups\<close>

abbreviation STORES :: string where "STORES \<equiv> ''identity_mirror.stores''"

abbreviation TENANTS :: string where "TENANTS \<equiv> ''identity_mirror.tenants''"

definition the_store :: "uuid \<Rightarrow> string \<Rightarrow> payload list \<Rightarrow> (exn, payload) result" where
  "the_store tenant_id store_code rows = (case rows of
     [] \<Rightarrow> Inl (resource_not_found_error ''store'' store_code (Some (uuid_str tenant_id)))
   | [r] \<Rightarrow> Inr r
   | _ \<Rightarrow> Inl (Exn DisError []))"

definition resolve_store_by_code :: "pgenv \<Rightarrow> uuid \<Rightarrow> string \<Rightarrow> pgstate \<Rightarrow> (exn, payload) result \<times> pgstate" where
  "resolve_store_by_code env tenant_id store_code s =
    (case rls_session env tenant_id (\<lambda>g tabs.
        Inr (sql_select g STORES (\<lambda>r. pget r ''tenant_id'' = PyUuid tenant_id \<and> pget r ''store_code'' = PyStr store_code) tabs, tabs)) s of
       (Inl e, s') \<Rightarrow> (Inl e, s')
     | (Inr rows, s') \<Rightarrow> (the_store tenant_id store_code rows, s'))"

definition store_uuid :: "payload \<Rightarrow> uuid" where
  "store_uuid r = (case pget r ''store_id'' of PyUuid u \<Rightarrow> u | _ \<Rightarrow> 0)"

definition UPLOADABLE_STORE_STATUSES :: "string list" where "UPLOADABLE_STORE_STATUSES = [''ACTIVE'']"

definition gate_store_uploadable :: "payload \<Rightarrow> uuid \<Rightarrow> string \<Rightarrow> (exn, unit) result" where
  "gate_store_uploadable store tenant_id store_code = require (status_of store \<in> set UPLOADABLE_STORE_STATUSES)
     (store_state_conflict_error (uuid_str (store_uuid store)) store_code (uuid_str tenant_id) ''ACTIVE'' (status_of store))"

definition get_tenant_display_code :: "pgenv \<Rightarrow> uuid \<Rightarrow> pgstate \<Rightarrow> (exn, string option) result \<times> pgstate" where
  "get_tenant_display_code env tenant_id s =
    (case rls_session env tenant_id (\<lambda>g tabs. Inr (sql_select g TENANTS (\<lambda>r. pget r ''tenant_id'' = PyUuid tenant_id) tabs, tabs)) s of
       (Inl e, s') \<Rightarrow> (Inl e, s')
     | (Inr rows, s') \<Rightarrow> (case rows of [] \<Rightarrow> Inr None | [r] \<Rightarrow> Inr (text_column (pget r ''display_code''))
         | _ \<Rightarrow> Inl (py_exn (PyForeign ''MultipleResultsFound'')), s'))"

section \<open>The upload\<close>

definition derive_upload_session_id :: "(string \<Rightarrow> string) \<Rightarrow> uuid \<Rightarrow> uuid \<Rightarrow> uuid \<Rightarrow> string \<Rightarrow> string" where
  "derive_upload_session_id sha tenant_id store_id template_id payload_sha256 =
     ''us_'' @ take 12 (sha (uuid_str tenant_id @ ''|'' @ uuid_str store_id @ ''|'' @ uuid_str template_id @ ''|'' @ payload_sha256))"

definition part_text :: "parsed_upload \<Rightarrow> string \<Rightarrow> string" where
  "part_text parsed name = py_strip (case dget (pu_fields parsed) name of None \<Rightarrow> [] | Some v \<Rightarrow> v)"

definition parse_template_id :: "parsed_upload \<Rightarrow> (exn, uuid) result" where
  "parse_template_id parsed = (case uuid_of (part_text parsed ''template_id'') of
     None \<Rightarrow> Inl (upload_request_error (Some ''template_id'')) | Some u \<Rightarrow> Inr u)"

record gated_upload =
  gu_parsed :: parsed_upload
  gu_template_id :: uuid
  gu_store_code :: string
  gu_row_count :: nat
  gu_source_id :: string
  gu_store :: payload

text \<open>Steps 1 to 4, the gates of a rejection; an exception comes with the name of its step.\<close>

definition upload_gates ::
  "upload_runtime \<Rightarrow> upload_request \<Rightarrow> uuid \<Rightarrow> uuid \<Rightarrow> pgstate \<Rightarrow> (string \<times> exn, gated_upload) result \<times> pgstate" where
  "upload_gates rt req tenant trace s =
    (case rbind (read_csv_upload (ur_multipart rt) req CSV_UPLOAD_MAX_FILE_BYTES CSV_UPLOAD_BODY_CEILING_BYTES) (\<lambda>parsed.
          rbind (parse_template_id parsed) (\<lambda>template_id. Inr (parsed, template_id))) of
       Inl e \<Rightarrow> (Inl (''upload'', e), s)
     | Inr (parsed, template_id) \<Rightarrow>
       (case run_tier0 (pu_file_bytes parsed) (uuid_str tenant) (uuid_str trace) of
          Inl e \<Rightarrow> (Inl (''tier0'', e), s)
        | Inr row_count \<Rightarrow>
          (case resolve_active_template (ur_env rt) tenant template_id s of
             (Inl e, s1) \<Rightarrow> (Inl (''template'', e), s1)
           | (Inr template, s1) \<Rightarrow>
             (case resolve_store_by_code (ur_env rt) tenant (part_text parsed ''store_code'') s1 of
                (Inl e, s2) \<Rightarrow> (Inl (''store'', e), s2)
              | (Inr store, s2) \<Rightarrow>
                (case gate_store_uploadable store tenant (part_text parsed ''store_code'') of
                   Inl e \<Rightarrow> Inl (''store'', e)
                 | Inr _ \<Rightarrow> Inr \<lparr>gu_parsed = parsed, gu_template_id = template_id, gu_store_code = part_text parsed ''store_code'',
                     gu_row_count = row_count, gu_source_id = py_str (pget template ''source_id''), gu_store = store\<rparr>, s2)))))"

definition build_csv_received ::
  "uuid \<Rightarrow> uuid \<Rightarrow> uuid \<Rightarrow> string \<Rightarrow> uuid \<Rightarrow> string \<Rightarrow> string \<Rightarrow> pydatetime \<Rightarrow> string option \<Rightarrow> string option \<Rightarrow> (exn, csv_event) result" where
  "build_csv_received trace_id tenant_id store_id source_id template_id upload_session_id gcs_uri received_ts display_code store_code =
     rbind (ensure_utc received_ts) (\<lambda>ts.
     if source_id \<noteq> [] \<and> upload_session_pattern upload_session_id \<and> gcs_uri \<noteq> []
     then Inr \<lparr>ce_schema_version = 1, ce_trace_id = trace_id, ce_tenant_id = tenant_id, ce_store_id = store_id, ce_source_id = source_id,
       ce_template_id = template_id, ce_upload_session_id = upload_session_id, ce_gcs_uri = gcs_uri, ce_received_ts = ts,
       ce_delimiter = '','', ce_tenant_display_code = display_code, ce_store_code = store_code\<rparr>
     else Inl (py_exn (PyForeign ''ValidationError'')))"

record csv_upload_result =
  cr_trace_id :: uuid
  cr_upload_id :: string
  cr_tenant_id :: uuid
  cr_store_id :: uuid
  cr_store_code :: string
  cr_source_id :: string
  cr_template_id :: uuid
  cr_gcs_uri :: string
  cr_row_count :: nat
  cr_received_ts :: pydatetime

text \<open>A rejection: one FAILURE audit for an error of DIS, then the error.\<close>

definition rejected ::
  "upload_runtime \<Rightarrow> identity \<Rightarrow> string option \<Rightarrow> uuid \<Rightarrow> uuid \<Rightarrow> int \<Rightarrow> string \<times> exn \<Rightarrow> 'a upload" where
  "rejected rt identity client_ip tenant trace t0 failure = (case failure of (step, e) \<Rightarrow>
     if isinstance e DisError
     then ebind (elapsed_ms rt t0) (\<lambda>ms.
          ebind (emit_failure rt identity client_ip tenant trace (rejection_code step e) e ms
            ([(''step'', PyStr step), (''exception_class'', PyStr (ur_exn_name rt e))] @
             (case getattr_none e ''reason'' of AStr r \<Rightarrow> if r = [] then [] else [(''reason'', PyStr r)] | _ \<Rightarrow> []))) (\<lambda>_. eraise e))
     else eraise e)"

text \<open>A dependency that failed after the gates.\<close>

definition unavailable ::
  "upload_runtime \<Rightarrow> identity \<Rightarrow> string option \<Rightarrow> uuid \<Rightarrow> uuid \<Rightarrow> int \<Rightarrow> failure_code \<Rightarrow> exn \<Rightarrow> payload \<Rightarrow> 'a upload" where
  "unavailable rt identity client_ip tenant trace t0 code failure extra =
     ebind (elapsed_ms rt t0) (\<lambda>ms. ebind (emit_failure rt identity client_ip tenant trace code failure ms extra) (\<lambda>_. eraise failure))"

definition announce_upload ::
  "upload_runtime \<Rightarrow> identity \<Rightarrow> string option \<Rightarrow> uuid \<Rightarrow> uuid \<Rightarrow> int \<Rightarrow> gated_upload \<Rightarrow> csv_event \<Rightarrow> csv_upload_result upload" where
  "announce_upload rt identity client_ip tenant trace t0 g envelope =
     ebind (ecatch (upublish rt envelope) (\<lambda>_. unavailable rt identity client_ip tenant trace t0 PUBLISH_FAILED
         (event_publish_error (ur_topic rt) (uuid_str tenant) (uuid_str trace))
         [(''template_id'', PyStr (uuid_str (gu_template_id g))), (''store_code'', PyStr (gu_store_code g)),
          (''upload_id'', PyStr (ce_upload_session_id envelope))])) (\<lambda>_.
     ebind (elapsed_ms rt t0) (\<lambda>ms.
     ebind (ui_emit rt ((ui_event tenant trace RECEIVED SUCCESS)\<lparr>ae_row_count := Some (int (gu_row_count g)), ae_duration_ms := Some ms,
         ae_event_data := Some [(''phase'', PyStr ''csv_upload_phase1''), (''upload_id'', PyStr (ce_upload_session_id envelope)),
           (''template_id'', PyStr (uuid_str (gu_template_id g))), (''gcs_uri'', PyStr (ce_gcs_uri envelope)),
           (''size_bytes'', PyInt (int (length (pu_file_bytes (gu_parsed g))))), (''topic'', PyStr (ur_topic rt))],
         ae_auth_principal := Some (auth_principal identity), ae_client_ip := client_ip\<rparr>)) (\<lambda>_.
     ereturn \<lparr>cr_trace_id = trace, cr_upload_id = ce_upload_session_id envelope, cr_tenant_id = tenant, cr_store_id = store_uuid (gu_store g),
       cr_store_code = gu_store_code g, cr_source_id = gu_source_id g, cr_template_id = gu_template_id g, cr_gcs_uri = ce_gcs_uri envelope,
       cr_row_count = gu_row_count g, cr_received_ts = ce_received_ts envelope\<rparr>)))"

definition store_upload ::
  "upload_runtime \<Rightarrow> identity \<Rightarrow> string option \<Rightarrow> uuid \<Rightarrow> uuid \<Rightarrow> int \<Rightarrow> gated_upload \<Rightarrow> csv_upload_result upload" where
  "store_upload rt identity client_ip tenant trace t0 g =
     ebind (upg (get_tenant_display_code (ur_env rt) tenant)) (\<lambda>display_code.
     let data = pu_file_bytes (gu_parsed g); store_id = store_uuid (gu_store g);
         upload_id = derive_upload_session_id (ur_sha256 rt) tenant store_id (gu_template_id g) (ur_sha256 rt data) in
     ebind (unow rt) (\<lambda>received_ts.
     ebind (elift (build_object_path (uuid_str tenant) (gu_source_id g) (uuid_str trace) received_ts ''csv'')) (\<lambda>object_key.
     let gcs_uri = ''gs://'' @ ur_bucket rt @ ''/'' @ object_key in
     ebind (ecatch (upload_bytes rt object_key data) (\<lambda>_. unavailable rt identity client_ip tenant trace t0 GCS_WRITE_FAILED
         (storage_error None None None) [(''template_id'', PyStr (uuid_str (gu_template_id g))), (''store_code'', PyStr (gu_store_code g))])) (\<lambda>_.
     ebind (elift (build_csv_received trace tenant store_id (gu_source_id g) (gu_template_id g) upload_id gcs_uri received_ts
         display_code (Some (gu_store_code g)))) (\<lambda>envelope.
     announce_upload rt identity client_ip tenant trace t0 g envelope)))))"

definition process_upload ::
  "upload_runtime \<Rightarrow> upload_request \<Rightarrow> string option \<Rightarrow> identity \<Rightarrow> uuid \<Rightarrow> uuid \<Rightarrow> csv_upload_result upload" where
  "process_upload rt req client_ip identity tenant trace =
     ebind (umono rt) (\<lambda>t0 s. case upload_gates rt req tenant trace (uw_pg s) of
       (Inl failure, pg) \<Rightarrow> rejected rt identity client_ip tenant trace t0 failure (s\<lparr>uw_pg := pg\<rparr>)
     | (Inr g, pg) \<Rightarrow> store_upload rt identity client_ip tenant trace t0 g (s\<lparr>uw_pg := pg\<rparr>))"

definition upload_csv :: "upload_runtime \<Rightarrow> upload_request \<Rightarrow> string option \<Rightarrow> identity \<Rightarrow> csv_upload_result upload" where
  "upload_csv rt req client_ip identity =
     ebind (elift (require_tenant identity)) (\<lambda>i.
     ebind (elift (tenant_uuid_of i)) (\<lambda>tenant.
     ebind (unew_trace rt) (\<lambda>trace. process_upload rt req client_ip i tenant trace)))"

end
