(* ===== verification/Ingest_Ledger.thy ===== *)
theory Ingest_Ledger
  imports Ingest_Worker
begin

text \<open>
  The worker against an abstract ledger: the bronze rows and the announcements on
  \<open>ingress.ready\<close>. The ledger moves by three atomic steps, landing a row, announcing a landed row
  and stamping an announced row; the worker refines it for every event, also when it stops in the
  middle, and the ledger's invariants give the worker's guarantees.
\<close>

section \<open>The ledger\<close>

type_synonym ledger = "payload list \<times> ingress_event list"

definition ledger_of :: "worker \<Rightarrow> ledger" where
  "ledger_of s = (pg_tables (wk_pg s) BRONZE, map snd (wk_published s))"

abbreviation received :: "payload \<Rightarrow> int" where
  "received r \<equiv> the (row_instant r ''received_at'')"

text \<open>The NOT NULL columns of the table have values of their types.\<close>

definition bronze_typed :: "payload \<Rightarrow> bool" where
  "bronze_typed r \<longleftrightarrow> list_all (\<lambda>c. \<exists>u. pget r c = PyUuid u) [''id'', ''tenant_id'', ''trace_id''] \<and> row_instant r ''received_at'' \<noteq> None"

definition same_key :: "payload \<Rightarrow> payload \<Rightarrow> bool" where
  "same_key a b \<longleftrightarrow> list_all (\<lambda>c. pget a c = pget b c) [''tenant_id'', ''source_payload_id'', ''payload_sha256'', ''dis_channel'']"

definition marked :: "payload \<Rightarrow> bool" where
  "marked r \<longleftrightarrow> dt_val (pget r ''published_at'') \<noteq> None"

definition unpublished :: "payload \<Rightarrow> bool" where
  "unpublished r \<longleftrightarrow> \<not> marked r \<and> py_str (pget r ''processing_status'') \<notin> {''FAILED'', ''PUBLISHED''}"

text \<open>An announcement is backed by a row of its tenant, trace and id.\<close>

definition backs :: "ingress_event \<Rightarrow> payload \<Rightarrow> bool" where
  "backs e r \<longleftrightarrow> pget r ''tenant_id'' = PyUuid (ie_tenant_id e) \<and> pget r ''id'' = PyUuid (ie_bronze_ref e) \<and>
     pget r ''trace_id'' = PyUuid (ie_trace_id e)"

definition stamp_row :: "uuid \<Rightarrow> uuid \<Rightarrow> pydatetime \<Rightarrow> payload \<Rightarrow> payload" where
  "stamp_row tenant bronze_id t r =
     (if pget r ''tenant_id'' = PyUuid tenant \<and> pget r ''id'' = PyUuid bronze_id then dupdate r (published_columns t) else r)"

inductive ledger_step :: "ledger \<Rightarrow> ledger \<Rightarrow> bool" where
  land: "\<lbrakk>bronze_typed row; \<not> marked row;
      pget row ''processing_status'' \<in> {PyStr ''RECEIVED'', PyStr ''FAILED''};
      \<And>r. r \<in> set B \<Longrightarrow> same_key r row \<Longrightarrow> received r + dedup_window < received row\<rbrakk>
    \<Longrightarrow> ledger_step (B, P) (B @ [row], P)"
| announce: "\<lbrakk>r \<in> set B; backs e r; unpublished r\<rbrakk> \<Longrightarrow> ledger_step (B, P) (B, P @ [e])"
| stamp: "e \<in> set P \<Longrightarrow> ledger_step (B, P) (map (stamp_row (ie_tenant_id e) (ie_bronze_ref e) t) B, P)"

inductive_cases ledger_stepE: "ledger_step l l'"

section \<open>Invariants of the ledger\<close>

lemma pget_stamp: "c \<notin> {''published_at'', ''processing_status''} \<Longrightarrow> pget (stamp_row tenant i t r) c = pget r c"
  by (simp add: stamp_row_def published_columns_def pget_def dget_dupdate_notin)

lemma stamp_keeps [simp]:
  "bronze_typed (stamp_row tenant i t r) = bronze_typed r" "received (stamp_row tenant i t r) = received r"
  "same_key (stamp_row tenant i t a) (stamp_row tenant' i' t' b) = same_key a b" "backs e (stamp_row tenant i t r) = backs e r"
  by (simp_all add: bronze_typed_def row_instant_def same_key_def backs_def pget_stamp)

definition all_backed :: "ledger \<Rightarrow> bool" where
  "all_backed l \<longleftrightarrow> (\<forall>e \<in> set (snd l). \<exists>r \<in> set (fst l). backs e r)"

text \<open>Rows of one key, in the order they landed, are more than the window apart.\<close>

definition one_per_window :: "ledger \<Rightarrow> bool" where
  "one_per_window l \<longleftrightarrow> sorted_wrt (\<lambda>a b. same_key a b \<longrightarrow> received a + dedup_window < received b) (fst l)"

text \<open>A row that is marked as published was announced.\<close>

definition marks_announced :: "ledger \<Rightarrow> bool" where
  "marks_announced l \<longleftrightarrow> (\<forall>r \<in> set (fst l). marked r \<longrightarrow>
     (\<exists>e \<in> set (snd l). pget r ''tenant_id'' = PyUuid (ie_tenant_id e) \<and> pget r ''id'' = PyUuid (ie_bronze_ref e)))"

definition typed :: "ledger \<Rightarrow> bool" where
  "typed l \<longleftrightarrow> list_all bronze_typed (fst l)"

lemma step_typed: "ledger_step l l' \<Longrightarrow> typed l \<Longrightarrow> typed l'"
  by (induction rule: ledger_step.induct) (auto simp: typed_def list_all_iff)

lemma step_backed: "ledger_step l l' \<Longrightarrow> all_backed l \<Longrightarrow> all_backed l'"
  by (induction rule: ledger_step.induct) (auto simp: all_backed_def)

lemma step_window: "ledger_step l l' \<Longrightarrow> one_per_window l \<Longrightarrow> one_per_window l'"
  by (induction rule: ledger_step.induct) (auto simp: one_per_window_def sorted_wrt_append sorted_wrt_map)

lemma stamp_marks:
  "marked (stamp_row tenant i t r) \<Longrightarrow> marked r \<or> pget r ''tenant_id'' = PyUuid tenant \<and> pget r ''id'' = PyUuid i"
  by (auto simp: stamp_row_def split: if_splits)

lemma step_marks: "ledger_step l l' \<Longrightarrow> marks_announced l \<Longrightarrow> marks_announced l'"
proof (induction rule: ledger_step.induct)
  case (stamp e P B t)
  then show ?case by (auto simp: marks_announced_def pget_stamp dest!: stamp_marks)
qed (auto simp: marks_announced_def)

abbreviation ledger_steps :: "ledger \<Rightarrow> ledger \<Rightarrow> bool" where
  "ledger_steps \<equiv> ledger_step\<^sup>*\<^sup>*"

lemma steps_keep:
  assumes "ledger_steps l l'" and "\<And>a b. ledger_step a b \<Longrightarrow> I a \<Longrightarrow> I b" and "I l"
  shows "I l'"
  using assms(1,3) by (induction rule: rtranclp_induct) (auto intro: assms(2))

lemma ledger_invariants:
  assumes "ledger_steps l l'"
  shows "all_backed l \<Longrightarrow> all_backed l'" "one_per_window l \<Longrightarrow> one_per_window l'"
    "marks_announced l \<Longrightarrow> marks_announced l'" "typed l \<Longrightarrow> typed l'"
  using steps_keep [OF assms, of all_backed] steps_keep [OF assms, of one_per_window] steps_keep [OF assms, of marks_announced]
    steps_keep [OF assms, of typed] step_backed step_window step_marks step_typed by blast+

end
