(* ===== verification/Ingest_Refines.thy ===== *)
theory Ingest_Refines
  imports Ingest_Ledger
begin

text \<open>
  Every run of the worker's pipeline is a run of the ledger. Steps that only read, audit or take
  the time are \<open>still\<close>; the two writes and the publish are the ledger's atomic steps, and the
  lookup of the prior ingest gives the guard of a landing.
\<close>

section \<open>Still steps\<close>

definition still :: "worker \<Rightarrow> worker \<Rightarrow> bool" where
  "still s s' \<longleftrightarrow> ledger_of s' = ledger_of s \<and> wk_published s' = wk_published s \<and> wk_ticks s \<le> wk_ticks s'"

interpretation still: step_relation still
  by unfold_locales (auto simp: still_def)

lemma wpg_session:
  assumes "wpg (rls_session env t body) s = (r, s')"
  shows "wk_published s' = wk_published s" and "wk_ticks s' = wk_ticks s"
    and "r = Inr a \<Longrightarrow> body (tenant_scope t) (pg_tables (wk_pg s)) = Inr (a, pg_tables (wk_pg s'))"
    and "r = Inl e \<Longrightarrow> ledger_of s' = ledger_of s"
  using assms
  by (auto simp: wpg_def rls_session_def ledger_of_def split: prod.splits
      dest: verified_transaction_Inr verified_transaction_Inl)

lemma still_readings [move]: "moves still (wnow rt)" "moves still (wlap rt)" "moves still (wnew_id rt)"
  by (simp_all add: moves_def still_def wnow_def wlap_def wnew_id_def Let_def ledger_of_def)

lemma still_emit [move]: "moves still (worker_emit rt e)"
proof -
  have "moves still (\<lambda>s. case validate_audit_event (e\<lparr>ae_event_timestamp := now, ae_duration_ms := Some ms\<rparr>) of
      Inl _ \<Rightarrow> (Inr (), s)
    | Inr e' \<Rightarrow> (Inr (), s\<lparr>wk_pg := snd (audit_write (wr_env rt) (wr_json_dumps rt) e' (wk_pg s))\<rparr>))" for now ms
    by (auto simp: moves_def still_def ledger_of_def audit_write_other split: sum.splits)
  then show ?thesis unfolding worker_emit_def by (intro move)
qed

lemma still_cross_check [move]: "moves still (worker_cross_check rt ev)"
  unfolding worker_cross_check_def
  by (auto simp: Let_def split: list.splits intro!: move)

lemma still_gate [move]: "moves still (gate_pii rt ev preflight)"
  unfolding gate_pii_def by (auto split: sum.splits intro!: move)

text \<open>Assertions about the ledger and a lower bound on the clock readings pass still steps.\<close>

lemma triple_still:
  assumes "moves still m" and "\<And>s s'. still s s' \<Longrightarrow> P s \<Longrightarrow> P s'"
  shows "triple P m (\<lambda>_. P) (\<lambda>_. P)"
  by (rule tripleI) (use assms movesD [OF assms(1)] in blast)+

lemma triple_quiet:
  assumes "moves still m" and "\<And>s s'. still s s' \<Longrightarrow> P s \<Longrightarrow> P s'" and "\<And>s. P s \<Longrightarrow> E s"
  shows "triple P m (\<lambda>_. P) (\<lambda>_. E)"
  using triple_still [OF assms(1,2)] by (rule triple_weaken) (auto intro: assms(3))

section \<open>The lookup\<close>

lemma latest_received_mem: "latest_received rows = Some r \<Longrightarrow> r \<in> set rows"
proof -
  have "foldl (\<lambda>best x. if f best < f x then x else best) r rs \<in> insert r (set rs)" for f :: "payload \<Rightarrow> int" and r rs
    by (induction rs arbitrary: r) fastforce+
  from this [of received] show "latest_received rows = Some r \<Longrightarrow> r \<in> set rows"
    by (auto simp: latest_received_def split: list.splits)
qed

lemma latest_received_None [simp]: "latest_received rows = None \<longleftrightarrow> rows = []"
  by (simp add: latest_received_def split: list.splits)

definition is_prior :: "worker_runtime \<Rightarrow> csv_event \<Rightarrow> string \<Rightarrow> nat \<Rightarrow> payload \<Rightarrow> bool" where
  "is_prior rt ev sha n r \<longleftrightarrow> pget r ''tenant_id'' = PyUuid (ce_tenant_id ev) \<and>
     same_upload (ce_upload_session_id ev) sha r \<and> received_since (wr_clock rt n - dedup_window) r"

lemma find_prior_run:
  assumes "find_prior rt ev sha s = (r, s')"
  shows "still s s'"
    and "r = Inr None \<Longrightarrow> filter (is_prior rt ev sha (wk_ticks s)) (fst (ledger_of s)) = []"
    and "r = Inr (Some p) \<Longrightarrow> \<exists>row. row \<in> set (fst (ledger_of s)) \<and> is_prior rt ev sha (wk_ticks s) row \<and> p = prior_of row"
proof -
  let ?now = "PyDatetime (wr_clock rt (wk_ticks s)) (Some 0)" and ?s1 = "s\<lparr>wk_ticks := Suc (wk_ticks s)\<rparr>"
  let ?p = "\<lambda>r. same_upload (ce_upload_session_id ev) sha r \<and> received_since (wr_clock rt (wk_ticks s) - dedup_window) r"
  define body where "body = (\<lambda>g tabs.
     rbind (require_key_component ''upload_session_id'' (ce_upload_session_id ev) (uuid_str (ce_tenant_id ev)) (uuid_str (ce_trace_id ev))) (\<lambda>_.
     rbind (require_key_component ''payload_sha256'' sha (uuid_str (ce_tenant_id ev)) (uuid_str (ce_trace_id ev))) (\<lambda>_.
     (Inr (map_option prior_of (latest_received (sql_select g BRONZE ?p tabs)), tabs) :: (exn, prior_ingest option \<times> tables) result))))"
  have run: "wpg (rls_session (wr_env rt) (ce_tenant_id ev) body) ?s1 = (r, s')"
    using assms by (simp add: find_prior_def ebind_def wnow_def body_def)
  have sel: "sql_select (tenant_scope (ce_tenant_id ev)) BRONZE ?p (pg_tables (wk_pg s)) =
      filter (is_prior rt ev sha (wk_ticks s)) (fst (ledger_of s))"
    by (simp add: sql_select_def ledger_of_def is_prior_def [abs_def])
  have ok: "map_option prior_of (latest_received (filter (is_prior rt ev sha (wk_ticks s)) (fst (ledger_of s)))) = a \<and>
      pg_tables (wk_pg s') = pg_tables (wk_pg s)" if "r = Inr a" for a
    using wpg_session(3) [OF run that] by (auto simp: body_def result_simps sel)
  show "still s s'"
    using wpg_session(1,2,4) [OF run] ok by (cases r) (auto simp: still_def ledger_of_def)
  show "r = Inr None \<Longrightarrow> filter (is_prior rt ev sha (wk_ticks s)) (fst (ledger_of s)) = []"
    using ok [of None] by simp
  show "r = Inr (Some p) \<Longrightarrow> \<exists>row. row \<in> set (fst (ledger_of s)) \<and> is_prior rt ev sha (wk_ticks s) row \<and> p = prior_of row"
    using ok [of "Some p"] latest_received_mem by fastforce
qed

section \<open>The writes\<close>

definition landed :: "worker_runtime \<Rightarrow> new_bronze \<Rightarrow> payload" where
  "landed rt b = dupdate (pg_defaults (wr_env rt) BRONZE) (bronze_params b)"

lemma insert_row_run:
  assumes "insert_row rt t b s = (r, s')"
  shows "wk_ticks s' = wk_ticks s" and "r = Inl e \<Longrightarrow> ledger_of s' = ledger_of s"
    and "r = Inr u \<Longrightarrow> ledger_of s' = (fst (ledger_of s) @ [landed rt b], snd (ledger_of s))"
    and "wk_published s' = wk_published s"
proof -
  note run = wpg_session [OF assms [unfolded insert_row_def]]
  show "wk_ticks s' = wk_ticks s" "r = Inl e \<Longrightarrow> ledger_of s' = ledger_of s" "wk_published s' = wk_published s" using run(1,2,4) by auto
  assume "r = Inr u"
  then have "pg_tables (wk_pg s') = (pg_tables (wk_pg s))(BRONZE := pg_tables (wk_pg s) BRONZE @ [landed rt b])"
    using run(3) [of u] by (simp add: result_simps sql_insert_Inr landed_def)
  then show "ledger_of s' = (fst (ledger_of s) @ [landed rt b], snd (ledger_of s))"
    using run(1) by (simp add: ledger_of_def)
qed

lemma mark_published_run:
  assumes "mark_published rt t i s = (r, s')"
  shows "wk_ticks s \<le> wk_ticks s'"
    and "ledger_of s' = ledger_of s \<or> (\<exists>d. ledger_of s' = (map (stamp_row t i d) (fst (ledger_of s)), snd (ledger_of s)))"
    and "r = Inr u \<Longrightarrow> \<exists>d. ledger_of s' = (map (stamp_row t i d) (fst (ledger_of s)), snd (ledger_of s))"
    and "wk_published s' = wk_published s"
proof -
  let ?d = "PyDatetime (wr_clock rt (wk_ticks s)) (Some 0)" and ?s1 = "s\<lparr>wk_ticks := Suc (wk_ticks s)\<rparr>"
  define body where "body = (\<lambda>g tabs. rbind (sql_update (wr_env rt) g BRONZE (\<lambda>r. pget r ''id'' = PyUuid i) (published_columns ?d) tabs)
    (\<lambda>(n, tabs'). (Inr ((), tabs') :: (exn, unit \<times> tables) result)))"
  have run: "wpg (rls_session (wr_env rt) t body) ?s1 = (r, s')"
    using assms by (simp add: mark_published_def ebind_def wnow_def body_def)
  show "wk_ticks s \<le> wk_ticks s'" "wk_published s' = wk_published s" using wpg_session(1,2) [OF run] by simp_all
  have ok: "ledger_of s' = (map (stamp_row t i ?d) (fst (ledger_of s)), snd (ledger_of s))" if "r = Inr u" for u
  proof -
    have "body (tenant_scope t) (pg_tables (wk_pg s)) = Inr (u, pg_tables (wk_pg s'))" using wpg_session(3) [OF run that] by simp
    then obtain n where "sql_update (wr_env rt) (tenant_scope t) BRONZE (\<lambda>r. pget r ''id'' = PyUuid i) (published_columns ?d)
        (pg_tables (wk_pg s)) = Inr (n, pg_tables (wk_pg s'))"
      by (auto simp: body_def result_simps)
    from sql_update_Inr(1) [OF this] show ?thesis
      using wpg_session(1) [OF run] by (simp add: ledger_of_def stamp_row_def fun_eq_iff)
  qed
  show "r = Inr u \<Longrightarrow> \<exists>d. ledger_of s' = (map (stamp_row t i d) (fst (ledger_of s)), snd (ledger_of s))" using ok by blast
  show "ledger_of s' = ledger_of s \<or> (\<exists>d. ledger_of s' = (map (stamp_row t i d) (fst (ledger_of s)), snd (ledger_of s)))"
    using ok wpg_session(4) [OF run] by (cases r) (auto simp: ledger_of_def)
qed

lemma wpublish_run:
  assumes "wpublish rt e s = (r, s')"
  shows "wk_ticks s' = wk_ticks s" and "r = Inl x \<Longrightarrow> ledger_of s' = ledger_of s"
    and "r = Inr u \<Longrightarrow> ledger_of s' = (fst (ledger_of s), snd (ledger_of s) @ [e])"
    and "r = Inr u \<Longrightarrow> wk_published s' = wk_published s @ [(wr_ingress_topic rt, e)]"
  using assms by (auto simp: wpublish_def Let_def ledger_of_def split: option.splits)

section \<open>Refinement\<close>

definition tracked :: "worker \<Rightarrow> worker \<Rightarrow> bool" where
  "tracked s0 s \<longleftrightarrow> ledger_steps (ledger_of s0) (ledger_of s) \<and> typed (ledger_of s)"

lemma tracked_still: "still s s' \<Longrightarrow> tracked s0 s \<Longrightarrow> tracked s0 s'"
  by (simp add: tracked_def still_def)

lemma tracked_step: "tracked s0 s \<Longrightarrow> ledger_step (ledger_of s) (ledger_of s') \<Longrightarrow> tracked s0 s'"
  by (auto simp: tracked_def intro: rtranclp.rtrancl_into_rtrancl step_typed)

lemma build_ingress_ready_ids:
  "build_ingress_ready ev trace i d dl = Inr e \<Longrightarrow>
   ie_tenant_id e = ce_tenant_id ev \<and> ie_bronze_ref e = i \<and> ie_trace_id e = trace \<and> ie_gcs_uri e = ce_gcs_uri ev \<and>
   ie_source_id e = ce_source_id ev"
  by (auto simp: build_ingress_ready_def result_simps split: if_splits)

definition announceable :: "csv_event \<Rightarrow> uuid \<Rightarrow> uuid \<Rightarrow> payload \<Rightarrow> bool" where
  "announceable ev trace i r \<longleftrightarrow> pget r ''tenant_id'' = PyUuid (ce_tenant_id ev) \<and> pget r ''id'' = PyUuid i \<and>
     pget r ''trace_id'' = PyUuid trace \<and> unpublished r"

lemma publish_and_mark_tracked:
  "triple (\<lambda>s. tracked s0 s \<and> list_ex (announceable ev trace i) (fst (ledger_of s)))
     (publish_and_mark rt ev trace i d dl) (\<lambda>_. tracked s0) (\<lambda>_. tracked s0)"
  unfolding publish_and_mark_def
proof (rule triple_bind [OF triple_lift])
  fix s e
  assume "tracked s0 s \<and> list_ex (announceable ev trace i) (fst (ledger_of s))" and "build_ingress_ready ev trace i d dl = Inr e"
  then show "tracked s0 s \<and> (\<exists>r \<in> set (fst (ledger_of s)). backs e r \<and> unpublished r) \<and> ie_tenant_id e = ce_tenant_id ev \<and> ie_bronze_ref e = i"
    using build_ingress_ready_ids [of ev trace i d dl e] by (auto simp: list_ex_iff announceable_def backs_def)
next
  fix e
  let ?P = "\<lambda>s. tracked s0 s \<and> (\<exists>r \<in> set (fst (ledger_of s)). backs e r \<and> unpublished r) \<and> ie_tenant_id e = ce_tenant_id ev \<and> ie_bronze_ref e = i"
  let ?M = "\<lambda>s. tracked s0 s \<and> e \<in> set (snd (ledger_of s)) \<and> ie_tenant_id e = ce_tenant_id ev \<and> ie_bronze_ref e = i"
  have publish: "triple ?P (wpublish rt e) (\<lambda>_. ?M) (\<lambda>_. tracked s0)"
  proof (rule tripleI)
    fix s a s'
    assume P: "?P s" and "wpublish rt e s = (Inr a, s')"
    then have l: "ledger_of s' = (fst (ledger_of s), snd (ledger_of s) @ [e])" using wpublish_run(3) by blast
    have "ledger_step (ledger_of s) (ledger_of s')" using P announce [of _ "fst (ledger_of s)" e "snd (ledger_of s)"] by (auto simp: l)
    then show "?M s'" using P l tracked_step by auto
  next
    fix s x s'
    assume "?P s" and "wpublish rt e s = (Inl x, s')"
    then show "tracked s0 s'" using wpublish_run(2) [of rt e s "Inl x" s' x] by (simp add: tracked_def)
  qed
  have mark: "triple ?M (mark_published rt (ce_tenant_id ev) i) (\<lambda>_. tracked s0) (\<lambda>_. tracked s0)"
  proof -
    have "tracked s0 s'" if M: "?M s" and run: "mark_published rt (ce_tenant_id ev) i s = (r, s')" for s r s'
      using mark_published_run(2) [OF run] tracked_step [of s0 s s'] M stamp [of e "snd (ledger_of s)" "fst (ledger_of s)"]
      by (auto simp: tracked_def)
    then show ?thesis by (intro tripleI)
  qed
  show "triple ?P (ebind (wpublish rt e) (\<lambda>_. mark_published rt (ce_tenant_id ev) i)) (\<lambda>_. tracked s0) (\<lambda>_. tracked s0)"
    by (rule triple_bind [OF publish mark])
qed simp_all

lemma prior_announceable:
  assumes "bronze_typed r" and "is_prior rt ev sha n r"
    and "\<not> (pi_processing_status (prior_of r) = ''FAILED'' \<or> is_published (prior_of r))"
  shows "announceable ev (pi_trace_id (prior_of r)) (pi_bronze_id (prior_of r)) r"
  using assms
  by (auto simp: announceable_def is_prior_def bronze_typed_def prior_of_def uuid_val_def is_published_def unpublished_def marked_def)

lemma handle_duplicate_tracked:
  "triple (\<lambda>s. tracked s0 s \<and> (\<exists>r \<in> set (fst (ledger_of s)). is_prior rt ev sha n r \<and> p = prior_of r))
     (handle_duplicate rt ev p data) (\<lambda>_. tracked s0) (\<lambda>_. tracked s0)"
proof (cases "pi_processing_status p = ''FAILED'' \<or> is_published p")
  case True
  then show ?thesis unfolding handle_duplicate_def
    by (auto intro!: triple_weaken [OF triple_still [where P = "tracked s0"]] move intro: tracked_still)
next
  case False
  let ?P = "\<lambda>s. tracked s0 s \<and> (\<exists>r \<in> set (fst (ledger_of s)). is_prior rt ev sha n r \<and> p = prior_of r)"
  let ?A = "\<lambda>s. tracked s0 s \<and> list_ex (announceable ev (pi_trace_id p) (pi_bronze_id p)) (fst (ledger_of s))"
  have "?A s" if "?P s" for s
    using that False prior_announceable by (fastforce simp: list_ex_iff tracked_def typed_def list_all_iff)
  then have "triple ?P (elift (run_preflight rt data (uuid_str (ce_tenant_id ev)) (uuid_str (ce_trace_id ev)))) (\<lambda>_. ?A) (\<lambda>_. tracked s0)"
    by (intro triple_lift) auto
  moreover have "triple (tracked s0) (ebind (worker_emit rt e) (\<lambda>_. ereturn out)) (\<lambda>_. tracked s0) (\<lambda>_. tracked s0)" for e out
    by (rule triple_still) (auto intro: move tracked_still)
  ultimately show ?thesis unfolding handle_duplicate_def if_not_P [OF False]
    by (intro triple_bind [OF _ triple_bind [OF publish_and_mark_tracked]])
qed

section \<open>Landing\<close>

lemma dget_landed: "k \<in> set (dkeys (bronze_params b)) \<Longrightarrow> pget (landed rt b) k = pget (bronze_params b) k"
proof -
  have "dict_ok (bronze_params b)" by (simp add: dict_ok_def bronze_params_def)
  then show "k \<in> set (dkeys (bronze_params b)) \<Longrightarrow> pget (landed rt b) k = pget (bronze_params b) k"
    unfolding landed_def pget_def by (subst dget_dupdate_in) auto
qed

lemma landed_fields [simp]:
  "pget (landed rt b) ''id'' = PyUuid (bn_id b)" "pget (landed rt b) ''tenant_id'' = PyUuid (bn_tenant_id b)"
  "pget (landed rt b) ''trace_id'' = PyUuid (bn_trace_id b)" "pget (landed rt b) ''source_id'' = PyStr (bn_source_id b)"
  "pget (landed rt b) ''gcs_uri'' = PyStr (bn_gcs_uri b)" "pget (landed rt b) ''dis_channel'' = PyStr ''csv_upload''"
  "pget (landed rt b) ''source_payload_id'' = PyStr (bn_source_payload_id b)"
  "pget (landed rt b) ''payload_sha256'' = PyStr (bn_payload_sha256 b)"
  "pget (landed rt b) ''received_at'' = PyDt (bn_received_at b)"
  "pget (landed rt b) ''processing_status'' = PyStr (bn_processing_status b)"
  by (subst dget_landed; simp add: bronze_params_def pget_def dget_Cons)+

lemma landed_unmarked: "pget (pg_defaults (wr_env rt) BRONZE) ''published_at'' = PyNone \<Longrightarrow> \<not> marked (landed rt b)"
  by (simp add: marked_def landed_def pget_def dget_dupdate_notin bronze_params_def dt_val_def)

text \<open>What the code relies on outside: the clock does not run backwards, and a new bronze row has no
  publication time unless the insert gives it one.\<close>

definition sane :: "worker_runtime \<Rightarrow> bool" where
  "sane rt \<longleftrightarrow> mono (wr_clock rt) \<and> pget (pg_defaults (wr_env rt) BRONZE) ''published_at'' = PyNone"

definition no_prior :: "worker_runtime \<Rightarrow> csv_event \<Rightarrow> string \<Rightarrow> nat \<Rightarrow> worker \<Rightarrow> bool" where
  "no_prior rt ev sha n s \<longleftrightarrow> n \<le> wk_ticks s \<and> filter (is_prior rt ev sha n) (fst (ledger_of s)) = []"

lemma no_prior_still: "still s s' \<Longrightarrow> no_prior rt ev sha n s \<Longrightarrow> no_prior rt ev sha n s'"
  by (auto simp: no_prior_def still_def)

lemma landing_guard:
  assumes "sane rt" and "no_prior rt ev sha n s" and "typed (ledger_of s)" and "n \<le> m"
    and "r \<in> set (fst (ledger_of s))"
    and "same_key r (landed rt (bronze_for ev i sz sha rc (PyDatetime (wr_clock rt m) (Some 0)) st))"
  shows "received r + dedup_window < wr_clock rt m"
proof -
  have "same_upload (ce_upload_session_id ev) sha r" and t: "pget r ''tenant_id'' = PyUuid (ce_tenant_id ev)"
    using assms(6) by (simp_all add: same_key_def same_upload_def bronze_for_def)
  moreover have "\<not> is_prior rt ev sha n r" using assms(2,5) by (auto simp: no_prior_def filter_empty_conv)
  ultimately have "\<not> received_since (wr_clock rt n - dedup_window) r" by (simp add: is_prior_def)
  moreover obtain k where "row_instant r ''received_at'' = Some k"
    using assms(3,5) by (auto simp: typed_def list_all_iff bronze_typed_def)
  ultimately have "received r < wr_clock rt n - dedup_window" by (simp add: received_since_def)
  moreover have "wr_clock rt n \<le> wr_clock rt m" using assms(1,4) by (auto simp: sane_def dest: monoD)
  ultimately show ?thesis by simp
qed

lemma insert_tracked:
  assumes "sane rt" and "n \<le> m" and "st \<in> {''RECEIVED'', ''FAILED''}"
    and b: "b = bronze_for ev i sz sha rc (PyDatetime (wr_clock rt m) (Some 0)) st"
  shows "triple (\<lambda>s. tracked s0 s \<and> no_prior rt ev sha n s) (insert_row rt (ce_tenant_id ev) b)
    (\<lambda>_ s. tracked s0 s \<and> landed rt b \<in> set (fst (ledger_of s))) (\<lambda>_. tracked s0)"
proof (rule tripleI)
  fix s u s'
  assume P: "tracked s0 s \<and> no_prior rt ev sha n s" and run: "insert_row rt (ce_tenant_id ev) b s = (Inr u, s')"
  have l: "ledger_of s' = (fst (ledger_of s) @ [landed rt b], snd (ledger_of s))" using insert_row_run(3) [OF run] by blast
  have ty: "typed (ledger_of s)" using P by (simp add: tracked_def)
  have rec: "received (landed rt b) = wr_clock rt m" by (simp add: row_instant_def b bronze_for_def dt_instant_def)
  have "ledger_step (fst (ledger_of s), snd (ledger_of s)) (fst (ledger_of s) @ [landed rt b], snd (ledger_of s))"
  proof (rule land)
    show "bronze_typed (landed rt b)" by (simp add: bronze_typed_def row_instant_def b bronze_for_def dt_instant_def)
    show "\<not> marked (landed rt b)" using assms(1) by (intro landed_unmarked) (simp add: sane_def)
    show "pget (landed rt b) ''processing_status'' \<in> {PyStr ''RECEIVED'', PyStr ''FAILED''}" using assms(3) by (auto simp: b bronze_for_def)
    show "received r + dedup_window < received (landed rt b)" if "r \<in> set (fst (ledger_of s))" "same_key r (landed rt b)" for r
    proof -
      have "received r + dedup_window < wr_clock rt m"
        using landing_guard [OF assms(1) _ ty assms(2) that(1)] that(2) [unfolded b] P by blast
      then show ?thesis by (simp only: rec)
    qed
  qed
  then show "tracked s0 s' \<and> landed rt b \<in> set (fst (ledger_of s'))" using P tracked_step [of s0 s s'] l by auto
next
  fix s x s'
  assume "tracked s0 s \<and> no_prior rt ev sha n s" and "insert_row rt (ce_tenant_id ev) b s = (Inl x, s')"
  then show "tracked s0 s'" using insert_row_run(2) [of rt "ce_tenant_id ev" b s "Inl x" s' x] by (simp add: tracked_def)
qed

section \<open>The pipeline refines the ledger\<close>

text \<open>The row id and the receipt time are read, then the row lands; the rest of the branch sees it.\<close>

lemma land_tracked:
  assumes "sane rt" and "st \<in> {''RECEIVED'', ''FAILED''}"
    and "\<And>i d. triple (\<lambda>s. tracked s0 s \<and> landed rt (bronze_for ev i sz sha rc d st) \<in> set (fst (ledger_of s))) (f i d)
      (\<lambda>_. tracked s0) (\<lambda>_. tracked s0)"
  shows "triple (\<lambda>s. tracked s0 s \<and> no_prior rt ev sha n s)
    (ebind (wnew_id rt) (\<lambda>i. ebind (wnow rt) (\<lambda>d. ebind (insert_row rt (ce_tenant_id ev) (bronze_for ev i sz sha rc d st)) (\<lambda>_. f i d))))
    (\<lambda>_. tracked s0) (\<lambda>_. tracked s0)"
proof (rule triple_bind [OF triple_quiet [OF still_readings(3)]])
  fix i
  let ?P = "\<lambda>s. tracked s0 s \<and> no_prior rt ev sha n s"
  have now: "triple ?P (wnow rt) (\<lambda>d s. ?P s \<and> (\<exists>m \<ge> n. d = PyDatetime (wr_clock rt m) (Some 0))) (\<lambda>_. tracked s0)"
    by (rule tripleI) (auto simp: wnow_def no_prior_def ledger_of_def tracked_def)
  show "triple ?P (ebind (wnow rt) (\<lambda>d. ebind (insert_row rt (ce_tenant_id ev) (bronze_for ev i sz sha rc d st)) (\<lambda>_. f i d)))
      (\<lambda>_. tracked s0) (\<lambda>_. tracked s0)"
  proof (rule triple_bind [OF now], rule triple_pure)
    fix d
    assume "\<exists>m \<ge> n. d = PyDatetime (wr_clock rt m) (Some 0)"
    then obtain m where "n \<le> m" "d = PyDatetime (wr_clock rt m) (Some 0)" by blast
    then show "triple ?P (ebind (insert_row rt (ce_tenant_id ev) (bronze_for ev i sz sha rc d st)) (\<lambda>_. f i d)) (\<lambda>_. tracked s0) (\<lambda>_. tracked s0)"
      using assms by (intro triple_bind [OF insert_tracked assms(3)]) auto
  qed
qed (auto intro: tracked_still no_prior_still)

lemma emit_tracked: "triple (tracked s0) (ebind (worker_emit rt e) (\<lambda>_. ereturn out)) (\<lambda>_. tracked s0) (\<lambda>_. tracked s0)"
  by (rule triple_still) (auto intro: move tracked_still)

lemma preflight_failure_tracked:
  assumes "sane rt"
  shows "triple (\<lambda>s. tracked s0 s \<and> no_prior rt ev sha n s) (handle_preflight_failure rt ev sha sz error) (\<lambda>_. tracked s0) (\<lambda>_. tracked s0)"
  unfolding handle_preflight_failure_def
  by (rule land_tracked [OF assms]) (auto intro: triple_weaken [OF emit_tracked])

lemma ingest_fresh_tracked:
  assumes "sane rt"
  shows "triple (\<lambda>s. tracked s0 s \<and> no_prior rt ev sha n s) (ingest_fresh rt ev sha pre) (\<lambda>_. tracked s0) (\<lambda>_. tracked s0)"
proof -
  let ?P = "\<lambda>s. tracked s0 s \<and> no_prior rt ev sha n s"
  note quiet = triple_quiet [where P = ?P and E = "tracked s0"]
  have tail: "triple (\<lambda>s. tracked s0 s \<and> landed rt (bronze_for ev i sz sha rc d ''RECEIVED'') \<in> set (fst (ledger_of s)))
      (ebind (worker_emit rt e1) (\<lambda>_. ebind (publish_and_mark rt ev (ce_trace_id ev) i d dl) (\<lambda>_. ebind (worker_emit rt e2) (\<lambda>_. ereturn out))))
      (\<lambda>_. tracked s0) (\<lambda>_. tracked s0)" for i sz rc d e1 dl e2 out
  proof (rule triple_bind [OF triple_quiet [OF still_emit]])
    let ?row = "landed rt (bronze_for ev i sz sha rc d ''RECEIVED'')"
    have "announceable ev (ce_trace_id ev) i ?row"
      using landed_unmarked assms by (simp add: announceable_def unpublished_def sane_def) (simp add: bronze_for_def)
    then have "list_ex (announceable ev (ce_trace_id ev) i) (fst (ledger_of s))" if "?row \<in> set (fst (ledger_of s))" for s
      using that by (auto simp: list_ex_iff)
    then show "triple (\<lambda>s. tracked s0 s \<and> ?row \<in> set (fst (ledger_of s)))
        (ebind (publish_and_mark rt ev (ce_trace_id ev) i d dl) (\<lambda>_. ebind (worker_emit rt e2) (\<lambda>_. ereturn out))) (\<lambda>_. tracked s0) (\<lambda>_. tracked s0)"
      by (intro triple_weaken [OF triple_bind [OF publish_and_mark_tracked emit_tracked]]) auto
  qed (auto simp: still_def tracked_def)
  show ?thesis unfolding ingest_fresh_def
    by (intro triple_bind [OF quiet [OF still_emit]] triple_bind [OF quiet [OF still_gate]] land_tracked [OF assms _ tail])
      (auto intro: tracked_still no_prior_still)
qed

lemma ingest_event_tracked:
  assumes "sane rt"
  shows "triple (tracked s0) (ingest_event rt ev) (\<lambda>_. tracked s0) (\<lambda>_. tracked s0)"
  unfolding ingest_event_def
proof (rule triple_bind [OF triple_still [OF still_cross_check tracked_still]], assumption, assumption,
    rule triple_bind [where M = "\<lambda>_. tracked s0"])
  fix key
  show "triple (tracked s0) (elift (wr_download rt key)) (\<lambda>_. tracked s0) (\<lambda>_. tracked s0)" by (rule triple_lift)
  fix data
  let ?sha = "wr_sha256 rt data"
  let ?M = "\<lambda>prior s. tracked s0 s \<and> (case prior of None \<Rightarrow> \<exists>n. no_prior rt ev ?sha n s
    | Some p \<Rightarrow> \<exists>n. \<exists>r \<in> set (fst (ledger_of s)). is_prior rt ev ?sha n r \<and> p = prior_of r)"
  have look: "triple (tracked s0) (find_prior rt ev ?sha) ?M (\<lambda>_. tracked s0)"
  proof (rule tripleI)
    fix s prior s'
    assume t: "tracked s0 s" and run: "find_prior rt ev ?sha s = (Inr prior, s')"
    have st: "still s s'" using find_prior_run(1) [OF run] .
    show "?M prior s'"
    proof (cases prior)
      case None
      then have "no_prior rt ev ?sha (wk_ticks s) s'"
        using find_prior_run(2) [OF run] st by (simp add: no_prior_def still_def)
      then show ?thesis using None tracked_still [OF st t] by auto
    next
      case (Some p)
      then show ?thesis using find_prior_run(3) [OF run, of p] tracked_still [OF st t] st by (auto simp: still_def)
    qed
  qed (use find_prior_run(1) tracked_still in blast)
  show "triple (tracked s0) (ebind (find_prior rt ev ?sha) (\<lambda>prior. case prior of
       Some p \<Rightarrow> handle_duplicate rt ev p data
     | None \<Rightarrow> (case run_preflight rt data (uuid_str (ce_tenant_id ev)) (uuid_str (ce_trace_id ev)) of
          Inl exc \<Rightarrow> if isinstance exc PreflightFailedError
            then handle_preflight_failure rt ev ?sha (int (length data)) exc else eraise exc
        | Inr preflight \<Rightarrow> ingest_fresh rt ev ?sha preflight))) (\<lambda>_. tracked s0) (\<lambda>_. tracked s0)"
    (is "triple _ (ebind _ ?rest) _ _")
  proof (rule triple_bind [OF look])
    fix prior
    show "triple (?M prior) (?rest prior) (\<lambda>_. tracked s0) (\<lambda>_. tracked s0)"
    proof (cases prior)
      case None
      have "triple (\<lambda>s. tracked s0 s \<and> no_prior rt ev ?sha n s) (?rest None) (\<lambda>_. tracked s0) (\<lambda>_. tracked s0)" for n
        using preflight_failure_tracked [OF assms] ingest_fresh_tracked [OF assms]
        by (auto split: sum.splits intro!: hoare)
      then show ?thesis unfolding None option.case by (rule triple_exists)
    next
      case (Some p)
      show ?thesis unfolding Some option.case by (rule triple_exists) (rule handle_duplicate_tracked)
    qed
  qed
qed

end
