(* ===== verification/Ingest_Props.thy ===== *)
theory Ingest_Props
  imports Ingest_Refines
begin

text \<open>
  The guarantees of the CSV ingest worker, for one event and for any number of pull passes: the
  refinement of the ledger with its invariants, the personal-data gate, redelivery, and what its
  subscriber acknowledges.
\<close>

section \<open>The ledger over all passes\<close>

lemma ingest_process_steps:
  assumes "sane rt" and "typed (ledger_of s)"
  shows "ledger_steps (ledger_of s) (ledger_of (snd (ingest_process rt ev s)))"
proof -
  let ?s = "s\<lparr>wk_mark := wr_mono rt (wk_ticks s), wk_ticks := Suc (wk_ticks s)\<rparr>"
  have "tracked ?s ?s" using assms(2) by (simp add: tracked_def ledger_of_def)
  then have "tracked ?s (snd (ingest_event rt ev ?s))"
    by (rule triple_snd [OF ingest_event_tracked [OF assms(1)]])
  then show ?thesis by (simp add: tracked_def ingest_process_def) (simp add: ledger_of_def)
qed

text \<open>C7: The worker refines the ledger: whatever one event does, and wherever it stops, the bronze rows
  and the announcements move by landing a row whose key has no other row in the window before
  it, announcing a landed unpublished row, and stamping an announced one, when the clock does not
  run backwards.\<close>

theorem worker_refines_ledger:
  assumes "sane rt" and "typed (ledger_of s)"
  shows "ledger_step\<^sup>*\<^sup>* (ledger_of s) (ledger_of (snd (ingest_process rt ev s))) \<and> typed (ledger_of (snd (ingest_process rt ev s)))"
  using ingest_process_steps [OF assms] ledger_invariants(4) [OF ingest_process_steps [OF assms]] assms(2) by simp

lemma ingest_message_steps:
  assumes "sane rt" and "typed (ledger_of s)"
  shows "ledger_steps (ledger_of s) (ledger_of (snd (ingest_message rt src data s)))"
proof -
  have "snd (ingest_message rt src data s) = s \<or> (\<exists>ev. snd (ingest_message rt src data s) = snd (ingest_process rt ev s))"
    by (auto simp: ingest_message_def split: sum.splits prod.splits) (metis snd_conv)+
  then show ?thesis using ingest_process_steps [OF assms] by auto
qed

interpretation worker_pull: handler_relation "ingest_message rt src"
  "\<lambda>a b. sane rt \<and> typed (ledger_of a) \<longrightarrow> ledger_steps (ledger_of a) (ledger_of b)" for rt src
  using ingest_message_steps by unfold_locales (auto dest: ledger_invariants(4) intro: rtranclp_trans)

lemma passes_steps:
  "sane rt \<Longrightarrow> typed (ledger_of (sb_world sb)) \<Longrightarrow>
   ledger_steps (ledger_of (sb_world sb)) (ledger_of (sb_world (ingest_passes rt src tp pulls sb)))"
  using worker_pull.run_passes_R [of rt sb src tp pulls] by (simp add: ingest_passes_def)

text \<open>C9: Announcements and bronze rows agree over any number of passes: every message on
  \<open>ingress.ready\<close> names a bronze row of its own tenant, trace and id, and every row that is marked
  as published was announced; so no crash between the row and the publish leaves an announcement
  without a row.\<close>

theorem announcements_backed:
  assumes "sane rt" and "typed (ledger_of (sb_world sb))" and "all_backed (ledger_of (sb_world sb))"
    and "marks_announced (ledger_of (sb_world sb))"
  shows "(\<forall>m \<in> set (wk_published (sb_world (ingest_passes rt src tp pulls sb))).
      \<exists>r \<in> set (pg_tables (wk_pg (sb_world (ingest_passes rt src tp pulls sb))) BRONZE). pget r ''tenant_id'' = PyUuid (ie_tenant_id (snd m)) \<and>
        pget r ''id'' = PyUuid (ie_bronze_ref (snd m)) \<and> pget r ''trace_id'' = PyUuid (ie_trace_id (snd m))) \<and>
    marks_announced (ledger_of (sb_world (ingest_passes rt src tp pulls sb)))"
  using ledger_invariants(1) [OF passes_steps [OF assms(1,2), of src tp pulls] assms(3)]
    ledger_invariants(3) [OF passes_steps [OF assms(1,2), of src tp pulls] assms(4)]
  by (auto simp: all_backed_def ledger_of_def backs_def)

text \<open>C8: One bronze row per upload: over any number of passes, redeliveries and crashes, two rows of the
  same tenant, upload session and content landed more than 24 hours apart.\<close>

theorem one_bronze_row_per_window:
  assumes "sane rt" and "typed (ledger_of (sb_world sb))" and "one_per_window (ledger_of (sb_world sb))"
    and "i < j" "j < length (pg_tables (wk_pg (sb_world (ingest_passes rt src tp pulls sb))) BRONZE)"
    and "a = pg_tables (wk_pg (sb_world (ingest_passes rt src tp pulls sb))) BRONZE ! i"
      "b = pg_tables (wk_pg (sb_world (ingest_passes rt src tp pulls sb))) BRONZE ! j"
    and "\<And>c. c \<in> {''tenant_id'', ''source_payload_id'', ''payload_sha256'', ''dis_channel''} \<Longrightarrow> pget a c = pget b c"
  shows "received a + 24 * 3600 * 1000000 < received b"
proof -
  have "one_per_window (ledger_of (sb_world (ingest_passes rt src tp pulls sb)))"
    by (rule ledger_invariants(2) [OF passes_steps [OF assms(1,2)] assms(3)])
  moreover have "same_key a b" using assms(8) by (simp add: same_key_def)
  ultimately show ?thesis
    using assms(4-7) by (auto simp: one_per_window_def ledger_of_def sorted_wrt_iff_nth_less dedup_window_def DEDUP_WINDOW_HOURS_def)
qed

section \<open>Runs that return\<close>

lemma still_published: "moves still m \<Longrightarrow> m s = (r, s') \<Longrightarrow> wk_published s' = wk_published s \<and> ledger_of s' = ledger_of s"
  by (auto dest: movesD simp: still_def)

lemma publish_and_mark_Inr:
  assumes "publish_and_mark rt ev trace i d dl s = (Inr u, s')"
  obtains e t where "build_ingress_ready ev trace i d dl = Inr e"
    and "wk_published s' = wk_published s @ [(wr_ingress_topic rt, e)]"
    and "fst (ledger_of s') = map (stamp_row (ce_tenant_id ev) i t) (fst (ledger_of s))"
proof -
  from assms obtain e s1 where e: "build_ingress_ready ev trace i d dl = Inr e" and p: "wpublish rt e s = (Inr (), s1)"
    and m: "mark_published rt (ce_tenant_id ev) i s1 = (Inr u, s')"
    by (auto simp: publish_and_mark_def eff_Inr)
  obtain t where t: "ledger_of s' = (map (stamp_row (ce_tenant_id ev) i t) (fst (ledger_of s1)), snd (ledger_of s1))"
    using mark_published_run(3) [OF m] by blast
  have "ledger_of s1 = (fst (ledger_of s), snd (ledger_of s) @ [e])" using wpublish_run(3) [OF p] by blast
  then show thesis using that [OF e, of t] t mark_published_run(4) [OF m] wpublish_run(4) [OF p] by simp
qed

lemma ingest_fresh_Inr:
  assumes "ingest_fresh rt ev sha pre s = (Inr out, s')"
  obtains i d t e where "io_disposition out = Ingested" "io_bronze_id out = Some i"
    and "build_ingress_ready ev (ce_trace_id ev) i d (pf_delimiter pre) = Inr e"
    and "wk_published s' = wk_published s @ [(wr_ingress_topic rt, e)]"
    and "fst (ledger_of s') = map (stamp_row (ce_tenant_id ev) i t) (fst (ledger_of s) @
      [landed rt (bronze_for ev i (pf_size_bytes pre) sha (Some (pf_row_count pre)) d ''RECEIVED'')])"
    and "\<not> (list_ex is_pii_column (pf_columns pre) \<and> \<not> wr_pii_backend rt)"
proof -
  from assms obtain e1 e2 e3 i d det s1 s2 s3 s4 s5 s6 s7 where run:
    "worker_emit rt e1 s = (Inr (), s1)" "gate_pii rt ev pre s1 = (Inr det, s2)" "wnew_id rt s2 = (Inr i, s3)" "wnow rt s3 = (Inr d, s4)"
    and ins: "insert_row rt (ce_tenant_id ev) (bronze_for ev i (pf_size_bytes pre) sha (Some (pf_row_count pre)) d ''RECEIVED'') s4 = (Inr (), s5)"
    and e2: "worker_emit rt e2 s5 = (Inr (), s6)"
    and pm: "publish_and_mark rt ev (ce_trace_id ev) i d (pf_delimiter pre) s6 = (Inr (), s7)"
    and e3: "worker_emit rt e3 s7 = (Inr (), s')" and out: "io_disposition out = Ingested" "io_bronze_id out = Some i"
    unfolding ingest_fresh_def eff_Inr by auto
  have "wk_published s4 = wk_published s" "ledger_of s4 = ledger_of s"
    using still_published [OF still_emit run(1)] still_published [OF still_gate run(2)] still_published [OF still_readings(3) run(3)]
      still_published [OF still_readings(1) run(4)] by simp_all
  moreover have "wk_published s' = wk_published s7" "ledger_of s' = ledger_of s7" "wk_published s6 = wk_published s5" "ledger_of s6 = ledger_of s5"
    using still_published [OF still_emit e3] still_published [OF still_emit e2] by simp_all
  moreover note insert_row_run(3) [OF ins, of "()"] insert_row_run(4) [OF ins]
  moreover have "\<not> (list_ex is_pii_column (pf_columns pre) \<and> \<not> wr_pii_backend rt)"
    using run(2) gate_csv_headers_iff [of "pf_columns pre" "wr_pii_backend rt" "uuid_str (ce_tenant_id ev)" "uuid_str (ce_trace_id ev)"]
    by (auto simp: gate_pii_def eff_Inr split: if_splits)
  ultimately show thesis using pm out by (auto elim!: publish_and_mark_Inr intro: that)
qed

lemma handle_duplicate_Inr:
  assumes "handle_duplicate rt ev p data s = (Inr out, s')"
  shows "(if pi_processing_status p = ''FAILED'' \<or> is_published p
     then io_disposition out = Duplicate_noop \<and> wk_published s' = wk_published s \<and> ledger_of s' = ledger_of s
     else io_disposition out = Duplicate_resumed \<and> (\<exists>pre e t. run_preflight rt data (uuid_str (ce_tenant_id ev)) (uuid_str (ce_trace_id ev)) = Inr pre \<and>
        build_ingress_ready ev (pi_trace_id p) (pi_bronze_id p) (pi_received_at p) (pf_delimiter pre) = Inr e \<and>
        wk_published s' = wk_published s @ [(wr_ingress_topic rt, e)] \<and>
        fst (ledger_of s') = map (stamp_row (ce_tenant_id ev) (pi_bronze_id p) t) (fst (ledger_of s))))
   \<and> io_trace_id out = pi_trace_id p \<and> io_bronze_id out = Some (pi_bronze_id p)"
proof (cases "pi_processing_status p = ''FAILED'' \<or> is_published p")
  case True
  then show ?thesis using assms by (auto simp: handle_duplicate_def eff_Inr dest!: still_published [OF still_emit])
next
  case False
  from assms obtain pre s1 e2 where "run_preflight rt data (uuid_str (ce_tenant_id ev)) (uuid_str (ce_trace_id ev)) = Inr pre"
    and pm: "publish_and_mark rt ev (pi_trace_id p) (pi_bronze_id p) (pi_received_at p) (pf_delimiter pre) s = (Inr (), s1)"
    and e: "worker_emit rt e2 s1 = (Inr (), s')" and "io_disposition out = Duplicate_resumed" "io_trace_id out = pi_trace_id p"
      "io_bronze_id out = Some (pi_bronze_id p)"
    unfolding handle_duplicate_def if_not_P [OF False] eff_Inr by auto
  then show ?thesis using False still_published [OF still_emit e] by (auto elim!: publish_and_mark_Inr)
qed

text \<open>The path of a run up to the decision: the object that was read and the prior ingest of its content.\<close>

lemma worker_cross_check_Inr:
  assumes "worker_cross_check rt ev s = (Inr key, s')"
  shows "s' = s" and "\<exists>parsed. split_object_uri (ce_gcs_uri ev) = Inr (wr_bronze_bucket rt, key) \<and> parse_object_path key = Inr parsed \<and>
    pop_tenant_id parsed = ce_tenant_id ev \<and> pop_source_id parsed = ce_source_id ev \<and>
    pop_trace_id parsed = uuid_str (ce_trace_id ev) \<and> pop_ext parsed = ''csv''"
  using assms
  by (auto simp: worker_cross_check_def eff_Inr path_checks_def Let_def split: list.splits if_splits)

lemma ingest_process_Inr:
  assumes "ingest_process rt ev s = (Inr out, s')"
  obtains key data prior s1 where "split_object_uri (ce_gcs_uri ev) = Inr (wr_bronze_bucket rt, key)"
    and "\<exists>parsed. parse_object_path key = Inr parsed \<and> pop_tenant_id parsed = ce_tenant_id ev \<and> pop_source_id parsed = ce_source_id ev"
    and "wr_download rt key = Inr data" and "ledger_of s1 = ledger_of s" "wk_published s1 = wk_published s"
    and "case prior of
        Some p \<Rightarrow> (\<exists>row \<in> set (fst (ledger_of s)). is_prior rt ev (wr_sha256 rt data) (Suc (wk_ticks s)) row \<and> p = prior_of row) \<and>
          handle_duplicate rt ev p data s1 = (Inr out, s')
      | None \<Rightarrow> (\<exists>exc. handle_preflight_failure rt ev (wr_sha256 rt data) (int (length data)) exc s1 = (Inr out, s')) \<or>
          (\<exists>pre. run_preflight rt data (uuid_str (ce_tenant_id ev)) (uuid_str (ce_trace_id ev)) = Inr pre \<and>
             ingest_fresh rt ev (wr_sha256 rt data) pre s1 = (Inr out, s'))"
proof -
  let ?s = "s\<lparr>wk_mark := wr_mono rt (wk_ticks s), wk_ticks := Suc (wk_ticks s)\<rparr>"
  from assms obtain key data prior s0 s1 where run: "worker_cross_check rt ev ?s = (Inr key, s0)"
    and d: "wr_download rt key = Inr data" and f: "find_prior rt ev (wr_sha256 rt data) s0 = (Inr prior, s1)"
    and rest: "(case prior of Some p \<Rightarrow> handle_duplicate rt ev p data
      | None \<Rightarrow> (case run_preflight rt data (uuid_str (ce_tenant_id ev)) (uuid_str (ce_trace_id ev)) of
          Inl exc \<Rightarrow> if isinstance exc PreflightFailedError
            then handle_preflight_failure rt ev (wr_sha256 rt data) (int (length data)) exc else eraise exc
        | Inr preflight \<Rightarrow> ingest_fresh rt ev (wr_sha256 rt data) preflight)) s1 = (Inr out, s')"
    unfolding ingest_process_def ingest_event_def eff_Inr by blast
  have s0: "s0 = ?s" using worker_cross_check_Inr(1) [OF run] .
  have l: "ledger_of s0 = ledger_of s" by (simp add: s0 ledger_of_def)
  have "ledger_of s1 = ledger_of s" "wk_published s1 = wk_published s"
    using find_prior_run(1) [OF f] l s0 by (simp_all add: still_def)
  moreover have "\<exists>row \<in> set (fst (ledger_of s)). is_prior rt ev (wr_sha256 rt data) (Suc (wk_ticks s)) row \<and> p = prior_of row"
    if "prior = Some p" for p
    using find_prior_run(3) [OF f, of p] that l s0 by auto
  ultimately show thesis
    using that [of key data s1 prior] worker_cross_check_Inr(2) [OF run] d rest
    by (cases prior) (auto simp: eraise_Inr split: sum.splits if_splits)
qed

lemma duplicate_disposition:
  "handle_duplicate rt ev p data s = (Inr out, s') \<Longrightarrow> io_disposition out = Duplicate_noop \<or> io_disposition out = Duplicate_resumed"
  using handle_duplicate_Inr [of rt ev p data s out s'] by (auto split: if_splits)

lemma ingested_Inr:
  assumes "ingest_process rt ev s = (Inr out, s')" and "io_disposition out = Ingested"
  obtains key data pre s1 where "split_object_uri (ce_gcs_uri ev) = Inr (wr_bronze_bucket rt, key)"
    and "\<exists>parsed. parse_object_path key = Inr parsed \<and> pop_tenant_id parsed = ce_tenant_id ev \<and> pop_source_id parsed = ce_source_id ev"
    and "wr_download rt key = Inr data" and "ledger_of s1 = ledger_of s" "wk_published s1 = wk_published s"
    and "run_preflight rt data (uuid_str (ce_tenant_id ev)) (uuid_str (ce_trace_id ev)) = Inr pre"
    and "ingest_fresh rt ev (wr_sha256 rt data) pre s1 = (Inr out, s')"
  using assms(1)
proof (rule ingest_process_Inr)
  fix key data prior s1
  assume a: "split_object_uri (ce_gcs_uri ev) = Inr (wr_bronze_bucket rt, key)"
    "\<exists>parsed. parse_object_path key = Inr parsed \<and> pop_tenant_id parsed = ce_tenant_id ev \<and> pop_source_id parsed = ce_source_id ev"
    "wr_download rt key = Inr data" "ledger_of s1 = ledger_of s" "wk_published s1 = wk_published s"
  assume "case prior of
        Some p \<Rightarrow> (\<exists>row \<in> set (fst (ledger_of s)). is_prior rt ev (wr_sha256 rt data) (Suc (wk_ticks s)) row \<and> p = prior_of row) \<and>
          handle_duplicate rt ev p data s1 = (Inr out, s')
      | None \<Rightarrow> (\<exists>exc. handle_preflight_failure rt ev (wr_sha256 rt data) (int (length data)) exc s1 = (Inr out, s')) \<or>
          (\<exists>pre. run_preflight rt data (uuid_str (ce_tenant_id ev)) (uuid_str (ce_trace_id ev)) = Inr pre \<and>
             ingest_fresh rt ev (wr_sha256 rt data) pre s1 = (Inr out, s'))"
  then show thesis using that [OF a] assms(2)
    by (cases prior) (auto simp: handle_preflight_failure_def eff_Inr dest!: duplicate_disposition)
qed

section \<open>Personal data never lands\<close>

definition bronze_ids :: "worker \<Rightarrow> pyval list" where
  "bronze_ids s = map (\<lambda>r. pget r ''id'') (pg_tables (wk_pg s) BRONZE)"

definition same_rows :: "worker \<Rightarrow> worker \<Rightarrow> bool" where
  "same_rows s s' \<longleftrightarrow> bronze_ids s' = bronze_ids s"

interpretation rows: step_relation same_rows
  by unfold_locales (auto simp: same_rows_def)

lemma still_same_rows: "moves still m \<Longrightarrow> moves same_rows m"
  by (erule moves_mono) (simp add: still_def same_rows_def bronze_ids_def ledger_of_def)

lemma bronze_ids_ledger: "bronze_ids s = map (\<lambda>r. pget r ''id'') (fst (ledger_of s))"
  by (simp add: bronze_ids_def ledger_of_def)

lemma publish_and_mark_rows: "moves same_rows (publish_and_mark rt ev trace i d dl)"
proof -
  have "moves same_rows (wpublish rt e)" for e
    by (auto simp: moves_def same_rows_def bronze_ids_def wpublish_def Let_def split: option.splits)
  moreover have "moves same_rows (mark_published rt (ce_tenant_id ev) i)"
    unfolding moves_def
  proof
    fix s
    show "same_rows s (snd (mark_published rt (ce_tenant_id ev) i s))"
      using mark_published_run(2) [OF prod.collapse [symmetric], of rt "ce_tenant_id ev" i s]
      by (auto simp: same_rows_def bronze_ids_ledger pget_stamp)
  qed
  ultimately show ?thesis unfolding publish_and_mark_def by (intro rows.moves_bind rows.moves_pure)
qed

lemma handle_duplicate_rows: "moves same_rows (handle_duplicate rt ev p data)"
  unfolding handle_duplicate_def
  by (intro moves_if rows.moves_bind rows.moves_pure publish_and_mark_rows still_same_rows [OF still_emit])

lemma gate_blocks:
  assumes "list_ex is_pii_column (pf_columns pre)" and "\<not> wr_pii_backend rt"
  shows "gate_pii rt ev pre s \<noteq> (Inr detected, s')"
  using gate_csv_headers_iff [of "pf_columns pre" "wr_pii_backend rt" "uuid_str (ce_tenant_id ev)" "uuid_str (ce_trace_id ev)"] assms
  by (simp add: gate_pii_def eff_Inr)

lemma ingest_fresh_pii:
  assumes "list_ex is_pii_column (pf_columns pre)" and "\<not> wr_pii_backend rt"
  shows "moves same_rows (ingest_fresh rt ev sha pre)"
  unfolding ingest_fresh_def
  by (rule rows.moves_bind [OF still_same_rows [OF still_emit]], rule rows.moves_bind_result [OF still_same_rows [OF still_gate]])
    (simp add: gate_blocks [OF assms])

lemma still_find_prior: "moves still (find_prior rt ev sha)"
  unfolding moves_def using find_prior_run(1) [OF prod.collapse [symmetric]] by blast

lemma ingest_event_pii:
  assumes "split_object_uri (ce_gcs_uri ev) = Inr (bucket, key)" and "wr_download rt key = Inr data"
    and "run_preflight rt data (uuid_str (ce_tenant_id ev)) (uuid_str (ce_trace_id ev)) = Inr pre"
    and "list_ex is_pii_column (pf_columns pre)" and "\<not> wr_pii_backend rt"
  shows "moves same_rows (ingest_event rt ev)"
  unfolding ingest_event_def
proof (rule rows.moves_bind_result [OF still_same_rows [OF still_cross_check]], rule rows.moves_bind_lift)
  fix a k b d
  assume "worker_cross_check rt ev a = (Inr k, b)" and "wr_download rt k = Inr d"
  then have d: "d = data" using worker_cross_check_Inr(2) assms(1,2) by fastforce
  show "moves same_rows (ebind (find_prior rt ev (wr_sha256 rt d)) (\<lambda>prior. case prior of
     Some p \<Rightarrow> handle_duplicate rt ev p d
   | None \<Rightarrow> (case run_preflight rt d (uuid_str (ce_tenant_id ev)) (uuid_str (ce_trace_id ev)) of
        Inl exc \<Rightarrow> if isinstance exc PreflightFailedError
          then handle_preflight_failure rt ev (wr_sha256 rt d) (int (length d)) exc else eraise exc
      | Inr preflight \<Rightarrow> ingest_fresh rt ev (wr_sha256 rt d) preflight)))"
    by (intro rows.moves_bind [OF still_same_rows [OF still_find_prior]] moves_case_option)
      (simp_all add: d assms(3) handle_duplicate_rows ingest_fresh_pii [OF assms(4,5)])
qed

text \<open>C10: Personal data never lands: an upload that passes preflight and whose header has a column the
  detector recognises gets no bronze row while no backend is configured, whatever rows are there
  already and whatever fails, and is never reported as ingested. (A file that fails preflight is
  recorded by a FAILED row before the gate is reached; the gate says nothing of it.)\<close>

theorem pii_never_lands:
  assumes "split_object_uri (ce_gcs_uri ev) = Inr (bucket, key)" and "wr_download rt key = Inr data"
    and "run_preflight rt data (uuid_str (ce_tenant_id ev)) (uuid_str (ce_trace_id ev)) = Inr pre"
    and "list_ex is_pii_column (pf_columns pre)" and "\<not> wr_pii_backend rt"
  shows "bronze_ids (snd (ingest_process rt ev s)) = bronze_ids s \<and>
    (\<forall>out. fst (ingest_process rt ev s) = Inr out \<longrightarrow> io_disposition out \<noteq> Ingested)"
proof (intro conjI allI impI notI)
  let ?s = "s\<lparr>wk_mark := wr_mono rt (wk_ticks s), wk_ticks := Suc (wk_ticks s)\<rparr>"
  show "bronze_ids (snd (ingest_process rt ev s)) = bronze_ids s"
    using movesD [OF ingest_event_pii [OF assms] prod.collapse [symmetric], of ?s]
    by (simp add: ingest_process_def same_rows_def) (simp add: bronze_ids_def)
next
  fix out
  assume "fst (ingest_process rt ev s) = Inr out" and i: "io_disposition out = Ingested"
  then have "ingest_process rt ev s = (Inr out, snd (ingest_process rt ev s))" by (cases "ingest_process rt ev s") simp
  from this i show False
    by (rule ingested_Inr) (use assms in \<open>auto elim!: ingest_fresh_Inr\<close>)
qed

section \<open>What is acknowledged\<close>

lemma split_uri_class: "split_object_uri u = Inl e \<Longrightarrow> exn_class e \<in> {StorageError, PyValueError}"
  by (auto simp: split_object_uri_def Let_def storage_error_def split: if_splits)

lemma parse_path_class: "parse_object_path k = Inl e \<Longrightarrow> exn_class e \<in> {StorageError, PyValueError}"
  by (auto simp: parse_object_path_def Let_def storage_error_def py_exn_def split: if_splits option.splits)

text \<open>An upload whose object address cannot be parsed is handed back on every delivery, with nothing
  recorded: the address is no contract error to the worker, so the message is not
  acknowledged, no audit event is written and the database and the queue are as before.\<close>

theorem unparseable_address_nacked:
  assumes "parse_csv_received (in_pydantic src) (in_decode src data) = Inr ev"
    and "\<not> is_ok (split_object_uri (ce_gcs_uri ev)) \<or>
      (\<exists>bucket key. split_object_uri (ce_gcs_uri ev) = Inr (bucket, key) \<and> \<not> is_ok (parse_object_path key))"
  shows "fst (ingest_message rt src data s) = Inr Nack \<and> wk_pg (snd (ingest_message rt src data s)) = wk_pg s \<and>
    wk_published (snd (ingest_message rt src data s)) = wk_published s"
proof -
  let ?s = "s\<lparr>wk_mark := wr_mono rt (wk_ticks s), wk_ticks := Suc (wk_ticks s)\<rparr>"
  obtain e where e: "worker_cross_check rt ev ?s = (Inl e, ?s)" "exn_class e \<in> {StorageError, PyValueError}"
  proof (cases "split_object_uri (ce_gcs_uri ev)")
    case (Inl e)
    then show thesis using that [of e] split_uri_class by (simp add: worker_cross_check_def ebind_def elift_def)
  next
    case (Inr bk)
    obtain bucket key where bk: "bk = (bucket, key)" by (cases bk)
    obtain e where "parse_object_path key = Inl e" using assms(2) Inr bk by (cases "parse_object_path key") auto
    then show thesis using that [of e] parse_path_class Inr bk by (simp add: worker_cross_check_def ebind_def elift_def)
  qed
  have "\<not> list_ex (isinstance e) TERMINAL"
    using e(2) by (auto simp: TERMINAL_def isinstance_def is_instance_def numeral_eq_Suc)
  then show ?thesis using e(1) by (simp add: ingest_message_def assms(1) ingest_process_def ingest_event_def ebind_def)
qed

end
