(* ===== verification/Ingest_Progress.thy ===== *)
theory Ingest_Progress
  imports Ingest_Props
begin

text \<open>
  Progress of the CSV ingest worker: in a healthy environment one delivery of a well-formed upload
  returns and leaves the upload settled, whatever an earlier, interrupted delivery left behind.
\<close>

section \<open>Steps that return\<close>

definition gives :: "('s, 'a) eff \<Rightarrow> ('a \<Rightarrow> bool) \<Rightarrow> bool" where
  "gives m P \<longleftrightarrow> (\<forall>s. \<exists>a s'. m s = (Inr a, s') \<and> P a)"

named_theorems give

lemma givesD: "gives m P \<Longrightarrow> \<exists>a s'. m s = (Inr a, s') \<and> P a"
  by (simp add: gives_def)

lemma gives_return [give]: "P a \<Longrightarrow> gives (ereturn a) P"
  by (simp add: gives_def ereturn_def)

lemma gives_lift [give]: "r = Inr a \<Longrightarrow> P a \<Longrightarrow> gives (elift r) P"
  by (simp add: gives_def elift_def)

lemma gives_bind:
  assumes "gives m P" and "\<And>a. P a \<Longrightarrow> gives (f a) Q"
  shows "gives (ebind m f) Q"
  unfolding gives_def
proof
  fix s
  from givesD [OF assms(1)] obtain a s1 where m: "m s = (Inr a, s1)" and "P a" by blast
  with assms(2) obtain b s2 where "f a s1 = (Inr b, s2)" "Q b" by (meson givesD)
  then show "\<exists>b s2. ebind m f s = (Inr b, s2) \<and> Q b" by (simp add: ebind_def m)
qed

lemma gives_then: "gives m (\<lambda>_. True) \<Longrightarrow> (\<And>a. gives (f a) Q) \<Longrightarrow> gives (ebind m f) Q"
  by (rule gives_bind)

section \<open>A healthy environment\<close>

text \<open>No transaction fails, the posture is the expected one, no constraint rejects a bronze row, the
  broker takes every message and the clock stays in the range of \<open>datetime\<close>.\<close>

definition healthy :: "worker_runtime \<Rightarrow> bool" where
  "healthy rt \<longleftrightarrow> (\<forall>n. pg_fault (wr_env rt) n = None) \<and> check_posture (pg_posture (wr_env rt)) = Inr () \<and>
     (\<forall>r. pg_reject (wr_env rt) BRONZE r = None) \<and> (\<forall>n topic e. wr_publish rt n topic e = None) \<and> (\<forall>n. dt_in_range (wr_clock rt n))"

lemma gives_session:
  assumes "healthy rt" and "\<And>tabs. \<exists>a tabs'. body (tenant_scope t) tabs = Inr (a, tabs') \<and> P a"
  shows "gives (wpg (rls_session (wr_env rt) t body)) P"
  unfolding gives_def
proof
  fix s :: worker
  obtain a tabs' where "body (tenant_scope t) (pg_tables (wk_pg s)) = Inr (a, tabs')" "P a" using assms(2) by blast
  then show "\<exists>a s'. wpg (rls_session (wr_env rt) t body) s = (Inr a, s') \<and> P a"
    using assms(1) by (simp add: healthy_def wpg_def rls_session_def verified_transaction_def Let_def)
qed

lemma gives_readings [give]:
  "gives (wnew_id rt) (\<lambda>_. True)" "gives (worker_emit rt e) (\<lambda>_. True)"
  by (auto simp: gives_def wnew_id_def worker_emit_def ebind_def wlap_def wnow_def Let_def split: sum.splits)

lemma gives_now: "healthy rt \<Longrightarrow> gives (wnow rt) (\<lambda>d. is_ok (ensure_utc d))"
  by (simp add: gives_def wnow_def ensure_utc_def healthy_def)

lemma gives_publish: "healthy rt \<Longrightarrow> gives (wpublish rt e) (\<lambda>_. True)"
  by (simp add: gives_def wpublish_def Let_def healthy_def)

lemma healthy_admit: "healthy rt \<Longrightarrow> pget r ''tenant_id'' = PyUuid t \<Longrightarrow> admit (wr_env rt) (tenant_scope t) BRONZE r = Inr r"
  by (simp add: admit_Inr healthy_def rls_with_check_def policed_def TENANT_ISOLATION_TABLES_def row_tenant_is_def)

lemma gives_insert:
  assumes h: "healthy rt"
  shows "gives (insert_row rt (bn_tenant_id b) b) (\<lambda>_. True)"
  unfolding insert_row_def
proof (rule gives_session [OF h])
  fix tabs
  have "distinct (dkeys (bronze_params b))" by (simp add: bronze_params_def)
  moreover have "pget (landed rt b) ''tenant_id'' = PyUuid (bn_tenant_id b)" by simp
  ultimately show "\<exists>a tabs'. rbind (sql_insert (wr_env rt) (tenant_scope (bn_tenant_id b)) BRONZE (bronze_params b) tabs)
      (\<lambda>tabs'. Inr ((), tabs')) = Inr (a, tabs') \<and> True"
    using healthy_admit [OF h] by (simp add: result_simps sql_insert_Inr landed_def)
qed

lemma healthy_update:
  assumes "healthy rt"
  shows "\<exists>n rs'. update_rows (wr_env rt) (tenant_scope t) BRONZE p (published_columns d) rs = Inr (n, rs')"
proof (induction rs)
  case (Cons r rs)
  have "admit (wr_env rt) (tenant_scope t) BRONZE (dupdate r (published_columns d)) = Inr (dupdate r (published_columns d))"
    if "rls_using (tenant_scope t) BRONZE r"
    by (rule healthy_admit [OF assms]) (use that in \<open>simp add: published_columns_def pget_def dget_dupdate_notin\<close>)
  then show ?case using Cons by (auto simp: result_simps)
qed simp

lemma gives_mark:
  assumes h: "healthy rt"
  shows "gives (mark_published rt t i) (\<lambda>_. True)"
  unfolding mark_published_def
proof (rule gives_bind [OF gives_now [OF h]], rule gives_session [OF h])
  fix d tabs
  from healthy_update [OF h] obtain n rs' where
    "update_rows (wr_env rt) (tenant_scope t) BRONZE (\<lambda>r. pget r ''id'' = PyUuid i) (published_columns d) (tabs BRONZE) = Inr (n, rs')" by blast
  then show "\<exists>a tabs'. rbind (sql_update (wr_env rt) (tenant_scope t) BRONZE (\<lambda>r. pget r ''id'' = PyUuid i) (published_columns d) tabs)
      (\<lambda>(n, tabs'). Inr ((), tabs')) = Inr (a, tabs') \<and> True"
    by (simp add: sql_update_def columns_once_def published_columns_def)
qed

lemma gives_publish_and_mark:
  assumes "healthy rt" and "is_ok (ensure_utc d)" and "1 \<le> length (ce_source_id ev)" "1 \<le> length (ce_gcs_uri ev)" "length dl = 1"
  shows "gives (publish_and_mark rt ev trace i d dl) (\<lambda>_. True)"
proof -
  obtain e where "build_ingress_ready ev trace i d dl = Inr e"
    using assms(2-5) by (auto simp: build_ingress_ready_def is_ok_iff)
  then show ?thesis unfolding publish_and_mark_def
    by (intro gives_bind [OF gives_lift] gives_then gives_publish gives_mark assms(1)) simp_all
qed

section \<open>One delivery settles an upload\<close>

definition well_formed_upload :: "worker_runtime \<Rightarrow> csv_event \<Rightarrow> string \<Rightarrow> preflight_result \<Rightarrow> bool" where
  "well_formed_upload rt ev data pre \<longleftrightarrow>
     (\<exists>key parsed. split_object_uri (ce_gcs_uri ev) = Inr (wr_bronze_bucket rt, key) \<and> parse_object_path key = Inr parsed \<and>
        pop_tenant_id parsed = ce_tenant_id ev \<and> pop_source_id parsed = ce_source_id ev \<and>
        pop_trace_id parsed = uuid_str (ce_trace_id ev) \<and> pop_ext parsed = ''csv'' \<and> wr_download rt key = Inr data) \<and>
     run_preflight rt data (uuid_str (ce_tenant_id ev)) (uuid_str (ce_trace_id ev)) = Inr pre \<and> length (pf_delimiter pre) = 1 \<and>
     \<not> list_ex is_pii_column (pf_columns pre) \<and>
     py_strip (ce_upload_session_id ev) \<noteq> [] \<and> py_strip (wr_sha256 rt data) \<noteq> [] \<and> ce_source_id ev \<noteq> [] \<and> ce_gcs_uri ev \<noteq> []"

definition settled_upload :: "csv_event \<Rightarrow> string \<Rightarrow> payload \<Rightarrow> bool" where
  "settled_upload ev sha r \<longleftrightarrow> pget r ''tenant_id'' = PyUuid (ce_tenant_id ev) \<and> same_upload (ce_upload_session_id ev) sha r \<and>
     (pi_processing_status (prior_of r) = ''FAILED'' \<or> is_published (prior_of r))"

lemma gives_gate:
  assumes "\<not> list_ex is_pii_column (pf_columns pre)"
  shows "gives (gate_pii rt ev pre) (\<lambda>_. True)"
proof -
  obtain d where "gate_csv_headers (pf_columns pre) (uuid_str (ce_tenant_id ev)) (uuid_str (ce_trace_id ev)) (wr_pii_backend rt) = Inr d"
    using gate_csv_headers_iff [of "pf_columns pre" "wr_pii_backend rt" "uuid_str (ce_tenant_id ev)" "uuid_str (ce_trace_id ev)"] assms
    by (auto simp: is_ok_iff)
  then show ?thesis by (simp add: gate_pii_def) (intro gives_then give TrueI)
qed

lemma gives_fresh:
  assumes "healthy rt" and "well_formed_upload rt ev data pre"
  shows "gives (ingest_fresh rt ev sha pre) (\<lambda>_. True)"
proof -
  have p: "gives (publish_and_mark rt ev trace i d (pf_delimiter pre)) (\<lambda>_. True)" if "is_ok (ensure_utc d)" for trace i d
    by (rule gives_publish_and_mark [OF assms(1) that]) (use assms(2) in \<open>auto simp: well_formed_upload_def Suc_le_eq\<close>)
  have i: "gives (insert_row rt (ce_tenant_id ev) (bronze_for ev i sz sha rc d st)) (\<lambda>_. True)" for i sz rc d st
    using gives_insert [OF assms(1), of "bronze_for ev i sz sha rc d st"] by (simp add: bronze_for_def)
  have g: "gives (gate_pii rt ev pre) (\<lambda>_. True)"
    by (rule gives_gate) (use assms(2) in \<open>simp add: well_formed_upload_def\<close>)
  show ?thesis unfolding ingest_fresh_def
    by (intro gives_then [OF gives_readings(1)] gives_then [OF gives_readings(2)] gives_then [OF g] gives_bind [OF gives_now [OF assms(1)]]
        gives_then [OF i] gives_then [OF p] gives_return TrueI)
qed

lemma gives_duplicate:
  assumes "healthy rt" and "well_formed_upload rt ev data pre" and "is_ok (ensure_utc (pi_received_at p))"
  shows "gives (handle_duplicate rt ev p data) (\<lambda>_. True)"
proof -
  have m: "gives (publish_and_mark rt ev trace i (pi_received_at p) (pf_delimiter pre)) (\<lambda>_. True)" for trace i
    by (rule gives_publish_and_mark [OF assms(1,3)]) (use assms(2) in \<open>auto simp: well_formed_upload_def Suc_le_eq\<close>)
  have "run_preflight rt data (uuid_str (ce_tenant_id ev)) (uuid_str (ce_trace_id ev)) = Inr pre"
    using assms(2) by (simp add: well_formed_upload_def)
  then show ?thesis unfolding handle_duplicate_def
    by (auto intro!: gives_then [OF gives_readings(2)] gives_then [OF m] gives_return gives_bind [OF gives_lift])
qed

lemma gives_find_prior:
  assumes "healthy rt" and "py_strip (ce_upload_session_id ev) \<noteq> []" "py_strip sha \<noteq> []"
  shows "gives (find_prior rt ev sha) (\<lambda>_. True)"
  unfolding find_prior_def
  by (rule gives_bind [OF gives_now [OF assms(1)]], rule gives_session [OF assms(1)])
    (simp add: require_key_component_def require_def assms(2,3))

lemma well_formed_cross_check:
  assumes "well_formed_upload rt ev data pre"
  shows "\<exists>key. worker_cross_check rt ev s = (Inr key, s) \<and> wr_download rt key = Inr data"
  using assms
  by (auto simp: well_formed_upload_def worker_cross_check_def ebind_def elift_def ereturn_def path_checks_def)

lemma upload_returns:
  assumes "healthy rt" and "well_formed_upload rt ev data pre"
    and "\<And>r. r \<in> set (pg_tables (wk_pg s) BRONZE) \<Longrightarrow> is_ok (ensure_utc (pi_received_at (prior_of r)))"
  shows "\<exists>out s'. ingest_process rt ev s = (Inr out, s')"
proof -
  let ?s = "s\<lparr>wk_mark := wr_mono rt (wk_ticks s), wk_ticks := Suc (wk_ticks s)\<rparr>"
  have wf: "py_strip (ce_upload_session_id ev) \<noteq> []" "py_strip (wr_sha256 rt data) \<noteq> []"
    "run_preflight rt data (uuid_str (ce_tenant_id ev)) (uuid_str (ce_trace_id ev)) = Inr pre"
    using assms(2) by (simp_all add: well_formed_upload_def)
  obtain key where key: "worker_cross_check rt ev ?s = (Inr key, ?s)" "wr_download rt key = Inr data"
    using well_formed_cross_check [OF assms(2)] by blast
  obtain prior s1 where f: "find_prior rt ev (wr_sha256 rt data) ?s = (Inr prior, s1)"
    using givesD [OF gives_find_prior [OF assms(1) wf(1,2)]] by blast
  have run: "ingest_process rt ev s = (case prior of
       Some p \<Rightarrow> handle_duplicate rt ev p data | None \<Rightarrow> ingest_fresh rt ev (wr_sha256 rt data) pre) s1"
    by (simp add: ingest_process_def ingest_event_def ebind_def key elift_def f wf(3) split: option.splits)
  show ?thesis
  proof (cases prior)
    case None
    then show ?thesis using givesD [OF gives_fresh [OF assms(1,2)]] by (fastforce simp: run)
  next
    case (Some p)
    then obtain row where "row \<in> set (fst (ledger_of ?s))" "p = prior_of row" using find_prior_run(3) [OF f] by blast
    then have "is_ok (ensure_utc (pi_received_at p))" using assms(3) by (auto simp: ledger_of_def)
    then show ?thesis using givesD [OF gives_duplicate [OF assms(1,2)]] by (fastforce simp: run Some)
  qed
qed

lemma stamp_settles:
  assumes "bronze_typed row" and "pget row ''tenant_id'' = PyUuid (ce_tenant_id ev)" and "same_upload (ce_upload_session_id ev) sha row"
  shows "settled_upload ev sha (stamp_row (ce_tenant_id ev) (pi_bronze_id (prior_of row)) t row)"
proof -
  have "pget (stamp_row (ce_tenant_id ev) (pi_bronze_id (prior_of row)) t row) ''processing_status'' = PyStr ''PUBLISHED''"
    using assms(1,2) by (auto simp: stamp_row_def bronze_typed_def prior_of_def uuid_val_def published_columns_def dupdate_def pget_def dget_Cons)
  then show ?thesis
    using assms(2,3) by (simp add: settled_upload_def same_upload_def pget_stamp is_published_def) (simp add: prior_of_def)
qed

lemma duplicate_settles:
  assumes "handle_duplicate rt ev (prior_of row) data s = (Inr out, s')" and "row \<in> set (fst (ledger_of s))"
    and "bronze_typed row" and "pget row ''tenant_id'' = PyUuid (ce_tenant_id ev)" and "same_upload (ce_upload_session_id ev) sha row"
  shows "\<exists>r \<in> set (fst (ledger_of s')). settled_upload ev sha r"
proof (cases "pi_processing_status (prior_of row) = ''FAILED'' \<or> is_published (prior_of row)")
  case True
  then show ?thesis using handle_duplicate_Inr [OF assms(1)] assms(2-) by (auto simp: settled_upload_def)
next
  case False
  then obtain t where "fst (ledger_of s') = map (stamp_row (ce_tenant_id ev) (pi_bronze_id (prior_of row)) t) (fst (ledger_of s))"
    using handle_duplicate_Inr [OF assms(1)] by auto
  then show ?thesis using assms(2) stamp_settles [OF assms(3-5), of t] by auto
qed

lemma bronze_for_landed:
  "same_upload (ce_upload_session_id ev) sha (landed rt (bronze_for ev i sz sha rc d st))"
  "pget (landed rt (bronze_for ev i sz sha rc d st)) ''tenant_id'' = PyUuid (ce_tenant_id ev)"
  "pi_bronze_id (prior_of (landed rt (bronze_for ev i sz sha rc d st))) = i"
  "pi_processing_status (prior_of (landed rt (bronze_for ev i sz sha rc d st))) = st"
  by (simp_all add: same_upload_def prior_of_def uuid_val_def) (simp_all add: bronze_for_def)

lemma fresh_settles:
  assumes "ingest_fresh rt ev sha pre s = (Inr out, s')"
  shows "\<exists>r \<in> set (fst (ledger_of s')). settled_upload ev sha r"
  using assms
proof (rule ingest_fresh_Inr)
  fix i d t e
  let ?row = "landed rt (bronze_for ev i (pf_size_bytes pre) sha (Some (pf_row_count pre)) d ''RECEIVED'')"
  assume rows: "fst (ledger_of s') = map (stamp_row (ce_tenant_id ev) i t) (fst (ledger_of s) @ [?row])"
    and "build_ingress_ready ev (ce_trace_id ev) i d (pf_delimiter pre) = Inr e"
  then have "dt_offset d \<noteq> None" by (auto simp: build_ingress_ready_def ensure_utc_def split: option.splits)
  then have "bronze_typed ?row" by (auto simp: bronze_typed_def row_instant_def dt_instant_def) (auto simp: bronze_for_def)
  from stamp_settles [OF this bronze_for_landed(2,1), of t] show ?thesis by (auto simp: rows bronze_for_landed(3))
qed

lemma preflight_failure_settles:
  assumes "handle_preflight_failure rt ev sha sz exc s = (Inr out, s')"
  shows "\<exists>r \<in> set (fst (ledger_of s')). settled_upload ev sha r"
proof -
  from assms obtain i s1 d s2 s3 e where ins: "insert_row rt (ce_tenant_id ev) (bronze_for ev i sz sha None d ''FAILED'') s2 = (Inr (), s3)"
    and em: "worker_emit rt e s3 = (Inr (), s')"
    unfolding handle_preflight_failure_def eff_Inr by auto
  have "ledger_of s' = ledger_of s3" using still_published [OF still_emit em] by simp
  then show ?thesis using insert_row_run(3) [OF ins refl] by (simp add: settled_upload_def bronze_for_landed) (simp add: bronze_for_def)
qed

text \<open>C11: One delivery settles an upload once the environment is healthy: whatever rows an earlier,
  interrupted delivery left, the run of a well-formed upload returns, its message is
  acknowledged, and a bronze row of this tenant, upload session and content is published or
  failed, the states in which the worker has nothing left to do.\<close>

theorem healthy_delivery_settles:
  assumes "healthy rt" and "well_formed_upload rt ev data pre" and "typed (ledger_of s)"
    and "\<And>r. r \<in> set (pg_tables (wk_pg s) BRONZE) \<Longrightarrow> is_ok (ensure_utc (pi_received_at (prior_of r)))"
    and "parse_csv_received (in_pydantic src) (in_decode src message) = Inr ev"
  shows "\<exists>s'. ingest_message rt src message s = (Inr Ack, s') \<and>
    (\<exists>r \<in> set (pg_tables (wk_pg s') BRONZE). settled_upload ev (wr_sha256 rt data) r)"
proof -
  obtain out s' where run: "ingest_process rt ev s = (Inr out, s')" using upload_returns [OF assms(1,2,4)] by blast
  have "\<exists>r \<in> set (fst (ledger_of s')). settled_upload ev (wr_sha256 rt data) r"
    using run
  proof (rule ingest_process_Inr)
    fix key data' prior s1
    assume "split_object_uri (ce_gcs_uri ev) = Inr (wr_bronze_bucket rt, key)" and "wr_download rt key = Inr data'"
    then have d: "data' = data" using assms(2) by (auto simp: well_formed_upload_def)
    assume s1: "ledger_of s1 = ledger_of s"
    assume "case prior of
        Some p \<Rightarrow> (\<exists>row \<in> set (fst (ledger_of s)). is_prior rt ev (wr_sha256 rt data') (Suc (wk_ticks s)) row \<and> p = prior_of row) \<and>
          handle_duplicate rt ev p data' s1 = (Inr out, s')
      | None \<Rightarrow> (\<exists>exc. handle_preflight_failure rt ev (wr_sha256 rt data') (int (length data')) exc s1 = (Inr out, s')) \<or>
          (\<exists>pre. run_preflight rt data' (uuid_str (ce_tenant_id ev)) (uuid_str (ce_trace_id ev)) = Inr pre \<and>
             ingest_fresh rt ev (wr_sha256 rt data') pre s1 = (Inr out, s'))"
    then show ?thesis using assms(3) s1
      by (cases prior) (auto simp: d is_prior_def typed_def list_all_iff dest: preflight_failure_settles fresh_settles
          intro: duplicate_settles)
  qed
  then show ?thesis using run by (simp add: ingest_message_def assms(5) ledger_of_def)
qed

end
