(* ===== verification/Upload_Props.thy ===== *)
theory Upload_Props
  imports Csv_Upload Ingest_Progress
begin

text \<open>
  What an upload leaves behind on every path, and that the ingest worker can take what an accepted
  upload announced.
\<close>

section \<open>Steps that leave only audit events\<close>

definition silent :: "uploads \<Rightarrow> uploads \<Rightarrow> bool" where
  "silent s s' \<longleftrightarrow> (\<forall>T. T \<noteq> AUDIT \<longrightarrow> pg_tables (uw_pg s') T = pg_tables (uw_pg s) T) \<and>
     uw_objects s' = uw_objects s \<and> uw_published s' = uw_published s"

lemma silent_refl [simp]: "silent s s"
  by (simp add: silent_def)

lemma silent_trans: "silent s t \<Longrightarrow> silent t u \<Longrightarrow> silent s u"
  by (simp add: silent_def)

lemma ebindE:
  assumes "ebind m f s = (r, s')"
  obtains e where "m s = (Inl e, s')" "r = Inl e" | a t where "m s = (Inr a, t)" "f a t = (r, s')"
  using assms by (auto simp: ebind_def split: prod.splits sum.splits)

lemma ui_emit_quiet: "ui_emit rt e s = (r, s') \<Longrightarrow> silent s s' \<and> r = Inr ()"
  by (auto simp: ui_emit_def ebind_def unow_def silent_def audit_write_other split: sum.splits)

lemma elapsed_quiet: "elapsed_ms rt t0 s = (r, s') \<Longrightarrow> silent s s' \<and> (\<exists>ms. r = Inr ms)"
  by (auto simp: elapsed_ms_def umono_def ebind_def ereturn_def silent_def)

lemma unavailable_quiet:
  assumes "unavailable rt i ip t tr t0 code failure extra s = (r, s')"
  shows "silent s s' \<and> r = Inl failure"
  using assms unfolding unavailable_def emit_failure_def
  by (elim ebindE) (auto simp: eraise_def dest!: elapsed_quiet ui_emit_quiet intro: silent_trans)

lemma rejected_quiet:
  assumes "rejected rt i ip t tr t0 (step, e) s = (r, s')"
  shows "silent s s' \<and> r = Inl e"
  using assms unfolding rejected_def emit_failure_def
  by (auto simp: eraise_def split: if_splits elim!: ebindE dest!: elapsed_quiet ui_emit_quiet intro: silent_trans)

text \<open>A read-only session.\<close>

lemma read_only_session: "rls_session env t (\<lambda>g tabs. Inr (f g tabs, tabs)) s = (r, s') \<Longrightarrow>
  pg_tables s' = pg_tables s \<and> (\<forall>a. r = Inr a \<longrightarrow> a = f (tenant_scope t) (pg_tables s))"
  by (auto simp: rls_session_def verified_transaction_def Let_def split: option.splits sum.splits if_splits)

lemma display_code_tables: "get_tenant_display_code env t s = (r, s') \<Longrightarrow> pg_tables s' = pg_tables s"
  by (auto simp: get_tenant_display_code_def split: prod.splits sum.splits dest: read_only_session)

lemma the_store_Inr: "the_store t c rows = Inr x \<Longrightarrow> x \<in> set rows"
  by (auto simp: the_store_def split: list.splits)

lemma resolve_store_read:
  assumes "resolve_store_by_code env t code s = (r, s')"
  shows "pg_tables s' = pg_tables s" and "r = Inr x \<Longrightarrow> x \<in> set (pg_tables s STORES) \<and> pget x ''tenant_id'' = PyUuid t \<and> pget x ''store_code'' = PyStr code"
proof -
  let ?f = "\<lambda>g. sql_select g STORES (\<lambda>r. pget r ''tenant_id'' = PyUuid t \<and> pget r ''store_code'' = PyStr code)"
  obtain q s1 where run: "rls_session env t (\<lambda>g tabs. Inr (?f g tabs, tabs)) s = (q, s1)" by (cases "rls_session env t (\<lambda>g tabs. Inr (?f g tabs, tabs)) s")
  note ro = read_only_session [OF run]
  show "pg_tables s' = pg_tables s" using assms ro run by (auto simp: resolve_store_by_code_def split: sum.splits)
  show "x \<in> set (pg_tables s STORES) \<and> pget x ''tenant_id'' = PyUuid t \<and> pget x ''store_code'' = PyStr code" if "r = Inr x"
  proof -
    have "x \<in> set (?f (tenant_scope t) (pg_tables s))"
      using assms ro run that by (auto simp: resolve_store_by_code_def split: sum.splits dest: the_store_Inr)
    then show ?thesis by (simp add: sql_select_def)
  qed
qed

lemma resolve_template_read:
  assumes "resolve_active_template env t i s = (r, s')"
  shows "pg_tables s' = pg_tables s"
    and "r = Inr x \<Longrightarrow> x \<in> set (pg_tables s CSM) \<and> pget x ''tenant_id'' = PyUuid t \<and> pget x ''template_id'' = PyUuid i \<and> status_of x = ''ACTIVE''"
proof -
  obtain q s1 where run: "rls_session env t (\<lambda>g tabs. Inr (lineage g i tabs, tabs)) s = (q, s1)"
    by (cases "rls_session env t (\<lambda>g tabs. Inr (lineage g i tabs, tabs)) s")
  have rows: "get_template_rows env \<lparr>rs_is_platform = False, rs_tenant_id = Some t\<rparr> i s = (q, s1)"
    using run by (simp add: get_template_rows_def read_session_def)
  note ro = read_only_session [OF run]
  show "pg_tables s' = pg_tables s" using assms ro by (auto simp: resolve_active_template_def rows split: sum.splits)
  show "x \<in> set (pg_tables s CSM) \<and> pget x ''tenant_id'' = PyUuid t \<and> pget x ''template_id'' = PyUuid i \<and> status_of x = ''ACTIVE''" if "r = Inr x"
  proof -
    from assms that ro obtain head rest where "lineage (tenant_scope t) i (pg_tables s) = head # rest"
      and "x \<in> set (filter (\<lambda>r. status_of r = ''ACTIVE'') (head # rest))"
      by (auto simp: resolve_active_template_def rows active_of_def split: sum.splits list.splits if_splits)
    then have "x \<in> set (lineage (tenant_scope t) i (pg_tables s)) \<and> status_of x = ''ACTIVE''" by (auto split: if_splits)
    then show ?thesis by (simp add: set_lineage)
  qed
qed

text \<open>What passed the gates.\<close>

lemma upload_gates_read:
  assumes "upload_gates rt req t tr s = (r, s')"
  shows "pg_tables s' = pg_tables s"
    and "r = Inr g \<Longrightarrow> read_csv_upload (ur_multipart rt) req CSV_UPLOAD_MAX_FILE_BYTES CSV_UPLOAD_BODY_CEILING_BYTES = Inr (gu_parsed g) \<and>
      is_ok (run_tier0 (pu_file_bytes (gu_parsed g)) (uuid_str t) (uuid_str tr)) \<and>
      (\<exists>x \<in> set (pg_tables s CSM). pget x ''tenant_id'' = PyUuid t \<and> pget x ''template_id'' = PyUuid (gu_template_id g) \<and>
         status_of x = ''ACTIVE'' \<and> gu_source_id g = py_str (pget x ''source_id'')) \<and>
      gu_store g \<in> set (pg_tables s STORES) \<and> pget (gu_store g) ''tenant_id'' = PyUuid t \<and> status_of (gu_store g) = ''ACTIVE''"
proof -
  show "pg_tables s' = pg_tables s"
    using assms by (auto simp: upload_gates_def split: sum.splits prod.splits dest!: resolve_store_read(1) resolve_template_read(1))
  assume "r = Inr g"
  with assms obtain parsed tid n x s1 store where "read_csv_upload (ur_multipart rt) req CSV_UPLOAD_MAX_FILE_BYTES CSV_UPLOAD_BODY_CEILING_BYTES = Inr parsed"
    and "run_tier0 (pu_file_bytes parsed) (uuid_str t) (uuid_str tr) = Inr n"
    and tpl: "resolve_active_template (ur_env rt) t tid s = (Inr x, s1)"
    and store: "resolve_store_by_code (ur_env rt) t (part_text parsed ''store_code'') s1 = (Inr store, s')"
    and "gate_store_uploadable store t (part_text parsed ''store_code'') = Inr ()"
    and "g = \<lparr>gu_parsed = parsed, gu_template_id = tid, gu_store_code = part_text parsed ''store_code'',
      gu_row_count = n, gu_source_id = py_str (pget x ''source_id''), gu_store = store\<rparr>"
    by (auto simp: upload_gates_def result_simps split: sum.splits prod.splits)
  with resolve_template_read(1) [OF tpl] resolve_template_read(2) [OF tpl refl] resolve_store_read(2) [OF store refl]
  show "read_csv_upload (ur_multipart rt) req CSV_UPLOAD_MAX_FILE_BYTES CSV_UPLOAD_BODY_CEILING_BYTES = Inr (gu_parsed g) \<and>
      is_ok (run_tier0 (pu_file_bytes (gu_parsed g)) (uuid_str t) (uuid_str tr)) \<and>
      (\<exists>x \<in> set (pg_tables s CSM). pget x ''tenant_id'' = PyUuid t \<and> pget x ''template_id'' = PyUuid (gu_template_id g) \<and>
         status_of x = ''ACTIVE'' \<and> gu_source_id g = py_str (pget x ''source_id'')) \<and>
      gu_store g \<in> set (pg_tables s STORES) \<and> pget (gu_store g) ''tenant_id'' = PyUuid t \<and> status_of (gu_store g) = ''ACTIVE''"
    by (auto simp: gate_store_uploadable_def UPLOADABLE_STORE_STATUSES_def require_def split: if_splits)
qed

section \<open>Outcomes\<close>

text \<open>Beside audit events a request leaves nothing, or an object nobody announced, or an object and its message.\<close>

definition only_audit :: "uploads \<Rightarrow> uploads \<Rightarrow> bool" where
  "only_audit s s' \<longleftrightarrow> (\<forall>T. T \<noteq> AUDIT \<longrightarrow> pg_tables (uw_pg s') T = pg_tables (uw_pg s) T)"

lemma quiet_audit: "silent s s' \<Longrightarrow> only_audit s s'" "silent s t \<Longrightarrow> only_audit t u \<Longrightarrow> only_audit s u"
  by (auto simp: silent_def only_audit_def)

lemma announce_outcome:
  assumes "announce_upload rt i ip t tr t0 g ev s = (r, s')"
  shows "only_audit s s' \<and> uw_objects s' = uw_objects s \<and>
    (case r of Inl e \<Rightarrow> uw_published s' = uw_published s
     | Inr res \<Rightarrow> uw_published s' = uw_published s @ [(ur_topic rt, ev)] \<and> cr_template_id res = gu_template_id g \<and> cr_trace_id res = tr \<and>
         cr_gcs_uri res = ce_gcs_uri ev)"
proof -
  let ?fail = "\<lambda>_. unavailable rt i ip t tr t0 PUBLISH_FAILED (event_publish_error (ur_topic rt) (uuid_str t) (uuid_str tr))
         [(''template_id'', PyStr (uuid_str (gu_template_id g))), (''store_code'', PyStr (gu_store_code g)),
          (''upload_id'', PyStr (ce_upload_session_id ev))] :: unit upload"
  obtain q s1 where pub: "upublish rt ev s = (q, s1)" by (cases "upublish rt ev s")
  show ?thesis
  proof (cases q)
    case (Inl e)
    then have s1: "silent s s1" using pub by (auto simp: upublish_def Let_def silent_def split: option.splits)
    obtain x s2 where "?fail e s1 = (x, s2)" by (cases "?fail e s1")
    with unavailable_quiet [OF this] assms pub Inl s1 show ?thesis
      by (auto simp: announce_upload_def ebind_def ecatch_def silent_def only_audit_def)
  next
    case (Inr u)
    then have s1: "only_audit s s1" "uw_objects s1 = uw_objects s" "uw_published s1 = uw_published s @ [(ur_topic rt, ev)]"
      using pub by (auto simp: upublish_def Let_def only_audit_def split: option.splits)
    have "ecatch (upublish rt ev) ?fail s = (Inr u, s1)" using pub Inr by (simp add: ecatch_def)
    with assms have "\<exists>ms s2 s3. elapsed_ms rt t0 s1 = (Inr ms, s2) \<and> silent s2 s3 \<and> s' = s3 \<and>
        (\<exists>res. r = Inr res \<and> cr_template_id res = gu_template_id g \<and> cr_trace_id res = tr \<and> cr_gcs_uri res = ce_gcs_uri ev)"
      unfolding announce_upload_def by (elim ebindE) (auto simp: ereturn_def dest!: ui_emit_quiet dest: elapsed_quiet)
    then obtain res where "silent s1 s'" "r = Inr res" "cr_template_id res = gu_template_id g" "cr_trace_id res = tr" "cr_gcs_uri res = ce_gcs_uri ev"
      by (auto dest!: elapsed_quiet intro: silent_trans)
    then show ?thesis using s1 by (auto simp: silent_def only_audit_def)
  qed
qed

text \<open>After the gates: the names of the object and of its message.\<close>

definition announced_as :: "upload_runtime \<Rightarrow> uuid \<Rightarrow> uuid \<Rightarrow> gated_upload \<Rightarrow> string \<Rightarrow> csv_event \<Rightarrow> bool" where
  "announced_as rt t tr g key ev \<longleftrightarrow> (\<exists>now dc. build_object_path (uuid_str t) (gu_source_id g) (uuid_str tr) now ''csv'' = Inr key \<and>
     build_csv_received tr t (store_uuid (gu_store g)) (gu_source_id g) (gu_template_id g)
       (derive_upload_session_id (ur_sha256 rt) t (store_uuid (gu_store g)) (gu_template_id g) (ur_sha256 rt (pu_file_bytes (gu_parsed g))))
       (''gs://'' @ ur_bucket rt @ ''/'' @ key) now dc (Some (gu_store_code g)) = Inr ev)"

lemma display_quiet: "upg (get_tenant_display_code env t) s = (r, s') \<Longrightarrow> silent s s'"
  by (auto simp: upg_def silent_def split: prod.splits dest: display_code_tables)

lemma unow_quiet: "unow rt s = (r, s') \<Longrightarrow> silent s s'"
  by (auto simp: unow_def silent_def)

lemma prepared_quiet:
  "upg (get_tenant_display_code env t) s = (r, s1) \<Longrightarrow> unow rt s1 = (q, s2) \<Longrightarrow> elift x s2 = (y, s3) \<Longrightarrow> silent s s3"
  using display_quiet unow_quiet silent_trans by (metis elift_def prod.inject)

lemma put_outcome:
  assumes "ecatch (upload_bytes rt key data) (\<lambda>_. unavailable rt i ip t tr t0 code failure extra) s = (r, s')"
  shows "r = Inl e \<Longrightarrow> silent s s'"
    and "r = Inr u \<Longrightarrow> only_audit s s' \<and> uw_objects s' = uw_objects s @ [(key, data)] \<and> uw_published s' = uw_published s"
proof -
  obtain q s1 where put: "upload_bytes rt key data s = (q, s1)" by (cases "upload_bytes rt key data s")
  have q: "(\<exists>e. q = Inl e) \<and> silent s s1 \<or> q = Inr () \<and> only_audit s s1 \<and> uw_objects s1 = uw_objects s @ [(key, data)] \<and> uw_published s1 = uw_published s"
    using put by (auto simp: upload_bytes_def Let_def silent_def only_audit_def split: option.splits)
  show "silent s s'" if "r = Inl e"
    using assms that put q by (cases q) (auto simp: ecatch_def dest: unavailable_quiet silent_trans)
  show "only_audit s s' \<and> uw_objects s' = uw_objects s @ [(key, data)] \<and> uw_published s' = uw_published s" if "r = Inr u"
    using assms that put q by (cases q) (auto simp: ecatch_def dest: unavailable_quiet)
qed

lemma store_outcome:
  assumes "store_upload rt i ip t tr t0 g s = (r, s')"
  shows "only_audit s s' \<and> (case r of
      Inl e \<Rightarrow> uw_published s' = uw_published s \<and> (uw_objects s' = uw_objects s \<or> (\<exists>key. uw_objects s' = uw_objects s @ [(key, pu_file_bytes (gu_parsed g))]))
    | Inr res \<Rightarrow> \<exists>key ev. announced_as rt t tr g key ev \<and> uw_objects s' = uw_objects s @ [(key, pu_file_bytes (gu_parsed g))] \<and>
        uw_published s' = uw_published s @ [(ur_topic rt, ev)] \<and> cr_template_id res = gu_template_id g)"
proof -
  let ?data = "pu_file_bytes (gu_parsed g)" and ?put = "\<lambda>key. ecatch (upload_bytes rt key (pu_file_bytes (gu_parsed g))) (\<lambda>_. unavailable rt i ip t tr t0
    GCS_WRITE_FAILED (storage_error None None None) [(''template_id'', PyStr (uuid_str (gu_template_id g))), (''store_code'', PyStr (gu_store_code g))])"
  note go = assms [unfolded store_upload_def Let_def]
  show ?thesis
    using go
  proof (elim ebindE)
    fix e assume "upg (get_tenant_display_code (ur_env rt) t) s = (Inl e, s')" "r = Inl e"
    then show ?thesis using display_quiet quiet_audit by (auto simp: silent_def)
  next
    fix dc s1 e assume "unow rt s1 = (Inl e, s')"
    then show ?thesis by (simp add: unow_def)
  next
    fix dc s1 now s2 e
    assume "upg (get_tenant_display_code (ur_env rt) t) s = (Inr dc, s1)" "unow rt s1 = (Inr now, s2)"
      "elift (build_object_path (uuid_str t) (gu_source_id g) (uuid_str tr) now ''csv'') s2 = (Inl e, s')" "r = Inl e"
    then have "silent s s'" by (intro prepared_quiet)
    then show ?thesis using quiet_audit \<open>r = Inl e\<close> by (simp add: silent_def only_audit_def)
  next
    fix dc s1 now s2 key s3 e
    assume "upg (get_tenant_display_code (ur_env rt) t) s = (Inr dc, s1)" "unow rt s1 = (Inr now, s2)"
      "elift (build_object_path (uuid_str t) (gu_source_id g) (uuid_str tr) now ''csv'') s2 = (Inr key, s3)"
      and put: "?put key s3 = (Inl e, s')" and "r = Inl e"
    then have "silent s s'" using silent_trans [OF prepared_quiet put_outcome(1) [OF put refl]] by blast
    then show ?thesis using \<open>r = Inl e\<close> by (simp add: silent_def only_audit_def)
  next
    fix dc s1 now s2 key s3 u s4 e
    assume a: "upg (get_tenant_display_code (ur_env rt) t) s = (Inr dc, s1)" "unow rt s1 = (Inr now, s2)"
      "elift (build_object_path (uuid_str t) (gu_source_id g) (uuid_str tr) now ''csv'') s2 = (Inr key, s3)"
      "?put key s3 = (Inr u, s4)" "elift (build_csv_received tr t (store_uuid (gu_store g)) (gu_source_id g) (gu_template_id g)
       (derive_upload_session_id (ur_sha256 rt) t (store_uuid (gu_store g)) (gu_template_id g) (ur_sha256 rt ?data))
       (''gs://'' @ ur_bucket rt @ ''/'' @ key) now dc (Some (gu_store_code g))) s4 = (Inl e, s')" "r = Inl e"
    from a(1-3) have "silent s s3" by (rule prepared_quiet)
    then show ?thesis using put_outcome(2) [OF a(4)] a(5,6) by (auto simp: elift_def silent_def only_audit_def)
  next
    fix dc s1 now s2 key s3 u s4 ev s5
    assume a: "upg (get_tenant_display_code (ur_env rt) t) s = (Inr dc, s1)" "unow rt s1 = (Inr now, s2)"
      "elift (build_object_path (uuid_str t) (gu_source_id g) (uuid_str tr) now ''csv'') s2 = (Inr key, s3)"
      "?put key s3 = (Inr u, s4)" "elift (build_csv_received tr t (store_uuid (gu_store g)) (gu_source_id g) (gu_template_id g)
       (derive_upload_session_id (ur_sha256 rt) t (store_uuid (gu_store g)) (gu_template_id g) (ur_sha256 rt ?data))
       (''gs://'' @ ur_bucket rt @ ''/'' @ key) now dc (Some (gu_store_code g))) s4 = (Inr ev, s5)"
      "announce_upload rt i ip t tr t0 g ev s5 = (r, s')"
    have q: "silent s s3" using a(1-3) by (rule prepared_quiet)
    have "announced_as rt t tr g key ev" using a(3,5) by (auto simp: elift_def announced_as_def)
    with announce_outcome [OF a(6)] put_outcome(2) [OF a(4)] q a(5) show ?thesis
      by (auto simp: elift_def silent_def only_audit_def split: sum.splits)
  qed
qed

section \<open>Addresses\<close>

text \<open>\<open>^[a-z0-9_]{1,128}$\<close>, what a template may name as its source.\<close>

definition plain_source :: "string \<Rightarrow> bool" where
  "plain_source src \<longleftrightarrow> src \<noteq> [] \<and> length src \<le> 128 \<and> list_all (\<lambda>c. session_char c \<or> c = CHR ''_'') src"

lemma plain_source_chars:
  assumes "plain_source src"
  shows "py_strip src = src" "CHR ''/'' \<notin> set src" "CHR 0x0A \<notin> set src"
proof -
  have ch: "session_char c \<or> c = CHR ''_''" if "c \<in> set src" for c using assms that by (auto simp: plain_source_def list_all_iff)
  have sp: "\<not> is_space c" if "session_char c \<or> c = CHR ''_''" for c using that by (auto simp: session_char_def is_space_def Let_def)
  have "src \<noteq> []" using assms by (simp add: plain_source_def)
  then show "py_strip src = src" using ch sp by (intro py_strip_id) auto
  show "CHR ''/'' \<notin> set src" using ch [of "CHR ''/''"] by (auto simp: session_char_def)
  show "CHR 0x0A \<notin> set src" using ch [of "CHR 0x0A"] by (auto simp: session_char_def)
qed

lemma digits_no_newline: "CHR 0x0A \<notin> set (dec_digits k n)"
  using dec_digits_digit [of "CHR 0x0A" k n] by (auto simp: is_digit_def)

lemma bucket_no_slash: "list_all is_bucket_char b \<Longrightarrow> takeWhile (\<lambda>c. c \<noteq> CHR ''/'') (b @ CHR ''/'' # key) = b"
proof -
  assume "list_all is_bucket_char b"
  then have "\<forall>c \<in> set b. c \<noteq> CHR ''/''" by (auto simp: list_all_iff is_bucket_char_def Let_def)
  then show ?thesis by (induction b) auto
qed

lemma built_address:
  assumes b: "build_object_path (uuid_str t) src (uuid_str tr) now ''csv'' = Inr key" and src: "plain_source src"
    and bucket: "list_all is_bucket_char bk" "bk \<noteq> []"
  shows "split_object_uri (''gs://'' @ bk @ ''/'' @ key) = Inr (bk, key)"
    and "\<exists>parsed. parse_object_path key = Inr parsed \<and> pop_tenant_id parsed = t \<and> pop_source_id parsed = src \<and>
      pop_trace_id parsed = uuid_str tr \<and> pop_ext parsed = ''csv''"
proof -
  have csv: "py_strip ''csv'' = ''csv''" "py_lstrip_char (CHR ''.'') ''csv'' = ''csv''" by code_simp+
  note strips = csv strip_uuid_str plain_source_chars(1) [OF src]
  show "\<exists>parsed. parse_object_path key = Inr parsed \<and> pop_tenant_id parsed = t \<and> pop_source_id parsed = src \<and>
      pop_trace_id parsed = uuid_str tr \<and> pop_ext parsed = ''csv''"
    using parse_built_path [OF b] plain_source_chars(2) [OF src] no_slash_uuid by (auto simp: strips uuid_of_str)
  from b obtain u ts where key: "key = ''tenant/'' @ uuid_str u @ ''/source/'' @ src @ ''/yyyy='' @ dec_digits 4 (nat (dt_year ts)) @
      ''/mm='' @ dec_digits 2 (dt_month ts) @ ''/dd='' @ dec_digits 2 (nat (dt_day ts)) @ ''/'' @ uuid_str tr @ ''.csv''"
    by (rule build_object_path_shape) (auto simp: strips)
  have "CHR 0x0A \<notin> set (uuid_str v)" for v
    using uuid_str_chars [of "CHR 0x0A" v] is_hexl_neq(10) [of "CHR 0x0A"] by (auto simp: is_space_def)
  then have nl: "CHR 0x0A \<notin> set key" unfolding key using digits_no_newline plain_source_chars(3) [OF src] by auto
  let ?uri = "''gs://'' @ bk @ ''/'' @ key"
  have "last ?uri = CHR ''v''" unfolding key by simp
  then have strip: "py_strip ?uri = ?uri" by (intro py_strip_id) (auto simp: is_space_def)
  have "drop 5 ?uri = bk @ CHR ''/'' # key" by simp
  then show "split_object_uri ?uri = Inr (bk, key)"
    unfolding split_object_uri_def Let_def strip using bucket nl bucket_no_slash [OF bucket(1), of key] by (simp add: key)
qed

section \<open>The request\<close>

definition upload_left ::
  "upload_runtime \<Rightarrow> upload_request \<Rightarrow> identity \<Rightarrow> uploads \<Rightarrow> (exn, csv_upload_result) result \<Rightarrow> uploads \<Rightarrow> bool" where
  "upload_left rt req i s r s' \<longleftrightarrow> only_audit s s' \<and> (case r of
      Inl e \<Rightarrow> uw_published s' = uw_published s \<and> (uw_objects s' = uw_objects s \<or> (\<exists>key data. uw_objects s' = uw_objects s @ [(key, data)]))
    | Inr res \<Rightarrow> \<exists>t tr g key ev pg pg'. tenant_uuid_of i = Inr t \<and> upload_gates rt req t tr pg = (Inr g, pg') \<and> pg_tables pg = pg_tables (uw_pg s) \<and>
      announced_as rt t tr g key ev \<and> uw_objects s' = uw_objects s @ [(key, pu_file_bytes (gu_parsed g))] \<and>
      uw_published s' = uw_published s @ [(ur_topic rt, ev)] \<and> cr_template_id res = gu_template_id g)"

lemma upload_outcome:
  assumes "upload_csv rt req ip i s = (r, s')"
  shows "upload_left rt req i s r s'"
proof -
  have early: "upload_left rt req i s (Inl e) s" for e by (simp add: upload_left_def only_audit_def)
  show ?thesis
  proof (cases "require_tenant i")
    case (Inl e)
    then show ?thesis using assms early by (auto simp: upload_csv_def ebind_def elift_def)
  next
    case (Inr i')
    then have i': "i' = i" by (simp add: require_tenant_def split: if_splits)
    show ?thesis
    proof (cases "tenant_uuid_of i")
      case (Inl e)
      then show ?thesis using assms early Inr i' by (auto simp: upload_csv_def ebind_def elift_def)
    next
      case t: (Inr t)
      let ?tr = "ur_new_trace rt (uw_ticks s)" and ?t0 = "ur_mono rt (Suc (uw_ticks s))" and ?s = "s\<lparr>uw_ticks := Suc (Suc (uw_ticks s))\<rparr>"
      obtain q pg where gates: "upload_gates rt req t ?tr (uw_pg s) = (q, pg)" by (cases "upload_gates rt req t ?tr (uw_pg s)")
      have run: "(case q of Inl failure \<Rightarrow> rejected rt i ip t ?tr ?t0 failure (?s\<lparr>uw_pg := pg\<rparr>)
          | Inr g \<Rightarrow> store_upload rt i ip t ?tr ?t0 g (?s\<lparr>uw_pg := pg\<rparr>)) = (r, s')"
        using assms by (auto simp: upload_csv_def ebind_def elift_def Inr i' t unew_trace_def process_upload_def umono_def gates split: sum.splits)
      have tabs: "pg_tables pg = pg_tables (uw_pg s)" using upload_gates_read(1) [OF gates] .
      show ?thesis
      proof (cases q)
        case (Inl failure)
        with run rejected_quiet [of rt i ip t ?tr ?t0 "fst failure" "snd failure" "?s\<lparr>uw_pg := pg\<rparr>" r s'] tabs show ?thesis
          by (auto simp: silent_def only_audit_def upload_left_def)
      next
        case g: (Inr g)
        with run have "store_upload rt i ip t ?tr ?t0 g (?s\<lparr>uw_pg := pg\<rparr>) = (r, s')" by simp
        from store_outcome [OF this] tabs g t gates show ?thesis
          by (cases r) (auto simp: only_audit_def upload_left_def, blast+)
      qed
    qed
  qed
qed

text \<open>C26: An upload that is answered with an error announces nothing and changes no table but the audit
  trail; at most it leaves the object it had written, which no message names.\<close>

theorem refused_upload_announces_nothing:
  assumes "upload_csv rt req ip i s = (Inl e, s')"
  shows "uw_published s' = uw_published s \<and> (\<forall>T. T \<noteq> ''audit.events'' \<longrightarrow> pg_tables (uw_pg s') T = pg_tables (uw_pg s) T) \<and>
    (uw_objects s' = uw_objects s \<or> (\<exists>key data. uw_objects s' = uw_objects s @ [(key, data)]))"
  using upload_outcome [OF assms] by (auto simp: upload_left_def only_audit_def)

text \<open>C25: What an accepted upload announces the ingest worker can take and the consumer can map: exactly one
  message is sent, it names the tenant of the token and a store of it that is ACTIVE, its
  address passes the worker's check and leads to exactly the bytes of the file, and its source
  and template have an ACTIVE mapping, when sources are named as templates may name them and
  the object store returns what was last written.\<close>

theorem accepted_upload_ingestable:
  assumes "upload_csv rt req ip i s = (Inr res, s')"
    and "list_all is_bucket_char (ur_bucket rt)" "ur_bucket rt \<noteq> []" and "wr_bronze_bucket wrt = ur_bucket rt"
    and "\<And>key data. map_of (rev (uw_objects s')) key = Some data \<Longrightarrow> wr_download wrt key = Inr data"
    and "\<And>r. r \<in> set (pg_tables (uw_pg s) CSM) \<Longrightarrow> \<exists>src. pget r ''source_id'' = PyStr src \<and> plain_source src"
  shows "\<exists>ev key parsed store. uw_published s' = uw_published s @ [(ur_topic rt, ev)] \<and> tenant_uuid_of i = Inr (ce_tenant_id ev) \<and>
    read_csv_upload (ur_multipart rt) req CSV_UPLOAD_MAX_FILE_BYTES CSV_UPLOAD_BODY_CEILING_BYTES = Inr parsed \<and>
    worker_cross_check wrt ev w = (Inr key, w) \<and> wr_download wrt key = Inr (pu_file_bytes parsed) \<and>
    store \<in> set (pg_tables (uw_pg s) STORES) \<and> pget store ''tenant_id'' = PyUuid (ce_tenant_id ev) \<and> store_uuid store = ce_store_id ev \<and>
    status_of store = ''ACTIVE'' \<and> upload_session_pattern (ce_upload_session_id ev) \<and>
    live_rows (tenant_scope (ce_tenant_id ev)) (ce_tenant_id ev) (ce_source_id ev) (ce_template_id ev) (pg_tables (uw_pg s)) \<noteq> []"
proof -
  from upload_outcome [OF assms(1)] obtain t tr g key ev pg pg' where t: "tenant_uuid_of i = Inr t"
    and gates: "upload_gates rt req t tr pg = (Inr g, pg')" and tabs: "pg_tables pg = pg_tables (uw_pg s)" and an: "announced_as rt t tr g key ev"
    and obj: "uw_objects s' = uw_objects s @ [(key, pu_file_bytes (gu_parsed g))]" and pub: "uw_published s' = uw_published s @ [(ur_topic rt, ev)]"
    by (auto simp: upload_left_def)
  note got = upload_gates_read(2) [OF gates refl, unfolded tabs]
  from got obtain x where x: "x \<in> set (pg_tables (uw_pg s) CSM)" "pget x ''tenant_id'' = PyUuid t" "pget x ''template_id'' = PyUuid (gu_template_id g)"
    "status_of x = ''ACTIVE''" "gu_source_id g = py_str (pget x ''source_id'')" by blast
  obtain src where src: "pget x ''source_id'' = PyStr src" "plain_source src" using assms(6) [OF x(1)] by blast
  then have gs: "gu_source_id g = src" using x(5) by simp
  from an obtain now where path: "build_object_path (uuid_str t) src (uuid_str tr) now ''csv'' = Inr key"
    and ev: "ce_trace_id ev = tr" "ce_tenant_id ev = t" "ce_store_id ev = store_uuid (gu_store g)" "ce_source_id ev = src" "ce_template_id ev = gu_template_id g"
      "ce_gcs_uri ev = ''gs://'' @ ur_bucket rt @ ''/'' @ key" "upload_session_pattern (ce_upload_session_id ev)"
    by (auto simp: announced_as_def build_csv_received_def result_simps gs split: if_splits)
  note addr = built_address [OF path src(2) assms(2,3)]
  have "worker_cross_check wrt ev w = (Inr key, w)"
    using addr by (auto simp: worker_cross_check_def ebind_def elift_def ereturn_def path_checks_def ev assms(4))
  moreover have "wr_download wrt key = Inr (pu_file_bytes (gu_parsed g))" by (rule assms(5)) (simp add: obj)
  moreover have "x \<in> set (live_rows (tenant_scope t) t src (gu_template_id g) (pg_tables (uw_pg s)))" using x src by (simp add: set_live_rows)
  ultimately show ?thesis using got pub t ev by (intro exI [of _ ev] exI [of _ key] exI [of _ "gu_parsed g"] exI [of _ "gu_store g"]) auto
qed

text \<open>The parser itself refuses the body: at some chunk within the ceiling, after the chunks before it and
  the callbacks it made were taken, or when it is told that the stream has ended.\<close>

definition parser_refuses :: "multipart \<Rightarrow> nat \<Rightarrow> nat \<Rightarrow> string \<Rightarrow> string list \<Rightarrow> exn \<Rightarrow> bool" where
  "parser_refuses mp max_file ceiling boundary chunks e \<longleftrightarrow>
     (\<exists>before c rest co past co'. chunks = before @ c # rest \<and> c \<noteq> [] \<and> sum_list (map length (before @ [c])) \<le> ceiling \<and>
        read_chunks mp max_file ceiling boundary 0 [] before collector_start = Inr (co, past) \<and>
        on_events mp max_file (fst (mp_write mp boundary past c)) co = Inr co' \<and> snd (mp_write mp boundary past c) = Some e) \<or>
     (\<exists>co past co'. read_chunks mp max_file ceiling boundary 0 [] chunks collector_start = Inr (co, past) \<and>
        on_events mp max_file (fst (mp_finalize mp boundary past)) co = Inr co' \<and> snd (mp_finalize mp boundary past) = Some e)"

lemma read_chunks_append:
  "read_chunks mp max_file ceiling boundary seen past (before @ rest) co =
   rbind (read_chunks mp max_file ceiling boundary seen past before co) (\<lambda>(co', past').
     read_chunks mp max_file ceiling boundary (seen + sum_list (map length before)) past' rest co')"
proof (induction before arbitrary: seen past co)
  case (Cons c before)
  then show ?case by (cases "parser_call mp max_file (mp_write mp boundary past c) co") (simp_all add: add.assoc)
qed simp

lemma parser_refuses_read:
  assumes "parser_refuses mp max_file ceiling boundary (up_chunks req) e"
  shows "read_body mp req max_file ceiling boundary = Inl e"
  using assms unfolding parser_refuses_def
  by (elim disjE exE conjE) (simp_all add: read_body_def read_chunks_append parser_call_def)

text \<open>C28: A body that the multipart parser itself refuses, at any chunk or at the end, is answered as a
  server error and leaves no audit event: the parser's exception is none of DIS's, so neither the gates' handler nor the reader
  turns it into the malformed-request error, and the request ends with it. The declared length, if
  the request has a numeric one, is within the ceiling.\<close>

theorem malformed_multipart_unaudited:
  assumes "mp_options (ur_multipart rt) (dget (up_headers req) ''content-type'') = (''multipart/form-data'', params)"
    and "dget params ''boundary'' = Some boundary"
    and "\<And>d. dget (up_headers req) ''content-length'' = Some d \<Longrightarrow>
      \<exists>n. declared_length d = Inr n \<and> (\<forall>k. n = Some k \<longrightarrow> k \<le> CSV_UPLOAD_BODY_CEILING_BYTES)"
    and "parser_refuses (ur_multipart rt) CSV_UPLOAD_MAX_FILE_BYTES CSV_UPLOAD_BODY_CEILING_BYTES boundary (up_chunks req) e"
    and "exn_class e = PyForeign name"
    and "id_tenant_id i = Some x" "uuid_of x = Some t"
  shows "fst (upload_csv rt req ip i s) = Inl e \<and> status_for e = 500 \<and> uw_pg (snd (upload_csv rt req ip i s)) = uw_pg s"
proof -
  have "read_csv_upload (ur_multipart rt) req CSV_UPLOAD_MAX_FILE_BYTES CSV_UPLOAD_BODY_CEILING_BYTES = Inl e"
    using assms(3) parser_refuses_read [OF assms(4)]
    by (cases "dget (up_headers req) ''content-length''") (auto simp: read_csv_upload_def assms(1,2) split: option.splits)
  then have gates: "upload_gates rt req t tr pg = (Inl (''upload'', e), pg)" for tr pg by (simp add: upload_gates_def)
  have "\<not> isinstance e DisError" "status_for e = 500"
    using assms(5) by (simp_all add: isinstance_def is_instance_def status_for_def STATUS_BY_ERROR_def dget_def numeral_eq_Suc)
  then show ?thesis
    by (simp add: upload_csv_def ebind_def elift_def require_tenant_def tenant_uuid_of_def assms(6,7) unew_trace_def process_upload_def umono_def
        gates rejected_def eraise_def)
qed

end
