(* ===== verification/Template_Examples.thy ===== *)
theory Template_Examples
  imports Template_Service
begin

text \<open>Concrete requests on templates, at which the laws of the template service are applied.\<close>

definition demo_scope :: write_scope where
  "demo_scope = \<lparr>ws_user_type = TENANT, ws_token_tenant = Some 5, ws_has_ops = False\<rparr>"

definition demo_column :: "string \<Rightarrow> string \<Rightarrow> mapping_column" where
  "demo_column src dest = \<lparr>mc_src_key = src, mc_dest_key = dest, mc_src_datetime_format = None, mc_src_decimal_separator = None,
     mc_src_thousand_separator = None, mc_src_is_percentage = None\<rparr>"

definition demo_request :: template_create where
  "demo_request = \<lparr>tc_source_id = ''pos'', tc_template_name = ''n'', tc_template_type = SNAPSHOT,
     tc_columns = [demo_column ''sku'' ''sku_id'', demo_column ''name'' ''product_name'', demo_column ''price'' ''current_retail_price''],
     tc_acting_for_tenant_id = None\<rparr>"

definition demo_patch :: template_patch where
  "demo_patch = \<lparr>tp_template_name = None, tp_mapping_rules = Some PyNone, tp_acting_for_tenant_id = None\<rparr>"

lemma demo_acts: "resolve_acted_for demo_scope (tc_acting_for_tenant_id demo_request) = Inr 5"
  "resolve_acted_for demo_scope (tp_acting_for_tenant_id demo_patch) = Inr 5"
  by code_simp+

lemma demo_gated: "gated_rules (\<lambda>_. Some snapshot_rules) 5 demo_request = Inr snapshot_rules"
proof -
  have "is_ok (translate_columns_to_mapping_rules demo_request (uuid_str 5))" by code_simp
  then obtain raw where "translate_columns_to_mapping_rules demo_request (uuid_str 5) = Inr raw" by (auto simp: is_ok_iff)
  moreover have "require_template_type SNAPSHOT (uuid_str 5) = Inr ()" by code_simp
  ultimately show ?thesis using snapshot_rules_accepted by (simp add: gated_rules_def) (simp add: demo_request_def snapshot_rules_accepted)
qed

definition demo_live :: payload where
  "demo_live = [(''mapping_version_id'', PyInt 7), (''tenant_id'', PyUuid 5), (''source_id'', PyStr ''pos''), (''template_id'', PyUuid 5),
     (''template_name'', PyStr ''n''), (''template_type'', PyStr SNAPSHOT), (''status'', PyStr ''ACTIVE''), (''activated_at'', PyDt demo_ts),
     (''mapping_rules'', PyNone), (''version_seq_per_source'', PyInt 1)]"

definition demo_templates :: pgstate where
  "demo_templates = demo_state\<lparr>pg_tables := (\<lambda>table. if table = CSM then [demo_live] else [])\<rparr>"

definition demo_edited :: pgstate where
  "demo_edited = snd (patch_mapping_template demo_env (\<lambda>_. Some snapshot_rules) (\<lambda>_. PyNone) 8 demo_identity demo_scope 5 demo_patch demo_templates)"

lemma template_run: "length (pg_tables demo_edited CSM) = 2" "map status_of (pg_tables demo_edited CSM) = [''ACTIVE'', ''DRAFT'']"
  by code_simp+

definition demo_owned :: "payload list \<Rightarrow> bool" where
  "demo_owned rows \<longleftrightarrow> list_all (\<lambda>r. pget r ''tenant_id'' = PyUuid 5 \<and> pget r ''source_id'' = PyStr ''pos'' \<and> pget r ''template_id'' = PyUuid 5) rows"

lemma demo_edited_owned: "demo_owned (pg_tables demo_edited CSM)"
  by code_simp

lemma demo_owned_nth:
  assumes "demo_owned rows" and "i < length rows"
  shows "pget (rows ! i) ''tenant_id'' = PyUuid 5" "pget (rows ! i) ''source_id'' = PyStr ''pos''" "pget (rows ! i) ''template_id'' = PyUuid 5"
  using assms by (auto simp: demo_owned_def list_all_length)

lemma demo_step: "(template_request demo_env (\<lambda>_. Some snapshot_rules) (\<lambda>_. PyNone))\<^sup>*\<^sup>* demo_templates demo_edited"
  unfolding demo_edited_def by (rule r_into_rtranclp, rule template_request.patched)

lemma demo_templates_ok: "templates_ok (pg_tables demo_templates CSM)"
  by code_simp

lemma demo_posture: "check_posture (pg_posture demo_env) = Inr ()"
  by code_simp

lemma demo_defaults: "dget (pg_defaults demo_env CSM) c = None"
  by (simp add: demo_env_def dget_def)

theorem template_table_invariant_witness:
  "seq_of (pg_tables demo_edited CSM ! 0) \<noteq> seq_of (pg_tables demo_edited CSM ! 1)"
proof -
  have order: "(0::nat) < 1" "1 < length (pg_tables demo_edited CSM)" using template_run(1) by simp_all
  have first: "0 < length (pg_tables demo_edited CSM)" using template_run(1) by simp
  note own = demo_owned_nth [OF demo_edited_owned first] demo_owned_nth [OF demo_edited_owned order(2)]
  show ?thesis
    using template_table_invariant [OF demo_step demo_defaults demo_templates_ok order refl refl] own by metis
qed

theorem published_version_immutable_witness:
  "pget (pg_tables demo_edited CSM ! 0) ''mapping_rules'' = pget demo_live ''mapping_rules''"
proof -
  have "status_of (pg_tables demo_templates CSM ! 0) \<noteq> ''DRAFT''" "length (pg_tables demo_templates CSM) = 1" "pg_tables demo_templates CSM ! 0 = demo_live"
    by code_simp+
  then show ?thesis
    using published_version_immutable [OF demo_step demo_defaults demo_templates_ok, of 0 "''mapping_rules''"] by simp
qed

definition demo_created :: pgstate where
  "demo_created = snd (create_mapping_template demo_env (\<lambda>_. Some snapshot_rules) (\<lambda>_. PyNone) 5 7 demo_ts demo_identity demo_scope demo_request demo_state)"

lemma demo_create_step: "(template_request demo_env (\<lambda>_. Some snapshot_rules) (\<lambda>_. PyNone))\<^sup>*\<^sup>* demo_state demo_created"
  unfolding demo_created_def by (rule r_into_rtranclp, rule template_request.created)

lemma demo_created_length: "length (pg_tables demo_created CSM) = 1"
  by code_simp

lemma demo_opens: "opens demo_env t s"
  using demo_posture by (simp add: opens_def rls_session_def verified_transaction_def demo_env_def)

theorem version_numbers_bounded_witness:
  "seq_of ` set (pg_tables demo_created CSM) = {1..1}"
proof -
  let ?rows = "pg_tables demo_created CSM"
  note len = demo_created_length
  have one: "filter (same_lineage (?rows ! 0)) ?rows = ?rows" using len by (cases ?rows) auto
  have empty: "pg_tables demo_state CSM = []" by (simp add: demo_state_def)
  have "?rows ! 0 \<in> set ?rows" unfolding len by (rule nth_mem) (simp only: len zero_less_one)
  from version_numbers_bounded [OF demo_create_step demo_defaults empty this refl] show ?thesis
    unfolding one len by simp
qed

theorem created_template_runs_witness:
  "\<exists>l. load_active_mapping (select_live_mapping demo_env demo_created) (\<lambda>_. Some snapshot_rules) demo_event = Inr l \<and> lm_source l = snapshot_rules"
proof -
  let ?run = "create_mapping_template demo_env (\<lambda>_. Some snapshot_rules) (\<lambda>_. PyNone) 5 7 demo_ts demo_identity demo_scope demo_request demo_state"
  have rd: "gated_rules (\<lambda>_. Some snapshot_rules) 5 demo_request = Inr source \<Longrightarrow> Some snapshot_rules = Some source" for source
    unfolding demo_gated by simp
  have ev: "ie_tenant_id demo_event = 5" "ie_source_id demo_event = tc_source_id demo_request" "ie_template_id demo_event = 5"
    by (simp_all add: demo_event_def demo_request_def)
  note run = created_template_runs [OF demo_acts(1) rd demo_defaults demo_defaults ev,
    where dp = "\<lambda>_. PyNone" and serial = 7 and now = demo_ts and idn = demo_identity and s = demo_state]
  have "length (pg_tables (snd ?run) CSM) \<noteq> length (pg_tables demo_state CSM)"
    using demo_created_length unfolding demo_created_def by (simp add: demo_state_def)
  then obtain d where "?run = (Inr d, demo_created)"
    using run by (cases ?run) (auto simp: demo_created_def split: sum.splits)
  then show ?thesis using run demo_gated demo_opens by auto
qed

lemma demo_loads:
  "load_active_mapping (select_live_mapping demo_env demo_templates) (\<lambda>_. Some snapshot_rules) demo_event =
     Inr \<lparr>lm_mapping_version_id = 7, lm_source = snapshot_rules, lm_target_model = StoreSkuCurrentPosition, lm_hot_complete = True\<rparr>"
  by code_simp

theorem live_mapping_stable_witness:
  "load_active_mapping (select_live_mapping demo_env demo_edited) (\<lambda>_. Some snapshot_rules) demo_event =
     Inr \<lparr>lm_mapping_version_id = 7, lm_source = snapshot_rules, lm_target_model = StoreSkuCurrentPosition, lm_hot_complete = True\<rparr>"
  by (rule live_mapping_stable [OF demo_loads demo_step demo_defaults demo_templates_ok demo_opens])

definition tenant_identity :: identity where
  "tenant_identity = \<lparr>id_user_id = ''u'', id_tenant_id = Some (uuid_str 9), id_store_id = None, id_roles = [], id_user_type = TENANT\<rparr>"

theorem tenant_reads_only_own_witness:
  "fst (get_mapping_template demo_env (\<lambda>_. Some snapshot_rules) \<lparr>rs_is_platform = False, rs_tenant_id = Some 9\<rparr> 5 demo_templates) =
   fst (get_mapping_template demo_env (\<lambda>_. Some snapshot_rules) \<lparr>rs_is_platform = False, rs_tenant_id = Some 9\<rparr> 5 demo_state)"
proof -
  have scope: "require_read_scope tenant_identity = Inr \<lparr>rs_is_platform = False, rs_tenant_id = Some 9\<rparr>" by code_simp
  have type: "id_user_type tenant_identity = TENANT" by (simp add: tenant_identity_def)
  have "same_for 9 demo_templates demo_state" by code_simp
  with tenant_reads_only_own [OF scope type] show ?thesis by simp
qed

end
