(* ===== verification/Quarantine.thy ===== *)
theory Quarantine
  imports Audit_Log
begin

text \<open>
  \<open>libs/dis-quarantine\<close>: the failure-stage vocabulary, the two held records and the fail-loud
  writer. A hold either lands its rows in one tenant-scoped transaction or raises.
\<close>

section \<open>Failure stages\<close>

datatype failure_stage = PRE_INGEST_PII | BRONZE_WRITE | MAPPING_LOOKUP | IDENTITY_VALIDATION
  | PRE_MAPPING_VALIDATION | MAPPING_EXECUTION | POST_MAPPING_VALIDATION | CANONICAL_WRITE | OTHER

fun failure_stage_value :: "failure_stage \<Rightarrow> string" where
  "failure_stage_value PRE_INGEST_PII = ''PRE_INGEST_PII''"
| "failure_stage_value BRONZE_WRITE = ''BRONZE_WRITE''"
| "failure_stage_value MAPPING_LOOKUP = ''MAPPING_LOOKUP''"
| "failure_stage_value IDENTITY_VALIDATION = ''IDENTITY_VALIDATION''"
| "failure_stage_value PRE_MAPPING_VALIDATION = ''PRE_MAPPING_VALIDATION''"
| "failure_stage_value MAPPING_EXECUTION = ''MAPPING_EXECUTION''"
| "failure_stage_value POST_MAPPING_VALIDATION = ''POST_MAPPING_VALIDATION''"
| "failure_stage_value CANONICAL_WRITE = ''CANONICAL_WRITE''"
| "failure_stage_value OTHER = ''OTHER''"

definition ROW_FAILURE_STAGES :: "failure_stage list" where
  "ROW_FAILURE_STAGES = [PRE_MAPPING_VALIDATION, MAPPING_EXECUTION, POST_MAPPING_VALIDATION, IDENTITY_VALIDATION,
     CANONICAL_WRITE, OTHER]"

fun failure_stage_for :: "stage \<Rightarrow> failure_stage" where
  "failure_stage_for RECEIVED = OTHER"
| "failure_stage_for PII_TOKENIZED = PRE_INGEST_PII"
| "failure_stage_for BRONZE_WRITTEN = BRONZE_WRITE"
| "failure_stage_for INGRESS_PUBLISHED = OTHER"
| "failure_stage_for MAPPING_LOOKED_UP = MAPPING_LOOKUP"
| "failure_stage_for IDENTITY_VALIDATED = IDENTITY_VALIDATION"
| "failure_stage_for PRE_MAPPING_VALIDATED = PRE_MAPPING_VALIDATION"
| "failure_stage_for MAPPING_EXECUTED = MAPPING_EXECUTION"
| "failure_stage_for POST_MAPPING_VALIDATED = POST_MAPPING_VALIDATION"
| "failure_stage_for CANONICAL_WRITTEN = CANONICAL_WRITE"
| "failure_stage_for QUARANTINED = OTHER"
| "failure_stage_for SIGNAL_COMPUTED = OTHER"

section \<open>Records\<close>

definition DIS_CHANNELS :: "string list" where
  "DIS_CHANNELS = [''csv_upload'', ''api'', ''csv_erp'', ''reverse_api'']"

record quarantine_record =
  qr_tenant_id :: uuid
  qr_store_id :: "uuid option"
  qr_data_ingress_event_id :: uuid
  qr_trace_id :: uuid
  qr_source_id :: string
  qr_dis_channel :: string
  qr_gcs_uri :: string
  qr_failure_stage :: failure_stage
  qr_failure_reason :: string
  qr_failure_context :: "payload option"
  qr_quarantined_at :: pydatetime

record quarantined_chunk = quarantine_record +
  qc_mapping_version_id :: "int option"
  qc_row_count_in_chunk :: "int option"

record quarantined_row = quarantine_record +
  qw_row_offset :: int
  qw_row_sha256 :: "string option"
  qw_mapping_version_id :: int

definition between :: "nat \<Rightarrow> nat \<Rightarrow> string \<Rightarrow> bool" where
  "between lo hi s \<longleftrightarrow> lo \<le> length s \<and> length s \<le> hi"

definition base_ok :: "'a quarantine_record_scheme \<Rightarrow> bool" where
  "base_ok r \<longleftrightarrow> between 1 128 (qr_source_id r) \<and> length (qr_dis_channel r) \<le> 32 \<and> between 1 1024 (qr_gcs_uri r) \<and>
     between 1 256 (qr_failure_reason r) \<and> qr_dis_channel r \<in> set DIS_CHANNELS"

definition validation_error :: exn where
  "validation_error = py_exn (PyForeign ''ValidationError'')"

text \<open>Construction of the two frozen models.\<close>

definition validate_chunk :: "quarantined_chunk \<Rightarrow> (exn, quarantined_chunk) result" where
  "validate_chunk r =
     rbind (ensure_utc (qr_quarantined_at r)) (\<lambda>ts.
     if base_ok r \<and> non_neg (qc_row_count_in_chunk r) then Inr (r\<lparr>qr_quarantined_at := ts\<rparr>)
     else Inl validation_error)"

definition validate_row :: "quarantined_row \<Rightarrow> (exn, quarantined_row) result" where
  "validate_row r =
     rbind (ensure_utc (qr_quarantined_at r)) (\<lambda>ts.
     if base_ok r \<and> 0 \<le> qw_row_offset r \<and>
        (case qw_row_sha256 r of None \<Rightarrow> True | Some s \<Rightarrow> length s = 64) \<and>
        qr_failure_stage r \<in> set ROW_FAILURE_STAGES
     then Inr (r\<lparr>qr_quarantined_at := ts\<rparr>) else Inl validation_error)"

definition base_insert_params :: "(pyval \<Rightarrow> string) \<Rightarrow> 'a quarantine_record_scheme \<Rightarrow> payload" where
  "base_insert_params dumps r =
    [(''tenant_id'', PyUuid (qr_tenant_id r)), (''store_id'', opt_val PyUuid (qr_store_id r)),
     (''data_ingress_event_id'', PyUuid (qr_data_ingress_event_id r)), (''trace_id'', PyUuid (qr_trace_id r)),
     (''source_id'', PyStr (qr_source_id r)), (''dis_channel'', PyStr (qr_dis_channel r)), (''gcs_uri'', PyStr (qr_gcs_uri r)),
     (''failure_stage'', PyStr (failure_stage_value (qr_failure_stage r))), (''failure_reason'', PyStr (qr_failure_reason r)),
     (''failure_context'', opt_val (\<lambda>d. PyStr (dumps (PyDict d))) (qr_failure_context r)),
     (''quarantined_at'', PyDt (qr_quarantined_at r))]"

definition chunk_insert_params :: "(pyval \<Rightarrow> string) \<Rightarrow> quarantined_chunk \<Rightarrow> payload" where
  "chunk_insert_params dumps r = base_insert_params dumps r @
     [(''mapping_version_id'', opt_val PyInt (qc_mapping_version_id r)),
      (''row_count_in_chunk'', opt_val PyInt (qc_row_count_in_chunk r))]"

definition row_insert_params :: "(pyval \<Rightarrow> string) \<Rightarrow> quarantined_row \<Rightarrow> payload" where
  "row_insert_params dumps r = base_insert_params dumps r @
     [(''row_offset'', PyInt (qw_row_offset r)), (''row_sha256'', opt_val PyStr (qw_row_sha256 r)),
      (''mapping_version_id'', PyInt (qw_mapping_version_id r))]"

section \<open>The writer\<close>

abbreviation QCHUNKS :: string where "QCHUNKS \<equiv> ''quarantine.quarantined_chunks''"
abbreviation QROWS :: string where "QROWS \<equiv> ''quarantine.quarantined_rows''"

text \<open>The statements cast the context to JSONB.\<close>

definition cast_context :: "pgenv \<Rightarrow> payload \<Rightarrow> payload" where
  "cast_context env = map (\<lambda>(c, v). (c, if c = ''failure_context'' then pg_jsonb env v else v))"

definition hold_chunk :: "pgenv \<Rightarrow> (pyval \<Rightarrow> string) \<Rightarrow> quarantined_chunk \<Rightarrow> pgstate \<Rightarrow> (exn, unit) result \<times> pgstate" where
  "hold_chunk env dumps r s =
    (case rls_session env (qr_tenant_id r) (\<lambda>g tabs.
            rbind (sql_insert env g QCHUNKS (cast_context env (chunk_insert_params dumps r)) tabs) (\<lambda>tabs'. Inr ((), tabs'))) s of
       (Inl e, s') \<Rightarrow> (Inl (quarantine_write_error (Some (uuid_str (qr_tenant_id r))) (Some (uuid_str (qr_trace_id r)))
           (Some (qr_failure_reason r))), s')
     | (Inr _, s') \<Rightarrow> (Inr (), s'))"

definition hold_rows :: "pgenv \<Rightarrow> (pyval \<Rightarrow> string) \<Rightarrow> quarantined_row list \<Rightarrow> pgstate \<Rightarrow> (exn, unit) result \<times> pgstate" where
  "hold_rows env dumps records s = (case records of
     [] \<Rightarrow> (Inl (quarantine_write_error None None None), s)
   | first # _ \<Rightarrow>
       if 1 < length (remdups (map qr_tenant_id records))
       then (Inl (quarantine_write_error None (Some (uuid_str (qr_trace_id first))) None), s)
       else (case rls_session env (qr_tenant_id first) (\<lambda>g tabs.
                    rbind (sql_insert_many env g QROWS (map (\<lambda>r. cast_context env (row_insert_params dumps r)) records) tabs)
                      (\<lambda>tabs'. Inr ((), tabs'))) s of
               (Inl e, s') \<Rightarrow>
                 if isinstance e QuarantineWriteError then (Inl e, s')
                 else (Inl (quarantine_write_error (Some (uuid_str (qr_tenant_id first))) (Some (uuid_str (qr_trace_id first)))
                         (Some (qr_failure_reason first))), s')
             | (Inr _, s') \<Rightarrow> (Inr (), s')))"

section \<open>Properties\<close>

lemma dkeys_cast_context [simp]: "map fst (cast_context env p) = map fst p"
  by (induction p) (auto simp: cast_context_def)

lemma chunk_params_distinct: "distinct (dkeys (chunk_insert_params dumps r))"
  by (simp add: chunk_insert_params_def base_insert_params_def)

lemma session_insert_Inr:
  assumes "rls_session env t (\<lambda>g tabs. rbind (f g tabs) (\<lambda>tabs'. Inr ((), tabs'))) s = (Inr u, s')"
  shows "f (tenant_scope t) (pg_tables s) = Inr (pg_tables s')"
  using assms unfolding rls_session_def by (auto simp: result_simps dest!: verified_transaction_Inr)

lemma session_insert_Inl:
  "rls_session env t body s = (Inl e, s') \<Longrightarrow> pg_tables s' = pg_tables s"
  unfolding rls_session_def by (rule verified_transaction_Inl)

text \<open>Held or raised, never lost: a chunk hold that returns has appended exactly the record to the
  quarantine table and changed nothing else; one that does not return raises
  QuarantineWriteError and leaves every table as it was.\<close>

theorem hold_chunk_held_or_raised:
  "case hold_chunk env dumps r s of
     (Inr _, s') \<Rightarrow> pg_tables s' = (pg_tables s)(QCHUNKS := pg_tables s QCHUNKS @
        [dupdate (pg_defaults env QCHUNKS) (cast_context env (chunk_insert_params dumps r))])
   | (Inl e, s') \<Rightarrow> isinstance e QuarantineWriteError \<and> pg_tables s' = pg_tables s"
proof -
  let ?body = "\<lambda>g tabs. rbind (sql_insert env g QCHUNKS (cast_context env (chunk_insert_params dumps r)) tabs) (\<lambda>tabs'. Inr ((), tabs'))"
  obtain x s' where run: "rls_session env (qr_tenant_id r) ?body s = (x, s')" by fastforce
  show ?thesis
  proof (cases x)
    case (Inl e)
    then show ?thesis using run session_insert_Inl [of env "qr_tenant_id r" ?body s e s']
      by (simp add: hold_chunk_def quarantine_write_error_def isinstance_def is_instance_def numeral_eq_Suc)
  next
    case (Inr u)
    then have "sql_insert env (tenant_scope (qr_tenant_id r)) QCHUNKS (cast_context env (chunk_insert_params dumps r)) (pg_tables s) =
        Inr (pg_tables s')"
      using run by (intro session_insert_Inr) simp
    then show ?thesis using run Inr by (simp add: hold_chunk_def sql_insert_Inr)
  qed
qed

text \<open>A row hold is all or nothing: either every record of the chunk is appended in order, or
  QuarantineWriteError is raised and no table changed; an empty list and records of several
  tenants are refused before any statement.\<close>

theorem hold_rows_all_or_nothing:
  "case hold_rows env dumps records s of
     (Inr _, s') \<Rightarrow> records \<noteq> [] \<and> length (remdups (map qr_tenant_id records)) = 1 \<and>
        pg_tables s' = (pg_tables s)(QROWS := pg_tables s QROWS @
          map (\<lambda>r. dupdate (pg_defaults env QROWS) (cast_context env (row_insert_params dumps r))) records)
   | (Inl e, s') \<Rightarrow> isinstance e QuarantineWriteError \<and> pg_tables s' = pg_tables s"
proof -
  have q: "isinstance (quarantine_write_error a b c) QuarantineWriteError" for a b c
    by (simp add: quarantine_write_error_def isinstance_def is_instance_def numeral_eq_Suc)
  show ?thesis
  proof (cases records)
    case Nil
    then show ?thesis by (simp add: hold_rows_def q)
  next
    case (Cons first rest)
    show ?thesis
    proof (cases "1 < length (remdups (map qr_tenant_id records))")
      case True
      then show ?thesis using Cons by (simp add: hold_rows_def q)
    next
      case False
      have one: "length (remdups (map qr_tenant_id records)) = 1"
        using False Cons by (metis length_0_conv less_one linorder_neqE_nat list.map_disc_iff list.distinct(1) remdups_eq_nil_iff)
      let ?f = "\<lambda>g. sql_insert_many env g QROWS (map (\<lambda>r. cast_context env (row_insert_params dumps r)) records)"
      let ?body = "\<lambda>g tabs. rbind (?f g tabs) (\<lambda>tabs'. Inr ((), tabs'))"
      obtain x s' where run: "rls_session env (qr_tenant_id first) ?body s = (x, s')" by fastforce
      have h: "hold_rows env dumps records s = (case (x, s') of
          (Inl e, s') \<Rightarrow> if isinstance e QuarantineWriteError then (Inl e, s')
             else (Inl (quarantine_write_error (Some (uuid_str (qr_tenant_id first))) (Some (uuid_str (qr_trace_id first)))
                     (Some (qr_failure_reason first))), s')
        | (Inr _, s') \<Rightarrow> (Inr (), s'))"
        unfolding hold_rows_def run [symmetric] using Cons False by simp
      show ?thesis
      proof (cases x)
        case (Inl e)
        then show ?thesis using h run session_insert_Inl [of env "qr_tenant_id first" ?body s e s'] by (simp add: q)
      next
        case (Inr u)
        then have "?f (tenant_scope (qr_tenant_id first)) (pg_tables s) = Inr (pg_tables s')"
          using run by (intro session_insert_Inr [where f = ?f]) simp
        then have "pg_tables s' = (pg_tables s)(QROWS := pg_tables s QROWS @
            map (dupdate (pg_defaults env QROWS)) (map (\<lambda>r. cast_context env (row_insert_params dumps r)) records))"
          by (rule sql_insert_many_Inr)
        then show ?thesis using h Inr one Cons by (simp add: comp_def)
      qed
    qed
  qed
qed

end
