(* ===== verification/Orchestrate.thy ===== *)
theory Orchestrate
  imports Sink_Merge Quarantine Validation
begin

text \<open>
  The streaming consumer's pipeline: \<open>orchestrate.py\<close> with its sinks \<open>sinks/audit.py\<close> and
  \<open>sinks/quarantine.py\<close>, the reads of \<open>pipeline/fetch.py\<close> and the two gates.

  \<^item> The state is the flow context of one event and the world: the database and a count of
    clock readings. A step returns a value or an exception with the stage it was tagged with,
    and always the state, because a failing step keeps what it wrote and noted.
  \<^item> What lies outside the repository is the record \<open>runtime\<close>: the database environment, polars,
    pandera, JSON, the object store, clocks, minted ids and the texts of exceptions.
\<close>

section \<open>State\<close>

record runtime =
  rt_env :: pgenv
  rt_ps :: pystd
  rt_pl :: polars
  rt_pd :: pandera
  rt_json_dumps :: "pyval \<Rightarrow> string"
  rt_mono :: "nat \<Rightarrow> int"
  rt_now :: "nat \<Rightarrow> pydatetime"
  rt_fresh :: "nat \<Rightarrow> nat \<Rightarrow> uuid"
  rt_row_ids :: "nat \<Rightarrow> uuid"
  rt_read_rules :: "pyval \<Rightarrow> source_mapping option"
  rt_download :: "string \<Rightarrow> (exn, string) result"
  rt_read_csv :: "string \<Rightarrow> string \<Rightarrow> frame option"
  rt_exn_str :: "exn \<Rightarrow> string"
  rt_exn_name :: "exn \<Rightarrow> string"

record pipeline_config =
  cfg_bronze_bucket :: string
  cfg_batch_size :: nat

definition SERVICE_NAME :: string where "SERVICE_NAME = ''streaming-consumer''"

record flow_context =
  fx_bronze_id :: "uuid option"
  fx_mapping_version_id :: "int option"
  fx_dis_channel :: "string option"
  fx_row_count :: "int option"
  fx_mark :: int

record world =
  w_pg :: pgstate
  w_ticks :: nat

abbreviation w_tables :: "world \<Rightarrow> tables" where "w_tables w \<equiv> pg_tables (w_pg w)"

record tagged =
  tg_stage :: "stage option"
  tg_exn :: exn

type_synonym 'a flow = "flow_context \<Rightarrow> world \<Rightarrow> (tagged, 'a) result \<times> flow_context \<times> world"

definition freturn :: "'a \<Rightarrow> 'a flow" where
  "freturn a ctx w = (Inr a, ctx, w)"

definition fraise :: "exn \<Rightarrow> 'a flow" where
  "fraise e ctx w = (Inl \<lparr>tg_stage = None, tg_exn = e\<rparr>, ctx, w)"

definition fbind :: "'a flow \<Rightarrow> ('a \<Rightarrow> 'b flow) \<Rightarrow> 'b flow" where
  "fbind m f ctx w = (case m ctx w of
     (Inl t, ctx', w') \<Rightarrow> (Inl t, ctx', w')
   | (Inr a, ctx', w') \<Rightarrow> f a ctx' w')"

definition flift :: "(exn, 'a) result \<Rightarrow> 'a flow" where
  "flift r = (case r of Inl e \<Rightarrow> fraise e | Inr a \<Rightarrow> freturn a)"

text \<open>A call on the database.\<close>

definition fpg :: "(pgstate \<Rightarrow> (exn, 'a) result \<times> pgstate) \<Rightarrow> 'a flow" where
  "fpg f ctx w = (case f (w_pg w) of (r, s) \<Rightarrow> flift r ctx (w\<lparr>w_pg := s\<rparr>))"

definition fcontext :: "flow_context flow" where
  "fcontext ctx w = (Inr ctx, ctx, w)"

definition fnote :: "(flow_context \<Rightarrow> flow_context) \<Rightarrow> unit flow" where
  "fnote f ctx w = (Inr (), f ctx, w)"

definition fnow :: "runtime \<Rightarrow> pydatetime flow" where
  "fnow rt ctx w = (Inr (rt_now rt (w_ticks w)), ctx, w\<lparr>w_ticks := Suc (w_ticks w)\<rparr>)"

text \<open>\<open>for x in xs: m(x)\<close> in the flow.\<close>

fun ffor :: "('a \<Rightarrow> unit flow) \<Rightarrow> 'a list \<Rightarrow> unit flow" where
  "ffor m [] = freturn ()"
| "ffor m (x # xs) = fbind (m x) (\<lambda>_. ffor m xs)"

text \<open>\<open>_staged\<close>: tag an in-flight exception.\<close>

definition staged :: "stage \<Rightarrow> 'a flow \<Rightarrow> 'a flow" where
  "staged stg m ctx w = (case m ctx w of
     (Inl t, ctx', w') \<Rightarrow> (Inl (t\<lparr>tg_stage := Some stg\<rparr>), ctx', w')
   | ok \<Rightarrow> ok)"

text \<open>\<open>lap()\<close>: milliseconds since the previous audit point; the clock reads microseconds.\<close>

definition lap :: "runtime \<Rightarrow> int flow" where
  "lap rt ctx w = (let now = rt_mono rt (w_ticks w) in
     (Inr (max ((now - fx_mark ctx) div 1000) 0), ctx\<lparr>fx_mark := now\<rparr>, w\<lparr>w_ticks := Suc (w_ticks w)\<rparr>))"

section \<open>The audit sink\<close>

definition stage_event :: "ingress_event \<Rightarrow> stage \<Rightarrow> outcome \<Rightarrow> audit_event" where
  "stage_event ev stg out = \<lparr>ae_event_timestamp = PyDatetime 0 None, ae_trace_id = ie_trace_id ev, ae_prior_trace_id = None,
     ae_tenant_id = Some (ie_tenant_id ev), ae_data_ingress_event_id = None, ae_service_name = SERVICE_NAME,
     ae_service_version = None, ae_stage = stg, ae_event_scope = INGRESS_EVENT, ae_outcome = out, ae_row_count = None,
     ae_rows_succeeded = None, ae_rows_failed = None, ae_duration_ms = None, ae_row_offset = None,
     ae_mapping_version_id = None, ae_failure_code = None, ae_failure_message = None, ae_event_data = None,
     ae_auth_principal = None, ae_client_ip = None\<rparr>"

text \<open>\<open>ConsumerAudit.emit\<close>: stamp, build, write; every failure is swallowed.\<close>

definition emit :: "runtime \<Rightarrow> audit_event \<Rightarrow> unit flow" where
  "emit rt e = fbind (fnow rt) (\<lambda>now ctx w.
     case validate_audit_event (e\<lparr>ae_event_timestamp := now\<rparr>) of
       Inl _ \<Rightarrow> (Inr (), ctx, w)
     | Inr e' \<Rightarrow> (Inr (), ctx, w\<lparr>w_pg := snd (audit_write (rt_env rt) (rt_json_dumps rt) e' (w_pg w))\<rparr>))"

fun outcome_of_kind :: "duplicate_kind \<Rightarrow> outcome" where
  "outcome_of_kind DUPLICATE_NOOP = OUTCOME_DUPLICATE_NOOP"
| "outcome_of_kind DUPLICATE_OVERWRITTEN = OUTCOME_DUPLICATE_OVERWRITTEN"

definition emit_duplicate :: "runtime \<Rightarrow> ingress_event \<Rightarrow> uuid \<Rightarrow> int \<Rightarrow> duplicate_hit \<Rightarrow> unit flow" where
  "emit_duplicate rt ev bronze_id version hit = emit rt ((stage_event ev CANONICAL_WRITTEN (outcome_of_kind (dh_kind hit)))
     \<lparr>ae_event_scope := ROW, ae_prior_trace_id := Some (dh_prior_trace_id hit), ae_data_ingress_event_id := Some bronze_id,
      ae_mapping_version_id := Some version, ae_row_offset := Some (int (dh_chunk_row_index hit)),
      ae_event_data := Some [(''row_hash'', PyStr (dh_row_hash hit)),
        (''dedup_key'', PyDict [(''store_id'', PyStr (uuid_str (ie_store_id ev))), (''source_id'', PyStr (ie_source_id ev)),
          (''source_event_id'', PyStr (dh_source_event_id hit))])]\<rparr>)"

section \<open>The quarantine sink\<close>

type_synonym gate_failure = "string option \<times> int option \<times> string \<times> string"

definition opt_str_val :: "string option \<Rightarrow> pyval" where
  "opt_str_val v = opt_val PyStr v"

definition chunk_failure_detail :: "gate_failure \<Rightarrow> pyval" where
  "chunk_failure_detail f = (case f of (column, row_index, check, reason) \<Rightarrow>
     PyDict [(''column'', opt_str_val column), (''row_index'', opt_val PyInt row_index), (''check'', PyStr (take 256 check)),
       (''reason'', PyStr (take 512 reason))])"

definition hold_chunk_failure ::
  "runtime \<Rightarrow> ingress_event \<Rightarrow> stage \<Rightarrow> failure_code \<Rightarrow> string \<Rightarrow> string option \<Rightarrow> gate_failure list option \<Rightarrow> unit flow" where
  "hold_chunk_failure rt ev stg code message exception_class failures =
     fbind fcontext (\<lambda>ctx. case fx_dis_channel ctx of
       None \<Rightarrow> fraise (quarantine_write_error (Some (uuid_str (ie_tenant_id ev))) (Some (uuid_str (ie_trace_id ev)))
                 (Some (failure_code_value code)))
     | Some channel \<Rightarrow>
       let context = [(''failure_message'', PyStr (take 2000 message))] @
             (case exception_class of None \<Rightarrow> [] | Some c \<Rightarrow> [(''exception_class'', PyStr c)]) @
             (case failures of None \<Rightarrow> [] | Some fs \<Rightarrow> [(''failures'', PyList (map chunk_failure_detail fs))]) in
       fbind (fnow rt) (\<lambda>now.
       fbind (flift (validate_chunk \<lparr>qr_tenant_id = ie_tenant_id ev, qr_store_id = Some (ie_store_id ev),
           qr_data_ingress_event_id = (case fx_bronze_id ctx of Some b \<Rightarrow> b | None \<Rightarrow> ie_bronze_ref ev),
           qr_trace_id = ie_trace_id ev, qr_source_id = ie_source_id ev, qr_dis_channel = channel, qr_gcs_uri = ie_gcs_uri ev,
           qr_failure_stage = failure_stage_for stg, qr_failure_reason = failure_code_value code,
           qr_failure_context = Some context, qr_quarantined_at = now,
           qc_mapping_version_id = fx_mapping_version_id ctx, qc_row_count_in_chunk = fx_row_count ctx\<rparr>)) (\<lambda>record.
       fpg (hold_chunk (rt_env rt) (rt_json_dumps rt) record))))"

text \<open>\<open>by_row\<close>: the failures of each row, rows in ascending order.\<close>

definition by_row :: "gate_failure list \<Rightarrow> (int \<times> gate_failure list) list" where
  "by_row failures = map (\<lambda>i. (i, filter (\<lambda>f. fst (snd f) = Some i) failures))
     (sorted_set (concat (map (\<lambda>f. case fst (snd f) of None \<Rightarrow> [] | Some i \<Rightarrow> [i]) failures)))"

definition row_failure_detail :: "gate_failure \<Rightarrow> pyval" where
  "row_failure_detail f = (case f of (column, _, check, reason) \<Rightarrow>
     PyDict [(''column'', opt_str_val column), (''check'', PyStr (take 256 check)), (''reason'', PyStr (take 512 reason))])"

fun row_records ::
  "runtime \<Rightarrow> ingress_event \<Rightarrow> stage \<Rightarrow> flow_context \<Rightarrow> string \<Rightarrow> int \<Rightarrow> (int \<times> gate_failure list) list \<Rightarrow>
   quarantined_row list flow" where
  "row_records rt ev stg ctx channel version [] = freturn []"
| "row_records rt ev stg ctx channel version ((i, fs) # rest) =
     fbind (fnow rt) (\<lambda>now.
     fbind (flift (validate_row \<lparr>qr_tenant_id = ie_tenant_id ev, qr_store_id = Some (ie_store_id ev),
         qr_data_ingress_event_id = (case fx_bronze_id ctx of Some b \<Rightarrow> b | None \<Rightarrow> ie_bronze_ref ev),
         qr_trace_id = ie_trace_id ev, qr_source_id = ie_source_id ev, qr_dis_channel = channel, qr_gcs_uri = ie_gcs_uri ev,
         qr_failure_stage = failure_stage_for stg, qr_failure_reason = failure_code_value VALIDATION_ROW_FAILED,
         qr_failure_context = Some [(''failures'', PyList (map row_failure_detail fs))], qr_quarantined_at = now,
         qw_row_offset = i, qw_row_sha256 = None, qw_mapping_version_id = version\<rparr>)) (\<lambda>record.
     fbind (row_records rt ev stg ctx channel version rest) (\<lambda>records.
     freturn (record # records))))"

definition hold_row_failures :: "runtime \<Rightarrow> ingress_event \<Rightarrow> stage \<Rightarrow> gate_failure list \<Rightarrow> nat flow" where
  "hold_row_failures rt ev stg failures =
    (let bug = quarantine_write_error (Some (uuid_str (ie_tenant_id ev))) (Some (uuid_str (ie_trace_id ev)))
           (Some (failure_code_value VALIDATION_ROW_FAILED)) in
     fbind fcontext (\<lambda>ctx. case (fx_dis_channel ctx, fx_mapping_version_id ctx) of
       (Some channel, Some version) \<Rightarrow>
         if list_ex (\<lambda>f. fst (snd f) = None) failures then fraise bug
         else fbind (row_records rt ev stg ctx channel version (by_row failures)) (\<lambda>records.
              fbind (fpg (hold_rows (rt_env rt) (rt_json_dumps rt) records)) (\<lambda>_.
              freturn (length records)))
     | _ \<Rightarrow> fraise bug))"

section \<open>Fetch and load\<close>

definition bronze_of :: "payload \<Rightarrow> bronze_row" where
  "bronze_of r = \<lparr>br_id = (case pget r ''id'' of PyUuid u \<Rightarrow> u | _ \<Rightarrow> 0), br_source_id = py_str (pget r ''source_id''),
     br_dis_channel = py_str (pget r ''dis_channel''), br_gcs_uri = py_str (pget r ''gcs_uri''),
     br_received_at = (case pget r ''received_at'' of PyDt d \<Rightarrow> d | _ \<Rightarrow> PyDatetime 0 None),
     br_row_count = (case pget r ''row_count'' of PyInt n \<Rightarrow> Some n | _ \<Rightarrow> None)\<rparr>"

text \<open>The first row a statement returns in a session of the tenant.\<close>

definition select_first ::
  "pgenv \<Rightarrow> uuid \<Rightarrow> string \<Rightarrow> (payload \<Rightarrow> bool) \<Rightarrow> pgstate \<Rightarrow> (exn, payload option) result \<times> pgstate" where
  "select_first env t table p s = rls_session env t (\<lambda>g tabs.
     Inr (case sql_select g table p tabs of [] \<Rightarrow> None | r # _ \<Rightarrow> Some r, tabs)) s"

definition fetch_bronze_row :: "runtime \<Rightarrow> ingress_event \<Rightarrow> bronze_row flow" where
  "fetch_bronze_row rt ev =
     fbind (fpg (select_first (rt_env rt) (ie_tenant_id ev) ''bronze.data_ingress_events''
        (\<lambda>r. pget r ''id'' = PyUuid (ie_bronze_ref ev) \<and> pget r ''trace_id'' = PyUuid (ie_trace_id ev)))) (\<lambda>found.
     flift (read_bronze_row (\<lambda>_ _ _. Inr (map_option bronze_of found)) ev))"

definition parse_chunk :: "runtime \<Rightarrow> ingress_event \<Rightarrow> string \<Rightarrow> (exn, frame) result" where
  "parse_chunk rt ev data =
    (let bad = event_contract_error None (Some (uuid_str (ie_tenant_id ev))) (Some (uuid_str (ie_trace_id ev))) in
     case rt_read_csv rt (ie_delimiter ev) data of
       None \<Rightarrow> Inl bad
     | Some f \<Rightarrow> if frame_height f = 0 then Inl bad else Inr f)"

record fetched_chunk =
  fe_frame :: frame
  fe_bronze :: bronze_row

definition note_bronze :: "bronze_row \<Rightarrow> flow_context \<Rightarrow> flow_context" where
  "note_bronze bronze ctx = ctx\<lparr>fx_bronze_id := Some (br_id bronze), fx_dis_channel := Some (br_dis_channel bronze)\<rparr>"

definition fetch_chunk :: "runtime \<Rightarrow> pipeline_config \<Rightarrow> ingress_event \<Rightarrow> fetched_chunk flow" where
  "fetch_chunk rt cfg ev =
     fbind (flift (cross_check_path ev (cfg_bronze_bucket cfg))) (\<lambda>object_key.
     fbind (fetch_bronze_row rt ev) (\<lambda>bronze.
     fbind (fnote (note_bronze bronze)) (\<lambda>_.
     fbind (flift (rt_download rt object_key)) (\<lambda>data.
     fbind (flift (parse_chunk rt ev data)) (\<lambda>f.
     freturn \<lparr>fe_frame = f, fe_bronze = bronze\<rparr>)))))"

definition mapping_row_of :: "payload \<Rightarrow> mapping_row" where
  "mapping_row_of r = \<lparr>row_mapping_version_id = (case pget r ''mapping_version_id'' of PyInt n \<Rightarrow> n | _ \<Rightarrow> 0),
     row_mapping_rules = pget r ''mapping_rules'', row_template_type = py_str (pget r ''template_type''),
     row_pre_suite_ref = (case pget r ''pre_validation_suite_ref'' of PyStr x \<Rightarrow> Some x | _ \<Rightarrow> None),
     row_post_suite_ref = (case pget r ''post_validation_suite_ref'' of PyStr x \<Rightarrow> Some x | _ \<Rightarrow> None)\<rparr>"

definition load_mapping :: "runtime \<Rightarrow> ingress_event \<Rightarrow> loaded_mapping flow" where
  "load_mapping rt ev =
     fbind (fpg (select_first (rt_env rt) (ie_tenant_id ev) ''config.source_mappings''
        (\<lambda>r. pget r ''tenant_id'' = PyUuid (ie_tenant_id ev) \<and> pget r ''source_id'' = PyStr (ie_source_id ev) \<and>
             pget r ''template_id'' = PyUuid (ie_template_id ev) \<and> pget r ''status'' = PyStr ''ACTIVE''))) (\<lambda>found.
     flift (load_active_mapping (\<lambda>_ _ _. Inr (map_option mapping_row_of found)) (rt_read_rules rt) ev))"

record store_facts =
  st_tax_treatment :: string
  st_currency :: string

definition read_store_facts :: "runtime \<Rightarrow> ingress_event \<Rightarrow> store_facts flow" where
  "read_store_facts rt ev =
     fbind (fpg (select_first (rt_env rt) (ie_tenant_id ev) ''identity_mirror.stores''
        (\<lambda>r. pget r ''tenant_id'' = PyUuid (ie_tenant_id ev) \<and> pget r ''store_id'' = PyUuid (ie_store_id ev)))) (\<lambda>found.
     case found of
       None \<Rightarrow> fraise (event_contract_error (Some ''store_id'') (Some (uuid_str (ie_tenant_id ev))) (Some (uuid_str (ie_trace_id ev))))
     | Some r \<Rightarrow> freturn \<lparr>st_tax_treatment = py_str (pget r ''tax_treatment''), st_currency = py_str (pget r ''currency'')\<rparr>)"

section \<open>Gates\<close>

definition run_pre_validation :: "runtime \<Rightarrow> loaded_mapping \<Rightarrow> frame \<Rightarrow> (exn, shape_result) result" where
  "run_pre_validation rt loaded f =
     rbind (from_rename (sm_rename (lm_source loaded)) 1 None True []) (\<lambda>suite. run_source_shape (rt_pd rt) suite f)"

definition run_post_validation :: "runtime \<Rightarrow> loaded_mapping \<Rightarrow> frame \<Rightarrow> (exn, shape_result) result" where
  "run_post_validation rt loaded contribution =
     rbind (assert_no_drift (lm_target_model loaded)) (\<lambda>_.
     let owned = target_columns (lm_source loaded);
         owned' = (if lm_target_model loaded = StoreSkuCurrentPosition
           then first_occurrences (owned @ enrichment_fields CURRENT_POSITION) else owned) in
     run_canonical_shape (rt_pd rt) \<lparr>ca_target_model = lm_target_model loaded, ca_owned_columns = owned',
       ca_column_checks = [], ca_frame_checks = []\<rparr> contribution)"

definition shape_gate_failures :: "shape_result \<Rightarrow> gate_failure list" where
  "shape_gate_failures r = map (\<lambda>f. (sf_column f, sf_row_index f, sf_check f, sf_reason f)) (sr_failures r)"

definition cell_gate_failures :: "mapping_result \<Rightarrow> gate_failure list" where
  "cell_gate_failures r = map (\<lambda>f. (Some (cf_column f), Some (int (cf_row_index f)), cf_stage f @ '':'' @ cf_op f, cf_reason f))
     (mr_failures r)"

datatype disposition = Disp_written | Disp_quarantined | Disp_failed_pre_validation | Disp_failed_mapping
  | Disp_failed_post_validation

record consume_outcome =
  co_disposition :: disposition
  co_report :: "write_report option"

definition gate_failure_code :: "stage \<Rightarrow> failure_code" where
  "gate_failure_code stg = (if stg = PRE_MAPPING_VALIDATED then PRE_VALIDATION_FAILED
     else if stg = MAPPING_EXECUTED then MAPPING_EXECUTION_FAILED else POST_VALIDATION_FAILED)"

definition emit_gate_failure ::
  "runtime \<Rightarrow> stage \<Rightarrow> ingress_event \<Rightarrow> fetched_chunk \<Rightarrow> loaded_mapping \<Rightarrow> gate_failure list \<Rightarrow> unit flow" where
  "emit_gate_failure rt stg ev fetched loaded failures =
     fbind (lap rt) (\<lambda>ms.
     fbind (emit rt ((stage_event ev stg FAILURE)\<lparr>ae_data_ingress_event_id := Some (br_id (fe_bronze fetched)),
        ae_mapping_version_id := Some (lm_mapping_version_id loaded), ae_row_count := Some (int (frame_height (fe_frame fetched))),
        ae_rows_failed := Some (int (length failures)), ae_duration_ms := Some ms,
        ae_failure_code := Some (failure_code_value (gate_failure_code stg)),
        ae_failure_message := Some (dec_str (length failures) @ '' failure(s); chunk nacked (Slice 10 minimal disposition)'')\<rparr>)) (\<lambda>_.
     ffor (\<lambda>(column, row_index, check, reason).
        emit rt ((stage_event ev stg FAILURE)\<lparr>ae_event_scope := ROW, ae_data_ingress_event_id := Some (br_id (fe_bronze fetched)),
          ae_mapping_version_id := Some (lm_mapping_version_id loaded), ae_row_offset := row_index,
          ae_failure_code := Some (failure_code_value VALIDATION_ROW_FAILED),
          ae_event_data := Some [(''check'', PyStr (take 256 check))],
          ae_failure_message := Some (take 2000 (''column='' @ str_of column @ '': '' @ reason))\<rparr>)) failures))"

definition emit_quarantined ::
  "runtime \<Rightarrow> ingress_event \<Rightarrow> stage \<Rightarrow> failure_code \<Rightarrow> string \<Rightarrow> nat \<Rightarrow> string \<Rightarrow> unit flow" where
  "emit_quarantined rt ev failed_stage code table n message =
     fbind (lap rt) (\<lambda>ms.
     fbind fcontext (\<lambda>ctx.
     emit rt ((stage_event ev QUARANTINED SUCCESS)\<lparr>ae_data_ingress_event_id := fx_bronze_id ctx,
       ae_mapping_version_id := fx_mapping_version_id ctx, ae_row_count := fx_row_count ctx,
       ae_rows_failed := (if table = ''quarantined_rows'' then Some (int n) else None), ae_duration_ms := Some ms,
       ae_failure_code := Some (failure_code_value code), ae_failure_message := Some message,
       ae_event_data := Some [(''quarantine_table'', PyStr table), (''held'', PyInt (int n)),
         (''failed_stage'', PyStr (stage_value failed_stage))]\<rparr>)))"

text \<open>Hold the failures of a gate, or fall back to the disposition that nacks.\<close>

definition hold_gate_failures ::
  "runtime \<Rightarrow> stage \<Rightarrow> ingress_event \<Rightarrow> gate_failure list \<Rightarrow> (nat \<times> string \<times> failure_code) flow" where
  "hold_gate_failures rt stg ev failures =
     (if list_all (\<lambda>f. fst (snd f) \<noteq> None) failures
      then fbind (hold_row_failures rt ev stg failures) (\<lambda>n. freturn (n, ''quarantined_rows'', VALIDATION_ROW_FAILED))
      else fbind (hold_chunk_failure rt ev stg (gate_failure_code stg)
             (dec_str (length failures) @ '' gate failure(s); row-less shape held at chunk grain'') None (Some failures)) (\<lambda>_.
           freturn (1, ''quarantined_chunks'', gate_failure_code stg)))"

definition quarantine_gate_failure ::
  "runtime \<Rightarrow> stage \<Rightarrow> ingress_event \<Rightarrow> gate_failure list \<Rightarrow> disposition \<Rightarrow> consume_outcome flow" where
  "quarantine_gate_failure rt stg ev failures fallback ctx w =
    (case hold_gate_failures rt stg ev failures ctx w of
       (Inl _, ctx', w') \<Rightarrow> (Inr \<lparr>co_disposition = fallback, co_report = None\<rparr>, ctx', w')
     | (Inr (n, table, code), ctx', w') \<Rightarrow>
         fbind (emit_quarantined rt ev stg code table n
                  (dec_str (length failures) @ '' gate failure(s) held; chunk acked (Slice 11a)'')) (\<lambda>_.
         freturn \<lparr>co_disposition = Disp_quarantined, co_report = None\<rparr>) ctx' w')"

definition fail_gate ::
  "runtime \<Rightarrow> stage \<Rightarrow> ingress_event \<Rightarrow> fetched_chunk \<Rightarrow> loaded_mapping \<Rightarrow> gate_failure list \<Rightarrow> disposition \<Rightarrow> consume_outcome flow" where
  "fail_gate rt stg ev fetched loaded failures fallback =
     fbind (emit_gate_failure rt stg ev fetched loaded failures) (\<lambda>_.
     quarantine_gate_failure rt stg ev failures fallback)"

section \<open>The pipeline\<close>

definition seen_before :: "runtime \<Rightarrow> ingress_event \<Rightarrow> bool flow" where
  "seen_before rt ev ctx w = (case rls_session (rt_env rt) (ie_tenant_id ev) (\<lambda>g tabs.
       Inr (sql_select g AUDIT (\<lambda>r. pget r ''trace_id'' = PyUuid (ie_trace_id ev) \<and>
          pget r ''service_name'' = PyStr SERVICE_NAME \<and> pget r ''stage'' = PyStr ''RECEIVED'') tabs \<noteq> [], tabs)) (w_pg w) of
     (Inl _, s) \<Rightarrow> (Inr False, ctx, w\<lparr>w_pg := s\<rparr>)
   | (Inr b, s) \<Rightarrow> (Inr b, ctx, w\<lparr>w_pg := s\<rparr>))"

definition emit_success ::
  "runtime \<Rightarrow> ingress_event \<Rightarrow> stage \<Rightarrow> (audit_event \<Rightarrow> audit_event) \<Rightarrow> unit flow" where
  "emit_success rt ev stg f = fbind (lap rt) (\<lambda>ms. emit rt (f ((stage_event ev stg SUCCESS)\<lparr>ae_duration_ms := Some ms\<rparr>)))"

text \<open>Stages 5b to 8: enrichment, the post-mapping gate, the write and its audit.\<close>

definition write_canonical ::
  "runtime \<Rightarrow> pipeline_config \<Rightarrow> ingress_event \<Rightarrow> fetched_chunk \<Rightarrow> loaded_mapping \<Rightarrow> string option \<Rightarrow> mapping_result \<Rightarrow>
   write_report flow" where
  "write_canonical rt cfg ev fetched loaded tax r =
     (if lm_target_model loaded = StoreSkuCurrentPosition
      then staged CANONICAL_WRITTEN (fpg (write_catalogue_chunk (rt_env rt) (rt_ps rt) (rt_fresh rt) ev loaded r
             (br_dis_channel (fe_bronze fetched)) (cfg_batch_size cfg)))
      else fbind (flift (build_event_rows (rt_ps rt) ev (fe_bronze fetched) loaded r tax (rt_row_ids rt))) (\<lambda>rows.
           staged CANONICAL_WRITTEN (fpg (write_chunk (rt_env rt) (rt_ps rt) (rt_fresh rt) ev loaded rows
             (br_dis_channel (fe_bronze fetched)) tax (cfg_batch_size cfg)))))"

definition finish_written ::
  "runtime \<Rightarrow> ingress_event \<Rightarrow> fetched_chunk \<Rightarrow> loaded_mapping \<Rightarrow> write_report \<Rightarrow> consume_outcome flow" where
  "finish_written rt ev fetched loaded report =
     fbind (emit_success rt ev CANONICAL_WRITTEN (\<lambda>e. e\<lparr>ae_data_ingress_event_id := Some (br_id (fe_bronze fetched)),
        ae_mapping_version_id := Some (lm_mapping_version_id loaded),
        ae_row_count := Some (int (wr_event_rows_written report)), ae_rows_succeeded := Some (int (wr_event_rows_written report)),
        ae_event_data := Some [(''written_to_table'', PyStr (wr_written_to_table report)),
          (''hot_rows_upserted'', PyInt (int (wr_hot_rows_upserted report))), (''hot_noops'', PyInt (int (wr_hot_noops report))),
          (''batches'', PyInt (int (wr_batches report))), (''duplicates'', PyInt (int (length (wr_duplicates report))))]\<rparr>)) (\<lambda>_.
     fbind (ffor (emit_duplicate rt ev (br_id (fe_bronze fetched)) (lm_mapping_version_id loaded)) (wr_duplicates report)) (\<lambda>_.
     freturn \<lparr>co_disposition = Disp_written, co_report = Some report\<rparr>))"

definition post_and_write ::
  "runtime \<Rightarrow> pipeline_config \<Rightarrow> ingress_event \<Rightarrow> fetched_chunk \<Rightarrow> loaded_mapping \<Rightarrow> store_facts option \<Rightarrow> mapping_result \<Rightarrow>
   consume_outcome flow" where
  "post_and_write rt cfg ev fetched loaded facts r0 =
     fbind (if lm_target_model loaded = StoreSkuCurrentPosition then
        (case facts of
           None \<Rightarrow> fraise (py_exn PyAssertionError)
         | Some st \<Rightarrow> flift (apply_loaded_enrichment (rt_pl rt)
             [(''currency'', PyStr (st_currency st)), (''tax_treatment'', PyStr (st_tax_treatment st))] r0
             (uuid_str (ie_tenant_id ev)) (uuid_str (ie_trace_id ev))))
        else freturn r0) (\<lambda>r.
     fbind (flift (run_post_validation rt loaded (mr_contribution r))) (\<lambda>post.
     if \<not> sr_passed post
     then fail_gate rt POST_MAPPING_VALIDATED ev fetched loaded (shape_gate_failures post) Disp_failed_post_validation
     else
       fbind (emit_success rt ev POST_MAPPING_VALIDATED (\<lambda>e. e\<lparr>ae_data_ingress_event_id := Some (br_id (fe_bronze fetched)),
          ae_mapping_version_id := Some (lm_mapping_version_id loaded),
          ae_row_count := Some (int (frame_height (mr_contribution r)))\<rparr>)) (\<lambda>_.
       fbind (write_canonical rt cfg ev fetched loaded (map_option st_tax_treatment facts) r) (\<lambda>report.
       finish_written rt ev fetched loaded report))))"

text \<open>Stages 4 and 5: the pre-mapping gate and the engine.\<close>

definition gate_and_map ::
  "runtime \<Rightarrow> pipeline_config \<Rightarrow> ingress_event \<Rightarrow> fetched_chunk \<Rightarrow> loaded_mapping \<Rightarrow> store_facts option \<Rightarrow> consume_outcome flow" where
  "gate_and_map rt cfg ev fetched loaded facts =
     fbind (flift (run_pre_validation rt loaded (fe_frame fetched))) (\<lambda>pre.
     if \<not> sr_passed pre
     then fail_gate rt PRE_MAPPING_VALIDATED ev fetched loaded (shape_gate_failures pre) Disp_failed_pre_validation
     else
       fbind (emit_success rt ev PRE_MAPPING_VALIDATED (\<lambda>e. e\<lparr>ae_data_ingress_event_id := Some (br_id (fe_bronze fetched)),
          ae_mapping_version_id := Some (lm_mapping_version_id loaded),
          ae_row_count := Some (int (frame_height (fe_frame fetched)))\<rparr>)) (\<lambda>_.
       fbind (flift (apply_loaded_mapping (rt_pl rt) loaded (fe_frame fetched))) (\<lambda>r.
       if mr_failures r \<noteq> []
       then fail_gate rt MAPPING_EXECUTED ev fetched loaded (cell_gate_failures r) Disp_failed_mapping
       else
         fbind (emit_success rt ev MAPPING_EXECUTED (\<lambda>e. e\<lparr>ae_data_ingress_event_id := Some (br_id (fe_bronze fetched)),
            ae_mapping_version_id := Some (lm_mapping_version_id loaded),
            ae_row_count := Some (int (frame_height (fe_frame fetched))),
            ae_rows_succeeded := Some (int (frame_height (mr_contribution r))), ae_rows_failed := Some 0\<rparr>)) (\<lambda>_.
         post_and_write rt cfg ev fetched loaded facts r))))"

text \<open>\<open>_process\<close>: fetch, load, store facts, then the stages above.\<close>

definition process_event :: "runtime \<Rightarrow> pipeline_config \<Rightarrow> ingress_event \<Rightarrow> consume_outcome flow" where
  "process_event rt cfg ev =
     fbind (seen_before rt ev) (\<lambda>seen.
     fbind (staged RECEIVED (fetch_chunk rt cfg ev)) (\<lambda>fetched.
     fbind (fnote (\<lambda>ctx. ctx\<lparr>fx_row_count := Some (int (frame_height (fe_frame fetched)))\<rparr>)) (\<lambda>_.
     fbind (fbind (lap rt) (\<lambda>ms. emit rt ((stage_event ev RECEIVED (if seen then RETRIED else SUCCESS))
        \<lparr>ae_data_ingress_event_id := Some (br_id (fe_bronze fetched)),
         ae_row_count := Some (int (frame_height (fe_frame fetched))), ae_duration_ms := Some ms,
         ae_event_data := Some [(''columns'', PyInt (int (length (fe_frame fetched)))),
           (''dis_channel'', PyStr (br_dis_channel (fe_bronze fetched)))]\<rparr>))) (\<lambda>_.
     fbind (staged MAPPING_LOOKED_UP (load_mapping rt ev)) (\<lambda>loaded.
     fbind (fnote (\<lambda>ctx. ctx\<lparr>fx_mapping_version_id := Some (lm_mapping_version_id loaded)\<rparr>)) (\<lambda>_.
     fbind (emit_success rt ev MAPPING_LOOKED_UP (\<lambda>e. e\<lparr>ae_data_ingress_event_id := Some (br_id (fe_bronze fetched)),
        ae_mapping_version_id := Some (lm_mapping_version_id loaded),
        ae_event_data := Some [(''target_model'', PyStr (model_name (lm_target_model loaded))),
          (''source_id'', PyStr (ie_source_id ev)), (''template_id'', PyStr (uuid_str (ie_template_id ev)))]\<rparr>)) (\<lambda>_.
     fbind (if lm_target_model loaded \<in> {StoreSkuSaleEvent, StoreSkuCurrentPosition}
            then fbind (staged MAPPING_LOOKED_UP (read_store_facts rt ev)) (\<lambda>st. freturn (Some st)) else freturn None) (\<lambda>facts.
     gate_and_map rt cfg ev fetched loaded facts))))))))"

definition CHUNK_QUARANTINE_CODES :: "failure_code list" where
  "CHUNK_QUARANTINE_CODES = [MAPPING_CONFIG_INVALID, SUITE_REF_UNSUPPORTED, CONTRACT_VIOLATION]"

definition quarantinable :: "exn \<Rightarrow> failure_code \<Rightarrow> flow_context \<Rightarrow> bool" where
  "quarantinable e code ctx \<longleftrightarrow> code \<in> set CHUNK_QUARANTINE_CODES \<and> fx_dis_channel ctx \<noteq> None \<and>
     \<not> (code = CONTRACT_VIOLATION \<and> getattr_none e ''field'' = AStr ''store_id'')"

definition start_context :: "runtime \<Rightarrow> world \<Rightarrow> flow_context" where
  "start_context rt w = \<lparr>fx_bronze_id = None, fx_mapping_version_id = None, fx_dis_channel = None, fx_row_count = None,
     fx_mark = rt_mono rt (w_ticks w)\<rparr>"

text \<open>The handler of \<open>process\<close>: audit the failure, then hold the chunk or let the exception out.\<close>

definition handle_failure :: "runtime \<Rightarrow> ingress_event \<Rightarrow> tagged \<Rightarrow> consume_outcome flow" where
  "handle_failure rt ev t =
    (let e = tg_exn t; failed_stage = (case tg_stage t of None \<Rightarrow> RECEIVED | Some stg \<Rightarrow> stg); code = failure_code_for e in
     fbind (lap rt) (\<lambda>ms.
     fbind fcontext (\<lambda>ctx.
     fbind (emit rt ((stage_event ev failed_stage FAILURE)\<lparr>ae_data_ingress_event_id := fx_bronze_id ctx,
        ae_mapping_version_id := fx_mapping_version_id ctx, ae_duration_ms := Some ms,
        ae_failure_code := Some (failure_code_value code), ae_failure_message := Some (take 2000 (rt_exn_str rt e)),
        ae_event_data := Some [(''exception_class'', PyStr (rt_exn_name rt e))]\<rparr>)) (\<lambda>_.
     if \<not> quarantinable e code ctx then fraise e
     else (\<lambda>ctx1 w1. case hold_chunk_failure rt ev failed_stage code (take 2000 (rt_exn_str rt e)) (Some (rt_exn_name rt e)) None ctx1 w1 of
         (Inl _, ctx2, w2) \<Rightarrow> fraise e ctx2 w2
       | (Inr _, ctx2, w2) \<Rightarrow>
           fbind (emit_quarantined rt ev failed_stage code ''quarantined_chunks'' 1 (take 2000 (rt_exn_str rt e))) (\<lambda>_.
           freturn \<lparr>co_disposition = Disp_quarantined, co_report = None\<rparr>) ctx2 w2)))))"

definition process :: "runtime \<Rightarrow> pipeline_config \<Rightarrow> ingress_event \<Rightarrow> world \<Rightarrow> (exn, consume_outcome) result \<times> world" where
  "process rt cfg ev w =
    (let ctx = start_context rt w; w1 = w\<lparr>w_ticks := Suc (w_ticks w)\<rparr> in
     case process_event rt cfg ev ctx w1 of
       (Inr out, ctx', w') \<Rightarrow> (Inr out, w')
     | (Inl t, ctx', w') \<Rightarrow>
       (case handle_failure rt ev t ctx' w' of
          (Inr out, _, w'') \<Rightarrow> (Inr out, w'')
        | (Inl t', _, w'') \<Rightarrow> (Inl (tg_exn t'), w'')))"

end
