(* ===== verification/Orchestrate_Props.thy ===== *)
theory Orchestrate_Props
  imports Orchestrate
begin

text \<open>
  What one event does to the database, whatever happens on the way. A step of the flow
  \<open>keeps\<close> a relation on tables when every run of it stays in the relation, failing runs included;
  the rules below carry this through the combinators, so that a relation has to be checked only
  for the statements the pipeline issues.
\<close>

section \<open>Steps that keep a relation\<close>

definition keeps :: "(tables \<Rightarrow> tables \<Rightarrow> bool) \<Rightarrow> 'a flow \<Rightarrow> bool" where
  "keeps R m \<longleftrightarrow> (\<forall>ctx w. R (w_tables w) (w_tables (snd (snd (m ctx w)))))"

named_theorems keep

lemma keepsI: "(\<And>ctx w. R (w_tables w) (w_tables (snd (snd (m ctx w))))) \<Longrightarrow> keeps R m"
  by (simp add: keeps_def)

lemma keepsD: "keeps R m \<Longrightarrow> m ctx w = (r, ctx', w') \<Longrightarrow> R (w_tables w) (w_tables w')"
  by (metis keeps_def snd_conv)

lemma keeps_if [keep]: "(b \<Longrightarrow> keeps R m) \<Longrightarrow> (\<not> b \<Longrightarrow> keeps R n) \<Longrightarrow> keeps R (if b then m else n)"
  by simp

lemma keeps_case_option [keep]:
  "(x = None \<Longrightarrow> keeps R m) \<Longrightarrow> (\<And>a. x = Some a \<Longrightarrow> keeps R (f a)) \<Longrightarrow> keeps R (case x of None \<Rightarrow> m | Some a \<Rightarrow> f a)"
  by (cases x) simp_all

lemma keeps_staged [keep]: "keeps R m \<Longrightarrow> keeps R (staged stg m)"
  unfolding keeps_def staged_def by (auto split: sum.splits prod.splits) (metis snd_conv)+

lemma keeps_fpg [keep]: "(\<And>s. R (pg_tables s) (pg_tables (snd (f s)))) \<Longrightarrow> keeps R (fpg f)"
  unfolding keeps_def fpg_def flift_def
  by (auto simp: fraise_def freturn_def split: prod.splits sum.splits) (metis snd_conv)+

text \<open>What a step returns when it returns.\<close>

definition yields :: "('a \<Rightarrow> bool) \<Rightarrow> 'a flow \<Rightarrow> bool" where
  "yields P m \<longleftrightarrow> (\<forall>ctx w a. fst (m ctx w) = Inr a \<longrightarrow> P a)"

lemma yieldsD: "yields P m \<Longrightarrow> m ctx w = (Inr a, ctx', w') \<Longrightarrow> P a"
  unfolding yields_def by (metis fst_conv)

lemma yields_flift: "yields (\<lambda>a. r = Inr a) (flift r)"
  by (auto simp: yields_def flift_def fraise_def freturn_def split: sum.splits)

lemma yields_freturn: "P a \<Longrightarrow> yields P (freturn a)"
  by (simp add: yields_def freturn_def)

lemma yields_fbind:
  assumes "yields P m" and "\<And>a. P a \<Longrightarrow> yields Q (f a)"
  shows "yields Q (fbind m f)"
  unfolding yields_def
proof (intro allI impI)
  fix ctx w b
  obtain r ctx' w' where m: "m ctx w = (r, ctx', w')" by (cases "m ctx w")
  assume "fst (fbind m f ctx w) = Inr b"
  then obtain a where "r = Inr a" "fst (f a ctx' w') = Inr b" by (cases r) (auto simp: fbind_def m)
  moreover from this have "P a" using yieldsD [OF assms(1)] m by blast
  ultimately show "Q b" using assms(2) unfolding yields_def by blast
qed

lemma yields_any: "yields (\<lambda>_. True) m"
  by (simp add: yields_def)

text \<open>What a step that returns has done to the tables.\<close>

definition ensures :: "('a \<Rightarrow> tables \<Rightarrow> tables \<Rightarrow> bool) \<Rightarrow> 'a flow \<Rightarrow> bool" where
  "ensures Q m \<longleftrightarrow> (\<forall>ctx w a. fst (m ctx w) = Inr a \<longrightarrow> Q a (w_tables w) (w_tables (snd (snd (m ctx w)))))"

named_theorems ensure

lemma ensuresD: "ensures Q m \<Longrightarrow> m ctx w = (Inr a, ctx', w') \<Longrightarrow> Q a (w_tables w) (w_tables w')"
  unfolding ensures_def by (metis fst_conv snd_conv)

lemma ensures_yields: "yields P m \<Longrightarrow> (\<And>v a b. P v \<Longrightarrow> Q v a b) \<Longrightarrow> ensures Q m"
  by (auto simp: yields_def ensures_def)

lemma ensures_fraise [ensure]: "ensures Q (fraise e)"
  by (simp add: ensures_def fraise_def)

lemma ensures_if [ensure]: "(b \<Longrightarrow> ensures Q m) \<Longrightarrow> (\<not> b \<Longrightarrow> ensures Q n) \<Longrightarrow> ensures Q (if b then m else n)"
  by simp

lemma ensures_case_option [ensure]:
  "(x = None \<Longrightarrow> ensures Q m) \<Longrightarrow> (\<And>a. x = Some a \<Longrightarrow> ensures Q (f a)) \<Longrightarrow> ensures Q (case x of None \<Rightarrow> m | Some a \<Rightarrow> f a)"
  by (cases x) simp_all

lemma ensures_fpg:
  "(\<And>s. is_ok (fst (f s)) \<Longrightarrow> Q (pg_tables s) (pg_tables (snd (f s)))) \<Longrightarrow> ensures (\<lambda>_. Q) (fpg f)"
  unfolding ensures_def fpg_def flift_def
  by (auto simp: fraise_def freturn_def split: prod.splits sum.splits) (metis fst_conv snd_conv is_ok.simps)

text \<open>The postcondition of the last step, carried back over a step that keeps \<open>R\<close>.\<close>

lemma ensures_fbind_yields:
  assumes "yields P m" and "keeps R m" and "\<And>a. P a \<Longrightarrow> ensures Q (f a)"
    and "\<And>v a b c. R a b \<Longrightarrow> Q v b c \<Longrightarrow> Q v a c"
  shows "ensures Q (fbind m f)"
  unfolding ensures_def
proof (intro allI impI)
  fix ctx w v
  obtain r ctx' w' where m: "m ctx w = (r, ctx', w')" by (cases "m ctx w")
  assume ret: "fst (fbind m f ctx w) = Inr v"
  then obtain a where r: "r = Inr a" by (cases r) (simp_all add: fbind_def m)
  have "ensures Q (f a)" using assms(3) yieldsD [OF assms(1)] m r by blast
  then have "Q v (w_tables w') (w_tables (snd (snd (f a ctx' w'))))" using ret by (simp add: fbind_def m r ensures_def)
  then show "Q v (w_tables w) (w_tables (snd (snd (fbind m f ctx w))))"
    using assms(4) keepsD [OF assms(2) m] by (simp add: fbind_def m r)
qed

lemma ensures_fbind:
  "keeps R m \<Longrightarrow> (\<And>a. ensures Q (f a)) \<Longrightarrow> (\<And>v a b c. R a b \<Longrightarrow> Q v b c \<Longrightarrow> Q v a c) \<Longrightarrow> ensures Q (fbind m f)"
  by (rule ensures_fbind_yields [OF yields_any])

text \<open>The dual: the first step establishes it, the rest keeps it.\<close>

lemma ensures_fbind_first:
  assumes "ensures (\<lambda>_. Q) m" and "\<And>a. keeps R (f a)" and "\<And>a b c. Q a b \<Longrightarrow> R b c \<Longrightarrow> Q a c"
  shows "ensures (\<lambda>_. Q) (fbind m f)"
  unfolding ensures_def
proof (intro allI impI)
  fix ctx w v
  obtain r ctx' w' where m: "m ctx w = (r, ctx', w')" by (cases "m ctx w")
  assume "fst (fbind m f ctx w) = Inr v"
  then obtain a where r: "r = Inr a" by (cases r) (simp_all add: fbind_def m)
  have "Q (w_tables w) (w_tables w')" using ensuresD [OF assms(1)] m r by blast
  moreover have "R (w_tables w') (w_tables (snd (snd (f a ctx' w'))))" using assms(2) by (simp add: keeps_def)
  ultimately show "Q (w_tables w) (w_tables (snd (snd (fbind m f ctx w))))" using assms(3) by (simp add: fbind_def m r)
qed

context table_relation
begin

lemma keeps_pure [keep]:
  "keeps R (freturn a)" "keeps R (fraise e)" "keeps R (flift r)" "keeps R fcontext" "keeps R (fnote g)"
  "keeps R (fnow rt)" "keeps R (lap rt)"
  by (auto simp: keeps_def freturn_def fraise_def flift_def fcontext_def fnote_def fnow_def lap_def Let_def R_refl split: sum.splits)

lemma keeps_fbind_yields:
  assumes "yields P m" and "keeps R m" and "\<And>a. P a \<Longrightarrow> keeps R (f a)"
  shows "keeps R (fbind m f)"
proof (rule keepsI)
  fix ctx w
  obtain r ctx' w' where m: "m ctx w = (r, ctx', w')" by (cases "m ctx w")
  have mid: "R (w_tables w) (w_tables w')" using keepsD [OF assms(2) m] .
  show "R (w_tables w) (w_tables (snd (snd (fbind m f ctx w))))"
  proof (cases r)
    case (Inr a)
    then have "P a" using yieldsD [OF assms(1)] m by blast
    then show ?thesis using R_trans [OF mid] assms(3) [of a] Inr by (simp add: fbind_def m keeps_def)
  qed (simp add: fbind_def m mid)
qed

lemma keeps_fbind [keep]: "keeps R m \<Longrightarrow> (\<And>a. keeps R (f a)) \<Longrightarrow> keeps R (fbind m f)"
  by (rule keeps_fbind_yields [where P = "\<lambda>_. True"]) (simp_all add: yields_def)

lemma keeps_fbind_flift: "(\<And>a. r = Inr a \<Longrightarrow> keeps R (f a)) \<Longrightarrow> keeps R (fbind (flift r) f)"
  by (rule keeps_fbind_yields [OF yields_flift]) (simp_all add: keep)

lemma keeps_ffor [keep]: "(\<And>x. keeps R (m x)) \<Longrightarrow> keeps R (ffor m xs)"
  by (induction xs) (simp_all add: keep)

lemma keeps_select [keep]: "keeps R (fpg (select_first env t table p))"
  unfolding select_first_def by (rule keeps_fpg) (auto intro!: session_R [OF prod.collapse [symmetric]] R_refl)

lemma keeps_reads [keep]:
  "keeps R (fetch_chunk rt cfg ev)" "keeps R (load_mapping rt ev)" "keeps R (read_store_facts rt ev)"
  by (auto simp: fetch_chunk_def fetch_bronze_row_def load_mapping_def read_store_facts_def intro!: keep)

lemma keeps_seen_before [keep]: "keeps R (seen_before rt ev)"
  unfolding keeps_def seen_before_def
  by (auto split: sum.splits prod.splits intro: session_R R_refl)

end

lemma validated_tenant: "validate_audit_event e = Inr e' \<Longrightarrow> ae_tenant_id e' = ae_tenant_id e"
  by (auto simp: validate_audit_event_def result_simps split: if_splits)

lemma stage_event_tenant [simp]: "ae_tenant_id (stage_event ev stg out) = Some (ie_tenant_id ev)"
  by (simp add: stage_event_def)

lemma validated_chunk_tenant: "validate_chunk r = Inr r' \<Longrightarrow> qr_tenant_id r' = qr_tenant_id r \<and> qr_trace_id r' = qr_trace_id r"
  by (auto simp: validate_chunk_def result_simps split: if_splits)

lemma validated_row_tenant: "validate_row r = Inr r' \<Longrightarrow> qr_tenant_id r' = qr_tenant_id r \<and> qr_trace_id r' = qr_trace_id r"
  by (auto simp: validate_row_def result_simps split: if_splits)

lemma row_records_tenant:
  "yields (list_all (\<lambda>r. qr_tenant_id r = ie_tenant_id ev \<and> qr_trace_id r = ie_trace_id ev)) (row_records rt ev stg ctx channel version rows)"
proof (induction rows)
  case (Cons row rows)
  obtain i fs where row: "row = (i, fs)" by (cases row)
  show ?case unfolding row row_records.simps
    by (rule yields_fbind [OF yields_any], rule yields_fbind [OF yields_flift], rule yields_fbind [OF Cons.IH])
      (auto intro!: yields_freturn dest!: validated_row_tenant)
qed (simp add: yields_freturn)

text \<open>The two sinks of the consumer write for the tenant of the event only.\<close>

locale sinks_relation = table_relation R for R :: "tables \<Rightarrow> tables \<Rightarrow> bool" +
  fixes rt :: runtime and ev :: ingress_event
  assumes audit_R: "ae_tenant_id e = Some (ie_tenant_id ev) \<Longrightarrow>
      R (pg_tables s) (pg_tables (snd (audit_write (rt_env rt) (rt_json_dumps rt) e s)))"
    and hold_chunk_R: "qr_tenant_id c = ie_tenant_id ev \<Longrightarrow> qr_trace_id c = ie_trace_id ev \<Longrightarrow>
      R (pg_tables s) (pg_tables (snd (hold_chunk (rt_env rt) (rt_json_dumps rt) c s)))"
    and hold_rows_R: "list_all (\<lambda>r. qr_tenant_id r = ie_tenant_id ev \<and> qr_trace_id r = ie_trace_id ev) rs \<Longrightarrow>
      R (pg_tables s) (pg_tables (snd (hold_rows (rt_env rt) (rt_json_dumps rt) rs s)))"
begin

lemma keeps_emit [keep]:
  assumes "ae_tenant_id e = Some (ie_tenant_id ev)"
  shows "keeps R (emit rt e)"
  unfolding emit_def
proof (intro keeps_fbind keeps_pure keepsI)
  fix now ctx w
  show "R (w_tables w) (w_tables (snd (snd (case validate_audit_event (e\<lparr>ae_event_timestamp := now\<rparr>) of
      Inl x \<Rightarrow> (Inr (), ctx, w)
    | Inr e' \<Rightarrow> (Inr (), ctx, w\<lparr>w_pg := snd (audit_write (rt_env rt) (rt_json_dumps rt) e' (w_pg w))\<rparr>)))))"
    using assms by (auto simp: R_refl split: sum.splits dest!: validated_tenant intro: audit_R)
qed

lemma keeps_audits [keep]:
  "keeps R (emit_duplicate rt ev bronze_id version hit)" "keeps R (emit_success rt ev stg (\<lambda>e. e))"
  "keeps R (emit_quarantined rt ev stg code table n message)" "keeps R (emit_gate_failure rt stg ev fetched loaded failures)"
  by (auto simp: emit_duplicate_def emit_success_def emit_quarantined_def emit_gate_failure_def intro!: keep)

lemma keeps_emit_success [keep]:
  "(\<And>e. ae_tenant_id (f e) = ae_tenant_id e) \<Longrightarrow> keeps R (emit_success rt ev stg f)"
  by (auto simp: emit_success_def intro!: keep)

lemma keeps_hold_chunk_failure [keep]: "keeps R (hold_chunk_failure rt ev stg code message exception_class failures)"
  unfolding hold_chunk_failure_def Let_def
  by (intro keeps_fbind_flift keep hold_chunk_R) (auto dest: validated_chunk_tenant)

lemma keeps_row_records [keep]: "keeps R (row_records rt ev stg ctx channel version rows)"
  by (induction rows) (auto intro!: keep)

lemma keeps_hold_row_failures [keep]: "keeps R (hold_row_failures rt ev stg failures)"
  unfolding hold_row_failures_def Let_def
  by (auto split: option.splits intro!: keep keeps_fbind_yields [OF row_records_tenant] hold_rows_R)

lemma keeps_hold_gate_failures [keep]: "keeps R (hold_gate_failures rt stg ev failures)"
  by (auto simp: hold_gate_failures_def intro!: keep)

lemma keeps_quarantine_gate_failure [keep]: "keeps R (quarantine_gate_failure rt stg ev failures fallback)"
proof (rule keepsI)
  fix ctx w
  let ?h = "hold_gate_failures rt stg ev failures"
  obtain r ctx' w' where h: "?h ctx w = (r, ctx', w')" by (cases "?h ctx w")
  have held: "R (w_tables w) (w_tables w')" by (rule keepsD [OF keeps_hold_gate_failures h])
  show "R (w_tables w) (w_tables (snd (snd (quarantine_gate_failure rt stg ev failures fallback ctx w))))"
  proof (cases r)
    case (Inr v)
    obtain n table code where v: "v = (n, table, code)" by (cases v)
    let ?m = "fbind (emit_quarantined rt ev stg code table n (dec_str (length failures) @ '' gate failure(s) held; chunk acked (Slice 11a)''))
      (\<lambda>_. freturn \<lparr>co_disposition = Disp_quarantined, co_report = None\<rparr>)"
    have "keeps R ?m" by (intro keep)
    then show ?thesis using R_trans [OF held] by (simp add: quarantine_gate_failure_def h Inr v keeps_def)
  qed (simp add: quarantine_gate_failure_def h held)
qed

lemma keeps_fail_gate [keep]: "keeps R (fail_gate rt stg ev fetched loaded failures fallback)"
  by (auto simp: fail_gate_def intro!: keep)

lemma keeps_handle_failure [keep]: "keeps R (handle_failure rt ev t)"
  unfolding handle_failure_def Let_def
proof (intro keep)
  fix ms ctx u
  let ?code = "failure_code_for (tg_exn t)" and ?msg = "take 2000 (rt_exn_str rt (tg_exn t))"
  let ?stg = "case tg_stage t of None \<Rightarrow> RECEIVED | Some stg \<Rightarrow> stg"
  let ?h = "hold_chunk_failure rt ev ?stg ?code ?msg (Some (rt_exn_name rt (tg_exn t))) None"
  let ?m = "fbind (emit_quarantined rt ev ?stg ?code ''quarantined_chunks'' 1 ?msg)
      (\<lambda>_. freturn \<lparr>co_disposition = Disp_quarantined, co_report = None\<rparr>)"
  have m: "keeps R ?m" by (intro keep)
  show "keeps R (\<lambda>ctx1 w1. case ?h ctx1 w1 of (Inl _, ctx2, w2) \<Rightarrow> fraise (tg_exn t) ctx2 w2 | (Inr _, ctx2, w2) \<Rightarrow> ?m ctx2 w2)"
  proof (rule keepsI)
    fix ctx1 w1
    obtain r ctx2 w2 where h: "?h ctx1 w1 = (r, ctx2, w2)" by (cases "?h ctx1 w1")
    have "R (w_tables w1) (w_tables w2)" by (rule keepsD [OF keeps_hold_chunk_failure h])
    then show "R (w_tables w1) (w_tables (snd (snd (case ?h ctx1 w1 of
        (Inl _, ctx2, w2) \<Rightarrow> fraise (tg_exn t) ctx2 w2 | (Inr _, ctx2, w2) \<Rightarrow> ?m ctx2 w2))))"
      using m R_trans by (cases r) (auto simp: h fraise_def keeps_def)
  qed
qed simp

end

section \<open>The whole pipeline\<close>

locale pipeline_relation = sinks_relation R rt ev for R :: "tables \<Rightarrow> tables \<Rightarrow> bool" and rt :: runtime and ev :: ingress_event +
  assumes write_R: "build_event_rows (rt_ps rt) ev bronze loaded r tax (rt_row_ids rt) = Inr rows \<Longrightarrow>
      R (pg_tables s) (pg_tables (snd (write_chunk (rt_env rt) (rt_ps rt) (rt_fresh rt) ev loaded rows ch tax sz s)))"
    and catalogue_R: "R (pg_tables s) (pg_tables (snd (write_catalogue_chunk (rt_env rt) (rt_ps rt) (rt_fresh rt) ev loaded r ch sz s)))"
begin

lemma keeps_write_canonical [keep]: "keeps R (write_canonical rt cfg ev fetched loaded tax r)"
  unfolding write_canonical_def by (intro keeps_fbind_flift keep catalogue_R write_R)

lemma keeps_finish_written [keep]: "keeps R (finish_written rt ev fetched loaded report)"
  unfolding finish_written_def by (auto intro!: keep)

lemma keeps_post_and_write [keep]: "keeps R (post_and_write rt cfg ev fetched loaded facts r)"
  unfolding post_and_write_def by (auto split: option.splits intro!: keep)

lemma keeps_gate_and_map [keep]: "keeps R (gate_and_map rt cfg ev fetched loaded facts)"
  unfolding gate_and_map_def by (auto intro!: keep)

lemma keeps_process_event [keep]: "keeps R (process_event rt cfg ev)"
  unfolding process_event_def by (auto intro!: keep)

lemma process_R: "R (w_tables w) (w_tables (snd (process rt cfg ev w)))"
proof -
  let ?w1 = "w\<lparr>w_ticks := Suc (w_ticks w)\<rparr>"
  obtain r ctx' w' where run: "process_event rt cfg ev (start_context rt w) ?w1 = (r, ctx', w')"
    by (cases "process_event rt cfg ev (start_context rt w) ?w1")
  have mid: "R (w_tables w) (w_tables w')" using keepsD [OF keeps_process_event run] by simp
  show ?thesis
  proof (cases r)
    case (Inl t)
    obtain r2 ctx2 w2 where h: "handle_failure rt ev t ctx' w' = (r2, ctx2, w2)" by (cases "handle_failure rt ev t ctx' w'")
    have "R (w_tables w) (w_tables w2)" using R_trans [OF mid keepsD [OF keeps_handle_failure h]] .
    then show ?thesis by (cases r2) (simp_all add: process_def Let_def run Inl h)
  qed (simp add: process_def Let_def run mid)
qed

end

end
