(* ===== verification/Pipeline_Props.thy ===== *)
theory Pipeline_Props
  imports Orchestrate_Props
begin

text \<open>
  The pipeline as a whole: which rows one event may touch, that a held chunk is really held, and
  that a chunk which was not written left nothing in the canonical tables.
\<close>

section \<open>What the sinks leave alone\<close>

lemma hold_chunk_cases:
  "pg_tables (snd (hold_chunk env dumps r s)) = (if is_ok (fst (hold_chunk env dumps r s))
     then (pg_tables s)(QCHUNKS := pg_tables s QCHUNKS @ [dupdate (pg_defaults env QCHUNKS) (cast_context env (chunk_insert_params dumps r))])
     else pg_tables s)"
  using hold_chunk_held_or_raised [where env = env and dumps = dumps and r = r and s = s] by (auto split: prod.splits sum.splits)

lemma hold_rows_cases:
  "pg_tables (snd (hold_rows env dumps rs s)) = (if is_ok (fst (hold_rows env dumps rs s))
     then (pg_tables s)(QROWS := pg_tables s QROWS @
        map (\<lambda>r. dupdate (pg_defaults env QROWS) (cast_context env (row_insert_params dumps r))) rs)
     else pg_tables s)"
  using hold_rows_all_or_nothing [where env = env and dumps = dumps and records = rs and s = s] by (auto split: prod.splits sum.splits)

lemma sinks_elsewhere:
  "T \<noteq> AUDIT \<Longrightarrow> pg_tables (snd (audit_write env dumps e s)) T = pg_tables s T"
  "T \<noteq> QCHUNKS \<Longrightarrow> pg_tables (snd (hold_chunk env dumps c s)) T = pg_tables s T"
  "T \<noteq> QROWS \<Longrightarrow> pg_tables (snd (hold_rows env dumps rs s)) T = pg_tables s T"
  by (simp_all add: audit_write_other hold_chunk_cases hold_rows_cases)

lemma sinks_append:
  "prefix (pg_tables s T) (pg_tables (snd (audit_write env dumps e s)) T)"
  "prefix (pg_tables s T) (pg_tables (snd (hold_chunk env dumps c s)) T)"
  "prefix (pg_tables s T) (pg_tables (snd (hold_rows env dumps rs s)) T)"
proof -
  show "prefix (pg_tables s T) (pg_tables (snd (audit_write env dumps e s)) T)"
    using audit_write_tables [of env dumps e s, OF prod.collapse [symmetric]] by (auto split: if_splits)
qed (auto simp: hold_chunk_cases hold_rows_cases)

section \<open>Tenant isolation\<close>

lemma session_isolated:
  assumes "\<And>tabs a tabs'. body (tenant_scope t) tabs = Inr (a, tabs') \<Longrightarrow> isolated t tabs tabs'"
  shows "isolated t (pg_tables s) (pg_tables (snd (rls_session env t body s)))"
  by (rule table_relation.session_R [OF isolated_relation prod.collapse [symmetric]]) (rule assms)

lemma audit_row_tenant:
  assumes "ae_tenant_id e = Some t"
  shows "pget (dupdate d (map (\<lambda>(c, v). (c, if c = ''event_data'' then pg_jsonb env v else v)) (audit_insert_params dumps e)))
    ''tenant_id'' = PyUuid t"
  by (rule pget_dupdate_Some) (simp_all add: audit_insert_params_def assms dget_Cons opt_val_def)

lemma audit_isolated: "ae_tenant_id e = Some t \<Longrightarrow> isolated t (pg_tables s) (pg_tables (snd (audit_write env dumps e s)))"
proof -
  assume t: "ae_tenant_id e = Some t"
  let ?body = "\<lambda>g tabs. rbind (sql_insert env g AUDIT (map (\<lambda>(c, v). (c, if c = ''event_data'' then pg_jsonb env v else v))
    (audit_insert_params dumps e)) tabs) (\<lambda>tabs'. Inr ((), tabs'))"
  have "snd (audit_write env dumps e s) = snd (rls_session env t ?body s)"
    by (simp add: audit_write_def t split: prod.splits sum.splits)
  moreover have "isolated t tabs tabs'" if "sql_insert env g AUDIT (map (\<lambda>(c, v). (c, if c = ''event_data'' then pg_jsonb env v else v))
    (audit_insert_params dumps e)) tabs = Inr tabs'" for g tabs tabs'
    using that by (rule sql_insert_own_isolated) (rule audit_row_tenant [OF t])
  ultimately show ?thesis using session_isolated [of ?body t s env] by (auto simp: result_simps)
qed

lemma hold_chunk_isolated: "isolated (qr_tenant_id r) (pg_tables s) (pg_tables (snd (hold_chunk env dumps r s)))"
proof -
  let ?body = "\<lambda>g tabs. rbind (sql_insert env g QCHUNKS (cast_context env (chunk_insert_params dumps r)) tabs) (\<lambda>tabs'. Inr ((), tabs'))"
  have "snd (hold_chunk env dumps r s) = snd (rls_session env (qr_tenant_id r) ?body s)"
    by (simp add: hold_chunk_def split: prod.splits sum.splits)
  then show ?thesis using session_isolated [of ?body "qr_tenant_id r" s env] sql_insert_isolated by (auto simp: result_simps)
qed

lemma hold_rows_isolated:
  assumes "list_all (\<lambda>r. qr_tenant_id r = t) rs"
  shows "isolated t (pg_tables s) (pg_tables (snd (hold_rows env dumps rs s)))"
proof (cases rs)
  case (Cons first rest)
  let ?body = "\<lambda>g tabs. rbind (sql_insert_many env g QROWS (map (\<lambda>r. cast_context env (row_insert_params dumps r)) rs) tabs)
    (\<lambda>tabs'. Inr ((), tabs'))"
  have first: "qr_tenant_id first = t" using assms Cons by simp
  have "snd (hold_rows env dumps rs s) = s \<or> snd (hold_rows env dumps rs s) = snd (rls_session env t ?body s)"
    unfolding hold_rows_def first [symmetric] by (simp add: Cons split: prod.splits sum.splits)
  then show ?thesis using session_isolated [of ?body t s env] sql_insert_many_isolated by (auto simp: result_simps)
qed (simp add: hold_rows_def)

lemmas pipeline_relationI = pipeline_relation.intro [OF sinks_relation.intro [OF _ sinks_relation_axioms.intro] pipeline_relation_axioms.intro]

interpretation flow_iso: pipeline_relation "isolated (ie_tenant_id ev)" rt ev for rt ev
proof (rule pipeline_relationI, rule isolated_relation)
  fix c :: quarantined_chunk and s
  assume "qr_tenant_id c = ie_tenant_id ev"
  then show "isolated (ie_tenant_id ev) (pg_tables s) (pg_tables (snd (hold_chunk (rt_env rt) (rt_json_dumps rt) c s)))"
    using hold_chunk_isolated [of c s] by simp
next
  fix rs :: "quarantined_row list" and s
  assume "list_all (\<lambda>r. qr_tenant_id r = ie_tenant_id ev \<and> qr_trace_id r = ie_trace_id ev) rs"
  then show "isolated (ie_tenant_id ev) (pg_tables s) (pg_tables (snd (hold_rows (rt_env rt) (rt_json_dumps rt) rs s)))"
    by (intro hold_rows_isolated) (auto simp: list_all_iff)
qed (auto intro: audit_isolated iso.write_chunk_R [OF _ prod.collapse [symmetric]]
    cat_iso.write_catalogue_chunk_R [OF _ prod.collapse [symmetric]] simp: list_all_iff)

text \<open>C2: Tenant isolation end to end: one event, written, quarantined, failed or raised, with its audit
  trail and its quarantine records, leaves the rows of every other tenant the same in every
  table of the database.\<close>

theorem process_isolated:
  "isolated (ie_tenant_id ev) (w_tables w) (w_tables (snd (process rt cfg ev w)))"
  by (rule flow_iso.process_R)

section \<open>Nothing is lost\<close>

text \<open>Every table but the current position is append-only; the current position moves forward in event
  time and keeps one row per key.\<close>

definition forward :: "tables \<Rightarrow> tables \<Rightarrow> bool" where
  "forward a b \<longleftrightarrow> (\<forall>T. T \<noteq> HOT \<longrightarrow> prefix (a T) (b T)) \<and> hot_le (a HOT) (b HOT) \<and> (unique_hot a \<longrightarrow> unique_hot b)"

lemma forward_relation: "table_relation forward"
  by unfold_locales (auto simp: forward_def intro: prefix_order.trans hot_le_trans)

interpretation grow: sink_relation "\<lambda>a b. \<forall>T. T \<noteq> HOT \<longrightarrow> prefix (a T) (b T)" env ps ev loaded "\<lambda>_. True"
  for env ps ev loaded
proof (unfold_locales, goal_cases)
  case (2 a b c)
  then show ?case by (meson prefix_order.trans)
qed (auto dest!: sql_insert_many_Inr dest: upsert_other_tables)

interpretation cat_grow: catalogue_relation "\<lambda>a b. \<forall>T. T \<noteq> HOT \<longrightarrow> b T = a T" env ps ev loaded "\<lambda>_. True"
  for env ps ev loaded
  by unfold_locales (auto elim!: insert_path_Inr dest!: sql_update_Inr(1))

lemma write_chunk_forward:
  assumes "build_event_rows ps ev bronze loaded r tax ids = Inr rows"
  shows "forward (pg_tables s) (pg_tables (snd (write_chunk env ps fresh ev loaded rows ch tax' sz s)))"
  unfolding forward_def
proof (intro conjI)
  show "\<forall>T. T \<noteq> HOT \<longrightarrow> prefix (pg_tables s T) (pg_tables (snd (write_chunk env ps fresh ev loaded rows ch tax' sz s)) T)"
    by (rule grow.write_chunk_R [OF _ prod.collapse [symmetric]]) (simp add: list_all_iff)
  show "hot_le (pg_tables s HOT) (pg_tables (snd (write_chunk env ps fresh ev loaded rows ch tax' sz s)) HOT)"
    by (rule hot.write_chunk_R [OF _ prod.collapse [symmetric]]) (simp add: list_all_iff)
qed (rule write_chunk_unique [OF assms])

lemma write_catalogue_chunk_forward:
  "forward (pg_tables s) (pg_tables (snd (write_catalogue_chunk env ps fresh ev loaded r ch sz s)))"
  unfolding forward_def
proof (intro conjI)
  have "\<forall>T. T \<noteq> HOT \<longrightarrow> pg_tables (snd (write_catalogue_chunk env ps fresh ev loaded r ch sz s)) T = pg_tables s T"
    by (rule cat_grow.write_catalogue_chunk_R [OF _ prod.collapse [symmetric]]) (simp add: list_all_iff)
  then show "\<forall>T. T \<noteq> HOT \<longrightarrow> prefix (pg_tables s T) (pg_tables (snd (write_catalogue_chunk env ps fresh ev loaded r ch sz s)) T)"
    by simp
  show "hot_le (pg_tables s HOT) (pg_tables (snd (write_catalogue_chunk env ps fresh ev loaded r ch sz s)) HOT)"
    by (rule cat_hot.write_catalogue_chunk_R [OF _ prod.collapse [symmetric]]) (simp add: list_all_iff)
qed (rule write_catalogue_chunk_unique)

lemma sink_forward: "b HOT = a HOT \<Longrightarrow> (\<And>T. prefix (a T) (b T)) \<Longrightarrow> forward a b"
  by (simp add: forward_def unique_hot_def)

interpretation flow_forward: pipeline_relation forward rt ev for rt ev
  by (rule pipeline_relationI, rule forward_relation)
    (auto intro!: sink_forward sinks_append write_chunk_forward write_catalogue_chunk_forward simp: sinks_elsewhere)

section \<open>Held chunks\<close>

definition mine :: "ingress_event \<Rightarrow> payload \<Rightarrow> bool" where
  "mine ev r \<longleftrightarrow> pget r ''tenant_id'' = PyUuid (ie_tenant_id ev) \<and> pget r ''trace_id'' = PyUuid (ie_trace_id ev)"

definition QTABLES :: "string set" where
  "QTABLES = {QCHUNKS, QROWS}"

lemma QTABLES_mem: "QCHUNKS \<in> QTABLES" "QROWS \<in> QTABLES" "AUDIT \<notin> QTABLES" "HOT \<notin> QTABLES"
  by (simp_all add: QTABLES_def)

definition extends :: "ingress_event \<Rightarrow> tables \<Rightarrow> tables \<Rightarrow> bool" where
  "extends ev a b \<longleftrightarrow> (\<forall>T \<in> QTABLES. \<exists>new. b T = a T @ new \<and> list_all (mine ev) new)"

definition holds_more :: "ingress_event \<Rightarrow> tables \<Rightarrow> tables \<Rightarrow> bool" where
  "holds_more ev a b \<longleftrightarrow> extends ev a b \<and> (\<exists>T \<in> QTABLES. length (a T) < length (b T))"

lemma extends_trans: "extends ev a b \<Longrightarrow> extends ev b c \<Longrightarrow> extends ev a c"
  unfolding extends_def by (metis append.assoc list_all_append)

lemma extends_relation: "table_relation (extends ev)"
  by unfold_locales (simp add: extends_def, rule extends_trans)

lemma extends_length: "extends ev a b \<Longrightarrow> T \<in> QTABLES \<Longrightarrow> length (a T) \<le> length (b T)"
  unfolding extends_def by (metis le_add1 length_append)

lemma holds_more_after: "extends ev a b \<Longrightarrow> holds_more ev b c \<Longrightarrow> holds_more ev a c"
  unfolding holds_more_def by (meson extends_length extends_trans le_less_trans)

lemma holds_more_before: "holds_more ev a b \<Longrightarrow> extends ev b c \<Longrightarrow> holds_more ev a c"
  unfolding holds_more_def by (meson extends_length extends_trans less_le_trans)

lemma extends_elsewhere: "(\<And>T. T \<in> QTABLES \<Longrightarrow> b T = a T) \<Longrightarrow> extends ev a b"
  by (simp add: extends_def)

lemma extends_append: "list_all (mine ev) new \<Longrightarrow> extends ev a (a(T := a T @ new))"
  by (simp add: extends_def)

lemma holds_more_append: "T \<in> QTABLES \<Longrightarrow> new \<noteq> [] \<Longrightarrow> list_all (mine ev) new \<Longrightarrow> holds_more ev a (a(T := a T @ new))"
  by (auto simp: holds_more_def extends_append intro!: bexI [of _ T])

lemma cast_other: "dget (cast_context env p) c = dget p c" if "c \<noteq> ''failure_context''"
  using that by (induction p) (auto simp: cast_context_def dget_Cons)

lemma held_params_mine:
  assumes "qr_tenant_id r = ie_tenant_id ev" and "qr_trace_id r = ie_trace_id ev"
    and "distinct (dkeys (base_insert_params dumps r @ rest))"
  shows "mine ev (dupdate d (cast_context env (base_insert_params dumps r @ rest)))"
proof -
  let ?e = "cast_context env (base_insert_params dumps r @ rest)"
  have "dget ?e ''tenant_id'' = Some (PyUuid (ie_tenant_id ev))" "dget ?e ''trace_id'' = Some (PyUuid (ie_trace_id ev))"
    using assms(1,2) by (simp_all add: cast_other base_insert_params_def dget_Cons)
  moreover have "distinct (dkeys ?e)" using assms(3) by simp
  ultimately show ?thesis by (simp add: mine_def pget_dupdate_Some)
qed

lemma chunk_record_mine:
  "qr_tenant_id r = ie_tenant_id ev \<Longrightarrow> qr_trace_id r = ie_trace_id ev \<Longrightarrow>
   mine ev (dupdate d (cast_context env (chunk_insert_params dumps r)))"
  unfolding chunk_insert_params_def
  by (rule held_params_mine) (simp_all add: base_insert_params_def)

lemma row_record_mine:
  "qr_tenant_id r = ie_tenant_id ev \<Longrightarrow> qr_trace_id r = ie_trace_id ev \<Longrightarrow>
   mine ev (dupdate d (cast_context env (row_insert_params dumps r)))"
  unfolding row_insert_params_def
  by (rule held_params_mine) (simp_all add: base_insert_params_def)

lemma hold_chunk_extends:
  assumes "qr_tenant_id c = ie_tenant_id ev" and "qr_trace_id c = ie_trace_id ev"
  shows "extends ev (pg_tables s) (pg_tables (snd (hold_chunk env dumps c s)))"
    and "is_ok (fst (hold_chunk env dumps c s)) \<Longrightarrow> holds_more ev (pg_tables s) (pg_tables (snd (hold_chunk env dumps c s)))"
  unfolding hold_chunk_cases
  using chunk_record_mine [OF assms] extends_append holds_more_append [OF QTABLES_mem(1)]
  by (simp_all add: extends_elsewhere)

lemma hold_rows_extends:
  assumes "list_all (\<lambda>r. qr_tenant_id r = ie_tenant_id ev \<and> qr_trace_id r = ie_trace_id ev) rs"
  shows "extends ev (pg_tables s) (pg_tables (snd (hold_rows env dumps rs s)))"
    and "is_ok (fst (hold_rows env dumps rs s)) \<Longrightarrow> holds_more ev (pg_tables s) (pg_tables (snd (hold_rows env dumps rs s)))"
proof -
  have m: "list_all (mine ev) (map (\<lambda>r. dupdate (pg_defaults env QROWS) (cast_context env (row_insert_params dumps r))) rs)"
    using assms row_record_mine by (auto simp: list_all_iff)
  have "rs \<noteq> []" if "is_ok (fst (hold_rows env dumps rs s))" using that by (auto simp: hold_rows_def)
  then show "is_ok (fst (hold_rows env dumps rs s)) \<Longrightarrow> holds_more ev (pg_tables s) (pg_tables (snd (hold_rows env dumps rs s)))"
    unfolding hold_rows_cases using holds_more_append [OF QTABLES_mem(2) _ m] by simp
  show "extends ev (pg_tables s) (pg_tables (snd (hold_rows env dumps rs s)))"
    unfolding hold_rows_cases using extends_append [OF m] by (simp add: extends_elsewhere)
qed

lemma writers_quarantine:
  assumes "T \<in> QTABLES"
  shows "pg_tables (snd (write_chunk env ps fresh ev loaded rows ch tax sz s)) T = pg_tables s T"
    and "pg_tables (snd (write_catalogue_chunk env ps fresh ev loaded r ch sz s)) T = pg_tables s T"
proof -
  have "T \<noteq> HOT" "T \<noteq> event_table (lm_target_model loaded)"
    using assms by (auto simp: QTABLES_def event_table_def)
  moreover have "\<forall>T. T \<noteq> HOT \<longrightarrow> T \<noteq> event_table (lm_target_model loaded) \<longrightarrow>
      pg_tables (snd (write_chunk env ps fresh ev loaded rows ch tax sz s)) T = pg_tables s T"
    by (rule others.write_chunk_R [OF _ prod.collapse [symmetric]]) (simp add: list_all_iff)
  moreover have "\<forall>T. T \<noteq> HOT \<longrightarrow> pg_tables (snd (write_catalogue_chunk env ps fresh ev loaded r ch sz s)) T = pg_tables s T"
    by (rule cat_grow.write_catalogue_chunk_R [OF _ prod.collapse [symmetric]]) (simp add: list_all_iff)
  ultimately show "pg_tables (snd (write_chunk env ps fresh ev loaded rows ch tax sz s)) T = pg_tables s T"
    and "pg_tables (snd (write_catalogue_chunk env ps fresh ev loaded r ch sz s)) T = pg_tables s T" by blast+
qed

interpretation flow_held: pipeline_relation "extends ev" rt ev for rt ev
proof (rule pipeline_relationI, rule extends_relation)
  fix e :: audit_event and s
  have "T \<in> QTABLES \<Longrightarrow> pg_tables (snd (audit_write (rt_env rt) (rt_json_dumps rt) e s)) T = pg_tables s T" for T
    using QTABLES_mem by (intro sinks_elsewhere) auto
  then show "extends ev (pg_tables s) (pg_tables (snd (audit_write (rt_env rt) (rt_json_dumps rt) e s)))"
    by (rule extends_elsewhere)
qed (auto intro: hold_chunk_extends hold_rows_extends extends_elsewhere writers_quarantine)

text \<open>A hold that returns has added a record of the event.\<close>

lemma hold_chunk_failure_held:
  "ensures (\<lambda>_. holds_more ev) (hold_chunk_failure rt ev stg code message exception_class failures)"
  unfolding hold_chunk_failure_def Let_def
  by (intro ensures_fbind [OF flow_held.keeps_pure(4)] ensures_fbind [OF flow_held.keeps_pure(6)] ensure
      ensures_fbind_yields [OF yields_flift flow_held.keeps_pure(3)] ensures_fpg)
    (auto intro: holds_more_after hold_chunk_extends(2) dest!: validated_chunk_tenant)

lemma hold_row_failures_held: "ensures (\<lambda>_. holds_more ev) (hold_row_failures rt ev stg failures)"
proof -
  have "ensures (\<lambda>_. holds_more ev) (fbind (fpg (hold_rows env dumps rs)) (\<lambda>_. freturn n))"
    if "list_all (\<lambda>r. qr_tenant_id r = ie_tenant_id ev \<and> qr_trace_id r = ie_trace_id ev) rs" for rs env dumps and n :: nat
    by (rule ensures_fbind_first [OF ensures_fpg flow_held.keeps_pure(1)])
      (use that in \<open>auto intro: hold_rows_extends(2) holds_more_before\<close>)
  then show ?thesis
    unfolding hold_row_failures_def Let_def
    by (auto split: option.splits intro!: ensures_fbind [OF flow_held.keeps_pure(4)] ensure
        ensures_fbind_yields [OF row_records_tenant flow_held.keeps_row_records] intro: holds_more_after)
qed

lemma hold_gate_failures_held: "ensures (\<lambda>_. holds_more ev) (hold_gate_failures rt stg ev failures)"
  unfolding hold_gate_failures_def
  by (intro ensure ensures_fbind_first [OF hold_row_failures_held flow_held.keeps_pure(1)]
      ensures_fbind_first [OF hold_chunk_failure_held flow_held.keeps_pure(1)]) (auto intro: holds_more_before)

definition held_if_quarantined :: "ingress_event \<Rightarrow> consume_outcome \<Rightarrow> tables \<Rightarrow> tables \<Rightarrow> bool" where
  "held_if_quarantined ev out a b \<longleftrightarrow> (co_disposition out = Disp_quarantined \<longrightarrow> holds_more ev a b)"

lemma held_after: "extends ev a b \<Longrightarrow> held_if_quarantined ev out b c \<Longrightarrow> held_if_quarantined ev out a c"
  by (auto simp: held_if_quarantined_def intro: holds_more_after)

lemmas held_fbind = ensures_fbind [where R = "extends ev" and Q = "held_if_quarantined ev" for ev, OF _ _ held_after]

lemma quarantine_gate_failure_held:
  assumes "fallback \<noteq> Disp_quarantined"
  shows "ensures (held_if_quarantined ev) (quarantine_gate_failure rt stg ev failures fallback)"
  unfolding ensures_def
proof (intro allI impI)
  fix ctx w out
  let ?h = "hold_gate_failures rt stg ev failures"
  assume ret: "fst (quarantine_gate_failure rt stg ev failures fallback ctx w) = Inr out"
  obtain r ctx' w' where h: "?h ctx w = (r, ctx', w')" by (cases "?h ctx w")
  show "held_if_quarantined ev out (w_tables w) (w_tables (snd (snd (quarantine_gate_failure rt stg ev failures fallback ctx w))))"
  proof (cases r)
    case (Inl t)
    then have "co_disposition out = fallback" using ret by (auto simp: quarantine_gate_failure_def h)
    then show ?thesis using assms by (simp add: held_if_quarantined_def)
  next
    case (Inr v)
    obtain n table code where v: "v = (n, table, code)" by (cases v)
    let ?m = "fbind (emit_quarantined rt ev stg code table n (dec_str (length failures) @ '' gate failure(s) held; chunk acked (Slice 11a)''))
      (\<lambda>_. freturn \<lparr>co_disposition = Disp_quarantined, co_report = None\<rparr>)"
    have "keeps (extends ev) ?m" by (intro keep)
    moreover have "holds_more ev (w_tables w) (w_tables w')" using ensuresD [OF hold_gate_failures_held] h Inr by blast
    ultimately show ?thesis
      by (auto simp: held_if_quarantined_def quarantine_gate_failure_def h Inr v keeps_def intro: holds_more_before)
  qed
qed

lemma written_held: "yields (\<lambda>out. co_disposition out \<noteq> Disp_quarantined) m \<Longrightarrow> ensures (held_if_quarantined ev) m"
  by (erule ensures_yields) (simp add: held_if_quarantined_def)

lemma finish_written_yields: "yields (\<lambda>out. co_disposition out = Disp_written) (finish_written rt ev fetched loaded report)"
  unfolding finish_written_def by (intro yields_fbind [OF yields_any] yields_freturn) simp

lemma write_and_finish_yields:
  "yields (\<lambda>out. co_disposition out = Disp_written)
     (fbind (write_canonical rt cfg ev fetched loaded tax r) (\<lambda>report. finish_written rt ev fetched loaded report))"
  by (intro yields_fbind [OF yields_any] finish_written_yields)

lemma yields_weaken: "yields P m \<Longrightarrow> (\<And>a. P a \<Longrightarrow> Q a) \<Longrightarrow> yields Q m"
  by (simp add: yields_def)

lemma fail_gate_held:
  "fallback \<noteq> Disp_quarantined \<Longrightarrow> ensures (held_if_quarantined ev) (fail_gate rt stg ev fetched loaded failures fallback)"
  unfolding fail_gate_def by (intro held_fbind keep quarantine_gate_failure_held)

lemma post_and_write_held: "ensures (held_if_quarantined ev) (post_and_write rt cfg ev fetched loaded facts r)"
  unfolding post_and_write_def
  by (intro held_fbind ensure keep fail_gate_held written_held yields_weaken [OF write_and_finish_yields]) (auto intro: keep)

lemma gate_and_map_held: "ensures (held_if_quarantined ev) (gate_and_map rt cfg ev fetched loaded facts)"
  unfolding gate_and_map_def
  by (intro held_fbind ensure keep fail_gate_held post_and_write_held) (auto intro: keep)

lemma process_event_held: "ensures (held_if_quarantined ev) (process_event rt cfg ev)"
  unfolding process_event_def
  by (intro held_fbind ensure keep gate_and_map_held) (auto intro: keep)

lemma handle_failure_held: "ensures (held_if_quarantined ev) (handle_failure rt ev t)"
  unfolding handle_failure_def Let_def
proof (intro held_fbind ensure)
  fix ms ctx u
  let ?code = "failure_code_for (tg_exn t)" and ?msg = "take 2000 (rt_exn_str rt (tg_exn t))"
  let ?stg = "case tg_stage t of None \<Rightarrow> RECEIVED | Some stg \<Rightarrow> stg"
  let ?h = "hold_chunk_failure rt ev ?stg ?code ?msg (Some (rt_exn_name rt (tg_exn t))) None"
  let ?m = "fbind (emit_quarantined rt ev ?stg ?code ''quarantined_chunks'' 1 ?msg)
      (\<lambda>_. freturn \<lparr>co_disposition = Disp_quarantined, co_report = None\<rparr>)"
  have m: "keeps (extends ev) ?m" by (intro keep)
  show "ensures (held_if_quarantined ev) (\<lambda>ctx1 w1. case ?h ctx1 w1 of
      (Inl _, ctx2, w2) \<Rightarrow> fraise (tg_exn t) ctx2 w2 | (Inr _, ctx2, w2) \<Rightarrow> ?m ctx2 w2)"
    unfolding ensures_def
  proof (intro allI impI)
    fix ctx1 w1 out
    obtain r ctx2 w2 where h: "?h ctx1 w1 = (r, ctx2, w2)" by (cases "?h ctx1 w1")
    assume "fst (case ?h ctx1 w1 of (Inl _, ctx2, w2) \<Rightarrow> fraise (tg_exn t) ctx2 w2 | (Inr _, ctx2, w2) \<Rightarrow> ?m ctx2 w2) = Inr out"
    then obtain u where r: "r = Inr u" by (cases r) (simp_all add: h fraise_def)
    have "holds_more ev (w_tables w1) (w_tables w2)" using ensuresD [OF hold_chunk_failure_held] h r by blast
    then show "held_if_quarantined ev out (w_tables w1) (w_tables (snd (snd (case ?h ctx1 w1 of
        (Inl _, ctx2, w2) \<Rightarrow> fraise (tg_exn t) ctx2 w2 | (Inr _, ctx2, w2) \<Rightarrow> ?m ctx2 w2))))"
      using m by (auto simp: held_if_quarantined_def h r keeps_def intro: holds_more_before)
  qed
qed (auto intro: keep)

lemma process_held:
  assumes "process rt cfg ev w = (Inr out, w')"
  shows "held_if_quarantined ev out (w_tables w) (w_tables w')"
proof -
  let ?w1 = "w\<lparr>w_ticks := Suc (w_ticks w)\<rparr>"
  obtain r ctx1 w1 where run: "process_event rt cfg ev (start_context rt w) ?w1 = (r, ctx1, w1)"
    by (cases "process_event rt cfg ev (start_context rt w) ?w1")
  show ?thesis
  proof (cases r)
    case (Inl t)
    obtain r2 ctx2 w2 where h: "handle_failure rt ev t ctx1 w1 = (r2, ctx2, w2)" by (cases "handle_failure rt ev t ctx1 w1")
    have "r2 = Inr out" "w2 = w'" using assms by (auto simp: process_def Let_def run Inl h split: sum.splits)
    then have "held_if_quarantined ev out (w_tables w1) (w_tables w')" using ensuresD [OF handle_failure_held] h by blast
    moreover have "extends ev (w_tables w) (w_tables w1)" using keepsD [OF flow_held.keeps_process_event run] by simp
    ultimately show ?thesis using held_after by blast
  next
    case (Inr v)
    then have "v = out" "w1 = w'" using assms by (auto simp: process_def Let_def run)
    then show ?thesis using ensuresD [OF process_event_held] run Inr by fastforce
  qed
qed

lemma held_record:
  assumes "process rt cfg ev w = (Inr out, w')" and "co_disposition out = Disp_quarantined"
  shows "\<exists>T new. T \<in> {QCHUNKS, QROWS} \<and> new \<noteq> [] \<and> w_tables w' T = w_tables w T @ new \<and>
    list_all (\<lambda>r. pget r ''tenant_id'' = PyUuid (ie_tenant_id ev) \<and> pget r ''trace_id'' = PyUuid (ie_trace_id ev)) new"
proof -
  have "holds_more ev (w_tables w) (w_tables w')" using process_held [OF assms(1)] assms(2) by (simp add: held_if_quarantined_def)
  then obtain T where T: "T \<in> QTABLES" "length (w_tables w T) < length (w_tables w' T)" and e: "extends ev (w_tables w) (w_tables w')"
    by (auto simp: holds_more_def)
  from e T(1) obtain new where new: "w_tables w' T = w_tables w T @ new" "list_all (mine ev) new" by (auto simp: extends_def)
  have "new \<noteq> []" using T(2) new(1) by auto
  moreover have "T \<in> {QCHUNKS, QROWS}" using T(1) by (simp only: QTABLES_def)
  ultimately show ?thesis using new unfolding mine_def by blast
qed

end
