(* ===== verification/Write_Failures.thy ===== *)
theory Write_Failures
  imports Pipeline_Props
begin

text \<open>
  A chunk that is not written leaves no canonical row behind. The gates stop a chunk before the
  writer runs; what the writer itself raises after a commit is never an error that the failure
  handler holds and acknowledges, as long as the database raises its own errors only.
\<close>

section \<open>Which errors the writers raise\<close>

definition infra :: "exn \<Rightarrow> bool" where
  "infra e \<longleftrightarrow> failure_code_for e \<notin> set CHUNK_QUARANTINE_CODES"

definition only :: "(exn \<Rightarrow> bool) \<Rightarrow> (exn, 'a) result \<Rightarrow> bool" where
  "only P r = (case r of Inl e \<Rightarrow> P e | Inr a \<Rightarrow> True)"

named_theorems raising

lemma only_simps [simp]: "only P (Inl e) = P e" "only P (Inr a)"
  by (simp_all add: only_def)

lemma onlyD: "only P r \<Longrightarrow> r = Inl e \<Longrightarrow> P e"
  by simp

lemma only_rbind [raising]: "only P r \<Longrightarrow> (\<And>a. only P (f a)) \<Longrightarrow> only P (rbind r f)"
  by (cases r) simp_all

lemma only_require [raising]: "P e \<Longrightarrow> only P (require b e)"
  by (simp add: require_def)

lemma only_map_result [raising]: "(\<And>x. only P (f x)) \<Longrightarrow> only P (map_result f xs)"
  by (induction xs) (auto intro!: raising)

lemma infra_iff: "infra e \<longleftrightarrow> \<not> isinstance e MappingConfigError \<and> \<not> isinstance e SuiteDefinitionError \<and> \<not> isinstance e EventContractError"
  using failure_code_for_exact [of e] by (auto simp: infra_def CHUNK_QUARANTINE_CODES_def)

lemma infra_raised [simp]:
  "infra (py_exn PyTypeError)" "infra (py_exn PyKeyError)" "infra (py_exn PyValueError)" "infra (py_exn (PyForeign n))"
  "infra (rls_context_error a b c)" "infra (hot_position_missing_error t u v k)" "infra (sink_resolution_error x y)"
  by (simp_all add: infra_iff exn_defs isinstance_def is_instance_def numeral_eq_Suc)

text \<open>The errors of the database server and its driver are not errors of this code base.\<close>

definition db_infra :: "pgenv \<Rightarrow> bool" where
  "db_infra env \<longleftrightarrow> (\<forall>n e. pg_fault env n = Some e \<longrightarrow> infra e) \<and> (\<forall>T r e. pg_reject env T r = Some e \<longrightarrow> infra e)"

lemma statement_raises [raising]:
  "db_infra env \<Longrightarrow> only infra (admit env g table r)" "only infra (columns_once cols)" "only infra (bind_hot params)"
  by (auto simp: admit_def columns_once_def bind_hot_def db_infra_def split: option.splits intro!: raising)

lemma update_rows_raises [raising]: "db_infra env \<Longrightarrow> only infra (update_rows env g table p sets rs)"
  by (induction rs) (auto split: prod.splits intro!: raising)

lemma sql_raises [raising]:
  "db_infra env \<Longrightarrow> only infra (sql_update env g table p sets tabs)"
  "db_infra env \<Longrightarrow> only infra (sql_insert env g table cols tabs)"
  by (auto simp: sql_update_def sql_insert_def split: prod.splits intro!: raising)

lemma insert_many_raises [raising]: "db_infra env \<Longrightarrow> only infra (sql_insert_many env g table cs tabs)"
  by (induction cs arbitrary: tabs) (auto intro!: raising)

lemma session_raises:
  assumes "db_infra env" and "\<And>tabs. only infra (body (tenant_scope t) tabs)"
  shows "only infra (fst (rls_session env t body s))"
proof -
  have "only infra (check_posture (pg_posture env))" by (auto simp: check_posture_def split: prod.splits)
  moreover have "only infra (body (tenant_scope t) (pg_tables s))" by (rule assms(2))
  ultimately show ?thesis using assms(1)
    by (auto simp: rls_session_def verified_transaction_def Let_def db_infra_def split: option.splits sum.splits if_splits)
qed

lemma hot_path_raises [raising]:
  "db_infra env \<Longrightarrow> only infra (update_hot_incomplete_path env g params projected H tabs)"
  "db_infra env \<Longrightarrow> only infra (insert_on_conflict_hot_complete_path env g params projected H tabs)"
  by (auto simp: update_hot_incomplete_path_def insert_on_conflict_hot_complete_path_def Let_def split: prod.splits intro!: raising)

lemma resolve_sink_raises [raising]: "only infra (resolve_sink vertical template_type namespaces)"
  by (simp add: resolve_sink_def split: option.splits)

lemma upsert_raises [raising]: "db_infra env \<Longrightarrow> only infra (upsert_hot env ps g ev loaded grp ch tax new_id tabs)"
  by (auto simp: upsert_hot_def split: prod.splits intro!: raising)

lemma merge_groups_raises [raising]:
  "db_infra env \<Longrightarrow> only infra (merge_groups env ps ev loaded ch tax fresh k groups b g tabs)"
  by (induction groups arbitrary: k b tabs) (auto split: prod.splits intro!: raising)

lemma duplicates_raise [raising]: "only infra (detect_duplicates env ps g ev loaded batch table ts tabs)"
  by (auto simp: detect_duplicates_def duplicate_hits_def uuid_of_pyval_def Let_def split: option.splits pyval.splits intro!: raising)

lemma write_batch_raises [raising]:
  "db_infra env \<Longrightarrow> only infra (write_batch env ps ev loaded ch tax table ts fresh batch groups g tabs)"
  by (auto simp: write_batch_def intro!: raising)

lemma group_hot_raises: "only infra (group_hot batch)"
proof -
  have "only infra (dt_ge a b)" for a b by (auto simp: dt_ge_def split: option.splits)
  then have "only infra (group_row row groups)" for row groups
    by (auto simp: group_row_def Let_def split: option.splits intro!: raising)
  then have "only infra (group_rows rows groups)" for rows groups
    by (induction rows arbitrary: groups) (auto intro!: raising)
  then show ?thesis by (auto simp: group_hot_def intro!: raising)
qed

lemma batch_groups_raises: "only infra (batch_groups batch)"
  unfolding batch_groups_def using group_hot_raises [of batch] by (auto intro!: raising)

lemma write_batches_raises:
  assumes "db_infra env"
  shows "only infra (fst (write_batches env ps ev loaded ch tax table ts fresh i bs s))"
proof (induction bs arbitrary: i s)
  case (Cons batch bs)
  show ?case
  proof (cases "batch_groups batch")
    case (Inl e)
    then show ?thesis using batch_groups_raises [of batch] by simp
  next
    case (Inr groups)
    let ?body = "write_batch env ps ev loaded ch tax table ts (fresh i) batch groups"
    obtain r s1 where run: "rls_session env (ie_tenant_id ev) ?body s = (r, s1)" by fastforce
    have "only infra (fst (rls_session env (ie_tenant_id ev) ?body s))"
      by (rule session_raises [OF assms]) (rule write_batch_raises [OF assms])
    then have "only infra r" by (simp add: run)
    moreover obtain r2 s2 where rest: "write_batches env ps ev loaded ch tax table ts fresh (Suc i) bs s1 = (r2, s2)" by fastforce
    moreover have "only infra r2" using Cons.IH [of "Suc i" s1] rest by simp
    ultimately show ?thesis using Inr run by (cases r; cases r2) simp_all
  qed
qed simp

lemma write_chunk_raises:
  assumes "db_infra env" and "write_chunk env ps fresh ev loaded rows ch tax sz s = (Inl e, s')"
  shows "infra e \<or> s' = s"
proof -
  have "only infra (fst (write_batches env ps ev loaded ch tax table ts fresh 0 (batches sz rows) s))" for table ts
    by (rule write_batches_raises [OF assms(1)])
  then have "infra e" if "write_batches env ps ev loaded ch tax table ts fresh 0 (batches sz rows) s = (Inl e, s1)" for table ts s1
    using that by (metis fst_conv only_simps(1))
  then show ?thesis using assms(2) by (auto simp: write_chunk_def split: sum.splits prod.splits if_splits)
qed

lemma catalogue_batches_raises:
  assumes "db_infra env"
  shows "only infra (fst (catalogue_batches env ps ev loaded ch H fresh i bs s))"
proof (induction bs arbitrary: i s)
  case (Cons batch bs)
  have b: "only infra (catalogue_batch env ps ev loaded ch H f k groups g tabs)" for f k groups g tabs
    using assms by (induction groups arbitrary: k tabs) (auto split: prod.splits intro!: raising)
  let ?body = "catalogue_batch env ps ev loaded ch H (fresh i) 0 (catalogue_order batch)"
  obtain r s1 where run: "rls_session env (ie_tenant_id ev) ?body s = (r, s1)" by fastforce
  have "only infra (fst (rls_session env (ie_tenant_id ev) ?body s))" by (rule session_raises [OF assms]) (rule b)
  then have "only infra r" by (simp add: run)
  moreover obtain r2 s2 where rest: "catalogue_batches env ps ev loaded ch H fresh (Suc i) bs s1 = (r2, s2)" by fastforce
  moreover have "only infra r2" using Cons.IH [of "Suc i" s1] rest by simp
  ultimately show ?case using run by (cases r; cases r2) simp_all
qed simp

lemma write_catalogue_chunk_raises:
  assumes "db_infra env" and "write_catalogue_chunk env ps fresh ev loaded r ch sz s = (Inl e, s')"
  shows "infra e \<or> s' = s"
proof -
  have "infra e" if "catalogue_batches env ps ev loaded ch H fresh 0 bs s = (Inl e, s1)" for H bs s1
    using catalogue_batches_raises [OF assms(1), of ps ev loaded ch H fresh 0 bs s] that by simp
  then show ?thesis using assms(2) unfolding write_catalogue_chunk_def
    by (auto split: sum.splits prod.splits if_splits)
qed

section \<open>Nothing written\<close>

definition SINK_TABLES :: "string set" where
  "SINK_TABLES = {AUDIT, QCHUNKS, QROWS}"

lemma SINK_TABLES_mem: "AUDIT \<in> SINK_TABLES" "QCHUNKS \<in> SINK_TABLES" "QROWS \<in> SINK_TABLES"
  by (simp_all add: SINK_TABLES_def)

definition quiet :: "tables \<Rightarrow> tables \<Rightarrow> bool" where
  "quiet a b \<longleftrightarrow> (\<forall>T. T \<notin> SINK_TABLES \<longrightarrow> b T = a T)"

lemma quiet_trans: "quiet a b \<Longrightarrow> quiet b c \<Longrightarrow> quiet a c"
  by (simp add: quiet_def)

lemma quiet_refl: "quiet a a"
  by (simp add: quiet_def)

lemma quietI:
  assumes "T \<in> SINK_TABLES" and "\<And>X. X \<noteq> T \<Longrightarrow> b X = a X"
  shows "quiet a b"
  unfolding quiet_def
proof (intro allI impI)
  fix X assume "X \<notin> SINK_TABLES"
  then show "b X = a X" using assms(1) by (intro assms(2)) auto
qed

lemma quiet_relation: "table_relation quiet"
  by unfold_locales (rule quiet_refl, rule quiet_trans)

interpretation flow_quiet: sinks_relation quiet rt ev for rt ev
proof (intro sinks_relation.intro quiet_relation sinks_relation_axioms.intro)
  show "quiet (pg_tables s) (pg_tables (snd (audit_write (rt_env rt) (rt_json_dumps rt) e s)))" for e s
    by (rule quietI [OF SINK_TABLES_mem(1)]) (rule sinks_elsewhere(1))
  show "quiet (pg_tables s) (pg_tables (snd (hold_chunk (rt_env rt) (rt_json_dumps rt) c s)))" for c s
    by (rule quietI [OF SINK_TABLES_mem(2)]) (rule sinks_elsewhere(2))
  show "quiet (pg_tables s) (pg_tables (snd (hold_rows (rt_env rt) (rt_json_dumps rt) rs s)))" for rs s
    by (rule quietI [OF SINK_TABLES_mem(3)]) (rule sinks_elsewhere(3))
qed

text \<open>How a step may fail: quietly, or with an error that is not acknowledged.\<close>

definition fails_clean :: "'a flow \<Rightarrow> bool" where
  "fails_clean m \<longleftrightarrow> (\<forall>ctx w t ctx' w'. m ctx w = (Inl t, ctx', w') \<longrightarrow> quiet (w_tables w) (w_tables w') \<or> infra (tg_exn t))"

named_theorems clean

lemma quiet_clean: "keeps quiet m \<Longrightarrow> fails_clean m"
  unfolding fails_clean_def by (metis keepsD)

lemma clean_fbind:
  assumes "keeps quiet m" and "\<And>a. fails_clean (f a)"
  shows "fails_clean (fbind m f)"
  unfolding fails_clean_def
proof (intro allI impI)
  fix ctx w t ctx' w'
  obtain r ctx1 w1 where m: "m ctx w = (r, ctx1, w1)" by (cases "m ctx w")
  have q: "quiet (w_tables w) (w_tables w1)" using keepsD [OF assms(1) m] .
  assume raised: "fbind m f ctx w = (Inl t, ctx', w')"
  show "quiet (w_tables w) (w_tables w') \<or> infra (tg_exn t)"
  proof (cases r)
    case (Inl t')
    then show ?thesis using raised q by (simp add: fbind_def m)
  next
    case (Inr a)
    then have "quiet (w_tables w1) (w_tables w') \<or> infra (tg_exn t)"
      using raised assms(2) [of a] by (simp add: fbind_def m fails_clean_def)
    then show ?thesis using quiet_trans [OF q] by blast
  qed
qed

lemma clean_if: "fails_clean m \<Longrightarrow> fails_clean n \<Longrightarrow> fails_clean (if b then m else n)"
  by simp

text \<open>Steps that always return.\<close>

definition returns :: "'a flow \<Rightarrow> bool" where
  "returns m \<longleftrightarrow> (\<forall>ctx w. is_ok (fst (m ctx w)))"

lemma returns_fbind: "returns m \<Longrightarrow> (\<And>a. returns (f a)) \<Longrightarrow> returns (fbind m f)"
  unfolding returns_def fbind_def by (auto simp: is_ok_iff split: prod.splits sum.splits) (metis Inl_Inr_False fst_conv)

lemma returns_basic:
  "returns (freturn a)" "returns (fnow rt)" "returns (lap rt)" "returns fcontext" "returns (fnote g)"
  by (simp_all add: returns_def freturn_def fnow_def lap_def fcontext_def fnote_def Let_def)

lemma emit_returns: "returns (emit rt e)"
  unfolding emit_def
  by (rule returns_fbind [OF returns_basic(2)]) (simp add: returns_def split: sum.splits)

lemma returns_ffor: "(\<And>x. returns (m x)) \<Longrightarrow> returns (ffor m xs)"
  by (induction xs) (simp_all add: returns_basic returns_fbind)

lemma finish_written_returns: "returns (finish_written rt ev fetched loaded report)"
  unfolding finish_written_def emit_success_def emit_duplicate_def
  by (intro returns_fbind returns_basic emit_returns returns_ffor)

lemma clean_fbind_returns: "fails_clean m \<Longrightarrow> (\<And>a. returns (f a)) \<Longrightarrow> fails_clean (fbind m f)"
  unfolding fails_clean_def returns_def fbind_def
  by (auto split: prod.splits sum.splits) (metis fst_conv is_ok.simps(1))+

lemma clean_staged: "fails_clean m \<Longrightarrow> fails_clean (staged stg m)"
  unfolding fails_clean_def staged_def by (fastforce split: prod.splits sum.splits)

lemma clean_fpg:
  assumes "\<And>s e s'. f s = (Inl e, s') \<Longrightarrow> infra e \<or> s' = s"
  shows "fails_clean (fpg f)"
  unfolding fails_clean_def
proof (intro allI impI)
  fix ctx w t ctx' w'
  assume raised: "fpg f ctx w = (Inl t, ctx', w')"
  obtain r s where f: "f (w_pg w) = (r, s)" by (cases "f (w_pg w)")
  then obtain e where "r = Inl e" "tg_exn t = e" "w_pg w' = s"
    using raised by (cases r) (auto simp: fpg_def flift_def fraise_def freturn_def)
  moreover from this have "infra e \<or> s = w_pg w" using assms f by blast
  ultimately show "quiet (w_tables w) (w_tables w') \<or> infra (tg_exn t)" by (auto simp: quiet_refl)
qed

lemma write_canonical_clean:
  assumes "db_infra (rt_env rt)"
  shows "fails_clean (write_canonical rt cfg ev fetched loaded tax r)"
  unfolding write_canonical_def
  by (intro clean_if clean_staged clean_fpg clean_fbind flow_quiet.keeps_pure(3))
    (erule write_catalogue_chunk_raises [OF assms] write_chunk_raises [OF assms])+

lemma process_event_clean:
  assumes "db_infra (rt_env rt)"
  shows "fails_clean (process_event rt cfg ev)"
proof -
  have pw: "fails_clean (post_and_write rt cfg ev fetched loaded facts r)" for fetched loaded facts r
    unfolding post_and_write_def
    by (intro clean_fbind clean_if clean_fbind_returns finish_written_returns write_canonical_clean [OF assms]
        quiet_clean flow_quiet.keeps_fail_gate) (auto intro!: keep split: option.splits)
  have gm: "fails_clean (gate_and_map rt cfg ev fetched loaded facts)" for fetched loaded facts
    unfolding gate_and_map_def
    by (intro clean_fbind clean_if pw quiet_clean [OF flow_quiet.keeps_fail_gate]) (auto intro!: keep)
  show ?thesis unfolding process_event_def by (intro clean_fbind gm) (auto intro!: keep)
qed

definition untouched_unless_written :: "consume_outcome \<Rightarrow> tables \<Rightarrow> tables \<Rightarrow> bool" where
  "untouched_unless_written out a b \<longleftrightarrow> co_disposition out = Disp_written \<or> quiet a b"

lemma untouched_after: "quiet a b \<Longrightarrow> untouched_unless_written out b c \<Longrightarrow> untouched_unless_written out a c"
  using quiet_trans by (auto simp: untouched_unless_written_def)

lemma quiet_untouched: "keeps quiet m \<Longrightarrow> ensures untouched_unless_written m"
  by (auto simp: keeps_def ensures_def untouched_unless_written_def)

lemmas untouched_fbind = ensures_fbind [where R = quiet and Q = untouched_unless_written, OF _ _ untouched_after]

lemma process_event_untouched: "ensures untouched_unless_written (process_event rt cfg ev)"
proof -
  have w: "ensures untouched_unless_written
      (fbind (write_canonical rt cfg ev fetched loaded tax r) (\<lambda>report. finish_written rt ev fetched loaded report))"
    for fetched loaded tax r
    by (rule ensures_yields [OF write_and_finish_yields]) (simp add: untouched_unless_written_def)
  have pw: "ensures untouched_unless_written (post_and_write rt cfg ev fetched loaded facts r)" for fetched loaded facts r
    unfolding post_and_write_def
    by (intro untouched_fbind ensure w quiet_untouched [OF flow_quiet.keeps_fail_gate]) (auto intro!: keep split: option.splits)
  have gm: "ensures untouched_unless_written (gate_and_map rt cfg ev fetched loaded facts)" for fetched loaded facts
    unfolding gate_and_map_def
    by (intro untouched_fbind ensure pw quiet_untouched [OF flow_quiet.keeps_fail_gate]) (auto intro!: keep)
  show ?thesis unfolding process_event_def by (intro untouched_fbind gm) (auto intro!: keep)
qed

lemma handle_failure_infra:
  assumes "infra (tg_exn t)"
  shows "\<not> is_ok (fst (handle_failure rt ev t ctx w))"
proof -
  have "ensures (\<lambda>_ _ _. False) (handle_failure rt ev t)"
    unfolding handle_failure_def Let_def
    by (intro ensures_fbind [where R = "\<lambda>_ _. True"] ensure)
      (use assms in \<open>auto simp: keeps_def quarantinable_def infra_def\<close>)
  then show ?thesis by (auto simp: ensures_def is_ok_iff)
qed

text \<open>C3: All or nothing across the pipeline: an event that is not reported as written, so one that is
  quarantined and acknowledged or failed at a gate, has changed no table but the audit trail
  and the quarantine tables, when the database raises errors of its own only. In particular no
  chunk is acknowledged as quarantined after a part of it was committed.\<close>

theorem unwritten_leaves_canonical_untouched:
  assumes "process rt cfg ev w = (Inr out, w')" and "co_disposition out \<noteq> Disp_written"
    and "\<And>n e. pg_fault (rt_env rt) n = Some e \<Longrightarrow> failure_code_for e \<notin> set CHUNK_QUARANTINE_CODES"
    and "\<And>T r e. pg_reject (rt_env rt) T r = Some e \<Longrightarrow> failure_code_for e \<notin> set CHUNK_QUARANTINE_CODES"
    and "T \<notin> {AUDIT, QCHUNKS, QROWS}"
  shows "w_tables w' T = w_tables w T"
proof -
  let ?w1 = "w\<lparr>w_ticks := Suc (w_ticks w)\<rparr>"
  have env: "db_infra (rt_env rt)" using assms(3,4) by (simp add: db_infra_def infra_def)
  obtain r ctx1 w1 where run: "process_event rt cfg ev (start_context rt w) ?w1 = (r, ctx1, w1)"
    by (cases "process_event rt cfg ev (start_context rt w) ?w1")
  have "quiet (w_tables w) (w_tables w')"
  proof (cases r)
    case (Inl t)
    obtain r2 ctx2 w2 where h: "handle_failure rt ev t ctx1 w1 = (r2, ctx2, w2)" by (cases "handle_failure rt ev t ctx1 w1")
    have "r2 = Inr out" "w2 = w'" using assms(1) by (auto simp: process_def Let_def run Inl h split: sum.splits)
    then have "\<not> infra (tg_exn t)" using handle_failure_infra [of t rt ev ctx1 w1] h by auto
    then have "quiet (w_tables ?w1) (w_tables w1)"
      using process_event_clean [OF env] run Inl unfolding fails_clean_def by blast
    moreover have "quiet (w_tables w1) (w_tables w')" using keepsD [OF flow_quiet.keeps_handle_failure h] \<open>w2 = w'\<close> by simp
    ultimately show ?thesis using quiet_trans by simp
  next
    case (Inr v)
    then have "v = out" "w1 = w'" using assms(1) by (auto simp: process_def Let_def run)
    then have "untouched_unless_written out (w_tables ?w1) (w_tables w')"
      using ensuresD [OF process_event_untouched] run Inr by blast
    then show ?thesis using assms(2) by (simp add: untouched_unless_written_def)
  qed
  then show ?thesis using assms(5) unfolding quiet_def SINK_TABLES_def by blast
qed

end
