(* ===== verification/Subscriber.thy ===== *)
theory Subscriber
  imports Write_Failures Pull_Loop
begin

text \<open>
  The subscriber of the streaming consumer, \<open>clients/pubsub.py\<close>: routing of one message body. The
  pull loop is the one of \<open>Pull_Loop\<close>, with this \<open>process_message\<close> as its handler.
\<close>

section \<open>Model\<close>

record transport = broker +
  tp_decode :: "string \<Rightarrow> pyval option"
  tp_pydantic :: pydantic

definition process_message ::
  "runtime \<Rightarrow> pipeline_config \<Rightarrow> transport \<Rightarrow> string \<Rightarrow> world \<Rightarrow> (exn, decision) result \<times> world" where
  "process_message rt cfg tp data w =
    (case parse_ingress_ready (tp_pydantic tp) (tp_decode tp data) of
       Inl e \<Rightarrow> if isinstance e EventContractError then (Inr Ack, w) else (Inl e, w)
     | Inr ev \<Rightarrow>
       (case process rt cfg ev w of
          (Inl _, w') \<Rightarrow> (Inr Nack, w')
        | (Inr out, w') \<Rightarrow>
            if co_disposition out = Disp_quarantined then (Inr Ack, w')
            else if co_disposition out \<noteq> Disp_written then (Inr Nack, w')
            else (Inr Ack, w')))"

section \<open>Acknowledged means settled\<close>

text \<open>C1: Acknowledged means settled: a message is acknowledged only when its envelope was refused as a
  contract violation, or its chunk was written, or it is held: then the quarantine tables
  have a new record of the event's tenant and trace.\<close>

theorem acked_means_settled:
  assumes "process_message rt cfg tp data w = (Inr Ack, w')"
  shows "(\<exists>e. parse_ingress_ready (tp_pydantic tp) (tp_decode tp data) = Inl e \<and> isinstance e EventContractError \<and> w' = w) \<or>
    (\<exists>ev out. parse_ingress_ready (tp_pydantic tp) (tp_decode tp data) = Inr ev \<and> process rt cfg ev w = (Inr out, w') \<and>
       (co_disposition out = Disp_written \<or>
        (\<exists>T new. T \<in> {QCHUNKS, QROWS} \<and> new \<noteq> [] \<and> w_tables w' T = w_tables w T @ new \<and>
           list_all (\<lambda>r. pget r ''tenant_id'' = PyUuid (ie_tenant_id ev) \<and> pget r ''trace_id'' = PyUuid (ie_trace_id ev)) new)))"
proof (cases "parse_ingress_ready (tp_pydantic tp) (tp_decode tp data)")
  case (Inl e)
  then show ?thesis using assms by (auto simp: process_message_def split: if_splits)
next
  case (Inr ev)
  obtain r w1 where run: "process rt cfg ev w = (r, w1)" by (cases "process rt cfg ev w")
  obtain out where out: "r = Inr out" "w1 = w'" "co_disposition out = Disp_quarantined \<or> co_disposition out = Disp_written"
    using assms by (cases r) (auto simp: process_message_def Inr run split: if_splits)
  show ?thesis
  proof (cases "co_disposition out = Disp_written")
    case False
    then show ?thesis using held_record [of rt cfg ev w out w'] run out Inr by auto
  qed (use run out Inr in auto)
qed

section \<open>A message that blocks the queue\<close>

text \<open>A body whose receipt time has no zone is no contract refusal, so it ends the pass.\<close>

definition naive_receipt :: "transport \<Rightarrow> message \<Rightarrow> bool" where
  "naive_receipt tp m = (case tp_decode tp (ms_data m) of
     Some (PyDict raw) \<Rightarrow> (case dget raw ''received_ts'' of
        Some v \<Rightarrow> (case pd_datetime (tp_pydantic tp) v of Some dt \<Rightarrow> dt_offset dt = None | None \<Rightarrow> False)
      | None \<Rightarrow> False)
   | _ \<Rightarrow> False)"

lemma naive_receipt_raises:
  assumes "naive_receipt tp m"
  shows "process_message rt cfg tp (ms_data m) w = (Inl (py_exn NaiveDatetimeError), w)"
proof -
  from assms obtain raw v dt where "tp_decode tp (ms_data m) = Some (PyDict raw)" "dget raw ''received_ts'' = Some v"
    "pd_datetime (tp_pydantic tp) v = Some dt" "dt_offset dt = None"
    by (auto simp: naive_receipt_def split: option.splits pyval.splits)
  then have "parse_ingress_ready (tp_pydantic tp) (tp_decode tp (ms_data m)) = Inl (py_exn NaiveDatetimeError)"
    by (rule parse_naive_received_ts)
  then show ?thesis by (simp add: process_message_def py_exn_def isinstance_def is_instance_def numeral_eq_Suc)
qed

lemma naive_receipt_poison: "naive_receipt tp m \<Longrightarrow> poisonous (process_message rt cfg tp) m"
  by (simp add: poisonous_def naive_receipt_raises)

text \<open>One message whose receipt time has no zone stops the queue: as long as every pull delivers it
  again, no pass acknowledges or hands back any message, its neighbours that were processed
  included, however many passes there are.\<close>

theorem naive_receipt_blocks_passes:
  assumes "list_all (\<lambda>p. case p of Inl _ \<Rightarrow> True | Inr received \<Rightarrow> list_ex (naive_receipt tp) received) pulls"
  shows "sb_acked (run_passes (process_message rt cfg tp) tp pulls sb) = sb_acked sb \<and>
    sb_nacked (run_passes (process_message rt cfg tp) tp pulls sb) = sb_nacked sb"
proof (rule run_passes_poison)
  show "list_all (\<lambda>p. case p of Inl _ \<Rightarrow> True | Inr received \<Rightarrow> list_ex (poisonous (process_message rt cfg tp)) received) pulls"
    using assms naive_receipt_poison unfolding list_all_iff list_ex_iff by (fastforce split: sum.splits)
qed

section \<open>Any number of passes\<close>

lemma process_message_forward: "forward (w_tables w) (w_tables (snd (process_message rt cfg tp data w)))"
proof -
  have "snd (process_message rt cfg tp data w) = w \<or> (\<exists>ev. snd (process_message rt cfg tp data w) = snd (process rt cfg ev w))"
    by (auto simp: process_message_def split: sum.splits prod.splits if_splits) (metis snd_conv)+
  then show ?thesis using flow_forward.process_R table_relation.R_refl [OF forward_relation] by auto
qed

interpretation consumer_pull: handler_relation "process_message rt cfg tp" "\<lambda>a b. forward (w_tables a) (w_tables b)" for rt cfg tp
  using process_message_forward forward_relation by unfold_locales (auto dest: table_relation.R_refl table_relation.R_trans)

text \<open>C4: Nothing is ever lost, over any number of passes and whatever the pulls deliver: the audit trail,
  the quarantine tables, the bronze and configuration tables and both event histories are the
  old rows followed by new ones, and each row of the current position is untouched or carries
  an event time at least as late as before.\<close>

theorem passes_append_only:
  "if T = HOT
   then hot_le (w_tables (sb_world sb) HOT) (w_tables (sb_world (run_passes (process_message rt cfg tp) tp pulls sb)) HOT)
   else prefix (w_tables (sb_world sb) T) (w_tables (sb_world (run_passes (process_message rt cfg tp) tp pulls sb)) T)"
  using consumer_pull.run_passes_R [of sb rt cfg tp tp pulls] by (simp add: forward_def)

section \<open>Failures that heal by redelivery\<close>

lemma handle_failure_raises:
  assumes "\<not> quarantinable (tg_exn t) (failure_code_for (tg_exn t)) ctx"
  shows "\<exists>ctx' w'. handle_failure rt ev t ctx w = (Inl \<lparr>tg_stage = None, tg_exn = tg_exn t\<rparr>, ctx', w')"
proof -
  have same: "quarantinable e code (ctx\<lparr>fx_mark := m\<rparr>) = quarantinable e code ctx" for e code m
    by (simp add: quarantinable_def)
  obtain g where e: "emit rt x c v = (Inr (), c, g x c v)" for x c v
  proof -
    have "\<exists>v'. emit rt x c v = (Inr (), c, v')" for x c v
      by (simp add: emit_def fbind_def fnow_def split: sum.splits)
    then show thesis by (metis that)
  qed
  show ?thesis using assms
    by (simp add: handle_failure_def Let_def fbind_def lap_def fcontext_def e same fraise_def)
qed

text \<open>C5: Failures that heal by redelivery stay in the queue: when the pipeline fails on a first-seen SKU,
  on a store that is not mirrored yet, before the bronze row was read, or on anything that is
  not one of the three deterministic kinds, the event raises the very error it died of and the
  message is handed back, never acknowledged.\<close>

theorem self_healing_failures_nacked:
  assumes "parse_ingress_ready (tp_pydantic tp) (tp_decode tp data) = Inr ev"
    and "process_event rt cfg ev (start_context rt w) (w\<lparr>w_ticks := Suc (w_ticks w)\<rparr>) = (Inl t, ctx', w')"
    and "isinstance (tg_exn t) HotPositionMissingError \<or> getattr_none (tg_exn t) ''field'' = AStr ''store_id'' \<and> isinstance (tg_exn t) EventContractError \<or>
      fx_dis_channel ctx' = None \<or>
      \<not> (isinstance (tg_exn t) MappingConfigError \<or> isinstance (tg_exn t) SuiteDefinitionError \<or> isinstance (tg_exn t) EventContractError)"
  shows "fst (process rt cfg ev w) = Inl (tg_exn t) \<and> fst (process_message rt cfg tp data w) = Inr Nack"
proof -
  have "\<not> quarantinable (tg_exn t) (failure_code_for (tg_exn t)) ctx'"
    using assms(3) failure_code_for_exact [of "tg_exn t"]
    by (auto simp: quarantinable_def CHUNK_QUARANTINE_CODES_def)
  then obtain c v where "handle_failure rt ev t ctx' w' = (Inl \<lparr>tg_stage = None, tg_exn = tg_exn t\<rparr>, c, v)"
    using handle_failure_raises by blast
  then show ?thesis by (simp add: process_message_def assms(1) process_def Let_def assms(2))
qed

end
