(* ===== verification/Handoff.thy ===== *)
theory Handoff
  imports Ingest_Props Subscriber
begin

text \<open>
  The two services together: the worker's announcement on \<open>ingress.ready\<close> meets the consumer's
  bronze lookup (\<open>streaming_consumer/pipeline/fetch.py\<close>) on the tables the worker left. A fresh
  upload is found; a resumed one is found exactly when it carries the address of the row.
\<close>

section \<open>The consumer's lookup\<close>

lemma fetch_bronze_row_run:
  "fetch_bronze_row rt e ctx w = (case rls_session (rt_env rt) (ie_tenant_id e) (\<lambda>g tabs.
       Inr (case filter (backs e) (tabs BRONZE) of [] \<Rightarrow> None | r # _ \<Rightarrow> Some r, tabs)) (w_pg w) of
     (Inl x, s) \<Rightarrow> (Inl \<lparr>tg_stage = None, tg_exn = x\<rparr>, ctx, w\<lparr>w_pg := s\<rparr>)
   | (Inr found, s) \<Rightarrow> flift (read_bronze_row (\<lambda>_ _ _. Inr (map_option bronze_of found)) e) ctx (w\<lparr>w_pg := s\<rparr>))"
proof -
  have sel: "sql_select (tenant_scope (ie_tenant_id e)) BRONZE
      (\<lambda>r. pget r ''id'' = PyUuid (ie_bronze_ref e) \<and> pget r ''trace_id'' = PyUuid (ie_trace_id e)) tabs =
      filter (backs e) (tabs BRONZE)" for tabs
    by (simp add: sql_select_def backs_def [abs_def])
  show ?thesis
    by (simp add: fetch_bronze_row_def fbind_def fpg_def select_first_def rls_session_def sel flift_def fraise_def freturn_def
        split: prod.splits sum.splits)
qed

lemma open_session:
  "pg_verified s \<Longrightarrow> pg_fault env (pg_txn s) = None \<Longrightarrow>
   fst (rls_session env t (\<lambda>g tabs. Inr (f g tabs, tabs)) s) = Inr (f (tenant_scope t) (pg_tables s))"
  by (simp add: rls_session_def verified_transaction_def Let_def)

lemma fetch_accepts:
  assumes "pg_verified (w_pg w)" and "pg_fault (rt_env rt) (pg_txn (w_pg w)) = None"
    and "filter (backs e) (w_tables w BRONZE) = r # rs"
    and "pget r ''source_id'' = PyStr (ie_source_id e)" and "pget r ''gcs_uri'' = PyStr (ie_gcs_uri e)"
  shows "fst (fetch_bronze_row rt e ctx w) = Inr (bronze_of r)"
proof -
  let ?f = "\<lambda>g tabs. case filter (backs e) (tabs BRONZE) of [] \<Rightarrow> None | r # _ \<Rightarrow> Some r"
  obtain s where run: "rls_session (rt_env rt) (ie_tenant_id e) (\<lambda>g tabs. Inr (?f g tabs, tabs)) (w_pg w) = (Inr (Some r), s)"
    using open_session [OF assms(1,2), of "ie_tenant_id e" ?f] assms(3)
    by (cases "rls_session (rt_env rt) (ie_tenant_id e) (\<lambda>g tabs. Inr (?f g tabs, tabs)) (w_pg w)") simp
  have "read_bronze_row (\<lambda>_ _ _. Inr (map_option bronze_of (Some r))) e = Inr (bronze_of r)"
    using assms(4,5) by (simp add: read_bronze_row_def Let_def) (simp add: bronze_of_def)
  then show ?thesis by (simp add: fetch_bronze_row_run run flift_def freturn_def)
qed

lemma fetch_rejects:
  assumes "\<And>r. r \<in> set (w_tables w BRONZE) \<Longrightarrow> backs e r \<Longrightarrow> py_str (pget r ''gcs_uri'') \<noteq> ie_gcs_uri e"
  shows "\<exists>t w'. fetch_bronze_row rt e ctx w = (Inl t, ctx, w')"
proof -
  let ?f = "\<lambda>tabs. case filter (backs e) (tabs BRONZE) of [] \<Rightarrow> None | r # _ \<Rightarrow> Some r"
  obtain x s where run: "rls_session (rt_env rt) (ie_tenant_id e) (\<lambda>g tabs. Inr (?f tabs, tabs)) (w_pg w) = (x, s)"
    by (cases "rls_session (rt_env rt) (ie_tenant_id e) (\<lambda>g tabs. Inr (?f tabs, tabs)) (w_pg w)")
  show ?thesis
  proof (cases x)
    case (Inr found)
    then have "found = ?f (w_tables w)" using run by (auto simp: rls_session_def dest!: verified_transaction_Inr)
    then have "found = None \<or> (\<exists>r. found = Some r \<and> py_str (pget r ''gcs_uri'') \<noteq> ie_gcs_uri e)"
      using assms by (auto split: list.splits dest!: filter_eq_ConsD)
    then have "\<exists>x. read_bronze_row (\<lambda>_ _ _. Inr (map_option bronze_of found)) e = Inl x"
      by (auto simp: read_bronze_row_def Let_def bronze_of_def)
    then show ?thesis by (auto simp: fetch_bronze_row_run run Inr flift_def fraise_def)
  qed (simp add: fetch_bronze_row_run run)
qed

section \<open>A fresh upload\<close>

lemma stamped_named:
  assumes "build_ingress_ready ev (ce_trace_id ev) i d dl = Inr e" and "\<And>r. r \<in> set B \<Longrightarrow> pget r ''id'' \<noteq> PyUuid i"
  shows "filter (backs e) (map (stamp_row (ce_tenant_id ev) i t) (B @ [landed rt (bronze_for ev i sz sha rc d st)])) =
    [stamp_row (ce_tenant_id ev) i t (landed rt (bronze_for ev i sz sha rc d st))]"
proof -
  have e: "ie_tenant_id e = ce_tenant_id ev" "ie_bronze_ref e = i" "ie_trace_id e = ce_trace_id ev"
    using build_ingress_ready_ids [OF assms(1)] by simp_all
  have "filter (backs e) (map (stamp_row (ce_tenant_id ev) i t) B) = []"
    using assms(2) by (auto simp: filter_empty_conv backs_def e pget_stamp)
  moreover have "backs e (stamp_row (ce_tenant_id ev) i t (landed rt (bronze_for ev i sz sha rc d st)))"
    by (simp add: backs_def e pget_stamp) (simp add: bronze_for_def)
  ultimately show ?thesis by simp
qed

text \<open>C12: What the worker announces the consumer can fetch: after an upload was ingested under a new row
  id, the announcement is in the bronze bucket under its own tenant and source, its key is the
  object the worker read, and the consumer's lookup on these tables returns the row of the
  upload.\<close>

theorem ingested_is_fetchable:
  assumes "ingest_process rt ev s = (Inr out, s')" and "io_disposition out = Ingested"
    and "\<And>r. r \<in> set (pg_tables (wk_pg s) BRONZE) \<Longrightarrow> pget r ''id'' \<noteq> PyUuid (the (io_bronze_id out))"
    and "w_tables w BRONZE = pg_tables (wk_pg s') BRONZE"
    and "pg_verified (w_pg w)" and "pg_fault (rt_env crt) (pg_txn (w_pg w)) = None"
  shows "\<exists>e key b. wk_published s' = wk_published s @ [(wr_ingress_topic rt, e)] \<and>
    cross_check_path e (wr_bronze_bucket rt) = Inr key \<and> is_ok (wr_download rt key) \<and>
    fst (fetch_bronze_row crt e ctx w) = Inr b \<and> br_id b = the (io_bronze_id out) \<and> br_dis_channel b = ''csv_upload''"
  using assms(1,2)
proof (rule ingested_Inr)
  fix key data pre s1
  assume uri: "split_object_uri (ce_gcs_uri ev) = Inr (wr_bronze_bucket rt, key)"
    and path: "\<exists>parsed. parse_object_path key = Inr parsed \<and> pop_tenant_id parsed = ce_tenant_id ev \<and> pop_source_id parsed = ce_source_id ev"
    and data: "wr_download rt key = Inr data" and s1: "ledger_of s1 = ledger_of s" "wk_published s1 = wk_published s"
  assume "ingest_fresh rt ev (wr_sha256 rt data) pre s1 = (Inr out, s')"
  then show ?thesis
  proof (rule ingest_fresh_Inr)
    fix i d t e
    assume i: "io_bronze_id out = Some i" and e: "build_ingress_ready ev (ce_trace_id ev) i d (pf_delimiter pre) = Inr e"
      and pub: "wk_published s' = wk_published s1 @ [(wr_ingress_topic rt, e)]"
    let ?row = "landed rt (bronze_for ev i (pf_size_bytes pre) (wr_sha256 rt data) (Some (pf_row_count pre)) d ''RECEIVED'')"
    assume "fst (ledger_of s') = map (stamp_row (ce_tenant_id ev) i t) (fst (ledger_of s1) @ [?row])"
    then have rows: "w_tables w BRONZE = map (stamp_row (ce_tenant_id ev) i t) (pg_tables (wk_pg s) BRONZE @ [?row])"
      using s1(1) assms(4) by (simp add: ledger_of_def)
    let ?r = "stamp_row (ce_tenant_id ev) i t ?row"
    have named: "filter (backs e) (w_tables w BRONZE) = [?r]"
      unfolding rows by (rule stamped_named [OF e]) (use assms(3) i in simp)
    have ids: "ie_source_id e = ce_source_id ev" "ie_gcs_uri e = ce_gcs_uri ev" "ie_tenant_id e = ce_tenant_id ev"
      using build_ingress_ready_ids [OF e] by simp_all
    have "fst (fetch_bronze_row crt e ctx w) = Inr (bronze_of ?r)"
      by (rule fetch_accepts [OF assms(5,6) named]) (simp_all add: pget_stamp ids, simp_all add: bronze_for_def)
    moreover have "cross_check_path e (wr_bronze_bucket rt) = Inr key"
      using uri path by (auto simp: cross_check_path_def Let_def ids)
    moreover have "br_id (bronze_of ?r) = i" "br_dis_channel (bronze_of ?r) = ''csv_upload''"
      by (simp_all add: bronze_of_def pget_stamp) (simp add: bronze_for_def)
    ultimately show ?thesis using pub s1(2) data i by auto
  qed
qed

section \<open>A resumed upload\<close>

lemma resumed_Inr:
  assumes "ingest_process rt ev s = (Inr out, s')" and "io_disposition out = Duplicate_resumed"
  obtains row e t dl where "row \<in> set (pg_tables (wk_pg s) BRONZE)" and "pget row ''tenant_id'' = PyUuid (ce_tenant_id ev)"
    and "build_ingress_ready ev (pi_trace_id (prior_of row)) (pi_bronze_id (prior_of row)) (pi_received_at (prior_of row)) dl = Inr e"
    and "wk_published s' = wk_published s @ [(wr_ingress_topic rt, e)]"
    and "pg_tables (wk_pg s') BRONZE = map (stamp_row (ce_tenant_id ev) (pi_bronze_id (prior_of row)) t) (pg_tables (wk_pg s) BRONZE)"
  using assms(1)
proof (rule ingest_process_Inr)
  fix key data prior s1
  assume s1: "ledger_of s1 = ledger_of s" "wk_published s1 = wk_published s"
  assume dec: "case prior of
        Some p \<Rightarrow> (\<exists>row \<in> set (fst (ledger_of s)). is_prior rt ev (wr_sha256 rt data) (Suc (wk_ticks s)) row \<and> p = prior_of row) \<and>
          handle_duplicate rt ev p data s1 = (Inr out, s')
      | None \<Rightarrow> (\<exists>exc. handle_preflight_failure rt ev (wr_sha256 rt data) (int (length data)) exc s1 = (Inr out, s')) \<or>
          (\<exists>pre. run_preflight rt data (uuid_str (ce_tenant_id ev)) (uuid_str (ce_trace_id ev)) = Inr pre \<and>
             ingest_fresh rt ev (wr_sha256 rt data) pre s1 = (Inr out, s'))"
  show thesis
  proof (cases prior)
    case None
    then show ?thesis using dec assms(2) by (auto simp: handle_preflight_failure_def eff_Inr elim!: ingest_fresh_Inr)
  next
    case (Some p)
    with dec obtain row where row: "row \<in> set (fst (ledger_of s))" "is_prior rt ev (wr_sha256 rt data) (Suc (wk_ticks s)) row"
      "p = prior_of row" and h: "handle_duplicate rt ev p data s1 = (Inr out, s')" by auto
    show ?thesis
      using handle_duplicate_Inr [OF h] assms(2) that row s1 by (auto simp: is_prior_def ledger_of_def split: if_splits)
  qed
qed

lemma process_unfetchable:
  assumes "\<And>r. r \<in> set (w_tables w BRONZE) \<Longrightarrow> backs e r \<Longrightarrow> py_str (pget r ''gcs_uri'') \<noteq> ie_gcs_uri e"
  shows "\<not> is_ok (fst (process rt cfg e w))"
proof -
  let ?ctx = "start_context rt w" and ?w = "w\<lparr>w_ticks := Suc (w_ticks w)\<rparr>"
  obtain b v where seen: "seen_before rt e ?ctx ?w = (Inr b, ?ctx, v)"
    by (cases "seen_before rt e ?ctx ?w") (auto simp: seen_before_def split: sum.splits prod.splits)
  have "w_tables v = w_tables w"
    using keepsD [OF table_relation.keeps_seen_before [of "\<lambda>a b. b = a"] seen] by (simp add: table_relation_def)
  then obtain t v' where f: "fetch_bronze_row rt e ?ctx v = (Inl t, ?ctx, v')"
    using fetch_rejects [of v e rt ?ctx] assms by auto
  have "\<exists>t v'. fetch_chunk rt cfg e ?ctx v = (Inl t, ?ctx, v')"
    by (cases "cross_check_path e (cfg_bronze_bucket cfg)") (simp_all add: fetch_chunk_def fbind_def flift_def fraise_def freturn_def f)
  then obtain t v' where c: "process_event rt cfg e ?ctx ?w = (Inl t, ?ctx, v')"
    by (auto simp: process_event_def fbind_def seen staged_def)
  have "\<not> quarantinable (tg_exn t) (failure_code_for (tg_exn t)) ?ctx" by (simp add: quarantinable_def start_context_def)
  then obtain c' v'' where "handle_failure rt e t ?ctx v' = (Inl \<lparr>tg_stage = None, tg_exn = tg_exn t\<rparr>, c', v'')"
    using handle_failure_raises by blast
  then show ?thesis by (simp add: process_def Let_def c)
qed

text \<open>C13: An upload that is sent again while its first announcement is missing is lost: the worker
  resumes it with the row of the first attempt and the address of the second, marks the row as
  published, and the consumer raises on that announcement whatever it runs on, because the
  row it names has another address.\<close>

theorem resumed_reupload_unprocessable:
  assumes "ingest_process rt ev s = (Inr out, s')" and "io_disposition out = Duplicate_resumed" and "typed (ledger_of s)"
    and "\<And>r. r \<in> set (pg_tables (wk_pg s) BRONZE) \<Longrightarrow> py_str (pget r ''gcs_uri'') \<noteq> ce_gcs_uri ev"
    and "w_tables w BRONZE = pg_tables (wk_pg s') BRONZE"
  shows "\<exists>e. wk_published s' = wk_published s @ [(wr_ingress_topic rt, e)] \<and>
    (\<exists>r \<in> set (pg_tables (wk_pg s') BRONZE). backs e r \<and> pget r ''processing_status'' = PyStr ''PUBLISHED'') \<and>
    \<not> is_ok (fst (process crt cfg e w))"
  using assms(1,2)
proof (rule resumed_Inr)
  fix row e t dl
  let ?i = "pi_bronze_id (prior_of row)"
  assume row: "row \<in> set (pg_tables (wk_pg s) BRONZE)" "pget row ''tenant_id'' = PyUuid (ce_tenant_id ev)"
    and e: "build_ingress_ready ev (pi_trace_id (prior_of row)) ?i (pi_received_at (prior_of row)) dl = Inr e"
    and pub: "wk_published s' = wk_published s @ [(wr_ingress_topic rt, e)]"
    and rows: "pg_tables (wk_pg s') BRONZE = map (stamp_row (ce_tenant_id ev) ?i t) (pg_tables (wk_pg s) BRONZE)"
  have ids: "ie_gcs_uri e = ce_gcs_uri ev" "ie_tenant_id e = ce_tenant_id ev" "ie_bronze_ref e = ?i" "ie_trace_id e = pi_trace_id (prior_of row)"
    using build_ingress_ready_ids [OF e] by simp_all
  have "bronze_typed row" using assms(3) row(1) by (simp add: typed_def ledger_of_def list_all_iff)
  then have b: "backs e row" by (auto simp: bronze_typed_def backs_def ids row(2) prior_of_def uuid_val_def)
  then have "pget (stamp_row (ce_tenant_id ev) ?i t row) ''processing_status'' = PyStr ''PUBLISHED''"
    by (simp add: stamp_row_def backs_def ids published_columns_def dupdate_def pget_def dget_Cons)
  then have "\<exists>r \<in> set (pg_tables (wk_pg s') BRONZE). backs e r \<and> pget r ''processing_status'' = PyStr ''PUBLISHED''"
    using row(1) b by (auto simp: rows)
  moreover have "\<not> is_ok (fst (process crt cfg e w))"
    by (rule process_unfetchable) (use assms(4,5) in \<open>auto simp: rows ids pget_stamp\<close>)
  ultimately show ?thesis using pub by blast
qed

end
