(* ===== verification/Consumer_Examples.thy ===== *)
theory Consumer_Examples
  imports Subscriber
begin

text \<open>
  A concrete event of the streaming consumer: the bronze row is there and the object is
  downloaded, but its bytes are not CSV, so the chunk is held and acknowledged. It instantiates
  the theorems about the pipeline and the subscriber.
\<close>

definition held_uri :: string where
  "held_uri = ''gs://bronze/'' @ demo_path ''pos''"

definition held_event :: ingress_event where
  "held_event = demo_event\<lparr>ie_gcs_uri := held_uri\<rparr>"

lemma demo_path_parsed:
  "\<exists>p. parse_object_path (demo_path ''pos'') = Inr p \<and> pop_tenant_id p = 5 \<and> pop_source_id p = ''pos''"
proof -
  have e: "py_strip ''pos'' = ''pos''" "py_strip ''trace-1'' = ''trace-1''"
    "py_lstrip_char (CHR ''.'') (py_strip ''.csv'') = ''csv''" by code_simp+
  have b: "build_object_path (uuid_str 5) ''pos'' ''trace-1'' demo_ts ''.csv'' = Inr (demo_path ''pos'')"
    by (rule demo_build) (simp_all add: e)
  show ?thesis using parse_built_path [OF b] by (auto simp: e strip_uuid_str uuid_of_str)
qed

lemma held_uri_split: "split_object_uri held_uri = Inr (''bronze'', demo_path ''pos'')"
proof -
  have s: "py_strip held_uri = held_uri"
    by (rule py_strip_id) (simp_all add: held_uri_def demo_path_def is_space_def)
  have nl: "CHR 0x0A \<notin> set (uuid_str 5)" using uuid_str_chars [of "CHR 0x0A" 5] is_hexl_neq(10) [of "CHR 0x0A"] by (auto simp: is_space_def)
  show ?thesis unfolding split_object_uri_def Let_def s
    by (simp add: held_uri_def is_bucket_char_def demo_path_def nl)
qed

lemma held_path: "cross_check_path held_event ''bronze'' = Inr (demo_path ''pos'')"
  using demo_path_parsed by (auto simp: cross_check_path_def Let_def held_event_def held_uri_split demo_event_def)


definition held_bronze :: payload where
  "held_bronze = [(''id'', PyUuid 5), (''trace_id'', PyUuid 5), (''tenant_id'', PyUuid 5), (''source_id'', PyStr ''pos''),
     (''dis_channel'', PyStr ''csv_upload''), (''gcs_uri'', PyStr held_uri), (''received_at'', PyDt demo_ts)]"

definition held_world :: world where
  "held_world = \<lparr>w_pg = \<lparr>pg_verified = True, pg_txn = 0,
      pg_tables = (\<lambda>T. if T = ''bronze.data_ingress_events'' then [held_bronze] else [])\<rparr>, w_ticks = 0\<rparr>"

definition held_runtime :: runtime where
  "held_runtime = \<lparr>rt_env = demo_env, rt_ps = demo_pystd, rt_pl = demo_polars, rt_pd = demo_pandera,
     rt_json_dumps = (\<lambda>v. ''{}''), rt_mono = int, rt_now = (\<lambda>n. demo_ts), rt_fresh = (\<lambda>i k. 1), rt_row_ids = of_nat,
     rt_read_rules = (\<lambda>v. None), rt_download = (\<lambda>key. Inr ''x''), rt_read_csv = (\<lambda>d data. None),
     rt_exn_str = (\<lambda>e. ''not csv''), rt_exn_name = (\<lambda>e. ''EventContractError'')\<rparr>"

definition held_config :: pipeline_config where
  "held_config = \<lparr>cfg_bronze_bucket = ''bronze'', cfg_batch_size = 500\<rparr>"

lemma demo_session:
  assumes "pg_verified s"
  shows "rls_session demo_env t body s = (case body (tenant_scope t) (pg_tables s) of
     Inl e \<Rightarrow> (Inl e, s\<lparr>pg_txn := Suc (pg_txn s)\<rparr>)
   | Inr (a, tabs) \<Rightarrow> (Inr a, s\<lparr>pg_txn := Suc (pg_txn s), pg_tables := tabs\<rparr>))"
  using assms by (simp add: rls_session_def verified_transaction_def Let_def demo_env_def split: sum.splits prod.splits)

lemma held_runtime_simps [simp]:
  "rt_env held_runtime = demo_env" "rt_json_dumps held_runtime v = ''{}''" "rt_now held_runtime n = demo_ts"
  "rt_download held_runtime key = Inr ''x''" "rt_read_csv held_runtime d data = None" "rt_exn_str held_runtime e = ''not csv''"
  "rt_exn_name held_runtime e = ''EventContractError''" "cfg_bronze_bucket held_config = ''bronze''"
  by (simp_all add: held_runtime_def held_config_def)

lemma held_event_simps [simp]:
  "ie_tenant_id held_event = 5" "ie_trace_id held_event = 5" "ie_bronze_ref held_event = 5" "ie_store_id held_event = 5"
  "ie_source_id held_event = ''pos''" "ie_gcs_uri held_event = held_uri"
  by (simp_all add: held_event_def demo_event_def)

lemma held_bronze_simps [simp]:
  "pget held_bronze ''id'' = PyUuid 5" "pget held_bronze ''trace_id'' = PyUuid 5" "pget held_bronze ''tenant_id'' = PyUuid 5"
  "pget held_bronze ''source_id'' = PyStr ''pos''" "pget held_bronze ''dis_channel'' = PyStr ''csv_upload''"
  "pget held_bronze ''gcs_uri'' = PyStr held_uri"
  by (simp_all add: held_bronze_def pget_def dget_Cons)

definition bad_csv :: exn where
  "bad_csv = event_contract_error None (Some (uuid_str 5)) (Some (uuid_str 5))"

lemma held_fetch:
  assumes "pg_verified (w_pg w)" and "w_tables w ''bronze.data_ingress_events'' = [held_bronze]"
  shows "fetch_chunk held_runtime held_config held_event ctx w =
    (Inl \<lparr>tg_stage = None, tg_exn = bad_csv\<rparr>, ctx\<lparr>fx_bronze_id := Some 5, fx_dis_channel := Some ''csv_upload''\<rparr>,
     w\<lparr>w_pg := (w_pg w)\<lparr>pg_txn := Suc (pg_txn (w_pg w))\<rparr>\<rparr>)"
  using assms
  by (simp add: fetch_chunk_def fbind_def flift_def freturn_def fraise_def held_path fetch_bronze_row_def fpg_def select_first_def
      demo_session sql_select_def read_bronze_row_def Let_def bronze_of_def fnote_def note_bronze_def parse_chunk_def bad_csv_def)

lemma held_process_event:
  "\<exists>ctx w. process_event held_runtime held_config held_event (start_context held_runtime held_world)
      (held_world\<lparr>w_ticks := Suc 0\<rparr>) = (Inl \<lparr>tg_stage = Some RECEIVED, tg_exn = bad_csv\<rparr>, ctx, w) \<and>
    fx_dis_channel ctx = Some ''csv_upload'' \<and> fx_bronze_id ctx = Some 5 \<and> fx_row_count ctx = None \<and> fx_mapping_version_id ctx = None \<and>
    pg_verified (w_pg w) \<and> w_tables w = w_tables held_world"
proof -
  let ?w = "held_world\<lparr>w_ticks := Suc 0\<rparr>"
  have seen: "seen_before held_runtime held_event ctx ?w = (Inr False, ctx, ?w\<lparr>w_pg := (w_pg ?w)\<lparr>pg_txn := Suc 0\<rparr>\<rparr>)" for ctx
    by (simp add: seen_before_def demo_session held_world_def sql_select_def)
  show ?thesis
    by (simp add: process_event_def fbind_def [of "seen_before rt ev" for rt ev] seen)
      (simp add: fbind_def staged_def held_fetch held_world_def start_context_def)
qed

lemma session_verified: "pg_verified s \<Longrightarrow> pg_verified (snd (rls_session env t body s))"
  by (simp add: rls_session_def verified_transaction_def Let_def split: option.splits sum.splits prod.splits)

lemma audit_write_verified: "pg_verified s \<Longrightarrow> pg_verified (snd (audit_write env dumps e s))"
proof (cases "ae_tenant_id e")
  case (Some t)
  let ?body = "\<lambda>g tabs. rbind (sql_insert env g AUDIT (map (\<lambda>(c, v). (c, if c = ''event_data'' then pg_jsonb env v else v))
    (audit_insert_params dumps e)) tabs) (\<lambda>tabs'. Inr ((), tabs'))"
  have "snd (audit_write env dumps e s) = snd (rls_session env t ?body s)"
    by (simp add: audit_write_def Some split: prod.splits sum.splits)
  then show "pg_verified s \<Longrightarrow> pg_verified (snd (audit_write env dumps e s))" by (simp add: session_verified)
qed (simp add: audit_write_def)

lemma emit_cases: "\<exists>w'. emit rt e ctx w = (Inr (), ctx, w') \<and> (pg_verified (w_pg w) \<longrightarrow> pg_verified (w_pg w'))"
  by (simp add: emit_def fbind_def fnow_def audit_write_verified split: sum.splits)

lemma held_uri_length: "length held_uri \<le> 1024"
  by (simp add: held_uri_def demo_path_def uuid_str_def dashed_def)

lemma demo_hold_chunk:
  assumes "pg_verified s"
  shows "\<exists>s'. hold_chunk demo_env dumps r s = (Inr (), s') \<and> pg_verified s'"
proof -
  let ?cols = "cast_context demo_env (chunk_insert_params dumps r)"
  have "mine (demo_event\<lparr>ie_tenant_id := qr_tenant_id r, ie_trace_id := qr_trace_id r\<rparr>) (dupdate (pg_defaults demo_env QCHUNKS) ?cols)"
    by (rule chunk_record_mine) (simp_all add: demo_event_def)
  then have "admit demo_env (tenant_scope (qr_tenant_id r)) QCHUNKS (dupdate (pg_defaults demo_env QCHUNKS) ?cols) =
      Inr (dupdate (pg_defaults demo_env QCHUNKS) ?cols)"
    by (simp add: admit_Inr mine_def) (simp add: demo_env_def demo_event_def)
  then have "sql_insert demo_env (tenant_scope (qr_tenant_id r)) QCHUNKS ?cols (pg_tables s) =
      Inr ((pg_tables s)(QCHUNKS := pg_tables s QCHUNKS @ [dupdate (pg_defaults demo_env QCHUNKS) ?cols]))"
    using chunk_params_distinct [of dumps r] by (simp add: sql_insert_Inr)
  then show ?thesis using assms by (simp add: hold_chunk_def demo_session)
qed

lemma held_hold:
  assumes "pg_verified (w_pg w)" and "fx_dis_channel ctx = Some ''csv_upload''" and "fx_bronze_id ctx = Some 5"
    and "fx_row_count ctx = None"
  shows "\<exists>w'. hold_chunk_failure held_runtime held_event RECEIVED CONTRACT_VIOLATION ''not csv'' (Some ''EventContractError'') None ctx w =
    (Inr (), ctx, w')"
proof -
  have b: "1 \<le> length held_uri" by (simp add: held_uri_def)
  have "\<exists>r s. hold_chunk_failure held_runtime held_event RECEIVED CONTRACT_VIOLATION ''not csv'' (Some ''EventContractError'') None ctx w =
      fpg (hold_chunk demo_env (rt_json_dumps held_runtime) r) ctx (w\<lparr>w_ticks := s\<rparr>)"
    using assms held_uri_length b
    by (auto simp: hold_chunk_failure_def fbind_def fcontext_def fnow_def Let_def flift_def freturn_def
        validate_chunk_def demo_ts_utc base_ok_def between_def DIS_CHANNELS_def non_neg_def)
  then obtain r k where h: "hold_chunk_failure held_runtime held_event RECEIVED CONTRACT_VIOLATION ''not csv'' (Some ''EventContractError'') None ctx w =
      fpg (hold_chunk demo_env (rt_json_dumps held_runtime) r) ctx (w\<lparr>w_ticks := k\<rparr>)" by (elim exE)
  obtain s' where "hold_chunk demo_env (rt_json_dumps held_runtime) r (w_pg w) = (Inr (), s')"
    using demo_hold_chunk [OF assms(1), of "rt_json_dumps held_runtime" r] by (elim exE conjE) (rule that)
  then show ?thesis by (simp add: h fpg_def flift_def freturn_def)
qed

lemma returns_run: "returns m \<Longrightarrow> \<exists>a ctx' w'. m ctx w = (Inr a, ctx', w')"
  unfolding returns_def is_ok_iff by (metis prod.collapse)

lemma held_processed: "\<exists>w'. process held_runtime held_config held_event held_world = (Inr \<lparr>co_disposition = Disp_quarantined, co_report = None\<rparr>, w')"
proof -
  from held_process_event obtain ctx w where run: "process_event held_runtime held_config held_event (start_context held_runtime held_world)
      (held_world\<lparr>w_ticks := Suc 0\<rparr>) = (Inl \<lparr>tg_stage = Some RECEIVED, tg_exn = bad_csv\<rparr>, ctx, w)"
    and ctx: "fx_dis_channel ctx = Some ''csv_upload''" "fx_bronze_id ctx = Some 5" "fx_row_count ctx = None" and v: "pg_verified (w_pg w)"
    by (elim exE conjE) (rule that)
  have code: "failure_code_for bad_csv = CONTRACT_VIOLATION" "getattr_none bad_csv ''field'' \<noteq> AStr ''store_id''"
    by (simp_all add: failure_code_for_exact bad_csv_def exn_defs isinstance_def is_instance_def numeral_eq_Suc getattr_none_def dget_Cons)
  obtain ms ctx1 w1 where lap: "lap held_runtime ctx w = (Inr ms, ctx1, w1)" and pg: "w_pg w1 = w_pg w"
    and ctx1: "fx_dis_channel ctx1 = Some ''csv_upload''" "fx_bronze_id ctx1 = Some 5" "fx_row_count ctx1 = None"
    using ctx by (simp add: lap_def Let_def)
  have quar: "quarantinable bad_csv CONTRACT_VIOLATION ctx1"
    using code ctx1 by (simp add: quarantinable_def CHUNK_QUARANTINE_CODES_def)
  have "\<forall>x. \<exists>w2. emit held_runtime x ctx1 w1 = (Inr (), ctx1, w2) \<and> pg_verified (w_pg w2)"
    using emit_cases [of held_runtime _ ctx1 w1] v pg by simp
  then obtain f where e: "emit held_runtime x ctx1 w1 = (Inr (), ctx1, f x)" "pg_verified (w_pg (f x))" for x
    by (auto dest!: choice)
  have "\<forall>x. \<exists>w3. hold_chunk_failure held_runtime held_event RECEIVED CONTRACT_VIOLATION ''not csv'' (Some ''EventContractError'') None ctx1 (f x) =
      (Inr (), ctx1, w3)" using held_hold [OF e(2) ctx1] by blast
  then obtain k where h: "hold_chunk_failure held_runtime held_event RECEIVED CONTRACT_VIOLATION ''not csv'' (Some ''EventContractError'') None
      ctx1 (f x) = (Inr (), ctx1, k x)" for x by (auto dest!: choice)
  have "returns (emit_quarantined held_runtime held_event RECEIVED CONTRACT_VIOLATION ''quarantined_chunks'' 1 ''not csv'')"
    unfolding emit_quarantined_def by (intro returns_fbind returns_basic emit_returns)
  then have "\<forall>w3. \<exists>x. emit_quarantined held_runtime held_event RECEIVED CONTRACT_VIOLATION ''quarantined_chunks'' 1 ''not csv'' ctx1 w3 =
      (Inr (), x)" using returns_run by fastforce
  then obtain g where q: "emit_quarantined held_runtime held_event RECEIVED CONTRACT_VIOLATION ''quarantined_chunks'' 1 ''not csv'' ctx1 w3 =
      (Inr (), g w3)" for w3 by (auto dest!: choice)
  have ticks: "w_ticks held_world = 0" by (simp add: held_world_def)
  have "\<exists>ctx' w'. handle_failure held_runtime held_event \<lparr>tg_stage = Some RECEIVED, tg_exn = bad_csv\<rparr> ctx w =
      (Inr \<lparr>co_disposition = Disp_quarantined, co_report = None\<rparr>, ctx', w')"
    by (simp add: handle_failure_def Let_def fbind_def lap fcontext_def code(1) e(1) quar h q [simplified] freturn_def split: prod.splits)
  then show ?thesis by (elim exE) (simp add: process_def Let_def run ticks)
qed

section \<open>Witnesses\<close>

definition held_transport :: transport where
  "held_transport = \<lparr>tp_acknowledge = (\<lambda>n ids. None), tp_modify_ack_deadline = (\<lambda>n ids. None),
     tp_decode = (\<lambda>data. Some (PyDict (if data = ''held'' then demo_envelope held_uri demo_ts
       else demo_envelope held_uri (PyDatetime 0 None)))),
     tp_pydantic = demo_pydantic\<rparr>"

definition held_subscription :: "world subscription" where
  "held_subscription = \<lparr>sb_world = held_world, sb_calls = 0, sb_acked = [], sb_nacked = []\<rparr>"

lemma held_parsed: "parse_ingress_ready (tp_pydantic held_transport) (tp_decode held_transport ''held'') = Inr held_event"
  using demo_event_parsed [of held_uri] by (simp add: held_transport_def held_event_def held_uri_def)

lemma held_acked: "\<exists>w'. process_message held_runtime held_config held_transport ''held'' held_world = (Inr Ack, w')"
  using held_processed by (elim exE) (simp add: process_message_def held_parsed)

theorem acked_means_settled_witness:
  "\<exists>w' T new. process_message held_runtime held_config held_transport ''held'' held_world = (Inr Ack, w') \<and>
     T \<in> {QCHUNKS, QROWS} \<and> new \<noteq> [] \<and> w_tables w' T = w_tables held_world T @ new"
proof -
  obtain w' where run: "process_message held_runtime held_config held_transport ''held'' held_world = (Inr Ack, w')"
    using held_acked by (rule exE)
  obtain v where p: "process held_runtime held_config held_event held_world = (Inr \<lparr>co_disposition = Disp_quarantined, co_report = None\<rparr>, v)"
    using held_processed by (rule exE)
  from acked_means_settled [OF run] show ?thesis
  proof (elim disjE exE conjE)
    fix ev out assume "process held_runtime held_config ev held_world = (Inr out, w')" "co_disposition out = Disp_written"
      "parse_ingress_ready (tp_pydantic held_transport) (tp_decode held_transport ''held'') = Inr ev"
    then show ?thesis using p held_parsed by auto
  next
    fix T new assume "T \<in> {QCHUNKS, QROWS}" "new \<noteq> []" "w_tables w' T = w_tables held_world T @ new"
    with run show ?thesis by (intro exI conjI)
  qed (use held_parsed in simp)
qed

theorem poll_once_settles_each_witness:
  "\<exists>sb'. poll_once (process_message held_runtime held_config held_transport) held_transport (Inr [\<lparr>ms_ack_id = ''a1'', ms_data = ''held''\<rparr>]) held_subscription = (Inr 1, sb') \<and>
     mset (sb_acked sb') + mset (sb_nacked sb') = {#''a1''#}"
proof -
  let ?m = "\<lparr>ms_ack_id = ''a1'', ms_data = ''held''\<rparr>"
  have tp: "tp_acknowledge held_transport k ids = None" for k ids by (simp add: held_transport_def)
  obtain w' where run: "process_message held_runtime held_config held_transport ''held'' held_world = (Inr Ack, w')"
    using held_acked by (rule exE)
  obtain sb' where p: "poll_once (process_message held_runtime held_config held_transport) held_transport (Inr [?m]) held_subscription = (Inr 1, sb')"
    using run by (simp add: poll_once_def held_subscription_def acknowledge_def hand_back_def Let_def tp)
  from poll_once_settles_each [OF p] show ?thesis using p by (auto simp: held_subscription_def)
qed

theorem naive_receipt_blocks_passes_witness:
  "sb_acked (run_passes (process_message held_runtime held_config held_transport) held_transport
     [Inr [\<lparr>ms_ack_id = ''a1'', ms_data = ''held''\<rparr>, \<lparr>ms_ack_id = ''a2'', ms_data = ''naive''\<rparr>]] held_subscription) = []"
proof -
  let ?pulls = "[Inr [\<lparr>ms_ack_id = ''a1'', ms_data = ''held''\<rparr>, \<lparr>ms_ack_id = ''a2'', ms_data = ''naive''\<rparr>]] :: (exn, message list) result list"
  have "naive_receipt held_transport \<lparr>ms_ack_id = ''a2'', ms_data = ''naive''\<rparr>"
    by (simp add: naive_receipt_def held_transport_def demo_envelope_fields) (simp add: demo_pydantic_def)
  then show ?thesis
    using naive_receipt_blocks_passes [of held_transport ?pulls held_runtime held_config held_subscription]
    by (simp add: held_subscription_def)
qed

definition unseen_world :: world where
  "unseen_world = \<lparr>w_pg = \<lparr>pg_verified = True, pg_txn = 0, pg_tables = (\<lambda>T. [])\<rparr>, w_ticks = 0\<rparr>"

lemma unseen_process_event:
  "\<exists>t ctx w. process_event held_runtime held_config held_event (start_context held_runtime unseen_world)
      (unseen_world\<lparr>w_ticks := Suc (w_ticks unseen_world)\<rparr>) = (Inl t, ctx, w) \<and> fx_dis_channel ctx = None"
  by (simp add: process_event_def fbind_def seen_before_def demo_session unseen_world_def staged_def fetch_chunk_def held_path
      flift_def freturn_def fraise_def fetch_bronze_row_def fpg_def select_first_def sql_select_def read_bronze_row_def Let_def start_context_def)

theorem self_healing_failures_nacked_witness:
  "fst (process_message held_runtime held_config held_transport ''held'' unseen_world) = Inr Nack"
proof -
  obtain t ctx w where "process_event held_runtime held_config held_event (start_context held_runtime unseen_world)
      (unseen_world\<lparr>w_ticks := Suc (w_ticks unseen_world)\<rparr>) = (Inl t, ctx, w)" "fx_dis_channel ctx = None"
    using unseen_process_event by (elim exE conjE) (rule that)
  then show ?thesis using self_healing_failures_nacked [OF held_parsed] by blast
qed

theorem unwritten_leaves_canonical_untouched_witness:
  "\<exists>out w'. process held_runtime held_config held_event held_world = (Inr out, w') \<and> co_disposition out = Disp_quarantined \<and>
     w_tables w' HOT = []"
proof -
  obtain w' where run: "process held_runtime held_config held_event held_world = (Inr \<lparr>co_disposition = Disp_quarantined, co_report = None\<rparr>, w')"
    using held_processed by (rule exE)
  have "w_tables w' HOT = w_tables held_world HOT"
    by (rule unwritten_leaves_canonical_untouched [OF run]) (simp_all add: demo_env_def)
  moreover have "w_tables held_world HOT = []" by (simp add: held_world_def)
  ultimately show ?thesis using run by simp
qed

end
