(* ===== verification/Ingest_Examples.thy ===== *)
theory Ingest_Examples
  imports Ingest_Progress Handoff Consumer_Examples
begin

text \<open>
  A concrete CSV ingest worker: one upload into an empty database, the same content two days after
  its first upload, a retry after an interrupted first delivery, a file with personal data, and
  an address that cannot be parsed. They instantiate the theorems about the worker.
\<close>

definition upload_path :: "uuid \<Rightarrow> string" where
  "upload_path u = ''tenant/'' @ uuid_str 5 @ ''/source/pos/yyyy=2021/mm=07/dd=30/'' @ uuid_str u @ ''.csv''"

definition upload_uri :: "uuid \<Rightarrow> string" where
  "upload_uri u = ''gs://bronze/'' @ upload_path u"

definition demo_upload :: "uuid \<Rightarrow> csv_event" where
  "demo_upload u = demo_csv\<lparr>ce_trace_id := u, ce_gcs_uri := upload_uri u\<rparr>"

definition reupload_runtime :: worker_runtime where
  "reupload_runtime = \<lparr>wr_env = demo_env, wr_json_dumps = (\<lambda>v. ''{}''), wr_mono = int, wr_clock = (\<lambda>n. 738000 * us_per_day),
     wr_new_id = (\<lambda>n. 9), wr_download = (\<lambda>key. Inr ''sku''), wr_sha256 = (\<lambda>data. ''h''),
     wr_sniff = (\<lambda>data. Sniffed '','' True [(''sku'', ''VARCHAR'')] (Some 1)), wr_publish = (\<lambda>n topic e. None),
     wr_exn_str = (\<lambda>e. ''failed''), wr_exn_name = (\<lambda>e. ''Error''), wr_bronze_bucket = ''bronze'',
     wr_ingress_topic = ''ingress.ready'', wr_pii_backend = False\<rparr>"

definition upload_preflight :: preflight_result where
  "upload_preflight = \<lparr>pf_columns = [''sku''], pf_column_types = [''VARCHAR''], pf_row_count = 1, pf_size_bytes = 3, pf_delimiter = '',''\<rparr>"

text \<open>A worker whose bronze table has the given rows.\<close>

definition upload_worker :: "payload list \<Rightarrow> worker" where
  "upload_worker rows = \<lparr>wk_pg = demo_state\<lparr>pg_tables := (\<lambda>T. if T = BRONZE then rows else [])\<rparr>, wk_ticks = 0, wk_mark = 0,
     wk_sends = 0, wk_published = []\<rparr>"

text \<open>The row of an earlier delivery that stopped before its publish, a number of days ago.\<close>

definition earlier_row :: "nat \<Rightarrow> payload" where
  "earlier_row days = landed reupload_runtime (bronze_for (demo_upload 5) 8 3 ''h'' (Some 1)
     (PyDatetime ((738000 - int days) * us_per_day) (Some 0)) ''RECEIVED'')"

section \<open>The upload is well formed\<close>

lemma uuid_str_plain: "CHR ''/'' \<notin> set (uuid_str u)" "CHR 0x0A \<notin> set (uuid_str u)"
  using uuid_str_chars [of "CHR ''/''" u] uuid_str_chars [of "CHR 0x0A" u] is_hexl_neq(9) [of "CHR ''/''"] is_hexl_neq(10) [of "CHR 0x0A"]
  by (auto simp: is_space_def)

lemma upload_path_parsed:
  "\<exists>p. parse_object_path (upload_path u) = Inr p \<and> pop_tenant_id p = 5 \<and> pop_source_id p = ''pos'' \<and>
     pop_trace_id p = uuid_str u \<and> pop_ext p = ''csv''"
proof -
  have e: "py_strip ''pos'' = ''pos''" "py_lstrip_char (CHR ''.'') (py_strip ''csv'') = ''csv''"
    "ensure_utc demo_ts = Inr demo_ts" "fmt_0d 4 (nat (dt_year demo_ts)) = ''2021''"
    "fmt_0d 2 (dt_month demo_ts) = ''07''" "fmt_0d 2 (nat (dt_day demo_ts)) = ''30''" by code_simp+
  have "build_object_path (uuid_str 5) ''pos'' (uuid_str u) demo_ts ''csv'' = Inr (upload_path u)"
    by (simp add: build_object_path_def coerce_tenant_uuid_def strip_uuid_str uuid_of_str uuid_str_nonempty e upload_path_def)
  from parse_built_path [OF this] show ?thesis by (auto simp: e strip_uuid_str uuid_of_str uuid_str_plain)
qed

lemma upload_uri_split: "split_object_uri (upload_uri u) = Inr (''bronze'', upload_path u)"
proof -
  have s: "py_strip (upload_uri u) = upload_uri u"
    by (rule py_strip_id) (simp_all add: upload_uri_def upload_path_def is_space_def)
  show ?thesis unfolding split_object_uri_def Let_def s
    by (simp add: upload_uri_def is_bucket_char_def upload_path_def uuid_str_plain)
qed

lemma upload_runtime_simps [simp]:
  "wr_env reupload_runtime = demo_env" "wr_bronze_bucket reupload_runtime = ''bronze''" "wr_ingress_topic reupload_runtime = ''ingress.ready''"
  "wr_download reupload_runtime key = Inr ''sku''" "wr_sha256 reupload_runtime data = ''h''" "wr_clock reupload_runtime n = 738000 * us_per_day"
  "\<not> wr_pii_backend reupload_runtime"
  by (simp_all add: reupload_runtime_def)

lemma demo_upload_simps [simp]:
  "ce_tenant_id (demo_upload u) = 5" "ce_trace_id (demo_upload u) = u" "ce_source_id (demo_upload u) = ''pos''"
  "ce_upload_session_id (demo_upload u) = ''us_000000000000''" "ce_gcs_uri (demo_upload u) = upload_uri u"
  by (simp_all add: demo_upload_def demo_csv_def)

lemma upload_preflight_run: "run_preflight reupload_runtime ''sku'' tenant trace = Inr upload_preflight"
  by (simp add: run_preflight_def blank_bytes_def reupload_runtime_def upload_preflight_def)

lemma upload_healthy: "healthy reupload_runtime" and upload_sane: "sane reupload_runtime"
proof -
  have "dt_in_range (738000 * us_per_day)" by code_simp
  moreover have "check_posture (pg_posture demo_env) = Inr ()" by (simp add: demo_env_def) code_simp
  ultimately show "healthy reupload_runtime" by (simp add: healthy_def) (simp add: demo_env_def reupload_runtime_def)
  show "sane reupload_runtime" by (simp add: sane_def mono_def) (simp add: demo_env_def pget_def)
qed

lemma upload_well_formed: "well_formed_upload reupload_runtime (demo_upload u) ''sku'' upload_preflight"
proof -
  have "\<not> is_pii_column ''sku''" "py_strip ''us_000000000000'' \<noteq> []" "py_strip ''h'' \<noteq> []" by code_simp+
  then show ?thesis
    using upload_path_parsed [of u] by (auto simp: well_formed_upload_def upload_uri_split upload_preflight_run)
      (simp_all add: upload_preflight_def upload_uri_def)
qed

section \<open>Runs\<close>

lemma earlier_row_simps [simp]:
  "bronze_typed (earlier_row days)" "pget (earlier_row days) ''gcs_uri'' = PyStr (upload_uri 5)" "pget (earlier_row days) ''id'' = PyUuid 8"
  "pget (earlier_row days) ''tenant_id'' = PyUuid 5" "same_upload ''us_000000000000'' ''h'' (earlier_row days)"
  "row_instant (earlier_row days) ''received_at'' = Some ((738000 - int days) * us_per_day)"
  "pi_received_at (prior_of (earlier_row days)) = PyDatetime ((738000 - int days) * us_per_day) (Some 0)"
  by (simp_all add: earlier_row_def bronze_typed_def same_upload_def row_instant_def prior_of_def dt_val_def dt_instant_def)
    (simp_all add: bronze_for_def dt_instant_def)

lemma earlier_row_open: "pi_processing_status (prior_of (earlier_row days)) = ''RECEIVED''" "\<not> is_published (prior_of (earlier_row days))"
proof -
  show s: "pi_processing_status (prior_of (earlier_row days)) = ''RECEIVED''"
    by (simp add: earlier_row_def bronze_for_landed)
  have "pi_published_at (prior_of (earlier_row days)) = None"
    using landed_unmarked [of reupload_runtime] upload_sane by (simp add: earlier_row_def marked_def sane_def prior_of_def)
  then show "\<not> is_published (prior_of (earlier_row days))" by (simp add: is_published_def s)
qed

lemma upload_worker_simps [simp]:
  "pg_tables (wk_pg (upload_worker rows)) BRONZE = rows" "wk_published (upload_worker rows) = []" "wk_ticks (upload_worker rows) = 0"
  "ledger_of (upload_worker rows) = (rows, [])"
  by (simp_all add: upload_worker_def ledger_of_def)

lemma earlier_in_range: "days \<le> 2 \<Longrightarrow> is_ok (ensure_utc (PyDatetime ((738000 - int days) * us_per_day) (Some 0)))"
  by (simp add: ensure_utc_def dt_in_range_def us_per_day_def)

lemma upload_runs:
  assumes "set rows \<subseteq> {earlier_row 0, earlier_row 2}"
  shows "\<exists>out s'. ingest_process reupload_runtime (demo_upload u) (upload_worker rows) = (Inr out, s')"
  by (rule upload_returns [OF upload_healthy upload_well_formed]) (use assms earlier_in_range [of 0] earlier_in_range [of 2] in auto)

text \<open>With no row of this content in the window the upload is ingested; with an open one it is resumed.\<close>

lemma upload_disposition:
  assumes "ingest_process reupload_runtime (demo_upload u) (upload_worker rows) = (Inr out, s')"
  shows "rows = [] \<or> rows = [earlier_row 2] \<Longrightarrow> io_disposition out = Ingested"
    and "rows = [earlier_row 0] \<Longrightarrow> io_disposition out = Duplicate_resumed"
proof -
  let ?s = "upload_worker rows\<lparr>wk_mark := wr_mono reupload_runtime 0, wk_ticks := Suc 0\<rparr>"
  obtain key where key: "worker_cross_check reupload_runtime (demo_upload u) ?s = (Inr key, ?s)"
    using well_formed_cross_check [OF upload_well_formed] by blast
  have strip: "py_strip ''us_000000000000'' \<noteq> []" "py_strip ''h'' \<noteq> []" by code_simp+
  obtain prior s1 where f: "find_prior reupload_runtime (demo_upload u) ''h'' ?s = (Inr prior, s1)"
    using givesD [OF gives_find_prior [OF upload_healthy]] strip by (metis demo_upload_simps(4))
  have run: "(case prior of Some p \<Rightarrow> handle_duplicate reupload_runtime (demo_upload u) p ''sku''
      | None \<Rightarrow> ingest_fresh reupload_runtime (demo_upload u) ''h'' upload_preflight) s1 = (Inr out, s')"
    using assms by (simp add: ingest_process_def ingest_event_def ebind_def key elift_def f upload_preflight_run split: option.splits)
  have win: "received_since (738000 * us_per_day - dedup_window) (earlier_row days) \<longleftrightarrow> days \<le> 1" for days
    by (simp add: received_since_def dedup_window_def DEDUP_WINDOW_HOURS_def us_per_day_def)
  have prior: "prior = Some p \<Longrightarrow> \<exists>r \<in> set rows. is_prior reupload_runtime (demo_upload u) ''h'' (Suc 0) r \<and> p = prior_of r"
    "prior = None \<Longrightarrow> filter (is_prior reupload_runtime (demo_upload u) ''h'' (Suc 0)) rows = []" for p
    using find_prior_run(2,3) [OF f] by (auto simp: ledger_of_def)
  show "io_disposition out = Ingested" if "rows = [] \<or> rows = [earlier_row 2]"
  proof -
    have "prior = None" using that prior(1) by (cases prior) (auto simp: is_prior_def win)
    then show ?thesis using run by (auto elim!: ingest_fresh_Inr)
  qed
  show "io_disposition out = Duplicate_resumed" if "rows = [earlier_row 0]"
  proof -
    have "prior \<noteq> None" using that prior(2) by (auto simp: is_prior_def win)
    then have "prior = Some (prior_of (earlier_row 0))" using that prior(1) by auto
    then show ?thesis using run handle_duplicate_Inr earlier_row_open by fastforce
  qed
qed

section \<open>Messages\<close>

definition upload_doc :: "string \<Rightarrow> payload" where
  "upload_doc uri = [(''schema_version'', PyInt 1), (''trace_id'', PyStr ''t''), (''tenant_id'', PyStr ''a''), (''store_id'', PyStr ''s''),
     (''source_id'', PyStr ''pos''), (''template_id'', PyStr ''m''), (''upload_session_id'', PyStr ''us_000000000000''),
     (''gcs_uri'', PyStr uri), (''received_ts'', PyDt demo_ts), (''tenant_display_code'', PyStr ''T'')]"

definition upload_intake :: intake where
  "upload_intake = \<lparr>in_decode = (\<lambda>data. Some (PyDict (upload_doc (if data = ''good'' then upload_uri 5 else ''bad'')))), in_pydantic = demo_pydantic\<rparr>"

definition upload_broker :: broker where
  "upload_broker = \<lparr>tp_acknowledge = (\<lambda>n ids. None), tp_modify_ack_deadline = (\<lambda>n ids. None)\<rparr>"

definition upload_subscription :: "payload list \<Rightarrow> worker subscription" where
  "upload_subscription rows = \<lparr>sb_world = upload_worker rows, sb_calls = 0, sb_acked = [], sb_nacked = []\<rparr>"

definition good_message :: message where
  "good_message = \<lparr>ms_ack_id = ''a1'', ms_data = ''good''\<rparr>"

lemma upload_doc_fields:
  "dget (upload_doc uri) ''schema_version'' = Some (PyInt 1)" "dget (upload_doc uri) ''trace_id'' = Some (PyStr ''t'')"
  "dget (upload_doc uri) ''tenant_id'' = Some (PyStr ''a'')" "dget (upload_doc uri) ''store_id'' = Some (PyStr ''s'')"
  "dget (upload_doc uri) ''source_id'' = Some (PyStr ''pos'')" "dget (upload_doc uri) ''template_id'' = Some (PyStr ''m'')"
  "dget (upload_doc uri) ''upload_session_id'' = Some (PyStr ''us_000000000000'')" "dget (upload_doc uri) ''gcs_uri'' = Some (PyStr uri)"
  "dget (upload_doc uri) ''received_ts'' = Some (PyDt demo_ts)" "dget (upload_doc uri) ''delimiter'' = None"
  "dget (upload_doc uri) ''tenant_display_code'' = Some (PyStr ''T'')" "dget (upload_doc uri) ''store_code'' = None"
  "filter (\<lambda>k. k \<notin> set csv_fields) (dkeys (upload_doc uri)) = []"
  by (simp_all add: upload_doc_def dget_Cons csv_fields_def)

lemma upload_parsed:
  assumes "uri \<noteq> []"
  shows "parse_csv_received demo_pydantic (Some (PyDict (upload_doc uri))) = Inr (demo_csv\<lparr>ce_gcs_uri := uri\<rparr>)"
proof -
  have "Suc 0 \<le> length uri" using assms by (cases uri) simp_all
  moreover have "upload_session_pattern ''us_000000000000''" by code_simp
  ultimately have "csv_validate demo_pydantic (upload_doc uri) = Inr (demo_csv\<lparr>ce_gcs_uri := uri\<rparr>)"
    unfolding csv_validate_def Let_def raised_by_validator_def field_required_def field_default_def upload_doc_fields
    by (simp add: demo_pydantic_def conv_one_def conv_str_def conv_opt_def conv_session_def conv_aware_def demo_ts_utc bad_of_def good_of_def demo_csv_def)
  then show ?thesis by (simp add: parse_csv_received_def)
qed

lemma good_parsed: "parse_csv_received (in_pydantic upload_intake) (in_decode upload_intake ''good'') = Inr (demo_upload 5)"
  using upload_parsed [of "upload_uri 5"] by (simp add: upload_intake_def demo_upload_def upload_uri_def demo_csv_def)

lemma one_message_world: "sb_world (run_passes decide tp [Inr [m]] sb) = snd (decide (ms_data m) (sb_world sb))"
  by (auto simp: poll_once_def acknowledge_def hand_back_def Let_def split: prod.splits sum.splits option.splits decision.splits)

lemma good_pass_world:
  assumes "ingest_process reupload_runtime (demo_upload 5) (upload_worker rows) = (Inr out, s')"
  shows "sb_world (ingest_passes reupload_runtime upload_intake upload_broker [Inr [good_message]] (upload_subscription rows)) = s'"
  unfolding ingest_passes_def one_message_world by (simp add: upload_subscription_def good_message_def ingest_message_def good_parsed assms)

section \<open>Witnesses\<close>

theorem worker_refines_ledger_witness:
  "ledger_step\<^sup>*\<^sup>* ([], []) (ledger_of (snd (ingest_process reupload_runtime (demo_upload 5) (upload_worker []))))"
  using worker_refines_ledger [of reupload_runtime "upload_worker []" "demo_upload 5"] upload_sane by (simp add: typed_def)

theorem announcements_backed_witness:
  "\<exists>s' m r. sb_world (ingest_passes reupload_runtime upload_intake upload_broker [Inr [good_message]] (upload_subscription [])) = s' \<and>
     wk_published s' = [m] \<and> r \<in> set (pg_tables (wk_pg s') BRONZE) \<and> pget r ''id'' = PyUuid (ie_bronze_ref (snd m))"
proof -
  obtain out s' where run: "ingest_process reupload_runtime (demo_upload 5) (upload_worker []) = (Inr out, s')" using upload_runs [of "[]" 5] by auto
  have "io_disposition out = Ingested" using upload_disposition(1) [OF run] by simp
  with run obtain m where m: "wk_published s' = [m]" by (auto elim!: ingested_Inr ingest_fresh_Inr)
  show ?thesis
    using announcements_backed [of reupload_runtime "upload_subscription []" upload_intake upload_broker "[Inr [good_message]]"] upload_sane m
    unfolding good_pass_world [OF run]
    by (cases m) (auto simp: upload_subscription_def typed_def all_backed_def marks_announced_def)
qed

theorem one_bronze_row_per_window_witness:
  "\<exists>a b. pg_tables (wk_pg (sb_world (ingest_passes reupload_runtime upload_intake upload_broker [Inr [good_message]]
      (upload_subscription [earlier_row 2])))) BRONZE = [a, b] \<and> received a + 24 * 3600 * 1000000 < received b"
proof -
  obtain out s' where run: "ingest_process reupload_runtime (demo_upload 5) (upload_worker [earlier_row 2]) = (Inr out, s')"
    using upload_runs [of "[earlier_row 2]" 5] by auto
  note pass = good_pass_world [OF run]
  have "io_disposition out = Ingested" using upload_disposition(1) [OF run] by simp
  from run this obtain s1 where f: "ingest_fresh reupload_runtime (demo_upload 5) ''h'' upload_preflight s1 = (Inr out, s')"
    and s1: "ledger_of s1 = ([earlier_row 2], [])"
    by (rule ingested_Inr) (auto simp: upload_preflight_run)
  from f obtain i t d where "fst (ledger_of s') = map (stamp_row 5 i t) (fst (ledger_of s1) @
      [landed reupload_runtime (bronze_for (demo_upload 5) i (pf_size_bytes upload_preflight) ''h'' (Some (pf_row_count upload_preflight)) d ''RECEIVED'')])"
    by (rule ingest_fresh_Inr) (auto intro: that)
  then have rows: "fst (ledger_of s') = map (stamp_row 5 i t) [earlier_row 2,
      landed reupload_runtime (bronze_for (demo_upload 5) i 3 ''h'' (Some 1) d ''RECEIVED'')]"
    by (simp add: s1 upload_preflight_def)
  let ?a = "stamp_row 5 i t (earlier_row 2)" and ?b = "stamp_row 5 i t (landed reupload_runtime (bronze_for (demo_upload 5) i 3 ''h'' (Some 1) d ''RECEIVED''))"
  have T: "pg_tables (wk_pg s') BRONZE = [?a, ?b]" using rows by (simp add: ledger_of_def)
  have key: "pget ?a c = pget ?b c" if "c \<in> {''tenant_id'', ''source_payload_id'', ''payload_sha256'', ''dis_channel''}" for c
    using that by (auto simp: pget_stamp earlier_row_def) (simp_all add: bronze_for_def)
  have "received ?a + 24 * 3600 * 1000000 < received ?b"
    by (rule one_bronze_row_per_window [of reupload_runtime "upload_subscription [earlier_row 2]" 0 1 upload_intake upload_broker "[Inr [good_message]]"])
      (use upload_sane key in \<open>simp_all add: pass T, simp_all add: upload_subscription_def typed_def one_per_window_def\<close>)
  then show ?thesis by (simp add: pass T)
qed

definition email_runtime :: worker_runtime where
  "email_runtime = reupload_runtime\<lparr>wr_sniff := (\<lambda>data. Sniffed '','' True [(''email'', ''VARCHAR'')] (Some 1))\<rparr>"

theorem pii_never_lands_witness:
  "bronze_ids (snd (ingest_process email_runtime (demo_upload 5) (upload_worker []))) = []"
proof -
  let ?pre = "upload_preflight\<lparr>pf_columns := [''email'']\<rparr>"
  have "is_pii_column ''email''" by code_simp
  moreover have "run_preflight email_runtime ''sku'' tenant trace = Inr ?pre" for tenant trace
    by (simp add: run_preflight_def blank_bytes_def email_runtime_def upload_preflight_def)
  ultimately show ?thesis
    using pii_never_lands [of "demo_upload 5" "''bronze''" "upload_path 5" email_runtime "''sku''" ?pre "upload_worker []"] upload_uri_split
    by (simp add: email_runtime_def bronze_ids_def)
qed

theorem unparseable_address_nacked_witness:
  "fst (ingest_message reupload_runtime upload_intake ''broken'' (upload_worker [])) = Inr Nack"
proof -
  have "parse_csv_received (in_pydantic upload_intake) (in_decode upload_intake ''broken'') = Inr (demo_csv\<lparr>ce_gcs_uri := ''bad''\<rparr>)"
    using upload_parsed [of "''bad''"] by (simp add: upload_intake_def)
  moreover have "\<not> is_ok (split_object_uri ''bad'')" by code_simp
  ultimately show ?thesis
    using unparseable_address_nacked [of upload_intake "''broken''" "demo_csv\<lparr>ce_gcs_uri := ''bad''\<rparr>" reupload_runtime "upload_worker []"] by simp
qed

theorem healthy_delivery_settles_witness:
  "\<exists>s'. ingest_message reupload_runtime upload_intake ''good'' (upload_worker [earlier_row 0]) = (Inr Ack, s') \<and>
     (\<exists>r \<in> set (pg_tables (wk_pg s') BRONZE). settled_upload (demo_upload 5) ''h'' r)"
  using healthy_delivery_settles [OF upload_healthy upload_well_formed _ _ good_parsed, of "upload_worker [earlier_row 0]"] earlier_in_range [of 0]
  by (simp add: typed_def)

text \<open>The consumer on the tables a worker left.\<close>

definition after_worker :: "worker \<Rightarrow> world" where
  "after_worker s = \<lparr>w_pg = (wk_pg s)\<lparr>pg_verified := True\<rparr>, w_ticks = 0\<rparr>"

theorem ingested_is_fetchable_witness:
  "\<exists>e key b s'. snd (ingest_process reupload_runtime (demo_upload 5) (upload_worker [])) = s' \<and>
     wk_published s' = [(''ingress.ready'', e)] \<and> cross_check_path e ''bronze'' = Inr key \<and>
     fst (fetch_bronze_row held_runtime e (start_context held_runtime held_world) (after_worker s')) = Inr b \<and> br_dis_channel b = ''csv_upload''"
proof -
  obtain out s' where run: "ingest_process reupload_runtime (demo_upload 5) (upload_worker []) = (Inr out, s')" using upload_runs [of "[]" 5] by auto
  have "io_disposition out = Ingested" using upload_disposition(1) [OF run] by simp
  from ingested_is_fetchable [OF run this, of "after_worker s'" held_runtime "start_context held_runtime held_world"] show ?thesis
    by (auto simp: run after_worker_def demo_env_def)
qed

theorem resumed_reupload_unprocessable_witness:
  "\<exists>e s'. snd (ingest_process reupload_runtime (demo_upload 6) (upload_worker [earlier_row 0])) = s' \<and>
     wk_published s' = [(''ingress.ready'', e)] \<and> \<not> is_ok (fst (process held_runtime held_config e (after_worker s')))"
proof -
  have "uuid_str 6 \<noteq> uuid_str 5" using uuid_of_str [of 6] uuid_of_str [of 5] by auto
  then have uri: "upload_uri 5 \<noteq> upload_uri 6" by (auto simp: upload_uri_def upload_path_def)
  obtain out s' where run: "ingest_process reupload_runtime (demo_upload 6) (upload_worker [earlier_row 0]) = (Inr out, s')"
    using upload_runs [of "[earlier_row 0]" 6] by auto
  have "io_disposition out = Duplicate_resumed" using upload_disposition(2) [OF run] by simp
  from resumed_reupload_unprocessable [OF run this, of "after_worker s'" held_runtime held_config] show ?thesis
    using uri by (auto simp: run after_worker_def typed_def)
qed

end
