(* ===== verification/Upload_Examples.thy ===== *)
theory Upload_Examples
  imports Upload_Props Template_Examples Ingest_Examples
begin

text \<open>A concrete upload, at which the laws of the upload are applied.\<close>

definition demo_part :: "string \<Rightarrow> string \<Rightarrow> part_event list" where
  "demo_part name data = [Part_begin, Header_field ''Content-Disposition'', Header_value name, Header_end, Headers_finished, Part_data data, Part_end]"

definition demo_multipart :: multipart where
  "demo_multipart = \<lparr>mp_options = (\<lambda>h. case h of None \<Rightarrow> ([], [])
       | Some v \<Rightarrow> if v = ''multipart/form-data'' then (v, [(''boundary'', ''b'')]) else (''form-data'', [(''name'', v)])),
     mp_write = (\<lambda>b past chunk. if chunk = ''bad'' then ([], Some (py_exn (PyForeign ''MultipartParseError'')))
       else (demo_part ''file'' chunk @ demo_part ''template_id'' (uuid_str 5) @ demo_part ''store_code'' ''s1'' @ demo_part ''tenant_id'' (uuid_str 9), None)),
     mp_finalize = (\<lambda>b past. ([], None))\<rparr>"

definition demo_file :: string where
  "demo_file = ''sku,price'' @ [CHR 0x0A] @ ''1,2'' @ [CHR 0x0A]"

definition demo_body :: "string \<Rightarrow> upload_request" where
  "demo_body chunk = \<lparr>up_headers = [(''content-type'', ''multipart/form-data'')], up_chunks = [chunk]\<rparr>"

lemma demo_read: "is_ok (read_csv_upload demo_multipart (demo_body demo_file) 100 200)"
  by code_simp

lemma demo_orderly: "orderly False (body_events demo_multipart boundary [] (up_chunks (demo_body demo_file)))"
  by (simp add: demo_multipart_def demo_body_def demo_file_def demo_part_def)

theorem upload_size_bounded_witness:
  "\<exists>parsed. read_csv_upload demo_multipart (demo_body demo_file) 100 200 = Inr parsed \<and> length (pu_file_bytes parsed) \<le> 100"
  using demo_read upload_size_bounded [OF _ demo_orderly, of 100 200] by (auto simp: is_ok_iff)

definition demo_uploads :: "bool \<Rightarrow> upload_runtime" where
  "demo_uploads up = \<lparr>ur_env = demo_env, ur_json_dumps = (\<lambda>v. []), ur_mono = (\<lambda>n. int n), ur_clock = (\<lambda>n. 738000 * us_per_day),
     ur_new_trace = (\<lambda>n. 7), ur_sha256 = (\<lambda>b. ''0123456789abcdef''), ur_upload = (\<lambda>n key data. None),
     ur_publish = (\<lambda>n topic e. if up then None else Some (py_exn (PyForeign ''ServiceUnavailable''))), ur_multipart = demo_multipart,
     ur_exn_str = (\<lambda>e. []), ur_exn_name = (\<lambda>e. []), ur_bucket = ''bronze'', ur_topic = ''csv.received''\<rparr>"

lemma demo_uploads_simps:
  "ur_env (demo_uploads up) = demo_env" "ur_multipart (demo_uploads up) = demo_multipart" "ur_mono (demo_uploads up) n = int n"
  "ur_clock (demo_uploads up) n = 738000 * us_per_day" "ur_new_trace (demo_uploads up) n = 7" "ur_sha256 (demo_uploads up) = (\<lambda>b. ''0123456789abcdef'')"
  "ur_upload (demo_uploads up) n key data = None" "ur_publish (demo_uploads True) n topic ev = None" "ur_bucket (demo_uploads up) = ''bronze''"
  "ur_topic (demo_uploads up) = ''csv.received''"
  by (simp_all add: demo_uploads_def)

definition demo_store :: payload where
  "demo_store = [(''tenant_id'', PyUuid 5), (''store_id'', PyUuid 6), (''store_code'', PyStr ''s1''), (''status'', PyStr ''ACTIVE'')]"

definition demo_upload_state :: uploads where
  "demo_upload_state = \<lparr>uw_pg = demo_state\<lparr>pg_tables := (\<lambda>table. if table = CSM then [demo_live] else if table = STORES then [demo_store] else [])\<rparr>,
     uw_ticks = 0, uw_puts = 0, uw_objects = [], uw_sends = 0, uw_published = []\<rparr>"

definition uploader :: identity where
  "uploader = \<lparr>id_user_id = ''u'', id_tenant_id = Some (uuid_str 5), id_store_id = None, id_roles = [], id_user_type = TENANT\<rparr>"

definition demo_parsed :: parsed_upload where
  "demo_parsed = \<lparr>pu_file_bytes = demo_file, pu_filename = None, pu_fields = [(''template_id'', uuid_str 5), (''store_code'', ''s1'')]\<rparr>"

lemma demo_texts: "utf8 (codes (uuid_str 5)) \<noteq> None" "utf8 (codes ''s1'') \<noteq> None" "length (uuid_str 5) = 36"
  "lower_bytes ''Content-Disposition'' = ''content-disposition''" "py_strip (uuid_str 5) \<noteq> []" "py_strip ''s1'' \<noteq> []" "demo_file \<noteq> ''bad''" "demo_file \<noteq> []"
  "length demo_file = 14"
  by code_simp+

lemma demo_parsed_read:
  assumes "14 \<le> m" and "14 \<le> n"
  shows "read_csv_upload demo_multipart (demo_body demo_file) m n = Inr demo_parsed"
  using assms demo_texts
  by (simp add: read_csv_upload_def read_body_def demo_body_def demo_multipart_def demo_part_def parser_call_def
      on_headers_finished_def on_part_data_def on_part_end_def collector_start_def FILE_PART_def TEXT_PARTS_def MAX_TEXT_FIELD_BYTES_def
      missing_part_def demo_parsed_def dget_def)

definition demo_gated_upload :: gated_upload where
  "demo_gated_upload = \<lparr>gu_parsed = demo_parsed, gu_template_id = 5, gu_store_code = ''s1'', gu_row_count = 1, gu_source_id = ''pos'', gu_store = demo_store\<rparr>"

definition demo_pg :: pgstate where
  "demo_pg = demo_state\<lparr>pg_tables := (\<lambda>table. if table = CSM then [demo_live] else if table = STORES then [demo_store] else [])\<rparr>"

lemma demo_env_simps: "pg_fault demo_env n = None" "check_posture (pg_posture demo_env) = Inr ()"
  using demo_posture by (simp_all add: demo_env_def)

lemma demo_read_session:
  "rls_session demo_env t (\<lambda>g tabs. Inr (f g tabs, tabs)) s = (Inr (f (tenant_scope t) (pg_tables s)), s\<lparr>pg_verified := True, pg_txn := Suc (pg_txn s)\<rparr>)"
  by (simp add: rls_session_def verified_transaction_def Let_def demo_env_simps)

lemma upload_rows:
  "pget demo_live ''tenant_id'' = PyUuid 5" "pget demo_live ''template_id'' = PyUuid 5" "pget demo_live ''source_id'' = PyStr ''pos''" "status_of demo_live = ''ACTIVE''"
  "pget demo_store ''tenant_id'' = PyUuid 5" "pget demo_store ''store_code'' = PyStr ''s1''" "status_of demo_store = ''ACTIVE''"
  by (simp_all add: demo_live_def demo_store_def pget_def dget_def status_of_def)

lemma demo_gates: "upload_gates (demo_uploads up) (demo_body demo_file) 5 7 demo_pg = (Inr demo_gated_upload, demo_pg\<lparr>pg_verified := True, pg_txn := 2\<rparr>)"
proof -
  have read: "read_csv_upload demo_multipart (demo_body demo_file) CSV_UPLOAD_MAX_FILE_BYTES CSV_UPLOAD_BODY_CEILING_BYTES = Inr demo_parsed"
    by (rule demo_parsed_read) (simp_all add: CSV_UPLOAD_MAX_FILE_BYTES_def CSV_UPLOAD_BODY_CEILING_BYTES_def)
  have small: "parse_template_id demo_parsed = Inr 5" "run_tier0 (pu_file_bytes demo_parsed) (uuid_str 5) (uuid_str 7) = Inr 1"
    "part_text demo_parsed ''store_code'' = ''s1''" "gate_store_uploadable demo_store 5 ''s1'' = Inr ()"
    by code_simp+
  have tpl: "resolve_active_template demo_env 5 5 demo_pg = (Inr demo_live, demo_pg\<lparr>pg_verified := True, pg_txn := 1\<rparr>)"
    by (simp add: resolve_active_template_def get_template_rows_def read_session_def demo_read_session lineage_def sql_select_def demo_pg_def upload_rows
        active_of_def demo_state_def)
  have st: "resolve_store_by_code demo_env 5 ''s1'' (demo_pg\<lparr>pg_verified := True, pg_txn := 1\<rparr>) =
      (Inr demo_store, demo_pg\<lparr>pg_verified := True, pg_txn := 2\<rparr>)"
    by (simp add: resolve_store_by_code_def demo_read_session sql_select_def demo_pg_def rls_using_def upload_rows the_store_def numeral_eq_Suc)
  show ?thesis
    by (simp only: upload_gates_def demo_uploads_simps read small tpl st rbind.simps sum.case prod.case demo_gated_upload_def upload_rows py_str.simps)
qed

lemma demo_state_pg: "demo_upload_state = \<lparr>uw_pg = demo_pg, uw_ticks = 0, uw_puts = 0, uw_objects = [], uw_sends = 0, uw_published = []\<rparr>"
  by (simp add: demo_upload_state_def demo_pg_def)

definition demo_now :: pydatetime where
  "demo_now = PyDatetime (738000 * us_per_day) (Some 0)"

lemma demo_path_built: "is_ok (build_object_path (uuid_str 5) ''pos'' (uuid_str 7) demo_now ''csv'')"
  by code_simp

lemma upload_session: "upload_session_pattern (derive_upload_session_id (\<lambda>b. ''0123456789abcdef'') 5 6 5 ''0123456789abcdef'')" "ensure_utc demo_now = Inr demo_now"
  by code_simp+

lemma demo_display: "get_tenant_display_code demo_env 5 (demo_pg\<lparr>pg_verified := True, pg_txn := n\<rparr>) = (Inr None, demo_pg\<lparr>pg_verified := True, pg_txn := Suc n\<rparr>)"
  by (simp add: get_tenant_display_code_def demo_read_session sql_select_def demo_pg_def)

lemma demo_accepted:
  "\<exists>res s' key. upload_csv (demo_uploads True) (demo_body demo_file) None uploader demo_upload_state = (Inr res, s') \<and> uw_objects s' = [(key, demo_file)]"
proof -
  let ?s = "\<lparr>uw_pg = demo_pg\<lparr>pg_verified := True, pg_txn := 2\<rparr>, uw_ticks = 2, uw_puts = 0, uw_objects = [], uw_sends = 0, uw_published = []\<rparr>"
  obtain key where key: "build_object_path (uuid_str 5) ''pos'' (uuid_str 7) demo_now ''csv'' = Inr key" using demo_path_built by (auto simp: is_ok_iff)
  have who: "require_tenant uploader = Inr uploader" "tenant_uuid_of uploader = Inr 5" "store_uuid demo_store = 6" by code_simp+
  have "fst (store_upload (demo_uploads True) uploader None 5 7 1 demo_gated_upload ?s) = Inl e \<Longrightarrow> False" for e
    by (simp add: store_upload_def ebind_def upg_def demo_uploads_simps demo_display unow_def demo_now_def [symmetric] demo_gated_upload_def demo_parsed_def
        elift_def key ecatch_def upload_bytes_def Let_def build_csv_received_def who upload_session announce_upload_def upublish_def
        elapsed_ms_def umono_def ereturn_def ui_emit_def split: sum.splits if_splits)
  then obtain res s' where st: "store_upload (demo_uploads True) uploader None 5 7 1 demo_gated_upload ?s = (Inr res, s')"
    by (cases "store_upload (demo_uploads True) uploader None 5 7 1 demo_gated_upload ?s"; cases "fst (store_upload (demo_uploads True) uploader None 5 7 1 demo_gated_upload ?s)") auto
  have "upload_csv (demo_uploads True) (demo_body demo_file) None uploader demo_upload_state = (Inr res, s')"
    using st by (simp add: upload_csv_def ebind_def elift_def who unew_trace_def process_upload_def umono_def demo_state_pg demo_uploads_simps demo_gates numeral_eq_Suc)
  moreover have "\<exists>k. uw_objects s' = [(k, demo_file)]"
    using store_outcome [OF st] by (auto simp: demo_gated_upload_def demo_parsed_def)
  ultimately show ?thesis by blast
qed

theorem accepted_upload_ingestable_witness:
  "\<exists>res s' ev. upload_csv (demo_uploads True) (demo_body demo_file) None uploader demo_upload_state = (Inr res, s') \<and>
     uw_published s' = [(''csv.received'', ev)] \<and> ce_tenant_id ev = 5"
proof -
  obtain res s' key where run: "upload_csv (demo_uploads True) (demo_body demo_file) None uploader demo_upload_state = (Inr res, s')"
    and obj: "uw_objects s' = [(key, demo_file)]" using demo_accepted by blast
  have bucket: "list_all is_bucket_char (ur_bucket (demo_uploads True))" "ur_bucket (demo_uploads True) \<noteq> []"
    unfolding demo_uploads_simps by code_simp+
  have rows: "\<exists>src. pget r ''source_id'' = PyStr src \<and> plain_source src" if "r \<in> set (pg_tables (uw_pg demo_upload_state) CSM)" for r
  proof -
    have "plain_source ''pos''" by code_simp
    then show ?thesis using that by (simp add: demo_state_pg demo_pg_def upload_rows)
  qed
  let ?w = "reupload_runtime\<lparr>wr_download := (\<lambda>k. Inr demo_file)\<rparr>"
  have "wr_bronze_bucket ?w = ur_bucket (demo_uploads True)" by (simp add: reupload_runtime_def demo_uploads_simps)
  moreover have "wr_download ?w k = Inr d" if "map_of (rev (uw_objects s')) k = Some d" for k d using that obj by (simp split: if_splits)
  ultimately have "\<exists>ev. uw_published s' = uw_published demo_upload_state @ [(ur_topic (demo_uploads True), ev)] \<and> tenant_uuid_of uploader = Inr (ce_tenant_id ev)"
    using accepted_upload_ingestable [OF run bucket, of ?w undefined] rows by blast
  then show ?thesis using run by (auto simp: demo_state_pg demo_uploads_simps uploader_def tenant_uuid_of_def uuid_of_str)
qed

theorem refused_upload_announces_nothing_witness:
  "uw_published (snd (upload_csv (demo_uploads True) (demo_body demo_file) None demo_identity demo_upload_state)) = []"
proof -
  have "require_tenant demo_identity = Inl (tenant_scope_error None)" by (simp add: require_tenant_def demo_identity_def)
  then have run: "upload_csv (demo_uploads True) (demo_body demo_file) None demo_identity demo_upload_state = (Inl (tenant_scope_error None), demo_upload_state)"
    by (simp add: upload_csv_def ebind_def elift_def)
  show ?thesis using refused_upload_announces_nothing [OF run] run by (simp add: demo_state_pg)
qed

text \<open>A request whose second chunk the parser refuses, with a Content-Length.\<close>

definition broken_body :: upload_request where
  "broken_body = \<lparr>up_headers = [(''content-type'', ''multipart/form-data''), (''content-length'', ''17'')], up_chunks = [demo_file, ''bad'']\<rparr>"

lemma broken_refused:
  assumes "17 \<le> m" and "17 \<le> n"
  shows "parser_refuses demo_multipart m n ''b'' [demo_file, ''bad''] (py_exn (PyForeign ''MultipartParseError''))"
proof -
  have "\<exists>co. read_chunks demo_multipart m n ''b'' 0 [] [demo_file] collector_start = Inr (co, [demo_file])"
    using assms demo_texts
    by (simp add: demo_multipart_def demo_part_def parser_call_def on_headers_finished_def on_part_data_def on_part_end_def
        collector_start_def FILE_PART_def TEXT_PARTS_def MAX_TEXT_FIELD_BYTES_def dget_def)
  then obtain co where "read_chunks demo_multipart m n ''b'' 0 [] [demo_file] collector_start = Inr (co, [demo_file])" by blast
  then show ?thesis unfolding parser_refuses_def using assms demo_texts
    by (intro disjI1 exI [of _ "[demo_file]"] exI [of _ "''bad''"] exI [of _ "[]"] exI [of _ co] exI [of _ "[demo_file]"])
      (simp add: demo_multipart_def)
qed

theorem malformed_multipart_unaudited_witness:
  "fst (upload_csv (demo_uploads True) broken_body None uploader demo_upload_state) = Inl (py_exn (PyForeign ''MultipartParseError''))"
proof -
  have "mp_options (ur_multipart (demo_uploads True)) (dget (up_headers broken_body) ''content-type'') = (''multipart/form-data'', [(''boundary'', ''b'')])"
    "dget [(''boundary'', ''b'')] ''boundary'' = Some ''b''"
    "exn_class (py_exn (PyForeign ''MultipartParseError'')) = PyForeign ''MultipartParseError''"
    by (simp_all add: demo_uploads_simps demo_multipart_def broken_body_def dget_def py_exn_def)
  moreover have "\<exists>n. declared_length d = Inr n \<and> (\<forall>k. n = Some k \<longrightarrow> k \<le> CSV_UPLOAD_BODY_CEILING_BYTES)"
    if "dget (up_headers broken_body) ''content-length'' = Some d" for d
  proof -
    have "declared_length ''17'' = Inr (Some 17)" by code_simp
    then show ?thesis using that by (simp add: broken_body_def dget_def CSV_UPLOAD_BODY_CEILING_BYTES_def CSV_UPLOAD_MAX_FILE_BYTES_def)
  qed
  moreover have "parser_refuses (ur_multipart (demo_uploads True)) CSV_UPLOAD_MAX_FILE_BYTES CSV_UPLOAD_BODY_CEILING_BYTES ''b''
      (up_chunks broken_body) (py_exn (PyForeign ''MultipartParseError''))"
    unfolding demo_uploads_simps broken_body_def upload_request.simps
    by (rule broken_refused) (simp_all add: CSV_UPLOAD_BODY_CEILING_BYTES_def CSV_UPLOAD_MAX_FILE_BYTES_def)
  moreover have "id_tenant_id uploader = Some (uuid_str 5)" "uuid_of (uuid_str 5) = Some 5" by (simp_all add: uploader_def uuid_of_str)
  ultimately show ?thesis by (intro malformed_multipart_unaudited [THEN conjunct1]) blast+
qed

end
