(* ===== verification/Template_Race.thy ===== *)
theory Template_Race
  imports Template_Examples
begin

text \<open>
  Edits of one template that run at the same time (\<open>patch_template\<close> of \<open>repos/mapping_templates.py\<close>).
  An edit is a transaction under READ COMMITTED:

  \<^item> each \<open>SELECT ... FOR UPDATE\<close> takes the snapshot of its own start and locks the rows of it one by
    one, newest version first, waiting where another transaction holds the lock;
  \<^item> what it returns are the rows of its snapshot in their latest versions, so a row committed after
    the snapshot is missing;
  \<^item> the writes are seen by no other transaction before the commit, and locks are held until then;
  \<^item> a transaction whose writes fail is rolled back: its commit step leaves the table as it is.

  Each edit has its own session: a PLATFORM caller acting for a tenant, or the tenant itself.
\<close>

section \<open>Transactions\<close>

record edit =
  ed_platform :: bool
  ed_tenant :: uuid
  ed_serial :: int
  ed_template_name :: "string option"
  ed_mapping_rules :: "pyval option"
  ed_created_by :: "uuid option"

record race_cfg =
  cf_env :: pgenv
  cf_template :: uuid
  cf_edits :: "nat \<Rightarrow> edit"

text \<open>Row locks are named by the primary key. A locking statement has rows left to lock and its snapshot.\<close>

datatype phase =
    Waiting
  | Locking (pending: "pyval list") (snapshot: "pyval list")
  | Holding
  | Rereading (pending: "pyval list") (snapshot: "pyval list")
  | Decided (snapshot: "pyval list")
  | Written (outcome: "(exn, payload list \<times> tables) result")
  | Finished

record race =
  rc_tables :: tables
  rc_lock :: "pyval \<Rightarrow> nat option"
  rc_phase :: "nat \<Rightarrow> phase"

datatype action = Begin nat | Acquire nat | Reread nat | Write nat | Commit nat

definition row_id :: "payload \<Rightarrow> pyval" where
  "row_id r = pget r ''mapping_version_id''"

abbreviation ed_gucs :: "race_cfg \<Rightarrow> nat \<Rightarrow> gucs" where
  "ed_gucs cf i \<equiv> write_gucs (ed_platform (cf_edits cf i)) (ed_tenant (cf_edits cf i))"

abbreviation cf_lineage :: "race_cfg \<Rightarrow> nat \<Rightarrow> tables \<Rightarrow> payload list" where
  "cf_lineage cf i tabs \<equiv> lineage (ed_gucs cf i) (cf_template cf) tabs"

definition lineage_ids :: "race_cfg \<Rightarrow> nat \<Rightarrow> tables \<Rightarrow> pyval list" where
  "lineage_ids cf i tabs = map row_id (cf_lineage cf i tabs)"

definition edit_run :: "race_cfg \<Rightarrow> nat \<Rightarrow> payload list \<Rightarrow> payload list txn_body" where
  "edit_run cf i locked tabs = patch_locked (cf_env cf) (ed_serial (cf_edits cf i)) (ed_tenant (cf_edits cf i)) (cf_template cf)
     (ed_template_name (cf_edits cf i)) (ed_mapping_rules (cf_edits cf i)) (ed_created_by (cf_edits cf i))
     (ed_gucs cf i) locked tabs"

definition to_phase :: "nat \<Rightarrow> phase \<Rightarrow> race \<Rightarrow> race" where
  "to_phase i ph st = st\<lparr>rc_phase := (rc_phase st)(i := ph)\<rparr>"

definition lock_row :: "nat \<Rightarrow> pyval \<Rightarrow> phase \<Rightarrow> race \<Rightarrow> race option" where
  "lock_row i x ph st = (if rc_lock st x = None \<or> rc_lock st x = Some i
     then Some (to_phase i ph (st\<lparr>rc_lock := (rc_lock st)(x := Some i)\<rparr>)) else None)"

definition finish :: "nat \<Rightarrow> tables \<Rightarrow> race \<Rightarrow> race" where
  "finish i tabs st = to_phase i Finished (st\<lparr>rc_tables := tabs, rc_lock := (\<lambda>x. if rc_lock st x = Some i then None else rc_lock st x)\<rparr>)"

fun race_act :: "race_cfg \<Rightarrow> action \<Rightarrow> race \<Rightarrow> race option" where
  "race_act cf (Begin i) st = (case rc_phase st i of
     Waiting \<Rightarrow> Some (to_phase i (Locking (lineage_ids cf i (rc_tables st)) (lineage_ids cf i (rc_tables st))) st) | _ \<Rightarrow> None)"
| "race_act cf (Acquire i) st = (case rc_phase st i of
     Locking (x # xs) snap \<Rightarrow> lock_row i x (Locking xs snap) st
   | Locking [] snap \<Rightarrow> Some (to_phase i Holding st)
   | Rereading (x # xs) snap \<Rightarrow> lock_row i x (Rereading xs snap) st
   | Rereading [] snap \<Rightarrow> Some (to_phase i (Decided snap) st)
   | _ \<Rightarrow> None)"
| "race_act cf (Reread i) st = (case rc_phase st i of
     Holding \<Rightarrow> Some (to_phase i (Rereading (lineage_ids cf i (rc_tables st)) (lineage_ids cf i (rc_tables st))) st) | _ \<Rightarrow> None)"
| "race_act cf (Write i) st = (case rc_phase st i of
     Decided snap \<Rightarrow> Some (to_phase i (Written (edit_run cf i
       (filter (\<lambda>r. row_id r \<in> set snap) (cf_lineage cf i (rc_tables st))) (rc_tables st))) st)
   | _ \<Rightarrow> None)"
| "race_act cf (Commit i) st = (case rc_phase st i of
     Written (Inl e) \<Rightarrow> Some (finish i (rc_tables st) st)
   | Written (Inr (rows, tabs)) \<Rightarrow> Some (finish i tabs st)
   | _ \<Rightarrow> None)"

fun actor :: "action \<Rightarrow> nat" where
  "actor (Begin i) = i" | "actor (Acquire i) = i" | "actor (Reread i) = i" | "actor (Write i) = i" | "actor (Commit i) = i"

fun race_run :: "race_cfg \<Rightarrow> action list \<Rightarrow> race \<Rightarrow> race option" where
  "race_run cf [] st = Some st"
| "race_run cf (a # acts) st = (case race_act cf a st of None \<Rightarrow> None | Some st' \<Rightarrow> race_run cf acts st')"

definition race_start :: "tables \<Rightarrow> race" where
  "race_start tabs = \<lparr>rc_tables = tabs, rc_lock = (\<lambda>x. None), rc_phase = (\<lambda>i. Waiting)\<rparr>"

text \<open>The reference: the edits one after the other, each alone, in the order of the commits.\<close>

definition edit_alone :: "race_cfg \<Rightarrow> nat \<Rightarrow> tables \<Rightarrow> tables" where
  "edit_alone cf i tabs = (case edit_run cf i (cf_lineage cf i tabs) tabs of Inl e \<Rightarrow> tabs | Inr (rows, tabs') \<Rightarrow> tabs')"

definition serial_edits :: "race_cfg \<Rightarrow> nat list \<Rightarrow> tables \<Rightarrow> tables" where
  "serial_edits cf ks tabs = fold (edit_alone cf) ks tabs"

fun commits :: "action list \<Rightarrow> nat list" where
  "commits [] = []"
| "commits (Commit i # acts) = i # commits acts"
| "commits (a # acts) = commits acts"

section \<open>Mutual exclusion\<close>

text \<open>
  What the phase of a transaction says, for a row \<open>root\<close> that was there at the start: past the first
  read it holds the lock on that row, and from the second read on its snapshot is the template's
  rows as they are.
\<close>

fun phase_ok :: "race_cfg \<Rightarrow> pyval \<Rightarrow> tables \<Rightarrow> (pyval \<Rightarrow> nat option) \<Rightarrow> nat \<Rightarrow> phase \<Rightarrow> bool" where
  "phase_ok cf root tabs lock i (Locking xs snap) \<longleftrightarrow> root \<in> set xs \<or> lock root = Some i"
| "phase_ok cf root tabs lock i Holding \<longleftrightarrow> lock root = Some i"
| "phase_ok cf root tabs lock i (Rereading xs snap) \<longleftrightarrow> lock root = Some i \<and> snap = lineage_ids cf i tabs"
| "phase_ok cf root tabs lock i (Decided snap) \<longleftrightarrow> lock root = Some i \<and> snap = lineage_ids cf i tabs"
| "phase_ok cf root tabs lock i (Written res) \<longleftrightarrow> lock root = Some i \<and> res = edit_run cf i (cf_lineage cf i tabs) tabs"
| "phase_ok cf root tabs lock i ph \<longleftrightarrow> True"

definition race_inv :: "race_cfg \<Rightarrow> pyval \<Rightarrow> race \<Rightarrow> bool" where
  "race_inv cf root st \<longleftrightarrow> templates_ok (rc_tables st CSM) \<and> (\<forall>i. root \<in> set (lineage_ids cf i (rc_tables st))) \<and>
     (\<forall>i. phase_ok cf root (rc_tables st) (rc_lock st) i (rc_phase st i))"

lemma phase_ok_lock:
  "phase_ok cf root tabs lock j ph \<Longrightarrow> lock x = None \<or> lock x = Some i \<Longrightarrow> j \<noteq> i \<Longrightarrow> phase_ok cf root tabs (lock(x := Some i)) j ph"
  by (cases ph) auto

lemma phase_ok_release:
  "phase_ok cf root tabs lock j ph \<Longrightarrow> lock root = Some i \<Longrightarrow> j \<noteq> i \<Longrightarrow>
   phase_ok cf root tabs' (\<lambda>x. if lock x = Some i then None else lock x) j ph"
  by (cases ph) auto

lemma race_inv_phase: "race_inv cf root st \<Longrightarrow> phase_ok cf root (rc_tables st) (rc_lock st) i (rc_phase st i)"
  by (simp add: race_inv_def)

lemma to_phase_inv:
  assumes "race_inv cf root st" and "phase_ok cf root (rc_tables st) (rc_lock st) i ph"
  shows "race_inv cf root (to_phase i ph st)"
  using assms by (simp add: race_inv_def to_phase_def)

lemma lock_row_inv:
  assumes "race_inv cf root st" and "lock_row i x ph st = Some st'"
    and "phase_ok cf root (rc_tables st) ((rc_lock st)(x := Some i)) i ph"
  shows "race_inv cf root st'"
  using assms phase_ok_lock by (auto simp: race_inv_def lock_row_def to_phase_def split: if_splits)

lemma kept_lineage_ids:
  assumes "table_kept (tabs CSM) (tabs' CSM)" and "x \<in> set (lineage_ids cf i tabs)"
  shows "x \<in> set (lineage_ids cf i tabs')"
proof -
  from assms(2) obtain r where r: "r \<in> set (tabs CSM)" "rls_using (ed_gucs cf i) CSM r" "pget r ''template_id'' = PyUuid (cf_template cf)" "x = row_id r"
    by (auto simp: lineage_ids_def set_lineage)
  obtain r' where r': "r' \<in> set (tabs' CSM)" "row_kept r r'" using table_kept_row [OF assms(1) r(1)] by blast
  have "rls_using (ed_gucs cf i) CSM r'" using r(2) by (simp add: rls_using_def row_tenant_is_def row_kept_columns(4) [OF r'(2)])
  then have "r' \<in> set (cf_lineage cf i tabs')" using r' r(3) by (simp add: set_lineage row_kept_columns(6))
  moreover have "x = row_id r'" using r(4) row_kept_columns(7) [OF r'(2)] by (simp add: row_id_def)
  ultimately show ?thesis by (simp add: lineage_ids_def)
qed

lemma edit_run_alone: "edit_run cf i (cf_lineage cf i tabs) tabs = patch_body (cf_env cf) (ed_serial (cf_edits cf i)) (ed_tenant (cf_edits cf i)) (cf_template cf)
     (ed_template_name (cf_edits cf i)) (ed_mapping_rules (cf_edits cf i)) (ed_created_by (cf_edits cf i)) (ed_gucs cf i) tabs"
  by (simp add: edit_run_def patch_body_def)

lemma filter_snapshot: "filter (\<lambda>r. row_id r \<in> set (lineage_ids cf i tabs)) (cf_lineage cf i tabs) = cf_lineage cf i tabs"
  by (rule filter_True) (simp add: lineage_ids_def)

text \<open>An edit that runs alone keeps the constraints and every row.\<close>

lemma edit_alone_kept:
  assumes "templates_ok (tabs CSM)" and "no_seq_default (cf_env cf)"
  shows "templates_ok (edit_alone cf i tabs CSM)" and "table_kept (tabs CSM) (edit_alone cf i tabs CSM)"
proof -
  have "templates_ok (edit_alone cf i tabs CSM) \<and> table_kept (tabs CSM) (edit_alone cf i tabs CSM)"
  proof (cases "edit_run cf i (cf_lineage cf i tabs) tabs")
    case (Inr res)
    obtain rows tabs' where run: "edit_run cf i (cf_lineage cf i tabs) tabs = Inr (rows, tabs')" using Inr by (cases res) auto
    note body = run [unfolded edit_run_alone]
    show ?thesis using run patch_body_ok [OF body assms] patch_body_kept [OF body assms(1)] by (simp add: edit_alone_def)
  qed (use assms(1) in \<open>auto simp: edit_alone_def\<close>)
  then show "templates_ok (edit_alone cf i tabs CSM)" and "table_kept (tabs CSM) (edit_alone cf i tabs CSM)" by blast+
qed

text \<open>The tables after a step: only a commit changes them, to what the edit gives alone.\<close>

fun stepped_tables :: "race_cfg \<Rightarrow> action \<Rightarrow> tables \<Rightarrow> tables" where
  "stepped_tables cf (Commit i) tabs = edit_alone cf i tabs"
| "stepped_tables cf a tabs = tabs"

lemma commit_finish:
  assumes "race_inv cf root st" and "race_act cf (Commit i) st = Some st'"
  shows "st' = finish i (edit_alone cf i (rc_tables st)) st" and "rc_lock st root = Some i"
  using assms(2) race_inv_phase [OF assms(1), of i] by (auto simp: edit_alone_def split: phase.splits sum.splits prod.splits)

lemma commit_inv:
  assumes inv: "race_inv cf root st" and "no_seq_default (cf_env cf)" and "race_act cf (Commit i) st = Some st'"
  shows "race_inv cf root st'"
proof -
  note st' = commit_finish(1) [OF inv assms(3)] and mine = commit_finish(2) [OF inv assms(3)]
  have "templates_ok (rc_tables st CSM)" using inv by (simp add: race_inv_def)
  note kept = edit_alone_kept [of "rc_tables st" cf i, OF this assms(2)]
  have "phase_ok cf root tabs (\<lambda>x. if rc_lock st x = Some i then None else rc_lock st x) j (rc_phase st j)" if "j \<noteq> i" for j tabs
    using phase_ok_release [OF race_inv_phase [OF inv] mine that] .
  then show ?thesis
    using kept(1) kept_lineage_ids [of "rc_tables st" "edit_alone cf i (rc_tables st)" root cf, OF kept(2)] inv unfolding st' by (auto simp: race_inv_def finish_def to_phase_def)
qed

lemma race_act_inv:
  assumes inv: "race_inv cf root st" and "no_seq_default (cf_env cf)" and "race_act cf a st = Some st'"
  shows "race_inv cf root st'"
proof (cases a)
  case (Acquire i)
  then show ?thesis
    using assms(3) race_inv_phase [OF inv, of i] by (auto split: phase.splits list.splits intro: to_phase_inv [OF inv] lock_row_inv [OF inv])
next
  case (Commit i)
  then show ?thesis using assms(3) commit_inv [OF inv assms(2)] by blast
next
  case (Begin i)
  then have st': "st' = to_phase i (Locking (lineage_ids cf i (rc_tables st)) (lineage_ids cf i (rc_tables st))) st"
    using assms(3) by (auto split: phase.splits)
  show ?thesis unfolding st' by (rule to_phase_inv [OF inv]) (use inv in \<open>simp add: race_inv_def\<close>)
qed (use assms(3) race_inv_phase [OF inv, of "actor a"] in
  \<open>auto simp: filter_snapshot split: phase.splits intro!: to_phase_inv [OF inv]\<close>)

lemma race_act_tables:
  assumes "race_inv cf root st" and "race_act cf a st = Some st'"
  shows "rc_tables st' = stepped_tables cf a (rc_tables st)"
proof (cases a)
  case (Commit i)
  then show ?thesis using commit_finish [OF assms(1), of i st'] assms(2) by (simp add: finish_def to_phase_def)
qed (use assms(2) in \<open>auto simp: to_phase_def lock_row_def split: phase.splits list.splits if_splits\<close>)

lemma race_run_serial:
  "race_inv cf root st \<Longrightarrow> no_seq_default (cf_env cf) \<Longrightarrow> race_run cf acts st = Some st' \<Longrightarrow>
   race_inv cf root st' \<and> rc_tables st' = serial_edits cf (commits acts) (rc_tables st)"
proof (induction acts arbitrary: st)
  case (Cons a acts)
  then obtain st1 where act: "race_act cf a st = Some st1" and run: "race_run cf acts st1 = Some st'" by (auto split: option.splits)
  show ?case
    using Cons.IH [OF race_act_inv [OF Cons.prems(1,2) act] Cons.prems(2) run] race_act_tables [OF Cons.prems(1) act]
    by (cases a) (simp_all add: serial_edits_def)
qed (simp add: serial_edits_def)

text \<open>A finished edit does nothing more, so an edit commits once.\<close>

lemma finished_stays:
  "race_run cf acts st = Some st' \<Longrightarrow> rc_phase st i = Finished \<Longrightarrow> i \<notin> set (commits acts)"
proof (induction acts arbitrary: st)
  case (Cons a acts)
  then obtain st1 where act: "race_act cf a st = Some st1" and run: "race_run cf acts st1 = Some st'" by (auto split: option.splits)
  have "rc_phase st1 i = Finished" and "a \<noteq> Commit i"
    using act Cons.prems(2) by (cases a; auto simp: to_phase_def lock_row_def finish_def split: phase.splits list.splits sum.splits if_splits)+
  then show ?case using Cons.IH [OF run] by (cases a) auto
qed simp

lemma commits_distinct: "race_run cf acts st = Some st' \<Longrightarrow> distinct (commits acts)"
proof (induction acts arbitrary: st)
  case (Cons a acts)
  then obtain st1 where act: "race_act cf a st = Some st1" and run: "race_run cf acts st1 = Some st'" by (auto split: option.splits)
  have "rc_phase st1 i = Finished" if "a = Commit i" for i
    using act that by (auto simp: finish_def to_phase_def split: phase.splits sum.splits)
  then show ?case using Cons.IH [OF run] finished_stays [OF run] by (cases a) auto
qed simp

section \<open>Serial results\<close>

lemma race_start_inv:
  assumes "templates_ok (tabs CSM)" and "\<And>i. r \<in> set (cf_lineage cf i tabs)"
  shows "race_inv cf (row_id r) (race_start tabs)"
  using assms by (simp add: race_inv_def race_start_def lineage_ids_def)

text \<open>C16: Edits of one template that run at the same time leave what the same edits leave one after the
  other: at every point of every interleaving the table is the result of the edits committed so
  far, in the order of their commits, each run alone and each once, so no edit is lost and every
  constraint holds. An edit that fails is one that leaves the table as it was. The edits may come
  from PLATFORM and from tenant sessions, as long as all of them see some common version of the
  template. The second locking read is what gives this.\<close>

theorem concurrent_edits_serial:
  assumes "race_run cf acts (race_start tabs) = Some st"
    and "templates_ok (tabs CSM)" and "no_seq_default (cf_env cf)" and "\<And>i. r \<in> set (cf_lineage cf i tabs)"
  shows "rc_tables st = serial_edits cf (commits acts) tabs \<and> distinct (commits acts) \<and> templates_ok (rc_tables st CSM)"
  using race_run_serial [OF race_start_inv [OF assms(2,4)] assms(3,1)] commits_distinct [OF assms(1)]
  by (auto simp: race_inv_def race_start_def)

definition demo_race :: race_cfg where
  "demo_race = \<lparr>cf_env = demo_env, cf_template = 5,
     cf_edits = (\<lambda>i. \<lparr>ed_platform = (i = 1), ed_tenant = 5, ed_serial = 8 + int i, ed_template_name = None,
       ed_mapping_rules = Some (PyInt (int i)), ed_created_by = None\<rparr>)\<rparr>"

text \<open>An edit that is first blocked by another and then edits its draft.\<close>

definition demo_acts2 :: "action list" where
  "demo_acts2 = [Begin 0, Acquire 0, Acquire 0, Begin 1, Reread 0, Acquire 0, Acquire 0, Write 0, Commit 0,
     Acquire 1, Acquire 1, Reread 1, Acquire 1, Acquire 1, Acquire 1, Write 1, Commit 1]"

definition drafts :: "tables \<Rightarrow> payload list" where
  "drafts tabs = filter (\<lambda>r. status_of r = ''DRAFT'') (tabs CSM)"

definition draft_rules :: "race option \<Rightarrow> pyval list" where
  "draft_rules st = (case st of None \<Rightarrow> [] | Some st \<Rightarrow> map (\<lambda>r. pget r ''mapping_rules'') (drafts (rc_tables st)))"

lemma demo_acts2_drafts: "draft_rules (race_run demo_race demo_acts2 (race_start (pg_tables demo_templates))) = [PyInt 1]"
  by code_simp

lemma demo_race_root: "hd (cf_lineage demo_race 0 (pg_tables demo_templates)) \<in> set (cf_lineage demo_race i (pg_tables demo_templates))"
proof -
  have "cf_lineage demo_race i (pg_tables demo_templates) = cf_lineage demo_race (if i = 1 then 1 else 0) (pg_tables demo_templates)"
    by (simp add: demo_race_def)
  moreover have "hd (cf_lineage demo_race 0 (pg_tables demo_templates)) \<in> set (cf_lineage demo_race 0 (pg_tables demo_templates))" by code_simp
  moreover have "hd (cf_lineage demo_race 0 (pg_tables demo_templates)) \<in> set (cf_lineage demo_race 1 (pg_tables demo_templates))" by code_simp
  ultimately show ?thesis by simp
qed

theorem concurrent_edits_serial_witness:
  "\<exists>st. race_run demo_race demo_acts2 (race_start (pg_tables demo_templates)) = Some st \<and>
     rc_tables st = serial_edits demo_race [0, 1] (pg_tables demo_templates) \<and> draft_rules (Some st) = [PyInt 1]"
proof -
  obtain st where run: "race_run demo_race demo_acts2 (race_start (pg_tables demo_templates)) = Some st"
    using demo_acts2_drafts by (cases "race_run demo_race demo_acts2 (race_start (pg_tables demo_templates))") (auto simp: draft_rules_def)
  have default: "no_seq_default (cf_env demo_race)" using demo_defaults by (simp add: demo_race_def)
  have "commits demo_acts2 = [0, 1]" by (simp add: demo_acts2_def)
  with concurrent_edits_serial [OF run demo_templates_ok default demo_race_root] run demo_acts2_drafts show ?thesis by simp
qed

section \<open>Deadlock\<close>

fun next_lock :: "phase \<Rightarrow> pyval option" where
  "next_lock (Locking (x # xs) snap) = Some x"
| "next_lock (Rereading (x # xs) snap) = Some x"
| "next_lock ph = None"

definition waits_for :: "race \<Rightarrow> nat \<Rightarrow> nat \<Rightarrow> bool" where
  "waits_for st i j \<longleftrightarrow> i \<noteq> j \<and> (case next_lock (rc_phase st i) of None \<Rightarrow> False | Some x \<Rightarrow> rc_lock st x = Some j)"

text \<open>A transaction that waits is in no position to act.\<close>

lemma waiting_stuck:
  assumes "waits_for st i j"
  shows "race_act cf (Begin i) st = None" "race_act cf (Acquire i) st = None" "race_act cf (Reread i) st = None"
    "race_act cf (Write i) st = None" "race_act cf (Commit i) st = None"
  using assms by (cases "rc_phase st i" rule: next_lock.cases; simp add: waits_for_def lock_row_def)+

lemma stuck_actor: "waits_for st i j \<Longrightarrow> race_act cf a st = Some st' \<Longrightarrow> actor a \<noteq> i"
  by (cases a) (auto simp: waiting_stuck simp del: race_act.simps)

text \<open>What a transaction does leaves the phase of another and the locks another holds.\<close>

lemma race_act_others:
  assumes "race_act cf a st = Some st'" and "actor a \<noteq> i"
  shows "rc_phase st' i = rc_phase st i" and "rc_lock st x = Some i \<Longrightarrow> rc_lock st' x = Some i"
  using assms by (cases a; auto simp: to_phase_def lock_row_def finish_def split: phase.splits list.splits sum.splits if_splits)+

lemma deadlock_stays:
  "race_run cf acts st = Some st' \<Longrightarrow> waits_for st i j \<Longrightarrow> waits_for st j i \<Longrightarrow> waits_for st' i j \<and> waits_for st' j i"
proof (induction acts arbitrary: st)
  case (Cons a acts)
  then obtain st1 where act: "race_act cf a st = Some st1" and run: "race_run cf acts st1 = Some st'" by (auto split: option.splits)
  have a: "actor a \<noteq> i" "actor a \<noteq> j" using stuck_actor [OF _ act] Cons.prems by blast+
  note kept = race_act_others [OF act a(1)] race_act_others [OF act a(2)]
  have "waits_for st1 i j" "waits_for st1 j i" using Cons.prems(2,3) kept by (auto simp: waits_for_def split: option.splits)
  then show ?case by (rule Cons.IH [OF run])
qed simp

definition deadlock_acts :: "action list" where
  "deadlock_acts = [Begin 0, Begin 1, Acquire 0, Acquire 0, Reread 0, Acquire 0, Acquire 0, Write 0, Commit 0,
     Begin 2, Acquire 2, Acquire 1, Acquire 1, Reread 1]"

definition edits_deadlocked :: "race option \<Rightarrow> bool" where
  "edits_deadlocked st \<longleftrightarrow> (case st of None \<Rightarrow> False | Some st \<Rightarrow> waits_for st 1 2 \<and> waits_for st 2 1)"

lemma deadlock_reached: "edits_deadlocked (race_run demo_race deadlock_acts (race_start (pg_tables demo_templates)))"
  by code_simp

text \<open>C24: Three edits of one template can block each other for good, although each takes its locks through
  the same two reads: one edit commits a draft while a second, which read before, waits for the
  old version; a third starts with the draft's lock; the second gets the old version and then
  needs the draft, the third needs the old version. No continuation ends the wait, so the server
  has to abort one of them.\<close>

theorem three_edits_can_deadlock:
  "\<exists>acts st. race_run demo_race acts (race_start (pg_tables demo_templates)) = Some st \<and>
     (\<forall>more st'. race_run demo_race more st = Some st' \<longrightarrow> waits_for st' 1 2 \<and> waits_for st' 2 1)"
proof -
  obtain st where run: "race_run demo_race deadlock_acts (race_start (pg_tables demo_templates)) = Some st"
    and st: "waits_for st 1 2" "waits_for st 2 1"
    using deadlock_reached by (auto simp: edits_deadlocked_def split: option.splits)
  with deadlock_stays [OF _ st] show ?thesis by blast
qed

theorem three_edits_can_deadlock_witness:
  "\<exists>acts st. race_run demo_race acts (race_start (pg_tables demo_templates)) = Some st \<and> waits_for st 1 2 \<and> waits_for st 2 1"
  using three_edits_can_deadlock by (metis race_run.simps(1))

end
