(* ===== verification/Mirror_Sync.thy ===== *)
theory Mirror_Sync
  imports Pg_Store
begin

text \<open>
  The mirror of Customer Master's tenants and stores, \<open>services/mirror-sync-consumer\<close>: the read with
  its guards (\<open>pull/reader.py\<close>), the upserts (\<open>sync/tenants.py\<close>, \<open>sync/stores.py\<close>), the writer
  (\<open>sinks/postgres.py\<close>) and the run with its exit codes (\<open>pull/runner.py\<close>).

  \<^item> Customer Master is the record \<open>customer_master\<close>: the database and role the connection reached, the
    user type that took effect, the rows the two SELECTs return, and whether it cannot be reached.
  \<^item> The mirror's tables have no policy; their keys, the unique store id and the store's foreign key are
    modelled, the value checks are \<open>pg_reject\<close>. Which exceptions are SQLAlchemy's is an argument, as is
    the time of a transaction.
\<close>

section \<open>Customer Master\<close>

record cm_tenant =
  ct_tenant_id :: uuid
  ct_name :: string
  ct_display_code :: "string option"
  ct_status :: string
  ct_pc_created_at :: pydatetime
  ct_pc_updated_at :: pydatetime
  ct_pc_suspended_at :: "pydatetime option"
  ct_pc_terminated_at :: "pydatetime option"

record cm_store =
  cs_store_id :: uuid
  cs_tenant_id :: uuid
  cs_name :: string
  cs_store_code :: "string option"
  cs_status :: string
  cs_country :: string
  cs_timezone :: string
  cs_currency :: string
  cs_tax_treatment :: string
  cs_pc_created_at :: pydatetime
  cs_pc_updated_at :: pydatetime
  cs_pc_closed_at :: "pydatetime option"

text \<open>A column of a row, read by the model's type; pydantic refuses another type.\<close>

definition read_column :: "(pyval \<Rightarrow> 'a option) \<Rightarrow> payload \<Rightarrow> string \<Rightarrow> (exn, 'a) result" where
  "read_column f row c = rbind (pitem row c) (\<lambda>v. case f v of None \<Rightarrow> Inl (py_exn (PyForeign ''ValidationError'')) | Some x \<Rightarrow> Inr x)"

definition as_uuid :: "pyval \<Rightarrow> uuid option" where
  "as_uuid v = (case v of PyUuid u \<Rightarrow> Some u | _ \<Rightarrow> None)"

definition as_text :: "pyval \<Rightarrow> string option" where
  "as_text v = (case v of PyStr t \<Rightarrow> Some t | _ \<Rightarrow> None)"

definition as_time :: "pyval \<Rightarrow> pydatetime option" where
  "as_time v = (case v of PyDt d \<Rightarrow> Some d | _ \<Rightarrow> None)"

definition or_null :: "(pyval \<Rightarrow> 'a option) \<Rightarrow> pyval \<Rightarrow> 'a option option" where
  "or_null f v = (if v = PyNone then Some None else map_option Some (f v))"

definition tenant_from_row :: "payload \<Rightarrow> (exn, cm_tenant) result" where
  "tenant_from_row row =
     rbind (read_column as_uuid row ''id'') (\<lambda>i. rbind (read_column as_text row ''name'') (\<lambda>n.
     rbind (read_column (or_null as_text) row ''display_code'') (\<lambda>dc. rbind (read_column as_text row ''status'') (\<lambda>st.
     rbind (read_column as_time row ''created_at'') (\<lambda>cr. rbind (read_column as_time row ''updated_at'') (\<lambda>ud.
     rbind (read_column (or_null as_time) row ''suspended_at'') (\<lambda>su. rbind (read_column (or_null as_time) row ''terminated_at'') (\<lambda>te.
     Inr \<lparr>ct_tenant_id = i, ct_name = n, ct_display_code = dc, ct_status = st, ct_pc_created_at = cr, ct_pc_updated_at = ud,
          ct_pc_suspended_at = su, ct_pc_terminated_at = te\<rparr>))))))))"

definition store_from_row :: "payload \<Rightarrow> (exn, cm_store) result" where
  "store_from_row row =
     rbind (read_column as_uuid row ''id'') (\<lambda>i. rbind (read_column as_uuid row ''tenant_id'') (\<lambda>t.
     rbind (read_column as_text row ''name'') (\<lambda>n. rbind (read_column (or_null as_text) row ''store_code'') (\<lambda>code.
     rbind (read_column as_text row ''status'') (\<lambda>st. rbind (read_column as_text row ''country'') (\<lambda>co.
     rbind (read_column as_text row ''timezone'') (\<lambda>tz. rbind (read_column as_text row ''currency'') (\<lambda>cu.
     rbind (read_column as_text row ''tax_treatment'') (\<lambda>tt. rbind (read_column as_time row ''created_at'') (\<lambda>cr.
     rbind (read_column as_time row ''updated_at'') (\<lambda>ud. rbind (read_column (or_null as_time) row ''closed_at'') (\<lambda>cl.
     Inr \<lparr>cs_store_id = i, cs_tenant_id = t, cs_name = n, cs_store_code = code, cs_status = st, cs_country = co, cs_timezone = tz,
          cs_currency = cu, cs_tax_treatment = tt, cs_pc_created_at = cr, cs_pc_updated_at = ud, cs_pc_closed_at = cl\<rparr>))))))))))))"

record customer_master =
  cm_down :: "exn option"
  cm_database :: string
  cm_role :: string
  cm_user_type :: "string option"
  cm_tenant_rows :: "payload list"
  cm_store_rows :: "payload list"

definition DEFAULT_CM_DB_NAME :: string where "DEFAULT_CM_DB_NAME = ''ithina_platform_db''"

definition DIS_DB_NAME :: string where "DIS_DB_NAME = ''ithina_dis_db''"

definition customer_master_read_error :: "string option \<Rightarrow> string option \<Rightarrow> string option \<Rightarrow> string \<Rightarrow> exn" where
  "customer_master_read_error database role user_type trace = Exn CustomerMasterReadError
     [(''trace_id'', AStr trace), (''tenant_id'', ANone), (''database'', opt_str database), (''role'', opt_str role), (''user_type'', opt_str user_type)]"

definition assert_cm_target :: "string \<Rightarrow> string \<Rightarrow> string \<Rightarrow> string \<Rightarrow> string \<Rightarrow> (exn, unit) result" where
  "assert_cm_target database role expected_cm_db dis_db trace =
    (if database = dis_db then Inl (customer_master_read_error (Some database) (Some role) None trace)
     else if database \<noteq> expected_cm_db then Inl (customer_master_read_error (Some database) (Some role) None trace)
     else Inr ())"

definition assert_platform_context :: "string option \<Rightarrow> string \<Rightarrow> string \<Rightarrow> string \<Rightarrow> (exn, unit) result" where
  "assert_platform_context user_type database role trace = require (user_type = Some ''PLATFORM'')
     (customer_master_read_error (Some database) (Some role) user_type trace)"

definition read_customer_master :: "customer_master \<Rightarrow> string \<Rightarrow> string \<Rightarrow> (exn, cm_tenant list \<times> cm_store list) result" where
  "read_customer_master cm expected_cm_db trace = (case cm_down cm of
     Some e \<Rightarrow> Inl e
   | None \<Rightarrow>
       rbind (assert_cm_target (cm_database cm) (cm_role cm) expected_cm_db DIS_DB_NAME trace) (\<lambda>_.
       rbind (assert_platform_context (cm_user_type cm) (cm_database cm) (cm_role cm) trace) (\<lambda>_.
       rbind (map_result tenant_from_row (cm_tenant_rows cm)) (\<lambda>tenants.
       rbind (map_result store_from_row (cm_store_rows cm)) (\<lambda>stores. Inr (tenants, stores))))))"

section \<open>Upserts\<close>

abbreviation MIRROR_TENANTS :: string where "MIRROR_TENANTS \<equiv> ''identity_mirror.tenants''"

abbreviation MIRROR_STORES :: string where "MIRROR_STORES \<equiv> ''identity_mirror.stores''"

definition time_or_null :: "pydatetime option \<Rightarrow> pyval" where
  "time_or_null v = (case v of None \<Rightarrow> PyNone | Some d \<Rightarrow> PyDt d)"

definition text_or_null :: "string option \<Rightarrow> pyval" where
  "text_or_null v = (case v of None \<Rightarrow> PyNone | Some d \<Rightarrow> PyStr d)"

definition tenant_params :: "cm_tenant \<Rightarrow> payload" where
  "tenant_params t = [(''tenant_id'', PyUuid (ct_tenant_id t)), (''name'', PyStr (ct_name t)), (''display_code'', text_or_null (ct_display_code t)),
     (''status'', PyStr (ct_status t)), (''pc_created_at'', PyDt (ct_pc_created_at t)), (''pc_updated_at'', PyDt (ct_pc_updated_at t)),
     (''pc_suspended_at'', time_or_null (ct_pc_suspended_at t)), (''pc_terminated_at'', time_or_null (ct_pc_terminated_at t))]"

definition store_params :: "cm_store \<Rightarrow> payload" where
  "store_params s = [(''store_id'', PyUuid (cs_store_id s)), (''tenant_id'', PyUuid (cs_tenant_id s)), (''name'', PyStr (cs_name s)),
     (''store_code'', text_or_null (cs_store_code s)), (''status'', PyStr (cs_status s)), (''country'', PyStr (cs_country s)),
     (''timezone'', PyStr (cs_timezone s)), (''currency'', PyStr (cs_currency s)), (''tax_treatment'', PyStr (cs_tax_treatment s)),
     (''pc_created_at'', PyDt (cs_pc_created_at s)), (''pc_updated_at'', PyDt (cs_pc_updated_at s)), (''pc_closed_at'', time_or_null (cs_pc_closed_at s))]"

definition TENANT_COLUMNS :: "string list" where
  "TENANT_COLUMNS = [''name'', ''display_code'', ''status'', ''pc_created_at'', ''pc_updated_at'', ''pc_suspended_at'', ''pc_terminated_at'']"

definition STORE_COLUMNS :: "string list" where
  "STORE_COLUMNS = [''name'', ''store_code'', ''status'', ''country'', ''timezone'', ''currency'', ''tax_treatment'',
     ''pc_created_at'', ''pc_updated_at'', ''pc_closed_at'']"

text \<open>\<open>IS DISTINCT FROM\<close>; times are compared as instants.\<close>

definition is_distinct :: "pyval \<Rightarrow> pyval \<Rightarrow> bool" where
  "is_distinct v w = (case (v, w) of (PyDt a, PyDt b) \<Rightarrow> dt_instant a \<noteq> dt_instant b | _ \<Rightarrow> v \<noteq> w)"

definition row_changed :: "string list \<Rightarrow> payload \<Rightarrow> payload \<Rightarrow> bool" where
  "row_changed cols r params = list_ex (\<lambda>c. is_distinct (pget r c) (pget params c)) cols"

datatype upsert_outcome = Inserted | Updated | Unchanged

definition set_columns :: "string list \<Rightarrow> pydatetime \<Rightarrow> payload \<Rightarrow> payload" where
  "set_columns cols now params = map (\<lambda>c. (c, pget params c)) cols @ [(''mirror_synced_at'', PyDt now)]"

text \<open>The rows after \<open>INSERT ... ON CONFLICT (key) DO UPDATE ... WHERE\<close>, and what \<open>RETURNING\<close> tells.\<close>

fun upsert_rows :: "(payload \<Rightarrow> bool) \<Rightarrow> string list \<Rightarrow> pydatetime \<Rightarrow> payload \<Rightarrow> payload list \<Rightarrow> upsert_outcome \<times> payload list" where
  "upsert_rows key cols now params [] = (Inserted, [dupdate params [(''mirror_synced_at'', PyDt now)]])"
| "upsert_rows key cols now params (r # rs) =
    (if key r
     then if row_changed cols r params then (Updated, dupdate r (set_columns cols now params) # rs) else (Unchanged, r # rs)
     else case upsert_rows key cols now params rs of (out, rs') \<Rightarrow> (out, r # rs'))"

definition tenant_key :: "uuid \<Rightarrow> payload \<Rightarrow> bool" where
  "tenant_key t r \<longleftrightarrow> pget r ''tenant_id'' = PyUuid t"

definition store_key :: "uuid \<Rightarrow> uuid \<Rightarrow> payload \<Rightarrow> bool" where
  "store_key t s r \<longleftrightarrow> pget r ''tenant_id'' = PyUuid t \<and> pget r ''store_id'' = PyUuid s"

definition mirror_upsert ::
  "pgenv \<Rightarrow> gucs \<Rightarrow> string \<Rightarrow> (payload \<Rightarrow> bool) \<Rightarrow> string list \<Rightarrow> pydatetime \<Rightarrow> payload \<Rightarrow> tables \<Rightarrow> (exn, upsert_outcome \<times> tables) result" where
  "mirror_upsert env g table key cols now params tabs =
     rbind (admit env g table (dupdate params [(''mirror_synced_at'', PyDt now)])) (\<lambda>_.
     case upsert_rows key cols now params (tabs table) of (out, rows) \<Rightarrow> Inr (out, tabs(table := rows)))"

definition upsert_tenant :: "pgenv \<Rightarrow> gucs \<Rightarrow> pydatetime \<Rightarrow> cm_tenant \<Rightarrow> tables \<Rightarrow> (exn, upsert_outcome \<times> tables) result" where
  "upsert_tenant env g now t = mirror_upsert env g MIRROR_TENANTS (tenant_key (ct_tenant_id t)) TENANT_COLUMNS now (tenant_params t)"

text \<open>A new store must not carry the id of another, and its tenant must be there.\<close>

definition upsert_store :: "pgenv \<Rightarrow> gucs \<Rightarrow> pydatetime \<Rightarrow> cm_store \<Rightarrow> tables \<Rightarrow> (exn, upsert_outcome \<times> tables) result" where
  "upsert_store env g now s tabs =
     rbind (mirror_upsert env g MIRROR_STORES (store_key (cs_tenant_id s) (cs_store_id s)) STORE_COLUMNS now (store_params s) tabs) (\<lambda>(out, tabs').
     if out = Inserted \<and> list_ex (\<lambda>r. pget r ''store_id'' = PyUuid (cs_store_id s)) (tabs MIRROR_STORES)
     then Inl (Exn (PyForeign ''IntegrityError'') [(''constraint_name'', AStr ''uq_ims_store_id'')])
     else if out = Inserted \<and> \<not> list_ex (tenant_key (cs_tenant_id s)) (tabs MIRROR_TENANTS)
     then Inl (Exn (PyForeign ''IntegrityError'') [(''constraint_name'', AStr ''fk_ims_tenant'')])
     else Inr (out, tabs'))"

section \<open>The writer\<close>

record upsert_counts =
  uc_inserted :: nat
  uc_updated :: nat
  uc_unchanged :: nat

definition no_counts :: upsert_counts where
  "no_counts = \<lparr>uc_inserted = 0, uc_updated = 0, uc_unchanged = 0\<rparr>"

fun record_outcome :: "upsert_outcome \<Rightarrow> upsert_counts \<Rightarrow> upsert_counts" where
  "record_outcome Inserted c = c\<lparr>uc_inserted := Suc (uc_inserted c)\<rparr>"
| "record_outcome Updated c = c\<lparr>uc_updated := Suc (uc_updated c)\<rparr>"
| "record_outcome Unchanged c = c\<lparr>uc_unchanged := Suc (uc_unchanged c)\<rparr>"

definition counts_seen :: "upsert_counts \<Rightarrow> nat" where
  "counts_seen c = uc_inserted c + uc_updated c + uc_unchanged c"

record tenant_sync =
  tsy_tenant_id :: uuid
  tsy_tenants :: upsert_counts
  tsy_stores :: upsert_counts

record sync_result =
  sr_per_tenant :: "tenant_sync list"
  sr_skipped_stores :: nat

definition add_counts :: "upsert_counts \<Rightarrow> upsert_counts \<Rightarrow> upsert_counts" where
  "add_counts a b = \<lparr>uc_inserted = uc_inserted a + uc_inserted b, uc_updated = uc_updated a + uc_updated b, uc_unchanged = uc_unchanged a + uc_unchanged b\<rparr>"

definition sync_totals :: "sync_result \<Rightarrow> upsert_counts \<times> upsert_counts" where
  "sync_totals r = (foldl (\<lambda>a p. add_counts a (tsy_tenants p)) no_counts (sr_per_tenant r), foldl (\<lambda>a p. add_counts a (tsy_stores p)) no_counts (sr_per_tenant r))"

fun upsert_stores :: "pgenv \<Rightarrow> gucs \<Rightarrow> pydatetime \<Rightarrow> cm_store list \<Rightarrow> upsert_counts \<Rightarrow> tables \<Rightarrow> (exn, upsert_counts \<times> tables) result" where
  "upsert_stores env g now [] c tabs = Inr (c, tabs)"
| "upsert_stores env g now (s # ss) c tabs =
     rbind (upsert_store env g now s tabs) (\<lambda>(out, tabs'). upsert_stores env g now ss (record_outcome out c) tabs')"

text \<open>One tenant with its stores, in one transaction.\<close>

definition sync_tenant :: "pgenv \<Rightarrow> pydatetime \<Rightarrow> cm_store list \<Rightarrow> cm_tenant \<Rightarrow> gucs \<Rightarrow> tenant_sync txn_body" where
  "sync_tenant env now stores t g tabs =
     rbind (upsert_tenant env g now t tabs) (\<lambda>(out, tabs1).
     rbind (upsert_stores env g now (filter (\<lambda>s. cs_tenant_id s = ct_tenant_id t) stores) no_counts tabs1) (\<lambda>(c, tabs2).
     Inr (\<lparr>tsy_tenant_id = ct_tenant_id t, tsy_tenants = record_outcome out no_counts, tsy_stores = c\<rparr>, tabs2)))"

fun upsert_tenants :: "pgenv \<Rightarrow> (nat \<Rightarrow> pydatetime) \<Rightarrow> cm_store list \<Rightarrow> cm_tenant list \<Rightarrow> pgstate \<Rightarrow> (exn, tenant_sync list) result \<times> pgstate" where
  "upsert_tenants env clock stores [] s = (Inr [], s)"
| "upsert_tenants env clock stores (t # ts) s =
    (case rls_session env (ct_tenant_id t) (sync_tenant env (clock (pg_txn s)) stores t) s of
       (Inl e, s') \<Rightarrow> (Inl e, s')
     | (Inr p, s') \<Rightarrow> (case upsert_tenants env clock stores ts s' of
         (Inl e, s'') \<Rightarrow> (Inl e, s'') | (Inr ps, s'') \<Rightarrow> (Inr (p # ps), s'')))"

definition upsert_identity ::
  "pgenv \<Rightarrow> (nat \<Rightarrow> pydatetime) \<Rightarrow> cm_tenant list \<Rightarrow> cm_store list \<Rightarrow> pgstate \<Rightarrow> (exn, sync_result) result \<times> pgstate" where
  "upsert_identity env clock tenants stores s = (case upsert_tenants env clock stores tenants s of
     (Inl e, s') \<Rightarrow> (Inl e, s')
   | (Inr ps, s') \<Rightarrow> (Inr \<lparr>sr_per_tenant = ps,
       sr_skipped_stores = length (filter (\<lambda>x. cs_tenant_id x \<notin> set (map ct_tenant_id tenants)) stores)\<rparr>, s'))"

section \<open>The run\<close>

definition EXIT_OK :: nat where "EXIT_OK = 0"

definition EXIT_CM_READ :: nat where "EXIT_CM_READ = 3"

definition EXIT_CM_UNREACHABLE :: nat where "EXIT_CM_UNREACHABLE = 4"

definition EXIT_TARGET :: nat where "EXIT_TARGET = 5"

definition EXIT_WRITE :: nat where "EXIT_WRITE = 6"

text \<open>\<open>_run\<close> after the configuration was read; any other exception ends the process.\<close>

definition mirror_run ::
  "pgenv \<Rightarrow> (nat \<Rightarrow> pydatetime) \<Rightarrow> (exn \<Rightarrow> bool) \<Rightarrow> customer_master \<Rightarrow> string \<Rightarrow> string \<Rightarrow> pgstate \<Rightarrow> (exn, nat) result \<times> pgstate" where
  "mirror_run env clock sqlalchemy cm expected_cm_db trace s = (case read_customer_master cm expected_cm_db trace of
     Inl e \<Rightarrow> (if isinstance e CustomerMasterReadError then Inr EXIT_CM_READ else if sqlalchemy e then Inr EXIT_CM_UNREACHABLE else Inl e, s)
   | Inr (tenants, stores) \<Rightarrow>
       if tenants = [] then (Inr EXIT_OK, s)
       else (case upsert_identity env clock tenants stores s of
         (Inl e, s') \<Rightarrow> (if isinstance e RlsContextError then Inr EXIT_TARGET else if sqlalchemy e then Inr EXIT_WRITE else Inl e, s')
       | (Inr r, s') \<Rightarrow> (Inr EXIT_OK, s')))"

end
