(* ===== verification/Mirror_Props.thy ===== *)
theory Mirror_Props
  imports Mirror_Sync
begin

text \<open>
  What a pass of the mirror leaves: the rows of Customer Master, nothing else changed, and nothing to
  do for a second pass.
\<close>

section \<open>One upsert\<close>

lemma not_distinct_self [simp]: "\<not> is_distinct v v"
  by (simp add: is_distinct_def split: pyval.splits)

text \<open>The first row of a key holds the given values.\<close>

definition mirrored :: "string list \<Rightarrow> (payload \<Rightarrow> bool) \<Rightarrow> payload \<Rightarrow> payload list \<Rightarrow> bool" where
  "mirrored cols key params rows \<longleftrightarrow> (\<exists>r. find key rows = Some r \<and> \<not> row_changed cols r params)"

text \<open>A key reads columns that an upsert never sets.\<close>

definition key_of :: "string list \<Rightarrow> (payload \<Rightarrow> bool) \<Rightarrow> bool" where
  "key_of cols key \<longleftrightarrow> (\<forall>r sets. set (dkeys sets) \<subseteq> insert ''mirror_synced_at'' (set cols) \<longrightarrow> key (dupdate r sets) = key r)"

lemma pget_dupdate_notin: "c \<notin> set (dkeys sets) \<Longrightarrow> pget (dupdate r sets) c = pget r c"
  by (simp add: pget_def dget_dupdate_notin)

lemma key_ofI:
  assumes "\<And>r sets. \<lbrakk>\<And>c. c \<in> set ids \<Longrightarrow> pget (dupdate r sets) c = pget r c\<rbrakk> \<Longrightarrow> key (dupdate r sets) = key r"
    and "set ids \<inter> insert ''mirror_synced_at'' (set cols) = {}"
  shows "key_of cols key"
  unfolding key_of_def using assms(2) by (intro allI impI assms(1) pget_dupdate_notin) blast

lemma keys_of: "key_of TENANT_COLUMNS (tenant_key t)" "key_of STORE_COLUMNS (store_key t u)"
  by (rule key_ofI [of "[''tenant_id'']"]; simp add: tenant_key_def TENANT_COLUMNS_def)
     (rule key_ofI [of "[''tenant_id'', ''store_id'']"]; simp add: store_key_def STORE_COLUMNS_def)

lemma key_stamped: "key_of cols key \<Longrightarrow> key (dupdate r [(''mirror_synced_at'', PyDt now)]) = key r"
  unfolding key_of_def by (elim allE [where x = r] allE [where x = "[(''mirror_synced_at'', PyDt now)]"] impE) (simp_all only:, simp)

lemma set_columns_keys: "set (dkeys (set_columns cols now params)) = insert ''mirror_synced_at'' (set cols)"
  by (auto simp: set_columns_def)

lemma key_set_columns:
  assumes "key_of cols key" shows "key (dupdate r (set_columns cols now params)) = key r"
proof -
  have "set (dkeys (set_columns cols now params)) \<subseteq> insert ''mirror_synced_at'' (set cols)" by (simp only: set_columns_keys order_refl)
  then show ?thesis using assms unfolding key_of_def by blast
qed

lemma stamped_same:
  assumes "''mirror_synced_at'' \<notin> set cols" shows "\<not> row_changed cols (dupdate params [(''mirror_synced_at'', PyDt now)]) params"
proof -
  have "pget (dupdate params [(''mirror_synced_at'', PyDt now)]) c = pget params c" if "c \<in> set cols" for c
    using that assms by (intro pget_dupdate_notin) auto
  then show ?thesis by (simp only: row_changed_def list_ex_iff) simp
qed

lemma pget_set_columns:
  assumes "distinct cols" "''mirror_synced_at'' \<notin> set cols" "c \<in> set cols"
  shows "pget (dupdate r (set_columns cols now params)) c = pget params c"
proof -
  let ?sets = "set_columns cols now params"
  have "dict_ok ?sets" using assms(1,2) by (auto simp: set_columns_def dict_ok_def distinct_map inj_on_def comp_def)
  moreover have "(c, pget params c) \<in> set ?sets" using assms(3) by (simp add: set_columns_def)
  ultimately have "dget (dupdate r ?sets) c = Some (pget params c)"
    by (metis dget_dupdate_in dget_def dict_ok_def image_eqI fst_conv list.set_map map_of_is_SomeI)
  then show ?thesis by (simp add: pget_def)
qed

lemma upsert_unchanged: "mirrored cols key params rows \<Longrightarrow> upsert_rows key cols now params rows = (Unchanged, rows)"
  by (induction rows) (auto simp: mirrored_def split: if_splits)

section \<open>Statements\<close>

definition tenant_mirrored :: "cm_tenant \<Rightarrow> tables \<Rightarrow> bool" where
  "tenant_mirrored t tabs \<longleftrightarrow> mirrored TENANT_COLUMNS (tenant_key (ct_tenant_id t)) (tenant_params t) (tabs MIRROR_TENANTS)"

definition store_mirrored :: "cm_store \<Rightarrow> tables \<Rightarrow> bool" where
  "store_mirrored s tabs \<longleftrightarrow> mirrored STORE_COLUMNS (store_key (cs_tenant_id s) (cs_store_id s)) (store_params s) (tabs MIRROR_STORES)"

lemma mirror_upsert_run:
  assumes "mirror_upsert env g table key cols now params tabs = Inr (out, tabs')"
  shows "upsert_rows key cols now params (tabs table) = (out, tabs' table)" and "tabs' = tabs(table := tabs' table)"
  using assms by (auto simp: mirror_upsert_def result_simps split: prod.splits)

text \<open>An upsert on a key: the row it proposes has the key, and the columns it sets are not part of it.\<close>

locale keyed_upsert =
  fixes key :: "payload \<Rightarrow> bool" and cols :: "string list" and params :: payload
  assumes keyed: "key params" and stable: "key_of cols key" and columns: "distinct cols" and unstamped: "''mirror_synced_at'' \<notin> set cols"
begin

lemma upsert_mirrors: "mirrored cols key params (snd (upsert_rows key cols now params rows))"
proof (induction rows)
  case Nil
  have "key (dupdate params [(''mirror_synced_at'', PyDt now)])" using keyed key_stamped [OF stable] by blast
  moreover have "\<not> row_changed cols (dupdate params [(''mirror_synced_at'', PyDt now)]) params"
    using unstamped by (rule stamped_same)
  ultimately show ?case by (simp only: upsert_rows.simps snd_conv mirrored_def find.simps if_True option.inject ex_simps simp_thms)
next
  case (Cons r rs)
  show ?case
  proof (cases "key r")
    case True
    have "key (dupdate r (set_columns cols now params))" using key_set_columns [OF stable] True by simp
    moreover have "\<not> row_changed cols (dupdate r (set_columns cols now params)) params"
      using pget_set_columns [OF columns unstamped] by (auto simp: row_changed_def list_ex_iff)
    ultimately show ?thesis using True by (auto simp: mirrored_def)
  next
    case False
    with Cons show ?thesis by (auto simp: mirrored_def split: prod.splits)
  qed
qed

lemma upsert_frame:
  assumes "\<And>r. P r \<Longrightarrow> \<not> key r"
  shows "filter P (snd (upsert_rows key cols now params rows)) = filter P rows"
proof (induction rows)
  case Nil
  have "key (dupdate params [(''mirror_synced_at'', PyDt now)])" using keyed key_stamped [OF stable] by blast
  with assms show ?case by (auto simp only: upsert_rows.simps snd_conv filter.simps split: if_splits)
next
  case (Cons r rs)
  have "key (dupdate r (set_columns cols now params))" if "key r" using key_set_columns [OF stable] that by simp
  with Cons assms show ?case by (auto split: prod.splits)
qed

lemma mirror_upsert_step:
  assumes run: "mirror_upsert env g table key cols now params tabs = Inr (out, tabs')"
  shows "mirrored cols key params (tabs' table)"
    and "(\<And>r. P r \<Longrightarrow> \<not> key r) \<Longrightarrow> filter P (tabs' table) = filter P (tabs table)"
    and "mirrored cols key params (tabs table) \<Longrightarrow> out = Unchanged \<and> tabs' = tabs"
proof -
  note u = mirror_upsert_run [OF run]
  show "mirrored cols key params (tabs' table)" using upsert_mirrors [of now "tabs table"] by (simp add: u(1))
  show "filter P (tabs' table) = filter P (tabs table)" if "\<And>r. P r \<Longrightarrow> \<not> key r"
    using upsert_frame [of P now "tabs table", OF that] by (simp add: u(1))
  show "out = Unchanged \<and> tabs' = tabs" if "mirrored cols key params (tabs table)"
    using upsert_unchanged [OF that, of now] u by auto
qed

end

lemma columns_ok: "distinct TENANT_COLUMNS" "''mirror_synced_at'' \<notin> set TENANT_COLUMNS" "distinct STORE_COLUMNS" "''mirror_synced_at'' \<notin> set STORE_COLUMNS"
  by (simp_all add: TENANT_COLUMNS_def STORE_COLUMNS_def)

lemma params_keyed: "tenant_key (ct_tenant_id t) (tenant_params t)" "store_key (cs_tenant_id s) (cs_store_id s) (store_params s)"
  by (simp_all add: tenant_key_def tenant_params_def store_key_def store_params_def pget_def dget_def)

interpretation tenant_upsert: keyed_upsert "tenant_key (ct_tenant_id t)" TENANT_COLUMNS "tenant_params t" for t
  by unfold_locales (rule params_keyed keys_of columns_ok)+

interpretation store_upsert: keyed_upsert "store_key (cs_tenant_id s) (cs_store_id s)" STORE_COLUMNS "store_params s" for s
  by unfold_locales (rule params_keyed keys_of columns_ok)+

lemma keys_apart: "t \<noteq> t2 \<Longrightarrow> \<not> (tenant_key t r \<and> tenant_key t2 r)" "(t, u) \<noteq> (t2, u2) \<Longrightarrow> \<not> (store_key t u r \<and> store_key t2 u2 r)"
  by (auto simp: tenant_key_def store_key_def)

lemma upsert_tenant_step:
  assumes "upsert_tenant env g now t tabs = Inr (out, tabs')"
  shows "tenant_mirrored t tabs'" and "T \<noteq> MIRROR_TENANTS \<Longrightarrow> tabs' T = tabs T"
    and "(\<And>r. P r \<Longrightarrow> \<not> tenant_key (ct_tenant_id t) r) \<Longrightarrow> filter P (tabs' MIRROR_TENANTS) = filter P (tabs MIRROR_TENANTS)"
    and "tenant_mirrored t tabs \<Longrightarrow> out = Unchanged \<and> tabs' = tabs"
proof -
  note run = assms [unfolded upsert_tenant_def]
  note step = tenant_upsert.mirror_upsert_step [OF run]
  show "tenant_mirrored t tabs'" unfolding tenant_mirrored_def by (rule step(1))
  show "tabs' T = tabs T" if "T \<noteq> MIRROR_TENANTS" using that by (subst mirror_upsert_run(2) [OF run]) simp
  show "filter P (tabs' MIRROR_TENANTS) = filter P (tabs MIRROR_TENANTS)" if "\<And>r. P r \<Longrightarrow> \<not> tenant_key (ct_tenant_id t) r"
    using that by (rule step(2))
  show "out = Unchanged \<and> tabs' = tabs" if "tenant_mirrored t tabs" using that unfolding tenant_mirrored_def by (rule step(3))
qed

lemma upsert_store_run:
  "upsert_store env g now s tabs = Inr (out, tabs') \<Longrightarrow>
   mirror_upsert env g MIRROR_STORES (store_key (cs_tenant_id s) (cs_store_id s)) STORE_COLUMNS now (store_params s) tabs = Inr (out, tabs')"
  by (auto simp: upsert_store_def result_simps split: if_splits)

lemma upsert_store_step:
  assumes "upsert_store env g now s tabs = Inr (out, tabs')"
  shows "store_mirrored s tabs'" and "T \<noteq> MIRROR_STORES \<Longrightarrow> tabs' T = tabs T"
    and "(\<And>r. P r \<Longrightarrow> \<not> store_key (cs_tenant_id s) (cs_store_id s) r) \<Longrightarrow> filter P (tabs' MIRROR_STORES) = filter P (tabs MIRROR_STORES)"
    and "store_mirrored s tabs \<Longrightarrow> out = Unchanged \<and> tabs' = tabs"
proof -
  note run = upsert_store_run [OF assms]
  note step = store_upsert.mirror_upsert_step [OF run]
  show "store_mirrored s tabs'" unfolding store_mirrored_def by (rule step(1))
  show "tabs' T = tabs T" if "T \<noteq> MIRROR_STORES" using that by (subst mirror_upsert_run(2) [OF run]) simp
  show "filter P (tabs' MIRROR_STORES) = filter P (tabs MIRROR_STORES)" if "\<And>r. P r \<Longrightarrow> \<not> store_key (cs_tenant_id s) (cs_store_id s) r"
    using that by (rule step(2))
  show "out = Unchanged \<and> tabs' = tabs" if "store_mirrored s tabs" using that unfolding store_mirrored_def by (rule step(3))
qed

abbreviation skey :: "cm_store \<Rightarrow> uuid \<times> uuid" where "skey s \<equiv> (cs_tenant_id s, cs_store_id s)"

text \<open>Rows that two tables agree on fix what is found, and what is mirrored, among them.\<close>

lemma filter_coarser:
  assumes "filter P xs = filter P ys" and "\<And>r. Q r \<Longrightarrow> P r"
  shows "filter Q xs = filter Q ys"
proof -
  have "filter Q zs = filter Q (filter P zs)" for zs using assms(2) by (auto intro: filter_cong)
  then show ?thesis using assms(1) by metis
qed

lemma find_filter: "find key xs = (case filter key xs of [] \<Rightarrow> None | r # rs \<Rightarrow> Some r)"
  by (induction xs) auto

lemma mirrored_cong: "filter key rows = filter key rows' \<Longrightarrow> mirrored cols key params rows = mirrored cols key params rows'"
  by (simp add: mirrored_def find_filter)

lemma upsert_stores_step:
  assumes "upsert_stores env g now ss c tabs = Inr (c', tabs')" and "distinct (map skey ss)"
  shows "(\<forall>s\<in>set ss. store_mirrored s tabs') \<and> (\<forall>T. T \<noteq> MIRROR_STORES \<longrightarrow> tabs' T = tabs T) \<and>
    (\<forall>P. (\<forall>s\<in>set ss. \<forall>r. P r \<longrightarrow> \<not> store_key (cs_tenant_id s) (cs_store_id s) r) \<longrightarrow> filter P (tabs' MIRROR_STORES) = filter P (tabs MIRROR_STORES))"
  using assms
proof (induction ss arbitrary: c tabs)
  case Nil
  then show ?case by simp
next
  case (Cons s ss)
  from Cons.prems(1) obtain out tabs1 where one: "upsert_store env g now s tabs = Inr (out, tabs1)"
    and rest: "upsert_stores env g now ss (record_outcome out c) tabs1 = Inr (c', tabs')" by (auto simp: result_simps)
  note step = upsert_store_step [OF one]
  have ih: "\<forall>x\<in>set ss. store_mirrored x tabs'" "\<And>T. T \<noteq> MIRROR_STORES \<Longrightarrow> tabs' T = tabs1 T"
    "\<And>P. (\<forall>s\<in>set ss. \<forall>r. P r \<longrightarrow> \<not> store_key (cs_tenant_id s) (cs_store_id s) r) \<Longrightarrow> filter P (tabs' MIRROR_STORES) = filter P (tabs1 MIRROR_STORES)"
    using Cons.IH [OF rest] Cons.prems(2) by auto
  have "skey s \<noteq> skey x" if "x \<in> set ss" for x
  proof
    assume "skey s = skey x"
    then have "skey s \<in> skey ` set ss" using that by (rule image_eqI)
    then show False using Cons.prems(2) by simp
  qed
  then have "filter (store_key (cs_tenant_id s) (cs_store_id s)) (tabs' MIRROR_STORES) = filter (store_key (cs_tenant_id s) (cs_store_id s)) (tabs1 MIRROR_STORES)"
    using keys_apart(2) by (intro ih(3)) blast
  then have "store_mirrored s tabs'" using step(1) mirrored_cong unfolding store_mirrored_def by blast
  then show ?case using ih step(2,3) by auto
qed

lemma upsert_stores_unchanged:
  "upsert_stores env g now ss c tabs = Inr (c', tabs') \<Longrightarrow> \<forall>s\<in>set ss. store_mirrored s tabs \<Longrightarrow>
   tabs' = tabs \<and> uc_inserted c' = uc_inserted c \<and> uc_updated c' = uc_updated c"
proof (induction ss arbitrary: c)
  case (Cons s ss)
  from Cons.prems(1) obtain out tabs1 where one: "upsert_store env g now s tabs = Inr (out, tabs1)"
    and rest: "upsert_stores env g now ss (record_outcome out c) tabs1 = Inr (c', tabs')" by (auto simp: result_simps)
  have "out = Unchanged" "tabs1 = tabs" using upsert_store_step(4) [OF one] Cons.prems(2) by auto
  then show ?case using Cons.IH [OF rest [unfolded \<open>tabs1 = tabs\<close>]] Cons.prems(2) by simp
qed simp

section \<open>A pass\<close>

text \<open>The rows a pass over the tenants \<open>ts\<close> may write: theirs, and those of the stores the source returned for them.\<close>

definition tenant_row_of :: "cm_tenant list \<Rightarrow> payload \<Rightarrow> bool" where
  "tenant_row_of ts r \<longleftrightarrow> list_ex (\<lambda>t. tenant_key (ct_tenant_id t) r) ts"

definition store_row_of :: "cm_tenant list \<Rightarrow> cm_store list \<Rightarrow> payload \<Rightarrow> bool" where
  "store_row_of ts ss r \<longleftrightarrow> list_ex (\<lambda>s. cs_tenant_id s \<in> set (map ct_tenant_id ts) \<and> store_key (cs_tenant_id s) (cs_store_id s) r) ss"

text \<open>
  \<open>mirrored_from ts ss tabs tabs'\<close>: the tenants \<open>ts\<close> and their stores among \<open>ss\<close> are mirrored in \<open>tabs'\<close>;
  every other row of the two mirror tables, the stores of these tenants that the source did not
  return included, is there as it was and in the order it was; and so is every other table.
\<close>

definition mirrored_from :: "cm_tenant list \<Rightarrow> cm_store list \<Rightarrow> tables \<Rightarrow> tables \<Rightarrow> bool" where
  "mirrored_from ts ss tabs tabs' \<longleftrightarrow>
     (\<forall>t\<in>set ts. tenant_mirrored t tabs' \<and> (\<forall>s\<in>set ss. cs_tenant_id s = ct_tenant_id t \<longrightarrow> store_mirrored s tabs')) \<and>
     filter (\<lambda>r. \<not> tenant_row_of ts r) (tabs' MIRROR_TENANTS) = filter (\<lambda>r. \<not> tenant_row_of ts r) (tabs MIRROR_TENANTS) \<and>
     filter (\<lambda>r. \<not> store_row_of ts ss r) (tabs' MIRROR_STORES) = filter (\<lambda>r. \<not> store_row_of ts ss r) (tabs MIRROR_STORES) \<and>
     (\<forall>T. T \<noteq> MIRROR_TENANTS \<longrightarrow> T \<noteq> MIRROR_STORES \<longrightarrow> tabs' T = tabs T)"

lemma mirrored_from_Nil [simp]: "mirrored_from [] ss tabs tabs"
  by (simp add: mirrored_from_def)

lemma mirrored_from_Cons:
  assumes one: "mirrored_from [t] ss tabs tabs1" and rest: "mirrored_from ts ss tabs1 tabs2" and new: "ct_tenant_id t \<notin> ct_tenant_id ` set ts"
  shows "mirrored_from (t # ts) ss tabs tabs2"
proof -
  note kept = rest [unfolded mirrored_from_def, THEN conjunct2] and kept1 = one [unfolded mirrored_from_def, THEN conjunct2]
  have tenants: "filter P (tabs2 MIRROR_TENANTS) = filter P (tabs1 MIRROR_TENANTS)" if "\<And>r. P r \<Longrightarrow> \<not> tenant_row_of ts r" for P
    by (rule filter_coarser [OF conjunct1 [OF kept]]) (rule that)
  have stores: "filter P (tabs2 MIRROR_STORES) = filter P (tabs1 MIRROR_STORES)" if "\<And>r. P r \<Longrightarrow> \<not> store_row_of ts ss r" for P
    by (rule filter_coarser [OF conjunct1 [OF conjunct2 [OF kept]]]) (rule that)
  have "\<not> tenant_row_of ts r" if "tenant_key (ct_tenant_id t) r" for r
    using that new by (auto simp: tenant_row_of_def list_ex_iff tenant_key_def)
  then have mine: "tenant_mirrored t tabs2"
    using one mirrored_cong [OF tenants] unfolding mirrored_from_def tenant_mirrored_def by (metis list.set_intros(1))
  have "\<not> store_row_of ts ss r" if "store_key (ct_tenant_id t) u r" for u r
    using that new by (auto simp: store_row_of_def list_ex_iff store_key_def)
  then have own: "store_mirrored s tabs2" if "s \<in> set ss" "cs_tenant_id s = ct_tenant_id t" for s
    using one that mirrored_cong [OF stores, of "store_key (cs_tenant_id s) (cs_store_id s)"] unfolding mirrored_from_def store_mirrored_def
    by (metis list.set_intros(1))
  have "filter (\<lambda>r. \<not> tenant_row_of (t # ts) r) (tabs1 MIRROR_TENANTS) = filter (\<lambda>r. \<not> tenant_row_of (t # ts) r) (tabs MIRROR_TENANTS)"
    by (rule filter_coarser [OF conjunct1 [OF kept1]]) (simp add: tenant_row_of_def)
  moreover have "filter (\<lambda>r. \<not> store_row_of (t # ts) ss r) (tabs1 MIRROR_STORES) = filter (\<lambda>r. \<not> store_row_of (t # ts) ss r) (tabs MIRROR_STORES)"
    by (rule filter_coarser [OF conjunct1 [OF conjunct2 [OF kept1]]]) (auto simp: store_row_of_def list_ex_iff)
  moreover have "filter (\<lambda>r. \<not> tenant_row_of (t # ts) r) (tabs2 MIRROR_TENANTS) = filter (\<lambda>r. \<not> tenant_row_of (t # ts) r) (tabs1 MIRROR_TENANTS)"
    by (rule tenants) (simp add: tenant_row_of_def)
  moreover have "filter (\<lambda>r. \<not> store_row_of (t # ts) ss r) (tabs2 MIRROR_STORES) = filter (\<lambda>r. \<not> store_row_of (t # ts) ss r) (tabs1 MIRROR_STORES)"
    by (rule stores) (auto simp: store_row_of_def list_ex_iff)
  ultimately show ?thesis using one rest mine own by (simp add: mirrored_from_def)
qed

lemma sync_tenant_step:
  assumes run: "sync_tenant env now ss t g tabs = Inr (p, tabs')" and keys: "distinct (map skey ss)"
  shows "mirrored_from [t] ss tabs tabs'"
proof -
  let ?own = "filter (\<lambda>s. cs_tenant_id s = ct_tenant_id t) ss"
  from run obtain out tabs1 c where one: "upsert_tenant env g now t tabs = Inr (out, tabs1)"
    and rest: "upsert_stores env g now ?own no_counts tabs1 = Inr (c, tabs')" by (auto simp: sync_tenant_def result_simps)
  have "distinct (map skey ?own)" using keys by (rule distinct_map_filter)
  note step = upsert_stores_step [OF rest this]
  have "tenant_mirrored t tabs'" using upsert_tenant_step(1) [OF one] step by (simp add: tenant_mirrored_def)
  moreover have "filter (\<lambda>r. \<not> tenant_row_of [t] r) (tabs1 MIRROR_TENANTS) = filter (\<lambda>r. \<not> tenant_row_of [t] r) (tabs MIRROR_TENANTS)"
    by (rule upsert_tenant_step(3) [OF one]) (simp add: tenant_row_of_def)
  moreover have "filter (\<lambda>r. \<not> store_row_of [t] ss r) (tabs' MIRROR_STORES) = filter (\<lambda>r. \<not> store_row_of [t] ss r) (tabs1 MIRROR_STORES)"
    using step by (auto simp: store_row_of_def list_ex_iff)
  ultimately show ?thesis using step upsert_tenant_step(2) [OF one] by (simp add: mirrored_from_def)
qed

lemma sync_tenant_unchanged:
  assumes run: "sync_tenant env now ss t g tabs = Inr (p, tabs')"
    and done_before: "tenant_mirrored t tabs" "\<forall>s\<in>set ss. cs_tenant_id s = ct_tenant_id t \<longrightarrow> store_mirrored s tabs"
  shows "tabs' = tabs \<and> tsy_tenants p = \<lparr>uc_inserted = 0, uc_updated = 0, uc_unchanged = 1\<rparr> \<and> uc_inserted (tsy_stores p) = 0 \<and> uc_updated (tsy_stores p) = 0"
proof -
  let ?own = "filter (\<lambda>s. cs_tenant_id s = ct_tenant_id t) ss"
  from run obtain out tabs1 c where one: "upsert_tenant env g now t tabs = Inr (out, tabs1)"
    and rest: "upsert_stores env g now ?own no_counts tabs1 = Inr (c, tabs')"
    and p: "p = \<lparr>tsy_tenant_id = ct_tenant_id t, tsy_tenants = record_outcome out no_counts, tsy_stores = c\<rparr>"
    by (auto simp: sync_tenant_def result_simps)
  have "out = Unchanged" "tabs1 = tabs" using upsert_tenant_step(4) [OF one done_before(1)] by auto
  with upsert_stores_unchanged [OF rest] done_before(2) p show ?thesis by (simp add: no_counts_def)
qed

lemma upsert_tenants_step:
  assumes "upsert_tenants env clock ss ts s = (r, s')" and "distinct (map ct_tenant_id ts)" and keys: "distinct (map skey ss)"
  shows "\<exists>k \<le> length ts. mirrored_from (take k ts) ss (pg_tables s) (pg_tables s') \<and> (is_ok r \<longrightarrow> k = length ts)"
  using assms(1,2)
proof (induction ts arbitrary: s r s')
  case Nil
  then show ?case by auto
next
  case (Cons t ts)
  obtain q s1 where one: "rls_session env (ct_tenant_id t) (sync_tenant env (clock (pg_txn s)) ss t) s = (q, s1)" by fastforce
  show ?case
  proof (cases q)
    case (Inl e)
    have "pg_tables s1 = pg_tables s" using one Inl by (simp add: rls_session_def verified_transaction_Inl)
    with Cons.prems(1) one Inl show ?thesis by (intro exI [of _ 0]) auto
  next
    case (Inr p)
    obtain q2 s2 where rest: "upsert_tenants env clock ss ts s1 = (q2, s2)" by fastforce
    have s': "s' = s2" "is_ok r = is_ok q2" using Cons.prems(1) one Inr rest by (auto split: sum.splits)
    have "sync_tenant env (clock (pg_txn s)) ss t (tenant_scope (ct_tenant_id t)) (pg_tables s) = Inr (p, pg_tables s1)"
      using one Inr verified_transaction_Inr unfolding rls_session_def by fastforce
    then have first: "mirrored_from [t] ss (pg_tables s) (pg_tables s1)" using keys by (rule sync_tenant_step)
    obtain k where k: "k \<le> length ts" "mirrored_from (take k ts) ss (pg_tables s1) (pg_tables s2)" "is_ok q2 \<longrightarrow> k = length ts"
      using Cons.IH [OF rest] Cons.prems(2) by auto
    have "ct_tenant_id t \<notin> ct_tenant_id ` set (take k ts)" using Cons.prems(2) by (auto dest!: in_set_takeD)
    with first k(2) have "mirrored_from (take (Suc k) (t # ts)) ss (pg_tables s) (pg_tables s2)" by (simp add: mirrored_from_Cons)
    with k s' show ?thesis by (intro exI [of _ "Suc k"]) auto
  qed
qed

lemma upsert_tenants_unchanged:
  assumes "upsert_tenants env clock ss ts s = (r, s')"
    and "\<forall>t\<in>set ts. tenant_mirrored t (pg_tables s) \<and> (\<forall>x\<in>set ss. cs_tenant_id x = ct_tenant_id t \<longrightarrow> store_mirrored x (pg_tables s))"
  shows "pg_tables s' = pg_tables s \<and> (\<forall>ps. r = Inr ps \<longrightarrow> (\<forall>p\<in>set ps. uc_inserted (tsy_tenants p) = 0 \<and> uc_updated (tsy_tenants p) = 0 \<and>
    uc_inserted (tsy_stores p) = 0 \<and> uc_updated (tsy_stores p) = 0))"
  using assms
proof (induction ts arbitrary: s r s')
  case Nil
  then show ?case by auto
next
  case (Cons t ts)
  obtain q s1 where one: "rls_session env (ct_tenant_id t) (sync_tenant env (clock (pg_txn s)) ss t) s = (q, s1)" by fastforce
  show ?case
  proof (cases q)
    case (Inl e)
    have "pg_tables s1 = pg_tables s" using one Inl by (simp add: rls_session_def verified_transaction_Inl)
    with Cons.prems(1) one Inl show ?thesis by auto
  next
    case (Inr p)
    obtain q2 s2 where rest: "upsert_tenants env clock ss ts s1 = (q2, s2)" by fastforce
    have "sync_tenant env (clock (pg_txn s)) ss t (tenant_scope (ct_tenant_id t)) (pg_tables s) = Inr (p, pg_tables s1)"
      using one Inr verified_transaction_Inr unfolding rls_session_def by fastforce
    from sync_tenant_unchanged [OF this] Cons.prems(2) have now: "pg_tables s1 = pg_tables s" and
      p: "uc_inserted (tsy_tenants p) = 0 \<and> uc_updated (tsy_tenants p) = 0 \<and> uc_inserted (tsy_stores p) = 0 \<and> uc_updated (tsy_stores p) = 0" by auto
    have "s' = s2" "\<And>ps. r = Inr ps \<Longrightarrow> \<exists>qs. ps = p # qs \<and> q2 = Inr qs" using Cons.prems(1) one Inr rest by (auto split: sum.splits)
    with Cons.IH [OF rest] Cons.prems(2) now p show ?thesis by fastforce
  qed
qed

lemma store_keys_distinct: "distinct (map cs_store_id ss) \<Longrightarrow> distinct (map skey ss)"
  by (auto simp: distinct_map inj_on_def)

lemma mirror_run_write:
  assumes "mirror_run env clock sqlalchemy cm db trace s = (r, s')" "read_customer_master cm db trace = Inr (ts, ss)"
  shows "\<exists>q. upsert_tenants env clock ss ts s = (q, s') \<and> (r = Inr EXIT_OK \<longrightarrow> is_ok q)"
  using assms by (cases "ts = []"; cases "upsert_tenants env clock ss ts s"; cases "fst (upsert_tenants env clock ss ts s)")
    (auto simp: mirror_run_def upsert_identity_def EXIT_OK_def EXIT_TARGET_def EXIT_WRITE_def split: if_splits)

text \<open>C30: A run of the mirror that could not read Customer Master (a wrong database, no PLATFORM
  context, unreachable, a row of another shape) writes nothing. Otherwise, however it ends, there is a prefix of Customer Master's
  tenants that is mirrored in every business column with all its stores, and every other row of the two
  mirror tables (a store Customer Master no longer returns too) and every other table stay as they
  were; a run that exits with 0 mirrored all of them. (Customer Master's ids are unique.)\<close>

theorem mirror_run_reflects:
  assumes "mirror_run env clock sqlalchemy cm db trace s = (r, s')"
  shows "case read_customer_master cm db trace of
      Inl e \<Rightarrow> s' = s \<and> r \<noteq> Inr EXIT_OK
    | Inr (tenants, stores) \<Rightarrow> distinct (map ct_tenant_id tenants) \<longrightarrow> distinct (map cs_store_id stores) \<longrightarrow>
        (\<exists>k \<le> length tenants. mirrored_from (take k tenants) stores (pg_tables s) (pg_tables s') \<and> (r = Inr EXIT_OK \<longrightarrow> k = length tenants))"
proof (cases "read_customer_master cm db trace")
  case (Inl e)
  with assms show ?thesis by (auto simp: mirror_run_def EXIT_OK_def EXIT_CM_READ_def EXIT_CM_UNREACHABLE_def split: if_splits)
next
  case (Inr rows)
  then obtain ts ss where rows: "read_customer_master cm db trace = Inr (ts, ss)" by (cases rows) simp
  from mirror_run_write [OF assms rows] obtain q where "upsert_tenants env clock ss ts s = (q, s')" "r = Inr EXIT_OK \<longrightarrow> is_ok q" by blast
  then show ?thesis using upsert_tenants_step store_keys_distinct rows by fastforce
qed

text \<open>C31: After a run that exited with 0, another run that reads the same rows leaves every table as it is,
  whether it succeeds or fails, and the upserts it counts are all unchanged: no row is inserted or updated again.\<close>

theorem mirror_run_idempotent:
  assumes first: "mirror_run env clock sqlalchemy cm db trace s = (Inr EXIT_OK, s1)"
    and rows: "read_customer_master cm db trace = Inr (tenants, stores)" "read_customer_master cm2 db2 trace2 = Inr (tenants, stores)"
    and ids: "distinct (map ct_tenant_id tenants)" "distinct (map cs_store_id stores)"
    and second: "mirror_run env2 clock2 sqlalchemy2 cm2 db2 trace2 s1 = (r, s2)"
  shows "pg_tables s2 = pg_tables s1 \<and> (\<forall>result. fst (upsert_identity env2 clock2 tenants stores s1) = Inr result \<longrightarrow>
    (\<forall>p\<in>set (sr_per_tenant result). uc_inserted (tsy_tenants p) = 0 \<and> uc_updated (tsy_tenants p) = 0 \<and>
       uc_inserted (tsy_stores p) = 0 \<and> uc_updated (tsy_stores p) = 0))"
proof -
  have mirrored: "\<forall>t\<in>set tenants. tenant_mirrored t (pg_tables s1) \<and> (\<forall>x\<in>set stores. cs_tenant_id x = ct_tenant_id t \<longrightarrow> store_mirrored x (pg_tables s1))"
    using mirror_run_write [OF first rows(1)] upsert_tenants_step [OF _ ids(1) store_keys_distinct [OF ids(2)]] by (fastforce simp: mirrored_from_def)
  obtain q s3 where run: "upsert_tenants env2 clock2 stores tenants s1 = (q, s3)" by fastforce
  note same = upsert_tenants_unchanged [OF run mirrored]
  have "s3 = s2" using mirror_run_write [OF second rows(2)] run by auto
  with same run show ?thesis by (auto simp: upsert_identity_def split: sum.splits)
qed

end
