(* ===== verification/Mirror_Examples.thy ===== *)
theory Mirror_Examples
  imports Mirror_Props
begin

text \<open>A Customer Master with a tenant and its store, at which the laws of the mirror are applied.\<close>

definition mirror_time :: pydatetime where
  "mirror_time = PyDatetime (738000 * us_per_day) (Some 0)"

definition demo_cm :: "string \<Rightarrow> customer_master" where
  "demo_cm user_type = \<lparr>cm_down = None, cm_database = DEFAULT_CM_DB_NAME, cm_role = ''cm_reader'', cm_user_type = Some user_type,
     cm_tenant_rows = [[(''id'', PyUuid 5), (''name'', PyStr ''acme''), (''display_code'', PyNone), (''status'', PyStr ''ACTIVE''),
       (''created_at'', PyDt mirror_time), (''updated_at'', PyDt mirror_time), (''suspended_at'', PyNone), (''terminated_at'', PyNone)]],
     cm_store_rows = [[(''id'', PyUuid 6), (''tenant_id'', PyUuid 5), (''name'', PyStr ''shop''), (''store_code'', PyStr ''s1''), (''status'', PyStr ''ACTIVE''),
       (''country'', PyStr ''SE''), (''timezone'', PyStr ''CET''), (''currency'', PyStr ''SEK''), (''tax_treatment'', PyStr ''INCL''),
       (''created_at'', PyDt mirror_time), (''updated_at'', PyDt mirror_time), (''closed_at'', PyNone)]]\<rparr>"

definition demo_tenant_row :: cm_tenant where
  "demo_tenant_row = \<lparr>ct_tenant_id = 5, ct_name = ''acme'', ct_display_code = None, ct_status = ''ACTIVE'', ct_pc_created_at = mirror_time,
     ct_pc_updated_at = mirror_time, ct_pc_suspended_at = None, ct_pc_terminated_at = None\<rparr>"

definition demo_store_row :: cm_store where
  "demo_store_row = \<lparr>cs_store_id = 6, cs_tenant_id = 5, cs_name = ''shop'', cs_store_code = Some ''s1'', cs_status = ''ACTIVE'', cs_country = ''SE'',
     cs_timezone = ''CET'', cs_currency = ''SEK'', cs_tax_treatment = ''INCL'', cs_pc_created_at = mirror_time, cs_pc_updated_at = mirror_time, cs_pc_closed_at = None\<rparr>"

lemma mirror_rows: "read_customer_master (demo_cm ''PLATFORM'') DEFAULT_CM_DB_NAME trace = Inr ([demo_tenant_row], [demo_store_row])"
  by (simp add: read_customer_master_def demo_cm_def assert_cm_target_def assert_platform_context_def DEFAULT_CM_DB_NAME_def DIS_DB_NAME_def
      tenant_from_row_def store_from_row_def read_column_def pitem_def dget_def as_uuid_def as_text_def as_time_def or_null_def
      demo_tenant_row_def demo_store_row_def require_def)

lemma demo_admits: "admit demo_env g MIRROR_TENANTS r = Inr r" "admit demo_env g MIRROR_STORES r = Inr r"
  by (simp_all add: admit_def rls_with_check_def demo_env_def policed_def TENANT_ISOLATION_TABLES_def)

lemma demo_sync: "is_ok (sync_tenant demo_env mirror_time [demo_store_row] demo_tenant_row g (\<lambda>table. []))"
  by (simp add: sync_tenant_def upsert_tenant_def upsert_store_def mirror_upsert_def demo_admits demo_tenant_row_def demo_store_row_def
      tenant_key_def tenant_params_def pget_def dget_def)

definition mirror_once :: "string \<Rightarrow> (exn, nat) result \<times> pgstate" where
  "mirror_once user_type = mirror_run demo_env (\<lambda>n. mirror_time) (\<lambda>e. False) (demo_cm user_type) DEFAULT_CM_DB_NAME [] demo_state"

lemma mirror_once_ok: "fst (mirror_once ''PLATFORM'') = Inr EXIT_OK"
  using demo_sync [of "tenant_scope 5"] by (auto simp: mirror_once_def mirror_run_def mirror_rows upsert_identity_def rls_session_def verified_transaction_def
      demo_state_def is_ok_iff demo_tenant_row_def demo_env_def check_posture_def EXPECTED_DATABASE_def Let_def)

theorem mirror_run_reflects_witness:
  "mirrored_from [demo_tenant_row] [demo_store_row] (\<lambda>table. []) (pg_tables (snd (mirror_once ''PLATFORM''))) \<and>
   snd (mirror_once ''TENANT'') = demo_state"
proof
  have "mirror_once ''PLATFORM'' = (Inr EXIT_OK, snd (mirror_once ''PLATFORM''))" using mirror_once_ok by (metis prod.collapse)
  from mirror_run_reflects [OF this [unfolded mirror_once_def]]
  show "mirrored_from [demo_tenant_row] [demo_store_row] (\<lambda>table. []) (pg_tables (snd (mirror_once ''PLATFORM'')))"
    by (simp add: mirror_rows mirror_once_def demo_state_def)
  have "\<not> is_ok (read_customer_master (demo_cm ''TENANT'') DEFAULT_CM_DB_NAME [])"
    by (simp add: read_customer_master_def demo_cm_def assert_cm_target_def assert_platform_context_def DEFAULT_CM_DB_NAME_def DIS_DB_NAME_def require_def)
  then show "snd (mirror_once ''TENANT'') = demo_state"
    using mirror_run_reflects [of demo_env "\<lambda>n. mirror_time" "\<lambda>e. False" "demo_cm ''TENANT''" DEFAULT_CM_DB_NAME "[]" demo_state
      "fst (mirror_once ''TENANT'')" "snd (mirror_once ''TENANT'')"] by (auto simp: mirror_once_def split: sum.splits)
qed

theorem mirror_run_idempotent_witness:
  "pg_tables (snd (mirror_run demo_env (\<lambda>n. mirror_time) (\<lambda>e. True) (demo_cm ''PLATFORM'') DEFAULT_CM_DB_NAME ''again'' (snd (mirror_once ''PLATFORM'')))) =
   pg_tables (snd (mirror_once ''PLATFORM''))"
proof -
  have "mirror_once ''PLATFORM'' = (Inr EXIT_OK, snd (mirror_once ''PLATFORM''))" using mirror_once_ok by (metis prod.collapse)
  from mirror_run_idempotent [OF this [unfolded mirror_once_def] mirror_rows mirror_rows _ _ prod.collapse [symmetric]]
  show ?thesis by (simp add: mirror_once_def)
qed

end
