(* ===== verification/Spec2Isabelle.thy ===== *)
theory Spec2Isabelle
  imports Sink_Examples Upload_Examples Template_Race Mirror_Examples
begin

text \<open>
  \<^bold>\<open>Verification of cortex-dis, the data-ingestion system of a retail platform.\<close>

  \<^bold>\<open>The program.\<close> Retailers upload CSV files; the system lands them in a bronze bucket, maps them to
  canonical models and writes histories and current positions to PostgreSQL, tenant by tenant. Its
  processes talk through Pub/Sub topics, a bucket and one database:
  \<^item> \<open>services/dis-ui-server\<close> takes uploads and mapping templates over HTTP. An upload is gated, written
    to the bucket and announced on \<open>csv.received\<close>; a template becomes a row of \<open>config.source_mappings\<close>.
  \<^item> \<open>services/csv-ingest-worker\<close> takes \<open>csv.received\<close>: path check, duplicate lookup, preflight,
    personal-data gate, bronze row, announcement on \<open>ingress.ready\<close>.
  \<^item> \<open>services/streaming-consumer\<close> takes \<open>ingress.ready\<close>: it fetches the object, loads the live mapping,
    runs the source-shape gate, the mapping engine, the canonical-shape gate and the enrichment, writes
    event rows and hot positions in batches, and audits or quarantines on every path.
  \<^item> \<open>services/mirror-sync-consumer\<close> copies tenants and stores from Customer Master into
    \<open>identity_mirror\<close>, which the other services read.
  \<^item> The libraries under \<open>libs/\<close> (\<open>dis-core\<close>, \<open>dis-storage\<close>, \<open>dis-mapping\<close>, \<open>dis-validation\<close>, \<open>dis-canonical\<close>,
    \<open>dis-enrichment\<close>, \<open>dis-rls\<close>, \<open>dis-audit\<close>, \<open>dis-quarantine\<close>, \<open>dis-pii\<close>) are shared by them.

  \<^bold>\<open>Foundations.\<close>
  \<^item> \<open>Dis_Prelude\<close>: results \<open>(error, value) result\<close>, Python dictionaries as association lists in insertion
    order, string operations, the collections of facts, and the locale \<open>codec\<close>.
  \<^item> \<open>Dis_Core\<close>, \<open>Py_Values\<close>: the exception classes of \<open>dis_core/errors.py\<close> with their bases and attributes,
    UUIDs as 128-bit words with their text form (an interpretation of \<open>codec\<close>), datetimes as
    microseconds with an optional offset, calendar arithmetic, Python values.
  \<^item> \<open>Pg_Store\<close>: tables as lists of rows under row-level security, sessions and verified transactions of
    \<open>dis_rls/session.py\<close> and the policies of migration 0011. A transaction may be lost for an outside
    reason (\<open>pg_fault\<close>) and a row may be refused by a check of its table (\<open>pg_reject\<close>): both are arguments,
    so the theorems hold for every pattern of failures.
  \<^item> \<open>Effects\<close>, \<open>Pull_Loop\<close>: state and exceptions of a process, and the pull loop that the worker and the
    consumer share; the locales \<open>step_relation\<close> and \<open>handler_relation\<close> carry a relation on states through
    the combinators and through any number of passes.

  \<^bold>\<open>Paths and mappings.\<close>
  \<^item> \<open>Object_Paths\<close> (\<open>dis_storage/paths.py\<close>): building, parsing and splitting of object addresses, with the
    round trip.
  \<^item> \<open>Mapping_Model\<close>, \<open>Mapping_Engine\<close> (\<open>dis_mapping\<close>): rules with their validation, and normalize, cast,
    derive, rename and apply on columns; \<open>Mapping_Cells\<close>, \<open>Mapping_Props\<close>: the engine refines a
    cell-by-cell reference (locale \<open>cellwise_ops\<close>), is total on valid rules whose date formats and
    zones polars knows, and drops exactly the rows with a failed cell.
  \<^item> \<open>Canonical_Model\<close>, \<open>Validation\<close>, \<open>Enrichment\<close> (\<open>dis_canonical\<close>, \<open>dis_validation\<close>, \<open>dis_enrichment\<close>): the
    models' fields, column origins, suites and gates, facts added to a contribution.

  \<^bold>\<open>The consumer.\<close>
  \<^item> \<open>Ingress_Event\<close> (\<open>envelope.py\<close>, \<open>pipeline/fetch.py\<close>), \<open>Hot_Mapping\<close> (\<open>pipeline/mapping.py\<close>), \<open>Event_Rows\<close>
    (\<open>pipeline/normalize.py\<close>): parsing and checking an event, loading its mapping, building rows.
  \<^item> \<open>Canonical_Sink\<close> (\<open>sinks/canonical.py\<close>): the batched dual write. \<open>Sink_Props\<close>, \<open>Sink_History\<close>,
    \<open>Sink_Merge\<close>, \<open>Sink_Redelivery\<close>: the history after a chunk, event-time order of merges, one row per key,
    idempotence, arrival order; the locales \<open>table_relation\<close>, \<open>sink_relation\<close> and
    \<open>catalogue_relation\<close> state what each statement must keep for the writers to keep it. \<open>Sink_Locks\<close>:
    concurrent writers as interleaved steps that take one lock per merged key, in the order the code
    sorts the groups of a batch; they can always all finish.
  \<^item> \<open>Audit_Log\<close>, \<open>Quarantine\<close> (\<open>dis_audit\<close>, \<open>dis_quarantine\<close>): the two sinks with their vocabularies.
  \<^item> \<open>Orchestrate\<close> (\<open>orchestrate.py\<close> and its sinks) is the whole flow of one event; \<open>Orchestrate_Props\<close>,
    \<open>Pipeline_Props\<close>, \<open>Write_Failures\<close>: isolation of tenants, append-only histories, what a failure leaves
    (locales \<open>sinks_relation\<close>, \<open>pipeline_relation\<close>). \<open>Subscriber\<close> (\<open>clients/pubsub.py\<close>): which messages are
    acknowledged, and passes over any input.

  \<^bold>\<open>The worker.\<close>
  \<^item> \<open>Csv_Envelope\<close>, \<open>Pii_Gate\<close>, \<open>Ingest_Worker\<close>: the envelope, the detector and gate of \<open>dis_pii\<close>, and
    the pipeline with bronze rows, duplicates, preflight, publisher and message decision.
  \<^item> \<open>Ingest_Ledger\<close>, \<open>Ingest_Refines\<close>: an abstract ledger (land a row, announce it, stamp it) and the
    refinement of the worker to it, wherever it stops; \<open>Ingest_Props\<close>, \<open>Ingest_Progress\<close>, \<open>Handoff\<close>: one row
    per upload and window, backed announcements, personal data never lands, a healthy delivery
    settles, and what the worker announces is what the consumer can fetch.

  \<^bold>\<open>The UI server.\<close>
  \<^item> \<open>Ui_Scope\<close> (\<open>auth/\<close>, \<open>db.py\<close>): claims of a token, read and write scopes, the tenant a write acts for.
  \<^item> \<open>Template_Gate\<close> (\<open>mapping_translation.py\<close>, \<open>mapping_validation.py\<close>, \<open>catalog/field_catalog.py\<close>,
    \<open>errors_http.py\<close>): request to rules, the gate, and its agreement with the consumer's own checks.
  \<^item> \<open>Template_Repo\<close> (\<open>repos/mapping_templates.py\<close>, migration 0005), \<open>Template_Props\<close>, \<open>Template_Handlers\<close>
    (\<open>handlers/mapping_templates.py\<close>), \<open>Template_Laws\<close>, \<open>Template_Service\<close>: the table with its trigger and
    constraints, the requests as a step relation, and the laws of any sequence of them. \<open>Template_Race\<close>:
    concurrent edits as interleaved row locks; the table is what the committed edits leave one after the
    other in commit order, and three of them can deadlock.
  \<^item> \<open>Upload_Stream\<close> (\<open>upload_stream.py\<close>, \<open>tier0.py\<close>), \<open>Csv_Upload\<close> (\<open>handlers/csv_uploads.py\<close>, \<open>repos/stores.py\<close>,
    \<open>repos/tenants.py\<close>, \<open>publisher.py\<close>, \<open>audit.py\<close>), \<open>Upload_Props\<close>: the upload from the first chunk to the
    announcement; what it accepts the worker takes and the consumer can map.

  \<^bold>\<open>The mirror.\<close> \<open>Mirror_Sync\<close> (\<open>services/mirror-sync-consumer\<close>) and \<open>Mirror_Props\<close>: the guarded read, the two
  upserts (locale \<open>keyed_upsert\<close>), per-tenant transactions and exit codes; a run mirrors a prefix of
  Customer Master's tenants, all of them when it exits with 0, leaves every other row, and a second run changes nothing.

  The theories \<open>Consumer_Examples\<close>, \<open>Sink_Examples\<close>, \<open>Ingest_Examples\<close>, \<open>Template_Examples\<close>,
  \<open>Upload_Examples\<close> and \<open>Mirror_Examples\<close> hold concrete inputs at which the laws apply.

  \<^bold>\<open>Parameters and hypotheses.\<close> Code that is not in the repository is an argument: polars' casts and
  parsers, pandera's findings, pydantic's conversions, JSON, SHA-256, DuckDB, PyJWT, the push parser of
  python_multipart, clocks and minted ids, the bucket, the broker. Where a theorem relies on one of
  them, the hypothesis is in its statement (what pydantic prints it reads back; the bucket returns
  what was last written; the parser calls back in its documented order).

  \<^bold>\<open>Bounds and fuel.\<close> Loops over data are structural recursions. The pull loop of a process never ends,
  so it is a number of passes and its theorems hold for every number. \<open>status_walk\<close> walks at most four
  base classes, which reaches the top of every chain of \<open>exc_base\<close>. UUIDs are 128-bit words, version
  numbers are checked against SMALLINT, upload sizes against the limits of \<open>config.py\<close>.

  \<^bold>\<open>Not modelled.\<close> Reading the environment, process entry points, health servers, logging and metrics
  (input and output only); the DDL of the migrations except the policies, trigger and constraints
  named above; the atlas, the suggestions, the dashboards and the read-only listings of the UI server
  (wiring over SQLAlchemy and outside services); the tokenizer, key vault and BigQuery writer, which raise by
  design; test fixtures, code generation and scripts. SQL is modelled statement by statement, without
  query planning; concurrency is modelled where the code locks rows (\<open>Template_Race\<close>,
  \<open>Sink_Locks\<close>), and elsewhere statements of one transaction run alone. A transaction whose connection is lost
  keeps nothing (\<open>verified_transaction\<close>) and a publish that raises delivered nothing (\<open>wpublish\<close>, \<open>upublish\<close>): a
  commit or a publish that took effect although its answer was lost is not modelled. A JSONB document
  is stored as it was sent; that PostgreSQL reorders its keys is left to the reader of the document, a
  parameter. Texts are Latin-1, where the digit class of a regular expression is 0 to 9.
\<close>

end
